(* ===== verification/Py_Prelude.thy ===== *)
theory Py_Prelude
  imports Complex_Main "HOL-Library.AList"
begin

section \<open>Python values, dictionaries, errors and effects\<close>

text \<open>
  The vocabulary every component shares. JSON-shaped Python values are \<open>pyval\<close>; a dictionary
  is an association list in insertion order, as CPython keeps it; an exception is a value of
  \<open>exc\<close>; a fallible pure function returns \<open>exc + 'a\<close>; a function with effects is a
  state-and-exception computation \<open>io\<close>, in which the state survives an exception, as it does
  in the source. A float carries the text Python prints for it, since the shortest-digits printer
  is not modelled. Characters are the 256 values of HOL's char type.
\<close>

named_theorems io_simps "unfolding of the effect combinators"

named_theorems io_keeps "how the effect combinators keep a state predicate"

datatype pyval =
    PNone
  | PBool bool
  | PInt int
  | PFloat rat string
  | PStr string
  | PList "pyval list"
  | PDict "(string \<times> pyval) list"

type_synonym pydict = "(string \<times> pyval) list"

datatype exc =
    ValueError string
  | TypeError string
  | AttributeError string
  | KeyError string
  | LookupError string
  | OverflowError string
  | PhoneCallError string
  | HTTPError int string
  | OtherError string

fun exc_str :: "exc \<Rightarrow> string" where
  "exc_str (ValueError m) = m"
| "exc_str (TypeError m) = m"
| "exc_str (AttributeError m) = m"
| "exc_str (KeyError m) = m"
| "exc_str (LookupError m) = m"
| "exc_str (OverflowError m) = m"
| "exc_str (PhoneCallError m) = m"
| "exc_str (HTTPError n m) = m"
| "exc_str (OtherError m) = m"

subsection \<open>Truthiness and dictionaries\<close>

fun truthy :: "pyval \<Rightarrow> bool" where
  "truthy PNone = False"
| "truthy (PBool b) = b"
| "truthy (PInt i) = (i \<noteq> 0)"
| "truthy (PFloat r _) = (r \<noteq> 0)"
| "truthy (PStr s) = (s \<noteq> [])"
| "truthy (PList xs) = (xs \<noteq> [])"
| "truthy (PDict d) = (d \<noteq> [])"

definition por :: "pyval \<Rightarrow> pyval \<Rightarrow> pyval" where
  "por a b = (if truthy a then a else b)"

definition dhas :: "pydict \<Rightarrow> string \<Rightarrow> bool" where
  "dhas d k \<longleftrightarrow> map_of d k \<noteq> None"

definition dget_or :: "pydict \<Rightarrow> string \<Rightarrow> pyval \<Rightarrow> pyval" where
  "dget_or d k v = (case map_of d k of None \<Rightarrow> v | Some x \<Rightarrow> x)"

definition dget :: "pydict \<Rightarrow> string \<Rightarrow> pyval" where
  "dget d k = dget_or d k PNone"

definition dset :: "pydict \<Rightarrow> string \<Rightarrow> pyval \<Rightarrow> pydict" where
  "dset d k v = AList.update k v d"

definition dsetdefault :: "pydict \<Rightarrow> string \<Rightarrow> pyval \<Rightarrow> pydict" where
  "dsetdefault d k v = (if dhas d k then d else dset d k v)"

lemma dget_or_dset [simp]:
  "dget_or (dset d k v) k' u = (if k = k' then v else dget_or d k' u)"
  by (simp add: dget_or_def dset_def update_conv)

lemma dget_dset [simp]: "dget (dset d k v) k' = (if k = k' then v else dget d k')"
  by (simp add: dget_def)

lemma dhas_dset [simp]: "dhas (dset d k v) k' \<longleftrightarrow> k = k' \<or> dhas d k'"
  by (simp add: dhas_def dset_def update_conv)

lemma dget_Nil [simp]: "dget [] k = PNone"
  by (simp add: dget_def dget_or_def)

lemma dget_Cons [simp]: "dget ((k, v) # d) k' = (if k = k' then v else dget d k')"
  by (simp add: dget_def dget_or_def)

lemma dhas_Nil [simp]: "\<not> dhas [] k"
  by (simp add: dhas_def)

lemma dhas_Cons [simp]: "dhas ((k, v) # d) k' \<longleftrightarrow> k = k' \<or> dhas d k'"
  by (simp add: dhas_def)

lemma dget_absent: "\<not> dhas d k \<Longrightarrow> dget d k = PNone"
  by (simp add: dhas_def dget_def dget_or_def)

lemma dget_dsetdefault:
  "dget (dsetdefault d k v) k' = (if k = k' \<and> \<not> dhas d k then v else dget d k')"
  by (simp add: dsetdefault_def)

lemma truthy_por [simp]: "truthy (por a b) \<longleftrightarrow> truthy a \<or> truthy b"
  by (simp add: por_def)

subsection \<open>Dynamic typing: operations that raise on the wrong type\<close>

fun as_dict :: "pyval \<Rightarrow> exc + pydict" where
  "as_dict (PDict d) = Inr d"
| "as_dict _ = Inl (AttributeError ''get'')"

fun as_str :: "pyval \<Rightarrow> exc + string" where
  "as_str (PStr s) = Inr s"
| "as_str _ = Inl (AttributeError ''strip'')"

text \<open>Iterating a dynamic value.\<close>

fun as_iter :: "pyval \<Rightarrow> exc + pyval list" where
  "as_iter (PList xs) = Inr xs"
| "as_iter (PStr s) = Inr (map (\<lambda>c. PStr [c]) s)"
| "as_iter (PDict d) = Inr (map (\<lambda>(k, v). PStr k) d)"
| "as_iter _ = Inl (TypeError ''not iterable'')"

fun is_dict :: "pyval \<Rightarrow> bool" where
  "is_dict (PDict _) = True"
| "is_dict _ = False"

fun is_str :: "pyval \<Rightarrow> bool" where
  "is_str (PStr _) = True"
| "is_str _ = False"

fun is_list :: "pyval \<Rightarrow> bool" where
  "is_list (PList _) = True"
| "is_list _ = False"

text \<open>\<open>opt_str\<close> and \<open>str_opt\<close> move between a nullable text column and a value.\<close>

fun opt_str :: "string option \<Rightarrow> pyval" where
  "opt_str None = PNone"
| "opt_str (Some s) = PStr s"

fun oor :: "string option \<Rightarrow> string \<Rightarrow> string" where
  "oor None d = d"
| "oor (Some s) d = (if s = [] then d else s)"

definition otruthy :: "string option \<Rightarrow> bool" where
  "otruthy o' \<longleftrightarrow> o' \<noteq> None \<and> o' \<noteq> Some []"

subsection \<open>Results and effects\<close>

definition rbind :: "(exc + 'a) \<Rightarrow> ('a \<Rightarrow> exc + 'b) \<Rightarrow> exc + 'b" where
  "rbind r f = (case r of Inl e \<Rightarrow> Inl e | Inr x \<Rightarrow> f x)"

lemma rbind_simps [simp]: "rbind (Inl e) f = Inl e" "rbind (Inr x) f = f x"
  by (simp_all add: rbind_def)

lemma rbind_Inr_iff: "rbind r f = Inr y \<longleftrightarrow> (\<exists>x. r = Inr x \<and> f x = Inr y)"
  by (cases r) simp_all

fun rmap :: "('a \<Rightarrow> exc + 'b) \<Rightarrow> 'a list \<Rightarrow> exc + 'b list" where
  "rmap f [] = Inr []"
| "rmap f (x # xs) = rbind (f x) (\<lambda>y. rbind (rmap f xs) (\<lambda>ys. Inr (y # ys)))"

type_synonym ('w, 'a) io = "'w \<Rightarrow> 'w \<times> (exc + 'a)"

definition ret :: "'a \<Rightarrow> ('w, 'a) io" where
  "ret x = (\<lambda>w. (w, Inr x))"

definition throw :: "exc \<Rightarrow> ('w, 'a) io" where
  "throw e = (\<lambda>w. (w, Inl e))"

definition bind :: "('w, 'a) io \<Rightarrow> ('a \<Rightarrow> ('w, 'b) io) \<Rightarrow> ('w, 'b) io" where
  "bind m f = (\<lambda>w. case m w of (w', r) \<Rightarrow> (case r of Inl e \<Rightarrow> (w', Inl e) | Inr x \<Rightarrow> f x w'))"

definition catch :: "('w, 'a) io \<Rightarrow> (exc \<Rightarrow> ('w, 'a) io) \<Rightarrow> ('w, 'a) io" where
  "catch m h = (\<lambda>w. case m w of (w', r) \<Rightarrow> (case r of Inl e \<Rightarrow> h e w' | Inr x \<Rightarrow> (w', Inr x)))"

definition lift :: "(exc + 'a) \<Rightarrow> ('w, 'a) io" where
  "lift r = (\<lambda>w. (w, r))"

definition gets :: "('w \<Rightarrow> 'a) \<Rightarrow> ('w, 'a) io" where
  "gets f = (\<lambda>w. (w, Inr (f w)))"

definition modify :: "('w \<Rightarrow> 'w) \<Rightarrow> ('w, unit) io" where
  "modify f = (\<lambda>w. (f w, Inr ()))"

definition seq :: "('w, 'a) io \<Rightarrow> ('w, 'b) io \<Rightarrow> ('w, 'b) io" where
  "seq m n = bind m (\<lambda>_. n)"

lemma run_ret [io_simps]: "ret x w = (w, Inr x)"
  by (simp add: ret_def)

lemma run_throw [io_simps]: "throw e w = (w, Inl e)"
  by (simp add: throw_def)

lemma run_lift [io_simps]: "lift r w = (w, r)"
  by (simp add: lift_def)

lemma run_gets [io_simps]: "gets f w = (w, Inr (f w))"
  by (simp add: gets_def)

lemma run_modify [io_simps]: "modify f w = (f w, Inr ())"
  by (simp add: modify_def)

lemma run_bind [io_simps]:
  "bind m f w = (case m w of (w', r) \<Rightarrow> (case r of Inl e \<Rightarrow> (w', Inl e) | Inr x \<Rightarrow> f x w'))"
  by (simp add: bind_def)

lemma run_catch [io_simps]:
  "catch m h w = (case m w of (w', r) \<Rightarrow> (case r of Inl e \<Rightarrow> h e w' | Inr x \<Rightarrow> (w', Inr x)))"
  by (simp add: catch_def)

lemma run_seq [io_simps]: "seq m n w = bind m (\<lambda>_. n) w"
  by (simp add: seq_def)

text \<open>The three monad laws, which let a computation be regrouped.\<close>

lemma bind_ret_left: "bind (ret x) f = f x"
  by (rule ext) (simp add: io_simps)

lemma bind_ret_right: "bind m ret = m"
  by (rule ext) (simp add: io_simps split: prod.splits sum.splits)

lemma bind_assoc: "bind (bind m f) g = bind m (\<lambda>x. bind (f x) g)"
  by (rule ext) (simp add: io_simps split: prod.splits sum.splits)

subsection \<open>Keeping a state predicate; not raising\<close>

text \<open>
  \<open>keeps P m\<close>: running \<open>m\<close> from a state with \<open>P\<close> ends in a state with \<open>P\<close>, whether it returns
  or raises. \<open>noraise m\<close>: no exception leaves \<open>m\<close>.
\<close>

definition keeps :: "('w \<Rightarrow> bool) \<Rightarrow> ('w, 'a) io \<Rightarrow> bool" where
  "keeps P m \<longleftrightarrow> (\<forall>w. P w \<longrightarrow> P (fst (m w)))"

definition noraise :: "('w, 'a) io \<Rightarrow> bool" where
  "noraise m \<longleftrightarrow> (\<forall>w. \<exists>x. snd (m w) = Inr x)"

lemma keepsI: "(\<And>w. P w \<Longrightarrow> P (fst (m w))) \<Longrightarrow> keeps P m"
  by (simp add: keeps_def)

lemma keepsD: "keeps P m \<Longrightarrow> P w \<Longrightarrow> P (fst (m w))"
  by (simp add: keeps_def)

lemma keepsD': "keeps P m \<Longrightarrow> P w \<Longrightarrow> m w = (w', r) \<Longrightarrow> P w'"
  using keepsD by fastforce

lemma keeps_ret [io_keeps, intro, simp]: "keeps P (ret x)"
  by (simp add: keeps_def io_simps)

lemma keeps_throw [io_keeps, intro, simp]: "keeps P (throw e)"
  by (simp add: keeps_def io_simps)

lemma keeps_lift [io_keeps, intro, simp]: "keeps P (lift r)"
  by (simp add: keeps_def io_simps)

lemma keeps_gets [io_keeps, intro, simp]: "keeps P (gets f)"
  by (simp add: keeps_def io_simps)

lemma keeps_modify [io_keeps]: "(\<And>w. P w \<Longrightarrow> P (f w)) \<Longrightarrow> keeps P (modify f)"
  by (simp add: keeps_def io_simps)

lemma keeps_bind [io_keeps]: "keeps P m \<Longrightarrow> (\<And>x. keeps P (f x)) \<Longrightarrow> keeps P (bind m f)"
  by (fastforce simp: keeps_def io_simps split: prod.splits sum.splits)

lemma keeps_seq [io_keeps]: "keeps P m \<Longrightarrow> keeps P n \<Longrightarrow> keeps P (seq m n)"
  by (simp add: seq_def keeps_bind)

lemma keeps_catch [io_keeps]: "keeps P m \<Longrightarrow> (\<And>e. keeps P (h e)) \<Longrightarrow> keeps P (catch m h)"
  by (fastforce simp: keeps_def io_simps split: prod.splits sum.splits)

lemma keeps_if [io_keeps]: "(b \<Longrightarrow> keeps P m) \<Longrightarrow> (\<not> b \<Longrightarrow> keeps P n) \<Longrightarrow> keeps P (if b then m else n)"
  by simp

lemma keeps_option [io_keeps]:
  "(x = None \<Longrightarrow> keeps P m) \<Longrightarrow> (\<And>y. x = Some y \<Longrightarrow> keeps P (f y)) \<Longrightarrow>
   keeps P (case x of None \<Rightarrow> m | Some y \<Rightarrow> f y)"
  by (cases x) simp_all

lemma keeps_sum [io_keeps]:
  "(\<And>a. x = Inl a \<Longrightarrow> keeps P (f a)) \<Longrightarrow> (\<And>b. x = Inr b \<Longrightarrow> keeps P (g b)) \<Longrightarrow>
   keeps P (case x of Inl a \<Rightarrow> f a | Inr b \<Rightarrow> g b)"
  by (cases x) simp_all

lemma noraiseE: "noraise m \<Longrightarrow> (\<And>w' x. m w = (w', Inr x) \<Longrightarrow> R) \<Longrightarrow> R"
  unfolding noraise_def by (metis prod.collapse)

lemma noraise_bind: "noraise m \<Longrightarrow> (\<And>x. noraise (f x)) \<Longrightarrow> noraise (bind m f)"
  by (auto simp: noraise_def io_simps split: prod.splits sum.splits) (metis Inl_Inr_False snd_conv)+

lemma noraise_catch: "(\<And>e. noraise (h e)) \<Longrightarrow> noraise (catch m h)"
  by (auto simp: noraise_def io_simps split: prod.splits sum.splits)

lemma noraise_ret [intro, simp]: "noraise (ret x)"
  by (simp add: noraise_def io_simps)

lemma noraise_gets [intro, simp]: "noraise (gets f)"
  by (simp add: noraise_def io_simps)

lemma noraise_modify [intro, simp]: "noraise (modify f)"
  by (simp add: noraise_def io_simps)

end
