(* ===== verification/Py_Text.thy ===== *)
theory Py_Text
  imports Py_Prelude "HOL-Library.Char_ord" "HOL-Library.Sublist"
begin

section \<open>Python text: the string operations the source uses\<close>

text \<open>
  \<open>str.strip\<close>, \<open>lower\<close>, \<open>startswith\<close>, \<open>split\<close>, \<open>join\<close>, \<open>find\<close>, \<open>rfind\<close>, \<open>rsplit\<close>, the
  conversions \<open>str(x)\<close> and \<open>int(x)\<close> and \<open>json.dumps\<close>, over strings whose characters are the
  code points 0 to 255.
\<close>

named_theorems py_text "facts about the Python string operations"

subsection \<open>Characters\<close>

abbreviation code :: "char \<Rightarrow> nat" where
  "code c \<equiv> of_char c"

definition is_space :: "char \<Rightarrow> bool" where
  "is_space c \<longleftrightarrow> code c \<in> {9, 10, 11, 12, 13, 28, 29, 30, 31, 32, 133, 160}"

definition is_digit :: "char \<Rightarrow> bool" where
  "is_digit c \<longleftrightarrow> 48 \<le> code c \<and> code c \<le> 57"

definition lower_char :: "char \<Rightarrow> char" where
  "lower_char c = (if (65 \<le> code c \<and> code c \<le> 90) \<or> (192 \<le> code c \<and> code c \<le> 222 \<and> code c \<noteq> 215)
                   then char_of (code c + 32) else c)"

subsection \<open>Strip, lower, search\<close>

definition lstrip :: "string \<Rightarrow> string" where
  "lstrip s = dropWhile is_space s"

definition rstrip :: "string \<Rightarrow> string" where
  "rstrip s = rev (dropWhile is_space (rev s))"

definition strip :: "string \<Rightarrow> string" where
  "strip s = rstrip (lstrip s)"

definition lower :: "string \<Rightarrow> string" where
  "lower s = map lower_char s"

definition starts_with :: "string \<Rightarrow> string \<Rightarrow> bool" where
  "starts_with s p \<longleftrightarrow> take (length p) s = p"

text \<open>\<open>str.find\<close>: the first position at which \<open>p\<close> occurs, if there is one.\<close>

fun find_at :: "nat \<Rightarrow> string \<Rightarrow> string \<Rightarrow> nat option" where
  "find_at i p [] = (if p = [] then Some i else None)"
| "find_at i p (c # cs) = (if starts_with (c # cs) p then Some i else find_at (Suc i) p cs)"

definition find_sub :: "string \<Rightarrow> string \<Rightarrow> nat option" where
  "find_sub s p = find_at 0 p s"

definition has_sub :: "string \<Rightarrow> string \<Rightarrow> bool" where
  "has_sub s p \<longleftrightarrow> find_sub s p \<noteq> None"

fun last_at :: "nat \<Rightarrow> string \<Rightarrow> string \<Rightarrow> nat option" where
  "last_at i p [] = (if p = [] then Some i else None)"
| "last_at i p (c # cs) =
     (case last_at (Suc i) p cs of Some j \<Rightarrow> Some j
      | None \<Rightarrow> if starts_with (c # cs) p then Some i else None)"

definition rfind_sub :: "string \<Rightarrow> string \<Rightarrow> nat option" where
  "rfind_sub s p = last_at 0 p s"

text \<open>Split on one character, and join.\<close>

fun split_char :: "char \<Rightarrow> string \<Rightarrow> string list" where
  "split_char c [] = [[]]"
| "split_char c (x # xs) =
     (if x = c then [] # split_char c xs
      else (case split_char c xs of [] \<Rightarrow> [[x]] | y # ys \<Rightarrow> (x # y) # ys))"

fun join :: "string \<Rightarrow> string list \<Rightarrow> string" where
  "join sep [] = []"
| "join sep [x] = x"
| "join sep (x # y # zs) = x @ sep @ join sep (y # zs)"

abbreviation newline :: string where
  "newline \<equiv> [CHR 0x0A]"

lemma split_char_not_Nil [simp]: "split_char c s \<noteq> []"
  by (cases s) (auto split: list.splits)

lemma join_split_char: "join [c] (split_char c s) = s"
proof (induction s)
  case (Cons x xs)
  then show ?case by (cases "split_char c xs"; cases "tl (split_char c xs)") auto
qed simp

lemma split_char_pieces: "p \<in> set (split_char c s) \<Longrightarrow> c \<notin> set p"
  by (induction s arbitrary: p) (fastforce split: if_splits list.splits)+

lemma starts_with_iff [py_text]: "starts_with s p \<longleftrightarrow> (\<exists>t. s = p @ t)"
  by (auto simp: starts_with_def) (metis append_take_drop_id)

lemma find_at_None: "find_at i p s = None \<longleftrightarrow> \<not> sublist p s"
  by (induction s arbitrary: i)
    (auto simp: sublist_Cons_right starts_with_iff prefix_def split: if_splits)

lemma has_sub_iff [py_text]: "has_sub s p \<longleftrightarrow> sublist p s"
  by (simp add: has_sub_def find_sub_def find_at_None)

lemma last_at_None: "last_at i p s = None \<longleftrightarrow> \<not> sublist p s"
proof (induction s arbitrary: i)
  case (Cons c cs)
  have "sublist p (c # cs) \<longleftrightarrow> starts_with (c # cs) p \<or> sublist p cs"
    by (auto simp: sublist_Cons_right starts_with_iff prefix_def)
  with Cons [of "Suc i"] show ?case by (cases "last_at (Suc i) p cs") auto
qed auto

lemma last_at_split:
  "last_at i p s = Some j \<Longrightarrow> i \<le> j \<and> (\<exists>t. s = take (j - i) s @ p @ t)"
proof (induction s arbitrary: i)
  case (Cons c cs)
  show ?case
  proof (cases "last_at (Suc i) p cs")
    case None
    with Cons.prems show ?thesis by (auto simp: starts_with_iff split: if_splits)
  next
    case (Some j')
    with Cons.prems have j: "j' = j" by simp
    from Cons.IH [OF Some [unfolded j]] obtain t where "Suc i \<le> j" "cs = take (j - Suc i) cs @ p @ t" by auto
    moreover from this have "take (j - i) (c # cs) = c # take (j - Suc i) cs"
      by (metis Suc_diff_Suc Suc_le_lessD take_Suc_Cons)
    ultimately show ?thesis by (metis Suc_leD append_Cons)
  qed
qed (auto split: if_splits)

lemma last_at_max:
  "last_at i p s = Some j \<Longrightarrow> p \<noteq> [] \<Longrightarrow> \<not> sublist p (drop (Suc (j - i)) s)"
proof (induction s arbitrary: i)
  case (Cons c cs)
  show ?case
  proof (cases "last_at (Suc i) p cs")
    case None
    with Cons.prems have "j = i" by (simp split: if_splits)
    with None show ?thesis by (simp add: last_at_None)
  next
    case (Some j')
    with Cons.prems have j: "j' = j" by simp
    with Some have "Suc i \<le> j" using last_at_split by blast
    then have "drop (Suc (j - i)) (c # cs) = drop (Suc (j - Suc i)) cs"
      by (simp add: Suc_diff_Suc)
    with Cons.IH [OF Some [unfolded j] Cons.prems(2)] show ?thesis by simp
  qed
qed simp

text \<open>Stripping: the result neither starts nor ends with white space.\<close>

lemma lstrip_hd: "lstrip s = c # cs \<Longrightarrow> \<not> is_space c"
  by (metis dropWhile_eq_Cons_conv lstrip_def)

lemma strip_last: "strip s \<noteq> [] \<Longrightarrow> \<not> is_space (last (strip s))"
proof -
  assume "strip s \<noteq> []"
  then obtain c cs where "dropWhile is_space (rev (lstrip s)) = c # cs"
    unfolding strip_def rstrip_def by (metis list.exhaust rev.simps(1))
  moreover from this have "\<not> is_space c" by (metis dropWhile_eq_Cons_conv)
  ultimately show ?thesis by (simp add: strip_def rstrip_def)
qed

lemma rstrip_prefix: "\<exists>t. s = rstrip s @ t"
proof -
  have "rev s = takeWhile is_space (rev s) @ dropWhile is_space (rev s)" by simp
  then have "s = rev (dropWhile is_space (rev s)) @ rev (takeWhile is_space (rev s))"
    by (metis rev_append rev_rev_ident)
  then show ?thesis unfolding rstrip_def by blast
qed

lemma set_strip: "set (strip s) \<subseteq> set s"
  unfolding strip_def rstrip_def lstrip_def by (auto dest!: set_dropWhileD)

lemma length_strip: "length (strip s) \<le> length s"
  unfolding strip_def rstrip_def lstrip_def
  by (metis length_dropWhile_le length_rev order_trans)

lemma strip_Nil [simp]: "strip [] = []"
  by (simp add: strip_def rstrip_def lstrip_def)

subsection \<open>Numbers to text and back\<close>

definition digit_char :: "nat \<Rightarrow> char" where
  "digit_char d = char_of (48 + d)"

fun nat_str :: "nat \<Rightarrow> string" where
  "nat_str n = (if n < 10 then [digit_char n] else nat_str (n div 10) @ [digit_char (n mod 10)])"

declare nat_str.simps [simp del]

definition int_str :: "int \<Rightarrow> string" where
  "int_str i = (if i < 0 then CHR ''-'' # nat_str (nat (- i)) else nat_str (nat i))"

fun digits_val :: "nat \<Rightarrow> string \<Rightarrow> nat" where
  "digits_val a [] = a"
| "digits_val a (c # cs) = digits_val (10 * a + (code c - 48)) cs"

text \<open>\<open>int(text)\<close>: digits, with single underscores between them, after an optional sign.\<close>

fun int_digits :: "string \<Rightarrow> string option" where
  "int_digits [] = None"
| "int_digits [c] = (if is_digit c then Some [c] else None)"
| "int_digits (c # d # cs) =
     (if \<not> is_digit c then None
      else if d = CHR ''_'' then map_option (Cons c) (int_digits cs)
      else map_option (Cons c) (int_digits (d # cs)))"

definition int_of_str :: "string \<Rightarrow> int option" where
  "int_of_str s = (case strip s of
       [] \<Rightarrow> None
     | c # cs \<Rightarrow> (if c = CHR ''-'' then map_option (\<lambda>ds. - int (digits_val 0 ds)) (int_digits cs)
                 else if c = CHR ''+'' then map_option (\<lambda>ds. int (digits_val 0 ds)) (int_digits cs)
                 else map_option (\<lambda>ds. int (digits_val 0 ds)) (int_digits (c # cs))))"

definition trunc_rat :: "rat \<Rightarrow> int" where
  "trunc_rat r = (if r < 0 then \<lceil>r\<rceil> else \<lfloor>r\<rfloor>)"

text \<open>\<open>int(x)\<close> on a dynamic value.\<close>

fun py_int :: "pyval \<Rightarrow> exc + int" where
  "py_int (PInt i) = Inr i"
| "py_int (PBool b) = Inr (if b then 1 else 0)"
| "py_int (PFloat r _) = Inr (trunc_rat r)"
| "py_int (PStr s) = (case int_of_str s of None \<Rightarrow> Inl (ValueError ''int'') | Some i \<Rightarrow> Inr i)"
| "py_int _ = Inl (TypeError ''int'')"

lemma digit_char_digit [simp]: "d < 10 \<Longrightarrow> is_digit (digit_char d)"
  by (simp add: is_digit_def digit_char_def)

lemma code_digit_char [simp]: "d < 10 \<Longrightarrow> code (digit_char d) = 48 + d"
  by (simp add: digit_char_def)

lemma nat_str_digits: "\<forall>c \<in> set (nat_str n). is_digit c"
proof (induction n rule: nat_str.induct)
  case (1 n)
  show ?case
    by (cases "n < 10") (use 1 in \<open>auto simp: nat_str.simps [of n]\<close>)
qed

lemma nat_str_not_Nil [simp]: "nat_str n \<noteq> []"
  by (subst nat_str.simps) simp

lemma digits_val_append: "digits_val a (xs @ [c]) = 10 * digits_val a xs + (code c - 48)"
  by (induction xs arbitrary: a) auto

lemma digits_val_nat_str: "digits_val 0 (nat_str n) = n"
proof (induction n rule: nat_str.induct)
  case (1 n)
  show ?case
  proof (cases "n < 10")
    case True
    then show ?thesis by (simp add: nat_str.simps [of n])
  next
    case False
    with 1 have "digits_val 0 (nat_str (n div 10)) = n div 10" by simp
    then have "digits_val 0 (nat_str (n div 10) @ [digit_char (n mod 10)]) = 10 * (n div 10) + n mod 10"
      by (simp add: digits_val_append)
    with False show ?thesis by (simp add: nat_str.simps [of n])
  qed
qed

text \<open>Printing is injective, so identifiers built from a counter are distinct.\<close>

lemma nat_str_inject [simp]: "nat_str m = nat_str n \<longleftrightarrow> m = n"
  by (metis digits_val_nat_str)

subsection \<open>\<open>str(x)\<close> and \<open>json.dumps(x)\<close>\<close>

definition hex_digit :: "nat \<Rightarrow> char" where
  "hex_digit d = (if d < 10 then char_of (48 + d) else char_of (87 + d))"

definition repr_char :: "char \<Rightarrow> char \<Rightarrow> string" where
  "repr_char q c =
     (if c = q \<or> code c = 92 then [char_of (92::nat), c]
      else if code c = 10 then [char_of (92::nat), CHR ''n'']
      else if code c = 13 then [char_of (92::nat), CHR ''r'']
      else if code c = 9 then [char_of (92::nat), CHR ''t'']
      else if code c < 32 \<or> (127 \<le> code c \<and> code c \<le> 160) \<or> code c = 173
        then [char_of (92::nat), CHR ''x'', hex_digit (code c div 16), hex_digit (code c mod 16)]
      else [c])"

definition repr_str :: "string \<Rightarrow> string" where
  "repr_str s =
     (let q = (if CHR 0x27 \<in> set s \<and> CHR 0x22 \<notin> set s then CHR 0x22 else CHR 0x27)
      in [q] @ concat (map (repr_char q) s) @ [q])"

fun py_repr :: "pyval \<Rightarrow> string" where
  "py_repr PNone = ''None''"
| "py_repr (PBool b) = (if b then ''True'' else ''False'')"
| "py_repr (PInt i) = int_str i"
| "py_repr (PFloat _ t) = t"
| "py_repr (PStr s) = repr_str s"
| "py_repr (PList xs) = ''['' @ join '', '' (map py_repr xs) @ '']''"
| "py_repr (PDict d) =
     ''{'' @ join '', '' (map (\<lambda>(k, v). repr_str k @ '': '' @ py_repr v) d) @ ''}''"

definition py_str :: "pyval \<Rightarrow> string" where
  "py_str v = (case v of PStr s \<Rightarrow> s | _ \<Rightarrow> py_repr v)"

definition json_char :: "char \<Rightarrow> string" where
  "json_char c =
     (if code c = 34 \<or> code c = 92 then [char_of (92::nat), c]
      else if code c = 10 then [char_of (92::nat), CHR ''n'']
      else if code c = 13 then [char_of (92::nat), CHR ''r'']
      else if code c = 9 then [char_of (92::nat), CHR ''t'']
      else if code c = 8 then [char_of (92::nat), CHR ''b'']
      else if code c = 12 then [char_of (92::nat), CHR ''f'']
      else if code c < 32 \<or> 126 < code c
        then [char_of (92::nat), CHR ''u'', CHR ''0'', CHR ''0'',
              hex_digit (code c div 16), hex_digit (code c mod 16)]
      else [c])"

definition json_quote :: "string \<Rightarrow> string" where
  "json_quote s = [CHR 0x22] @ concat (map json_char s) @ [CHR 0x22]"

fun json_dumps :: "pyval \<Rightarrow> string" where
  "json_dumps PNone = ''null''"
| "json_dumps (PBool b) = (if b then ''true'' else ''false'')"
| "json_dumps (PInt i) = int_str i"
| "json_dumps (PFloat _ t) = t"
| "json_dumps (PStr s) = json_quote s"
| "json_dumps (PList xs) = ''['' @ join '', '' (map json_dumps xs) @ '']''"
| "json_dumps (PDict d) =
     ''{'' @ join '', '' (map (\<lambda>(k, v). json_quote k @ '': '' @ json_dumps v) d) @ ''}''"

end
