(* ===== verification/Py_Time.thy ===== *)
theory Py_Time
  imports Py_Text
begin

section \<open>Python datetimes: microseconds on the civil calendar\<close>

text \<open>
  A datetime is its local wall clock in microseconds since 1970-01-01T00:00:00 and, when it is
  timezone aware, its offset from UTC in microseconds. \<open>datetime.fromisoformat\<close> is modelled for
  the shape \<open>isoformat\<close> prints (extended dates and times, an optional fraction, an optional
  \<open>Z\<close> or numeric offset); the basic and week-date spellings are not. Results outside the years
  1 to 9999 raise \<open>OverflowError\<close>.
\<close>

record pydt =
  dt_us :: int
  dt_off :: "int option"

definition day_us :: int where
  "day_us = 86400000000"

definition minute_us :: int where
  "minute_us = 60000000"

definition dt_min :: int where
  "dt_min = -62135596800000000"

definition dt_max :: int where
  "dt_max = 253402300799999999"

definition in_range :: "int \<Rightarrow> bool" where
  "in_range u \<longleftrightarrow> dt_min \<le> u \<and> u \<le> dt_max"

definition utc_us :: "pydt \<Rightarrow> int" where
  "utc_us t = dt_us t - (case dt_off t of None \<Rightarrow> 0 | Some z \<Rightarrow> z)"

definition add_us :: "pydt \<Rightarrow> int \<Rightarrow> exc + pydt" where
  "add_us t d = (if in_range (dt_us t + d) then Inr (t\<lparr>dt_us := dt_us t + d\<rparr>)
                 else Inl (OverflowError ''date value out of range''))"

subsection \<open>The civil calendar\<close>

definition days_from_civil :: "int \<Rightarrow> int \<Rightarrow> int \<Rightarrow> int" where
  "days_from_civil y m d =
     (let y' = (if m \<le> 2 then y - 1 else y);
          era = y' div 400;
          yoe = y' - era * 400;
          doy = (153 * (if m > 2 then m - 3 else m + 9) + 2) div 5 + d - 1;
          doe = yoe * 365 + yoe div 4 - yoe div 100 + doy
      in era * 146097 + doe - 719468)"

definition civil_from_days :: "int \<Rightarrow> int \<times> int \<times> int" where
  "civil_from_days z =
     (let z' = z + 719468;
          era = z' div 146097;
          doe = z' - era * 146097;
          yoe = (doe - doe div 1460 + doe div 36524 - doe div 146096) div 365;
          doy = doe - (365 * yoe + yoe div 4 - yoe div 100);
          mp = (5 * doy + 2) div 153;
          d = doy - (153 * mp + 2) div 5 + 1;
          m = (if mp < 10 then mp + 3 else mp - 9);
          y = yoe + era * 400 + (if m \<le> 2 then 1 else 0)
      in (y, m, d))"

definition is_leap :: "int \<Rightarrow> bool" where
  "is_leap y \<longleftrightarrow> 4 dvd y \<and> (\<not> 100 dvd y \<or> 400 dvd y)"

definition month_len :: "int \<Rightarrow> int \<Rightarrow> int" where
  "month_len y m = (if m = 2 then (if is_leap y then 29 else 28)
                    else if m \<in> {4, 6, 9, 11} then 30 else 31)"

definition day_start_us :: "int \<Rightarrow> int" where
  "day_start_us u = (u div day_us) * day_us"

definition month_start_us :: "int \<Rightarrow> int" where
  "month_start_us u = (case civil_from_days (u div day_us) of (y, m, d) \<Rightarrow> days_from_civil y m 1 * day_us)"

lemma day_start_le: "day_start_us u \<le> u"
  using div_mult_mod_eq [of u day_us] pos_mod_sign [of day_us u]
  by (simp add: day_start_us_def day_us_def)

lemma day_start_within: "u < day_start_us u + day_us"
  using div_mult_mod_eq [of u day_us] pos_mod_bound [of day_us u]
  by (simp add: day_start_us_def day_us_def)

subsection \<open>Reading ISO-8601 text\<close>

definition dig :: "char \<Rightarrow> int" where
  "dig c = int (code c) - 48"

fun take2 :: "string \<Rightarrow> (int \<times> string) option" where
  "take2 (a # b # r) = (if is_digit a \<and> is_digit b then Some (10 * dig a + dig b, r) else None)"
| "take2 _ = None"

definition take_date :: "string \<Rightarrow> (int \<times> string) option" where
  "take_date s = (case s of
      a # b # c # d # CHR ''-'' # e # f # CHR ''-'' # g # h # r \<Rightarrow>
        (if list_all is_digit [a, b, c, d, e, f, g, h] then
           (let y = 1000 * dig a + 100 * dig b + 10 * dig c + dig d;
                m = 10 * dig e + dig f; n = 10 * dig g + dig h
            in if 1 \<le> y \<and> 1 \<le> m \<and> m \<le> 12 \<and> 1 \<le> n \<and> n \<le> month_len y m
               then Some (days_from_civil y m n, r) else None)
         else None)
    | _ \<Rightarrow> None)"

text \<open>A fraction of a second: the first six digits count, the rest are dropped.\<close>

fun frac_us :: "nat \<Rightarrow> int \<Rightarrow> string \<Rightarrow> int \<times> string" where
  "frac_us n a [] = (a * 10 ^ n, [])"
| "frac_us n a (c # r) =
     (if is_digit c then (case n of 0 \<Rightarrow> frac_us 0 a r | Suc m \<Rightarrow> frac_us m (10 * a + dig c) r)
      else (a * 10 ^ n, c # r))"

text \<open>\<open>HH[:MM[:SS[.ffffff]]]\<close>, as hours, minutes, seconds, microseconds and the rest.\<close>

definition take_clock :: "string \<Rightarrow> ((int \<times> int \<times> int \<times> int) \<times> string) option" where
  "take_clock s = (case take2 s of None \<Rightarrow> None | Some (h, r1) \<Rightarrow>
     (case r1 of CHR '':'' # r1' \<Rightarrow>
        (case take2 r1' of None \<Rightarrow> None | Some (mi, r2) \<Rightarrow>
          (case r2 of CHR '':'' # r2' \<Rightarrow>
             (case take2 r2' of None \<Rightarrow> None | Some (se, r3) \<Rightarrow>
               (case r3 of CHR ''.'' # c # r3' \<Rightarrow>
                  (if is_digit c then (case frac_us 6 0 (c # r3') of (u, r4) \<Rightarrow> Some ((h, mi, se, u), r4))
                   else None)
                | _ \<Rightarrow> Some ((h, mi, se, 0), r3)))
           | _ \<Rightarrow> Some ((h, mi, 0, 0), r2)))
      | _ \<Rightarrow> Some ((h, 0, 0, 0), r1)))"

definition clock_us :: "int \<times> int \<times> int \<times> int \<Rightarrow> int option" where
  "clock_us t = (case t of (h, mi, se, u) \<Rightarrow>
     (if h < 24 \<and> mi < 60 \<and> se < 60 then Some (((h * 60 + mi) * 60 + se) * 1000000 + u) else None))"

definition take_offset :: "string \<Rightarrow> int option option" where
  "take_offset s = (case s of
      [] \<Rightarrow> Some None
    | c # r \<Rightarrow>
        (if c = CHR ''Z'' then (if r = [] then Some (Some 0) else None)
         else if c = CHR ''+'' \<or> c = CHR ''-'' then
           (case take_clock r of Some (t, []) \<Rightarrow>
              (case clock_us t of None \<Rightarrow> None
               | Some u \<Rightarrow> Some (Some (if c = CHR ''-'' then - u else u)))
            | _ \<Rightarrow> None)
         else None))"

definition fromisoformat :: "string \<Rightarrow> pydt option" where
  "fromisoformat s = (case take_date s of None \<Rightarrow> None | Some (days, r) \<Rightarrow>
     (case r of
        [] \<Rightarrow> Some \<lparr>dt_us = days * day_us, dt_off = None\<rparr>
      | _ # r' \<Rightarrow>
          (case take_clock r' of None \<Rightarrow> None | Some (t, r'') \<Rightarrow>
            (case clock_us t of None \<Rightarrow> None | Some u \<Rightarrow>
              (case take_offset r'' of None \<Rightarrow> None
               | Some z \<Rightarrow> Some \<lparr>dt_us = days * day_us + u, dt_off = z\<rparr>)))))"

subsection \<open>Printing\<close>

definition pad :: "nat \<Rightarrow> string \<Rightarrow> string" where
  "pad n s = replicate (n - length s) (CHR ''0'') @ s"

text \<open>\<open>datetime.isoformat\<close> of a naive instant.\<close>

definition isoformat :: "int \<Rightarrow> string" where
  "isoformat u =
     (case civil_from_days (u div day_us) of (y, m, d) \<Rightarrow>
        (let t = u mod day_us; us = t mod 1000000; sec = t div 1000000 in
         pad 4 (int_str y) @ ''-'' @ pad 2 (int_str m) @ ''-'' @ pad 2 (int_str d) @ ''T'' @
         pad 2 (int_str (sec div 3600)) @ '':'' @ pad 2 (int_str (sec div 60 mod 60)) @ '':'' @
         pad 2 (int_str (sec mod 60)) @ (if us = 0 then [] else ''.'' @ pad 6 (int_str us))))"

subsection \<open>Rounding to whole minutes\<close>

text \<open>Python's \<open>round\<close> on a quotient: to the nearest integer, ties to the even one.\<close>

definition round_div :: "int \<Rightarrow> int \<Rightarrow> int" where
  "round_div a b = (let q = a div b; r = a mod b in
     if 2 * r < b then q else if 2 * r > b then q + 1 else if even q then q else q + 1)"

definition round_rat :: "rat \<Rightarrow> int" where
  "round_rat r = (case quotient_of r of (a, b) \<Rightarrow> round_div a b)"

lemma round_div_near: "b > 0 \<Longrightarrow> 2 * \<bar>a - b * round_div a b\<bar> \<le> b"
proof -
  assume b: "b > 0"
  have e0: "a - b * (a div b) = a mod b" by (simp add: minus_mult_div_eq_mod)
  then have e1: "a - b * (a div b + 1) = a mod b - b" by (simp add: algebra_simps)
  have r: "0 \<le> a mod b" "a mod b < b" using b by simp_all
  show ?thesis
    unfolding round_div_def Let_def using r by (auto simp: e0 e1 simp del: mult_minus_right)
qed

end
