(* ===== verification/CC_State.thy ===== *)
theory CC_State
  imports Py_Time
begin

section \<open>The durable state and the outside world\<close>

text \<open>
  The tables of \<^verbatim>\<open>app/models.py\<close> that the errand runner and the phone stack share, as lists of rows
  in insertion order, and the services outside the process. A text column that holds JSON is the
  value it encodes. Instants are naive UTC in microseconds. Every request to a service outside the
  process is put at the head of \<open>w_log\<close>; the service is a function of the log so far, so that
  its answers may depend on everything that happened. Primary keys drawn by \<open>uuid4\<close> come from a
  counter. The clock stands still while one handler runs.
\<close>

subsection \<open>Rows\<close>

record workflow =
  wf_id :: string
  wf_kind :: string
  wf_household :: string
  wf_user :: "int option"
  wf_node :: "string option"
  wf_goal :: string
  wf_title :: "string option"
  wf_steps :: "pyval list"
  wf_cursor :: int
  wf_results :: "pydict list"
  wf_revision :: int
  wf_inbox :: "string option"
  wf_state :: string
  wf_waiting_on :: "string option"
  wf_wake_at :: "int option"
  wf_error :: "string option"

record errand_plan =
  pl_id :: string
  pl_household :: string
  pl_user :: "int option"
  pl_node :: "string option"
  pl_goal :: string
  pl_summary :: "string option"
  pl_steps :: "pydict list"
  pl_inbox :: "string option"
  pl_state :: string
  pl_revision :: int
  pl_error :: "string option"
  pl_confirmed_at :: "int option"
  pl_workflow :: "string option"

record phone_session =
  ps_id :: string
  ps_household :: string
  ps_user :: "int option"
  ps_confirmed_by :: "int option"
  ps_contact_id :: "string option"
  ps_contact_name :: "string option"
  ps_contact_address :: "string option"
  ps_errand_id :: "string option"
  ps_errand_step :: "int option"
  ps_goal :: string
  ps_details :: "string option"
  ps_constraints :: "string option"
  ps_resolved :: "string option"
  ps_dialed :: "string option"
  ps_edited :: bool
  ps_line_type :: "string option"
  ps_state :: string
  ps_error :: "string option"
  ps_transcript :: "pyval list"
  ps_outcome :: "pydict option"
  ps_audio_key :: "string option"
  ps_worker :: "string option"
  ps_heartbeat :: "int option"
  ps_twilio_sid :: "string option"
  ps_duration :: "int option"
  ps_created_at :: int
  ps_confirmed_at :: "int option"
  ps_expires_at :: "int option"
  ps_ended_at :: "int option"

record phone_contact =
  pc_id :: string
  pc_household :: string
  pc_name :: string
  pc_normalized :: string
  pc_number :: string
  pc_address :: "string option"
  pc_source :: string
  pc_line_type :: "string option"
  pc_do_not_call :: bool
  pc_verified_at :: "int option"

subsection \<open>Requests to the outside\<close>

record card =
  cd_household :: string
  cd_user :: "int option"
  cd_title :: string
  cd_summary :: string
  cd_body :: string
  cd_category :: string
  cd_metadata :: pydict

datatype effect =
    FxNode "string option" string pydict
  | FxTool string pydict
  | FxCard card
  | FxCardUpdate string card
  | FxLlm string "string list"
  | FxQuery string "string list"
  | FxDial string string

text \<open>A checkpoint whose continuation a detached task still has to decide: run, step, reason, proposed steps.\<close>

type_synonym replan_task = "string \<times> int \<times> string \<times> pyval list"

record world =
  w_now :: int
  w_seq :: nat
  w_workflows :: "workflow list"
  w_plans :: "errand_plan list"
  w_sessions :: "phone_session list"
  w_contacts :: "phone_contact list"
  w_tasks :: "replan_task list"
  w_log :: "effect list"

text \<open>What a web search for a business number reports.\<close>

record number_search =
  ns_number :: "string option"
  ns_address :: "string option"
  ns_url :: "string option"
  ns_near :: "string option"
  ns_reason :: "string option"

text \<open>
  The services: node replies over MQTT, server tools (the JSON text a tool returns, None when it
  does not parse), the notification service, the LLM proxy, settings, the fuzzy matcher, the web
  search, the gateway's line-type lookup, the calendar context, the stored caller details, the
  Redis dial queue, and the tool registry's contents (name, OpenAI format and riskiness of each tool).
\<close>

record env =
  en_node :: "effect list \<Rightarrow> exc + pyval"
  en_tool :: "effect list \<Rightarrow> exc + pyval option"
  en_card :: "effect list \<Rightarrow> exc + string option"
  en_refresh :: "effect list \<Rightarrow> exc + bool"
  en_llm :: "effect list \<Rightarrow> exc + string"
  en_setting :: "string \<Rightarrow> string option \<Rightarrow> exc + pyval"
  en_fuzzy :: "string \<Rightarrow> (string \<times> string) list \<Rightarrow> exc + string option"
  en_search :: "effect list \<Rightarrow> exc + number_search"
  en_mismatch :: "string option \<Rightarrow> string option \<Rightarrow> string option"
  en_line_type :: "effect list \<Rightarrow> exc + string"
  en_name :: "effect list \<Rightarrow> exc + string option"
  en_availability :: "effect list \<Rightarrow> exc + (string + pydict)"
  en_call_block :: "int option \<Rightarrow> exc + string"
  en_dial :: "effect list \<Rightarrow> exc + unit"
  en_worker :: "effect list \<Rightarrow> exc + int"
  en_tools :: "(string \<times> pydict \<times> bool) list"
  en_date_flat :: "effect list \<Rightarrow> (string \<times> pyval) list"

definition perform :: "(effect list \<Rightarrow> exc + 'a) \<Rightarrow> effect \<Rightarrow> (world, 'a) io" where
  "perform f e = (\<lambda>w. let l = e # w_log w in (w\<lparr>w_log := l\<rparr>, f l))"

text \<open>Inserting a row draws its primary key.\<close>

definition insert_session :: "(string \<Rightarrow> phone_session) \<Rightarrow> (world, string) io" where
  "insert_session mk = (\<lambda>w. let sid = ''call_'' @ nat_str (w_seq w) in
     (w\<lparr>w_seq := Suc (w_seq w), w_sessions := w_sessions w @ [mk sid]\<rparr>, Inr sid))"

definition insert_workflow :: "(string \<Rightarrow> workflow) \<Rightarrow> (world, string) io" where
  "insert_workflow mk = (\<lambda>w. let wid = ''wf_'' @ nat_str (w_seq w) in
     (w\<lparr>w_seq := Suc (w_seq w), w_workflows := w_workflows w @ [mk wid]\<rparr>, Inr wid))"

definition insert_plan :: "(string \<Rightarrow> errand_plan) \<Rightarrow> (world, string) io" where
  "insert_plan mk = (\<lambda>w. let pid = ''pl_'' @ nat_str (w_seq w) in
     (w\<lparr>w_seq := Suc (w_seq w), w_plans := w_plans w @ [mk pid]\<rparr>, Inr pid))"

subsection \<open>Table access\<close>

definition upd_where :: "('r \<Rightarrow> bool) \<Rightarrow> ('r \<Rightarrow> 'r) \<Rightarrow> 'r list \<Rightarrow> 'r list" where
  "upd_where p f rows = map (\<lambda>r. if p r then f r else r) rows"

definition find_wf :: "string \<Rightarrow> world \<Rightarrow> workflow option" where
  "find_wf i w = find (\<lambda>r. wf_id r = i) (w_workflows w)"

definition upd_wf :: "string \<Rightarrow> (workflow \<Rightarrow> workflow) \<Rightarrow> world \<Rightarrow> world" where
  "upd_wf i f w = w\<lparr>w_workflows := upd_where (\<lambda>r. wf_id r = i) f (w_workflows w)\<rparr>"

definition find_plan :: "string \<Rightarrow> string \<Rightarrow> world \<Rightarrow> errand_plan option" where
  "find_plan i hh w = find (\<lambda>r. pl_id r = i \<and> pl_household r = hh) (w_plans w)"

definition upd_plan :: "string \<Rightarrow> (errand_plan \<Rightarrow> errand_plan) \<Rightarrow> world \<Rightarrow> world" where
  "upd_plan i f w = w\<lparr>w_plans := upd_where (\<lambda>r. pl_id r = i) f (w_plans w)\<rparr>"

definition find_session :: "string \<Rightarrow> world \<Rightarrow> phone_session option" where
  "find_session i w = find (\<lambda>r. ps_id r = i) (w_sessions w)"

definition upd_session :: "string \<Rightarrow> (phone_session \<Rightarrow> phone_session) \<Rightarrow> world \<Rightarrow> world" where
  "upd_session i f w = w\<lparr>w_sessions := upd_where (\<lambda>r. ps_id r = i) f (w_sessions w)\<rparr>"

lemma length_upd_where [simp]: "length (upd_where p f rows) = length rows"
  by (simp add: upd_where_def)

lemma upd_where_Nil [simp]: "upd_where p f [] = []"
  by (simp add: upd_where_def)

lemma upd_where_Cons [simp]:
  "upd_where p f (r # rs) = (if p r then f r else r) # upd_where p f rs"
  by (simp add: upd_where_def)

lemma set_upd_where: "r \<in> set (upd_where p f rows) \<Longrightarrow> r \<in> set rows \<or> (\<exists>r0 \<in> set rows. p r0 \<and> r = f r0)"
  by (auto simp: upd_where_def)

lemma upd_where_member:
  "r \<in> set (upd_where p f rows) \<Longrightarrow> (\<exists>r0 \<in> set rows. p r0 \<and> r = f r0) \<or> r \<in> set rows \<and> \<not> p r"
  by (auto simp: upd_where_def)

lemma map_upd_where: "(\<And>r. g (f r) = g r) \<Longrightarrow> map g (upd_where p f rows) = map g rows"
  by (simp add: upd_where_def)

lemma find_upd_where_key:
  "(\<And>r. key (f r) = key r) \<Longrightarrow>
   find (\<lambda>r. key r = i) (upd_where (\<lambda>r. key r = j) f rows) =
   (if i = j then map_option f (find (\<lambda>r. key r = i) rows) else find (\<lambda>r. key r = i) rows)"
  by (induction rows) auto

lemma find_wf_upd:
  "(\<And>r. wf_id (f r) = wf_id r) \<Longrightarrow>
   find_wf i (upd_wf j f w) = (if i = j then map_option f (find_wf i w) else find_wf i w)"
  by (simp add: find_wf_def upd_wf_def find_upd_where_key)

lemma find_session_upd:
  "(\<And>r. ps_id (f r) = ps_id r) \<Longrightarrow>
   find_session i (upd_session j f w) = (if i = j then map_option f (find_session i w) else find_session i w)"
  by (simp add: find_session_def upd_session_def find_upd_where_key)

lemma find_Some_props: "find p xs = Some x \<Longrightarrow> p x \<and> x \<in> set xs"
  by (induction xs) (auto split: if_splits)

lemma find_wf_id: "find_wf i w = Some r \<Longrightarrow> wf_id r = i"
  by (auto simp: find_wf_def dest: find_Some_props)

lemma find_session_id: "find_session i w = Some r \<Longrightarrow> ps_id r = i"
  by (auto simp: find_session_def dest: find_Some_props)

lemma find_plan_id: "find_plan i hh w = Some r \<Longrightarrow> pl_id r = i \<and> pl_household r = hh"
  by (auto simp: find_plan_def dest: find_Some_props)

lemma upd_wf_other [simp]:
  "w_plans (upd_wf i f w) = w_plans w" "w_sessions (upd_wf i f w) = w_sessions w"
  "w_log (upd_wf i f w) = w_log w" "w_now (upd_wf i f w) = w_now w" "w_seq (upd_wf i f w) = w_seq w" "w_tasks (upd_wf i f w) = w_tasks w"
  "w_contacts (upd_wf i f w) = w_contacts w"
  by (simp_all add: upd_wf_def)

lemma upd_plan_other [simp]:
  "w_workflows (upd_plan i f w) = w_workflows w" "w_sessions (upd_plan i f w) = w_sessions w"
  "w_log (upd_plan i f w) = w_log w" "w_now (upd_plan i f w) = w_now w" "w_seq (upd_plan i f w) = w_seq w" "w_tasks (upd_plan i f w) = w_tasks w"
  "w_contacts (upd_plan i f w) = w_contacts w"
  by (simp_all add: upd_plan_def)

lemma upd_session_other [simp]:
  "w_workflows (upd_session i f w) = w_workflows w" "w_plans (upd_session i f w) = w_plans w"
  "w_log (upd_session i f w) = w_log w" "w_now (upd_session i f w) = w_now w"
  "w_seq (upd_session i f w) = w_seq w" "w_tasks (upd_session i f w) = w_tasks w" "w_contacts (upd_session i f w) = w_contacts w"
  by (simp_all add: upd_session_def)

lemma find_wf_upd_other [simp]:
  "find_wf i (upd_plan j g w) = find_wf i w" "find_wf i (upd_session j h w) = find_wf i w"
  by (simp_all add: find_wf_def)

subsection \<open>Requests leave the tables alone\<close>

lemma perform_tables [simp]:
  "w_workflows (fst (perform f e w)) = w_workflows w"
  "w_plans (fst (perform f e w)) = w_plans w"
  "w_sessions (fst (perform f e w)) = w_sessions w"
  "w_contacts (fst (perform f e w)) = w_contacts w"
  "w_now (fst (perform f e w)) = w_now w"
  "w_seq (fst (perform f e w)) = w_seq w"
  "w_tasks (fst (perform f e w)) = w_tasks w"
  "w_log (fst (perform f e w)) = e # w_log w"
  by (simp_all add: perform_def Let_def)

text \<open>
  \<open>quiet P\<close>: the predicate survives logging any request but a dial job or an errand's completion
  card. Most components are proved to keep every such predicate.
\<close>

fun is_dial :: "effect \<Rightarrow> bool" where
  "is_dial (FxDial _ _) = True"
| "is_dial _ = False"

fun is_report :: "effect \<Rightarrow> bool" where
  "is_report (FxCard c) = (cd_category c = ''errand'')"
| "is_report _ = False"

definition log_effect :: "effect \<Rightarrow> world \<Rightarrow> world" where
  "log_effect e w = w\<lparr>w_log := e # w_log w\<rparr>"

definition quiet :: "(world \<Rightarrow> bool) \<Rightarrow> bool" where
  "quiet P \<longleftrightarrow> (\<forall>w e. P w \<longrightarrow> \<not> is_dial e \<longrightarrow> \<not> is_report e \<longrightarrow> P (log_effect e w))"

lemma run_perform: "perform f e w = (log_effect e w, f (e # w_log w))"
  by (simp add: perform_def log_effect_def Let_def)

lemma log_effect_other [simp]:
  "w_workflows (log_effect e w) = w_workflows w" "w_plans (log_effect e w) = w_plans w"
  "w_sessions (log_effect e w) = w_sessions w" "w_contacts (log_effect e w) = w_contacts w"
  "w_now (log_effect e w) = w_now w" "w_seq (log_effect e w) = w_seq w" "w_tasks (log_effect e w) = w_tasks w"
  "w_log (log_effect e w) = e # w_log w"
  by (simp_all add: log_effect_def)

lemma quietD: "quiet P \<Longrightarrow> P w \<Longrightarrow> \<not> is_dial e \<Longrightarrow> \<not> is_report e \<Longrightarrow> P (log_effect e w)"
  by (simp add: quiet_def)

lemma keeps_perform [io_keeps]: "quiet P \<Longrightarrow> \<not> is_dial e \<Longrightarrow> \<not> is_report e \<Longrightarrow> keeps P (perform f e)"
  by (simp add: keeps_def run_perform quietD)

lemma noraise_insert [simp]:
  "noraise (insert_session mk)" "noraise (insert_workflow mk')" "noraise (insert_plan mk'')"
  by (simp_all add: noraise_def insert_session_def insert_workflow_def insert_plan_def Let_def)

end
