(* ===== verification/Phone_Calls.thy ===== *)
theory Phone_Calls
  imports CC_State
begin

section \<open>Phone calls: numbers, caps, the session state machine, plans and the confirm tap\<close>

text \<open>
  \<^verbatim>\<open>app/services/phone_call_service.py\<close> and the gateway's half of the contract,
  \<^verbatim>\<open>app/api/phone_sessions.py\<close>. A session is drafted with a confirm card, confirmed by a tap, claimed by
  exactly one gateway worker, and reported through events until it is terminal. Pictographs of card
  titles are left out and typographic dashes are written as hyphens.
\<close>

definition call_terminal :: "string list" where
  "call_terminal = [''done'', ''failed'', ''declined'', ''expired'']"

definition call_active :: "string list" where
  "call_active = [''dialing'', ''in_call'', ''wrapup'']"

definition call_transitions :: "(string \<times> string list) list" where
  "call_transitions =
     [(''draft'', [''confirmed'', ''declined'', ''expired'', ''failed'']),
      (''confirmed'', [''dialing'', ''failed'', ''expired'']),
      (''dialing'', [''in_call'', ''wrapup'', ''failed'']),
      (''in_call'', [''wrapup'', ''failed'']),
      (''wrapup'', [''done'', ''failed''])]"

definition allowed_from :: "string \<Rightarrow> string list" where
  "allowed_from s = (case map_of call_transitions s of None \<Rightarrow> [] | Some ts \<Rightarrow> ts)"

subsection \<open>Settings\<close>

definition phone_calls_enabled :: "env \<Rightarrow> string \<Rightarrow> bool" where
  "phone_calls_enabled E hh =
     (if hh = [] then False
      else case en_setting E ''phone_calls.enabled'' (Some hh) of
        Inl _ \<Rightarrow> False
      | Inr v \<Rightarrow> (case v of
          PBool b \<Rightarrow> b
        | PStr s \<Rightarrow> lower s \<in> {''true'', ''1'', ''yes''}
        | _ \<Rightarrow> truthy v))"

definition int_setting :: "env \<Rightarrow> string \<Rightarrow> string \<Rightarrow> int \<Rightarrow> int" where
  "int_setting E key hh d =
     (case en_setting E key (if hh = [] then None else Some hh) of
        Inl _ \<Rightarrow> d
      | Inr v \<Rightarrow> (case v of
          PNone \<Rightarrow> d
        | PBool _ \<Rightarrow> d
        | _ \<Rightarrow> (case int_of_str (strip (py_str v)) of None \<Rightarrow> d | Some i \<Rightarrow> i)))"

subsection \<open>Number validation\<close>

definition premium_area_codes :: "string list" where
  "premium_area_codes = [''900'', ''976'']"

definition emergency_numbers :: "string list" where
  "emergency_numbers = [''911'', ''112'', ''933'', ''988'']"

definition lstrip_plus :: "string \<Rightarrow> string" where
  "lstrip_plus s = dropWhile (\<lambda>c. c = CHR ''+'') s"

definition number_chars :: "string \<Rightarrow> string" where
  "number_chars raw = filter (\<lambda>c. is_digit c \<or> c = CHR ''+'') (strip raw)"

definition national_digits :: "string \<Rightarrow> string" where
  "national_digits digits =
     (let d = lstrip_plus digits in if length d = 11 \<and> starts_with d ''1'' then tl d else d)"

definition normalize_us_number :: "string \<Rightarrow> exc + string" where
  "normalize_us_number raw =
     (if strip raw = [] then Inl (PhoneCallError ''No phone number provided.'')
      else
        let digits = number_chars raw; d = national_digits digits; area = take 3 d in
        if digits \<in> set emergency_numbers \<or> lstrip_plus digits \<in> set emergency_numbers
          then Inl (PhoneCallError ''Emergency and service numbers can't be called.'')
        else if length d \<noteq> 10 then
          (if length d < 7 then Inl (PhoneCallError ''Short codes and service numbers can't be called.'')
           else Inl (PhoneCallError ''Only US numbers are supported right now (10 digits).''))
        else if area \<in> set premium_area_codes
          then Inl (PhoneCallError ''Premium-rate numbers can't be called.'')
        else if starts_with area ''0'' \<or> starts_with area ''1''
          then Inl (PhoneCallError ''That doesn't look like a valid US number.'')
        else Inr (''+1'' @ d))"

subsection \<open>Contact resolution\<close>

definition normalize_name :: "string \<Rightarrow> string" where
  "normalize_name name = strip (filter (\<lambda>c. (97 \<le> code c \<and> code c \<le> 122) \<or> is_digit c \<or> c = CHR '' '') (lower name))"

definition resolve_contact :: "env \<Rightarrow> string \<Rightarrow> string \<Rightarrow> world \<Rightarrow> phone_contact option" where
  "resolve_contact E hh business w =
     (let contacts = filter (\<lambda>c. pc_household c = hh) (w_contacts w) in
      if contacts = [] then None
      else case en_fuzzy E (normalize_name business) (map (\<lambda>c. (pc_id c, pc_normalized c)) contacts) of
        Inl _ \<Rightarrow> None
      | Inr None \<Rightarrow> None
      | Inr (Some cid) \<Rightarrow> find (\<lambda>c. pc_id c = cid) contacts)"

definition search_miss_note :: "string option \<Rightarrow> string" where
  "search_miss_note reason =
     (if reason = Some ''web_search_disabled'' then
        ''This business isn't in your phonebook, and web search is off for your household, so I couldn't look it up - enter the number to call.''
      else if reason = Some ''no_results'' \<or> reason = Some ''no_number_found'' then
        ''This business isn't in your phonebook and I couldn't find a number for it online - enter the number to call.''
      else if reason = Some ''search_failed'' then
        ''This business isn't in your phonebook and the lookup failed - enter the number to call.''
      else ''I couldn't find this business in the phonebook - enter the number to call.'')"

definition lookup_line_type :: "env \<Rightarrow> string \<Rightarrow> (world, string) io" where
  "lookup_line_type E number = (\<lambda>w.
     (case perform (en_line_type E) (FxQuery ''line-type'' [number]) w of
        (w', Inr lt) \<Rightarrow> (w', Inr (if lt \<in> {''mobile'', ''landline'', ''voip''} then lt else ''unknown''))
      | (w', Inl _) \<Rightarrow> (w', Inr ''unknown'')))"

subsection \<open>Caps\<close>

definition calls_today :: "string \<Rightarrow> world \<Rightarrow> int" where
  "calls_today hh w = int (length (filter (\<lambda>s. ps_household s = hh \<and> ps_created_at s \<ge> day_start_us (w_now w)) (w_sessions w)))"

definition calls_active :: "string \<Rightarrow> world \<Rightarrow> int" where
  "calls_active hh w = int (length (filter (\<lambda>s. ps_household s = hh \<and> ps_state s \<in> set call_active) (w_sessions w)))"

definition seconds_this_month :: "string \<Rightarrow> world \<Rightarrow> int" where
  "seconds_this_month hh w =
     sum_list (map (\<lambda>s. case ps_duration s of None \<Rightarrow> 0 | Some d \<Rightarrow> d)
       (filter (\<lambda>s. ps_household s = hh \<and> ps_created_at s \<ge> month_start_us (w_now w) \<and> ps_duration s \<noteq> None)
         (w_sessions w)))"

definition check_caps :: "env \<Rightarrow> string \<Rightarrow> world \<Rightarrow> string option" where
  "check_caps E hh w =
     (if calls_today hh w \<ge> int_setting E ''phone_calls.calls_per_day'' hh 10
        then Some ''The daily call limit for this household has been reached.''
      else if calls_active hh w \<ge> int_setting E ''phone_calls.max_concurrent_calls'' hh 1
        then Some ''There's already a call in progress for this household.''
      else if seconds_this_month hh w \<ge> int_setting E ''phone_calls.monthly_minutes_cap'' hh 60 * 60
        then Some ''The monthly call-minutes limit for this household has been reached.''
      else None)"

subsection \<open>The state machine's choke point\<close>

definition enter_state :: "int \<Rightarrow> string \<Rightarrow> phone_session \<Rightarrow> phone_session" where
  "enter_state now to s = s\<lparr>ps_state := to,
     ps_confirmed_at := (if to = ''confirmed'' then Some now else ps_confirmed_at s),
     ps_ended_at := (if to \<in> set call_terminal then Some now else ps_ended_at s)\<rparr>"

definition transition :: "int \<Rightarrow> phone_session \<Rightarrow> string \<Rightarrow> phone_session \<times> bool" where
  "transition now s to =
     (if to \<notin> set (allowed_from (ps_state s)) then (s, False) else (enter_state now to s, True))"

lemma enter_state_fields [simp]:
  "ps_state (enter_state now to s) = to"
  "ps_id (enter_state now to s) = ps_id s"
  "ps_household (enter_state now to s) = ps_household s"
  "ps_errand_id (enter_state now to s) = ps_errand_id s"
  "ps_errand_step (enter_state now to s) = ps_errand_step s"
  "ps_dialed (enter_state now to s) = ps_dialed s"
  "ps_created_at (enter_state now to s) = ps_created_at s"
  by (simp_all add: enter_state_def)

lemma transition_refused: "\<not> snd (transition now s to) \<Longrightarrow> fst (transition now s to) = s"
  by (auto simp: transition_def)

lemma transition_state:
  "ps_state (fst (transition now s to)) = (if to \<in> set (allowed_from (ps_state s)) then to else ps_state s)"
  by (simp add: transition_def)

lemma transition_fields [simp]:
  "ps_id (fst (transition now s to)) = ps_id s"
  "ps_household (fst (transition now s to)) = ps_household s"
  "ps_errand_id (fst (transition now s to)) = ps_errand_id s"
  "ps_errand_step (fst (transition now s to)) = ps_errand_step s"
  "ps_dialed (fst (transition now s to)) = ps_dialed s"
  "ps_created_at (fst (transition now s to)) = ps_created_at s"
  by (simp_all add: transition_def)

lemma allowed_from_terminal: "st \<in> set call_terminal \<Longrightarrow> allowed_from st = []"
  by (auto simp: call_terminal_def allowed_from_def call_transitions_def)

lemma transition_terminal: "ps_state s \<in> set call_terminal \<Longrightarrow> transition now s to = (s, False)"
  by (simp add: transition_def allowed_from_terminal)

end
