(* ===== verification/Call_Brief.thy ===== *)
theory Call_Brief
  imports CC_State
begin

section \<open>The brief of a call: scheduling bounds and caller details\<close>

text \<open>
  The pure text functions of \<^verbatim>\<open>app/services/phone_call_service.py\<close> that build the brief a call may
  use, and the two best-effort enrichments around them: calendar availability and stored caller
  details.
\<close>

subsection \<open>Lines\<close>

definition is_line_break :: "char \<Rightarrow> bool" where
  "is_line_break c \<longleftrightarrow> code c \<in> {10, 11, 12, 13, 28, 29, 30, 133}"

text \<open>\<open>str.splitlines\<close>: a break ends a line, CR LF is one break, no empty last line.\<close>

fun join_crlf :: "string \<Rightarrow> string" where
  "join_crlf [] = []"
| "join_crlf [c] = [c]"
| "join_crlf (c # d # cs) = (if code c = 13 \<and> code d = 10 then d # join_crlf cs else c # join_crlf (d # cs))"

fun break_lines :: "string \<Rightarrow> string \<Rightarrow> string list" where
  "break_lines acc [] = (if acc = [] then [] else [rev acc])"
| "break_lines acc (c # cs) = (if is_line_break c then rev acc # break_lines [] cs else break_lines (c # acc) cs)"

definition splitlines :: "string \<Rightarrow> string list" where
  "splitlines s = break_lines [] (join_crlf s)"

subsection \<open>Scheduling bounds\<close>

definition scheduling_hints :: "string list" where
  "scheduling_hints = [''appointment'', ''book'', ''schedule'', ''reservation'', ''reserve'', ''visit'']"

definition is_scheduling_goal :: "string \<Rightarrow> string \<Rightarrow> bool" where
  "is_scheduling_goal goal details \<longleftrightarrow>
     list_ex (has_sub (lower (goal @ '' '' @ details))) scheduling_hints"

definition times_placeholder :: string where
  "times_placeholder = ''Acceptable times: (fill in your availability before calling)''"

definition ensure_times_section :: "string \<Rightarrow> string \<Rightarrow> string" where
  "ensure_times_section goal details =
     (if has_sub (lower details) ''acceptable times'' then details
      else if \<not> is_scheduling_goal goal details then details
      else rstrip details @ newline @ times_placeholder)"

definition constraint_prefixes :: "string list" where
  "constraint_prefixes = [''acceptable times:'', ''do not book:'']"

definition extract_constraint_envelope :: "string option \<Rightarrow> string option" where
  "extract_constraint_envelope details = (case details of
      None \<Rightarrow> None
    | Some d \<Rightarrow>
        (if d = [] then None else
         let lines = map strip (filter (\<lambda>l. list_ex (starts_with (lower (strip l))) constraint_prefixes)
                                       (splitlines d)) in
         if lines = [] then None else
         let real = filter (\<lambda>l. \<not> has_sub (lower l) ''(fill in'') lines in
         if real = [] then None else Some (join newline real)))"

definition format_availability :: "pydict \<Rightarrow> exc + string option" where
  "format_availability data =
     rbind (as_iter (por (dget data ''free'') (PList []))) (\<lambda>free0.
     rbind (as_iter (por (dget data ''busy'') (PList []))) (\<lambda>busy0.
     let free = filter (\<lambda>t. strip t \<noteq> []) (map py_str free0);
         busy = filter (\<lambda>t. strip t \<noteq> []) (map py_str busy0) in
     if free = [] \<and> busy = [] then Inr None
     else Inr (Some (join newline
       ((if free \<noteq> [] then [''Acceptable times: '' @ join ''; '' (take 6 free)]
         else [''Acceptable times: (calendar shows no free windows - edit me)'']) @
        (if busy \<noteq> [] then [''Do not book: '' @ join ''; '' (take 6 busy)] else []))))))"

definition strip_times_placeholder :: "string \<Rightarrow> string" where
  "strip_times_placeholder details =
     join newline (filter (\<lambda>l. \<not> (starts_with (lower l) ''acceptable times:'' \<and>
        (has_sub (lower l) ''fill in'' \<or> has_sub (lower l) ''unavailable''))) (splitlines details))"

subsection \<open>Enrichments\<close>

definition blank_line :: string where
  "blank_line = newline @ newline"

definition apply_call_context :: "env \<Rightarrow> string \<Rightarrow> int option \<Rightarrow> string" where
  "apply_call_context E details user =
     (case en_call_block E user of
        Inl _ \<Rightarrow> details
      | Inr block \<Rightarrow> (if block = [] then details else rstrip details @ blank_line @ block))"

definition apply_availability_envelope :: "env \<Rightarrow> string \<Rightarrow> string \<Rightarrow> string \<Rightarrow> (world, string) io" where
  "apply_availability_envelope E hh goal details =
     (if \<not> is_scheduling_goal goal details then ret details
      else if has_sub (lower details) ''acceptable times'' \<and> \<not> has_sub (lower details) ''(fill in'' then ret details
      else (\<lambda>w. case perform (en_availability E) (FxQuery ''availability'' [hh]) w of
          (w', Inl _) \<Rightarrow> (w', Inr (ensure_times_section goal details))
        | (w', Inr (Inl _)) \<Rightarrow>
            (w', Inr (rstrip (strip_times_placeholder details) @ newline @
                      ''Acceptable times: (calendar unavailable - fill in your availability)''))
        | (w', Inr (Inr data)) \<Rightarrow>
            (case format_availability data of
               Inl e \<Rightarrow> (w', Inl e)
             | Inr None \<Rightarrow> (w', Inr (ensure_times_section goal details))
             | Inr (Some envl) \<Rightarrow>
                 (if envl = [] then (w', Inr (ensure_times_section goal details))
                  else (w', Inr (rstrip (strip_times_placeholder details) @ newline @ envl))))))"

definition draft_details :: "env \<Rightarrow> string \<Rightarrow> string \<Rightarrow> string option \<Rightarrow> (world, string) io" where
  "draft_details E business goal initiator = (\<lambda>w.
     case perform (en_llm E) (FxLlm ''call brief'' [business, goal, oor initiator []]) w of
       (w', Inl _) \<Rightarrow> (w', Inr (ensure_times_section goal goal))
     | (w', Inr content) \<Rightarrow> (w', Inr (ensure_times_section goal (oor (Some (strip content)) goal))))"

subsection \<open>Facts about the brief\<close>

text \<open>
  A scheduling call whose brief has no times section gets one, and the placeholder that is put
  there is never taken for a bound afterwards.
\<close>

lemma ensure_times_section_present:
  assumes "is_scheduling_goal goal details"
  shows "has_sub (lower (ensure_times_section goal details)) ''acceptable times''"
proof (cases "has_sub (lower details) ''acceptable times''")
  case False
  let ?p = "''acceptable times''" and ?r = "'': (fill in your availability before calling)''"
  have "lower times_placeholder = ?p @ ?r" by code_simp
  then have "lower (ensure_times_section goal details) = (lower (rstrip details) @ lower newline) @ ?p @ ?r"
    using False assms by (simp add: ensure_times_section_def lower_def)
  then show ?thesis unfolding has_sub_iff sublist_def by blast
qed (simp add: ensure_times_section_def)

lemma envelope_no_placeholder:
  assumes "extract_constraint_envelope (Some d) = Some t"
  obtains ls where "t = join newline ls" "ls \<noteq> []"
    "\<forall>l \<in> set ls. \<not> has_sub (lower l) ''(fill in'' \<and>
        (starts_with (lower l) ''acceptable times:'' \<or> starts_with (lower l) ''do not book:'')"
proof -
  define lines where "lines = map strip (filter (\<lambda>l. list_ex (starts_with (lower (strip l))) constraint_prefixes)
                                       (splitlines d))"
  define real where "real = filter (\<lambda>l. \<not> has_sub (lower l) ''(fill in'') lines"
  from assms have "t = join newline real" "real \<noteq> []"
    by (simp_all add: extract_constraint_envelope_def Let_def lines_def [symmetric] real_def [symmetric]
        split: if_splits)
  moreover have "\<forall>l \<in> set real. \<not> has_sub (lower l) ''(fill in'' \<and>
        (starts_with (lower l) ''acceptable times:'' \<or> starts_with (lower l) ''do not book:'')"
    by (auto simp: real_def lines_def constraint_prefixes_def)
  ultimately show ?thesis by (rule that)
qed

lemma keeps_availability [io_keeps]: "quiet P \<Longrightarrow> keeps P (apply_availability_envelope E hh goal details)"
  by (auto simp: keeps_def apply_availability_envelope_def io_simps run_perform quietD
      split: sum.splits option.splits)

lemma keeps_draft_details [io_keeps]: "quiet P \<Longrightarrow> keeps P (draft_details E business goal initiator)"
  by (auto simp: keeps_def draft_details_def run_perform quietD split: sum.splits)

end
