(* ===== verification/Phone_Plans.thy ===== *)
theory Phone_Plans
  imports Phone_Calls Call_Brief
begin

section \<open>Planning a call: resolve, draft, post the confirm card\<close>

text \<open>
  \<open>create_call_plan\<close> of \<^verbatim>\<open>app/services/phone_call_service.py\<close>. The web search, the gateway's
  line-type lookup, the initiator's name, the drafting model and the calendar are services of
  \<open>env\<close>. Failures end as an inbox card, never as an exception.
\<close>

definition post_card :: "env \<Rightarrow> card \<Rightarrow> (world, unit) io" where
  "post_card E c = catch (bind (perform (en_card E) (FxCard c)) (\<lambda>_. ret ())) (\<lambda>_. ret ())"

definition phone_card :: "string \<Rightarrow> int option \<Rightarrow> string \<Rightarrow> string \<Rightarrow> string \<Rightarrow> pydict \<Rightarrow> card" where
  "phone_card hh user title summary body metadata =
     \<lparr>cd_household = hh, cd_user = user, cd_title = title, cd_summary = summary, cd_body = body,
      cd_category = ''phone_call'', cd_metadata = metadata\<rparr>"

definition resolve_initiator_name :: "env \<Rightarrow> int option \<Rightarrow> (world, string option) io" where
  "resolve_initiator_name E user = (case user of
      None \<Rightarrow> ret None
    | Some u \<Rightarrow> catch (perform (en_name E) (FxQuery ''speaker name'' [int_str u])) (\<lambda>_. ret None))"

text \<open>Where the number came from: the number, its source, address, link, area, warning and note.\<close>

record resolution =
  rs_number :: "string option"
  rs_source :: "string option"
  rs_address :: "string option"
  rs_url :: "string option"
  rs_warning :: "string option"
  rs_note :: string

definition contact_number :: "phone_contact \<Rightarrow> string option" where
  "contact_number c = (case normalize_us_number (pc_number c) of Inl _ \<Rightarrow> None | Inr n \<Rightarrow> Some n)"

definition phonebook_resolution :: "phone_contact \<Rightarrow> resolution" where
  "phonebook_resolution c =
     \<lparr>rs_number = contact_number c,
      rs_source = (if contact_number c \<noteq> None then Some ''phonebook'' else None),
      rs_address = None, rs_url = None, rs_warning = None,
      rs_note = (if contact_number c \<noteq> None then ''This number is from your phonebook.'' else [])\<rparr>"

definition web_resolution :: "env \<Rightarrow> number_search \<Rightarrow> resolution" where
  "web_resolution E s = (case ns_number s of
      None \<Rightarrow> \<lparr>rs_number = None, rs_source = None, rs_address = None, rs_url = None, rs_warning = None,
              rs_note = search_miss_note (ns_reason s)\<rparr>
    | Some n \<Rightarrow> \<lparr>rs_number = Some n, rs_source = Some ''web'', rs_address = ns_address s, rs_url = ns_url s,
              rs_warning = en_mismatch E (ns_address s) (ns_near s),
              rs_note = ''I found this number via web search'' @
                (if otruthy (ns_near s) then '' (searched near '' @ oor (ns_near s) [] @ '')'' else []) @
                '' - check it before calling.''\<rparr>)"

definition call_plan_metadata :: "string \<Rightarrow> string \<Rightarrow> string option \<Rightarrow> string option \<Rightarrow> string \<Rightarrow> int \<Rightarrow> pydict" where
  "call_plan_metadata hh sid source number details expires =
     [(''household_id'', PStr hh), (''session_id'', PStr sid), (''number_source'', PStr (oor source ''none'')),
      (''editor_schema'', PInt 2),
      (''editable_fields'', PList [
         PDict [(''label'', PStr ''Phone number''), (''initial'', PStr (oor number [])),
                (''data_key'', PStr ''dialed_number''), (''input_type'', PStr ''tel''), (''required'', PBool True)],
         PDict [(''label'', PStr ''Details''), (''initial'', PStr details),
                (''data_key'', PStr ''details''), (''input_type'', PStr ''multiline''), (''required'', PBool True)]]),
      (''expires_at'', PInt expires),
      (''interactive_elements'', PList [
         PDict [(''id'', PStr ''confirm-call''), (''label'', PStr ''Call now''), (''command'', PStr ''make_phone_call''),
                (''callback'', PStr ''confirm_call''), (''target'', PStr ''server''),
                (''data'', PDict [(''session_id'', PStr sid), (''dialed_number'', PStr []), (''details'', PStr [])])],
         PDict [(''id'', PStr ''cancel-call''), (''label'', PStr ''Cancel''), (''command'', PStr ''make_phone_call''),
                (''callback'', PStr ''cancel_call''), (''target'', PStr ''server''),
                (''data'', PDict [(''session_id'', PStr sid)])]])]"

definition new_session :: "string \<Rightarrow> string \<Rightarrow> int option \<Rightarrow> phone_contact option \<Rightarrow> string \<Rightarrow> string \<Rightarrow> string
    \<Rightarrow> resolution \<Rightarrow> string option \<Rightarrow> int option \<Rightarrow> string \<Rightarrow> int \<Rightarrow> int \<Rightarrow> phone_session" where
  "new_session sid hh user contact business goal details rs errand step line_type now ttl =
     \<lparr>ps_id = sid, ps_household = hh, ps_user = user, ps_confirmed_by = None,
      ps_contact_id = map_option pc_id contact,
      ps_contact_name = Some (case contact of None \<Rightarrow> business | Some c \<Rightarrow> pc_name c),
      ps_contact_address =
        (case contact of None \<Rightarrow> rs_address rs
         | Some c \<Rightarrow> if otruthy (pc_address c) then pc_address c else rs_address rs),
      ps_errand_id = errand, ps_errand_step = step,
      ps_goal = goal, ps_details = Some details, ps_constraints = None,
      ps_resolved = rs_number rs, ps_dialed = None, ps_edited = False, ps_line_type = Some line_type,
      ps_state = ''draft'', ps_error = None, ps_transcript = [], ps_outcome = None, ps_audio_key = None,
      ps_worker = None, ps_heartbeat = None, ps_twilio_sid = None, ps_duration = None,
      ps_created_at = now, ps_confirmed_at = None,
      ps_expires_at = Some (now + ttl * minute_us), ps_ended_at = None\<rparr>"

definition plan_card_text :: "resolution \<Rightarrow> string \<Rightarrow> string" where
  "plan_card_text rs mobile_note =
     (case rs_warning rs of None \<Rightarrow> [] | Some t \<Rightarrow> if t = [] then [] else t @ blank_line) @
     ''Review the number and details, then tap **Call now**. '' @ rs_note rs @
     (if otruthy (rs_url rs) then '' Source: '' @ oor (rs_url rs) [] else []) @
     '' The call will open with an AI + recording disclosure.'' @ mobile_note"

text \<open>The tail of the plan, once the number is resolved: the brief, the draft row and its card.\<close>

definition draft_call :: "env \<Rightarrow> string \<Rightarrow> string \<Rightarrow> string \<Rightarrow> int option \<Rightarrow> string option \<Rightarrow> int option
    \<Rightarrow> string \<Rightarrow> phone_contact option \<Rightarrow> resolution \<Rightarrow> string \<Rightarrow> (world, string option) io" where
  "draft_call E business goal hh user errand step prior contact rs line_type0 =
     bind (if otruthy (rs_number rs) \<and> line_type0 = ''unknown''
           then lookup_line_type E (oor (rs_number rs) []) else ret line_type0) (\<lambda>line_type.
     bind (resolve_initiator_name E user) (\<lambda>initiator.
     bind (draft_details E business goal initiator) (\<lambda>d0.
     bind (apply_availability_envelope E hh goal d0) (\<lambda>d1.
     let d2 = apply_call_context E d1 user;
         details = (if prior = [] then d2 else rstrip d2 @ blank_line @ prior);
         ttl = int_setting E ''phone_calls.plan_ttl_minutes'' hh 20 in
     bind (gets w_now) (\<lambda>now.
     bind (insert_session (\<lambda>sid. new_session sid hh user contact business goal details rs errand step
                             line_type now ttl)) (\<lambda>sid.
     let mobile_note = (if line_type = ''mobile'' then '' Note: this appears to be a mobile number.'' else []);
         name = (case contact of None \<Rightarrow> business | Some c \<Rightarrow> pc_name c) in
     bind (post_card E (phone_card hh user (''Call plan: '' @ name) (goal @ mobile_note)
             (plan_card_text rs mobile_note)
             (call_plan_metadata hh sid (rs_source rs) (rs_number rs) details (now + ttl * minute_us)))) (\<lambda>_.
     ret (Some sid))))))))"

definition create_call_plan :: "env \<Rightarrow> string \<Rightarrow> string \<Rightarrow> string \<Rightarrow> int option \<Rightarrow> string option \<Rightarrow> int option
    \<Rightarrow> string \<Rightarrow> (world, string option) io" where
  "create_call_plan E business goal hh user errand step prior =
     catch
       (bind (gets (check_caps E hh)) (\<lambda>refusal.
        case refusal of
          Some why \<Rightarrow> bind (post_card E (phone_card hh user ''Call not started'' why [] [(''household_id'', PStr hh)]))
                          (\<lambda>_. ret None)
        | None \<Rightarrow>
          bind (gets (resolve_contact E hh business)) (\<lambda>contact.
          case contact of
            Some c \<Rightarrow>
              if pc_do_not_call c then
                bind (post_card E (phone_card hh user ''Call refused''
                        (pc_name c @ '' is marked do-not-call for this household.'')
                        ''Remove the do-not-call flag from the phonebook to call them again.''
                        [(''household_id'', PStr hh)])) (\<lambda>_. ret None)
              else draft_call E business goal hh user errand step prior contact (phonebook_resolution c)
                     (oor (pc_line_type c) ''unknown'')
          | None \<Rightarrow>
              bind (perform (en_search E) (FxQuery ''business number'' [business, hh])) (\<lambda>s.
              draft_call E business goal hh user errand step prior None (web_resolution E s) ''unknown''))))
       (\<lambda>e. bind (post_card E (phone_card hh user ''Call plan failed'' (''Couldn't prepare the call: '' @ exc_str e) []
                    [(''household_id'', PStr hh)])) (\<lambda>_. ret None))"

subsection \<open>What planning keeps\<close>

lemma noraise_post_card [simp]: "noraise (post_card E c)"
  unfolding post_card_def by (rule noraise_catch) simp

lemma noraise_create_call_plan: "noraise (create_call_plan E business goal hh user errand step prior)"
  unfolding create_call_plan_def by (intro noraise_catch noraise_bind) simp_all

lemma run_post_card: "post_card E c w = (log_effect (FxCard c) w, Inr ())"
  by (simp add: post_card_def io_simps run_perform split: sum.splits)

lemma phone_card_category [simp]: "cd_category (phone_card hh u t s b m) = ''phone_call''"
  by (simp add: phone_card_def)

lemma phone_card_no_report: "\<not> is_report (FxCard (phone_card hh u t s b m))"
  by simp

lemma keeps_post_card [io_keeps]: "quiet P \<Longrightarrow> \<not> is_report (FxCard c) \<Longrightarrow> keeps P (post_card E c)"
  by (simp add: keeps_def run_post_card quietD)

lemma keeps_line_type [io_keeps]: "quiet P \<Longrightarrow> keeps P (lookup_line_type E n)"
  by (auto simp: keeps_def lookup_line_type_def run_perform quietD split: sum.splits)

lemma keeps_initiator [io_keeps]: "quiet P \<Longrightarrow> keeps P (resolve_initiator_name E u)"
  unfolding resolve_initiator_name_def by (cases u) (auto intro!: io_keeps)

text \<open>
  A predicate that survives logging and the insertion of a draft session of this household survives
  planning.
\<close>

lemma keeps_create_call_plan:
  assumes log: "quiet P"
    and ins: "\<And>mk. (\<And>sid. ps_id (mk sid) = sid \<and> ps_state (mk sid) = ''draft'' \<and> ps_household (mk sid) = hh \<and>
                  ps_errand_id (mk sid) = errand \<and> ps_errand_step (mk sid) = step) \<Longrightarrow> keeps P (insert_session mk)"
  shows "keeps P (create_call_plan E business goal hh user errand step prior)"
proof -
  have d: "keeps P (draft_call E business goal hh user errand step prior contact rs lt)" for contact rs lt
    unfolding draft_call_def Let_def
    by (intro io_keeps log ins phone_card_no_report) (simp_all add: new_session_def)
  show ?thesis
    unfolding create_call_plan_def by (intro io_keeps d log phone_card_no_report) auto
qed

text \<open>
  A plan that returns a session has appended exactly that draft, linked to the errand step that
  asked for it, and left the rest of the state alone but for the log.
\<close>

definition same_tables :: "world \<Rightarrow> world \<Rightarrow> bool" where
  "same_tables w w' \<longleftrightarrow> w_now w' = w_now w \<and> w_seq w' = w_seq w \<and> w_sessions w' = w_sessions w \<and>
     w_workflows w' = w_workflows w \<and> w_plans w' = w_plans w \<and> w_contacts w' = w_contacts w \<and> w_tasks w' = w_tasks w"

lemma quiet_same_tables [simp]: "quiet (same_tables w)"
  by (simp add: quiet_def same_tables_def)

lemma same_tables_refl [simp]: "same_tables w w"
  by (simp add: same_tables_def)

lemma same_tables_log [simp]: "same_tables w (log_effect e w') \<longleftrightarrow> same_tables w w'"
  by (simp add: same_tables_def)

lemma same_tables_step:
  "keeps (same_tables w) m \<Longrightarrow> same_tables w w1 \<Longrightarrow> m w1 = (w2, r) \<Longrightarrow> same_tables w w2"
  by (rule keepsD')

lemma bindE:
  assumes "bind m f w = (w', Inr y)"
  obtains w1 x where "m w = (w1, Inr x)" "f x w1 = (w', Inr y)"
  using assms by (auto simp: io_simps split: prod.splits sum.splits)

lemma draft_call_Some:
  assumes "draft_call E business goal hh user errand step prior contact rs lt w = (w', Inr (Some sid))"
  shows "\<exists>s. w_sessions w' = w_sessions w @ [s] \<and> sid = ''call_'' @ nat_str (w_seq w) \<and> ps_id s = sid \<and>
     ps_state s = ''draft'' \<and> ps_household s = hh \<and> ps_errand_id s = errand \<and> ps_errand_step s = step \<and>
     ps_created_at s = w_now w \<and> ps_outcome s = None \<and>
     ps_expires_at s = Some (w_now w + int_setting E ''phone_calls.plan_ttl_minutes'' hh 20 * minute_us) \<and>
     w_now w' = w_now w \<and> w_seq w' = Suc (w_seq w) \<and> w_workflows w' = w_workflows w \<and> w_plans w' = w_plans w \<and> w_tasks w' = w_tasks w"
proof -
  from assms obtain w1 l1 w2 nm w3 d0 w4 d1 w5 where
    1: "(if otruthy (rs_number rs) \<and> lt = ''unknown'' then lookup_line_type E (oor (rs_number rs) []) else ret lt) w
          = (w1, Inr l1)" and
    2: "resolve_initiator_name E user w1 = (w2, Inr nm)" and
    3: "draft_details E business goal nm w2 = (w3, Inr d0)" and
    4: "apply_availability_envelope E hh goal d0 w3 = (w4, Inr d1)" and
    5: "insert_session (\<lambda>sid. new_session sid hh user contact business goal
           (if prior = [] then apply_call_context E d1 user
            else rstrip (apply_call_context E d1 user) @ blank_line @ prior) rs errand step l1 (w_now w4)
           (int_setting E ''phone_calls.plan_ttl_minutes'' hh 20)) w4 = (w5, Inr sid)" and
    6: "same_tables w5 w'"
    unfolding draft_call_def Let_def
    by (elim bindE) (auto simp: run_gets run_post_card run_ret)
  have k: "keeps (same_tables w) (if otruthy (rs_number rs) \<and> lt = ''unknown''
          then lookup_line_type E (oor (rs_number rs) []) else ret lt)"
    "keeps (same_tables w) (resolve_initiator_name E user)"
    "keeps (same_tables w) (draft_details E business goal nm)"
    "keeps (same_tables w) (apply_availability_envelope E hh goal d0)"
    by (auto intro!: io_keeps)
  have "same_tables w w1" using same_tables_step [OF k(1), of w w1 "Inr l1"] 1 by simp
  then have "same_tables w w2" using same_tables_step [OF k(2), of w1 w2 "Inr nm"] 2 by simp
  then have "same_tables w w3" using same_tables_step [OF k(3), of w2 w3 "Inr d0"] 3 by simp
  then have "same_tables w w4" using same_tables_step [OF k(4), of w3 w4 "Inr d1"] 4 by simp
  with 5 6 show ?thesis
    by (auto simp: insert_session_def Let_def same_tables_def new_session_def)
qed

lemma create_call_plan_Some:
  assumes "create_call_plan E business goal hh user errand step prior w = (w', Inr (Some sid))"
  shows "check_caps E hh w = None \<and>
    (\<exists>s. w_sessions w' = w_sessions w @ [s] \<and> sid = ''call_'' @ nat_str (w_seq w) \<and> ps_id s = sid \<and>
     ps_state s = ''draft'' \<and> ps_household s = hh \<and> ps_errand_id s = errand \<and> ps_errand_step s = step \<and>
     ps_created_at s = w_now w \<and> ps_outcome s = None \<and>
     ps_expires_at s = Some (w_now w + int_setting E ''phone_calls.plan_ttl_minutes'' hh 20 * minute_us) \<and>
     w_now w' = w_now w \<and> w_seq w' = Suc (w_seq w) \<and> w_workflows w' = w_workflows w \<and> w_plans w' = w_plans w \<and> w_tasks w' = w_tasks w)"
proof -
  have "check_caps E hh w = None \<and> (\<exists>w1 contact rs lt. same_tables w w1 \<and>
    draft_call E business goal hh user errand step prior contact rs lt w1 = (w', Inr (Some sid)))"
    using assms
    by (auto simp: create_call_plan_def io_simps run_post_card run_perform
        split: option.splits if_splits sum.splits prod.splits)
      (metis same_tables_log same_tables_refl)+
  then obtain w1 contact rs lt where "check_caps E hh w = None" and st: "same_tables w w1" and
    d: "draft_call E business goal hh user errand step prior contact rs lt w1 = (w', Inr (Some sid))"
    by blast
  from draft_call_Some [OF d] st \<open>check_caps E hh w = None\<close> show ?thesis
    by (simp add: same_tables_def)
qed

end
