(* ===== verification/Callback_Registry.thy ===== *)
theory Callback_Registry
  imports CC_State "HOL-Library.List_Lexorder" "HOL-Library.Product_Lexorder"
begin

section \<open>Server-plane callbacks: contexts, results and the handler registry\<close>

text \<open>
  \<^verbatim>\<open>app/services/server_callback_registry.py\<close>: a tap on an interactive card arrives as a command and a
  callback name; the registry maps the pair to a handler, which gets a snapshot of the tap and
  returns a result. Handlers are effectful computations over the durable state; an exception that
  leaves a handler marks the job failed.
\<close>

record cb_ctx =
  cx_job :: string
  cx_household :: string
  cx_user :: "int option"
  cx_data :: pydict
  cx_navigation :: string

record cb_result =
  cr_success :: bool
  cr_error :: "string option"
  cr_context :: "pydict option"

type_synonym 'w handler = "cb_ctx \<Rightarrow> ('w, cb_result) io"

type_synonym 'w handlers = "((string \<times> string) \<times> 'w handler) list"

text \<open>The handlers of the errand runner and the phone stack work on the durable state.\<close>

type_synonym cb_handler = "world handler"

type_synonym cb_registry = "world handlers"

definition cb_ok :: cb_result where
  "cb_ok = \<lparr>cr_success = True, cr_error = None, cr_context = None\<rparr>"

definition cb_fail :: "string \<Rightarrow> cb_result" where
  "cb_fail msg = \<lparr>cr_success = False, cr_error = Some msg, cr_context = None\<rparr>"

definition inbox_context :: "string \<Rightarrow> string \<Rightarrow> pydict \<Rightarrow> pydict" where
  "inbox_context title summary metadata =
     [(''inbox'', PDict [(''title'', PStr title), (''summary'', PStr summary), (''metadata'', PDict metadata)])]"

definition cb_inbox :: "string \<Rightarrow> string \<Rightarrow> pydict \<Rightarrow> cb_result" where
  "cb_inbox title summary metadata =
     \<lparr>cr_success = True, cr_error = None, cr_context = Some (inbox_context title summary metadata)\<rparr>"

definition register_server_callback :: "string \<Rightarrow> string \<Rightarrow> 'w handler \<Rightarrow> 'w handlers \<Rightarrow> 'w handlers" where
  "register_server_callback cmd cb h reg = AList.update (cmd, cb) h reg"

definition unregister_server_callback :: "string \<Rightarrow> string \<Rightarrow> 'w handlers \<Rightarrow> 'w handlers" where
  "unregister_server_callback cmd cb reg = AList.delete (cmd, cb) reg"

definition get_server_callback :: "string \<Rightarrow> string \<Rightarrow> 'w handlers \<Rightarrow> 'w handler option" where
  "get_server_callback cmd cb reg = map_of reg (cmd, cb)"

definition registered_server_callbacks :: "'w handlers \<Rightarrow> (string \<times> string) list" where
  "registered_server_callbacks reg = sort (map fst reg)"

lemma cb_ok_simps [simp]: "cr_success cb_ok" "cr_error cb_ok = None"
  by (simp_all add: cb_ok_def)

lemma cb_fail_simps [simp]: "\<not> cr_success (cb_fail m)" "cr_error (cb_fail m) = Some m"
  by (simp_all add: cb_fail_def)

lemma cb_inbox_simps [simp]: "cr_success (cb_inbox t s m)" "cr_error (cb_inbox t s m) = None"
  by (simp_all add: cb_inbox_def)

text \<open>The contract of the table, as an interface: what a lookup returns after each operation.\<close>

locale callback_table =
  fixes reg :: "string \<Rightarrow> string \<Rightarrow> 'h \<Rightarrow> 't \<Rightarrow> 't"
    and unreg :: "string \<Rightarrow> string \<Rightarrow> 't \<Rightarrow> 't"
    and look :: "string \<Rightarrow> string \<Rightarrow> 't \<Rightarrow> 'h option"
  assumes look_reg: "look c b (reg c' b' h t) = (if c = c' \<and> b = b' then Some h else look c b t)"
    and look_unreg: "look c b (unreg c' b' t) = (if c = c' \<and> b = b' then None else look c b t)"
begin

text \<open>Registering a batch: the last registration of a pair wins, other pairs are kept.\<close>

lemma look_batch:
  "look c b (foldl (\<lambda>t (c', b', h). reg c' b' h t) t hs) =
   (case map_of (rev (map (\<lambda>(c', b', h). ((c', b'), h)) hs)) (c, b) of
      Some h \<Rightarrow> Some h | None \<Rightarrow> look c b t)"
proof (induction hs rule: rev_induct)
  case (snoc x hs)
  obtain c' b' h where "x = (c', b', h)" by (cases x) auto
  with snoc show ?case by (simp add: look_reg)
qed simp

lemma look_reg_unreg: "look c b (unreg c b (reg c b h t)) = None"
  by (simp add: look_unreg)

end

interpretation cbt: callback_table register_server_callback unregister_server_callback get_server_callback
  by unfold_locales
    (auto simp: register_server_callback_def unregister_server_callback_def get_server_callback_def
      update_conv delete_conv)

end
