(* ===== verification/Phone_Sessions.thy ===== *)
theory Phone_Sessions
  imports Phone_Plans Callback_Registry
begin

section \<open>Confirming, running and ending a call\<close>

text \<open>
  The confirm, cancel and escalation callbacks and the reaper of
  \<^verbatim>\<open>app/services/phone_call_service.py\<close>, and the event endpoint of \<^verbatim>\<open>app/api/phone_sessions.py\<close>. An
  HTTP error is the exception \<open>HTTPError\<close>. The resumption of an errand, which the endpoint
  schedules as a background task, is the signal it returns.
\<close>

definition find_hh_session :: "pyval \<Rightarrow> string \<Rightarrow> world \<Rightarrow> phone_session option" where
  "find_hh_session i hh w = (case i of
      PStr s \<Rightarrow> find (\<lambda>r. ps_id r = s \<and> ps_household r = hh) (w_sessions w)
    | _ \<Rightarrow> None)"

definition ctx_text :: "pydict \<Rightarrow> string \<Rightarrow> exc + string" where
  "ctx_text data k = rbind (as_str (por (dget data k) (PStr []))) (\<lambda>s. Inr (strip s))"

text \<open>Apply a transition to a row, with a note on it whether or not it was legal.\<close>

definition move_session :: "int \<Rightarrow> string \<Rightarrow> string \<Rightarrow> world \<Rightarrow> world" where
  "move_session now sid to = upd_session sid (\<lambda>s. fst (transition now s to))"

definition note_session :: "string \<Rightarrow> string \<Rightarrow> world \<Rightarrow> world" where
  "note_session sid msg = upd_session sid (\<lambda>s. s\<lparr>ps_error := Some msg\<rparr>)"

subsection \<open>Confirm, cancel, escalation\<close>

definition enqueue_dial :: "env \<Rightarrow> string \<Rightarrow> string \<Rightarrow> (world, unit) io" where
  "enqueue_dial E sid hh = perform (en_dial E) (FxDial sid hh)"

definition confirm_edit :: "string \<Rightarrow> string \<Rightarrow> int option \<Rightarrow> phone_session \<Rightarrow> phone_session" where
  "confirm_edit dialed details user s =
     s\<lparr>ps_dialed := Some dialed, ps_edited := (dialed \<noteq> oor (ps_resolved s) []),
       ps_details := Some details, ps_confirmed_by := user\<rparr>"

definition confirm_dial :: "env \<Rightarrow> cb_ctx \<Rightarrow> phone_session \<Rightarrow> int \<Rightarrow> string \<Rightarrow> string \<Rightarrow> (world, cb_result) io" where
  "confirm_dial E ctx s now dialed details =
     bind (modify (move_session now (ps_id s) ''confirmed'' \<circ>
                   upd_session (ps_id s) (confirm_edit dialed details (cx_user ctx)))) (\<lambda>_.
     catch
       (bind (enqueue_dial E (ps_id s) (cx_household ctx)) (\<lambda>_.
        ret (cb_inbox (''Calling '' @ oor (ps_contact_name s) ''None'' @ ''...'')
               ''You'll get a summary card when the call ends.''
               [(''household_id'', PStr (cx_household ctx)), (''session_id'', PStr (ps_id s))])))
       (\<lambda>e. bind (modify (note_session (ps_id s) (''dial enqueue failed: '' @ exc_str e) \<circ>
                          move_session now (ps_id s) ''failed''))
          (\<lambda>_. ret (cb_fail ''Couldn't start the call - try again in a minute.''))))"

definition handle_confirm_call :: "env \<Rightarrow> cb_handler" where
  "handle_confirm_call E ctx =
     (if \<not> truthy (dget (cx_data ctx) ''session_id'') then ret (cb_fail ''Missing session_id'')
      else bind (gets (find_hh_session (dget (cx_data ctx) ''session_id'') (cx_household ctx))) (\<lambda>found.
      case found of
        None \<Rightarrow> ret (cb_fail ''Call plan not found'')
      | Some s \<Rightarrow>
        bind (gets w_now) (\<lambda>now.
        if \<not> phone_calls_enabled E (cx_household ctx) then
          bind (modify (note_session (ps_id s) ''phone_calls.enabled turned off'' \<circ> move_session now (ps_id s) ''declined''))
            (\<lambda>_. ret (cb_fail ''Phone calls are disabled for this household.''))
        else if ps_state s \<noteq> ''draft'' then
          ret (cb_inbox ''Already handled'' (''This call plan is already '' @ ps_state s @ ''.'')
                 [(''household_id'', PStr (cx_household ctx))])
        else if (case ps_expires_at s of None \<Rightarrow> False | Some t \<Rightarrow> now > t) then
          bind (modify (move_session now (ps_id s) ''expired''))
            (\<lambda>_. ret (cb_fail ''This call plan expired. Ask Jarvis again to get a fresh one.''))
        else
        bind (gets (check_caps E (cx_household ctx))) (\<lambda>refusal.
        case refusal of
          Some why \<Rightarrow>
            bind (modify (note_session (ps_id s) why \<circ> move_session now (ps_id s) ''declined''))
              (\<lambda>_. ret (cb_fail why))
        | None \<Rightarrow>
          bind (lift (ctx_text (cx_data ctx) ''dialed_number'')) (\<lambda>raw.
          case normalize_us_number raw of
            Inl e \<Rightarrow> ret (cb_fail (exc_str e))
          | Inr dialed \<Rightarrow>
            bind (lift (ctx_text (cx_data ctx) ''details'')) (\<lambda>details.
            if details = [] then ret (cb_fail ''The call details can't be empty.'')
            else
            confirm_dial E ctx s now dialed details))))))"

definition handle_cancel_call :: "env \<Rightarrow> cb_handler" where
  "handle_cancel_call E ctx =
     bind (gets (find_hh_session (dget (cx_data ctx) ''session_id'') (cx_household ctx))) (\<lambda>found.
     case found of
       None \<Rightarrow> ret (cb_fail ''Call plan not found'')
     | Some s \<Rightarrow>
       bind (gets w_now) (\<lambda>now.
       bind (if ps_state s = ''draft'' then modify (move_session now (ps_id s) ''declined'') else ret ()) (\<lambda>_.
       ret (cb_inbox ''Call cancelled'' (''Won't call '' @ oor (ps_contact_name s) ''None'' @ ''.'')
              [(''household_id'', PStr (cx_household ctx))]))))"

definition rstrip_slash :: "string \<Rightarrow> string" where
  "rstrip_slash s = rev (dropWhile (\<lambda>c. c = CHR ''/'') (rev s))"

definition handle_escalation_answer :: "env \<Rightarrow> cb_handler" where
  "handle_escalation_answer E ctx =
     bind (lift (ctx_text (cx_data ctx) ''answer'')) (\<lambda>answer.
     bind (gets (find_hh_session (dget (cx_data ctx) ''session_id'') (cx_household ctx))) (\<lambda>found.
     case found of
       None \<Rightarrow> ret (cb_fail ''This call is no longer active.'')
     | Some s \<Rightarrow>
       if \<not> otruthy (ps_worker s) then ret (cb_fail ''This call is no longer active.'')
       else if ps_state s \<notin> set call_active then ret (cb_fail ''The call already ended.'')
       else
       catch
         (bind (perform (en_worker E) (FxQuery ''escalation-answer''
                  [rstrip_slash (oor (ps_worker s) []), ps_id s, answer])) (\<lambda>status.
          ret (if status \<noteq> 200 then cb_fail ''Couldn't reach the call - it may have just ended.'' else cb_ok)))
         (\<lambda>_. ret (cb_fail ''Couldn't reach the call - it may have just ended.''))))"

definition register_phone_callbacks :: "env \<Rightarrow> cb_registry \<Rightarrow> cb_registry" where
  "register_phone_callbacks E reg =
     foldl (\<lambda>t (c, b, h). register_server_callback c b h t) reg
       [(''make_phone_call'', ''confirm_call'', handle_confirm_call E),
        (''make_phone_call'', ''cancel_call'', handle_cancel_call E),
        (''make_phone_call'', ''escalation_answer'', handle_escalation_answer E)]"

subsection \<open>Cards about a finished or waiting call\<close>

definition fact_lines :: "pyval \<Rightarrow> string" where
  "fact_lines facts = (case facts of
      PDict d \<Rightarrow> join newline (map (\<lambda>(k, v). ''- **'' @ k @ ''**: '' @ py_str v) (filter (\<lambda>(k, v). truthy v) d))
    | PList xs \<Rightarrow> join newline (map (\<lambda>f. ''- '' @ py_str f) (filter truthy xs))
    | _ \<Rightarrow> if truthy facts then ''- '' @ py_str facts else [])"

definition outcome_card :: "phone_session \<Rightarrow> card" where
  "outcome_card s =
     (let outcome = (case ps_outcome s of None \<Rightarrow> [] | Some d \<Rightarrow> d);
          achieved = dget outcome ''goal_achieved'';
          summary = py_str (por (dget outcome ''summary'') (PStr ''The call ended.''));
          lines = fact_lines (por (dget outcome ''facts'') (PList []));
          block = (if lines = [] then [] else blank_line @ ''What the business said:'' @ newline @ lines);
          icon = (if truthy achieved then ''[ok] '' else if achieved = PNone then ''[call] '' else ''[warn] '')
      in phone_card (ps_household s) (ps_user s)
           (icon @ ''Call finished: '' @ oor (ps_contact_name s) ''None'') summary
           (summary @ block @ blank_line @
            ''_Summary generated from the call transcript; statements above are the business's, not Jarvis's._'')
           ([(''household_id'', PStr (ps_household s)), (''session_id'', PStr (ps_id s))] @
            (if otruthy (ps_audio_key s) then [(''audio_object_key'', PStr (oor (ps_audio_key s) []))] else [])))"

definition escalation_card :: "int \<Rightarrow> phone_session \<Rightarrow> string \<Rightarrow> card" where
  "escalation_card now s question =
     phone_card (ps_household s) (ps_user s) ''The call needs your input''
       (''They asked: '' @ [CHR 0x22] @ question @ [CHR 0x22])
       (''On the call to **'' @ oor (ps_contact_name s) (oor (ps_dialed s) ''None'') @
        ''**, the person asked:'' @ blank_line @ ''> '' @ question @ blank_line @
        ''Answer quickly - Jarvis is holding the line and will offer a call-back if this window passes.'')
       [(''household_id'', PStr (ps_household s)), (''session_id'', PStr (ps_id s)), (''editor_schema'', PInt 2),
        (''editable_fields'', PList [
           PDict [(''label'', PStr ''Your answer''), (''initial'', PStr []), (''data_key'', PStr ''answer''),
                  (''input_type'', PStr ''multiline''), (''required'', PBool True)]]),
        (''expires_at'', PInt (now + 10 * minute_us)),
        (''interactive_elements'', PList [
           PDict [(''id'', PStr ''send-answer''), (''label'', PStr ''Send answer''), (''command'', PStr ''make_phone_call''),
                  (''callback'', PStr ''escalation_answer''), (''target'', PStr ''server''),
                  (''data'', PDict [(''session_id'', PStr (ps_id s)), (''answer'', PStr [])])],
           PDict [(''id'', PStr ''end-call''), (''label'', PStr ''End the call''), (''command'', PStr ''make_phone_call''),
                  (''callback'', PStr ''cancel_call''), (''target'', PStr ''server''),
                  (''data'', PDict [(''session_id'', PStr (ps_id s))])]])]"

lemma call_cards_category [simp]:
  "cd_category (outcome_card s) = ''phone_call''" "cd_category (escalation_card t s q) = ''phone_call''"
  by (simp_all add: outcome_card_def escalation_card_def Let_def)

subsection \<open>The phonebook after a call that worked\<close>

definition refresh_contact :: "int \<Rightarrow> string \<Rightarrow> phone_session \<Rightarrow> phone_contact \<Rightarrow> phone_contact" where
  "refresh_contact now number s c =
     c\<lparr>pc_number := number, pc_verified_at := Some now,
       pc_line_type := (if otruthy (ps_line_type s) \<and> ps_line_type s \<noteq> Some ''unknown''
                        then ps_line_type s else pc_line_type c),
       pc_address := (if otruthy (ps_contact_address s) \<and> \<not> otruthy (pc_address c)
                      then ps_contact_address s else pc_address c),
       pc_source := (if pc_source c = ''web'' then ''call'' else pc_source c)\<rparr>"

definition upsert_contact_from_call :: "phone_session \<Rightarrow> world \<Rightarrow> world" where
  "upsert_contact_from_call s w =
     (let number0 = oor (ps_dialed s) (oor (ps_resolved s) []);
          name = strip (oor (ps_contact_name s) []) in
      if ps_state s \<noteq> ''done'' \<or> number0 = [] \<or> name = [] then w
      else case normalize_us_number number0 of
        Inl _ \<Rightarrow> w
      | Inr number \<Rightarrow>
          (let key = (\<lambda>c. pc_household c = ps_household s \<and> pc_normalized c = normalize_name name) in
           case find key (w_contacts w) of
             Some c \<Rightarrow> w\<lparr>w_contacts := upd_where (\<lambda>r. pc_id r = pc_id c) (refresh_contact (w_now w) number s) (w_contacts w)\<rparr>
           | None \<Rightarrow>
               w\<lparr>w_seq := Suc (w_seq w),
                 w_contacts := w_contacts w @
                   [\<lparr>pc_id = ''contact_'' @ nat_str (w_seq w), pc_household = ps_household s, pc_name = name,
                     pc_normalized = normalize_name name, pc_number = number, pc_address = ps_contact_address s,
                     pc_source = ''call'',
                     pc_line_type = (if ps_line_type s \<noteq> Some ''unknown'' then ps_line_type s else None),
                     pc_do_not_call = False, pc_verified_at = Some (w_now w)\<rparr>]\<rparr>))"

subsection \<open>The gateway's events\<close>

record signal_outcome =
  so_errand :: "string option"
  so_step :: "int option"
  so_state :: "string option"
  so_contact_name :: "string option"
  so_error :: "string option"
  so_goal :: pyval
  so_outcome :: "pydict option"

definition resume_signal :: "phone_session \<Rightarrow> signal_outcome option" where
  "resume_signal s =
     (if otruthy (ps_errand_id s) then
        Some \<lparr>so_errand = ps_errand_id s, so_step = ps_errand_step s, so_state = Some (ps_state s),
              so_contact_name = ps_contact_name s, so_error = ps_error s, so_goal = PNone,
              so_outcome = ps_outcome s\<rparr>
      else None)"

datatype call_event =
    ClaimDial "string option"
  | StateEvent "string option" "string option" "int option" "string option"
  | TurnEvent "pydict option"
  | Heartbeat
  | EscalationEvent "string option"
  | OutcomeEvent "pydict option" "string option" "int option"
  | UnknownEvent string

definition ok_state :: "string \<Rightarrow> pydict" where
  "ok_state st = [(''status'', PStr ''ok''), (''state'', PStr st)]"

definition state_fields :: "int \<Rightarrow> string option \<Rightarrow> int option \<Rightarrow> string option \<Rightarrow> phone_session \<Rightarrow> phone_session" where
  "state_fields now sid dur err s =
     s\<lparr>ps_heartbeat := Some now,
       ps_twilio_sid := (if otruthy sid then sid else ps_twilio_sid s),
       ps_duration := (if dur \<noteq> None then dur else ps_duration s),
       ps_error := (if otruthy err then err else ps_error s)\<rparr>"

definition outcome_fields :: "int \<Rightarrow> pydict \<Rightarrow> string option \<Rightarrow> int option \<Rightarrow> phone_session \<Rightarrow> phone_session" where
  "outcome_fields now outcome audio dur s =
     s\<lparr>ps_outcome := Some outcome,
       ps_audio_key := (if otruthy audio then audio else ps_audio_key s),
       ps_duration := (if dur \<noteq> None then dur else ps_duration s),
       ps_heartbeat := Some now\<rparr>"

text \<open>An outcome lands a live session in its final state, through wrap-up when the call was up.\<close>

definition land_outcome :: "int \<Rightarrow> phone_session \<Rightarrow> phone_session" where
  "land_outcome now s =
     (if ps_state s \<in> set call_terminal then s
      else
        let s1 = (if ps_state s \<in> {''dialing'', ''in_call''} then fst (transition now s ''wrapup'') else s)
        in fst (transition now s1 ''done''))"

definition claim_row :: "int \<Rightarrow> string \<Rightarrow> phone_session \<Rightarrow> phone_session" where
  "claim_row now url r =
     (if ps_state r = ''confirmed''
      then r\<lparr>ps_state := ''dialing'', ps_worker := Some url, ps_heartbeat := Some now\<rparr> else r)"

definition post_event :: "env \<Rightarrow> string \<Rightarrow> call_event \<Rightarrow> (world, pydict \<times> signal_outcome option) io" where
  "post_event E sid ev =
     bind (gets (find_session sid)) (\<lambda>found.
     case found of
       None \<Rightarrow> throw (HTTPError 404 ''Session not found'')
     | Some s \<Rightarrow>
     bind (gets w_now) (\<lambda>now.
     case ev of
       ClaimDial worker \<Rightarrow>
         (if \<not> otruthy worker then throw (HTTPError 400 ''worker_url required'')
          else if ps_state s \<noteq> ''confirmed'' then throw (HTTPError 409 (''Session is '' @ ps_state s))
          else bind (modify (upd_session sid (claim_row now (oor worker [])))) (\<lambda>_.
               ret (ok_state ''dialing'', None)))
     | StateEvent st csid dur err \<Rightarrow>
         (if \<not> otruthy st then throw (HTTPError 400 ''state required'')
          else
            let to = oor st [] in
            if \<not> snd (transition now s to)
              then throw (HTTPError 409 (''Illegal transition '' @ ps_state s @ '' -> '' @ to))
            else
            bind (modify (upd_session sid (\<lambda>r. state_fields now csid dur err (fst (transition now r to))))) (\<lambda>_.
            let s' = state_fields now csid dur err (fst (transition now s to)) in
            bind (if to = ''failed''
                  then post_card E (phone_card (ps_household s) (ps_user s)
                         (''Call failed: '' @ oor (ps_contact_name s) ''None'')
                         (oor err ''The call could not be completed.'') []
                         [(''household_id'', PStr (ps_household s)), (''session_id'', PStr (ps_id s))])
                  else ret ()) (\<lambda>_.
            ret (ok_state (ps_state s'), if ps_state s' \<in> set call_terminal then resume_signal s' else None))))
     | TurnEvent t \<Rightarrow>
         (case t of
            None \<Rightarrow> throw (HTTPError 400 ''turn required'')
          | Some turn \<Rightarrow>
              if ps_state s \<notin> set call_active then throw (HTTPError 409 (''Session is '' @ ps_state s))
              else
              bind (modify (upd_session sid (\<lambda>r. r\<lparr>ps_transcript := ps_transcript r @ [PDict turn],
                                                   ps_heartbeat := Some now\<rparr>))) (\<lambda>_.
              ret ([(''status'', PStr ''ok''), (''turns'', PInt (int (Suc (length (ps_transcript s)))))], None)))
     | Heartbeat \<Rightarrow>
         (if ps_state s \<in> set call_terminal then throw (HTTPError 409 (''Session is '' @ ps_state s))
          else bind (modify (upd_session sid (\<lambda>r. r\<lparr>ps_heartbeat := Some now\<rparr>))) (\<lambda>_.
               ret ([(''status'', PStr ''ok'')], None)))
     | EscalationEvent q \<Rightarrow>
         (let question = strip (oor q []) in
          if question = [] then throw (HTTPError 400 ''question required'')
          else if ps_state s \<noteq> ''in_call'' then throw (HTTPError 409 (''Session is '' @ ps_state s))
          else
          bind (modify (upd_session sid (\<lambda>r. r\<lparr>ps_heartbeat := Some now\<rparr>))) (\<lambda>_.
          bind (post_card E (escalation_card now s question)) (\<lambda>_.
          ret ([(''status'', PStr ''ok'')], None))))
     | OutcomeEvent o' audio dur \<Rightarrow>
         (case o' of
            None \<Rightarrow> throw (HTTPError 400 ''outcome required'')
          | Some outcome \<Rightarrow>
              let s' = outcome_fields now outcome audio dur (land_outcome now s) in
              bind (modify (upd_session sid (\<lambda>r. outcome_fields now outcome audio dur (land_outcome now r)))) (\<lambda>_.
              bind (modify (upsert_contact_from_call s')) (\<lambda>_.
              bind (post_card E (outcome_card s')) (\<lambda>_.
              ret (ok_state (ps_state s'), resume_signal s')))))
     | UnknownEvent t \<Rightarrow> throw (HTTPError 400 (''Unknown event type '' @ repr_str t))))"

subsection \<open>The reaper\<close>

definition heartbeat_stale_us :: int where
  "heartbeat_stale_us = 60 * 1000000"

definition call_started :: "phone_session \<Rightarrow> int" where
  "call_started s = (case ps_confirmed_at s of Some t \<Rightarrow> t | None \<Rightarrow> ps_created_at s)"

definition over_time :: "env \<Rightarrow> int \<Rightarrow> phone_session \<Rightarrow> bool" where
  "over_time E now s \<longleftrightarrow>
     now - call_started s > (int_setting E ''phone_calls.max_call_seconds'' (ps_household s) 600 + 120) * 1000000"

definition lost_contact :: "int \<Rightarrow> phone_session \<Rightarrow> bool" where
  "lost_contact now s \<longleftrightarrow>
     (case ps_heartbeat s of Some t \<Rightarrow> t | None \<Rightarrow> call_started s) < now - heartbeat_stale_us"

definition reap_row :: "int \<Rightarrow> string \<Rightarrow> phone_session \<Rightarrow> phone_session" where
  "reap_row now reason r =
     r\<lparr>ps_error := Some reason, ps_state := ''failed'', ps_ended_at := Some now\<rparr>"

fun reap_active :: "env \<Rightarrow> int \<Rightarrow> phone_session list \<Rightarrow> int \<Rightarrow> (world, int) io" where
  "reap_active E now [] n = ret n"
| "reap_active E now (s # rest) n =
     (if \<not> (lost_contact now s \<or> over_time E now s) then reap_active E now rest n
      else
      let reason = (if over_time E now s then ''call exceeded the time limit'' else ''lost contact with the call'') in
      bind (modify (upd_session (ps_id s) (reap_row now reason))) (\<lambda>_.
      bind (if otruthy (ps_worker s)
            then catch (bind (perform (en_worker E) (FxQuery ''cancel''
                               [rstrip_slash (oor (ps_worker s) []), ps_id s])) (\<lambda>_. ret ())) (\<lambda>_. ret ())
            else ret ()) (\<lambda>_.
      bind (post_card E (phone_card (ps_household s) (ps_user s)
              (''Call ended: '' @ oor (ps_contact_name s) ''None'')
              (''The call was ended because Jarvis '' @ reason @ ''.'') []
              [(''household_id'', PStr (ps_household s)), (''session_id'', PStr (ps_id s))])) (\<lambda>_.
      reap_active E now rest (n + 1)))))"

definition draft_expired :: "int \<Rightarrow> phone_session \<Rightarrow> bool" where
  "draft_expired now s \<longleftrightarrow> ps_state s = ''draft'' \<and> (case ps_expires_at s of None \<Rightarrow> False | Some t \<Rightarrow> t < now)"

definition expire_drafts :: "int \<Rightarrow> world \<Rightarrow> world" where
  "expire_drafts now w =
     w\<lparr>w_sessions := upd_where (draft_expired now) (\<lambda>s. s\<lparr>ps_state := ''expired'', ps_ended_at := Some now\<rparr>) (w_sessions w)\<rparr>"

definition reap_phone_sessions :: "env \<Rightarrow> (world, int) io" where
  "reap_phone_sessions E =
     bind (gets w_now) (\<lambda>now.
     bind (gets (\<lambda>w. filter (\<lambda>s. ps_state s \<in> set call_active) (w_sessions w))) (\<lambda>active.
     bind (reap_active E now active 0) (\<lambda>n.
     bind (gets (\<lambda>w. length (filter (draft_expired now) (w_sessions w)))) (\<lambda>k.
     bind (modify (expire_drafts now)) (\<lambda>_.
     ret (n + int k))))))"

subsection \<open>One step of the phone stack\<close>

text \<open>
  A step is one handler, one event, one reaper pass, one plan, or the clock moving on. The errand
  runner's only writes to a session are plans and declines, which are steps too.
\<close>

inductive call_step :: "env \<Rightarrow> world \<Rightarrow> world \<Rightarrow> bool" for E where
  plan: "call_step E w (fst (create_call_plan E business goal hh user errand step prior w))"
| confirm: "call_step E w (fst (handle_confirm_call E ctx w))"
| cancel: "call_step E w (fst (handle_cancel_call E ctx w))"
| answer: "call_step E w (fst (handle_escalation_answer E ctx w))"
| event: "call_step E w (fst (post_event E sid ev w))"
| reap: "call_step E w (fst (reap_phone_sessions E w))"
| tick: "w_now w \<le> t \<Longrightarrow> call_step E w (w\<lparr>w_now := t\<rparr>)"

end
