(* ===== verification/Phone_Lifecycle.thy ===== *)
theory Phone_Lifecycle
  imports Phone_Sessions
begin

section \<open>The life of a call session, over every interleaving of handlers\<close>

text \<open>
  What every operation of the phone stack keeps: the identifiers of sessions, their progress along
  the state machine, and the authorisation of dial jobs. The properties of the component follow.
\<close>

subsection \<open>Progress of a row\<close>

definition call_rank :: "string \<Rightarrow> nat" where
  "call_rank st = (if st = ''draft'' then 0 else if st = ''confirmed'' then 1 else if st = ''dialing'' then 2
                   else if st = ''in_call'' then 3 else if st = ''wrapup'' then 4 else 5)"

definition adv_row :: "phone_session \<Rightarrow> phone_session \<Rightarrow> bool" where
  "adv_row r r' \<longleftrightarrow> ps_id r' = ps_id r \<and> ps_household r' = ps_household r \<and>
     (ps_state r' = ps_state r \<or> call_rank (ps_state r) < call_rank (ps_state r')) \<and>
     (ps_state r \<noteq> ''draft'' \<longrightarrow> ps_dialed r' = ps_dialed r)"

lemma adv_row_refl [simp]: "adv_row r r"
  by (simp add: adv_row_def)

lemma call_rank_draft: "call_rank st = 0 \<longleftrightarrow> st = ''draft''"
  by (simp add: call_rank_def)

lemma call_rank_le: "call_rank st \<le> 5"
  by (simp add: call_rank_def)

lemma call_rank_terminal: "st \<in> set call_terminal \<Longrightarrow> call_rank st = 5"
  by (auto simp: call_terminal_def call_rank_def)

lemma adv_row_trans: "adv_row r s \<Longrightarrow> adv_row s t \<Longrightarrow> adv_row r t"
  unfolding adv_row_def by (metis call_rank_draft less_nat_zero_code less_trans)

lemma allowed_rank: "to \<in> set (allowed_from st) \<Longrightarrow> call_rank st < call_rank to"
  by (auto simp: allowed_from_def call_transitions_def call_rank_def split: if_splits)

lemma adv_transition [simp]: "adv_row s (fst (transition now s to))"
  by (auto simp: adv_row_def transition_state dest: allowed_rank)

lemma adv_same_state:
  "ps_id r' = ps_id r \<Longrightarrow> ps_household r' = ps_household r \<Longrightarrow> ps_state r' = ps_state r \<Longrightarrow>
   ps_dialed r' = ps_dialed r \<Longrightarrow> adv_row r r'"
  by (simp add: adv_row_def)

lemma adv_state_fields [simp]: "adv_row s (state_fields now csid dur err (fst (transition now s to)))"
  by (rule adv_row_trans [OF adv_transition]) (rule adv_same_state, simp_all add: state_fields_def)

lemma adv_land_outcome: "adv_row s (land_outcome now s)"
  unfolding land_outcome_def Let_def by (auto intro: adv_row_trans [OF adv_transition adv_transition])

lemma adv_outcome_fields [simp]: "adv_row s (outcome_fields now oc audio dur (land_outcome now s))"
  by (rule adv_row_trans [OF adv_land_outcome]) (rule adv_same_state, simp_all add: outcome_fields_def)

lemma adv_claim_row [simp]: "adv_row s (claim_row now url s)"
  by (auto simp: claim_row_def adv_row_def call_rank_def)

subsection \<open>Well-formed tables\<close>

definition sessions_wf :: "world \<Rightarrow> bool" where
  "sessions_wf w \<longleftrightarrow> distinct (map ps_id (w_sessions w)) \<and>
     (\<forall>s \<in> set (w_sessions w). \<exists>n < w_seq w. ps_id s = ''call_'' @ nat_str n)"

definition kept :: "phone_session \<Rightarrow> world \<Rightarrow> bool" where
  "kept s0 w \<longleftrightarrow> sessions_wf w \<and> (\<exists>s. find_session (ps_id s0) w = Some s \<and> adv_row s0 s)"

lemma find_append: "find p (xs @ ys) = (case find p xs of Some x \<Rightarrow> Some x | None \<Rightarrow> find p ys)"
  by (induction xs) auto

lemma sessions_wf_same:
  "map ps_id (w_sessions w') = map ps_id (w_sessions w) \<Longrightarrow> w_seq w \<le> w_seq w' \<Longrightarrow>
   sessions_wf w \<Longrightarrow> sessions_wf w'"
proof -
  assume ids: "map ps_id (w_sessions w') = map ps_id (w_sessions w)" and le: "w_seq w \<le> w_seq w'"
    and wf: "sessions_wf w"
  have "ps_id ` set (w_sessions w') = ps_id ` set (w_sessions w)"
    using ids by (metis list.set_map)
  with wf le have "\<forall>i \<in> ps_id ` set (w_sessions w'). \<exists>n < w_seq w'. i = ''call_'' @ nat_str n"
    unfolding sessions_wf_def by (metis (no_types, lifting) image_iff less_le_trans)
  with wf ids show ?thesis by (simp add: sessions_wf_def)
qed

lemma kept_other:
  "w_sessions w' = w_sessions w \<Longrightarrow> w_seq w \<le> w_seq w' \<Longrightarrow> kept s0 w \<Longrightarrow> kept s0 w'"
  unfolding kept_def find_session_def by (metis sessions_wf_same)

lemma quiet_kept [simp]: "quiet (kept s0)"
  unfolding quiet_def by (auto intro: kept_other)

lemma kept_upd: "(\<And>r. adv_row r (f r)) \<Longrightarrow> kept s0 w \<Longrightarrow> kept s0 (upd_session j f w)"
proof -
  assume f: "\<And>r. adv_row r (f r)" and k: "kept s0 w"
  have id: "ps_id (f r) = ps_id r" for r using f [of r] by (simp add: adv_row_def)
  from k obtain s where s: "find_session (ps_id s0) w = Some s" "adv_row s0 s" by (auto simp: kept_def)
  have "map ps_id (w_sessions (upd_session j f w)) = map ps_id (w_sessions w)"
    by (simp add: upd_session_def map_upd_where id)
  with k have "sessions_wf (upd_session j f w)"
    by (auto simp: kept_def intro: sessions_wf_same)
  with s f [of s] adv_row_trans show ?thesis
    by (auto simp: kept_def find_session_upd id)
qed

lemma keeps_kept_upd [intro]: "(\<And>r. adv_row r (f r)) \<Longrightarrow> keeps (kept s0) (modify (upd_session j f))"
  by (rule keeps_modify) (rule kept_upd)

lemma keeps_kept_move: "keeps (kept s0) (modify (move_session now j to))"
  unfolding move_session_def by (rule keeps_kept_upd) simp

lemma kept_note_move: "keeps (kept s0) (modify (note_session j msg \<circ> move_session now j' to))"
proof (rule keeps_modify)
  fix w assume "kept s0 w"
  then have "kept s0 (move_session now j' to w)" unfolding move_session_def by (rule kept_upd [rotated]) simp
  then show "kept s0 ((note_session j msg \<circ> move_session now j' to) w)"
    unfolding note_session_def comp_def by (rule kept_upd [rotated]) (rule adv_same_state, simp_all)
qed

lemma keeps_kept_insert: "(\<And>sid. ps_id (mk sid) = sid) \<Longrightarrow> keeps (kept s0) (insert_session mk)"
proof (rule keepsI)
  fix w assume id: "\<And>sid. ps_id (mk sid) = sid" and k: "kept s0 w"
  let ?i = "''call_'' @ nat_str (w_seq w)"
  from k have new: "?i \<notin> ps_id ` set (w_sessions w)"
    by (force simp: kept_def sessions_wf_def)
  with k id have "sessions_wf (fst (insert_session mk w))"
    by (auto simp: insert_session_def Let_def kept_def sessions_wf_def less_Suc_eq)
  with k show "kept s0 (fst (insert_session mk w))"
    by (auto simp: kept_def find_session_def insert_session_def Let_def find_append)
qed

subsection \<open>Every operation keeps a session's progress\<close>

lemma kept_plan: "keeps (kept s0) (create_call_plan E business goal hh user errand step prior)"
  by (rule keeps_create_call_plan) (auto intro: keeps_kept_insert)

lemma kept_escalation: "keeps (kept s0) (handle_escalation_answer E ctx)"
  unfolding handle_escalation_answer_def by (intro io_keeps) auto

lemma kept_cancel: "keeps (kept s0) (handle_cancel_call E ctx)"
  unfolding handle_cancel_call_def by (intro io_keeps keeps_kept_move)

lemma find_hh_session_id: "find_hh_session i hh w = Some s \<Longrightarrow> i = PStr (ps_id s) \<and> ps_household s = hh \<and> s \<in> set (w_sessions w)"
  by (auto simp: find_hh_session_def split: pyval.splits dest: find_Some_props)

text \<open>The row a handler found is the only one with its identifier.\<close>

lemma find_unique:
  "distinct (map ps_id rows) \<Longrightarrow> s \<in> set rows \<Longrightarrow> find (\<lambda>r. ps_id r = ps_id s) rows = Some s"
  by (induction rows) auto

lemma find_hh_session_find:
  "sessions_wf w \<Longrightarrow> find_hh_session i hh w = Some s \<Longrightarrow> find_session (ps_id s) w = Some s"
  unfolding find_session_def sessions_wf_def by (metis find_hh_session_id find_unique)

lemma kept_upd_at:
  assumes "kept s0 w" "find_session j w = Some r" "adv_row r (f r)" "\<And>r. ps_id (f r) = ps_id r"
  shows "kept s0 (upd_session j f w)"
proof -
  have "map ps_id (w_sessions (upd_session j f w)) = map ps_id (w_sessions w)"
    by (simp add: upd_session_def map_upd_where assms(4))
  with assms(1) have "sessions_wf (upd_session j f w)"
    by (auto simp: kept_def intro: sessions_wf_same)
  with assms show ?thesis
    by (auto simp: kept_def find_session_upd intro: adv_row_trans)
qed

definition confirmed_world :: "cb_ctx \<Rightarrow> phone_session \<Rightarrow> int \<Rightarrow> string \<Rightarrow> string \<Rightarrow> world \<Rightarrow> world" where
  "confirmed_world ctx s now dialed details w =
     move_session now (ps_id s) ''confirmed'' (upd_session (ps_id s) (confirm_edit dialed details (cx_user ctx)) w)"

lemma run_confirm_dial:
  "confirm_dial E ctx s now dialed details w =
   (let w2 = log_effect (FxDial (ps_id s) (cx_household ctx)) (confirmed_world ctx s now dialed details w) in
    case en_dial E (w_log w2) of
      Inr _ \<Rightarrow> (w2, Inr (cb_inbox (''Calling '' @ oor (ps_contact_name s) ''None'' @ ''...'')
               ''You'll get a summary card when the call ends.''
               [(''household_id'', PStr (cx_household ctx)), (''session_id'', PStr (ps_id s))]))
    | Inl e \<Rightarrow> (note_session (ps_id s) (''dial enqueue failed: '' @ exc_str e) (move_session now (ps_id s) ''failed'' w2),
               Inr (cb_fail ''Couldn't start the call - try again in a minute.'')))"
  by (simp add: confirm_dial_def enqueue_dial_def io_simps run_perform confirmed_world_def Let_def
      split: sum.splits)

lemma confirm_edit_fields [simp]:
  "ps_id (confirm_edit d b u s) = ps_id s" "ps_household (confirm_edit d b u s) = ps_household s"
  "ps_state (confirm_edit d b u s) = ps_state s" "ps_dialed (confirm_edit d b u s) = Some d"
  "ps_errand_id (confirm_edit d b u s) = ps_errand_id s"
  by (simp_all add: confirm_edit_def)

lemma confirmed_world_find:
  "find_session (ps_id s) w = Some s \<Longrightarrow> ps_state s = ''draft'' \<Longrightarrow>
   find_session (ps_id s) (confirmed_world ctx s now dialed details w) =
     Some (enter_state now ''confirmed'' (confirm_edit dialed details (cx_user ctx) s))"
  by (simp add: confirmed_world_def move_session_def find_session_upd transition_def allowed_from_def
      call_transitions_def)

lemma kept_confirmed_world:
  assumes "kept s0 w" "find_session (ps_id s) w = Some s" "ps_state s = ''draft''"
  shows "kept s0 (confirmed_world ctx s now dialed details w)"
proof -
  have "kept s0 (upd_session (ps_id s) (confirm_edit dialed details (cx_user ctx)) w)"
    by (rule kept_upd_at [OF assms(1,2)]) (use assms(3) in \<open>simp_all add: adv_row_def\<close>)
  then show ?thesis
    unfolding confirmed_world_def move_session_def by (rule kept_upd [rotated]) simp
qed

lemma kept_log [intro]: "kept s0 w \<Longrightarrow> kept s0 (log_effect e w)"
  by (rule kept_other [of _ w]) simp_all

lemma kept_confirm_dial:
  assumes "kept s0 w" "find_session (ps_id s) w = Some s" "ps_state s = ''draft''"
  shows "kept s0 (fst (confirm_dial E ctx s now dialed details w))"
proof -
  have k: "kept s0 (log_effect e (confirmed_world ctx s now dialed details w))" for e
    using kept_confirmed_world [OF assms] by (rule kept_log)
  then have "kept s0 (note_session i m (move_session now j to (log_effect e (confirmed_world ctx s now dialed details w))))"
    for i m j to e
    using keepsD [OF kept_note_move k] by (simp add: io_simps)
  with k show ?thesis
    by (simp add: run_confirm_dial Let_def split: sum.splits)
qed

lemma kept_confirm: "keeps (kept s0) (handle_confirm_call E ctx)"
proof (rule keepsI)
  fix w assume k: "kept s0 w"
  have wf: "sessions_wf w" using k by (simp add: kept_def)
  have mv: "kept s0 (move_session now j to w)" for now j to
    using keepsD [OF keeps_kept_move k] by (simp add: io_simps)
  have nm: "kept s0 (note_session i m (move_session now j to w))" for i m now j to
    using keepsD [OF kept_note_move k] by (simp add: io_simps)
  show "kept s0 (fst (handle_confirm_call E ctx w))"
  proof (cases "find_hh_session (dget (cx_data ctx) ''session_id'') (cx_household ctx) w")
    case None
    with k show ?thesis by (simp add: handle_confirm_call_def io_simps)
  next
    case (Some s)
    from find_hh_session_find [OF wf Some] have f: "find_session (ps_id s) w = Some s" .
    have cd: "ps_state s = ''draft'' \<Longrightarrow> kept s0 (fst (confirm_dial E ctx s now dialed details w))" for now dialed details
      using kept_confirm_dial [OF k f] .
    from Some k mv nm cd show ?thesis
      by (simp add: handle_confirm_call_def io_simps split: option.splits sum.splits)
  qed
qed

lemma kept_upsert: "keeps (kept s0) (modify (upsert_contact_from_call s))"
  by (rule keeps_modify)
    (auto simp: upsert_contact_from_call_def Let_def intro: kept_other split: sum.splits option.splits)

lemma adv_touch [simp]:
  "adv_row r (r\<lparr>ps_heartbeat := t\<rparr>)" "adv_row r (r\<lparr>ps_transcript := ts, ps_heartbeat := t\<rparr>)"
  by (simp_all add: adv_row_def)

lemma kept_event: "keeps (kept s0) (post_event E sid ev)"
  unfolding post_event_def Let_def
  by (intro io_keeps; cases ev)
    (auto intro!: io_keeps keeps_kept_upd kept_upsert split: option.splits)

subsection \<open>The reaper\<close>

lemma run_reap_one:
  "reap_active E now (s # rest) n w =
   (if \<not> (lost_contact now s \<or> over_time E now s) then reap_active E now rest n w
    else
      let reason = (if over_time E now s then ''call exceeded the time limit'' else ''lost contact with the call'');
          w1 = upd_session (ps_id s) (reap_row now reason) w;
          w2 = (if otruthy (ps_worker s) then log_effect (FxQuery ''cancel''
                               [rstrip_slash (oor (ps_worker s) []), ps_id s]) w1 else w1)
      in reap_active E now rest (n + 1)
           (log_effect (FxCard (phone_card (ps_household s) (ps_user s)
              (''Call ended: '' @ oor (ps_contact_name s) ''None'')
              (''The call was ended because Jarvis '' @ reason @ ''.'') []
              [(''household_id'', PStr (ps_household s)), (''session_id'', PStr (ps_id s))])) w2))"
  by (simp add: io_simps run_perform run_post_card Let_def split: sum.splits)

lemma reap_row_fields [simp]:
  "ps_id (reap_row now m r) = ps_id r" "ps_household (reap_row now m r) = ps_household r"
  "ps_state (reap_row now m r) = ''failed''" "ps_dialed (reap_row now m r) = ps_dialed r"
  by (simp_all add: reap_row_def)

lemma adv_reap_row: "ps_state r \<in> set call_active \<Longrightarrow> adv_row r (reap_row now m r)"
  by (auto simp: adv_row_def call_active_def call_rank_def)

lemma find_session_log [simp]: "find_session i (log_effect e w) = find_session i w"
  by (simp add: find_session_def)

lemma reap_active_kept:
  "kept s0 w \<Longrightarrow> distinct (map ps_id l) \<Longrightarrow>
   (\<forall>s \<in> set l. find_session (ps_id s) w = Some s \<and> ps_state s \<in> set call_active) \<Longrightarrow>
   kept s0 (fst (reap_active E now l n w))"
proof (induction l arbitrary: w n)
  case (Cons s rest)
  show ?case
  proof (cases "lost_contact now s \<or> over_time E now s")
    case False
    with Cons show ?thesis by (simp add: run_reap_one del: reap_active.simps)
  next
    case True
    define w1 where "w1 m = upd_session (ps_id s) (reap_row now m) w" for m
    have k1: "kept s0 (w1 m)" for m
      unfolding w1_def
      using Cons.prems(3) by (intro kept_upd_at [OF Cons.prems(1), of "ps_id s" s] adv_reap_row) simp_all
    have frame: "\<forall>r \<in> set rest. find_session (ps_id r) (w1 m) = Some r \<and> ps_state r \<in> set call_active" for m
    proof
      fix r assume r: "r \<in> set rest"
      with Cons.prems(2) have "ps_id r \<noteq> ps_id s" by (metis distinct.simps(2) image_eqI list.set_map list.simps(9))
      then have "find_session (ps_id r) (w1 m) = find_session (ps_id r) w"
        by (simp add: w1_def find_session_upd)
      with r Cons.prems(3) show "find_session (ps_id r) (w1 m) = Some r \<and> ps_state r \<in> set call_active"
        by simp
    qed
    have r: "kept s0 (fst (reap_active E now rest k (log_effect e (w1 m))))"
      "kept s0 (fst (reap_active E now rest k (log_effect e (log_effect e' (w1 m)))))" for k e e' m
      using k1 frame Cons.prems(2) by (intro Cons.IH; force)+
    from True show ?thesis
      by (simp add: run_reap_one Let_def w1_def [symmetric] r del: reap_active.simps)
  qed
qed (simp add: io_simps)

lemma adv_expire: "draft_expired now r \<Longrightarrow> adv_row r (r\<lparr>ps_state := ''expired'', ps_ended_at := t\<rparr>)"
  by (simp add: adv_row_def draft_expired_def call_rank_def)

lemma find_upd_where_pred:
  "(\<And>r. ps_id (f r) = ps_id r) \<Longrightarrow>
   find (\<lambda>r. ps_id r = i) (upd_where p f rows) =
   map_option (\<lambda>r. if p r then f r else r) (find (\<lambda>r. ps_id r = i) rows)"
  by (induction rows) auto

lemma kept_expire: "kept s0 w \<Longrightarrow> kept s0 (expire_drafts now w)"
proof -
  assume k: "kept s0 w"
  then obtain s where s: "find_session (ps_id s0) w = Some s" "adv_row s0 s" by (auto simp: kept_def)
  have "map ps_id (w_sessions (expire_drafts now w)) = map ps_id (w_sessions w)"
    by (simp add: expire_drafts_def map_upd_where)
  with k have "sessions_wf (expire_drafts now w)"
    by (auto simp: kept_def expire_drafts_def intro: sessions_wf_same)
  moreover have "find_session (ps_id s0) (expire_drafts now w) =
      Some (if draft_expired now s then s\<lparr>ps_state := ''expired'', ps_ended_at := Some now\<rparr> else s)"
    using s by (simp add: find_session_def expire_drafts_def find_upd_where_pred)
  ultimately show ?thesis using s adv_expire [of now s] adv_row_trans by (auto simp: kept_def)
qed

lemma kept_reap: "keeps (kept s0) (reap_phone_sessions E)"
proof (rule keepsI)
  fix w assume k: "kept s0 w"
  define active where "active = filter (\<lambda>s. ps_state s \<in> set call_active) (w_sessions w)"
  have d: "distinct (map ps_id (w_sessions w))" using k by (simp add: kept_def sessions_wf_def)
  then have "distinct (map ps_id active)" by (simp add: active_def distinct_map_filter)
  moreover have "\<forall>s \<in> set active. find_session (ps_id s) w = Some s \<and> ps_state s \<in> set call_active"
    using find_unique [OF d] by (auto simp: active_def find_session_def)
  ultimately have r: "kept s0 (fst (reap_active E (w_now w) active 0 w))"
    by (rule reap_active_kept [OF k])
  then show "kept s0 (fst (reap_phone_sessions E w))"
    by (auto simp: reap_phone_sessions_def io_simps active_def [symmetric] kept_expire split: prod.splits sum.splits)
qed

subsection \<open>Runs\<close>

lemma call_step_kept: "call_step E w w' \<Longrightarrow> kept s0 w \<Longrightarrow> kept s0 w'"
proof (induction rule: call_step.induct)
  case (tick w t)
  then show ?case by (intro kept_other [of "w\<lparr>w_now := t\<rparr>" w]) simp_all
qed (auto intro: keepsD kept_plan kept_confirm kept_cancel kept_escalation kept_event kept_reap)

lemma call_steps_kept: "(call_step E)\<^sup>*\<^sup>* w w' \<Longrightarrow> kept s0 w \<Longrightarrow> kept s0 w'"
  by (induction rule: rtranclp_induct) (auto intro: call_step_kept)

lemma kept_start: "sessions_wf w \<Longrightarrow> find_session i w = Some s \<Longrightarrow> kept s w"
  using find_session_id [of i w s] by (auto simp: kept_def)

end
