(* ===== verification/Sample_Data.thy ===== *)
theory Sample_Data
  imports CC_State
begin

section \<open>Concrete services and an empty database\<close>

text \<open>
  One set of services and one database at which the hypotheses of the properties hold: the settings
  are unset but for the switches that enable the features, a node answers a request with success,
  every tool succeeds, the model is silent, and the web search finds a number.
\<close>

definition sample_env :: env where
  "sample_env =
     \<lparr>en_node = \<lambda>l. Inr (PDict [(''success'', PBool True), (''spoken_response'', PStr ''Done.'')]),
      en_tool = \<lambda>l. Inr (Some (PDict [(''success'', PBool True), (''message'', PStr ''Found it.'')])),
      en_card = \<lambda>l. Inr (Some ''inbox_1''),
      en_refresh = \<lambda>l. Inr True,
      en_llm = \<lambda>l. Inr [],
      en_setting = \<lambda>k hh. if k \<in> {''phone_calls.enabled'', ''errands.phone_calls''} then Inr (PBool True)
                          else Inl (OtherError ''unset''),
      en_fuzzy = \<lambda>q cs. Inr None,
      en_search = \<lambda>l. Inr \<lparr>ns_number = Some ''+12015551234'', ns_address = None, ns_url = None,
                           ns_near = None, ns_reason = None\<rparr>,
      en_mismatch = \<lambda>a b. None,
      en_line_type = \<lambda>l. Inr ''landline'',
      en_name = \<lambda>l. Inr None,
      en_availability = \<lambda>l. Inr (Inl ''no calendar''),
      en_call_block = \<lambda>u. Inr [],
      en_dial = \<lambda>l. Inr (),
      en_worker = \<lambda>l. Inr 200,
      en_tools = [(''make_phone_call'', [(''function'', PDict [(''name'', PStr ''make_phone_call''),
                     (''description'', PStr ''Call a business'')])], True)],
      en_date_flat = \<lambda>l. []\<rparr>"

definition sample_world :: "int \<Rightarrow> world" where
  "sample_world now =
     \<lparr>w_now = now, w_seq = 0, w_workflows = [], w_plans = [], w_sessions = [], w_contacts = [], w_tasks = [], w_log = []\<rparr>"

end
