(* ===== verification/Phone_Safety.thy ===== *)
theory Phone_Safety
  imports Phone_Lifecycle Sample_Data
begin

section \<open>What the phone stack guarantees\<close>

text \<open>
  The properties of the phone stack, over every interleaving of plans, taps, gateway events, reaper
  passes and clock ticks: a call only moves forward, one worker wins the claim, and every dial job
  was authorised by exactly one confirm tap on a draft, with a validated number.
\<close>

subsection \<open>Only a confirm tap dials\<close>

definition dials :: "world \<Rightarrow> effect list" where
  "dials w = filter is_dial (w_log w)"

definition dials_are :: "effect list \<Rightarrow> world \<Rightarrow> bool" where
  "dials_are D w \<longleftrightarrow> dials w = D"

lemma dials_log [simp]: "dials (log_effect e w) = (if is_dial e then e # dials w else dials w)"
  by (simp add: dials_def)

lemma dials_upd [simp]: "dials (upd_session i f w) = dials w" "dials (move_session t i st w) = dials w"
  "dials (note_session i m w) = dials w" "dials (upsert_contact_from_call s w) = dials w"
  "dials (expire_drafts t w) = dials w" "dials (w\<lparr>w_now := t\<rparr>) = dials w"
  by (auto simp: dials_def move_session_def note_session_def upsert_contact_from_call_def Let_def
      expire_drafts_def split: sum.splits option.splits)

lemma quiet_dials [simp]: "quiet (dials_are D)"
  by (simp add: quiet_def dials_are_def)

lemma keeps_dials_modify: "(\<And>w. dials (f w) = dials w) \<Longrightarrow> keeps (dials_are D) (modify f)"
  by (simp add: dials_are_def keeps_def io_simps)

lemma keeps_dials_insert: "keeps (dials_are D) (insert_session mk)"
  by (simp add: dials_are_def keeps_def insert_session_def Let_def dials_def)

lemma dials_plan: "keeps (dials_are D) (create_call_plan E business goal hh user errand step prior)"
  by (rule keeps_create_call_plan) (simp_all add: keeps_dials_insert)

lemma dials_cancel: "keeps (dials_are D) (handle_cancel_call E ctx)"
  unfolding handle_cancel_call_def by (intro io_keeps keeps_dials_modify) simp

lemma dials_escalation: "keeps (dials_are D) (handle_escalation_answer E ctx)"
  unfolding handle_escalation_answer_def by (intro io_keeps) auto

lemma dials_event: "keeps (dials_are D) (post_event E sid ev)"
  unfolding post_event_def Let_def
  by (intro io_keeps; cases ev) (auto intro!: io_keeps keeps_dials_modify split: option.splits)

lemma dials_reap_active: "dials (fst (reap_active E now l n w)) = dials w"
proof (induction l arbitrary: n w)
  case (Cons s rest)
  then show ?case by (simp add: run_reap_one Let_def del: reap_active.simps)
qed (simp add: io_simps)

lemma dials_reap: "keeps (dials_are D) (reap_phone_sessions E)"
proof (rule keepsI)
  fix w assume "dials_are D w"
  then show "dials_are D (fst (reap_phone_sessions E w))"
    using dials_reap_active [of E "w_now w" "filter (\<lambda>s. ps_state s \<in> set call_active) (w_sessions w)" 0 w]
    by (auto simp: reap_phone_sessions_def io_simps dials_are_def split: prod.splits sum.splits)
qed

text \<open>A confirm tap dials once, for a draft it moves to confirmed, or not at all.\<close>

definition confirms :: "cb_ctx \<Rightarrow> phone_session \<Rightarrow> world \<Rightarrow> bool" where
  "confirms ctx s w \<longleftrightarrow> find_hh_session (dget (cx_data ctx) ''session_id'') (cx_household ctx) w = Some s \<and>
     ps_state s = ''draft''"

lemma confirm_cases:
  "dials (fst (handle_confirm_call E ctx w)) = dials w \<or>
   (\<exists>s raw n b. confirms ctx s w \<and> normalize_us_number raw = Inr n \<and>
      phone_calls_enabled E (cx_household ctx) \<and> check_caps E (cx_household ctx) w = None \<and>
      handle_confirm_call E ctx w = confirm_dial E ctx s (w_now w) n b w)"
proof -
  let ?c = "\<lambda>s raw n b. confirms ctx s w \<and> normalize_us_number raw = Inr n \<and>
      phone_calls_enabled E (cx_household ctx) \<and> check_caps E (cx_household ctx) w = None \<and>
      handle_confirm_call E ctx w = confirm_dial E ctx s (w_now w) n b w"
  show ?thesis
  proof (cases "find_hh_session (dget (cx_data ctx) ''session_id'') (cx_household ctx) w")
    case None
    then show ?thesis by (simp add: handle_confirm_call_def io_simps)
  next
    case (Some s)
    show ?thesis
    proof (cases "truthy (dget (cx_data ctx) ''session_id'') \<and> phone_calls_enabled E (cx_household ctx) \<and>
        ps_state s = ''draft'' \<and> \<not> (case ps_expires_at s of None \<Rightarrow> False | Some t \<Rightarrow> w_now w > t) \<and>
        check_caps E (cx_household ctx) w = None")
      case False
      with Some show ?thesis
        by (auto simp: handle_confirm_call_def io_simps split: option.splits)
    next
      case True
      with Some have r: "handle_confirm_call E ctx w =
          bind (lift (ctx_text (cx_data ctx) ''dialed_number'')) (\<lambda>raw.
          case normalize_us_number raw of
            Inl e \<Rightarrow> ret (cb_fail (exc_str e))
          | Inr dialed \<Rightarrow>
            bind (lift (ctx_text (cx_data ctx) ''details'')) (\<lambda>details.
            if details = [] then ret (cb_fail ''The call details can't be empty.'')
            else confirm_dial E ctx s (w_now w) dialed details)) w"
        by (simp add: handle_confirm_call_def io_simps)
      have "dials (fst (handle_confirm_call E ctx w)) = dials w \<or> (\<exists>raw n b. normalize_us_number raw = Inr n \<and>
          handle_confirm_call E ctx w = confirm_dial E ctx s (w_now w) n b w)"
        unfolding r by (auto simp: io_simps split: sum.splits) 
      with True Some show ?thesis by (auto simp: confirms_def)
    qed
  qed
qed

subsection \<open>The dial invariant\<close>

fun dial_session :: "effect \<Rightarrow> string" where
  "dial_session (FxDial sid hh) = sid"
| "dial_session _ = []"

definition authorised :: "phone_session \<Rightarrow> bool" where
  "authorised s \<longleftrightarrow> ps_state s \<noteq> ''draft'' \<and> (\<exists>raw n. normalize_us_number raw = Inr n \<and> ps_dialed s = Some n)"

definition dials_ok :: "world \<Rightarrow> bool" where
  "dials_ok w \<longleftrightarrow> sessions_wf w \<and> distinct (map dial_session (dials w)) \<and>
     (\<forall>sid hh. FxDial sid hh \<in> set (dials w) \<longrightarrow>
        (\<exists>s. find_session sid w = Some s \<and> ps_household s = hh \<and> authorised s))"

lemma adv_authorised: "adv_row s s' \<Longrightarrow> authorised s \<Longrightarrow> authorised s'"
  by (auto simp: adv_row_def authorised_def call_rank_def)

lemma authorised_kept:
  assumes d: "dials_ok w" and st: "call_step E w w'" and m: "FxDial sid hh \<in> set (dials w)"
  shows "\<exists>s. find_session sid w' = Some s \<and> ps_household s = hh \<and> authorised s"
proof -
  from d m obtain s where s: "find_session sid w = Some s" "ps_household s = hh" "authorised s"
    by (auto simp: dials_ok_def)
  with d have "kept s w" by (auto simp: dials_ok_def intro: kept_start)
  with st have "kept s w'" by (rule call_step_kept)
  with s show ?thesis
    using adv_authorised find_session_id [OF s(1)] by (auto simp: kept_def adv_row_def)
qed

lemma keeps_wf_insert: "(\<And>sid. ps_id (mk sid) = sid) \<Longrightarrow> keeps sessions_wf (insert_session mk)"
  by (rule keepsI) (force simp: insert_session_def Let_def sessions_wf_def less_Suc_eq)

lemma quiet_wf [simp]: "quiet sessions_wf"
  by (simp add: quiet_def sessions_wf_def)

lemma wf_plan: "keeps sessions_wf (create_call_plan E business goal hh user errand step prior)"
  by (rule keeps_create_call_plan) (simp_all add: keeps_wf_insert)

lemma wf_no_sessions: "w_sessions w = [] \<Longrightarrow> sessions_wf w"
  by (simp add: sessions_wf_def)

lemma no_sessions_step: "call_step E w w' \<Longrightarrow> w_sessions w = [] \<Longrightarrow> sessions_wf w'"
proof (induction rule: call_step.induct)
  case plan
  then show ?case by (intro keepsD [OF wf_plan] wf_no_sessions)
next
  case (confirm w ctx)
  then have "find_hh_session i hh w = None" for i hh by (simp add: find_hh_session_def split: pyval.splits)
  with confirm show ?case by (simp add: handle_confirm_call_def io_simps wf_no_sessions)
next
  case (cancel w ctx)
  then have "find_hh_session i hh w = None" for i hh by (simp add: find_hh_session_def split: pyval.splits)
  with cancel show ?case by (simp add: handle_cancel_call_def io_simps wf_no_sessions)
next
  case (answer w ctx)
  then have "find_hh_session i hh w = None" for i hh by (simp add: find_hh_session_def split: pyval.splits)
  with answer show ?case by (simp add: handle_escalation_answer_def io_simps wf_no_sessions split: sum.splits)
next
  case (event w sid ev)
  then show ?case by (simp add: post_event_def io_simps find_session_def wf_no_sessions)
next
  case (reap w)
  then show ?case by (simp add: reap_phone_sessions_def io_simps expire_drafts_def wf_no_sessions)
qed (simp add: wf_no_sessions)

lemma sessions_wf_step: "call_step E w w' \<Longrightarrow> sessions_wf w \<Longrightarrow> sessions_wf w'"
proof -
  assume st: "call_step E w w'" and wf: "sessions_wf w"
  show "sessions_wf w'"
  proof (cases "w_sessions w")
    case Nil
    with st show ?thesis by (rule no_sessions_step)
  next
    case (Cons s ss)
    with wf have "kept s w" by (intro kept_start [of w "ps_id s"]) (simp_all add: find_session_def)
    with st have "kept s w'" by (rule call_step_kept)
    then show ?thesis by (simp add: kept_def)
  qed
qed

lemma dials_ok_same:
  assumes "dials_ok w" "call_step E w w'" "dials w' = dials w"
  shows "dials_ok w'"
  using assms authorised_kept [OF assms(1,2)] sessions_wf_step [OF assms(2)] by (auto simp: dials_ok_def)

text \<open>The step that dials: a new job for a draft that has none, whose row is authorised afterwards.\<close>

lemma confirm_dial_dials:
  "dials (fst (confirm_dial E ctx s now n b w)) = FxDial (ps_id s) (cx_household ctx) # dials w"
  by (auto simp: run_confirm_dial Let_def confirmed_world_def split: sum.splits)

lemma confirm_dial_row:
  assumes "find_session (ps_id s) w = Some s" "ps_state s = ''draft''"
  shows "\<exists>s'. find_session (ps_id s) (fst (confirm_dial E ctx s now n b w)) = Some s' \<and>
     ps_household s' = ps_household s \<and> ps_state s' \<noteq> ''draft'' \<and> ps_dialed s' = Some n"
proof -
  let ?c = "enter_state now ''confirmed'' (confirm_edit n b (cx_user ctx) s)"
  have c: "find_session (ps_id s) (confirmed_world ctx s now n b w) = Some ?c"
    by (rule confirmed_world_find [OF assms])
  have e: "ps_id (r\<lparr>ps_error := m\<rparr>) = ps_id r" for r m by simp
  show ?thesis
    using c by (auto simp: run_confirm_dial Let_def move_session_def note_session_def find_session_upd
        transition_def split: sum.splits)
qed

lemma dials_ok_confirm:
  assumes d: "dials_ok w"
  shows "dials_ok (fst (handle_confirm_call E ctx w))"
  using confirm_cases [of E ctx w]
proof (elim disjE exE conjE)
  assume "dials (fst (handle_confirm_call E ctx w)) = dials w"
  with d show ?thesis by (intro dials_ok_same [OF d call_step.confirm])
next
  fix s raw n b
  assume c: "confirms ctx s w" and n: "normalize_us_number raw = Inr n"
    and r: "handle_confirm_call E ctx w = confirm_dial E ctx s (w_now w) n b w"
  let ?w = "fst (handle_confirm_call E ctx w)"
  from c d have f: "find_session (ps_id s) w = Some s" and st: "ps_state s = ''draft''"
    and hh: "ps_household s = cx_household ctx"
    by (auto simp: confirms_def dials_ok_def find_hh_session_find dest: find_hh_session_id)
  have new: "ps_id s \<notin> dial_session ` set (dials w)"
  proof
    assume "ps_id s \<in> dial_session ` set (dials w)"
    then obtain h where "FxDial (ps_id s) h \<in> set (dials w)"
      by (auto simp: dials_def elim!: is_dial.elims)
    with d obtain r where "find_session (ps_id s) w = Some r" "authorised r"
      unfolding dials_ok_def by blast
    with f st show False by (simp add: authorised_def)
  qed
  have ds: "dials ?w = FxDial (ps_id s) (cx_household ctx) # dials w"
    by (simp add: r confirm_dial_dials)
  have "sessions_wf ?w" using d by (intro sessions_wf_step [OF call_step.confirm]) (simp add: dials_ok_def)
  moreover have "distinct (map dial_session (dials ?w))"
    using d new by (simp add: ds dials_ok_def)
  moreover have "\<exists>s'. find_session (ps_id s) ?w = Some s' \<and> ps_household s' = cx_household ctx \<and> authorised s'"
    using confirm_dial_row [OF f st, of E ctx "w_now w" n b] n hh by (auto simp: r authorised_def)
  ultimately show ?thesis
    using authorised_kept [OF d call_step.confirm [of E w ctx]] by (auto simp: dials_ok_def ds)
qed

lemma dials_ok_step: "call_step E w w' \<Longrightarrow> dials_ok w \<Longrightarrow> dials_ok w'"
proof -
  assume st: "call_step E w w'" and d: "dials_ok w"
  have k: "keeps (dials_are (dials w)) m \<Longrightarrow> dials (fst (m w)) = dials w" for m :: "(world, 'x) io"
    using keepsD [of "dials_are (dials w)" m w] by (simp add: dials_are_def)
  from st show ?thesis
  proof cases
    case (confirm ctx)
    with d show ?thesis by (simp add: dials_ok_confirm)
  next
    case (plan business goal hh user errand step prior)
    with keepsD [OF dials_plan, of "dials w" w] show ?thesis
      by (intro dials_ok_same [OF d st]) (simp add: dials_are_def)
  next
    case (cancel ctx)
    with keepsD [OF dials_cancel, of "dials w" w] show ?thesis
      by (intro dials_ok_same [OF d st]) (simp add: dials_are_def)
  next
    case (answer ctx)
    with keepsD [OF dials_escalation, of "dials w" w] show ?thesis
      by (intro dials_ok_same [OF d st]) (simp add: dials_are_def)
  next
    case (event sid ev)
    with keepsD [OF dials_event, of "dials w" w] show ?thesis
      by (intro dials_ok_same [OF d st]) (simp add: dials_are_def)
  next
    case reap
    with keepsD [OF dials_reap, of "dials w" w] show ?thesis
      by (intro dials_ok_same [OF d st]) (simp add: dials_are_def)
  next
    case (tick t)
    then show ?thesis by (intro dials_ok_same [OF d st]) simp
  qed
qed

lemma dials_ok_steps: "(call_step E)\<^sup>*\<^sup>* w w' \<Longrightarrow> dials_ok w \<Longrightarrow> dials_ok w'"
  by (induction rule: rtranclp_induct) (auto intro: dials_ok_step)

subsection \<open>The reaper leaves nothing behind\<close>

lemma reap_active_rows:
  "r' \<in> set (w_sessions (fst (reap_active E now l n w))) \<Longrightarrow>
   ps_state r' = ''failed'' \<or> r' \<in> set (w_sessions w) \<and>
     (\<forall>s \<in> set l. ps_id s = ps_id r' \<longrightarrow> \<not> lost_contact now s \<and> \<not> over_time E now s)"
proof (induction l arbitrary: n w)
  case (Cons s rest)
  show ?case
  proof (cases "lost_contact now s \<or> over_time E now s")
    case False
    with Cons show ?thesis by (auto simp: run_reap_one simp del: reap_active.simps)
  next
    case True
    define w1 where "w1 m = upd_session (ps_id s) (reap_row now m) w" for m
    have rows: "r \<in> set (w_sessions (w1 m)) \<Longrightarrow>
        ps_state r = ''failed'' \<or> r \<in> set (w_sessions w) \<and> ps_id s \<noteq> ps_id r" for r m
    proof -
      assume "r \<in> set (w_sessions (w1 m))"
      then have "r \<in> set (upd_where (\<lambda>r. ps_id r = ps_id s) (reap_row now m) (w_sessions w))"
        by (simp add: w1_def upd_session_def)
      from upd_where_member [OF this] show ?thesis
      proof (elim disjE bexE conjE)
        fix r0 assume "r = reap_row now m r0"
        then show ?thesis by (simp only: reap_row_fields simp_thms)
      qed auto
    qed
    from True have "\<exists>m v. w_sessions v = w_sessions (w1 m) \<and>
        reap_active E now (s # rest) n w = reap_active E now rest (n + 1) v"
      unfolding run_reap_one Let_def w1_def by (intro exI conjI) (simp_all del: reap_active.simps)
    with Cons.prems obtain m v k where
      v: "w_sessions v = w_sessions (w1 m)" "r' \<in> set (w_sessions (fst (reap_active E now rest k v)))"
      by metis
    from Cons.IH [OF v(2)] v(1) rows show ?thesis by auto
  qed
qed (simp add: io_simps)

lemma reap_noraise: "\<exists>m. snd (reap_active E now l n w) = Inr m"
proof (induction l arbitrary: n w)
  case (Cons s rest)
  then show ?case by (simp add: run_reap_one Let_def del: reap_active.simps)
qed (simp add: io_simps)

subsection \<open>A concrete run\<close>

text \<open>A call that is planned, confirmed with a tap, and claimed by a worker.\<close>

definition sample_planned :: world where
  "sample_planned = fst (create_call_plan sample_env ''Cafe'' ''Ask when they close'' ''h1'' (Some 7) None None []
     (sample_world 1000000000000))"

definition sample_tap :: cb_ctx where
  "sample_tap = \<lparr>cx_job = ''j1'', cx_household = ''h1'', cx_user = Some 7,
     cx_data = [(''session_id'', PStr ''call_0''), (''dialed_number'', PStr ''(201) 555-1234''),
                (''details'', PStr ''Ask when they close'')], cx_navigation = ''stack''\<rparr>"

definition sample_confirmed :: world where
  "sample_confirmed = fst (handle_confirm_call sample_env sample_tap sample_planned)"

definition sample_claimed :: world where
  "sample_claimed = fst (post_event sample_env ''call_0'' (ClaimDial (Some ''http://w1'')) sample_confirmed)"

lemma sample_planned_step: "call_step sample_env (sample_world 1000000000000) sample_planned"
  unfolding sample_planned_def by (rule call_step.plan)

lemma sample_confirmed_step: "call_step sample_env sample_planned sample_confirmed"
  unfolding sample_confirmed_def by (rule call_step.confirm)

lemma sample_claimed_step: "call_step sample_env sample_confirmed sample_claimed"
  unfolding sample_claimed_def by (rule call_step.event)

lemma two_steps: "call_step E w w1 \<Longrightarrow> call_step E w1 w2 \<Longrightarrow> (call_step E)\<^sup>*\<^sup>* w w2"
  by (rule rtranclp.rtrancl_into_rtrancl [where b = w1 and r = "call_step E"]) (rule r_into_rtranclp)

lemma sample_wf: "sessions_wf (sample_world t)" "sessions_wf sample_planned" "sessions_wf sample_confirmed"
  "sessions_wf sample_claimed"
proof -
  show 0: "sessions_wf (sample_world t)" for t by (simp add: sessions_wf_def sample_world_def)
  show 1: "sessions_wf sample_planned" by (rule sessions_wf_step [OF sample_planned_step 0])
  show 2: "sessions_wf sample_confirmed" by (rule sessions_wf_step [OF sample_confirmed_step 1])
  show "sessions_wf sample_claimed" by (rule sessions_wf_step [OF sample_claimed_step 2])
qed

lemma sample_planned_draft: "map_option ps_state (find_session ''call_0'' sample_planned) = Some ''draft''"
  by code_simp

lemma sample_claim:
  "post_event sample_env ''call_0'' (ClaimDial (Some ''http://w1'')) sample_confirmed =
   (sample_claimed, Inr (ok_state ''dialing'', None))"
  by (rule prod_eqI) (simp add: sample_claimed_def, code_simp)

subsection \<open>Properties\<close>



text \<open>
  One worker wins the claim: after a worker claimed a confirmed call, every later claim of the
  same call, by any worker and after any further steps, is refused with a conflict and changes
  nothing.
\<close>

lemma one_claim_wins:
  assumes "sessions_wf w" and "post_event E sid (ClaimDial u) w = (w1, Inr r)"
    and "(call_step E)\<^sup>*\<^sup>* w1 w2" and "otruthy u'"
  shows "\<exists>msg. post_event E sid (ClaimDial u') w2 = (w2, Inl (HTTPError 409 msg))"
proof -
  from assms(2) obtain s where s: "find_session sid w = Some s" "ps_state s = ''confirmed''"
    and w1: "w1 = upd_session sid (claim_row (w_now w) (oor u [])) w"
    by (auto simp: post_event_def io_simps split: option.splits if_splits)
  have "w1 = fst (post_event E sid (ClaimDial u) w)" using assms(2) by simp
  then have "sessions_wf w1" using sessions_wf_step [OF call_step.event assms(1)] by simp
  moreover have "find_session sid w1 = Some (claim_row (w_now w) (oor u []) s)"
    using s by (simp add: w1 find_session_upd claim_row_def)
  ultimately have "\<exists>s'. find_session sid w2 = Some s' \<and> adv_row (claim_row (w_now w) (oor u []) s) s'"
    using call_steps_kept [OF assms(3) kept_start] find_session_id [OF s(1)] s(2)
    by (fastforce simp: kept_def claim_row_def)
  then obtain s' where "find_session sid w2 = Some s'" "ps_state s' \<noteq> ''confirmed''"
    using s(2) by (auto simp: adv_row_def claim_row_def call_rank_def split: if_splits)
  moreover have "\<not> \<not> otruthy u'" using assms(4) by simp
  ultimately show ?thesis by (simp add: post_event_def run_bind run_gets run_throw)
qed

lemma one_claim_wins_witness:
  "\<exists>msg. post_event sample_env ''call_0'' (ClaimDial (Some ''http://w2'')) sample_claimed =
     (sample_claimed, Inl (HTTPError 409 msg))"
  by (rule one_claim_wins [OF sample_wf(3) sample_claim rtranclp.rtrancl_refl]) (simp add: otruthy_def)

text \<open>
  C1. Every dial job was authorised: starting with no dial job queued, after any sequence of steps
  no session has more than one job, and the session of a job belongs to that household, has left
  the draft state and carries a number the validator accepted.
\<close>

theorem dial_jobs_authorised:
  assumes "sessions_wf w" and "dials w = []" and "(call_step E)\<^sup>*\<^sup>* w w'"
  shows "distinct (map dial_session (dials w')) \<and>
    (\<forall>sid hh. FxDial sid hh \<in> set (w_log w') \<longrightarrow>
      (\<exists>s raw n. find_session sid w' = Some s \<and> ps_household s = hh \<and> ps_state s \<noteq> ''draft'' \<and>
         ps_dialed s = Some n \<and> normalize_us_number raw = Inr n))"
proof -
  have "dials_ok w'" by (rule dials_ok_steps [OF assms(3)]) (use assms in \<open>simp add: dials_ok_def\<close>)
  then show ?thesis by (fastforce simp: dials_ok_def authorised_def dials_def)
qed

theorem dial_jobs_authorised_witness:
  "dials sample_confirmed = [FxDial ''call_0'' ''h1''] \<and>
   (\<exists>s raw n. find_session ''call_0'' sample_confirmed = Some s \<and> ps_household s = ''h1'' \<and>
      ps_dialed s = Some n \<and> normalize_us_number raw = Inr n)"
proof -
  have d: "dials sample_confirmed = [FxDial ''call_0'' ''h1'']" by code_simp
  have "(call_step sample_env)\<^sup>*\<^sup>* (sample_world 1000000000000) sample_confirmed"
    by (rule two_steps [OF sample_planned_step sample_confirmed_step])
  moreover have "dials (sample_world 1000000000000) = []" by (simp add: dials_def sample_world_def)
  ultimately have "\<forall>sid hh. FxDial sid hh \<in> set (w_log sample_confirmed) \<longrightarrow>
      (\<exists>s raw n. find_session sid sample_confirmed = Some s \<and> ps_household s = hh \<and> ps_state s \<noteq> ''draft'' \<and>
         ps_dialed s = Some n \<and> normalize_us_number raw = Inr n)"
    using dial_jobs_authorised [OF sample_wf(1)] by blast
  moreover from d have "FxDial ''call_0'' ''h1'' \<in> set (dials sample_confirmed)" by simp
  then have "FxDial ''call_0'' ''h1'' \<in> set (w_log sample_confirmed)" by (simp add: dials_def)
  ultimately show ?thesis using d by blast
qed

text \<open>
  C8. The only step that queues a dial job is the confirm tap, on a draft of the tapping household,
  with calling enabled and the caps allowing it; it queues exactly one.
\<close>

theorem only_confirm_dials:
  assumes "call_step E w w'" and "dials w' \<noteq> dials w"
  shows "\<exists>ctx s. w' = fst (handle_confirm_call E ctx w) \<and> confirms ctx s w \<and>
    phone_calls_enabled E (cx_household ctx) \<and> check_caps E (cx_household ctx) w = None \<and>
    dials w' = FxDial (ps_id s) (cx_household ctx) # dials w"
  using assms(1)
proof cases
  case (confirm ctx)
  from confirm_cases [of E ctx w] assms(2) confirm show ?thesis
    by (auto simp: confirm_dial_dials intro!: exI [of _ ctx])
next
  case (plan business goal hh user errand step prior)
  with keepsD [OF dials_plan, of "dials w" w] assms(2) show ?thesis by (simp add: dials_are_def)
next
  case (cancel ctx)
  with keepsD [OF dials_cancel, of "dials w" w] assms(2) show ?thesis by (simp add: dials_are_def)
next
  case (answer ctx)
  with keepsD [OF dials_escalation, of "dials w" w] assms(2) show ?thesis by (simp add: dials_are_def)
next
  case (event sid ev)
  with keepsD [OF dials_event, of "dials w" w] assms(2) show ?thesis by (simp add: dials_are_def)
next
  case reap
  with keepsD [OF dials_reap, of "dials w" w] assms(2) show ?thesis by (simp add: dials_are_def)
next
  case (tick t)
  with assms(2) show ?thesis by simp
qed

theorem only_confirm_dials_witness:
  "\<exists>ctx s. confirms ctx s sample_planned \<and> dials sample_confirmed = [FxDial (ps_id s) (cx_household ctx)]"
proof -
  have "dials sample_confirmed = [FxDial ''call_0'' ''h1'']" "dials sample_planned = []" by code_simp+
  with only_confirm_dials [OF sample_confirmed_step] show ?thesis by auto
qed

text \<open>
  A reaper pass never fails and leaves no call behind that has lost contact with its worker or
  runs over its time, and no draft past its expiry.
\<close>

lemma reaper_complete:
  "(\<exists>n. snd (reap_phone_sessions E w) = Inr n) \<and>
    (\<forall>s \<in> set (w_sessions (fst (reap_phone_sessions E w))).
      (ps_state s \<in> set call_active \<longrightarrow> \<not> lost_contact (w_now w) s \<and> \<not> over_time E (w_now w) s) \<and>
      \<not> draft_expired (w_now w) s)"
proof -
  define active where "active = filter (\<lambda>s. ps_state s \<in> set call_active) (w_sessions w)"
  obtain w1 m where r: "reap_active E (w_now w) active 0 w = (w1, Inr m)"
    using reap_noraise by (metis prod.collapse)
  have res: "fst (reap_phone_sessions E w) = expire_drafts (w_now w) w1" "\<exists>n. snd (reap_phone_sessions E w) = Inr n"
    by (simp_all add: reap_phone_sessions_def io_simps active_def [symmetric] r)
  have live: "s \<in> set (w_sessions w1) \<Longrightarrow> ps_state s \<in> set call_active \<Longrightarrow>
      \<not> lost_contact (w_now w) s \<and> \<not> over_time E (w_now w) s" for s
    using reap_active_rows [of s E "w_now w" active 0 w] r
    by (auto simp: active_def call_active_def)
  show ?thesis
    using res(2) live
    by (auto simp: res(1) expire_drafts_def upd_where_def draft_expired_def call_active_def)
qed

lemma reaper_complete_witness:
  "\<not> list_ex (\<lambda>s. ps_state s \<in> set call_active \<and> lost_contact (w_now sample_claimed) s)
     (w_sessions (fst (reap_phone_sessions sample_env sample_claimed)))"
  using reaper_complete [of sample_env sample_claimed] by (auto simp: list_ex_iff)

end
