(* ===== verification/Phone_Limits.thy ===== *)
theory Phone_Limits
  imports Phone_Safety
begin

section \<open>Numbers, caps and cancellation\<close>

text \<open>
  What the number validator accepts, what the per-day cap does to the last call it permits, and
  what the cancel callback does once the call is no longer a draft.
\<close>

subsection \<open>Numbers\<close>

lemma strip_no_space: "(\<forall>c \<in> set s. \<not> is_space c) \<Longrightarrow> strip s = s"
proof -
  assume "\<forall>c \<in> set s. \<not> is_space c"
  then have "dropWhile is_space s = s" "dropWhile is_space (rev s) = rev s"
    by (metis dropWhile_eq_self_iff list.set_sel(1)) (metis \<open>\<forall>c \<in> set s. \<not> is_space c\<close> dropWhile_eq_self_iff list.set_sel(1) set_rev)
  then show ?thesis by (simp add: strip_def lstrip_def rstrip_def)
qed

lemma set_national: "set (national_digits ds) \<subseteq> set ds"
  unfolding national_digits_def lstrip_plus_def Let_def
  by (auto dest!: set_dropWhileD list.set_sel(2) split: if_splits) (metis list.set_sel(2) set_dropWhileD tl_Nil)

lemma number_chars_digits: "c \<in> set (national_digits (number_chars raw)) \<Longrightarrow> is_digit c \<or> c = CHR ''+''"
  using set_national [of "number_chars raw"] by (auto simp: number_chars_def)

lemma digit_not_space: "is_digit c \<Longrightarrow> \<not> is_space c"
  by (auto simp: is_digit_def is_space_def)

lemma normalize_e164:
  assumes len: "length d = 10" and ch: "\<forall>c \<in> set d. is_digit c \<or> c = CHR ''+''"
    and area: "take 3 d \<notin> set premium_area_codes" "\<not> starts_with (take 3 d) ''0''" "\<not> starts_with (take 3 d) ''1''"
  shows "normalize_us_number (''+1'' @ d) = Inr (''+1'' @ d)"
proof -
  let ?n = "''+1'' @ d"
  have ok: "\<forall>c \<in> set ?n. is_digit c \<or> c = CHR ''+''"
    using ch by (auto simp: is_digit_def)
  moreover have "\<not> is_space (CHR ''+'')" by code_simp
  ultimately have s: "strip ?n = ?n" by (intro strip_no_space) (metis digit_not_space)
  then have n: "number_chars ?n = ?n" unfolding number_chars_def s using ok by (intro filter_True) simp
  have l: "lstrip_plus ?n = CHR ''1'' # d" by (simp add: lstrip_plus_def)
  have na: "national_digits ?n = d" unfolding national_digits_def l Let_def by (simp add: len starts_with_def)
  have e: "x \<in> set emergency_numbers \<Longrightarrow> length x = 3" for x by (auto simp: emergency_numbers_def)
  have "?n \<notin> set emergency_numbers" using e [of ?n] len by auto
  moreover have "lstrip_plus ?n \<notin> set emergency_numbers" unfolding l using e [of "CHR ''1'' # d"] len by auto
  ultimately show ?thesis using s n na len area by (simp add: normalize_us_number_def Let_def)
qed

text \<open>
  The validator accepts only ten-character US numbers with an allowed area code: its result is
  +1 followed by ten characters, which do not start with 0, 1 or a premium area code, and
  validating the result again changes nothing.
\<close>

lemma normalize_shape:
  assumes "normalize_us_number raw = Inr n"
  shows "(\<exists>d. n = ''+1'' @ d \<and> length d = 10 \<and> take 3 d \<notin> {''900'', ''976''} \<and>
     \<not> starts_with d ''0'' \<and> \<not> starts_with d ''1'' \<and> set d \<subseteq> set raw) \<and>
   normalize_us_number n = Inr n"
proof -
  define d where "d = national_digits (number_chars raw)"
  from assms have d: "n = ''+1'' @ d" "length d = 10" "take 3 d \<notin> set premium_area_codes"
    "\<not> starts_with (take 3 d) ''0''" "\<not> starts_with (take 3 d) ''1''"
    by (auto simp: normalize_us_number_def Let_def d_def [symmetric] split: if_splits)
  moreover have "\<forall>c \<in> set d. is_digit c \<or> c = CHR ''+''" using number_chars_digits by (simp add: d_def)
  moreover have "starts_with (take 3 d) [c] \<longleftrightarrow> starts_with d [c]" for c
    by (cases d) (auto simp: starts_with_def numeral_3_eq_3)
  moreover have "set d \<subseteq> set raw"
    using set_national [of "number_chars raw"] set_strip [of raw] by (auto simp: d_def number_chars_def)
  ultimately show ?thesis using normalize_e164 [of d] by (auto simp: premium_area_codes_def)
qed

lemma normalize_shape_witness:
  "normalize_us_number '' 1 (201) 555-1234 '' = Inr ''+12015551234'' \<and>
   normalize_us_number ''+12015551234'' = Inr ''+12015551234''"
proof -
  have "normalize_us_number '' 1 (201) 555-1234 '' = Inr ''+12015551234''" by code_simp
  with normalize_shape [OF this] show ?thesis by simp
qed

lemma interior_plus_accepted: "normalize_us_number ''201+555123'' = Inr ''+1201+555123''"
  by code_simp

subsection \<open>The last call the daily cap permits\<close>

lemma find_hh_session_new:
  assumes "sessions_wf w" "w_sessions w' = w_sessions w @ [s]" "ps_id s = ''call_'' @ nat_str (w_seq w)"
  shows "find_hh_session (PStr (ps_id s)) (ps_household s) w' = Some s"
proof -
  have "\<forall>r \<in> set (w_sessions w). ps_id r \<noteq> ps_id s"
    using assms by (force simp: sessions_wf_def)
  then have "find (\<lambda>r. ps_id r = ps_id s \<and> ps_household r = ps_household s) (w_sessions w) = None"
    by (auto simp: find_None_iff)
  with assms(2) show ?thesis by (simp add: find_hh_session_def find_append)
qed

text \<open>
  The daily cap counts the draft that is being confirmed, so the last plan the cap permits can
  never be confirmed: a confirm tap later on the same day, before the plan expires, is answered with
  the daily-limit refusal, no dial job is queued and the draft is declined.
\<close>

lemma last_permitted_call_declined:
  assumes "sessions_wf w" and "phone_calls_enabled E hh"
    and "create_call_plan E business goal hh user errand step prior w = (w1, Inr (Some sid))"
    and "calls_today hh w + 1 = int_setting E ''phone_calls.calls_per_day'' hh 10"
    and "cx_household ctx = hh" and "dget (cx_data ctx) ''session_id'' = PStr sid"
    and "day_start_us t = day_start_us (w_now w)"
    and "t \<le> w_now w + int_setting E ''phone_calls.plan_ttl_minutes'' hh 20 * minute_us"
  shows "\<exists>w2 s. handle_confirm_call E ctx (w1\<lparr>w_now := t\<rparr>) =
      (w2, Inr (cb_fail ''The daily call limit for this household has been reached.'')) \<and>
    dials w2 = dials w1 \<and> find_hh_session (PStr sid) hh w2 = Some s \<and> ps_state s = ''declined''"
proof -
  from create_call_plan_Some [OF assms(3)] obtain s where
    s: "w_sessions w1 = w_sessions w @ [s]" "ps_id s = ''call_'' @ nat_str (w_seq w)" "sid = ps_id s"
      "ps_state s = ''draft''" "ps_household s = hh" "ps_created_at s = w_now w"
      "ps_expires_at s = Some (w_now w + int_setting E ''phone_calls.plan_ttl_minutes'' hh 20 * minute_us)"
    by auto
  let ?w = "w1\<lparr>w_now := t\<rparr>"
  let ?m = "''The daily call limit for this household has been reached.''"
  have f: "find_hh_session (PStr sid) hh ?w = Some s"
    using find_hh_session_new [OF assms(1), of ?w s] s by simp
  have "calls_today hh ?w = calls_today hh w + 1"
    using s assms(7) day_start_le [of "w_now w"] by (simp add: calls_today_def)
  with assms(4) have cap: "check_caps E hh ?w = Some ?m" by (simp add: check_caps_def)
  have run: "handle_confirm_call E ctx ?w =
      (note_session sid ?m (move_session t sid ''declined'' ?w), Inr (cb_fail ?m))"
    using f cap assms(2,5,6,8) s by (simp add: handle_confirm_call_def io_simps)
  have one: "r \<in> set (w_sessions w1) \<Longrightarrow> ps_id r = sid \<Longrightarrow> r = s" for r
    using s assms(1) by (force simp: sessions_wf_def)
  let ?g = "\<lambda>r. (fst (transition t r ''declined''))\<lparr>ps_error := Some ?m\<rparr>"
  have "find (\<lambda>r. ps_id r = sid \<and> ps_household r = hh) (upd_where (\<lambda>r. ps_id r = sid) ?g rows) =
      map_option ?g (find (\<lambda>r. ps_id r = sid \<and> ps_household r = hh) rows)" for rows
    by (induction rows) auto
  moreover have "w_sessions (note_session sid ?m (move_session t sid ''declined'' ?w)) =
      upd_where (\<lambda>r. ps_id r = sid) ?g (w_sessions w1)"
    by (simp add: note_session_def move_session_def upd_session_def upd_where_def comp_def)
  ultimately have "find_hh_session (PStr sid) hh (note_session sid ?m (move_session t sid ''declined'' ?w)) =
      Some (?g s)"
    using f by (simp add: find_hh_session_def)
  moreover have "ps_state (?g s) = ''declined''"
    using s(4) by (simp add: transition_state allowed_from_def call_transitions_def)
  ultimately show ?thesis using run by auto
qed

text \<open>
  Cancelling a call that is no longer a draft changes nothing, and is still reported to the user
  as a cancelled call; the button that ends a live call is wired to this callback.
\<close>

lemma cancel_live_call_reports_success:
  assumes "find_hh_session (dget (cx_data ctx) ''session_id'') (cx_household ctx) w = Some s"
    and "ps_state s \<noteq> ''draft''"
  shows "handle_cancel_call E ctx w =
    (w, Inr (cb_inbox ''Call cancelled'' (''Won't call '' @ oor (ps_contact_name s) ''None'' @ ''.'')
              [(''household_id'', PStr (cx_household ctx))]))"
  using assms by (simp add: handle_cancel_call_def io_simps)

text \<open>The witnesses run on the sample services with room for one call a day, and on a claimed call.\<close>

definition capped_env :: env where
  "capped_env = sample_env\<lparr>en_setting := \<lambda>k hh. if k = ''phone_calls.calls_per_day'' then Inr (PInt 1)
     else en_setting sample_env k hh\<rparr>"

lemma last_permitted_call_declined_witness:
  "\<exists>w2. handle_confirm_call capped_env sample_tap
      (fst (create_call_plan capped_env ''Cafe'' ''Ask when they close'' ''h1'' (Some 7) None None [] (sample_world 1000000000000))
        \<lparr>w_now := 1000000000001\<rparr>) =
      (w2, Inr (cb_fail ''The daily call limit for this household has been reached.'')) \<and> dials w2 = []"
proof -
  let ?w = "sample_world 1000000000000"
  let ?m = "create_call_plan capped_env ''Cafe'' ''Ask when they close'' ''h1'' (Some 7) None None [] ?w"
  have "snd ?m = Inr (Some ''call_0'')" by code_simp
  then have p: "?m = (fst ?m, Inr (Some ''call_0''))" by (metis prod.collapse)
  have e: "phone_calls_enabled capped_env ''h1''"
    and c: "calls_today ''h1'' ?w + 1 = int_setting capped_env ''phone_calls.calls_per_day'' ''h1'' 10"
    and t: "cx_household sample_tap = ''h1''" "dget (cx_data sample_tap) ''session_id'' = PStr ''call_0''"
    and d: "day_start_us 1000000000001 = day_start_us (w_now ?w)"
      "1000000000001 \<le> w_now ?w + int_setting capped_env ''phone_calls.plan_ttl_minutes'' ''h1'' 20 * minute_us"
    and n: "dials (fst ?m) = []"
    by code_simp+
  from last_permitted_call_declined [OF sample_wf(1) e p c t d] n show ?thesis by auto
qed

lemma cancel_live_call_reports_success_witness:
  "handle_cancel_call sample_env sample_tap sample_claimed =
    (sample_claimed, Inr (cb_inbox ''Call cancelled'' ''Won't call Cafe.'' [(''household_id'', PStr ''h1'')]))"
proof -
  let ?f = "find_hh_session (dget (cx_data sample_tap) ''session_id'') (cx_household sample_tap) sample_claimed"
  have "map_option (\<lambda>s. (ps_state s, ps_contact_name s)) ?f = Some (''dialing'', Some ''Cafe'')"
    by code_simp
  then obtain s where s: "?f = Some s" "ps_state s = ''dialing''" "ps_contact_name s = Some ''Cafe''" by auto
  have "cx_household sample_tap = ''h1''" by (simp add: sample_tap_def)
  with cancel_live_call_reports_success [OF s(1), of sample_env] s(2,3) show ?thesis by simp
qed

end
