(* ===== verification/Step_Resolver.thy ===== *)
theory Step_Resolver
  imports Py_Time
begin

section \<open>Inter-step values: the directive resolver\<close>

text \<open>
  \<^verbatim>\<open>app/services/step_value_resolver.py\<close>: an argument of a step may be a one-key dictionary whose
  key starts with a dollar sign; it is replaced by a value computed from the results of earlier
  steps, or the whole step is skipped with a reason. Time is exact here where the source divides
  floats before rounding to minutes.
\<close>

definition directive_of :: "pyval \<Rightarrow> (string \<times> pyval) option" where
  "directive_of v = (case v of PDict [(k, body)] \<Rightarrow> if starts_with k ''$'' then Some (k, body) else None
                     | _ \<Rightarrow> None)"

definition is_directive :: "pyval \<Rightarrow> bool" where
  "is_directive v \<longleftrightarrow> directive_of v \<noteq> None"

text \<open>A dictionary key: text is looked up, an unhashable value raises, any other value is absent.\<close>

fun key_of :: "pyval \<Rightarrow> exc + string option" where
  "key_of (PStr s) = Inr (Some s)"
| "key_of (PList _) = Inl (TypeError ''unhashable type'')"
| "key_of (PDict _) = Inl (TypeError ''unhashable type'')"
| "key_of _ = Inr None"

definition dget_key :: "pydict \<Rightarrow> string option \<Rightarrow> pyval \<Rightarrow> pyval" where
  "dget_key d k v = (case k of None \<Rightarrow> v | Some s \<Rightarrow> dget_or d s v)"

definition drive_minutes :: "pydict \<Rightarrow> pydict list \<Rightarrow> exc + (int option \<times> string option)" where
  "drive_minutes spec prior =
     rbind (py_int (dget_or spec ''drive_from_step'' (PInt 0))) (\<lambda>idx.
     let fld = dget_or spec ''drive_field'' (PStr ''duration_minutes'') in
     if idx < 0 \<or> int (length prior) \<le> idx
       then Inr (None, Some (''no result for step '' @ int_str idx))
     else
       let result = prior ! nat idx in
       if \<not> truthy (dget result ''success'')
         then Inr (None, Some (''step '' @ int_str idx @ '' ('' @ py_str (dget result ''command'')
                               @ '') did not succeed''))
       else
         rbind (as_dict (por (dget result ''data'') (PDict []))) (\<lambda>data.
         rbind (key_of fld) (\<lambda>k.
         case py_int (dget_key data k (dget_key result k PNone)) of
           Inr n \<Rightarrow> Inr (Some n, None)
         | Inl _ \<Rightarrow> Inr (None, Some (''step '' @ int_str idx @ '' has no numeric '' @ repr_str (py_str fld))))))"

definition parse_dt :: "pyval \<Rightarrow> pydt option" where
  "parse_dt raw = (case raw of
      PStr s \<Rightarrow> (case fromisoformat s of
         None \<Rightarrow> None
       | Some t \<Rightarrow> Some (case dt_off t of None \<Rightarrow> t\<lparr>dt_off := Some 0\<rparr> | Some _ \<Rightarrow> t))
    | _ \<Rightarrow> None)"

definition leave_by :: "pydict \<Rightarrow> pydict list \<Rightarrow> int \<Rightarrow> exc + (pyval \<times> string option)" where
  "leave_by spec prior now =
     rbind (drive_minutes spec prior) (\<lambda>(drive, skip).
     case drive of
       None \<Rightarrow> Inr (PNone, Some (oor skip ''no drive time''))
     | Some dr \<Rightarrow>
       if skip \<noteq> None then Inr (PNone, Some (oor skip ''no drive time'')) else
       (case parse_dt (dget spec ''event_start'') of
          None \<Rightarrow> Inr (PNone, Some ''invalid event_start'')
        | Some start \<Rightarrow>
            rbind (py_int (dget_or spec ''buffer_minutes'' (PInt 5))) (\<lambda>buffer.
            rbind (add_us start (- ((dr + buffer) * minute_us))) (\<lambda>leave_at.
            let rel = round_div (utc_us leave_at - now) minute_us in
            if rel \<le> 0 then Inr (PNone, Some (''departure time already passed ('' @ int_str rel @ '' min)''))
            else Inr (PInt rel, None)))))"

text \<open>\<open>field in data\<close> and \<open>data[field]\<close> for a \<open>data\<close> of any type.\<close>

fun num_of :: "pyval \<Rightarrow> rat option" where
  "num_of (PBool b) = Some (if b then 1 else 0)"
| "num_of (PInt i) = Some (of_int i)"
| "num_of (PFloat r _) = Some r"
| "num_of _ = None"

definition py_eq :: "pyval \<Rightarrow> pyval \<Rightarrow> bool" where
  "py_eq a b = (case (num_of a, num_of b) of (Some x, Some y) \<Rightarrow> x = y | _ \<Rightarrow> a = b)"

definition contains :: "pyval \<Rightarrow> pyval \<Rightarrow> exc + bool" where
  "contains c v = (case c of
      PDict d \<Rightarrow> rbind (key_of v) (\<lambda>k. Inr (case k of None \<Rightarrow> False | Some s \<Rightarrow> dhas d s))
    | PList xs \<Rightarrow> Inr (list_ex (py_eq v) xs)
    | PStr s \<Rightarrow> (case v of PStr p \<Rightarrow> Inr (has_sub s p) | _ \<Rightarrow> Inl (TypeError ''in string requires string''))
    | _ \<Rightarrow> Inl (TypeError ''not iterable''))"

definition subscript :: "pyval \<Rightarrow> pyval \<Rightarrow> exc + pyval" where
  "subscript c v = (case c of
      PDict d \<Rightarrow> rbind (key_of v) (\<lambda>k. case k of
          None \<Rightarrow> Inl (KeyError (py_repr v))
        | Some s \<Rightarrow> (case map_of d s of None \<Rightarrow> Inl (KeyError (repr_str s)) | Some x \<Rightarrow> Inr x))
    | PList xs \<Rightarrow> (case v of
          PInt i \<Rightarrow> (let j = (if i < 0 then int (length xs) + i else i) in
                      if 0 \<le> j \<and> j < int (length xs) then Inr (xs ! nat j)
                      else Inl (LookupError ''list index out of range''))
        | PBool b \<Rightarrow> (let j = (if b then 1 else 0) in
                      if j < length xs then Inr (xs ! j) else Inl (LookupError ''list index out of range''))
        | _ \<Rightarrow> Inl (TypeError ''list indices must be integers''))
    | _ \<Rightarrow> Inl (TypeError ''not subscriptable''))"

definition from_step :: "pydict \<Rightarrow> pydict list \<Rightarrow> exc + (pyval \<times> string option)" where
  "from_step spec prior =
     rbind (py_int (dget_or spec ''step'' (PInt 0))) (\<lambda>idx.
     let fld = dget spec ''field'' in
     if idx < 0 \<or> int (length prior) \<le> idx
       then Inr (PNone, Some (''no result for step '' @ int_str idx))
     else
       let result = prior ! nat idx; data = por (dget result ''data'') (PDict []) in
       rbind (contains data fld) (\<lambda>in_data.
       if in_data then rbind (subscript data fld) (\<lambda>v. Inr (v, None))
       else rbind (contains (PDict result) fld) (\<lambda>in_result.
         if in_result then rbind (subscript (PDict result) fld) (\<lambda>v. Inr (v, None))
         else Inr (PNone, Some (''step '' @ int_str idx @ '' has no '' @ repr_str (py_str fld))))))"

definition resolve_directive :: "string \<Rightarrow> pyval \<Rightarrow> pydict list \<Rightarrow> int \<Rightarrow> exc + (pyval \<times> string option)" where
  "resolve_directive key body prior now =
     (let spec = (case body of PDict d \<Rightarrow> d | _ \<Rightarrow> []) in
      if key = ''$leave_by'' then leave_by spec prior now
      else if key = ''$from_step'' then from_step spec prior
      else Inr (PNone, Some (''unknown directive '' @ key)))"

fun resolve_loop :: "pydict \<Rightarrow> pydict list \<Rightarrow> int \<Rightarrow> pydict \<Rightarrow> pydict \<Rightarrow> exc + (pydict \<times> string option)" where
  "resolve_loop args prior now [] resolved = Inr (resolved, None)"
| "resolve_loop args prior now ((key, v) # rest) resolved =
     (case directive_of v of
        Some (dk, body) \<Rightarrow>
          rbind (resolve_directive dk body prior now) (\<lambda>(out, skip).
            case skip of
              Some why \<Rightarrow> Inr (args, Some why)
            | None \<Rightarrow> resolve_loop args prior now rest (dset resolved key out))
      | None \<Rightarrow> resolve_loop args prior now rest (dset resolved key v))"

definition resolve_step_args :: "pydict \<Rightarrow> pydict list \<Rightarrow> int \<Rightarrow> exc + (pydict \<times> string option)" where
  "resolve_step_args args prior now = resolve_loop args prior now args []"

subsection \<open>What a resolution keeps\<close>

lemma resolve_loop_plain:
  "\<forall>(k, v) \<in> set rest. \<not> is_directive v \<Longrightarrow>
   resolve_loop args prior now rest acc = Inr (foldl (\<lambda>d (k, v). dset d k v) acc rest, None)"
  by (induction rest arbitrary: acc) (auto simp: is_directive_def split: option.splits)

lemma dset_append_new: "k \<notin> fst ` set d \<Longrightarrow> dset d k v = d @ [(k, v)]"
  by (induction d) (auto simp: dset_def)

lemma foldl_dset_distinct:
  "distinct (map fst (acc @ rest)) \<Longrightarrow> foldl (\<lambda>d (k, v). dset d k v) acc rest = acc @ rest"
proof (induction rest arbitrary: acc)
  case (Cons kv rest)
  obtain k v where "kv = (k, v)" by force
  with Cons show ?case by (simp add: dset_append_new)
qed simp

text \<open>Every outcome of the loop: an exception, a skip with the arguments untouched, or a full resolution.\<close>

lemma resolve_loop_skip:
  "resolve_loop args prior now rest acc = Inr (r, Some why) \<Longrightarrow> r = args"
  by (induction rest arbitrary: acc)
    (auto simp: rbind_Inr_iff split: option.splits prod.splits)

lemma resolve_loop_keys:
  "resolve_loop args prior now rest acc = Inr (r, None) \<Longrightarrow> distinct (map fst (acc @ rest)) \<Longrightarrow>
   map fst r = map fst (acc @ rest)"
proof (induction rest arbitrary: acc)
  case (Cons kv rest)
  obtain k v where kv: "kv = (k, v)" by force
  from Cons.prems(2) kv have new: "dset acc k u = acc @ [(k, u)]" for u
    by (intro dset_append_new) auto
  from Cons.prems kv obtain u where u: "resolve_loop args prior now rest (dset acc k u) = Inr (r, None)"
    by (auto simp: rbind_Inr_iff split: option.splits prod.splits)
  with Cons.prems(2) kv have "map fst r = map fst ((acc @ [(k, u)]) @ rest)"
    by (intro Cons.IH) (auto simp: new)
  with kv show ?case by simp
qed simp

lemma resolve_loop_acc:
  "resolve_loop args prior now rest acc = Inr (r, None) \<Longrightarrow> k \<notin> fst ` set rest \<Longrightarrow>
   map_of r k = map_of acc k"
proof (induction rest arbitrary: acc)
  case (Cons kv rest)
  obtain k' v where kv: "kv = (k', v)" by force
  from Cons.prems kv obtain u where u: "resolve_loop args prior now rest (dset acc k' u) = Inr (r, None)"
    by (auto simp: rbind_Inr_iff split: option.splits prod.splits)
  with Cons kv have "map_of r k = map_of (dset acc k' u) k" by (intro Cons.IH) auto
  with Cons.prems(2) kv show ?case by (auto simp: dset_def update_conv)
qed simp

lemma resolve_loop_value:
  "resolve_loop args prior now rest acc = Inr (r, None) \<Longrightarrow> distinct (map fst rest) \<Longrightarrow>
   (k, v) \<in> set rest \<Longrightarrow>
   (if is_directive v
    then \<exists>dk body out. directive_of v = Some (dk, body) \<and>
           resolve_directive dk body prior now = Inr (out, None) \<and> map_of r k = Some out
    else map_of r k = Some v)"
proof (induction rest arbitrary: acc)
  case (Cons kv rest)
  show ?case
  proof (cases "kv = (k, v)")
    case True
    with Cons.prems have nk: "k \<notin> fst ` set rest" by auto
    show ?thesis
    proof (cases "directive_of v")
      case None
      with Cons.prems(1) True have "resolve_loop args prior now rest (dset acc k v) = Inr (r, None)" by simp
      from resolve_loop_acc [OF this nk] None show ?thesis
        by (simp add: is_directive_def dset_def update_conv)
    next
      case (Some db)
      then obtain dk body where db: "directive_of v = Some (dk, body)" by (cases db) auto
      with Cons.prems(1) True obtain out where
        "resolve_directive dk body prior now = Inr (out, None)"
        "resolve_loop args prior now rest (dset acc k out) = Inr (r, None)"
        by (auto simp: rbind_Inr_iff split: option.splits prod.splits)
      with resolve_loop_acc [OF this(2) nk] db show ?thesis
        by (simp add: is_directive_def dset_def update_conv)
    qed
  next
    case False
    with Cons.prems have "(k, v) \<in> set rest" "distinct (map fst rest)" by auto
    moreover obtain k' v' where "kv = (k', v')" by force
    with Cons.prems(1) obtain u where "resolve_loop args prior now rest (dset acc k' u) = Inr (r, None)"
      by (auto simp: rbind_Inr_iff split: option.splits prod.splits)
    ultimately show ?thesis by (intro Cons.IH)
  qed
qed simp

lemma leave_by_Some:
  assumes "leave_by spec prior now = Inr (out, None)"
  obtains dr buffer start rel where
    "drive_minutes spec prior = Inr (Some dr, None)"
    "py_int (dget_or spec ''buffer_minutes'' (PInt 5)) = Inr buffer"
    "parse_dt (dget spec ''event_start'') = Some start"
    "rel = round_div (utc_us start - (dr + buffer) * minute_us - now) minute_us"
    "rel > 0" "out = PInt rel"
proof -
  from assms obtain dr where dr: "drive_minutes spec prior = Inr (Some dr, None)"
    by (auto simp: leave_by_def rbind_Inr_iff split: option.splits if_splits)
  with assms obtain start where st: "parse_dt (dget spec ''event_start'') = Some start"
    by (auto simp: leave_by_def split: option.splits)
  from assms dr st obtain buffer la where
    "py_int (dget_or spec ''buffer_minutes'' (PInt 5)) = Inr buffer"
    "add_us start (- ((dr + buffer) * minute_us)) = Inr la"
    "round_div (utc_us la - now) minute_us > 0"
    "out = PInt (round_div (utc_us la - now) minute_us)"
    by (auto simp: leave_by_def rbind_Inr_iff Let_def split: if_splits)
  moreover from this(2) have "utc_us la = utc_us start - (dr + buffer) * minute_us"
    by (auto simp: add_us_def utc_us_def split: if_splits)
  ultimately show ?thesis using dr st by (intro that) auto
qed

subsection \<open>Properties\<close>

text \<open>
  A resolution that is not skipped keeps the argument names and their order; an argument that
  is no directive keeps its value, and a directive is replaced by exactly the value its own
  resolution gives.
\<close>

lemma resolve_step_args_spec:
  assumes "distinct (map fst args)" and "resolve_step_args args prior now = Inr (r, None)"
  shows "map fst r = map fst args \<and>
    (\<forall>(k, v) \<in> set args.
      if is_directive v
      then \<exists>dk body out. directive_of v = Some (dk, body) \<and>
             resolve_directive dk body prior now = Inr (out, None) \<and> map_of r k = Some out
      else map_of r k = Some v)"
  using assms resolve_loop_keys [of args prior now args "[]" r]
    resolve_loop_value [of args prior now args "[]" r]
  unfolding resolve_step_args_def by fastforce

lemma resolve_step_args_spec_witness:
  "resolve_step_args
     [(''text'', PStr ''go''), (''n'', PDict [(''$from_step'', PDict [(''step'', PInt 0), (''field'', PStr ''eta'')])])]
     [[(''success'', PBool True), (''data'', PDict [(''eta'', PInt 12)])]] 0
   = Inr ([(''text'', PStr ''go''), (''n'', PInt 12)], None) \<and>
   map fst [(''text'', PStr ''go''), (''n'', PInt 12)] = [''text'', ''n'']"
proof -
  let ?args = "[(''text'', PStr ''go''), (''n'', PDict [(''$from_step'', PDict [(''step'', PInt 0), (''field'', PStr ''eta'')])])]"
  let ?prior = "[[(''success'', PBool True), (''data'', PDict [(''eta'', PInt 12)])]]"
  have d: "distinct (map fst ?args)" by simp
  have r: "resolve_step_args ?args ?prior 0 = Inr ([(''text'', PStr ''go''), (''n'', PInt 12)], None)"
    by code_simp
  from resolve_step_args_spec [OF d r] r show ?thesis by simp
qed

text \<open>
  A leave-by directive that resolves gives a positive number of minutes, and that number plus
  the drive and the buffer lands within half a minute of the event's start, measured from now.
\<close>

lemma leave_by_window:
  assumes "leave_by spec prior now = Inr (out, None)"
  shows "\<exists>rel dr buffer start. out = PInt rel \<and> rel > 0 \<and>
     drive_minutes spec prior = Inr (Some dr, None) \<and>
     py_int (dget_or spec ''buffer_minutes'' (PInt 5)) = Inr buffer \<and>
     parse_dt (dget spec ''event_start'') = Some start \<and>
     2 * \<bar>(utc_us start - now) - (rel + dr + buffer) * minute_us\<bar> \<le> minute_us"
proof -
  from leave_by_Some [OF assms] obtain dr buffer start rel where
    l: "drive_minutes spec prior = Inr (Some dr, None)"
      "py_int (dget_or spec ''buffer_minutes'' (PInt 5)) = Inr buffer"
      "parse_dt (dget spec ''event_start'') = Some start"
      "rel = round_div (utc_us start - (dr + buffer) * minute_us - now) minute_us"
      "rel > 0" "out = PInt rel" by metis
  have "2 * \<bar>(utc_us start - (dr + buffer) * minute_us - now) - minute_us * rel\<bar> \<le> minute_us"
    unfolding l(4) by (rule round_div_near) (simp add: minute_us_def)
  then have "2 * \<bar>(utc_us start - now) - (rel + dr + buffer) * minute_us\<bar> \<le> minute_us"
    by (simp add: algebra_simps)
  with l show ?thesis by blast
qed

lemma leave_by_window_witness:
  "leave_by [(''event_start'', PStr ''2026-08-17T10:00:00+00:00''), (''drive_from_step'', PInt 0)]
     [[(''success'', PBool True), (''data'', PDict [(''duration_minutes'', PInt 25)])]]
     (days_from_civil 2026 8 17 * day_us + 9 * 60 * minute_us) = Inr (PInt 30, None) \<and>
   (\<exists>rel. PInt 30 = PInt rel \<and> rel > 0)"
proof -
  have r: "leave_by [(''event_start'', PStr ''2026-08-17T10:00:00+00:00''), (''drive_from_step'', PInt 0)]
     [[(''success'', PBool True), (''data'', PDict [(''duration_minutes'', PInt 25)])]]
     (days_from_civil 2026 8 17 * day_us + 9 * 60 * minute_us) = Inr (PInt 30, None)"
    by code_simp
  from leave_by_window [OF r] r show ?thesis by blast
qed

end
