(* ===== verification/Workflow_Engine.thy ===== *)
theory Workflow_Engine
  imports Phone_Sessions Step_Resolver
begin

section \<open>The workflow engine: running one step\<close>

text \<open>
  The dispatch half of \<^verbatim>\<open>app/services/workflow_engine.py\<close>: the step outcomes, the five handlers in
  their registration order, suspension, and the envelope check. A step and an outcome are
  dictionaries, as they are in the source. The node's reply, a server tool's parsed JSON and the
  flattened date context are services of \<open>env\<close>. The time zone, the cache key and the timeouts
  are only handed on to those services and are left out of the context.
\<close>

subsection \<open>Contexts and suspensions\<close>

record wf_ctx =
  wc_household :: string
  wc_node :: "string option"
  wc_user :: "int option"
  wc_goal :: string
  wc_workflow :: "string option"
  wc_results :: "pydict list"

record suspend =
  su_cursor :: int
  su_key :: string
  su_kind :: string
  su_results :: "pydict list"
  su_wake :: "int option"

text \<open>What a step gives: an outcome, or a suspension.\<close>

type_synonym step_result = "pydict + suspend"

text \<open>What wakes a run up: the snapshot of a finished call, or a bare marker.\<close>

definition marker :: "string \<Rightarrow> signal_outcome" where
  "marker st = \<lparr>so_errand = None, so_step = None, so_state = Some st, so_contact_name = None,
     so_error = None, so_goal = PNone, so_outcome = None\<rparr>"

subsection \<open>Step outcomes\<close>

definition failed_outcome :: "string \<Rightarrow> pyval \<Rightarrow> string \<Rightarrow> pydict" where
  "failed_outcome cmd label err =
     [(''command'', PStr cmd), (''label'', label), (''success'', PBool False), (''message'', PNone),
      (''error'', PStr err), (''data'', PNone)]"

definition ok_outcome :: "string \<Rightarrow> pyval \<Rightarrow> pyval \<Rightarrow> pydict" where
  "ok_outcome cmd label msg =
     [(''command'', PStr cmd), (''label'', label), (''success'', PBool True), (''message'', msg),
      (''error'', PNone), (''data'', PNone)]"

fun summary_keys :: "string list \<Rightarrow> pydict \<Rightarrow> string option" where
  "summary_keys [] obj = None"
| "summary_keys (key # keys) obj =
     (case dget obj key of
        PList (x # xs) \<Rightarrow> Some (int_str (int (length (x # xs))) @ '' '' @ key)
      | _ \<Rightarrow> summary_keys keys obj)"

definition summarize_server_result :: "pydict \<Rightarrow> string option" where
  "summarize_server_result obj =
     (case summary_keys [''sources'', ''memories'', ''results'', ''items''] obj of
        Some t \<Rightarrow> Some t
      | None \<Rightarrow> (case dget obj ''status'' of PStr st \<Rightarrow> if st = ''accepted'' then None else Some st | _ \<Rightarrow> None))"

definition server_step_outcome :: "string \<Rightarrow> pyval option \<Rightarrow> pydict" where
  "server_step_outcome cmd raw =
     (let obj = (case raw of Some (PDict d) \<Rightarrow> d | _ \<Rightarrow> []) in
      if dget obj ''error'' \<noteq> PNone then
        [(''command'', PStr cmd), (''success'', PBool False), (''message'', PNone),
         (''error'', por (dget obj ''message'') (PStr (py_str (dget obj ''error'')))), (''data'', PNone)]
      else
        [(''command'', PStr cmd), (''success'', PBool True),
         (''message'', por (dget obj ''message'') (opt_str (summarize_server_result obj))),
         (''error'', PNone), (''data'', PDict obj)])"

definition node_step_outcome :: "string \<Rightarrow> pyval \<Rightarrow> pydict" where
  "node_step_outcome cmd output =
     (case output of
        PDict d \<Rightarrow>
          (let err = dget d ''error'';
               success = truthy (dget_or d ''success'' (PBool True)) \<and> \<not> truthy err in
           [(''command'', PStr cmd), (''success'', PBool success),
            (''message'', if success then dget d ''message'' else PNone),
            (''error'', if truthy err then PStr (py_str err)
                        else if success then PNone else PStr ''the command reported a failure''),
            (''data'', if success then output else PNone)])
      | _ \<Rightarrow> [(''command'', PStr cmd), (''success'', PBool True), (''message'', PNone), (''error'', PNone),
              (''data'', PNone)])"

subsection \<open>Date keys in a node step\<close>

fun underscore_spaces :: "bool \<Rightarrow> string \<Rightarrow> string" where
  "underscore_spaces b [] = []"
| "underscore_spaces b (c # cs) =
     (if is_space c then (if b then underscore_spaces True cs else CHR ''_'' # underscore_spaces True cs)
      else c # underscore_spaces False cs)"

definition normalize_date_key :: "string \<Rightarrow> string" where
  "normalize_date_key raw =
     map (\<lambda>c. if c = CHR '':'' then CHR ''_'' else c) (underscore_spaces False (lower (strip raw)))"

definition replace_z :: "string \<Rightarrow> string" where
  "replace_z s = concat (map (\<lambda>c. if c = CHR ''Z'' then ''+00:00'' else [c]) s)"

definition is_iso_datetime :: "string \<Rightarrow> bool" where
  "is_iso_datetime v =
     (if CHR ''T'' \<notin> set v then False
      else case fromisoformat (if v \<noteq> [] \<and> last v = CHR ''Z'' then replace_z v else v) of
        None \<Rightarrow> False
      | Some t \<Rightarrow> dt_off t \<noteq> None)"

fun resolve_date_values :: "(string \<times> pyval) list \<Rightarrow> pyval list \<Rightarrow> pyval list" where
  "resolve_date_values flat [] = []"
| "resolve_date_values flat (v # vs) =
     (case v of
        PStr s \<Rightarrow>
          (if is_iso_datetime s then [v]
           else case dget flat (normalize_date_key s) of
             PStr t \<Rightarrow> [PStr t]
           | PList xs \<Rightarrow> filter is_str xs
           | _ \<Rightarrow> [])
      | _ \<Rightarrow> []) @ resolve_date_values flat vs"

definition resolve_datetimes :: "pyval list \<Rightarrow> (string \<times> pyval) list \<Rightarrow> pyval list" where
  "resolve_datetimes values flat =
     (let out = resolve_date_values flat values in if out = [] then values else out)"

definition resolve_node_args :: "pydict \<Rightarrow> (string \<times> pyval) list \<Rightarrow> pydict" where
  "resolve_node_args args flat =
     (case dget args ''resolved_datetimes'' of
        PNone \<Rightarrow> args
      | PList xs \<Rightarrow> dset args ''resolved_datetimes'' (PList (resolve_datetimes xs flat))
      | v \<Rightarrow> dset args ''resolved_datetimes'' (PList (resolve_datetimes [v] flat)))"

subsection \<open>Placing a call\<close>

definition deferred_server_tools :: "string list" where
  "deferred_server_tools = [''make_phone_call'']"

definition stripped :: "pyval \<Rightarrow> exc + string" where
  "stripped v = rbind (as_str v) (\<lambda>s. Inr (strip s))"

definition prior_line :: "pydict \<Rightarrow> exc + string option" where
  "prior_line r =
     rbind (stripped (por (dget r ''label'') (PStr ''Step''))) (\<lambda>label.
     rbind (stripped (por (por (por (dget r ''summary'') (dget r ''message'')) (dget r ''error'')) (PStr []))) (\<lambda>detail.
     Inr (if detail = [] then None else Some (''- '' @ label @ '': '' @ detail))))"

definition prior_steps_context :: "pydict list \<Rightarrow> exc + string" where
  "prior_steps_context results =
     rbind (rmap prior_line results) (\<lambda>ls.
     let lines = List.map_filter id ls in
     Inr (if lines = [] then []
          else ''Earlier in this errand (background - use only if the business asks or it's relevant):'' @
               newline @ join newline lines))"

definition place_call :: "env \<Rightarrow> string \<Rightarrow> int option \<Rightarrow> pydict \<Rightarrow> string \<Rightarrow> string option \<Rightarrow> int
    \<Rightarrow> pydict list \<Rightarrow> (world, string option) io" where
  "place_call E hh user args goal wid i prior =
     bind (lift (stripped (por (dget args ''business'') (PStr [])))) (\<lambda>business.
     bind (lift (stripped (por (dget args ''goal'') (PStr goal)))) (\<lambda>call_goal.
     if business = [] \<or> call_goal = [] then ret None
     else catch
       (bind (lift (prior_steps_context prior)) (\<lambda>ctx.
        create_call_plan E business call_goal hh user wid (Some i) ctx))
       (\<lambda>_. ret None)))"

subsection \<open>The phone handler\<close>

definition phone_run :: "env \<Rightarrow> wf_ctx \<Rightarrow> string \<Rightarrow> pydict \<Rightarrow> pyval \<Rightarrow> int \<Rightarrow> (world, step_result) io" where
  "phone_run E ctx cmd args label i =
     (if \<not> otruthy (wc_workflow ctx) then ret (Inl (failed_outcome cmd label ''call step has no workflow link''))
      else bind (place_call E (wc_household ctx) (wc_user ctx) args (wc_goal ctx) (wc_workflow ctx) i (wc_results ctx))
        (\<lambda>sid. ret (if otruthy sid
          then Inr \<lparr>su_cursor = i + 1, su_key = oor sid [], su_kind = ''phone_call'', su_results = [], su_wake = None\<rparr>
          else Inl (failed_outcome cmd label ''couldn't set up the call''))))"

definition outcome_goal_achieved :: "signal_outcome \<Rightarrow> pyval" where
  "outcome_goal_achieved s =
     (if so_goal s \<noteq> PNone then so_goal s
      else case so_outcome s of None \<Rightarrow> PNone | Some d \<Rightarrow> dget d ''goal_achieved'')"

definition outcome_summary :: "signal_outcome \<Rightarrow> exc + string" where
  "outcome_summary s = (case so_outcome s of
      None \<Rightarrow> Inr []
    | Some d \<Rightarrow>
        rbind (stripped (por (dget d ''summary'') (PStr []))) (\<lambda>summary.
        Inr (case dget d ''facts'' of
            PList (f # fs) \<Rightarrow> strip (summary @ '' (confirmed: '' @ join '', '' (map py_str (f # fs)) @ '')'')
          | _ \<Rightarrow> summary)))"

text \<open>The label of a step of the plan; a step that is no dictionary raises.\<close>

definition step_label :: "pyval list \<Rightarrow> int \<Rightarrow> string \<Rightarrow> exc + pyval" where
  "step_label steps i d =
     (if 0 \<le> i \<and> i < int (length steps)
      then rbind (as_dict (steps ! nat i)) (\<lambda>s. Inr (por (dget s ''label'') (PStr d))) else Inr (PStr d))"

definition call_end_reason :: "string \<Rightarrow> string" where
  "call_end_reason st =
     (if st = ''failed'' then ''the call didn't go through''
      else if st = ''declined'' then ''the call was declined''
      else if st = ''expired'' then ''the call plan expired before it was confirmed''
      else ''the call ended as '' @ st)"

definition phone_interpret :: "signal_outcome \<Rightarrow> pyval list \<Rightarrow> int \<Rightarrow> exc + pydict" where
  "phone_interpret s steps i =
     rbind (step_label steps i ''Call'') (\<lambda>label.
      let who = oor (so_contact_name s) ''the business''; st = oor (so_state s) [] in
      if st = ''done'' then
        (let achieved = outcome_goal_achieved s in
         rbind (outcome_summary s) (\<lambda>summary.
         if achieved = PBool True then
           Inr [(''command'', PStr ''make_phone_call''), (''label'', label), (''success'', PBool True),
                (''message'', PStr (''Called '' @ who @ '' and achieved the goal.'')), (''summary'', PStr summary),
                (''error'', PNone), (''data'', PNone)]
         else
           Inr [(''command'', PStr ''make_phone_call''), (''label'', label), (''success'', PBool False),
                (''message'', PNone), (''summary'', PStr summary),
                (''error'', PStr (''reached '' @ who @
                    (if achieved = PBool False then '' but the goal wasn't achieved''
                     else '' but couldn't confirm the goal was achieved''))),
                (''data'', PNone)]))
      else Inr (failed_outcome ''make_phone_call'' label (oor (so_error s) (call_end_reason st))))"

subsection \<open>Timers and checkpoints\<close>

definition delay_us :: "pyval \<Rightarrow> int option" where
  "delay_us v = (case v of
      PInt n \<Rightarrow> if 0 \<le> n then Some (n * 1000000) else None
    | PFloat r t \<Rightarrow> if 0 \<le> r then Some (round_rat (r * 1000000)) else None
    | _ \<Rightarrow> None)"

definition resolve_wake_at :: "int \<Rightarrow> pydict \<Rightarrow> exc + int option" where
  "resolve_wake_at now args =
     (case delay_us (dget args ''delay_seconds'') of
        Some d \<Rightarrow> (if in_range (now + d) then Inr (Some (now + d)) else Inl (OverflowError ''date value out of range''))
      | None \<Rightarrow>
          (case dget args ''until'' of
             PStr u \<Rightarrow>
               (if strip u = [] then Inr None
                else case fromisoformat (replace_z (strip u)) of
                  None \<Rightarrow> Inr None
                | Some t \<Rightarrow>
                    (case dt_off t of
                       None \<Rightarrow> Inr (Some (dt_us t))
                     | Some z \<Rightarrow> if in_range (utc_us t) then Inr (Some (utc_us t))
                                else Inl (OverflowError ''date value out of range'')))
           | _ \<Rightarrow> Inr None))"

definition wait_run :: "wf_ctx \<Rightarrow> pydict \<Rightarrow> pyval \<Rightarrow> int \<Rightarrow> (world, step_result) io" where
  "wait_run ctx args label i =
     bind (gets w_now) (\<lambda>now.
     bind (lift (resolve_wake_at now args)) (\<lambda>wake.
     ret (case wake of
         None \<Rightarrow> Inl (failed_outcome ''wait_for'' label ''couldn't understand the wait time'')
       | Some t \<Rightarrow>
           if t \<le> now then Inl (ok_outcome ''wait_for'' label (PStr ''the wait was already over''))
           else if \<not> otruthy (wc_workflow ctx) then Inl (failed_outcome ''wait_for'' label ''wait step has no workflow link'')
           else Inr \<lparr>su_cursor = i + 1, su_key = isoformat t, su_kind = ''timer'', su_results = [], su_wake = Some t\<rparr>)))"

definition wait_interpret :: "pyval list \<Rightarrow> int \<Rightarrow> exc + pydict" where
  "wait_interpret steps i =
     rbind (step_label steps i ''Wait'') (\<lambda>label. Inr (ok_outcome ''wait_for'' label (PStr ''the wait finished'')))"

definition replan_run :: "wf_ctx \<Rightarrow> pyval \<Rightarrow> int \<Rightarrow> (world, step_result) io" where
  "replan_run ctx label i =
     ret (if \<not> otruthy (wc_workflow ctx) then Inl (failed_outcome ''request_replan'' label ''replan step has no workflow link'')
          else Inr \<lparr>su_cursor = i + 1, su_key = oor (wc_workflow ctx) [] @ '':'' @ int_str i, su_kind = ''approval'',
                    su_results = [], su_wake = None\<rparr>)"

definition replan_interpret :: "pyval list \<Rightarrow> int \<Rightarrow> exc + pydict" where
  "replan_interpret steps i =
     rbind (step_label steps i ''Replan'') (\<lambda>label.
     Inr (ok_outcome ''request_replan'' label PNone @ [(''control'', PBool True)]))"

subsection \<open>The envelope check\<close>

definition hashable :: "pyval \<Rightarrow> exc + pyval" where
  "hashable v = (case v of PList _ \<Rightarrow> Inl (TypeError ''unhashable type'') | PDict _ \<Rightarrow> Inl (TypeError ''unhashable type'')
     | _ \<Rightarrow> Inr v)"

definition step_party :: "pydict \<Rightarrow> exc + string option" where
  "step_party s =
     rbind (as_dict (por (dget s ''args'') (PDict []))) (\<lambda>args.
     rbind (stripped (por (dget args ''business'') (PStr []))) (\<lambda>b.
     Inr (if b = [] then None else Some b)))"

definition risky_count :: "pydict list \<Rightarrow> nat" where
  "risky_count steps = length (filter (\<lambda>s. truthy (dget s ''is_risky'')) steps)"

fun widens_loop :: "pyval list \<Rightarrow> string option list \<Rightarrow> pydict list \<Rightarrow> exc + bool" where
  "widens_loop cmds parties [] = Inr False"
| "widens_loop cmds parties (s # rest) =
     rbind (hashable (dget s ''command'')) (\<lambda>c.
     if \<not> list_ex (py_eq c) cmds then Inr True
     else rbind (step_party s) (\<lambda>p.
       if p \<noteq> None \<and> p \<notin> set parties then Inr True
       else widens_loop cmds parties rest))"

definition widens_envelope :: "pydict list \<Rightarrow> pydict list \<Rightarrow> exc + bool" where
  "widens_envelope approved amended =
     rbind (rmap (\<lambda>s. hashable (dget s ''command'')) approved) (\<lambda>cmds.
     rbind (rmap step_party approved) (\<lambda>parties.
     if risky_count amended > risky_count approved then Inr True
     else widens_loop cmds parties amended))"

text \<open>Stored steps are arbitrary values; one that is no dictionary raises.\<close>

definition widens_steps :: "pyval list \<Rightarrow> pyval list \<Rightarrow> exc + bool" where
  "widens_steps approved amended =
     rbind (rmap as_dict approved) (\<lambda>a. rbind (rmap as_dict amended) (widens_envelope a))"

subsection \<open>Handlers and their registry\<close>

datatype step_handler = PhoneCallHandler | WaitForHandler | ReplanHandler | ServerToolHandler | NodeCommandHandler

fun handler_kind :: "step_handler \<Rightarrow> string" where
  "handler_kind PhoneCallHandler = ''deferred''"
| "handler_kind WaitForHandler = ''deferred''"
| "handler_kind ReplanHandler = ''deferred''"
| "handler_kind ServerToolHandler = ''sync''"
| "handler_kind NodeCommandHandler = ''sync''"

fun handler_signal :: "step_handler \<Rightarrow> string option" where
  "handler_signal PhoneCallHandler = Some ''phone_call''"
| "handler_signal WaitForHandler = Some ''timer''"
| "handler_signal ReplanHandler = Some ''approval''"
| "handler_signal ServerToolHandler = None"
| "handler_signal NodeCommandHandler = None"

definition get_tool :: "env \<Rightarrow> string \<Rightarrow> (pydict \<times> bool) option" where
  "get_tool E t = map_of (en_tools E) t"

definition has_tool :: "env \<Rightarrow> string \<Rightarrow> bool" where
  "has_tool E t \<longleftrightarrow> get_tool E t \<noteq> None"

fun handles :: "env \<Rightarrow> step_handler \<Rightarrow> string \<Rightarrow> bool" where
  "handles E PhoneCallHandler cmd = (cmd \<in> set deferred_server_tools)"
| "handles E WaitForHandler cmd = (cmd = ''wait_for'')"
| "handles E ReplanHandler cmd = (cmd = ''request_replan'')"
| "handles E ServerToolHandler cmd = has_tool E cmd"
| "handles E NodeCommandHandler cmd = True"

definition register_handler :: "step_handler \<Rightarrow> step_handler list \<Rightarrow> step_handler list" where
  "register_handler h hs = hs @ [h]"

definition builtin_handlers :: "step_handler list" where
  "builtin_handlers = fold register_handler
     [PhoneCallHandler, WaitForHandler, ReplanHandler, ServerToolHandler, NodeCommandHandler] []"

definition resolve_handler :: "env \<Rightarrow> step_handler list \<Rightarrow> string \<Rightarrow> exc + step_handler" where
  "resolve_handler E hs cmd = (case find (\<lambda>h. handles E h cmd) hs of
      None \<Rightarrow> Inl (LookupError (''no workflow step handler for command '' @ repr_str cmd))
    | Some h \<Rightarrow> Inr h)"

definition deferred_handler :: "step_handler list \<Rightarrow> string \<Rightarrow> step_handler option" where
  "deferred_handler hs kind = find (\<lambda>h. handler_kind h = ''deferred'' \<and> handler_signal h = Some kind) hs"

fun run_handler :: "env \<Rightarrow> step_handler \<Rightarrow> wf_ctx \<Rightarrow> string \<Rightarrow> pydict \<Rightarrow> pyval \<Rightarrow> int \<Rightarrow> (world, step_result) io" where
  "run_handler E PhoneCallHandler ctx cmd args label i = phone_run E ctx cmd args label i"
| "run_handler E WaitForHandler ctx cmd args label i = wait_run ctx args label i"
| "run_handler E ReplanHandler ctx cmd args label i = replan_run ctx label i"
| "run_handler E ServerToolHandler ctx cmd args label i =
     bind (perform (en_tool E) (FxTool cmd args)) (\<lambda>raw.
     ret (Inl (dset (server_step_outcome cmd raw) ''label'' label)))"
| "run_handler E NodeCommandHandler ctx cmd args label i =
     bind (gets (\<lambda>w. en_date_flat E (w_log w))) (\<lambda>flat.
     bind (perform (en_node E) (FxNode (wc_node ctx) cmd (resolve_node_args args flat))) (\<lambda>output.
     ret (Inl (dset (node_step_outcome cmd output) ''label'' label))))"

fun interpret_signal :: "step_handler \<Rightarrow> signal_outcome \<Rightarrow> pyval list \<Rightarrow> int \<Rightarrow> exc + pydict" where
  "interpret_signal PhoneCallHandler s steps i = phone_interpret s steps i"
| "interpret_signal WaitForHandler s steps i = wait_interpret steps i"
| "interpret_signal ReplanHandler s steps i = replan_interpret steps i"
| "interpret_signal _ s steps i = Inl (OtherError ''NotImplementedError'')"

definition run_step :: "env \<Rightarrow> wf_ctx \<Rightarrow> string \<Rightarrow> pydict \<Rightarrow> pyval \<Rightarrow> int \<Rightarrow> (world, step_result) io" where
  "run_step E ctx cmd args label i =
     bind (lift (resolve_handler E builtin_handlers cmd)) (\<lambda>h.
     catch
       (bind (run_handler E h ctx cmd args label i) (\<lambda>r.
        ret (case r of Inl d \<Rightarrow> Inl (dsetdefault d ''label'' label) | Inr su \<Rightarrow> Inr su)))
       (\<lambda>e. ret (Inl (failed_outcome cmd label (exc_str e)))))"

end
