(* ===== verification/Workflow_Steps.thy ===== *)
theory Workflow_Steps
  imports Workflow_Engine Sample_Data "HOL-Library.Multiset"
begin

section \<open>What running a step guarantees\<close>

text \<open>
  Routing, isolation of failures, the link between a suspension and what will resume it, the
  reading of a finished call, and the envelope check against a declarative specification.
\<close>

subsection \<open>Routing and isolation\<close>

lemma builtin_handlers_eq:
  "builtin_handlers = [PhoneCallHandler, WaitForHandler, ReplanHandler, ServerToolHandler, NodeCommandHandler]"
  by (simp add: builtin_handlers_def register_handler_def)

definition route :: "env \<Rightarrow> string \<Rightarrow> step_handler" where
  "route E cmd = (if cmd = ''make_phone_call'' then PhoneCallHandler else if cmd = ''wait_for'' then WaitForHandler
     else if cmd = ''request_replan'' then ReplanHandler
     else if has_tool E cmd then ServerToolHandler else NodeCommandHandler)"

lemma route_other:
  "cmd \<noteq> ''make_phone_call'' \<Longrightarrow> cmd \<noteq> ''wait_for'' \<Longrightarrow> cmd \<noteq> ''request_replan'' \<Longrightarrow>
   route E cmd \<in> {ServerToolHandler, NodeCommandHandler}"
  by (simp add: route_def)

lemma resolve_route: "resolve_handler E builtin_handlers cmd = Inr (route E cmd)"
  by (simp add: resolve_handler_def builtin_handlers_eq route_def deferred_server_tools_def)

lemma run_step_route:
  "run_step E ctx cmd args label i =
   catch (bind (run_handler E (route E cmd) ctx cmd args label i) (\<lambda>r.
        ret (case r of Inl d \<Rightarrow> Inl (dsetdefault d ''label'' label) | Inr su \<Rightarrow> Inr su)))
       (\<lambda>e. ret (Inl (failed_outcome cmd label (exc_str e))))"
  by (simp add: run_step_def resolve_route bind_def lift_def)

lemma run_step_noraise: "noraise (run_step E ctx cmd args label i)"
  unfolding run_step_route by (rule noraise_catch) simp

lemma catch_Inr: "catch m h w = (w', Inr x) \<Longrightarrow> (\<And>e w1. m w = (w1, Inl e) \<Longrightarrow> h e w1 \<noteq> (w', Inr x)) \<Longrightarrow> m w = (w', Inr x)"
  by (auto simp: run_catch split: prod.splits sum.splits)

lemma run_step_suspend_handler:
  assumes "run_step E ctx cmd args label i w = (w', Inr (Inr su))"
  shows "run_handler E (route E cmd) ctx cmd args label i w = (w', Inr (Inr su))"
proof -
  have "bind (run_handler E (route E cmd) ctx cmd args label i) (\<lambda>r.
        ret (case r of Inl d \<Rightarrow> Inl (dsetdefault d ''label'' label) | Inr su \<Rightarrow> Inr su)) w = (w', Inr (Inr su))"
    using assms unfolding run_step_route by (rule catch_Inr) (simp add: run_ret)
  then show ?thesis by (elim bindE) (auto simp: run_ret split: sum.splits)
qed

subsection \<open>Suspensions can be resumed\<close>

text \<open>What a suspension promises: the next step, and a source that will wake the run up.\<close>

definition resumable :: "world \<Rightarrow> wf_ctx \<Rightarrow> string \<Rightarrow> int \<Rightarrow> suspend \<Rightarrow> bool" where
  "resumable w ctx cmd i su \<longleftrightarrow> su_cursor su = i + 1 \<and> otruthy (wc_workflow ctx) \<and>
     (if cmd = ''make_phone_call'' then
        su_kind su = ''phone_call'' \<and> su_wake su = None \<and>
        (\<exists>s \<in> set (w_sessions w). ps_id s = su_key su \<and> ps_state s = ''draft'' \<and>
           ps_errand_id s = wc_workflow ctx \<and> ps_errand_step s = Some i \<and> ps_household s = wc_household ctx)
      else if cmd = ''wait_for'' then
        su_kind su = ''timer'' \<and> (\<exists>t. su_wake su = Some t \<and> t > w_now w)
      else cmd = ''request_replan'' \<and> su_kind su = ''approval'' \<and> su_wake su = None)"

lemma place_call_Some:
  assumes "place_call E hh user args goal wid i prior w = (w', Inr (Some sid))"
  shows "\<exists>s \<in> set (w_sessions w'). ps_id s = sid \<and> ps_state s = ''draft'' \<and>
     ps_errand_id s = wid \<and> ps_errand_step s = Some i \<and> ps_household s = hh"
proof -
  from assms obtain b g where "catch (bind (lift (prior_steps_context prior)) (\<lambda>ctx.
        create_call_plan E b g hh user wid (Some i) ctx)) (\<lambda>_. ret None) w = (w', Inr (Some sid))"
    unfolding place_call_def
    by (elim bindE) (auto simp: run_lift run_ret split: if_splits)
  then have "bind (lift (prior_steps_context prior)) (\<lambda>ctx.
        create_call_plan E b g hh user wid (Some i) ctx) w = (w', Inr (Some sid))"
    by (rule catch_Inr) (simp add: run_ret)
  then obtain ctx where "create_call_plan E b g hh user wid (Some i) ctx w = (w', Inr (Some sid))"
    by (elim bindE) (auto simp: run_lift)
  from create_call_plan_Some [OF this] show ?thesis by auto
qed

lemma phone_suspend:
  assumes "phone_run E ctx cmd args label i w = (w', Inr (Inr su))"
  shows "otruthy (wc_workflow ctx) \<and> su_cursor su = i + 1 \<and> su_kind su = ''phone_call'' \<and> su_wake su = None \<and>
    (\<exists>s \<in> set (w_sessions w'). ps_id s = su_key su \<and> ps_state s = ''draft'' \<and>
       ps_errand_id s = wc_workflow ctx \<and> ps_errand_step s = Some i \<and> ps_household s = wc_household ctx)"
proof (cases "otruthy (wc_workflow ctx)")
  case True
  with assms obtain sid w1 where p: "place_call E (wc_household ctx) (wc_user ctx) args (wc_goal ctx) (wc_workflow ctx) i
      (wc_results ctx) w = (w1, Inr sid)" and
    r: "ret (if otruthy sid
          then Inr \<lparr>su_cursor = i + 1, su_key = oor sid [], su_kind = ''phone_call'', su_results = [], su_wake = None\<rparr>
          else Inl (failed_outcome cmd label ''couldn't set up the call'')) w1 = (w', Inr (Inr su))"
    unfolding phone_run_def by (auto elim!: bindE)
  from r have s: "otruthy sid" "w1 = w'" "su = \<lparr>su_cursor = i + 1, su_key = oor sid [], su_kind = ''phone_call'', su_results = [], su_wake = None\<rparr>"
    by (auto simp: run_ret split: if_splits)
  then obtain i' where "sid = Some i'" "i' \<noteq> []" by (cases sid) (auto simp: otruthy_def)
  with p place_call_Some [of E "wc_household ctx" "wc_user ctx" args "wc_goal ctx" "wc_workflow ctx" i "wc_results ctx" w w1 i'] s True
  show ?thesis by simp
next
  case False
  with assms show ?thesis by (simp add: phone_run_def run_ret)
qed

lemma wait_suspend:
  assumes "wait_run ctx args label i w = (w', Inr (Inr su))"
  shows "otruthy (wc_workflow ctx) \<and> su_cursor su = i + 1 \<and> su_kind su = ''timer'' \<and>
    (\<exists>t. su_wake su = Some t \<and> t > w_now w') \<and> w' = w"
  using assms by (auto simp: wait_run_def io_simps split: sum.splits option.splits if_splits)

lemma replan_suspend:
  assumes "replan_run ctx label i w = (w', Inr (Inr su))"
  shows "otruthy (wc_workflow ctx) \<and> su_cursor su = i + 1 \<and> su_kind su = ''approval'' \<and> su_wake su = None"
  using assms by (auto simp: replan_run_def io_simps split: if_splits)

lemma sync_no_suspend:
  "run_handler E ServerToolHandler ctx cmd args label i w \<noteq> (w', Inr (Inr su))"
  "run_handler E NodeCommandHandler ctx cmd args label i w \<noteq> (w', Inr (Inr su))"
  by (auto simp: io_simps split: sum.splits prod.splits)

lemma run_step_suspend:
  assumes "run_step E ctx cmd args label i w = (w', Inr (Inr su))"
  shows "resumable w' ctx cmd i su"
proof -
  note h = run_step_suspend_handler [OF assms]
  consider (phone) "cmd = ''make_phone_call''" | (wait) "cmd = ''wait_for''" | (replan) "cmd = ''request_replan''"
    | (other) "route E cmd \<in> {ServerToolHandler, NodeCommandHandler}"
    using route_other [of cmd E] by blast
  then show ?thesis
  proof cases
    case phone
    with h have "phone_run E ctx cmd args label i w = (w', Inr (Inr su))" by (simp add: route_def)
    from phone_suspend [OF this] phone show ?thesis by (simp add: resumable_def)
  next
    case wait
    with h have "wait_run ctx args label i w = (w', Inr (Inr su))" by (simp add: route_def)
    from wait_suspend [OF this] wait show ?thesis by (auto simp: resumable_def)
  next
    case replan
    with h have "replan_run ctx label i w = (w', Inr (Inr su))" by (simp add: route_def)
    from replan_suspend [OF this] replan show ?thesis by (simp add: resumable_def)
  next
    case other
    with h sync_no_suspend show ?thesis by auto
  qed
qed

subsection \<open>The envelope check\<close>

text \<open>The declarative reading: more risk, a new command, or a new party.\<close>

definition plan_commands :: "pydict list \<Rightarrow> pyval list" where
  "plan_commands steps = map (\<lambda>s. dget s ''command'') steps"

definition contacts_party :: "pydict \<Rightarrow> string \<Rightarrow> bool" where
  "contacts_party s p \<longleftrightarrow> step_party s = Inr (Some p)"

definition widening :: "pydict list \<Rightarrow> pydict list \<Rightarrow> bool" where
  "widening approved amended \<longleftrightarrow>
     risky_count amended > risky_count approved \<or>
     (\<exists>s \<in> set amended. \<not> list_ex (py_eq (dget s ''command'')) (plan_commands approved)) \<or>
     (\<exists>s \<in> set amended. \<exists>p. contacts_party s p \<and> (\<forall>a \<in> set approved. \<not> contacts_party a p))"

lemma rmap_Inr: "rmap f xs = Inr ys \<Longrightarrow> map (\<lambda>x. f x) xs = map Inr ys"
  by (induction xs arbitrary: ys) (auto simp: rbind_Inr_iff)

lemma hashable_Inr: "hashable v = Inr c \<Longrightarrow> c = v"
  by (auto simp: hashable_def split: pyval.splits)

lemma rmap_hashable: "rmap (\<lambda>s. hashable (dget s ''command'')) steps = Inr cmds \<Longrightarrow> cmds = plan_commands steps"
  by (induction steps arbitrary: cmds) (auto simp: rbind_Inr_iff plan_commands_def dest: hashable_Inr)

lemma rmap_parties:
  "rmap step_party steps = Inr parties \<Longrightarrow> Some p \<in> set parties \<longleftrightarrow> (\<exists>a \<in> set steps. contacts_party a p)"
  by (induction steps arbitrary: parties) (auto simp: rbind_Inr_iff contacts_party_def)

lemma widens_loop_True:
  "widens_loop cmds parties steps = Inr True \<Longrightarrow>
   \<exists>s \<in> set steps. \<not> list_ex (py_eq (dget s ''command'')) cmds \<or> (\<exists>p. contacts_party s p \<and> Some p \<notin> set parties)"
  by (induction cmds parties steps rule: widens_loop.induct)
    (auto simp: rbind_Inr_iff contacts_party_def dest!: hashable_Inr split: if_splits)

lemma widens_loop_False:
  "widens_loop cmds parties steps = Inr False \<Longrightarrow> s \<in> set steps \<Longrightarrow>
   list_ex (py_eq (dget s ''command'')) cmds \<and> (\<forall>p. contacts_party s p \<longrightarrow> Some p \<in> set parties)"
  by (induction cmds parties steps rule: widens_loop.induct)
    (auto simp: rbind_Inr_iff contacts_party_def dest!: hashable_Inr split: if_splits)

lemma widens_envelope_spec:
  assumes "widens_envelope approved amended = Inr b"
  shows "b \<longleftrightarrow> widening approved amended"
proof -
  from assms obtain cmds parties where c: "rmap (\<lambda>s. hashable (dget s ''command'')) approved = Inr cmds"
    and p: "rmap step_party approved = Inr parties"
    and b: "(if risky_count amended > risky_count approved then Inr True else widens_loop cmds parties amended) = Inr b"
    by (auto simp: widens_envelope_def rbind_Inr_iff)
  note cc = rmap_hashable [OF c] and pp = rmap_parties [OF p]
  show ?thesis
  proof (cases "risky_count amended > risky_count approved")
    case True
    with b show ?thesis by (simp add: widening_def)
  next
    case False
    with b have l: "widens_loop cmds parties amended = Inr b" by simp
    show ?thesis
    proof (cases b)
      case True
      with widens_loop_True [of cmds parties amended] l cc pp show ?thesis
        by (auto simp: widening_def)
    next
      case f: False
      with widens_loop_False [of cmds parties amended] l cc pp False show ?thesis
        by (auto simp: widening_def)
    qed
  qed
qed

lemma risky_count_mset: "mset amended \<subseteq># mset approved \<Longrightarrow> risky_count amended \<le> risky_count approved"
proof -
  assume "mset amended \<subseteq># mset approved"
  then have "filter_mset (\<lambda>s. truthy (dget s ''is_risky'')) (mset amended)
      \<subseteq># filter_mset (\<lambda>s. truthy (dget s ''is_risky'')) (mset approved)"
    by (rule multiset_filter_mono)
  then show ?thesis unfolding risky_count_def
    by (metis mset_filter size_mset size_mset_mono)
qed

lemma py_eq_refl [simp]: "py_eq v v"
  by (simp add: py_eq_def split: option.splits)

lemma sub_plan_not_widening: "mset amended \<subseteq># mset approved \<Longrightarrow> \<not> widening approved amended"
proof -
  assume m: "mset amended \<subseteq># mset approved"
  then have sub: "set amended \<subseteq> set approved" by (metis mset_subset_eqD set_mset_mset subsetI)
  then have "\<forall>s \<in> set amended. list_ex (py_eq (dget s ''command'')) (plan_commands approved)"
    by (auto simp: list_ex_iff plan_commands_def intro!: bexI)
  with sub risky_count_mset [OF m] show ?thesis by (auto simp: widening_def)
qed

subsection \<open>Properties\<close>

text \<open>
  A step never raises, and it is routed by one fixed rule: a call, a wait and a checkpoint go to
  their deferred handlers, then a registered server tool runs in process, and everything else goes
  to the node; a handler that raises becomes a failed outcome with the step's label.
\<close>

lemma run_step_isolated:
  "resolve_handler E builtin_handlers cmd = Inr (route E cmd) \<and>
   run_step E ctx cmd args label i w =
     (case run_handler E (route E cmd) ctx cmd args label i w of (w', r) \<Rightarrow>
        (w', Inr (case r of
            Inl e \<Rightarrow> Inl (failed_outcome cmd label (exc_str e))
          | Inr (Inl d) \<Rightarrow> Inl (dsetdefault d ''label'' label)
          | Inr (Inr su) \<Rightarrow> Inr su)))"
  by (simp add: resolve_route run_step_route run_catch run_bind run_ret split: prod.split sum.split)

text \<open>
  A step suspends a run only with something that can resume it: the run is linked, the cursor is
  the next step, and the wake-up source is the draft call session that was just linked to exactly
  this run and step, an instant in the future, or an approval of a checkpoint.
\<close>

lemma run_step_resumable:
  assumes "run_step E ctx cmd args label i w = (w', Inr (Inr su))"
  shows "resumable w' ctx cmd i su"
  using assms by (rule run_step_suspend)

lemma run_step_resumable_witness:
  "\<exists>w' su. run_step sample_env
       \<lparr>wc_household = ''h1'', wc_node = None, wc_user = Some 7, wc_goal = ''Ask'', wc_workflow = Some ''wf_9'', wc_results = []\<rparr>
       ''make_phone_call'' [(''business'', PStr ''Cafe'')] (PStr ''Call'') 2 (sample_world 0) = (w', Inr (Inr su)) \<and>
     su_cursor su = 3 \<and> (\<exists>s \<in> set (w_sessions w'). ps_id s = su_key su \<and> ps_errand_step s = Some 2)"
proof -
  let ?c = "\<lparr>wc_household = ''h1'', wc_node = None, wc_user = Some 7, wc_goal = ''Ask'', wc_workflow = Some ''wf_9'', wc_results = []\<rparr>"
  let ?r = "run_step sample_env ?c ''make_phone_call'' [(''business'', PStr ''Cafe'')] (PStr ''Call'') 2 (sample_world 0)"
  have "snd ?r = Inr (Inr \<lparr>su_cursor = 3, su_key = ''call_0'', su_kind = ''phone_call'', su_results = [], su_wake = None\<rparr>)"
    by code_simp
  then have r: "?r = (fst ?r, Inr (Inr \<lparr>su_cursor = 3, su_key = ''call_0'', su_kind = ''phone_call'', su_results = [], su_wake = None\<rparr>))"
    by (metis prod.collapse)
  from run_step_resumable [OF r]
  have "\<exists>s \<in> set (w_sessions (fst ?r)). ps_id s = ''call_0'' \<and> ps_errand_step s = Some 2"
    by (auto simp: resumable_def)
  then show ?thesis by (intro exI conjI) (rule r, simp_all)
qed

text \<open>
  A finished call lets the run continue only on an explicit success: the outcome it is read as
  succeeds exactly when the call ended in the done state and the gateway reported the goal achieved;
  a goal that is missing, false, or any other value stops the run.
\<close>

lemma phone_success_explicit:
  assumes "phone_interpret s steps i = Inr d"
  shows "truthy (dget d ''success'') \<longleftrightarrow>
    so_state s = Some ''done'' \<and>
    (if so_goal s \<noteq> PNone then so_goal s = PBool True
     else \<exists>oc. so_outcome s = Some oc \<and> dget oc ''goal_achieved'' = PBool True)"
proof -
  have st: "oor (so_state s) [] = ''done'' \<longleftrightarrow> so_state s = Some ''done''"
    by (cases "so_state s") auto
  have g: "outcome_goal_achieved s = PBool True \<longleftrightarrow>
      (if so_goal s \<noteq> PNone then so_goal s = PBool True
       else \<exists>oc. so_outcome s = Some oc \<and> dget oc ''goal_achieved'' = PBool True)"
    by (auto simp: outcome_goal_achieved_def split: option.splits)
  show ?thesis
    using assms unfolding g [symmetric] st [symmetric]
    by (auto simp: phone_interpret_def Let_def rbind_Inr_iff failed_outcome_def split: if_splits)
qed

lemma phone_success_explicit_witness:
  "\<exists>d. phone_interpret (marker ''done''\<lparr>so_outcome := Some [(''goal_achieved'', PBool True)]\<rparr>) [] 0 = Inr d \<and>
     truthy (dget d ''success'')"
proof -
  let ?s = "marker ''done''\<lparr>so_outcome := Some [(''goal_achieved'', PBool True)]\<rparr>"
  have "case phone_interpret ?s [] 0 of Inl _ \<Rightarrow> False | Inr _ \<Rightarrow> True" by code_simp
  then obtain d where d: "phone_interpret ?s [] 0 = Inr d" by (cases "phone_interpret ?s [] 0") auto
  have "so_state ?s = Some ''done''" "so_goal ?s = PNone" "so_outcome ?s = Some [(''goal_achieved'', PBool True)]"
    by (simp_all add: marker_def)
  with phone_success_explicit [OF d] d show ?thesis by simp
qed

text \<open>
  The envelope check is exactly its specification: a changed plan needs a human decision when it
  has more risky steps, a command that was not approved, or a party that was not being contacted.
\<close>

lemma widens_envelope_correct:
  assumes "widens_envelope approved amended = Inr b"
  shows "b \<longleftrightarrow> widening approved amended"
  using assms by (rule widens_envelope_spec)

lemma widens_envelope_correct_witness:
  "widening [[(''command'', PStr ''get_weather'')]]
     [[(''command'', PStr ''get_weather'')], [(''command'', PStr ''make_phone_call'')]]"
proof -
  have "widens_envelope [[(''command'', PStr ''get_weather'')]]
     [[(''command'', PStr ''get_weather'')], [(''command'', PStr ''make_phone_call'')]] = Inr True" by code_simp
  from widens_envelope_correct [OF this] show ?thesis by simp
qed

text \<open>
  Reordering or removing approved steps never widens the envelope.
\<close>

lemma sub_plan_in_envelope:
  assumes "mset amended \<subseteq># mset approved" and "widens_envelope approved amended = Inr b"
  shows "\<not> b"
  using widens_envelope_spec [OF assms(2)] sub_plan_not_widening [OF assms(1)] by simp

lemma sub_plan_in_envelope_witness:
  "widens_envelope [[(''command'', PStr ''a'')], [(''command'', PStr ''b''), (''is_risky'', PBool True)]]
     [[(''command'', PStr ''b''), (''is_risky'', PBool True)]] = Inr False \<and> \<not> False"
proof -
  have w: "widens_envelope [[(''command'', PStr ''a'')], [(''command'', PStr ''b''), (''is_risky'', PBool True)]]
     [[(''command'', PStr ''b''), (''is_risky'', PBool True)]] = Inr False" by code_simp
  have "\<not> False" by (rule sub_plan_in_envelope [OF _ w]) simp
  with w show ?thesis by simp
qed

end
