(* ===== verification/Errand_Executor.thy ===== *)
theory Errand_Executor
  imports Workflow_Steps
begin

section \<open>The errand executor: one plan, step by step\<close>

text \<open>
  \<^verbatim>\<open>app/services/errand_executor.py\<close>: the run loop with its fail-fast rule and suspension, the
  roll-up of the outcomes, and the composed completion message. The model's reply is a service of
  \<open>env\<close>; of its prompt only the variable part is kept. The bullet that separates the parts of
  the plain message is written as an asterisk.
\<close>

subsection \<open>The plain message\<close>

definition outcome_label :: "pydict \<Rightarrow> string" where
  "outcome_label r = py_str (por (por (dget r ''label'') (dget r ''command'')) (PStr ''step''))"

definition message_part :: "pydict \<Rightarrow> string" where
  "message_part r =
     (if truthy (dget r ''success'') then
        (if truthy (dget r ''message'') then outcome_label r @ '': '' @ py_str (dget r ''message'')
         else outcome_label r @ '': done'')
      else outcome_label r @ '': '' @ py_str (por (dget r ''error'') (PStr ''failed'')))"

definition compose_message :: "pydict list \<Rightarrow> string" where
  "compose_message results =
     (if results = [] then ''The errand had no steps to run.'' else join '' * '' (map message_part results))"

subsection \<open>The composed message\<close>

definition compact_skip :: "string list" where
  "compact_skip = [''success'', ''error'', ''actions'', ''message'', ''status'']"

definition compact_part :: "string \<Rightarrow> pyval \<Rightarrow> string list" where
  "compact_part k v = (case v of
      PNone \<Rightarrow> []
    | PList _ \<Rightarrow> [k @ ''='' @ json_dumps v]
    | PDict _ \<Rightarrow> [k @ ''='' @ json_dumps v]
    | _ \<Rightarrow> [k @ ''='' @ py_str v])"

fun compact_loop :: "nat \<Rightarrow> pydict \<Rightarrow> string list \<Rightarrow> string list" where
  "compact_loop cap [] parts = parts"
| "compact_loop cap ((k, v) # rest) parts =
     (if k \<in> set compact_skip then compact_loop cap rest parts
      else let parts' = parts @ compact_part k v in
        if sum_list (map length parts') > cap then parts' else compact_loop cap rest parts')"

definition compact_data :: "nat \<Rightarrow> pyval \<Rightarrow> string" where
  "compact_data cap data = (case data of
      PDict d \<Rightarrow> take cap (join ''; '' (compact_loop cap d []))
    | _ \<Rightarrow> [])"

definition progress_line :: "pydict \<Rightarrow> string" where
  "progress_line r =
     (let ok = truthy (dget r ''success'');
          detail = por (por (por (dget r ''message'') (PStr (compact_data 240 (dget r ''data'')))) (dget r ''error'')) (PStr []);
          text = (if truthy detail then py_str detail
                  else if ok then ''finished but returned no information'' else ''failed with no detail'')
      in ''- '' @ outcome_label r @ '' ['' @ (if ok then ''ok'' else ''FAILED'') @ '']: '' @ text)"

definition think_end :: string where
  "think_end = ''</think>''"

definition after_first :: "string \<Rightarrow> string \<Rightarrow> string" where
  "after_first sep s = (case find_sub s sep of None \<Rightarrow> s | Some i \<Rightarrow> drop (i + length sep) s)"

definition compose_errand_message :: "env \<Rightarrow> string \<Rightarrow> pydict list \<Rightarrow> string \<Rightarrow> (world, string) io" where
  "compose_errand_message E goal results fallback =
     catch
       (bind (perform (en_llm E) (FxLlm ''errand report'' (goal # map progress_line results))) (\<lambda>content.
        ret (oor (Some (strip (after_first think_end content))) fallback)))
       (\<lambda>_. ret fallback)"

subsection \<open>Aggregation\<close>

definition passed_count :: "pydict list \<Rightarrow> nat" where
  "passed_count results = length (filter (\<lambda>r. truthy (dget r ''success'')) results)"

definition aggregate_status :: "pydict list \<Rightarrow> string" where
  "aggregate_status results =
     (let passed = passed_count results; failed = length results - passed in
      if results = [] then ''failed'' else if failed = 0 then ''success''
      else if passed = 0 then ''failed'' else ''partial'')"

definition aggregate :: "pydict list \<Rightarrow> pydict" where
  "aggregate results =
     [(''status'', PStr (aggregate_status results)),
      (''passed'', PInt (int (passed_count results))),
      (''failed'', PInt (int (length results) - int (passed_count results))),
      (''message'', PStr (compose_message results)),
      (''results'', PList (map PDict results))]"

definition visible_outcomes :: "pydict list \<Rightarrow> pydict list" where
  "visible_outcomes results =
     (let v = filter (\<lambda>r. \<not> truthy (dget r ''control'')) results in if v = [] then results else v)"

definition aggregate_and_compose :: "env \<Rightarrow> string \<Rightarrow> pydict list \<Rightarrow> (world, pydict) io" where
  "aggregate_and_compose E goal results =
     (let visible = visible_outcomes results; result = aggregate visible in
      bind (compose_errand_message E goal visible (compose_message visible)) (\<lambda>msg.
      ret (dset (dset result ''results'' (PList (map PDict results))) ''message'' (PStr msg))))"

subsection \<open>The run loop\<close>

definition skip_outcome :: "string \<Rightarrow> pyval \<Rightarrow> string \<Rightarrow> pydict" where
  "skip_outcome cmd label why =
     [(''command'', PStr cmd), (''label'', label), (''success'', PBool True), (''message'', PNone),
      (''error'', PNone), (''data'', PDict [(''skipped'', PStr why)])]"

definition step_command :: "pyval \<Rightarrow> exc + string" where
  "step_command step = rbind (as_dict step) (\<lambda>d. stripped (por (dget d ''command'') (PStr [])))"

fun step_get :: "pyval \<Rightarrow> string \<Rightarrow> pyval" where
  "step_get (PDict d) k = dget d k"
| "step_get _ k = PNone"

definition step_args :: "pyval \<Rightarrow> pydict" where
  "step_args step = (case por (step_get step ''args'') (PDict []) of PDict d \<Rightarrow> d | _ \<Rightarrow> [])"

fun errand_loop :: "env \<Rightarrow> wf_ctx \<Rightarrow> (int \<times> pyval) list \<Rightarrow> pydict list \<Rightarrow> (world, pydict list \<times> suspend option) io" where
  "errand_loop E ctx [] results = ret (results, None)"
| "errand_loop E ctx ((i, step) # rest) results =
     bind (lift (step_command step)) (\<lambda>cmd.
     if cmd = [] then errand_loop E ctx rest results
     else
       let label = por (step_get step ''label'') (PStr cmd) in
       bind (gets w_now) (\<lambda>now.
       bind (lift (resolve_step_args (step_args step) results now)) (\<lambda>(args, skip).
       case skip of
         Some why \<Rightarrow> errand_loop E ctx rest (results @ [skip_outcome cmd label why])
       | None \<Rightarrow>
           bind (run_step E (ctx\<lparr>wc_results := results\<rparr>) cmd args label i) (\<lambda>r.
           case r of
             Inr su \<Rightarrow> ret (results, Some (su\<lparr>su_results := results\<rparr>))
           | Inl d \<Rightarrow>
               let d' = dset d ''label'' label in
               if \<not> truthy (dget d' ''success'') then ret (results @ [d'], None)
               else errand_loop E ctx rest (results @ [d'])))))"

definition indexed_from :: "int \<Rightarrow> pyval list \<Rightarrow> (int \<times> pyval) list" where
  "indexed_from start steps = map (\<lambda>i. (int i, steps ! i)) [nat start ..< length steps]"

definition execute_errand :: "env \<Rightarrow> string \<Rightarrow> string option \<Rightarrow> pyval list \<Rightarrow> int option \<Rightarrow> string \<Rightarrow> string option
    \<Rightarrow> int \<Rightarrow> pydict list \<Rightarrow> (world, step_result) io" where
  "execute_errand E hh node steps user goal errand start prior =
     (let ctx = \<lparr>wc_household = hh, wc_node = node, wc_user = user, wc_goal = goal, wc_workflow = errand,
                 wc_results = prior\<rparr> in
      bind (errand_loop E ctx (indexed_from start steps) prior) (\<lambda>(results, su).
      case su of
        Some s \<Rightarrow> ret (Inr s)
      | None \<Rightarrow> bind (aggregate_and_compose E goal results) (\<lambda>r. ret (Inl r))))"

end
