(* ===== verification/Errand_Runs.thy ===== *)
theory Errand_Runs
  imports Errand_Executor
begin

section \<open>What one drive of a plan guarantees\<close>

text \<open>
  Every outcome belongs to its step, in the plan's order; the drive stops at the first failure; a
  suspension names the step after the one that suspended. The loop touches no workflow and no plan.
\<close>

subsection \<open>Outcomes name their step\<close>

lemma run_handler_command:
  assumes "run_handler E (route E cmd) ctx cmd args label i w = (w', Inr (Inl d))"
  shows "dget d ''command'' = PStr cmd"
proof -
  consider (phone) "cmd = ''make_phone_call''" | (wait) "cmd = ''wait_for''" | (replan) "cmd = ''request_replan''"
    | (server) "route E cmd = ServerToolHandler" | (node) "route E cmd = NodeCommandHandler"
    using route_other [of cmd E] by blast
  then show ?thesis
  proof cases
    case phone
    with assms have "phone_run E ctx cmd args label i w = (w', Inr (Inl d))" by (simp add: route_def)
    then show ?thesis
      by (auto simp: phone_run_def io_simps failed_outcome_def split: if_splits prod.splits sum.splits)
  next
    case wait
    with assms have "wait_run ctx args label i w = (w', Inr (Inl d))" by (simp add: route_def)
    then have "dget d ''command'' = PStr ''wait_for''"
      by (auto simp: wait_run_def io_simps failed_outcome_def ok_outcome_def
          split: if_splits option.splits sum.splits)
    with wait show ?thesis by simp
  next
    case replan
    with assms have "replan_run ctx label i w = (w', Inr (Inl d))" by (simp add: route_def)
    then have "dget d ''command'' = PStr ''request_replan''"
      by (auto simp: replan_run_def io_simps failed_outcome_def split: if_splits)
    with replan show ?thesis by simp
  next
    case server
    with assms show ?thesis
      by (auto simp: io_simps run_perform server_step_outcome_def Let_def split: sum.splits if_splits)
  next
    case node
    with assms show ?thesis
      by (auto simp: io_simps run_perform node_step_outcome_def Let_def split: sum.splits pyval.splits)
  qed
qed

lemma dget_dsetdefault_other: "k \<noteq> k' \<Longrightarrow> dget (dsetdefault d k v) k' = dget d k'"
  by (simp add: dsetdefault_def)

lemma run_step_command:
  assumes "run_step E ctx cmd args label i w = (w', Inr (Inl d))"
  shows "dget d ''command'' = PStr cmd"
proof (cases "run_handler E (route E cmd) ctx cmd args label i w")
  case (Pair w1 r)
  show ?thesis
  proof (cases r)
    case (Inl e)
    with Pair assms show ?thesis by (auto simp: run_step_route run_catch run_bind run_ret failed_outcome_def)
  next
    case (Inr x)
    with Pair assms obtain d0 where "x = Inl d0" "d = dsetdefault d0 ''label'' label"
      by (cases x) (auto simp: run_step_route run_catch run_bind run_ret)
    with run_handler_command [of E cmd ctx args label i w w1 d0] Pair Inr show ?thesis
      by (simp add: dget_dsetdefault_other)
  qed
qed

subsection \<open>The loop, step by step\<close>

definition blank_step :: "int \<times> pyval \<Rightarrow> bool" where
  "blank_step x \<longleftrightarrow> step_command (snd x) = Inr []"

definition work :: "(int \<times> pyval) list \<Rightarrow> (int \<times> pyval) list" where
  "work todo = filter (\<lambda>x. \<not> blank_step x) todo"

lemma work_simps [simp]:
  "work [] = []" "work (x # rest) = (if blank_step x then work rest else x # work rest)"
  by (simp_all add: work_def)

definition outcome_for :: "int \<times> pyval \<Rightarrow> pydict \<Rightarrow> bool" where
  "outcome_for x r \<longleftrightarrow> (\<exists>cmd. step_command (snd x) = Inr cmd \<and> dget r ''command'' = PStr cmd \<and>
     dget r ''label'' = por (step_get (snd x) ''label'') (PStr cmd))"

definition succeeded :: "pydict \<Rightarrow> bool" where
  "succeeded r \<longleftrightarrow> truthy (dget r ''success'')"

definition loop_spec :: "world \<Rightarrow> wf_ctx \<Rightarrow> (int \<times> pyval) list \<Rightarrow> pydict list \<Rightarrow> pydict list \<Rightarrow> suspend option \<Rightarrow> bool" where
  "loop_spec w' ctx todo results results' su \<longleftrightarrow>
     (\<exists>new. results' = results @ new \<and> length new \<le> length (work todo) \<and>
        list_all2 outcome_for (take (length new) (work todo)) new \<and>
        (case su of
           None \<Rightarrow> list_all succeeded (butlast new) \<and>
                   (length new = length (work todo) \<or> new \<noteq> [] \<and> \<not> succeeded (last new))
         | Some s \<Rightarrow> list_all succeeded new \<and> length new < length (work todo) \<and> su_results s = results' \<and>
                   (\<exists>cmd. step_command (snd (work todo ! length new)) = Inr cmd \<and>
                      resumable w' ctx cmd (fst (work todo ! length new)) s)))"

lemma resumable_results [simp]:
  "resumable w (ctx\<lparr>wc_results := r\<rparr>) cmd i (su\<lparr>su_results := r'\<rparr>) = resumable w ctx cmd i su"
  "resumable w (ctx\<lparr>wc_results := r\<rparr>) cmd i su = resumable w ctx cmd i su"
  "resumable w ctx cmd i (su\<lparr>su_results := r'\<rparr>) = resumable w ctx cmd i su"
  by (simp_all add: resumable_def)

lemma loop_spec_blank: "blank_step x \<Longrightarrow> loop_spec w' ctx (x # rest) = loop_spec w' ctx rest"
  by (intro ext) (simp only: loop_spec_def work_simps if_True)

lemma loop_spec_Cons:
  assumes "\<not> blank_step x" "outcome_for x r" "succeeded r" "loop_spec w' ctx rest (results @ [r]) results' su"
  shows "loop_spec w' ctx (x # rest) results results' su"
proof -
  from assms(4) obtain new where n: "results' = results @ [r] @ new" "length new \<le> length (work rest)"
    "list_all2 outcome_for (take (length new) (work rest)) new"
    "case su of
           None \<Rightarrow> list_all succeeded (butlast new) \<and>
                   (length new = length (work rest) \<or> new \<noteq> [] \<and> \<not> succeeded (last new))
         | Some s \<Rightarrow> list_all succeeded new \<and> length new < length (work rest) \<and> su_results s = results' \<and>
                   (\<exists>cmd. step_command (snd (work rest ! length new)) = Inr cmd \<and>
                      resumable w' ctx cmd (fst (work rest ! length new)) s)"
    by (auto simp: loop_spec_def)
  with assms(1-3) show ?thesis
    unfolding loop_spec_def
    by (intro exI [of _ "r # new"]) (auto split: option.splits)
qed

lemma errand_loop_spec:
  "errand_loop E ctx todo results w = (w', Inr (results', su)) \<Longrightarrow> loop_spec w' ctx todo results results' su"
proof (induction todo arbitrary: results w)
  case Nil
  then show ?case by (simp add: run_ret loop_spec_def)
next
  case (Cons x rest)
  obtain i step where x: "x = (i, step)" by force
  from Cons.prems x obtain cmd where cmd: "step_command step = Inr cmd"
    by (cases "step_command step") (auto simp: io_simps)
  show ?case
  proof (cases "cmd = []")
    case True
    with Cons.prems x cmd have "errand_loop E ctx rest results w = (w', Inr (results', su))"
      by (simp add: io_simps)
    from Cons.IH [OF this] True cmd x show ?thesis
      by (simp add: loop_spec_blank blank_step_def)
  next
    case False
    with cmd x have nb: "\<not> blank_step x" by (simp add: blank_step_def)
    let ?label = "por (step_get step ''label'') (PStr cmd)"
    have of: "dget r ''command'' = PStr cmd \<Longrightarrow> dget r ''label'' = ?label \<Longrightarrow> outcome_for x r" for r
      using cmd x by (simp add: outcome_for_def)
    from Cons.prems x cmd False obtain args skip where
      ra: "resolve_step_args (step_args step) results (w_now w) = Inr (args, skip)"
      by (cases "resolve_step_args (step_args step) results (w_now w)") (auto simp: io_simps Let_def)
    show ?thesis
    proof (cases skip)
      case (Some why)
      with Cons.prems x cmd False ra have
        "errand_loop E ctx rest (results @ [skip_outcome cmd ?label why]) w = (w', Inr (results', su))"
        by (simp add: io_simps Let_def)
      from loop_spec_Cons [OF nb of _ Cons.IH [OF this]] show ?thesis
        by (simp add: skip_outcome_def succeeded_def)
    next
      case None
      let ?k = "case_sum
           (\<lambda>d. if \<not> truthy (dget d ''success'') then ret (results @ [dset d ''label'' ?label], None)
                else errand_loop E ctx rest (results @ [dset d ''label'' ?label]))
           (\<lambda>su. ret (results, Some (su\<lparr>su_results := results\<rparr>)))"
      from None Cons.prems x cmd False ra have
        "bind (run_step E (ctx\<lparr>wc_results := results\<rparr>) cmd args ?label i) ?k w = (w', Inr (results', su))"
        by (simp add: run_bind [of "lift _"] run_bind [of "gets _"] run_lift run_gets Let_def)
      then obtain w1 r where r: "run_step E (ctx\<lparr>wc_results := results\<rparr>) cmd args ?label i w = (w1, Inr r)"
        and c: "?k r w1 = (w', Inr (results', su))"
        by (rule bindE)
      show ?thesis
      proof (cases r)
        case (Inr s)
        with c have s: "w1 = w'" "results' = results" "su = Some (s\<lparr>su_results := results\<rparr>)"
          by (auto simp: run_ret)
        with run_step_suspend [OF r [unfolded Inr]] nb cmd x show ?thesis
          by (simp add: loop_spec_def)
      next
        case (Inl d)
        let ?d = "dset d ''label'' ?label"
        have o1: "outcome_for x ?d" using run_step_command [OF r [unfolded Inl]] by (intro of) simp_all
        show ?thesis
        proof (cases "succeeded ?d")
          case True
          with c Inl have "errand_loop E ctx rest (results @ [?d]) w1 = (w', Inr (results', su))"
            by (simp add: Let_def succeeded_def)
          from loop_spec_Cons [OF nb o1 True Cons.IH [OF this]] show ?thesis .
        next
          case f: False
          with c Inl have "results' = results @ [?d]" "su = None"
            by (auto simp: Let_def succeeded_def run_ret)
          with f o1 nb show ?thesis
            by (auto simp: loop_spec_def intro!: exI [of _ "[?d]"])
        qed
      qed
    qed
  qed
qed

subsection \<open>What a drive leaves alone\<close>

text \<open>
  \<open>drafting P\<close>: the predicate survives logging a request and inserting a draft session. A drive
  keeps every such predicate; in particular it touches no workflow, plan, contact or pending task.
\<close>

definition drafting :: "(world \<Rightarrow> bool) \<Rightarrow> bool" where
  "drafting P \<longleftrightarrow> quiet P \<and>
     (\<forall>mk. (\<forall>sid. ps_id (mk sid) = sid \<and> ps_state (mk sid) = ''draft'') \<longrightarrow> keeps P (insert_session mk))"

lemma keeps_place_call: "drafting P \<Longrightarrow> keeps P (place_call E hh user args goal wid i prior)"
  unfolding place_call_def drafting_def
  by (intro io_keeps keeps_create_call_plan) (auto intro!: keeps_create_call_plan)

lemma keeps_run_handler: "drafting P \<Longrightarrow> keeps P (run_handler E h ctx cmd args label i)"
proof -
  assume d: "drafting P"
  then have q: "quiet P" by (simp add: drafting_def)
  show ?thesis
    by (cases h)
      (auto simp: phone_run_def wait_run_def replan_run_def intro!: io_keeps keeps_place_call [OF d] q)
qed

lemma keeps_run_step: "drafting P \<Longrightarrow> keeps P (run_step E ctx cmd args label i)"
  unfolding run_step_def by (intro io_keeps keeps_run_handler)

lemma keeps_errand_loop: "drafting P \<Longrightarrow> keeps P (errand_loop E ctx todo results)"
proof (induction todo arbitrary: results)
  case (Cons x rest)
  obtain i step where "x = (i, step)" by force
  with Cons show ?case
    by (auto simp: Let_def intro!: io_keeps keeps_run_step split: prod.splits option.splits sum.splits)
qed auto

lemma keeps_compose: "quiet P \<Longrightarrow> keeps P (compose_errand_message E goal results fb)"
  unfolding compose_errand_message_def by (intro io_keeps) auto

lemma keeps_aggregate: "quiet P \<Longrightarrow> keeps P (aggregate_and_compose E goal results)"
  unfolding aggregate_and_compose_def Let_def by (intro io_keeps keeps_compose)

lemma keeps_execute: "drafting P \<Longrightarrow> keeps P (execute_errand E hh node steps user goal errand start prior)"
  unfolding execute_errand_def Let_def
  by (auto intro!: io_keeps keeps_errand_loop keeps_aggregate simp: drafting_def split: prod.splits option.splits)

lemma noraise_compose: "noraise (compose_errand_message E goal results fb)"
  unfolding compose_errand_message_def by (rule noraise_catch) simp

lemma noraise_aggregate: "noraise (aggregate_and_compose E goal results)"
  unfolding aggregate_and_compose_def Let_def by (intro noraise_bind noraise_compose) simp

lemma drafting_workflows: "drafting (\<lambda>w. w_workflows w = W \<and> w_plans w = P \<and> w_tasks w = T \<and> w_now w = t)"
  by (auto simp: drafting_def quiet_def keeps_def insert_session_def Let_def)

subsection \<open>The result of a drive\<close>

lemma aggregate_fields [simp]:
  "dget (aggregate rs) ''status'' = PStr (aggregate_status rs)"
  "dget (aggregate rs) ''message'' = PStr (compose_message rs)"
  by (simp_all add: aggregate_def)

lemma aggregate_and_compose_result:
  assumes "aggregate_and_compose E goal rs w = (w', Inr r)"
  shows "dget r ''status'' = PStr (aggregate_status (visible_outcomes rs)) \<and>
     dget r ''results'' = PList (map PDict rs) \<and> (\<exists>msg. dget r ''message'' = PStr msg)"
  using assms by (auto simp: aggregate_and_compose_def Let_def io_simps split: prod.splits sum.splits)

lemma length_filter_all: "length (filter Q xs) = length xs \<longleftrightarrow> list_all Q xs"
proof (cases "list_all Q xs")
  case False
  then obtain x where "x \<in> set xs" "\<not> Q x" by (auto simp: list_all_iff)
  then have "length (filter Q xs) < length xs" by (rule length_filter_less)
  with False show ?thesis by simp
qed (simp add: list_all_iff)

lemma passed_count_eq: "passed_count rs = length (filter succeeded rs)"
  by (simp add: passed_count_def succeeded_def [abs_def])

lemma aggregate_status_cases:
  "aggregate_status rs = ''success'' \<longleftrightarrow> rs \<noteq> [] \<and> list_all succeeded rs"
  "aggregate_status rs = ''failed'' \<longleftrightarrow> list_all (\<lambda>r. \<not> succeeded r) rs"
  "aggregate_status rs \<in> {''success'', ''partial'', ''failed''}"
proof -
  have p: "passed_count rs = length rs \<longleftrightarrow> list_all succeeded rs"
    by (simp add: passed_count_eq length_filter_all)
  have le: "passed_count rs \<le> length rs" by (simp add: passed_count_def)
  have z: "passed_count rs = 0 \<longleftrightarrow> list_all (\<lambda>r. \<not> succeeded r) rs"
    by (auto simp: passed_count_eq list_all_iff filter_empty_conv)
  have st: "aggregate_status rs = (if rs = [] then ''failed'' else if list_all succeeded rs then ''success''
      else if list_all (\<lambda>r. \<not> succeeded r) rs then ''failed'' else ''partial'')"
    using le by (simp add: aggregate_status_def Let_def p [symmetric] z [symmetric])
  have ne: "rs \<noteq> [] \<Longrightarrow> list_all succeeded rs \<Longrightarrow> \<not> list_all (\<lambda>r. \<not> succeeded r) rs"
    by (cases rs) auto
  show "aggregate_status rs = ''success'' \<longleftrightarrow> rs \<noteq> [] \<and> list_all succeeded rs"
    unfolding st by simp
  show "aggregate_status rs = ''failed'' \<longleftrightarrow> list_all (\<lambda>r. \<not> succeeded r) rs"
    unfolding st using ne by simp
  show "aggregate_status rs \<in> {''success'', ''partial'', ''failed''}"
    unfolding st by simp
qed

definition drive_ctx :: "string \<Rightarrow> string option \<Rightarrow> int option \<Rightarrow> string \<Rightarrow> string option \<Rightarrow> pydict list \<Rightarrow> wf_ctx" where
  "drive_ctx hh node user goal errand prior =
     \<lparr>wc_household = hh, wc_node = node, wc_user = user, wc_goal = goal, wc_workflow = errand, wc_results = prior\<rparr>"

lemma execute_errand_loop:
  assumes "execute_errand E hh node steps user goal errand start prior w = (w', Inr r)"
  obtains (suspended) s results where "r = Inr s"
      "loop_spec w' (drive_ctx hh node user goal errand prior) (indexed_from start steps) prior results (Some s)"
  | (finished) res results w1 where "r = Inl res" "aggregate_and_compose E goal results w1 = (w', Inr res)"
      "loop_spec w1 (drive_ctx hh node user goal errand prior) (indexed_from start steps) prior results None"
proof -
  from assms obtain w1 results su where
    l: "errand_loop E (drive_ctx hh node user goal errand prior) (indexed_from start steps) prior w = (w1, Inr (results, su))"
    and k: "(case su of Some s \<Rightarrow> ret (Inr s)
      | None \<Rightarrow> bind (aggregate_and_compose E goal results) (\<lambda>r. ret (Inl r))) w1 = (w', Inr r)"
    unfolding execute_errand_def Let_def drive_ctx_def by (auto elim!: bindE)
  note sp = errand_loop_spec [OF l]
  show ?thesis
  proof (cases su)
    case (Some s)
    with k sp show ?thesis by (intro suspended [of s results]) (simp_all add: run_ret)
  next
    case None
    with k obtain res where "aggregate_and_compose E goal results w1 = (w', Inr res)" "r = Inl res"
      by (auto simp: run_ret elim!: bindE)
    with sp None show ?thesis by (intro finished) simp_all
  qed
qed

lemma loop_spec_Some:
  assumes "loop_spec w ctx todo prior results (Some s)"
  obtains new where "su_results s = prior @ new" "list_all succeeded new" "length new < length (work todo)"
    "su_cursor s = fst (work todo ! length new) + 1" "su_kind s \<in> {''phone_call'', ''timer'', ''approval''}"
    "list_all2 outcome_for (take (length new) (work todo)) new"
proof -
  from assms obtain new cmd where n: "results = prior @ new" "list_all2 outcome_for (take (length new) (work todo)) new"
    "list_all succeeded new" "length new < length (work todo)" "su_results s = results"
    "resumable w ctx cmd (fst (work todo ! length new)) s"
    by (auto simp: loop_spec_def)
  from n(6) have "su_cursor s = fst (work todo ! length new) + 1" "su_kind s \<in> {''phone_call'', ''timer'', ''approval''}"
    by (simp_all add: resumable_def split: if_splits)
  with n show ?thesis by (intro that [of new]) simp_all
qed

subsection \<open>Properties\<close>

text \<open>
  C7. A drive is fail-fast and keeps the plan's order: the new outcomes belong, in order, to the
  first non-blank steps from the start index, and all but possibly the last succeeded. A drive that
  finishes has run every such step or stopped at a failure; a drive that suspends did so on the first
  step without an outcome, carries all outcomes, and can be resumed after that step.
\<close>

theorem execute_errand_fail_fast:
  assumes "execute_errand E hh node steps user goal errand start prior w = (w', Inr r)"
  shows "\<exists>new. let todo = work (indexed_from start steps) in
    length new \<le> length todo \<and> list_all2 outcome_for (take (length new) todo) new \<and>
    (case r of
       Inl res \<Rightarrow>
         dget res ''results'' = PList (map PDict (prior @ new)) \<and>
         list_all succeeded (butlast new) \<and>
         (length new = length todo \<or> new \<noteq> [] \<and> \<not> succeeded (last new))
     | Inr s \<Rightarrow>
         su_results s = prior @ new \<and> list_all succeeded new \<and> length new < length todo \<and>
         su_cursor s = fst (todo ! length new) + 1)"
proof -
  from assms show ?thesis
  proof (cases rule: execute_errand_loop)
    case (suspended s results)
    from suspended(2) obtain new where n: "su_results s = prior @ new" "list_all succeeded new"
      "length new < length (work (indexed_from start steps))"
      "su_cursor s = fst (work (indexed_from start steps) ! length new) + 1"
      "list_all2 outcome_for (take (length new) (work (indexed_from start steps))) new" by (rule loop_spec_Some)
    then show ?thesis
      by (intro exI [of _ new]) (simp add: suspended(1) Let_def less_imp_le)
  next
    case (finished res results w1)
    with aggregate_and_compose_result [OF finished(2)] show ?thesis
      by (auto simp: loop_spec_def Let_def)
  qed
qed

text \<open>A two-step plan whose first step runs on the node and whose second places a call.\<close>

definition sample_steps :: "pyval list" where
  "sample_steps =
     [PDict [(''command'', PStr ''get_news''), (''args'', PDict []), (''label'', PStr ''News'')],
      PDict [(''command'', PStr ''make_phone_call''), (''args'', PDict [(''business'', PStr ''Cafe'')]), (''label'', PStr ''Call'')]]"

theorem execute_errand_fail_fast_witness:
  "\<exists>w' s new. execute_errand sample_env ''h1'' (Some ''n1'') sample_steps (Some 7) ''Ask'' (Some ''wf_9'') 0 [] (sample_world 0)
      = (w', Inr (Inr s)) \<and> su_cursor s = 2 \<and> su_results s = new \<and> length new = 1 \<and> list_all succeeded new"
proof -
  let ?r = "execute_errand sample_env ''h1'' (Some ''n1'') sample_steps (Some 7) ''Ask'' (Some ''wf_9'') 0 [] (sample_world 0)"
  have s: "case snd ?r of Inr (Inr s) \<Rightarrow> su_cursor s = 2 \<and> length (su_results s) = 1 | _ \<Rightarrow> False" by code_simp
  then obtain s where s: "snd ?r = Inr (Inr s)" "su_cursor s = 2" "length (su_results s) = 1"
    by (auto split: sum.splits)
  then have r: "?r = (fst ?r, Inr (Inr s))" by (metis prod.collapse)
  from execute_errand_fail_fast [OF r] have "list_all succeeded (su_results s)" by (auto simp: Let_def)
  with s r show ?thesis by blast
qed

text \<open>
  The reported status is honest: success exactly when there was work and all of it succeeded,
  failed exactly when nothing succeeded, and partial otherwise; the passed and failed counts add up
  to the number of outcomes that are shown.
\<close>

lemma aggregate_honest:
  "(dget (aggregate rs) ''status'' = PStr ''success'' \<longleftrightarrow> rs \<noteq> [] \<and> list_all succeeded rs) \<and>
   (dget (aggregate rs) ''status'' = PStr ''failed'' \<longleftrightarrow> list_all (\<lambda>r. \<not> succeeded r) rs) \<and>
   dget (aggregate rs) ''status'' \<in> {PStr ''success'', PStr ''partial'', PStr ''failed''} \<and>
   (\<exists>p f. dget (aggregate rs) ''passed'' = PInt p \<and> dget (aggregate rs) ''failed'' = PInt f \<and>
      p = int (length (filter succeeded rs)) \<and> p + f = int (length rs))"
  using aggregate_status_cases [of rs]
  by (auto simp: aggregate_def passed_count_eq)

text \<open>
  A directive with a null step number raises out of the drive, although a step is meant never to
  raise out of it.
\<close>

lemma directive_crashes_drive:
  "snd (execute_errand sample_env ''h1'' (Some ''n1'')
      [PDict [(''command'', PStr ''set_reminder''),
        (''args'', PDict [(''relative_minutes'', PDict [(''$from_step'', PDict [(''step'', PNone), (''field'', PStr ''x'')])])])]]
      None ''Remind me'' (Some ''wf_9'') 0 [] (sample_world 0)) = Inl (TypeError ''int'')"
  by code_simp

end
