(* ===== verification/Py_Json.thy ===== *)
theory Py_Json
  imports Py_Text
begin

section \<open>Reading JSON text\<close>

text \<open>
  \<open>json.loads\<close> over characters: objects keep the position of a key's first occurrence and its last
  value, as a Python dictionary does. A number with a fraction or an exponent is its exact value
  with its own text. An escape above code point 255 is read as a question mark, the constants
  \<open>NaN\<close> and \<open>Infinity\<close> are not read. The parsers recurse on fuel; one unit is spent per
  character, so the length of the text is enough.
\<close>

definition json_space :: "char \<Rightarrow> bool" where
  "json_space c \<longleftrightarrow> code c \<in> {9, 10, 13, 32}"

definition skip_space :: "string \<Rightarrow> string" where
  "skip_space s = dropWhile json_space s"

definition hex_val :: "char \<Rightarrow> nat option" where
  "hex_val c = (if is_digit c then Some (code c - 48)
     else if 97 \<le> code c \<and> code c \<le> 102 then Some (code c - 87)
     else if 65 \<le> code c \<and> code c \<le> 70 then Some (code c - 55) else None)"

fun hex4 :: "nat \<Rightarrow> nat \<Rightarrow> string \<Rightarrow> (nat \<times> string) option" where
  "hex4 0 a s = Some (a, s)"
| "hex4 (Suc n) a [] = None"
| "hex4 (Suc n) a (c # s) = (case hex_val c of None \<Rightarrow> None | Some v \<Rightarrow> hex4 n (16 * a + v) s)"

definition escape_char :: "char \<Rightarrow> char option" where
  "escape_char c =
     (if code c \<in> {34, 92, 47} then Some c
      else if c = CHR ''n'' then Some (char_of (10::nat)) else if c = CHR ''r'' then Some (char_of (13::nat))
      else if c = CHR ''t'' then Some (char_of (9::nat)) else if c = CHR ''b'' then Some (char_of (8::nat))
      else if c = CHR ''f'' then Some (char_of (12::nat)) else None)"

text \<open>The rest of a string after its opening quote.\<close>

fun json_string :: "nat \<Rightarrow> string \<Rightarrow> (string \<times> string) option" where
  "json_string 0 s = None"
| "json_string (Suc n) [] = None"
| "json_string (Suc n) (c # s) =
     (if code c = 34 then Some ([], s)
      else if code c < 32 then None
      else if code c = 92 then
        (case s of
           [] \<Rightarrow> None
         | d # s' \<Rightarrow>
             if d = CHR ''u'' then
               (case hex4 4 0 s' of None \<Rightarrow> None | Some (v, r) \<Rightarrow>
                  map_option (\<lambda>(t, r'). ((if v < 256 then char_of v else CHR ''?'') # t, r')) (json_string n r))
             else (case escape_char d of None \<Rightarrow> None | Some e \<Rightarrow>
                  map_option (\<lambda>(t, r'). (e # t, r')) (json_string n s')))
      else map_option (\<lambda>(t, r'). (c # t, r')) (json_string n s))"

subsection \<open>Numbers\<close>

definition digits_of :: "string \<Rightarrow> string" where
  "digits_of s = takeWhile is_digit s"

definition after_digits :: "string \<Rightarrow> string" where
  "after_digits s = dropWhile is_digit s"

definition ten_pow :: "bool \<Rightarrow> nat \<Rightarrow> rat" where
  "ten_pow neg n = (if neg then 1 / 10 ^ n else 10 ^ n)"

definition json_number :: "string \<Rightarrow> (pyval \<times> string) option" where
  "json_number s =
     (let neg = (s \<noteq> [] \<and> hd s = CHR ''-''); s1 = (if neg then tl s else s);
          ip = digits_of s1; s2 = after_digits s1 in
      if ip = [] \<or> (length ip > 1 \<and> hd ip = CHR ''0'') then None
      else
        let frac = (case s2 of c # r \<Rightarrow> if c = CHR ''.'' then digits_of r else [] | [] \<Rightarrow> []);
            s3 = (if frac = [] then s2 else after_digits (tl s2));
            (eneg, esign, ex, s4) =
              (case s3 of
                 c # r \<Rightarrow>
                   if c = CHR ''e'' \<or> c = CHR ''E'' then
                     (case r of
                        d # r' \<Rightarrow>
                          if d = CHR ''-'' \<or> d = CHR ''+'' then
                            (if digits_of r' = [] then (False, [], [], s3)
                             else (d = CHR ''-'', [c, d], digits_of r', after_digits r'))
                          else if digits_of r = [] then (False, [], [], s3)
                          else (False, [c], digits_of r, after_digits r)
                      | [] \<Rightarrow> (False, [], [], s3))
                   else (False, [], [], s3)
               | [] \<Rightarrow> (False, [], [], s3));
            mant = digits_val 0 (ip @ frac); sgn = (if neg then -1 else 1 :: int) in
        if frac = [] \<and> ex = [] then Some (PInt (sgn * int (digits_val 0 ip)), s4)
        else Some (PFloat (of_int (sgn * int mant) / 10 ^ length frac * ten_pow eneg (digits_val 0 ex))
                     ((if neg then ''-'' else []) @ ip @ (if frac = [] then [] else CHR ''.'' # frac) @ esign @ ex), s4))"

subsection \<open>Values\<close>

function json_value :: "nat \<Rightarrow> string \<Rightarrow> (pyval \<times> string) option"
  and json_items :: "nat \<Rightarrow> string \<Rightarrow> (pyval list \<times> string) option"
  and json_fields :: "nat \<Rightarrow> pydict \<Rightarrow> string \<Rightarrow> (pydict \<times> string) option" where
  "json_value 0 s = None"
| "json_value (Suc n) s =
     (case skip_space s of
        [] \<Rightarrow> None
      | c # r \<Rightarrow>
          if code c = 34 then map_option (\<lambda>(t, r'). (PStr t, r')) (json_string (Suc (length r)) r)
          else if c = CHR ''['' then
            (case skip_space r of
               [] \<Rightarrow> None
             | d # r' \<Rightarrow> if d = CHR '']'' then Some (PList [], r')
                        else map_option (\<lambda>(xs, r''). (PList xs, r'')) (json_items n r))
          else if c = CHR ''{'' then
            (case skip_space r of
               [] \<Rightarrow> None
             | d # r' \<Rightarrow> if d = CHR ''}'' then Some (PDict [], r')
                        else map_option (\<lambda>(d', r''). (PDict d', r'')) (json_fields n [] r))
          else if starts_with (c # r) ''true'' then Some (PBool True, drop 4 (c # r))
          else if starts_with (c # r) ''false'' then Some (PBool False, drop 5 (c # r))
          else if starts_with (c # r) ''null'' then Some (PNone, drop 4 (c # r))
          else json_number (c # r))"
| "json_items 0 s = None"
| "json_items (Suc n) s =
     (case json_value n s of
        None \<Rightarrow> None
      | Some (v, r) \<Rightarrow>
          (case skip_space r of
             [] \<Rightarrow> None
           | c # r' \<Rightarrow> if c = CHR '']'' then Some ([v], r')
                      else if c = CHR '','' then map_option (\<lambda>(vs, r''). (v # vs, r'')) (json_items n r')
                      else None))"
| "json_fields 0 d s = None"
| "json_fields (Suc n) d s =
     (case skip_space s of
        [] \<Rightarrow> None
      | q # r \<Rightarrow>
          if code q \<noteq> 34 then None
          else (case json_string (Suc (length r)) r of
             None \<Rightarrow> None
           | Some (k, r1) \<Rightarrow>
               (case skip_space r1 of
                  [] \<Rightarrow> None
                | c # r2 \<Rightarrow>
                    if c \<noteq> CHR '':'' then None
                    else (case json_value n r2 of
                       None \<Rightarrow> None
                     | Some (v, r3) \<Rightarrow>
                         (case skip_space r3 of
                            [] \<Rightarrow> None
                          | e # r4 \<Rightarrow> if e = CHR ''}'' then Some (dset d k v, r4)
                                     else if e = CHR '','' then json_fields n (dset d k v) r4
                                     else None)))))"
  by pat_completeness auto
termination
  by (relation "measure (\<lambda>x. case x of Inl (n, s) \<Rightarrow> n | Inr (Inl (n, s)) \<Rightarrow> n | Inr (Inr (n, d, s)) \<Rightarrow> n)") auto

definition json_loads :: "string \<Rightarrow> pyval option" where
  "json_loads s = (case json_value (Suc (2 * length s)) s of
      None \<Rightarrow> None
    | Some (v, r) \<Rightarrow> if skip_space r = [] then Some v else None)"

lemma json_loads_sample:
  "json_loads '' {\"a\": [1, -2.5, true], \"b\": {\"c\": null}} '' =
     Some (PDict [(''a'', PList [PInt 1, PFloat (- 5 / 2) ''-2.5'', PBool True]), (''b'', PDict [(''c'', PNone)])])"
  by code_simp

end
