(* ===== verification/Errand_Planner.thy ===== *)
theory Errand_Planner
  imports Errand_Runs Py_Json
begin

section \<open>The errand planner: menus, prompts and validation of the model's plan\<close>

text \<open>
  \<^verbatim>\<open>app/services/errand_planner.py\<close>. The model's reply is its text, a service of \<open>env\<close>; of a
  prompt only its variable parts are kept. The tool registry is the list of registered tools with
  their OpenAI format and riskiness.
\<close>

subsection \<open>Menus\<close>

record menu_item =
  mi_command :: string
  mi_desc :: pyval
  mi_args :: pydict
  mi_risky :: bool

definition fallback_item :: "string \<Rightarrow> string \<Rightarrow> (string \<times> string) list \<Rightarrow> menu_item" where
  "fallback_item c d args =
     \<lparr>mi_command = c, mi_desc = PStr d, mi_args = map (\<lambda>(k, v). (k, PStr v)) args, mi_risky = False\<rparr>"

definition day_keywords :: string where
  "day_keywords = ''list of day keywords, e.g. [\"today\"]''"

definition command_menu :: "menu_item list" where
  "command_menu =
     [fallback_item ''get_weather'' ''Weather for the user's location on a given day.'' [(''resolved_datetimes'', day_keywords)],
      fallback_item ''get_news'' ''Top news headlines by category.''
        [(''category'', ''one of general/business/technology/sports/entertainment/health'')],
      fallback_item ''get_calendar_events'' ''The user's calendar events for a day.'' [(''resolved_datetimes'', day_keywords)],
      fallback_item ''set_reminder'' ''Create a reminder for the user.''
        [(''text'', ''what to remind about''), (''when'', ''natural-language time, e.g. 'tomorrow at 9am'' @ [CHR 0x27])],
      fallback_item ''get_device_status'' ''Read the state of a smart-home device.'' [(''device_name'', ''the device's name'')],
      fallback_item ''control_device'' ''Act on a smart-home device.''
        [(''device_name'', ''the device's name''), (''action'', ''turn_on / turn_off / lock / unlock'')]]"

definition errand_menu_deny :: "string list" where
  "errand_menu_deny =
     [''routine'', ''chat'', ''answer_question'', ''tell_joke'', ''act_on_items'', ''send_link'', ''control_node'',
      ''run_errand'', ''request_validation'', ''identify_speaker'', ''resolve_relative_date'', ''get_command_examples'']"

text \<open>\<open>p.get(k) or p.get(k') or ""\<close>\<close>

definition first_of :: "pydict \<Rightarrow> string \<Rightarrow> string \<Rightarrow> pyval" where
  "first_of d k k' = por (por (dget d k) (dget d k')) (PStr [])"

text \<open>A key as JSON prints it.\<close>

definition key_text :: "pyval \<Rightarrow> exc + string" where
  "key_text v = (case v of
      PStr s \<Rightarrow> Inr s
    | PList _ \<Rightarrow> Inl (TypeError ''unhashable type'')
    | PDict _ \<Rightarrow> Inl (TypeError ''unhashable type'')
    | _ \<Rightarrow> Inr (json_dumps v))"

text \<open>A parameter that is no dictionary raises; one without a name is left out.\<close>

fun param_args :: "pyval list \<Rightarrow> pydict \<Rightarrow> exc + pydict" where
  "param_args [] acc = Inr acc"
| "param_args (p # ps) acc =
     rbind (as_dict p) (\<lambda>d.
     if \<not> truthy (dget d ''name'') then param_args ps acc
     else rbind (key_text (dget d ''name'')) (\<lambda>name.
       param_args ps (dset acc name (first_of d ''description'' ''type''))))"

definition node_menu_item :: "pyval \<Rightarrow> exc + menu_item option" where
  "node_menu_item c =
     rbind (as_dict c) (\<lambda>d.
     rbind (stripped (por (dget d ''command_name'') (PStr []))) (\<lambda>name.
     if name = [] \<or> name \<in> set errand_menu_deny then Inr None
     else
       rbind (as_iter (por (dget d ''parameters'') (PList []))) (\<lambda>ps.
       rbind (param_args ps []) (\<lambda>args.
       Inr (Some \<lparr>mi_command = name, mi_desc = por (dget d ''description'') (PStr []), mi_args = args,
                  mi_risky = truthy (dget_or d ''is_risky'' (PBool False))\<rparr>)))))"

definition build_errand_menu :: "pyval \<Rightarrow> exc + menu_item list" where
  "build_errand_menu available =
     rbind (as_iter (por available (PList []))) (\<lambda>cs.
     rbind (rmap node_menu_item cs) (\<lambda>items. Inr (List.map_filter id items)))"

subsection \<open>Server tools of a household\<close>

definition errand_bool_setting :: "env \<Rightarrow> string \<Rightarrow> string \<Rightarrow> bool \<Rightarrow> bool" where
  "errand_bool_setting E key hh d = (case en_setting E key (Some hh) of
      Inl _ \<Rightarrow> d
    | Inr v \<Rightarrow> (case v of
        PBool b \<Rightarrow> b
      | PStr s \<Rightarrow> lower (strip s) \<in> {''true'', ''1'', ''yes'', ''on''}
      | _ \<Rightarrow> d))"

definition enabled_errand_server_tools :: "env \<Rightarrow> string \<Rightarrow> int option \<Rightarrow> string list" where
  "enabled_errand_server_tools E hh speaker =
     filter (\<lambda>n. n \<notin> set errand_menu_deny)
       ((if phone_calls_enabled E hh then [''make_phone_call''] else []) @
        (if errand_bool_setting E ''web_search.enabled'' hh False then [''deep_research'', ''quick_search''] else []) @
        (if speaker \<noteq> None \<and> errand_bool_setting E ''memory.enabled'' hh True
         then [''remember'', ''forget''] @
              (if errand_bool_setting E ''memory.recall_enabled'' hh True then [''recall''] else [])
         else []))"

fun prop_args :: "pydict \<Rightarrow> pydict \<Rightarrow> exc + pydict" where
  "prop_args [] acc = Inr acc"
| "prop_args ((k, spec) # ps) acc =
     (if k = [] then prop_args ps acc
      else rbind (as_dict spec) (\<lambda>d. prop_args ps (dset acc k (first_of d ''description'' ''type''))))"

definition tool_menu_item :: "string \<Rightarrow> pydict \<times> bool \<Rightarrow> exc + menu_item" where
  "tool_menu_item name t =
     rbind (as_dict (dget_or (fst t) ''function'' (PDict []))) (\<lambda>fn.
     rbind (as_dict (por (dget fn ''parameters'') (PDict []))) (\<lambda>pars.
     rbind (as_dict (por (dget pars ''properties'') (PDict []))) (\<lambda>props.
     rbind (prop_args props []) (\<lambda>args.
     rbind (as_str (por (dget fn ''name'') (PStr name))) (\<lambda>cmd.
     Inr \<lparr>mi_command = cmd, mi_desc = por (dget fn ''description'') (PStr []), mi_args = args, mi_risky = snd t\<rparr>)))))"

definition build_server_tool_menu :: "env \<Rightarrow> string \<Rightarrow> int option \<Rightarrow> exc + menu_item list" where
  "build_server_tool_menu E hh speaker =
     rmap (\<lambda>(name, t). tool_menu_item name t)
       (List.map_filter (\<lambda>name. map_option (\<lambda>t. (name, t)) (get_tool E name))
          (enabled_errand_server_tools E hh speaker))"

definition build_full_errand_menu :: "env \<Rightarrow> pyval \<Rightarrow> string \<Rightarrow> int option \<Rightarrow> exc + menu_item list" where
  "build_full_errand_menu E available hh speaker =
     rbind (build_server_tool_menu E hh speaker) (\<lambda>server.
     rbind (build_errand_menu available) (\<lambda>node.
     Inr (filter (\<lambda>c. mi_command c \<notin> mi_command ` set server) node @ server)))"

subsection \<open>Plans\<close>

definition control_commands :: "string list" where
  "control_commands = [''request_replan'']"

record plan_step =
  st_command :: string
  st_args :: pydict
  st_label :: pyval
  st_risky :: bool

record plan =
  ep_summary :: string
  ep_steps :: "plan_step list"

definition as_routine_step :: "plan_step \<Rightarrow> pydict" where
  "as_routine_step s =
     [(''command'', PStr (st_command s)), (''args'', PDict (st_args s)), (''label'', st_label s),
      (''is_risky'', PBool (st_risky s))]"

definition routine_steps :: "plan \<Rightarrow> pydict list" where
  "routine_steps p = map as_routine_step (ep_steps p)"

definition risky_by_cmd :: "menu_item list \<Rightarrow> (string \<times> bool) list" where
  "risky_by_cmd menu = rev (map (\<lambda>c. (mi_command c, mi_risky c)) menu)"

definition menu_text :: "menu_item list \<Rightarrow> string" where
  "menu_text menu = join newline (map (\<lambda>c. ''- '' @ mi_command c @ '': '' @ py_str (mi_desc c) @
     '' | args: '' @ json_dumps (PDict (mi_args c))) menu)"

definition menu_or_default :: "menu_item list \<Rightarrow> menu_item list" where
  "menu_or_default menu = (if menu = [] then command_menu else menu)"

subsection \<open>Reading the model's reply\<close>

definition fence :: string where
  "fence = ''```''"

definition strip_fences :: "string \<Rightarrow> string" where
  "strip_fences text0 =
     (let t1 = strip text0;
          text = (if starts_with t1 fence
                  then strip (join newline (filter (\<lambda>ln. \<not> starts_with (strip ln) fence) (split_char (CHR 0x0A) t1)))
                  else t1)
      in case (find_sub text ''{'', rfind_sub text ''}'') of
           (Some st, Some en) \<Rightarrow> if en > st then drop st (take (en + 1) text) else text
         | _ \<Rightarrow> text)"

definition strip_think :: "string \<Rightarrow> string" where
  "strip_think text = (case rfind_sub text think_end of None \<Rightarrow> text | Some i \<Rightarrow> drop (i + length think_end) text)"

definition run_planner :: "env \<Rightarrow> string \<Rightarrow> string list \<Rightarrow> (world, pyval) io" where
  "run_planner E kind parts =
     bind (perform (en_llm E) (FxLlm kind parts)) (\<lambda>raw.
     if raw = [] then throw (ValueError ''planner returned an empty response'')
     else case json_loads (strip_fences (strip_think raw)) of
       None \<Rightarrow> throw (ValueError ''planner returned invalid JSON'')
     | Some v \<Rightarrow> ret v)"

text \<open>\<open>dict(x)\<close>: a dictionary, or a sequence of pairs.\<close>

definition pair_of :: "pyval \<Rightarrow> exc + (string \<times> pyval)" where
  "pair_of v =
     rbind (as_iter v) (\<lambda>xs. case xs of
        [k, u] \<Rightarrow> rbind (key_text k) (\<lambda>t. Inr (t, u))
      | _ \<Rightarrow> Inl (ValueError ''dictionary update sequence element has the wrong length''))"

definition py_dict :: "pyval \<Rightarrow> exc + pydict" where
  "py_dict v = (case v of
      PDict d \<Rightarrow> Inr d
    | _ \<Rightarrow> rbind (as_iter v) (\<lambda>xs. rbind (rmap pair_of xs) (\<lambda>ps.
             Inr (fold (\<lambda>(k, u) d. dset d k u) ps []))))"

fun read_steps :: "string list \<Rightarrow> (string \<times> bool) list \<Rightarrow> pyval list \<Rightarrow> exc + plan_step list" where
  "read_steps allowed risky [] = Inr []"
| "read_steps allowed risky (s # rest) =
     rbind (as_dict s) (\<lambda>d.
     rbind (stripped (por (dget d ''command'') (PStr []))) (\<lambda>cmd.
     if cmd \<notin> set allowed then read_steps allowed risky rest
     else
       rbind (py_dict (por (dget d ''args'') (PDict []))) (\<lambda>args.
       rbind (read_steps allowed risky rest) (\<lambda>ps.
       Inr (\<lparr>st_command = cmd, st_args = args, st_label = por (dget d ''label'') (PStr cmd),
             st_risky = (case map_of risky cmd of Some b \<Rightarrow> b | None \<Rightarrow> False)\<rparr> # ps)))))"

definition plan_from_data :: "pyval \<Rightarrow> string list \<Rightarrow> string \<Rightarrow> (string \<times> bool) list \<Rightarrow> bool \<Rightarrow> exc + plan" where
  "plan_from_data data allowed fallback risky nonempty =
     rbind (as_dict data) (\<lambda>d.
     rbind (as_iter (por (dget_or d ''steps'' (PList [])) (PList []))) (\<lambda>xs.
     rbind (read_steps allowed risky xs) (\<lambda>steps.
     if steps = [] \<and> nonempty then Inl (ValueError ''planner produced no usable steps'')
     else rbind (stripped (por (dget d ''summary'') (PStr fallback))) (\<lambda>summary.
       Inr \<lparr>ep_summary = summary, ep_steps = steps\<rparr>))))"

definition menu_commands :: "menu_item list \<Rightarrow> string list" where
  "menu_commands menu = map mi_command menu @ control_commands"

definition plan_errand :: "env \<Rightarrow> string \<Rightarrow> menu_item list \<Rightarrow> (world, plan) io" where
  "plan_errand E goal menu0 =
     (let menu = menu_or_default menu0 in
      bind (run_planner E ''plan'' [goal, menu_text menu]) (\<lambda>data.
      lift (plan_from_data data (menu_commands menu) goal (risky_by_cmd menu) True)))"

text \<open>The commands of the current plan, which a revision may keep; a command that is no text is left out.\<close>

definition current_commands :: "pydict list \<Rightarrow> string list" where
  "current_commands steps =
     List.map_filter (\<lambda>s. case dget s ''command'' of PStr c \<Rightarrow> if c = [] then None else Some c | _ \<Rightarrow> None) steps"

definition refine_errand_plan :: "env \<Rightarrow> string \<Rightarrow> pydict list \<Rightarrow> string \<Rightarrow> menu_item list \<Rightarrow> (world, plan) io" where
  "refine_errand_plan E summary current instruction menu0 =
     (let menu = menu_or_default menu0 in
      bind (run_planner E ''refine'' [summary, json_dumps (PList (map PDict current)), menu_text menu, instruction]) (\<lambda>data.
      lift (plan_from_data data (menu_commands menu @ current_commands current) summary (risky_by_cmd menu) True)))"

subsection \<open>Continuing from progress\<close>

fun compact_result_loop :: "nat \<Rightarrow> pydict \<Rightarrow> string list \<Rightarrow> string list" where
  "compact_result_loop cap [] parts = parts"
| "compact_result_loop cap ((k, v) # rest) parts =
     (if k \<in> set compact_skip then compact_result_loop cap rest parts
      else
        let part = k @ ''='' @ (case v of PNone \<Rightarrow> json_dumps v | PList _ \<Rightarrow> json_dumps v | PDict _ \<Rightarrow> json_dumps v
                               | _ \<Rightarrow> py_str v);
            parts' = parts @ [part] in
        if sum_list (map length parts') > cap then parts' else compact_result_loop cap rest parts')"

definition compact_result_data :: "nat \<Rightarrow> pyval \<Rightarrow> string" where
  "compact_result_data cap data = (case data of
      PDict d \<Rightarrow> take cap (join ''; '' (compact_result_loop cap d []))
    | _ \<Rightarrow> [])"

fun progress_lines :: "nat \<Rightarrow> pyval list \<Rightarrow> pydict list \<Rightarrow> exc + string list" where
  "progress_lines i [] results = Inr []"
| "progress_lines i (step # rest) results =
     rbind (as_dict step) (\<lambda>d.
     let label = por (por (dget d ''label'') (dget d ''command'')) (PStr (''step '' @ nat_str (Suc i)));
         r = (if i < length results then results ! i else []);
         detail = por (por (por (por (dget r ''message'') (dget r ''summary''))
                    (PStr (compact_result_data 320 (dget r ''data'')))) (dget r ''error''))
                    (PStr (if truthy (dget r ''success'') then ''done'' else ''no result''))
     in rbind (progress_lines (Suc i) rest results) (\<lambda>ls.
        Inr ((''- '' @ py_str label @ '': '' @ py_str detail) # ls)))"

definition summarize_progress :: "pyval list \<Rightarrow> pydict list \<Rightarrow> exc + string" where
  "summarize_progress done_steps results =
     rbind (progress_lines 0 done_steps results) (\<lambda>ls.
     Inr (let t = join newline ls in if t = [] then ''(nothing has run yet)'' else t))"

definition replan_from_progress :: "env \<Rightarrow> string \<Rightarrow> pyval list \<Rightarrow> pydict list \<Rightarrow> string \<Rightarrow> menu_item list
    \<Rightarrow> (world, plan) io" where
  "replan_from_progress E goal done_steps results reason menu0 =
     (let menu = menu_or_default menu0 in
      bind (lift (summarize_progress done_steps results)) (\<lambda>progress.
      bind (run_planner E ''replan'' [goal, json_dumps (PList done_steps), progress, reason, menu_text menu]) (\<lambda>data.
      lift (plan_from_data data (menu_commands menu) ''continue'' (risky_by_cmd menu) False))))"

end
