(* ===== verification/Planner_Facts.thy ===== *)
theory Planner_Facts
  imports Errand_Planner
begin

section \<open>What a plan and a menu guarantee\<close>

text \<open>
  A plan holds only allowed commands, in the model's order, with the menu's riskiness; a menu never
  offers a denied command, and lists no node command under a server tool's name.
\<close>

subsection \<open>Validation of the model's steps\<close>

text \<open>The commands the model proposed, in order; None for an entry that is no readable step.\<close>

definition proposed :: "pyval \<Rightarrow> string option" where
  "proposed s = (case rbind (as_dict s) (\<lambda>d. stripped (por (dget d ''command'') (PStr []))) of
      Inr c \<Rightarrow> Some c | Inl _ \<Rightarrow> None)"

lemma proposed_simps:
  "as_dict s = Inr d \<Longrightarrow> stripped (por (dget d ''command'') (PStr [])) = Inr cmd \<Longrightarrow> proposed s = Some cmd"
  by (simp add: proposed_def)

lemma read_steps_commands:
  "read_steps allowed risky xs = Inr ps \<Longrightarrow>
   map st_command ps = filter (\<lambda>c. c \<in> set allowed) (List.map_filter proposed xs) \<and>
   (\<forall>p \<in> set ps. st_risky p = (map_of risky (st_command p) = Some True))"
proof (induction xs arbitrary: ps)
  case (Cons x xs)
  from Cons.prems obtain d cmd where d: "as_dict x = Inr d"
    "stripped (por (dget d ''command'') (PStr [])) = Inr cmd"
    by (auto simp: rbind_Inr_iff)
  note p = proposed_simps [OF d]
  show ?case
  proof (cases "cmd \<in> set allowed")
    case False
    with Cons.prems d have "read_steps allowed risky xs = Inr ps" by simp
    from Cons.IH [OF this] p False show ?thesis by (simp add: List.map_filter_simps)
  next
    case True
    with Cons.prems d obtain args ps' where "read_steps allowed risky xs = Inr ps'"
      "ps = \<lparr>st_command = cmd, st_args = args, st_label = por (dget d ''label'') (PStr cmd),
             st_risky = (case map_of risky cmd of Some b \<Rightarrow> b | None \<Rightarrow> False)\<rparr> # ps'"
      by (auto simp: rbind_Inr_iff)
    with Cons.IH [OF this(1)] p True show ?thesis
      by (auto simp: List.map_filter_simps split: option.splits)
  qed
qed (simp add: List.map_filter_simps)

lemma plan_from_data_steps:
  assumes "plan_from_data data allowed fb risky ne = Inr p"
  obtains d xs where "as_dict data = Inr d" "as_iter (por (dget_or d ''steps'' (PList [])) (PList [])) = Inr xs"
    "read_steps allowed risky xs = Inr (ep_steps p)" "ne \<longrightarrow> ep_steps p \<noteq> []"
  using assms by (auto simp: plan_from_data_def rbind_Inr_iff split: if_splits)

lemma run_planner_reply:
  assumes "run_planner E kind parts w = (w', Inr v)"
  obtains reply where "en_llm E (w_log w') = Inr reply" "json_loads (strip_fences (strip_think reply)) = Some v"
proof -
  from assms obtain w1 raw where l: "perform (en_llm E) (FxLlm kind parts) w = (w1, Inr raw)"
    and k: "(if raw = [] then throw (ValueError ''planner returned an empty response'')
     else case json_loads (strip_fences (strip_think raw)) of
       None \<Rightarrow> throw (ValueError ''planner returned invalid JSON'')
     | Some v \<Rightarrow> ret v) w1 = (w', Inr v)"
    unfolding run_planner_def by (rule bindE)
  from k have "w' = w1" "json_loads (strip_fences (strip_think raw)) = Some v"
    by (auto simp: run_throw run_ret split: if_splits option.splits)
  with l show ?thesis by (intro that) (auto simp: run_perform)
qed

lemma plan_errand_data:
  assumes "plan_errand E goal menu w = (w', Inr p)"
  obtains reply data where "en_llm E (w_log w') = Inr reply" "json_loads (strip_fences (strip_think reply)) = Some data"
    "plan_from_data data (menu_commands (menu_or_default menu)) goal (risky_by_cmd (menu_or_default menu)) True = Inr p"
  using assms unfolding plan_errand_def Let_def
  by (elim bindE run_planner_reply) (auto simp: run_lift)

lemma por_dget_or: "por (dget_or d k (PList [])) (PList []) = por (dget d k) (PList [])"
  by (simp add: por_def dget_def dget_or_def split: option.splits)

subsection \<open>Menus\<close>

lemma rmap_set: "rmap f xs = Inr ys \<Longrightarrow> y \<in> set ys \<Longrightarrow> \<exists>x \<in> set xs. f x = Inr y"
  by (induction xs arbitrary: ys) (auto simp: rbind_Inr_iff)

lemma node_item_allowed: "node_menu_item c = Inr (Some m) \<Longrightarrow> mi_command m \<noteq> [] \<and> mi_command m \<notin> set errand_menu_deny"
  by (auto simp: node_menu_item_def rbind_Inr_iff split: if_splits)

lemma errand_menu_allowed:
  assumes "build_errand_menu av = Inr menu" "m \<in> set menu"
  shows "mi_command m \<noteq> [] \<and> mi_command m \<notin> set errand_menu_deny"
proof -
  from assms obtain cs items where i: "rmap node_menu_item cs = Inr items" "Some m \<in> set items"
    by (force simp: build_errand_menu_def rbind_Inr_iff List.map_filter_def)
  from rmap_set [OF i] show ?thesis by (auto dest: node_item_allowed)
qed

text \<open>The tool registry files a tool under the name its own schema carries.\<close>

definition well_named :: "env \<Rightarrow> bool" where
  "well_named E \<longleftrightarrow> (\<forall>name t fn. get_tool E name = Some t \<longrightarrow>
     dget_or (fst t) ''function'' (PDict []) = PDict fn \<longrightarrow>
     dget fn ''name'' = PNone \<or> dget fn ''name'' = PStr [] \<or> dget fn ''name'' = PStr name)"

lemma tool_item_name:
  assumes "well_named E" "get_tool E name = Some t" "tool_menu_item name t = Inr m"
  shows "mi_command m = name"
proof -
  from assms(3) obtain fn where fn: "dget_or (fst t) ''function'' (PDict []) = PDict fn"
    and s: "as_str (por (dget fn ''name'') (PStr name)) = Inr (mi_command m)"
    by (cases "dget_or (fst t) ''function'' (PDict [])") (auto simp: tool_menu_item_def rbind_Inr_iff)
  from assms(1,2) fn have "dget fn ''name'' = PNone \<or> dget fn ''name'' = PStr [] \<or> dget fn ''name'' = PStr name"
    unfolding well_named_def by blast
  with s show ?thesis by (auto simp: por_def split: if_splits)
qed

lemma server_menu_names:
  assumes "well_named E" "build_server_tool_menu E hh sp = Inr menu" "m \<in> set menu"
  shows "mi_command m \<in> set (enabled_errand_server_tools E hh sp) \<and> has_tool E (mi_command m)"
proof -
  from assms(2,3) obtain name t where "name \<in> set (enabled_errand_server_tools E hh sp)"
    "get_tool E name = Some t" "tool_menu_item name t = Inr m"
    unfolding build_server_tool_menu_def by (auto dest!: rmap_set simp: List.map_filter_def)
  with tool_item_name [OF assms(1) this(2,3)] show ?thesis by (simp add: has_tool_def)
qed

lemma enabled_not_denied: "n \<in> set (enabled_errand_server_tools E hh sp) \<Longrightarrow> n \<notin> set errand_menu_deny"
  unfolding enabled_errand_server_tools_def set_filter mem_Collect_eq by (erule conjunct2)

lemma enabled_phone: "''make_phone_call'' \<in> set (enabled_errand_server_tools E hh sp) \<Longrightarrow> phone_calls_enabled E hh"
  by (auto simp: enabled_errand_server_tools_def split: if_splits)

subsection \<open>Properties\<close>

text \<open>
  A plan is exactly what the menu allows of the model's proposal: its commands are the proposed
  ones that the menu or the control commands contain, in the proposed order, there is at least one,
  and each step carries the riskiness the menu states, control commands none.
\<close>

lemma plan_is_validated:
  assumes "plan_errand E goal menu w = (w', Inr p)"
  shows "\<exists>reply d xs. en_llm E (w_log w') = Inr reply \<and>
    json_loads (strip_fences (strip_think reply)) = Some (PDict d) \<and>
    as_iter (por (dget d ''steps'') (PList [])) = Inr xs \<and>
    map st_command (ep_steps p) =
      filter (\<lambda>c. c \<in> set (menu_commands (menu_or_default menu))) (List.map_filter proposed xs) \<and>
    ep_steps p \<noteq> [] \<and>
    (\<forall>s \<in> set (ep_steps p).
       st_risky s = (map_of (risky_by_cmd (menu_or_default menu)) (st_command s) = Some True))"
proof -
  from plan_errand_data [OF assms] obtain reply data where r: "en_llm E (w_log w') = Inr reply"
    "json_loads (strip_fences (strip_think reply)) = Some data"
    "plan_from_data data (menu_commands (menu_or_default menu)) goal (risky_by_cmd (menu_or_default menu)) True = Inr p" .
  from r(3) obtain d xs where d: "as_dict data = Inr d" "as_iter (por (dget_or d ''steps'' (PList [])) (PList [])) = Inr xs"
    "read_steps (menu_commands (menu_or_default menu)) (risky_by_cmd (menu_or_default menu)) xs = Inr (ep_steps p)"
    "ep_steps p \<noteq> []"
    by (rule plan_from_data_steps) simp
  from d(1) have "data = PDict d" by (cases data) auto
  with r d read_steps_commands [OF d(3)] show ?thesis by (auto simp: por_dget_or)
qed

definition planning_env :: env where
  "planning_env = sample_env\<lparr>en_llm := \<lambda>l. Inr (''<think>hm</think>{\"summary\": \"Call\", \"steps\": ['' @
     ''{\"command\": \"make_phone_call\", \"args\": {\"business\": \"Cafe\"}}, {\"command\": \"fly\"}]}'')\<rparr>"

definition sample_menu :: "menu_item list" where
  "sample_menu = [\<lparr>mi_command = ''make_phone_call'', mi_desc = PStr [], mi_args = [], mi_risky = True\<rparr>]"

lemma plan_is_validated_witness:
  "\<exists>w' p. plan_errand planning_env ''Call the cafe'' sample_menu (sample_world 0) = (w', Inr p) \<and>
     map st_command (ep_steps p) = [''make_phone_call''] \<and> ep_steps p \<noteq> []"
proof -
  let ?r = "plan_errand planning_env ''Call the cafe'' sample_menu (sample_world 0)"
  have "case snd ?r of Inr p \<Rightarrow> map st_command (ep_steps p) = [''make_phone_call''] | _ \<Rightarrow> False" by code_simp
  then obtain p where p: "snd ?r = Inr p" "map st_command (ep_steps p) = [''make_phone_call'']"
    by (auto split: sum.splits)
  then have r: "?r = (fst ?r, Inr p)" by (metis prod.collapse)
  from plan_is_validated [OF r] have "ep_steps p \<noteq> []" by blast
  with r p(2) show ?thesis by (intro exI conjI) (rule r, simp_all)
qed

text \<open>
  A full menu offers no denied command, no node command that a server tool shadows, and a phone
  call from the server only to a household that has calling enabled, provided tools are filed
  under the names their schemas carry.
\<close>

lemma full_menu_safe:
  assumes "well_named E" and "build_full_errand_menu E available hh speaker = Inr menu"
  shows "(\<forall>m \<in> set menu. mi_command m \<notin> set errand_menu_deny) \<and>
    (\<exists>node server. menu = node @ server \<and> build_server_tool_menu E hh speaker = Inr server \<and>
       mi_command ` set node \<inter> mi_command ` set server = {} \<and>
       (\<forall>m \<in> set server. has_tool E (mi_command m)) \<and>
       (''make_phone_call'' \<in> mi_command ` set server \<longrightarrow> phone_calls_enabled E hh))"
proof -
  from assms(2) obtain server node where s: "build_server_tool_menu E hh speaker = Inr server"
    and n: "build_errand_menu available = Inr node"
    and m: "menu = filter (\<lambda>c. mi_command c \<notin> mi_command ` set server) node @ server"
    by (auto simp: build_full_errand_menu_def rbind_Inr_iff)
  from server_menu_names [OF assms(1) s] have sv: "\<forall>m \<in> set server.
      mi_command m \<in> set (enabled_errand_server_tools E hh speaker) \<and> has_tool E (mi_command m)" by blast
  have d: "\<forall>m \<in> set menu. mi_command m \<notin> set errand_menu_deny"
    using m sv errand_menu_allowed [OF n] enabled_not_denied by auto
  have ph: "''make_phone_call'' \<in> mi_command ` set server \<Longrightarrow> phone_calls_enabled E hh"
  proof -
    assume "''make_phone_call'' \<in> mi_command ` set server"
    then obtain m where m1: "m \<in> set server" and m2: "''make_phone_call'' = mi_command m" by (rule imageE)
    from sv m1 have "mi_command m \<in> set (enabled_errand_server_tools E hh speaker)" by blast
    then show ?thesis unfolding m2 [symmetric] by (rule enabled_phone)
  qed
  have disj: "mi_command ` set (filter (\<lambda>c. mi_command c \<notin> mi_command ` set server) node) \<inter> mi_command ` set server = {}"
    by auto
  have ht: "\<forall>m \<in> set server. has_tool E (mi_command m)" using sv by blast
  show ?thesis
    by (intro conjI exI) (rule d, rule m, rule s, rule disj, rule ht, rule impI, erule ph)
qed

lemma full_menu_safe_witness:
  "\<exists>menu. build_full_errand_menu sample_env
      (PList [PDict [(''command_name'', PStr ''routine'')], PDict [(''command_name'', PStr ''get_news'')]]) ''h1'' None = Inr menu \<and>
     map mi_command menu = [''get_news'', ''make_phone_call''] \<and> (\<forall>m \<in> set menu. mi_command m \<notin> set errand_menu_deny)"
proof -
  let ?r = "build_full_errand_menu sample_env
      (PList [PDict [(''command_name'', PStr ''routine'')], PDict [(''command_name'', PStr ''get_news'')]]) ''h1'' None"
  have "case ?r of Inr menu \<Rightarrow> map mi_command menu = [''get_news'', ''make_phone_call''] | _ \<Rightarrow> False" by code_simp
  then obtain menu where m: "?r = Inr menu" "map mi_command menu = [''get_news'', ''make_phone_call'']"
    by (auto split: sum.splits)
  have "well_named sample_env"
  proof -
    have t: "get_tool sample_env n = (if n = ''make_phone_call'' then Some ([(''function'', PDict [(''name'',
        PStr ''make_phone_call''), (''description'', PStr ''Call a business'')])], True) else None)" for n
      by (simp add: get_tool_def sample_env_def)
    show ?thesis unfolding well_named_def t by (simp add: dget_or_def)
  qed
  from full_menu_safe [OF this m(1)] have "\<forall>m \<in> set menu. mi_command m \<notin> set errand_menu_deny" by (rule conjunct1)
  with m show ?thesis by (intro exI conjI)
qed

text \<open>
  Reading past the model's reasoning keeps exactly the text after the last end tag: what is
  parsed holds no end tag, and a reply without reasoning is kept whole.
\<close>

lemma strip_think_last:
  "\<not> sublist think_end (strip_think text) \<and>
   (if sublist think_end text then \<exists>before. text = before @ think_end @ strip_think text
    else strip_think text = text)"
proof (cases "rfind_sub text think_end")
  case None
  then have "\<not> sublist think_end text" by (simp add: rfind_sub_def last_at_None)
  moreover have "strip_think text = text" using None by (simp add: strip_think_def)
  ultimately show ?thesis by simp
next
  case (Some i)
  then have l: "last_at 0 think_end text = Some i" by (simp add: rfind_sub_def)
  from last_at_split [OF l] obtain t where t: "text = take i text @ think_end @ t" by auto
  have st: "strip_think text = drop (i + length think_end) text" using Some by (simp add: strip_think_def)
  have i: "i \<le> length text"
  proof (rule ccontr)
    assume "\<not> i \<le> length text"
    then have "take i text = text" by simp
    with t have "text = text @ think_end @ t" by metis
    then show False by (simp add: think_end_def)
  qed
  have "drop (i + length think_end) (take i text @ think_end @ t) = t" using i by simp
  then have "strip_think text = t" unfolding st using t by metis
  moreover have "\<not> sublist think_end t"
  proof
    assume "sublist think_end t"
    moreover have "suffix t (drop (Suc i) text)"
    proof -
      have "drop (i + length think_end) text = t" using \<open>strip_think text = t\<close> st by simp
      then have "t = drop (length think_end - 1) (drop (Suc i) text)"
        by (simp add: think_end_def add.commute)
      then show ?thesis by (metis suffix_drop)
    qed
    ultimately have "sublist think_end (drop (Suc i) text)"
      by (metis sublist_def suffix_def append.assoc)
    with last_at_max [OF l] show False by (simp add: think_end_def)
  qed
  moreover have "sublist think_end text" using t by (metis sublist_appendI)
  ultimately show ?thesis using t by auto
qed

end
