(* ===== verification/Workflow_Runs.thy ===== *)
theory Workflow_Runs
  imports Errand_Runs
begin

section \<open>Durable runs: the store, the progress channel and the signal primitive\<close>

text \<open>
  The second half of \<^verbatim>\<open>app/services/workflow_engine.py\<close> with the store of
  \<^verbatim>\<open>app/services/errand_service.py\<close> (\<open>_WorkflowRunStore\<close>). The store is used through a contract,
  stated as a locale and discharged on the workflows table. A consumer is the triple of functions
  the engine calls; the registry of consumers is a function of the kind.
\<close>

subsection \<open>Runs and the store\<close>

record workflow_run =
  rn_id :: string
  rn_kind :: string
  rn_household :: string
  rn_node :: "string option"
  rn_user :: "int option"
  rn_goal :: string
  rn_title :: string
  rn_steps :: "pyval list"
  rn_cursor :: int
  rn_results :: "pydict list"
  rn_state :: string

definition run_of :: "workflow \<Rightarrow> workflow_run" where
  "run_of r =
     \<lparr>rn_id = wf_id r, rn_kind = wf_kind r, rn_household = wf_household r, rn_node = wf_node r,
      rn_user = wf_user r, rn_goal = wf_goal r,
      rn_title = oor (wf_title r) (if wf_goal r = [] then ''your errand'' else wf_goal r),
      rn_steps = wf_steps r, rn_cursor = wf_cursor r, rn_results = wf_results r, rn_state = wf_state r\<rparr>"

definition load_run :: "string \<Rightarrow> world \<Rightarrow> workflow_run option" where
  "load_run i w = map_option run_of (find_wf i w)"

definition set_wf_state :: "string \<Rightarrow> workflow \<Rightarrow> workflow" where
  "set_wf_state st r = r\<lparr>wf_state := st\<rparr>"

definition claim_running :: "string \<Rightarrow> world \<Rightarrow> world \<times> bool" where
  "claim_running i w = (case find_wf i w of
      None \<Rightarrow> (w, False)
    | Some r \<Rightarrow> if wf_state r = ''waiting'' then (upd_wf i (set_wf_state ''running'') w, True) else (w, False))"

definition park :: "int \<Rightarrow> pydict list \<Rightarrow> string \<Rightarrow> int option \<Rightarrow> workflow \<Rightarrow> workflow" where
  "park cursor results kind wake r =
     r\<lparr>wf_state := ''waiting'', wf_cursor := cursor, wf_results := results, wf_waiting_on := Some kind,
       wf_wake_at := wake\<rparr>"

definition save_waiting :: "string \<Rightarrow> int \<Rightarrow> pydict list \<Rightarrow> string \<Rightarrow> int option \<Rightarrow> world \<Rightarrow> world" where
  "save_waiting i cursor results kind wake = upd_wf i (park cursor results kind wake)"

definition land :: "string \<Rightarrow> string option \<Rightarrow> workflow \<Rightarrow> workflow" where
  "land st err r = r\<lparr>wf_state := st, wf_error := err\<rparr>"

definition save_terminal :: "string \<Rightarrow> string \<Rightarrow> string option \<Rightarrow> world \<Rightarrow> world" where
  "save_terminal i st err = upd_wf i (land st err)"

text \<open>The contract of the store: what a load returns after each operation.\<close>

locale workflow_store =
  fixes load :: "string \<Rightarrow> 'w \<Rightarrow> workflow_run option"
    and claim :: "string \<Rightarrow> 'w \<Rightarrow> 'w \<times> bool"
    and waiting :: "string \<Rightarrow> int \<Rightarrow> pydict list \<Rightarrow> string \<Rightarrow> int option \<Rightarrow> 'w \<Rightarrow> 'w"
    and terminal :: "string \<Rightarrow> string \<Rightarrow> string option \<Rightarrow> 'w \<Rightarrow> 'w"
  assumes load_claim: "load j (fst (claim i w)) =
      (if i = j \<and> snd (claim i w) then map_option (rn_state_update (\<lambda>_. ''running'')) (load j w) else load j w)"
    and claim_iff: "snd (claim i w) \<longleftrightarrow> (\<exists>r. load i w = Some r \<and> rn_state r = ''waiting'')"
    and load_waiting: "load j (waiting i c rs k t w) =
      (if i = j then map_option (\<lambda>r. r\<lparr>rn_state := ''waiting'', rn_cursor := c, rn_results := rs\<rparr>) (load j w)
       else load j w)"
    and load_terminal: "load j (terminal i st e w) =
      (if i = j then map_option (rn_state_update (\<lambda>_. st)) (load j w) else load j w)"
begin

lemma claim_once: "snd (claim i w) \<Longrightarrow> \<not> snd (claim i (fst (claim i w)))"
  by (auto simp: claim_iff load_claim)

lemma claim_terminal: "st \<noteq> ''waiting'' \<Longrightarrow> \<not> snd (claim i (terminal i st e w))"
  by (auto simp: claim_iff load_terminal)

lemma claim_parked: "load i w \<noteq> None \<Longrightarrow> snd (claim i (waiting i c rs k t w))"
  by (auto simp: claim_iff load_waiting)

lemma claim_other: "i \<noteq> j \<Longrightarrow> snd (claim j (fst (claim i w))) = snd (claim j w)"
  by (simp add: claim_iff load_claim)

end

lemma wf_updates_id [simp]:
  "wf_id (set_wf_state st r) = wf_id r" "wf_id (park c rs k t r) = wf_id r" "wf_id (land st e r) = wf_id r"
  by (simp_all add: set_wf_state_def park_def land_def)

lemma run_of_updates [simp]:
  "run_of (set_wf_state st r) = (run_of r)\<lparr>rn_state := st\<rparr>"
  "run_of (park c rs k t r) = (run_of r)\<lparr>rn_state := ''waiting'', rn_cursor := c, rn_results := rs\<rparr>"
  "run_of (land st e r) = (run_of r)\<lparr>rn_state := st\<rparr>"
  by (simp_all add: run_of_def set_wf_state_def park_def land_def)

lemma run_of_fields [simp]:
  "rn_state (run_of r) = wf_state r" "rn_cursor (run_of r) = wf_cursor r" "rn_results (run_of r) = wf_results r"
  "rn_id (run_of r) = wf_id r" "rn_kind (run_of r) = wf_kind r" "rn_steps (run_of r) = wf_steps r"
  "rn_household (run_of r) = wf_household r" "rn_goal (run_of r) = wf_goal r"
  by (simp_all add: run_of_def)

interpretation wstore: workflow_store load_run claim_running save_waiting save_terminal
proof unfold_locales
  fix i j w
  show "load_run j (fst (claim_running i w)) =
      (if i = j \<and> snd (claim_running i w) then map_option (rn_state_update (\<lambda>_. ''running'')) (load_run j w)
       else load_run j w)"
    by (auto simp: load_run_def claim_running_def find_wf_upd option.map_comp comp_def split: option.splits)
  show "snd (claim_running i w) \<longleftrightarrow> (\<exists>r. load_run i w = Some r \<and> rn_state r = ''waiting'')"
    by (auto simp: load_run_def claim_running_def split: option.splits)
next
  fix i j c rs k t w
  show "load_run j (save_waiting i c rs k t w) =
      (if i = j then map_option (\<lambda>r. r\<lparr>rn_state := ''waiting'', rn_cursor := c, rn_results := rs\<rparr>) (load_run j w)
       else load_run j w)"
    by (simp add: load_run_def save_waiting_def find_wf_upd option.map_comp comp_def)
next
  fix i j st e w
  show "load_run j (save_terminal i st e w) =
      (if i = j then map_option (rn_state_update (\<lambda>_. st)) (load_run j w) else load_run j w)"
    by (simp add: load_run_def save_terminal_def find_wf_upd option.map_comp comp_def)
qed

subsection \<open>Consumers and progress\<close>

record progress_event =
  pe_type :: string
  pe_result :: "pydict option"

record consumer =
  cs_run :: "workflow_run \<Rightarrow> pydict list \<Rightarrow> (world, step_result) io"
  cs_finalize :: "string \<Rightarrow> pydict list \<Rightarrow> (world, pydict) io"
  cs_emit :: "workflow_run \<Rightarrow> progress_event \<Rightarrow> (world, unit) io"

type_synonym consumers = "string \<Rightarrow> consumer option"

definition emit_progress :: "consumers \<Rightarrow> workflow_run \<Rightarrow> progress_event \<Rightarrow> (world, unit) io" where
  "emit_progress cons run ev = (case cons (rn_kind run) of
      None \<Rightarrow> ret ()
    | Some c \<Rightarrow> catch (cs_emit c run ev) (\<lambda>_. ret ()))"

definition complete_event :: "pydict \<Rightarrow> progress_event" where
  "complete_event res = \<lparr>pe_type = ''complete'', pe_result = Some res\<rparr>"

definition terminal_state :: "pydict \<Rightarrow> string" where
  "terminal_state res =
     (let status = por (dget res ''status'') (PStr ''failed'') in
      if status = PStr ''success'' then ''done'' else py_str status)"

definition short_message :: "pydict \<Rightarrow> exc + string" where
  "short_message res = (case por (dget res ''message'') (PStr []) of
      PStr s \<Rightarrow> Inr (take 500 s)
    | _ \<Rightarrow> Inl (TypeError ''not subscriptable''))"

subsection \<open>Driving a run\<close>

definition replan_event :: "workflow_run \<Rightarrow> int \<Rightarrow> exc + progress_event" where
  "replan_event run i =
     rbind (if 0 \<le> i \<and> i < int (length (rn_steps run))
            then rbind (as_dict (rn_steps run ! nat i)) (\<lambda>s. as_dict (por (dget s ''args'') (PDict []))) else Inr []) (\<lambda>args.
     Inr \<lparr>pe_type = ''needs_a_tap'',
          pe_result = Some [(''workflow_id'', PStr (rn_id run)), (''step_index'', PInt i),
            (''reason'', por (dget args ''reason'') (PStr [])),
            (''add_steps'', por (dget args ''add_steps'') (PList []))]\<rparr>)"

definition drive_run :: "consumers \<Rightarrow> workflow_run \<Rightarrow> consumer \<Rightarrow> pydict list \<Rightarrow> (world, unit) io" where
  "drive_run cons run c prior =
     bind (cs_run c run prior) (\<lambda>result.
     case result of
       Inr su \<Rightarrow>
         bind (modify (save_waiting (rn_id run) (su_cursor su) (su_results su) (su_kind su) (su_wake su))) (\<lambda>_.
         if su_kind su = ''approval'' then
           bind (lift (replan_event run (su_cursor su - 1))) (emit_progress cons run)
         else ret ())
     | Inl res \<Rightarrow>
         bind (emit_progress cons run (complete_event res)) (\<lambda>_.
         bind (lift (if dget res ''status'' = PStr ''success'' then Inr None
                     else rbind (short_message res) (\<lambda>m. Inr (Some m)))) (\<lambda>err.
         modify (save_terminal (rn_id run) (terminal_state res) err))))"

definition crash_report :: "consumers \<Rightarrow> workflow_run \<Rightarrow> string \<Rightarrow> string \<Rightarrow> (world, unit) io" where
  "crash_report cons run msg err =
     catch
       (bind (emit_progress cons run (complete_event [(''status'', PStr ''failed''), (''message'', PStr msg)])) (\<lambda>_.
        modify (save_terminal (rn_id run) ''failed'' (Some err))))
       (\<lambda>_. ret ())"

definition run_workflow :: "consumers \<Rightarrow> string \<Rightarrow> (world, bool) io" where
  "run_workflow cons i =
     bind (gets (load_run i)) (\<lambda>found.
     case found of
       None \<Rightarrow> ret False
     | Some run \<Rightarrow>
         (case cons (rn_kind run) of
            None \<Rightarrow> bind (modify (save_terminal i ''failed'' (Some ''no consumer for this workflow kind''))) (\<lambda>_. ret False)
          | Some c \<Rightarrow>
              catch (bind (drive_run cons run c (rn_results run)) (\<lambda>_. ret True))
                (\<lambda>e. bind (crash_report cons run ''The workflow couldn't run.'' ''run crashed'') (\<lambda>_. ret True))))"

subsection \<open>Delivering a signal\<close>

definition resume_claimed :: "consumers \<Rightarrow> workflow_run \<Rightarrow> consumer \<Rightarrow> step_handler \<Rightarrow> int
    \<Rightarrow> signal_outcome \<Rightarrow> (world, unit) io" where
  "resume_claimed cons run c h step outcome =
     bind (lift (interpret_signal h outcome (rn_steps run) step)) (\<lambda>d.
     let results = rn_results run @ [d] in
     if \<not> truthy (dget d ''success'') then
       bind (cs_finalize c (rn_goal run) results) (\<lambda>res.
       bind (emit_progress cons run (complete_event res)) (\<lambda>_.
       bind (lift (short_message res)) (\<lambda>m.
       modify (save_terminal (rn_id run) (terminal_state res) (Some m)))))
     else drive_run cons run c results)"

definition deliver_signal :: "consumers \<Rightarrow> string \<Rightarrow> int \<Rightarrow> string \<Rightarrow> signal_outcome \<Rightarrow> (world, bool) io" where
  "deliver_signal cons i step kind outcome =
     bind (gets (load_run i)) (\<lambda>found.
     case found of
       None \<Rightarrow> ret False
     | Some run \<Rightarrow>
         if rn_state run \<noteq> ''waiting'' then ret False
         else if rn_cursor run \<noteq> step + 1 then ret False
         else
         bind (\<lambda>w. case claim_running i w of (w', b) \<Rightarrow> (w', Inr b)) (\<lambda>claimed.
         if \<not> claimed then ret False
         else
         (case (cons (rn_kind run), deferred_handler builtin_handlers kind) of
            (Some c, Some h) \<Rightarrow>
              catch (bind (resume_claimed cons run c h step outcome) (\<lambda>_. ret True))
                (\<lambda>e. bind (crash_report cons run ''The workflow hit a snag after the last step.'' ''resume crashed'')
                   (\<lambda>_. ret True))
          | _ \<Rightarrow> bind (modify (save_terminal i ''failed'' (Some ''no consumer/handler for this signal''))) (\<lambda>_. ret False))))"

end
