(* ===== verification/Errand_Cards.thy ===== *)
theory Errand_Cards
  imports Workflow_Runs Planner_Facts
begin

section \<open>Errand cards and the errand as a consumer of the engine\<close>

text \<open>
  The cards of \<^verbatim>\<open>app/services/errand_service.py\<close>, the progress emitter, and the registration of the
  errand with the engine. A checkpoint's continuation is decided by a detached task; queuing it
  appends to \<open>w_tasks\<close>. Pictographs of titles are left out.
\<close>

subsection \<open>The inbox\<close>

definition inbox_card :: "string \<Rightarrow> int option \<Rightarrow> string \<Rightarrow> string \<Rightarrow> string \<Rightarrow> string \<Rightarrow> pydict \<Rightarrow> card" where
  "inbox_card hh user title summary body category metadata =
     \<lparr>cd_household = hh, cd_user = user, cd_title = title, cd_summary = summary, cd_body = body,
      cd_category = category, cd_metadata = metadata\<rparr>"

definition post_inbox :: "env \<Rightarrow> card \<Rightarrow> (world, string option) io" where
  "post_inbox E c = perform (en_card E) (FxCard c)"

definition update_inbox :: "env \<Rightarrow> string \<Rightarrow> card \<Rightarrow> (world, bool) io" where
  "update_inbox E i c = perform (en_refresh E) (FxCardUpdate i c)"

text \<open>Refresh the card in place when there is one, else post a fresh one.\<close>

definition post_or_update :: "env \<Rightarrow> string option \<Rightarrow> card \<Rightarrow> (world, string option) io" where
  "post_or_update E item c =
     (if otruthy item then
        bind (update_inbox E (oor item []) c) (\<lambda>ok. if ok then ret item else post_inbox E c)
      else post_inbox E c)"

definition errand_plan_category :: string where
  "errand_plan_category = ''errand_plan''"

subsection \<open>The plan card\<close>

fun numbered :: "nat \<Rightarrow> pydict list \<Rightarrow> string list" where
  "numbered i [] = []"
| "numbered i (s # ss) = (nat_str i @ ''. '' @ py_str (por (dget s ''label'') (dget s ''command''))) # numbered (Suc i) ss"

definition plan_card_body :: "string \<Rightarrow> pydict list \<Rightarrow> string" where
  "plan_card_body summary steps =
     join newline ([summary, [], ''**Plan:**''] @ numbered 1 steps @
       [[], ''Tap **Run** to start it. To change it, tell me what to change above and tap **Revise**, or tap **Cancel** to discard.''])"

definition errand_button :: "string \<Rightarrow> string \<Rightarrow> string \<Rightarrow> pydict \<Rightarrow> pyval" where
  "errand_button i label callback data =
     PDict [(''id'', PStr i), (''label'', PStr label), (''command'', PStr ''errand''), (''callback'', PStr callback),
            (''target'', PStr ''server''), (''data'', PDict data)]"

definition build_plan_card_metadata :: "errand_plan \<Rightarrow> pydict list \<Rightarrow> string \<Rightarrow> pydict" where
  "build_plan_card_metadata row steps hh =
     (let ident = [(''plan_id'', PStr (pl_id row)), (''revision'', PInt (pl_revision row))] in
      [(''household_id'', PStr hh), (''plan_id'', PStr (pl_id row)), (''revision'', PInt (pl_revision row)),
       (''steps'', PList (map PDict steps)),
       (''editable_fields'', PList [PDict [(''label'', PStr ''Tell me what to change''), (''initial'', PStr []),
          (''data_key'', PStr ''instruction''), (''input_type'', PStr ''text''), (''required'', PBool True)]]),
       (''interactive_elements'', PList
          [errand_button ''run-errand'' ''Run'' ''approve_errand_plan'' ident,
           errand_button ''revise-errand'' ''Revise'' ''refine_errand_plan'' (ident @ [(''instruction'', PStr [])]),
           errand_button ''cancel-errand'' ''Cancel'' ''discard_errand_plan'' ident])])"

definition plan_title :: "errand_plan \<Rightarrow> string" where
  "plan_title row = oor (pl_summary row) (pl_goal row)"

definition post_errand_plan_card :: "env \<Rightarrow> errand_plan \<Rightarrow> pydict list \<Rightarrow> string \<Rightarrow> int option \<Rightarrow> (world, string option) io" where
  "post_errand_plan_card E row steps hh user =
     post_or_update E (pl_inbox row)
       (inbox_card hh user (''Errand plan: '' @ plan_title row) (plan_title row) (plan_card_body (plan_title row) steps)
          errand_plan_category (build_plan_card_metadata row steps hh))"

subsection \<open>The delta card of a checkpoint\<close>

definition replan_card_body :: "string \<Rightarrow> string \<Rightarrow> pydict list \<Rightarrow> string" where
  "replan_card_body title reason steps =
     join newline ([''While running **'' @ title @ ''**, I have a change to propose:'', []] @
       (if reason = [] then [] else [reason, []]) @ [''**Proposed additional steps:**''] @ numbered 1 steps @
       [[], ''Tap **Approve** to include these and continue, or **Stop** to end the errand here.''])"

definition build_replan_card_metadata :: "string \<Rightarrow> int \<Rightarrow> pydict list \<Rightarrow> string \<Rightarrow> pydict" where
  "build_replan_card_metadata i revno steps hh =
     (let ident = [(''workflow_id'', PStr i), (''revision'', PInt revno)] in
      [(''household_id'', PStr hh), (''workflow_id'', PStr i), (''revision'', PInt revno),
       (''steps'', PList (map PDict steps)),
       (''interactive_elements'', PList
          [errand_button ''approve-replan'' ''Approve'' ''approve_replan'' ident,
           errand_button ''stop-errand'' ''Stop'' ''stop_errand'' ident])])"

definition set_wf_inbox :: "string option \<Rightarrow> workflow \<Rightarrow> workflow" where
  "set_wf_inbox item r = r\<lparr>wf_inbox := item\<rparr>"

definition post_replan_card :: "env \<Rightarrow> workflow \<Rightarrow> string \<Rightarrow> pydict list \<Rightarrow> (world, unit) io" where
  "post_replan_card E wfr reason add =
     (let name = oor (wf_title wfr) (if wf_goal wfr = [] then ''your errand'' else wf_goal wfr) in
      bind (post_or_update E (wf_inbox wfr)
        (inbox_card (wf_household wfr) (wf_user wfr) (''Errand update: '' @ name)
           (if reason = [] then ''I have a change to propose.'' else reason) (replan_card_body name reason add)
           errand_plan_category (build_replan_card_metadata (wf_id wfr) (wf_revision wfr) add (wf_household wfr)))) (\<lambda>item.
      if otruthy item \<and> item \<noteq> wf_inbox wfr then modify (upd_wf (wf_id wfr) (set_wf_inbox item)) else ret ()))"

subsection \<open>The completion card\<close>

definition status_headline :: "string \<Rightarrow> string" where
  "status_headline st = (if st = ''success'' then ''[ok] Errand done: '' else if st = ''partial'' then ''[warn] Errand finished with issues: ''
     else if st = ''timeout'' then ''[late] Errand didn't finish: '' else ''[warn] Errand couldn't finish: '')"

definition completion_card :: "string \<Rightarrow> string \<Rightarrow> pydict \<Rightarrow> int option \<Rightarrow> card" where
  "completion_card hh title res user =
     (let status = py_str (por (dget res ''status'') (PStr ''failed''));
          summary = py_str (por (dget res ''message'') (PStr ''The errand finished.'')) in
      inbox_card hh user (status_headline status @ title) summary summary ''errand''
        [(''household_id'', PStr hh), (''status'', PStr status)])"

definition post_errand_completion_card :: "env \<Rightarrow> string \<Rightarrow> string \<Rightarrow> pydict \<Rightarrow> int option \<Rightarrow> (world, unit) io" where
  "post_errand_completion_card E hh title res user =
     catch (bind (post_inbox E (completion_card hh title res user)) (\<lambda>_. ret ())) (\<lambda>_. ret ())"

subsection \<open>The consumer\<close>

definition handle_replan_needs_a_tap :: "workflow_run \<Rightarrow> pydict \<Rightarrow> (world, unit) io" where
  "handle_replan_needs_a_tap run data =
     (case dget data ''step_index'' of
        PInt i \<Rightarrow>
          bind (lift (as_iter (por (dget data ''add_steps'') (PList [])))) (\<lambda>add.
          modify (\<lambda>w. w\<lparr>w_tasks := w_tasks w @ [(rn_id run, i, py_str (por (dget data ''reason'') (PStr [])), add)]\<rparr>))
      | _ \<Rightarrow> ret ())"

definition errand_emit :: "env \<Rightarrow> workflow_run \<Rightarrow> progress_event \<Rightarrow> (world, unit) io" where
  "errand_emit E run ev =
     (case pe_result ev of
        None \<Rightarrow> ret ()
      | Some res \<Rightarrow>
          if pe_type ev = ''complete''
          then post_errand_completion_card E (rn_household run) (rn_title run) res (rn_user run)
          else if pe_type ev = ''needs_a_tap'' then handle_replan_needs_a_tap run res
          else ret ())"

definition errand_run_fn :: "env \<Rightarrow> workflow_run \<Rightarrow> pydict list \<Rightarrow> (world, step_result) io" where
  "errand_run_fn E run prior =
     execute_errand E (rn_household run) (rn_node run) (rn_steps run) (rn_user run) (rn_goal run) (Some (rn_id run))
       (rn_cursor run) prior"

definition errand_consumer :: "env \<Rightarrow> consumer" where
  "errand_consumer E = \<lparr>cs_run = errand_run_fn E, cs_finalize = aggregate_and_compose E, cs_emit = errand_emit E\<rparr>"

definition errand_consumers :: "env \<Rightarrow> consumers" where
  "errand_consumers E = (\<lambda>kind. if kind = ''errand'' then Some (errand_consumer E) else None)"

end
