(* ===== verification/Errand_Service.thy ===== *)
theory Errand_Service
  imports Errand_Cards
begin

section \<open>The errand service: plans, taps, checkpoints, sweeps\<close>

text \<open>
  \<^verbatim>\<open>app/services/errand_service.py\<close>: drafting and revising a plan, the six callbacks, the detached
  decision about a checkpoint, the resumption by calls and timers, and the recovery at startup. A
  handler runs to its end; what two handlers may do to each other is the subject of the interleaving
  theories. A query by an identifier that is no text finds nothing.
\<close>

subsection \<open>Menus and drafts\<close>

definition resolve_node_menu :: "env \<Rightarrow> string option \<Rightarrow> string \<Rightarrow> int option \<Rightarrow> (world, menu_item list) io" where
  "resolve_node_menu E node hh user =
     bind (catch
       (bind (perform (en_node E) (FxQuery ''node tools'' [oor node []])) (\<lambda>report.
        if truthy report then lift (rbind (as_dict report) (\<lambda>d. Inr (dget d ''available_commands''))) else ret PNone))
       (\<lambda>_. ret PNone)) (\<lambda>available.
     lift (build_full_errand_menu E available hh user))"

definition new_plan :: "string \<Rightarrow> string \<Rightarrow> int option \<Rightarrow> string option \<Rightarrow> string \<Rightarrow> plan \<Rightarrow> errand_plan" where
  "new_plan pid hh user node goal p =
     \<lparr>pl_id = pid, pl_household = hh, pl_user = user, pl_node = node, pl_goal = goal, pl_summary = Some (ep_summary p),
      pl_steps = routine_steps p, pl_inbox = None, pl_state = ''draft'', pl_revision = 1, pl_error = None,
      pl_confirmed_at = None, pl_workflow = None\<rparr>"

definition set_pl_inbox :: "string option \<Rightarrow> errand_plan \<Rightarrow> errand_plan" where
  "set_pl_inbox item r = r\<lparr>pl_inbox := item\<rparr>"

text \<open>Post or refresh a plan's card and remember its identifier; a dead card never fails the plan.\<close>

definition push_plan_card :: "env \<Rightarrow> errand_plan \<Rightarrow> string \<Rightarrow> int option \<Rightarrow> (world, unit) io" where
  "push_plan_card E row hh user =
     catch (bind (post_errand_plan_card E row (pl_steps row) hh user) (\<lambda>item.
            if otruthy item \<and> item \<noteq> pl_inbox row then modify (upd_plan (pl_id row) (set_pl_inbox item)) else ret ()))
       (\<lambda>_. ret ())"

definition create_errand_plan :: "env \<Rightarrow> string \<Rightarrow> string option \<Rightarrow> string \<Rightarrow> int option \<Rightarrow> menu_item list option
    \<Rightarrow> (world, string) io" where
  "create_errand_plan E hh node goal user menu0 =
     bind (case menu0 of Some m \<Rightarrow> ret m | None \<Rightarrow> resolve_node_menu E node hh user) (\<lambda>menu.
     bind (plan_errand E goal menu) (\<lambda>p.
     bind (insert_plan (\<lambda>pid. new_plan pid hh user node goal p)) (\<lambda>pid.
     bind (push_plan_card E (new_plan pid hh user node goal p) hh user) (\<lambda>_.
     ret pid))))"

definition post_couldnt_plan_card :: "env \<Rightarrow> string \<Rightarrow> int option \<Rightarrow> string \<Rightarrow> string \<Rightarrow> (world, unit) io" where
  "post_couldnt_plan_card E hh user summary body =
     catch (bind (post_inbox E (inbox_card hh user ''Couldn't plan that errand'' summary body errand_plan_category
              [(''household_id'', PStr hh)])) (\<lambda>_. ret ()))
       (\<lambda>_. ret ())"

definition quoted :: "string \<Rightarrow> string" where
  "quoted s = [CHR 0x22] @ s @ [CHR 0x22]"

definition draft_errand_plan_detached :: "env \<Rightarrow> string \<Rightarrow> string option \<Rightarrow> string \<Rightarrow> int option \<Rightarrow> menu_item list option
    \<Rightarrow> (world, unit) io" where
  "draft_errand_plan_detached E hh node goal user menu =
     catch (bind (create_errand_plan E hh node goal user menu) (\<lambda>_. ret ()))
       (\<lambda>e. case e of
          ValueError _ \<Rightarrow> post_couldnt_plan_card E hh user
             (''I couldn't turn '' @ quoted goal @ '' into a plan I can run.'')
             (''I couldn't turn '' @ quoted goal @ '' into a plan I can run - try rephrasing it.'')
        | _ \<Rightarrow> post_couldnt_plan_card E hh user ''I hit a snag planning that errand.''
             ''I hit a snag putting that errand together - try again in a bit.'')"

subsection \<open>Checkpoints\<close>

definition splice :: "nat \<Rightarrow> 'a list \<Rightarrow> 'a list \<Rightarrow> 'a list" where
  "splice i add steps = take (Suc i) steps @ add @ drop (Suc i) steps"

definition set_wf_steps :: "pyval list \<Rightarrow> workflow \<Rightarrow> workflow" where
  "set_wf_steps steps r = r\<lparr>wf_steps := steps\<rparr>"

definition bump_wf_revision :: "workflow \<Rightarrow> workflow" where
  "bump_wf_revision r = r\<lparr>wf_revision := (if wf_revision r = 0 then 1 else wf_revision r) + 1\<rparr>"

definition proposed_additions :: "pyval \<Rightarrow> exc + pyval list" where
  "proposed_additions step =
     rbind (as_dict step) (\<lambda>d.
     rbind (as_dict (por (dget d ''args'') (PDict []))) (\<lambda>args.
     Inr (case por (dget args ''add_steps'') (PList []) of PList xs \<Rightarrow> xs | _ \<Rightarrow> [])))"

definition apply_workflow_replan :: "string \<Rightarrow> int \<Rightarrow> (world, bool) io" where
  "apply_workflow_replan i pos =
     bind (gets (find_wf i)) (\<lambda>found.
     case found of
       None \<Rightarrow> ret False
     | Some wfr \<Rightarrow>
         if \<not> (0 \<le> pos \<and> pos < int (length (wf_steps wfr))) then ret False
         else
           bind (lift (proposed_additions (wf_steps wfr ! nat pos))) (\<lambda>add.
           bind (modify (upd_wf i (bump_wf_revision \<circ> set_wf_steps (splice (nat pos) add (wf_steps wfr))))) (\<lambda>_.
           ret True)))"

definition auto_continue_replan :: "consumers \<Rightarrow> string \<Rightarrow> int \<Rightarrow> (world, unit) io" where
  "auto_continue_replan cons i step =
     catch
       (bind (apply_workflow_replan i step) (\<lambda>_.
        bind (deliver_signal cons i step ''approval'' (marker ''approved'')) (\<lambda>_. ret ())))
       (\<lambda>_. ret ())"

definition with_additions :: "pyval list \<Rightarrow> string \<Rightarrow> pyval \<Rightarrow> exc + pyval" where
  "with_additions add reason step =
     rbind (as_dict step) (\<lambda>d.
     rbind (as_dict (por (dget d ''args'') (PDict []))) (\<lambda>args.
     let args1 = dset args ''add_steps'' (PList add);
         args2 = (if reason = [] then args1 else dsetdefault args1 ''reason'' (PStr reason))
     in Inr (PDict (dset d ''args'' (PDict args2)))))"

definition store_replan_add_steps :: "string \<Rightarrow> int \<Rightarrow> pyval list \<Rightarrow> string \<Rightarrow> world \<Rightarrow> world" where
  "store_replan_add_steps i pos add reason w =
     (case find_wf i w of
        None \<Rightarrow> w
      | Some wfr \<Rightarrow>
          if \<not> (0 \<le> pos \<and> pos < int (length (wf_steps wfr))) then w
          else (case with_additions add reason (wf_steps wfr ! nat pos) of
              Inl _ \<Rightarrow> w
            | Inr s \<Rightarrow> upd_wf i (set_wf_steps ((wf_steps wfr)[nat pos := s])) w))"

definition planned_additions :: "env \<Rightarrow> workflow \<Rightarrow> int \<Rightarrow> string \<Rightarrow> (world, pyval list) io" where
  "planned_additions E wfr pos reason =
     bind (resolve_node_menu E (wf_node wfr) (wf_household wfr) (wf_user wfr)) (\<lambda>menu.
     catch
       (bind (replan_from_progress E (wf_goal wfr) (take (nat pos) (wf_steps wfr)) (wf_results wfr) reason menu) (\<lambda>p.
        ret (map PDict (routine_steps p))))
       (\<lambda>e. case e of ValueError _ \<Rightarrow> ret [] | _ \<Rightarrow> throw e))"

definition decide_replan :: "env \<Rightarrow> consumers \<Rightarrow> string \<Rightarrow> int \<Rightarrow> string \<Rightarrow> pyval list \<Rightarrow> pyval list \<Rightarrow> (world, unit) io" where
  "decide_replan E cons i pos reason steps add =
     bind (modify (store_replan_add_steps i pos add reason)) (\<lambda>_.
     bind (lift (if add = [] then Inr False else widens_steps steps (steps @ add))) (\<lambda>widens.
     if widens then
       bind (gets (find_wf i)) (\<lambda>found.
       bind (lift (rmap as_dict add)) (\<lambda>dicts.
       case found of None \<Rightarrow> ret () | Some wfr \<Rightarrow> post_replan_card E wfr reason dicts))
     else auto_continue_replan cons i pos))"

definition resolve_and_decide_replan :: "env \<Rightarrow> consumers \<Rightarrow> replan_task \<Rightarrow> (world, unit) io" where
  "resolve_and_decide_replan E cons task =
     (case task of (i, pos, reason, static_add) \<Rightarrow>
      catch
        (bind (gets (find_wf i)) (\<lambda>found.
         case found of
           None \<Rightarrow> ret ()
         | Some wfr \<Rightarrow>
             if wf_state wfr \<noteq> ''waiting'' then ret ()
             else
               bind (if static_add = [] then planned_additions E wfr pos reason else ret static_add)
                 (decide_replan E cons i pos reason (wf_steps wfr))))
        (\<lambda>_. auto_continue_replan cons i pos))"

subsection \<open>Taps on a plan card\<close>

definition revisions_match :: "pyval \<Rightarrow> int \<Rightarrow> bool" where
  "revisions_match card_rev row_rev = (case py_int card_rev of Inl _ \<Rightarrow> True | Inr n \<Rightarrow> n = row_rev)"

definition find_plan_by :: "pyval \<Rightarrow> string \<Rightarrow> world \<Rightarrow> errand_plan option" where
  "find_plan_by i hh w = (case i of PStr s \<Rightarrow> find_plan s hh w | _ \<Rightarrow> None)"

definition find_wf_by :: "pyval \<Rightarrow> string \<Rightarrow> world \<Rightarrow> workflow option" where
  "find_wf_by i hh w = (case i of
      PStr s \<Rightarrow> find (\<lambda>r. wf_id r = s \<and> wf_household r = hh) (w_workflows w)
    | _ \<Rightarrow> None)"

definition fail_plan :: "string \<Rightarrow> errand_plan \<Rightarrow> errand_plan" where
  "fail_plan err r = r\<lparr>pl_state := ''failed'', pl_error := Some err\<rparr>"

definition launch_plan :: "string \<Rightarrow> int \<Rightarrow> errand_plan \<Rightarrow> errand_plan" where
  "launch_plan wid now r = r\<lparr>pl_workflow := Some wid, pl_state := ''launched'', pl_confirmed_at := Some now\<rparr>"

definition cancel_plan :: "errand_plan \<Rightarrow> errand_plan" where
  "cancel_plan r = r\<lparr>pl_state := ''cancelled''\<rparr>"

definition run_from_plan :: "string \<Rightarrow> string \<Rightarrow> errand_plan \<Rightarrow> workflow" where
  "run_from_plan hh wid row =
     \<lparr>wf_id = wid, wf_kind = ''errand'', wf_household = hh, wf_user = pl_user row, wf_node = pl_node row,
      wf_goal = (if pl_goal row = [] then oor (pl_summary row) [] else pl_goal row),
      wf_title = Some (oor (pl_summary row) (pl_goal row)),
      wf_steps = map PDict (pl_steps row), wf_cursor = 0, wf_results = [], wf_revision = 1, wf_inbox = None,
      wf_state = ''running'', wf_waiting_on = None, wf_wake_at = None, wf_error = None\<rparr>"

definition handled_card :: "string \<Rightarrow> string \<Rightarrow> cb_result" where
  "handled_card hh summary = cb_inbox ''Errand already handled'' summary [(''household_id'', PStr hh)]"

definition handle_approve_errand_plan :: "env \<Rightarrow> consumers \<Rightarrow> cb_handler" where
  "handle_approve_errand_plan E cons ctx =
     (if \<not> truthy (dget (cx_data ctx) ''plan_id'') then ret (cb_fail ''Missing plan_id'')
      else bind (gets (find_plan_by (dget (cx_data ctx) ''plan_id'') (cx_household ctx))) (\<lambda>found.
      case found of
        None \<Rightarrow> ret (cb_fail ''Errand plan not found'')
      | Some row \<Rightarrow>
          if pl_state row \<noteq> ''draft'' then
            ret (handled_card (cx_household ctx) (''This errand is already '' @ pl_state row @ ''.''))
          else if \<not> revisions_match (dget (cx_data ctx) ''revision'') (pl_revision row) then
            ret (cb_fail ''This plan was updated - open the latest card to run it.'')
          else if pl_steps row = [] then
            bind (modify (upd_plan (pl_id row) (fail_plan ''no steps to run''))) (\<lambda>_.
            ret (cb_fail ''This errand has no steps to run.''))
          else
            bind (insert_workflow (\<lambda>wid. run_from_plan (cx_household ctx) wid row)) (\<lambda>wid.
            bind (gets w_now) (\<lambda>now.
            bind (modify (upd_plan (pl_id row) (launch_plan wid now))) (\<lambda>_.
            bind (run_workflow cons wid) (\<lambda>_.
            ret cb_ok))))))"

subsection \<open>Cancelling\<close>

definition decline_row :: "int \<Rightarrow> phone_session \<Rightarrow> phone_session" where
  "decline_row now s = (let (s', ok) = transition now s ''declined'' in
     if ok then s'\<lparr>ps_error := Some ''errand cancelled''\<rparr> else s')"

definition pending_call :: "string \<Rightarrow> phone_session \<Rightarrow> bool" where
  "pending_call wid s \<longleftrightarrow> ps_errand_id s = Some wid \<and> ps_state s \<in> {''draft'', ''confirmed''}"

definition decline_pending_workflow_calls :: "string \<Rightarrow> (world, bool) io" where
  "decline_pending_workflow_calls wid = (\<lambda>w.
     (w\<lparr>w_sessions := upd_where (pending_call wid) (decline_row (w_now w)) (w_sessions w)\<rparr>,
      Inr (list_ex (\<lambda>s. pending_call wid s \<and> snd (transition (w_now w) s ''declined'')) (w_sessions w))))"

definition handle_discard_errand_plan :: cb_handler where
  "handle_discard_errand_plan ctx =
     bind (gets (find_plan_by (dget (cx_data ctx) ''plan_id'') (cx_household ctx))) (\<lambda>found.
     case found of
       None \<Rightarrow> ret cb_ok
     | Some row \<Rightarrow>
         if pl_state row = ''draft'' then
           bind (modify (upd_plan (pl_id row) cancel_plan)) (\<lambda>_.
           ret (cb_inbox ''Errand discarded'' (plan_title row) [(''household_id'', PStr (cx_household ctx))]))
         else
         bind (gets (\<lambda>w. if pl_state row = ''launched'' \<and> otruthy (pl_workflow row)
                         then find_wf (oor (pl_workflow row) []) w else None)) (\<lambda>run.
         case run of
           Some wfr \<Rightarrow>
             if wf_state wfr = ''waiting'' then
               bind (modify (upd_plan (pl_id row) cancel_plan \<circ> upd_wf (wf_id wfr) (set_wf_state ''cancelled''))) (\<lambda>_.
               bind (decline_pending_workflow_calls (wf_id wfr)) (\<lambda>declined.
               ret (cb_inbox ''Errand cancelled''
                      (plan_title row @ (if declined then '' I won't place the remaining call(s).''
                                         else '' A call already in progress may still finish.''))
                      [(''household_id'', PStr (cx_household ctx))])))
             else ret (handled_card (cx_household ctx)
                    (''This errand is already '' @ wf_state wfr @ '' - nothing to discard.''))
         | None \<Rightarrow>
             ret (handled_card (cx_household ctx)
               (''This errand is already '' @
                 (if pl_state row = ''launched'' \<and> otruthy (pl_workflow row) then ''done'' else pl_state row) @
                 '' - nothing to discard.''))))"

definition cancel_linked_plans :: "string \<Rightarrow> world \<Rightarrow> world" where
  "cancel_linked_plans wid w = w\<lparr>w_plans := upd_where (\<lambda>r. pl_workflow r = Some wid) cancel_plan (w_plans w)\<rparr>"

definition handle_stop_errand :: cb_handler where
  "handle_stop_errand ctx =
     bind (gets (find_wf_by (dget (cx_data ctx) ''workflow_id'') (cx_household ctx))) (\<lambda>found.
     case found of
       None \<Rightarrow> ret cb_ok
     | Some wfr \<Rightarrow>
         if wf_state wfr = ''waiting'' then
           bind (modify (upd_wf (wf_id wfr) (set_wf_state ''cancelled''))) (\<lambda>_.
           bind (decline_pending_workflow_calls (wf_id wfr)) (\<lambda>declined.
           bind (modify (cancel_linked_plans (wf_id wfr))) (\<lambda>_.
           ret (cb_inbox ''Errand stopped''
                  (oor (wf_title wfr) (if wf_goal wfr = [] then ''The errand'' else wf_goal wfr) @ '' stopped.'' @
                   (if declined then '' I won't place the remaining call(s).'' else []))
                  [(''household_id'', PStr (cx_household ctx))]))))
         else ret (handled_card (cx_household ctx) (''This errand is already '' @ wf_state wfr @ ''.'')))"

subsection \<open>Approving a checkpoint\<close>

definition handle_approve_replan :: "consumers \<Rightarrow> cb_handler" where
  "handle_approve_replan cons ctx =
     (if \<not> truthy (dget (cx_data ctx) ''workflow_id'') then ret (cb_fail ''Missing workflow_id'')
      else bind (gets (find_wf_by (dget (cx_data ctx) ''workflow_id'') (cx_household ctx))) (\<lambda>found.
      case found of
        None \<Rightarrow> ret (cb_fail ''Errand not found'')
      | Some wfr \<Rightarrow>
          if wf_state wfr \<noteq> ''waiting'' \<or> wf_waiting_on wfr \<noteq> Some ''approval'' then
            ret (handled_card (cx_household ctx) ''That change was already handled.'')
          else if \<not> revisions_match (dget (cx_data ctx) ''revision'') (wf_revision wfr) then
            ret (cb_fail ''This change was already updated - open the latest card.'')
          else
            bind (apply_workflow_replan (wf_id wfr) (wf_cursor wfr - 1)) (\<lambda>ok.
            if \<not> ok then ret (cb_fail ''Couldn't apply the change.'')
            else bind (deliver_signal cons (wf_id wfr) (wf_cursor wfr - 1) ''approval'' (marker ''approved'')) (\<lambda>_.
                 ret cb_ok))))"

subsection \<open>Revising a draft\<close>

definition revise_plan :: "plan \<Rightarrow> string option \<Rightarrow> errand_plan \<Rightarrow> errand_plan" where
  "revise_plan p new_goal r =
     r\<lparr>pl_goal := (case new_goal of None \<Rightarrow> pl_goal r | Some g \<Rightarrow> g), pl_summary := Some (ep_summary p),
       pl_steps := routine_steps p, pl_revision := pl_revision r + 1\<rparr>"

definition apply_plan_revision :: "env \<Rightarrow> errand_plan \<Rightarrow> plan \<Rightarrow> string \<Rightarrow> string option \<Rightarrow> (world, unit) io" where
  "apply_plan_revision E row p hh new_goal =
     bind (modify (upd_plan (pl_id row) (revise_plan p new_goal))) (\<lambda>_.
     push_plan_card E (revise_plan p new_goal row) hh (pl_user row))"

text \<open>A planner call of a revision: its plan, or the text the user is told.\<close>

definition try_plan :: "(world, plan) io \<Rightarrow> string \<Rightarrow> string \<Rightarrow> (world, string + plan) io" where
  "try_plan m no_plan snag =
     catch (bind m (\<lambda>p. ret (Inr p))) (\<lambda>e. case e of ValueError _ \<Rightarrow> ret (Inl no_plan) | _ \<Rightarrow> ret (Inl snag))"

definition handle_replan_errand_plan :: "env \<Rightarrow> cb_handler" where
  "handle_replan_errand_plan E ctx =
     bind (lift (ctx_text (cx_data ctx) ''goal'')) (\<lambda>new_goal.
     if \<not> truthy (dget (cx_data ctx) ''plan_id'') then ret (cb_fail ''Missing plan_id'')
     else if new_goal = [] then ret (cb_fail ''The errand goal can't be empty.'')
     else bind (gets (find_plan_by (dget (cx_data ctx) ''plan_id'') (cx_household ctx))) (\<lambda>found.
     case found of
       None \<Rightarrow> ret (cb_fail ''Errand plan not found'')
     | Some row \<Rightarrow>
         if pl_state row \<noteq> ''draft'' then
           ret (handled_card (cx_household ctx) (''This errand is already '' @ pl_state row @ '' - it can't be edited.''))
         else if \<not> revisions_match (dget (cx_data ctx) ''revision'') (pl_revision row) then
           ret (cb_fail ''This plan was updated - open the latest card to edit it.'')
         else
         bind (resolve_node_menu E (pl_node row) (cx_household ctx) (pl_user row)) (\<lambda>menu.
         bind (try_plan (plan_errand E new_goal menu)
                (''I couldn't turn '' @ quoted new_goal @ '' into a plan I can run - try rephrasing it.'')
                ''I hit a snag re-planning that - try again in a bit.'') (\<lambda>r.
         case r of
           Inl msg \<Rightarrow> ret (cb_fail msg)
         | Inr p \<Rightarrow>
             bind (apply_plan_revision E row p (cx_household ctx) (Some new_goal)) (\<lambda>_. ret cb_ok)))))"

definition handle_refine_errand_plan :: "env \<Rightarrow> cb_handler" where
  "handle_refine_errand_plan E ctx =
     bind (lift (ctx_text (cx_data ctx) ''instruction'')) (\<lambda>instruction.
     if \<not> truthy (dget (cx_data ctx) ''plan_id'') then ret (cb_fail ''Missing plan_id'')
     else if instruction = [] then ret (cb_fail ''Tell me what to change first.'')
     else bind (gets (find_plan_by (dget (cx_data ctx) ''plan_id'') (cx_household ctx))) (\<lambda>found.
     case found of
       None \<Rightarrow> ret (cb_fail ''Errand plan not found'')
     | Some row \<Rightarrow>
         if pl_state row \<noteq> ''draft'' then
           ret (handled_card (cx_household ctx) (''This errand is already '' @ pl_state row @ '' - it can't be changed.''))
         else if \<not> revisions_match (dget (cx_data ctx) ''revision'') (pl_revision row) then
           ret (cb_fail ''This plan was updated - open the latest card to change it.'')
         else
         bind (resolve_node_menu E (pl_node row) (cx_household ctx) (pl_user row)) (\<lambda>menu.
         bind (try_plan (refine_errand_plan E (plan_title row) (pl_steps row) instruction menu)
                ''I couldn't apply that change - try saying it differently.''
                ''I hit a snag revising that - try again in a bit.'') (\<lambda>r.
         case r of
           Inl msg \<Rightarrow> ret (cb_fail msg)
         | Inr p \<Rightarrow> bind (apply_plan_revision E row p (cx_household ctx) None) (\<lambda>_. ret cb_ok)))))"

subsection \<open>Calls, timers, startup\<close>

definition resume_errand_after_call :: "consumers \<Rightarrow> signal_outcome \<Rightarrow> (world, unit) io" where
  "resume_errand_after_call cons s =
     (if \<not> otruthy (so_errand s) \<or> oor (so_state s) [] \<notin> set call_terminal then ret ()
      else bind (deliver_signal cons (oor (so_errand s) []) (case so_step s of Some n \<Rightarrow> n | None \<Rightarrow> 0) ''phone_call'' s)
        (\<lambda>_. ret ()))"

definition interrupted_result :: "workflow \<Rightarrow> pydict" where
  "interrupted_result r =
     (let passed = passed_count (wf_results r) in
      [(''status'', PStr (if passed > 0 then ''partial'' else ''failed'')), (''passed'', PInt (int passed)),
       (''failed'', PInt (max (int (length (wf_results r)) - int passed) 0)),
       (''message'', PStr ''This errand was interrupted by a restart and couldn't be finished.''),
       (''results'', PList (map PDict (wf_results r)))])"

fun recover_rows :: "consumers \<Rightarrow> workflow list \<Rightarrow> (world, unit) io" where
  "recover_rows cons [] = ret ()"
| "recover_rows cons (r # rs) =
     bind (emit_progress cons ((run_of r)\<lparr>rn_steps := []\<rparr>) (complete_event (interrupted_result r))) (\<lambda>_.
     bind (modify (save_terminal (wf_id r) (terminal_state (interrupted_result r)) (Some ''interrupted by a restart''))) (\<lambda>_.
     recover_rows cons rs))"

definition recover_orphaned_running_workflows :: "consumers \<Rightarrow> (world, int) io" where
  "recover_orphaned_running_workflows cons =
     bind (gets (\<lambda>w. filter (\<lambda>r. wf_state r = ''running'') (w_workflows w))) (\<lambda>stuck.
     bind (recover_rows cons stuck) (\<lambda>_. ret (int (length stuck))))"

definition errand_wait_deadline_us :: int where
  "errand_wait_deadline_us = 60 * minute_us"

definition latest_call :: "string \<Rightarrow> int \<Rightarrow> world \<Rightarrow> phone_session option" where
  "latest_call wid step w =
     (case sort_key (\<lambda>s. - ps_created_at s)
         (filter (\<lambda>s. ps_errand_id s = Some wid \<and> ps_errand_step s = Some step) (w_sessions w)) of
        [] \<Rightarrow> None | s # _ \<Rightarrow> Some s)"

definition timed_out_call :: "phone_session \<Rightarrow> signal_outcome" where
  "timed_out_call s =
     \<lparr>so_errand = ps_errand_id s, so_step = ps_errand_step s, so_state = Some ''failed'',
      so_contact_name = ps_contact_name s, so_error = Some ''the call wasn't completed in time'',
      so_goal = PNone, so_outcome = None\<rparr>"

definition call_trigger :: "int \<Rightarrow> phone_session option \<Rightarrow> signal_outcome option" where
  "call_trigger now found = (case found of
      None \<Rightarrow> None
    | Some s \<Rightarrow>
        if ps_state s \<in> set call_terminal then resume_signal s
        else if ps_created_at s < now - errand_wait_deadline_us then Some (timed_out_call s)
        else None)"

fun resume_rows :: "consumers \<Rightarrow> int \<Rightarrow> workflow list \<Rightarrow> int \<Rightarrow> (world, int) io" where
  "resume_rows cons now [] n = ret n"
| "resume_rows cons now (r # rs) n =
     bind (gets (latest_call (wf_id r) (max (wf_cursor r - 1) 0))) (\<lambda>found.
     case call_trigger now found of
       None \<Rightarrow> resume_rows cons now rs n
     | Some t \<Rightarrow> bind (resume_errand_after_call cons t) (\<lambda>_. resume_rows cons now rs (n + 1)))"

definition resume_waiting_errands :: "consumers \<Rightarrow> (world, int) io" where
  "resume_waiting_errands cons =
     bind (gets w_now) (\<lambda>now.
     bind (gets (\<lambda>w. filter (\<lambda>r. wf_state r = ''waiting'') (w_workflows w))) (\<lambda>rows.
     resume_rows cons now rows 0))"

definition timer_due :: "int \<Rightarrow> workflow \<Rightarrow> bool" where
  "timer_due now r \<longleftrightarrow> wf_state r = ''waiting'' \<and> wf_waiting_on r = Some ''timer'' \<and>
     (case wf_wake_at r of None \<Rightarrow> False | Some t \<Rightarrow> t \<le> now)"

fun fire_timers :: "consumers \<Rightarrow> (string \<times> int) list \<Rightarrow> int \<Rightarrow> (world, int) io" where
  "fire_timers cons [] n = ret n"
| "fire_timers cons ((i, cursor) # rest) n =
     bind (deliver_signal cons i (max (cursor - 1) 0) ''timer'' (marker ''fired'')) (\<lambda>_. fire_timers cons rest (n + 1))"

definition resume_due_timer_workflows :: "consumers \<Rightarrow> (world, int) io" where
  "resume_due_timer_workflows cons =
     bind (gets (\<lambda>w. map (\<lambda>r. (wf_id r, wf_cursor r)) (filter (timer_due (w_now w)) (w_workflows w)))) (\<lambda>due.
     fire_timers cons due 0)"

subsection \<open>Wiring\<close>

definition register_errand_callbacks :: "env \<Rightarrow> cb_registry \<Rightarrow> cb_registry" where
  "register_errand_callbacks E reg =
     foldl (\<lambda>t (c, b, h). register_server_callback c b h t) reg
       [(''errand'', ''approve_errand_plan'', handle_approve_errand_plan E (errand_consumers E)),
        (''errand'', ''refine_errand_plan'', handle_refine_errand_plan E),
        (''errand'', ''replan_errand_plan'', handle_replan_errand_plan E),
        (''errand'', ''discard_errand_plan'', handle_discard_errand_plan),
        (''errand'', ''approve_replan'', handle_approve_replan (errand_consumers E)),
        (''errand'', ''stop_errand'', handle_stop_errand)]"

end
