(* ===== verification/Run_Safety.thy ===== *)
theory Run_Safety
  imports Errand_Service
begin

section \<open>What one drive does to a run\<close>

text \<open>
  The engine with the errand as its consumer: a drive leaves every other table and run alone, parks
  the run further along its plan or lands it in a terminal state, and reports exactly once.
\<close>

subsection \<open>The consumer leaves the tables alone\<close>

definition frozen :: "world \<Rightarrow> world \<Rightarrow> bool" where
  "frozen w0 w \<longleftrightarrow> w_workflows w = w_workflows w0 \<and> w_plans w = w_plans w0 \<and> w_now w = w_now w0"

definition reports :: "world \<Rightarrow> nat" where
  "reports w = length (filter is_report (w_log w))"

definition quiet_frozen :: "world \<Rightarrow> world \<Rightarrow> bool" where
  "quiet_frozen w0 w \<longleftrightarrow> frozen w0 w \<and> reports w = reports w0 \<and> w_tasks w = w_tasks w0"

lemma frozen_refl [simp]: "frozen w w" "quiet_frozen w w"
  by (simp_all add: frozen_def quiet_frozen_def)

lemma reports_log [simp]: "reports (log_effect e w) = (if is_report e then Suc (reports w) else reports w)"
  by (simp add: reports_def)

lemma frozen_log [simp]: "frozen w0 (log_effect e w) = frozen w0 w"
  by (simp add: frozen_def)

lemma drafting_quiet_frozen: "drafting (quiet_frozen w0)"
  by (auto simp: drafting_def quiet_def quiet_frozen_def frozen_def keeps_def insert_session_def Let_def reports_def)

lemma run_fn_frozen:
  assumes "errand_run_fn E run prior w = (w', r)"
  shows "quiet_frozen w w'"
  using keepsD [OF keeps_execute [OF drafting_quiet_frozen], of w w] assms
  by (simp add: errand_run_fn_def) (metis fst_conv)

lemma finalize_frozen:
  assumes "aggregate_and_compose E goal rs w = (w', r)"
  shows "quiet_frozen w w'"
proof -
  have "quiet (quiet_frozen w)" using drafting_quiet_frozen by (simp add: drafting_def)
  from keepsD [OF keeps_aggregate [OF this], of w] assms show ?thesis by (metis fst_conv frozen_refl(2))
qed

subsection \<open>Reporting\<close>

lemma errand_consumers_errand [simp]: "errand_consumers E ''errand'' = Some (errand_consumer E)"
  by (simp add: errand_consumers_def)

lemma inbox_card_category [simp]: "cd_category (inbox_card hh u t s b c m) = c"
  by (simp add: inbox_card_def)

lemma completion_card_category [simp]: "cd_category (completion_card hh t r u) = ''errand''"
  by (simp add: completion_card_def Let_def)

lemma run_completion:
  "post_errand_completion_card E hh title res user w = (log_effect (FxCard (completion_card hh title res user)) w, Inr ())"
  by (simp add: post_errand_completion_card_def post_inbox_def io_simps run_perform split: sum.splits)

lemma emit_complete:
  assumes "rn_kind run = ''errand''"
  shows "emit_progress (errand_consumers E) run (complete_event res) w =
    (log_effect (FxCard (completion_card (rn_household run) (rn_title run) res (rn_user run))) w, Inr ())"
  using assms
  by (simp add: emit_progress_def errand_consumer_def errand_emit_def complete_event_def run_completion run_catch)

lemma emit_needs_a_tap:
  assumes "rn_kind run = ''errand''" "pe_type ev = ''needs_a_tap''"
  obtains T where "emit_progress (errand_consumers E) run ev w = (w\<lparr>w_tasks := T\<rparr>, Inr ())"
proof -
  have "\<exists>T. emit_progress (errand_consumers E) run ev w = (w\<lparr>w_tasks := T\<rparr>, Inr ())"
    using assms
    by (auto simp: emit_progress_def errand_consumer_def errand_emit_def handle_replan_needs_a_tap_def io_simps
        split: option.splits pyval.splits sum.splits intro: exI [of _ "w_tasks w"])
  with that show ?thesis by blast
qed

lemma frozen_tasks [simp]: "frozen w0 (w\<lparr>w_tasks := T\<rparr>) = frozen w0 w" "reports (w\<lparr>w_tasks := T\<rparr>) = reports w"
  "w_workflows (w\<lparr>w_tasks := T\<rparr>) = w_workflows w"
  by (simp_all add: frozen_def reports_def)

subsection \<open>What a drive leaves behind\<close>

text \<open>
  The row of the run afterwards: parked further along with all earlier outcomes, or landed. The
  number of completion cards tells the two apart.
\<close>

definition parked :: "int \<Rightarrow> pydict list \<Rightarrow> workflow \<Rightarrow> workflow \<Rightarrow> bool" where
  "parked cursor prior r r' \<longleftrightarrow>
     (\<exists>c new k t. r' = park c (prior @ new) k t r \<and> c > cursor \<and> k \<in> {''phone_call'', ''timer'', ''approval''})"

definition landed :: "workflow \<Rightarrow> workflow \<Rightarrow> bool" where
  "landed r r' \<longleftrightarrow> (\<exists>st e. r' = land st e r \<and> st \<in> {''done'', ''partial'', ''failed''})"

definition driven :: "string \<Rightarrow> int \<Rightarrow> pydict list \<Rightarrow> world \<Rightarrow> world \<Rightarrow> bool" where
  "driven i cursor prior w w' \<longleftrightarrow> w_plans w' = w_plans w \<and> w_now w' = w_now w \<and>
     (\<exists>f. w_workflows w' = upd_where (\<lambda>r. wf_id r = i) f (w_workflows w) \<and>
        ((\<forall>r. parked cursor prior r (f r)) \<and> reports w' = reports w \<or>
         (\<forall>r. landed r (f r)) \<and> reports w' = Suc (reports w)))"

lemma terminal_state_cases:
  "dget res ''status'' = PStr (aggregate_status rs) \<Longrightarrow> terminal_state res \<in> {''done'', ''partial'', ''failed''}"
proof -
  assume "dget res ''status'' = PStr (aggregate_status rs)"
  moreover have "aggregate_status rs = ''success'' \<or> aggregate_status rs = ''partial'' \<or> aggregate_status rs = ''failed''"
    using aggregate_status_cases(3) [of rs] by simp
  ultimately show ?thesis by (auto simp: terminal_state_def por_def py_str_def)
qed

lemma land_driven:
  assumes "frozen w w1" "reports w1 = Suc (reports w)" "st \<in> {''done'', ''partial'', ''failed''}"
  shows "driven i cursor prior w (save_terminal i st e w1)"
proof -
  have "\<forall>r. landed r (land st e r)" using assms(3) by (auto simp: landed_def)
  with assms(1,2) show ?thesis
    unfolding driven_def save_terminal_def upd_wf_def by (auto simp: frozen_def reports_def)
qed

lemma indexed_from_ge: "(j, s) \<in> set (indexed_from start steps) \<Longrightarrow> start \<le> j"
  by (auto simp: indexed_from_def)

lemma suspend_progress:
  assumes "execute_errand E hh node steps user goal errand start prior w = (w', Inr (Inr s))"
  shows "su_cursor s > start \<and> su_kind s \<in> {''phone_call'', ''timer'', ''approval''} \<and>
    (\<exists>new. su_results s = prior @ new)"
proof -
  from assms show ?thesis
  proof (cases rule: execute_errand_loop)
    case (suspended s' results)
    then have "loop_spec w' (drive_ctx hh node user goal errand prior) (indexed_from start steps) prior results (Some s)"
      by simp
    then obtain new where
      n: "su_results s = prior @ new" "length new < length (work (indexed_from start steps))"
      "su_cursor s = fst (work (indexed_from start steps) ! length new) + 1"
      "su_kind s \<in> {''phone_call'', ''timer'', ''approval''}" by (rule loop_spec_Some)
  then have "work (indexed_from start steps) ! length new \<in> set (indexed_from start steps)"
    by (metis filter_is_subset nth_mem subsetD work_def)
  then have "start \<le> fst (work (indexed_from start steps) ! length new)"
    by (metis indexed_from_ge prod.collapse)
    with n show ?thesis by simp
  qed simp
qed

end
