(* ===== verification/Run_Drives.thy ===== *)
theory Run_Drives
  imports Run_Safety
begin

section \<open>A drive settles its run\<close>

text \<open>
  Whatever the services answer, a drive of an errand ends in one of two ways: the run is parked
  further along its plan and nobody is told, or it is in a terminal state and exactly one completion
  card went out. Nothing else in the database moves.
\<close>

subsection \<open>Rows during a drive\<close>

definition same_errand :: "workflow \<Rightarrow> workflow \<Rightarrow> bool" where
  "same_errand r r' \<longleftrightarrow>
     r' = r\<lparr>wf_cursor := wf_cursor r', wf_results := wf_results r', wf_state := wf_state r',
            wf_waiting_on := wf_waiting_on r', wf_wake_at := wf_wake_at r', wf_error := wf_error r'\<rparr>"

definition ended :: "string \<Rightarrow> bool" where
  "ended st \<longleftrightarrow> st \<in> {''done'', ''partial'', ''failed''}"

definition further :: "int \<Rightarrow> pydict list \<Rightarrow> workflow \<Rightarrow> bool" where
  "further cursor prior r' \<longleftrightarrow> wf_state r' = ''waiting'' \<and> cursor < wf_cursor r' \<and>
     (\<exists>new. wf_results r' = prior @ new) \<and>
     (\<exists>k \<in> {''phone_call'', ''timer'', ''approval''}. wf_waiting_on r' = Some k)"

lemma same_errand_park [simp]: "same_errand r (park c rs k t r)"
  by (simp add: same_errand_def park_def)

lemma same_errand_land [simp]: "same_errand r0 (land st e r) = same_errand r0 r"
  by (cases r0; cases r) (auto simp: same_errand_def land_def)

lemma same_errand_refl [simp]: "same_errand r r"
  by (simp add: same_errand_def)

lemma same_errand_set_state [simp]: "same_errand r0 (set_wf_state st r) = same_errand r0 r"
  "same_errand (set_wf_state st r) r' = same_errand r r'"
  by (cases r0; cases r; auto simp: same_errand_def set_wf_state_def)
    (cases r; cases r'; auto simp: same_errand_def set_wf_state_def)

lemma same_errand_id: "same_errand r r' \<Longrightarrow> wf_id r' = wf_id r"
  by (cases r; cases r') (auto simp: same_errand_def)

lemma ended_not_open: "ended st \<Longrightarrow> st \<noteq> ''waiting'' \<and> st \<noteq> ''running''"
  by (auto simp: ended_def)

lemma upd_where_upd_where:
  "(\<And>r. p (f r) = p r) \<Longrightarrow> upd_where p g (upd_where p f rows) = upd_where p (g \<circ> f) rows"
  by (simp add: upd_where_def)

lemma upd_where_id [simp]: "upd_where p id rows = rows"
  by (induction rows) auto

text \<open>\<open>stepped i Q w w'\<close>: only the rows of run \<open>i\<close> changed, each into one related by \<open>Q\<close>.\<close>

definition stepped :: "string \<Rightarrow> (workflow \<Rightarrow> workflow \<Rightarrow> bool) \<Rightarrow> world \<Rightarrow> world \<Rightarrow> bool" where
  "stepped i Q w w' \<longleftrightarrow> w_plans w' = w_plans w \<and> w_now w' = w_now w \<and>
     (\<exists>f. w_workflows w' = upd_where (\<lambda>r. wf_id r = i) f (w_workflows w) \<and>
        (\<forall>r. same_errand r (f r) \<and> Q r (f r)))"

lemma stepped_quiet: "quiet_frozen w w' \<Longrightarrow> stepped i (\<lambda>r r'. True) w w'"
proof -
  assume "quiet_frozen w w'"
  then have "w_plans w' = w_plans w" "w_now w' = w_now w" "w_workflows w' = upd_where (\<lambda>r. wf_id r = i) id (w_workflows w)"
    by (simp_all add: quiet_frozen_def frozen_def)
  then show ?thesis unfolding stepped_def by (intro conjI exI [of _ id]) simp_all
qed

lemma stepped_mono: "stepped i Q w w' \<Longrightarrow> (\<And>r r'. Q r r' \<Longrightarrow> Q' r r') \<Longrightarrow> stepped i Q' w w'"
  unfolding stepped_def by blast

lemma stepped_log: "stepped i Q w w' \<Longrightarrow> stepped i Q w (log_effect e w')"
  by (simp add: stepped_def)

lemma stepped_tasks: "stepped i Q w w' \<Longrightarrow> stepped i Q w (w'\<lparr>w_tasks := T\<rparr>)"
  by (simp add: stepped_def)

lemma stepped_terminal:
  assumes "stepped i Q w w'" "ended st"
  shows "stepped i (\<lambda>r r'. ended (wf_state r')) w (save_terminal i st e w')"
proof -
  from assms(1) obtain f where f: "w_plans w' = w_plans w" "w_now w' = w_now w"
    "w_workflows w' = upd_where (\<lambda>r. wf_id r = i) f (w_workflows w)" "\<And>r. same_errand r (f r)"
    unfolding stepped_def by blast
  have "wf_id (f r) = wf_id r" for r using f(4) by (rule same_errand_id)
  then have "w_workflows (save_terminal i st e w') =
      upd_where (\<lambda>r. wf_id r = i) (land st e \<circ> f) (w_workflows w)"
    by (simp add: save_terminal_def upd_wf_def f(3) upd_where_upd_where)
  with f assms(2) show ?thesis
    unfolding stepped_def
    by (intro conjI exI [of _ "land st e \<circ> f"]) (simp_all add: save_terminal_def, simp add: land_def)
qed

subsection \<open>Crashes and completions\<close>

definition ended_once :: "string \<Rightarrow> world \<Rightarrow> world \<Rightarrow> bool" where
  "ended_once i w w' \<longleftrightarrow> stepped i (\<lambda>r r'. ended (wf_state r')) w w' \<and> reports w' = Suc (reports w)"

definition settled :: "string \<Rightarrow> int \<Rightarrow> pydict list \<Rightarrow> world \<Rightarrow> world \<Rightarrow> bool" where
  "settled i cursor prior w w' \<longleftrightarrow>
     stepped i (\<lambda>r r'. further cursor prior r') w w' \<and> reports w' = reports w \<or> ended_once i w w'"

lemma ended_settled: "ended_once i w w' \<Longrightarrow> settled i cursor prior w w'"
  by (simp add: settled_def)

definition unsettled :: "string \<Rightarrow> world \<Rightarrow> world \<Rightarrow> bool" where
  "unsettled i w w' \<longleftrightarrow> stepped i (\<lambda>r r'. True) w w' \<and> reports w' = reports w"

lemma reports_save [simp]:
  "reports (save_terminal i st e w) = reports w" "reports (save_waiting i c rs k t w) = reports w"
  by (simp_all add: reports_def save_terminal_def save_waiting_def)

lemma unsettled_quiet: "quiet_frozen w w' \<Longrightarrow> unsettled i w w'"
  using stepped_quiet by (auto simp: unsettled_def quiet_frozen_def)

lemma ended_unsettled: "unsettled i w w1 \<Longrightarrow> ended st \<Longrightarrow>
  ended_once i w (save_terminal i st e (log_effect (FxCard (completion_card hh t r u)) w1))"
  unfolding ended_once_def unsettled_def
  by (auto intro: stepped_terminal stepped_log)

lemma ended_failed: "ended ''failed''"
  by (simp add: ended_def)

lemma crash_settles:
  assumes "unsettled (rn_id run) w w1" "rn_kind run = ''errand''"
  obtains w' where "crash_report (errand_consumers E) run msg err w1 = (w', Inr ())"
    "ended_once (rn_id run) w w'"
proof -
  have "crash_report (errand_consumers E) run msg err w1 =
     (save_terminal (rn_id run) ''failed'' (Some err)
        (log_effect (FxCard (completion_card (rn_household run) (rn_title run)
           [(''status'', PStr ''failed''), (''message'', PStr msg)] (rn_user run))) w1), Inr ())"
    by (simp add: crash_report_def run_catch run_bind emit_complete [OF assms(2)] run_modify)
  from that [OF this ended_unsettled [OF assms(1) ended_failed]] show ?thesis .
qed

lemma run_result_fields:
  assumes "aggregate_and_compose E goal rs w = (w', Inr res)"
  obtains m where "short_message res = Inr m" "ended (terminal_state res)"
proof -
  from aggregate_and_compose_result [OF assms] obtain msg where
    "dget res ''message'' = PStr msg" "dget res ''status'' = PStr (aggregate_status (visible_outcomes rs))" by blast
  then have "\<exists>m. short_message res = Inr m" "ended (terminal_state res)"
    using terminal_state_cases [of res] by (auto simp: short_message_def por_def ended_def)
  with that show ?thesis by blast
qed

lemma finish_settles:
  assumes "aggregate_and_compose E goal rs w1 = (w2, Inr res)" "unsettled (rn_id run) w w2" "rn_kind run = ''errand''"
    "\<And>m. short_message res = Inr m \<Longrightarrow> \<exists>e. err = Inr e"
  obtains w' where "bind (emit_progress (errand_consumers E) run (complete_event res)) (\<lambda>_.
      bind (lift err) (\<lambda>e. modify (save_terminal (rn_id run) (terminal_state res) e))) w2 = (w', Inr ())"
    "ended_once (rn_id run) w w'"
proof -
  from run_result_fields [OF assms(1)] assms(4) obtain e where e: "err = Inr e" "ended (terminal_state res)" by blast
  with ended_unsettled [OF assms(2) e(2)] show ?thesis
    by (intro that) (simp_all add: run_bind emit_complete [OF assms(3)] run_modify run_lift)
qed

subsection \<open>The drive\<close>

definition settles :: "workflow_run \<Rightarrow> pydict list \<Rightarrow> world \<Rightarrow> world \<times> (exc + unit) \<Rightarrow> bool" where
  "settles run prior w out \<longleftrightarrow>
     (case snd out of
        Inr _ \<Rightarrow> settled (rn_id run) (rn_cursor run) prior w (fst out)
      | Inl _ \<Rightarrow> unsettled (rn_id run) w (fst out))"

lemma parked_settled:
  assumes "quiet_frozen w w1" "cursor < c" "rs = prior @ new" "k \<in> {''phone_call'', ''timer'', ''approval''}"
  shows "settled i cursor prior w (save_waiting i c rs k t w1)"
proof -
  have "stepped i (\<lambda>r r'. further cursor prior r') w (save_waiting i c rs k t w1)"
    unfolding stepped_def
  proof (intro conjI exI [of _ "park c rs k t"] allI)
    show "further cursor prior (park c rs k t r)" for r
      using assms(2-4) by (auto simp: further_def park_def)
  qed (use assms(1) in \<open>simp_all add: save_waiting_def upd_wf_def quiet_frozen_def frozen_def\<close>)
  with assms(1) show ?thesis by (simp add: settled_def quiet_frozen_def)
qed

lemma settled_tasks: "settled i c p w w' \<Longrightarrow> settled i c p w (w'\<lparr>w_tasks := T\<rparr>)"
  unfolding settled_def ended_once_def by (auto intro: stepped_tasks)

lemma parked_unsettled:
  assumes "quiet_frozen w w1"
  shows "unsettled i w (save_waiting i c rs k t w1)"
  unfolding unsettled_def stepped_def
  using assms by (auto simp: save_waiting_def upd_wf_def quiet_frozen_def frozen_def reports_def
      intro!: exI [of _ "park c rs k t"])

lemma replan_event_type: "replan_event run i = Inr ev \<Longrightarrow> pe_type ev = ''needs_a_tap''"
  by (auto simp: replan_event_def rbind_Inr_iff)

lemma suspended_settles:
  assumes "quiet_frozen w w1" "rn_kind run = ''errand''" "rn_cursor run < su_cursor s"
    "su_results s = prior @ new" "su_kind s \<in> {''phone_call'', ''timer'', ''approval''}"
  shows "settles run prior w
     (bind (modify (save_waiting (rn_id run) (su_cursor s) (su_results s) (su_kind s) (su_wake s))) (\<lambda>_.
         if su_kind s = ''approval'' then
           bind (lift (replan_event run (su_cursor s - 1))) (emit_progress (errand_consumers E) run)
         else ret ()) w1)"
proof -
  let ?w2 = "save_waiting (rn_id run) (su_cursor s) (su_results s) (su_kind s) (su_wake s) w1"
  note st = parked_settled [OF assms(1,3,4,5), of "rn_id run" "su_wake s"]
  show ?thesis
  proof (cases "su_kind s = ''approval''")
    case False
    with st show ?thesis by (simp add: settles_def run_bind run_modify run_ret)
  next
    case True
    show ?thesis
    proof (cases "replan_event run (su_cursor s - 1)")
      case (Inl e)
      with True parked_unsettled [OF assms(1)] show ?thesis
        by (simp add: settles_def run_bind run_modify run_lift)
    next
      case (Inr ev)
      from emit_needs_a_tap [OF assms(2) replan_event_type [OF Inr]] obtain T where
        "emit_progress (errand_consumers E) run ev ?w2 = (?w2\<lparr>w_tasks := T\<rparr>, Inr ())" by blast
      with True Inr settled_tasks [OF st] show ?thesis
        by (simp add: settles_def run_bind run_modify run_lift)
    qed
  qed
qed

lemma drive_settles:
  assumes "rn_kind run = ''errand''"
  shows "settles run prior w (drive_run (errand_consumers E) run (errand_consumer E) prior w)"
proof (cases "errand_run_fn E run prior w")
  case (Pair w1 r)
  note q = run_fn_frozen [OF Pair]
  have c: "cs_run (errand_consumer E) = errand_run_fn E" by (simp add: errand_consumer_def)
  show ?thesis
  proof (cases r)
    case (Inl e)
    with Pair unsettled_quiet [OF q] show ?thesis by (simp add: settles_def drive_run_def run_bind c)
  next
    case (Inr x)
    show ?thesis
    proof (cases x)
      case (Inr s)
      with Pair \<open>r = Inr x\<close> suspend_progress [of E] obtain new where n: "rn_cursor run < su_cursor s"
        "su_results s = prior @ new" "su_kind s \<in> {''phone_call'', ''timer'', ''approval''}"
        unfolding errand_run_fn_def by blast
      from suspended_settles [OF q assms n, of E] Pair \<open>r = Inr x\<close> Inr show ?thesis
        unfolding drive_run_def c run_bind [of "errand_run_fn E run prior"] by simp
    next
      case (Inl res)
      with Pair \<open>r = Inr x\<close> obtain rs w0 where a: "aggregate_and_compose E (rn_goal run) rs w0 = (w1, Inr res)"
        unfolding errand_run_fn_def by (auto elim: execute_errand_loop)
      let ?err = "if dget res ''status'' = PStr ''success'' then Inr None
                     else rbind (short_message res) (\<lambda>m. Inr (Some m))"
      obtain w' where "bind (emit_progress (errand_consumers E) run (complete_event res)) (\<lambda>_.
          bind (lift ?err) (\<lambda>e. modify (save_terminal (rn_id run) (terminal_state res) e))) w1 = (w', Inr ())"
        "ended_once (rn_id run) w w'"
        by (rule finish_settles [OF a unsettled_quiet [OF q] assms, where err = ?err]) auto
      with Pair \<open>r = Inr x\<close> Inl show ?thesis
        unfolding drive_run_def c run_bind [of "errand_run_fn E run prior"] by (simp add: settles_def ended_settled)
    qed
  qed
qed

lemma drive_guarded:
  assumes "rn_kind run = ''errand''" "settles run prior w (m w)"
  obtains w' where "catch (bind m (\<lambda>_. ret True))
      (\<lambda>e. bind (crash_report (errand_consumers E) run msg err) (\<lambda>_. ret True)) w = (w', Inr True)"
    "settled (rn_id run) (rn_cursor run) prior w w'"
proof (cases "m w")
  case (Pair w1 r)
  show ?thesis
  proof (cases r)
    case (Inr x)
    with Pair assms(2) show ?thesis by (intro that [of w1]) (simp_all add: settles_def io_simps)
  next
    case (Inl e)
    with Pair assms(2) have "unsettled (rn_id run) w w1" by (simp add: settles_def)
    from crash_settles [OF this assms(1)] obtain w2 where
      "crash_report (errand_consumers E) run msg err w1 = (w2, Inr ())" "ended_once (rn_id run) w w2"
      by blast
    with Pair Inl show ?thesis by (intro that [of w2]) (simp_all add: io_simps ended_settled)
  qed
qed

lemma run_workflow_settled:
  assumes "find_wf i w = Some r" "wf_kind r = ''errand''"
  obtains w' where "run_workflow (errand_consumers E) i w = (w', Inr True)"
    "settled i (wf_cursor r) (wf_results r) w w'"
proof -
  let ?run = "run_of r"
  have i: "wf_id r = i" using assms(1) by (rule find_wf_id)
  from assms(2) have k: "rn_kind ?run = ''errand''" by simp
  from drive_guarded [where m = "drive_run (errand_consumers E) ?run (errand_consumer E) (wf_results r)" and w = w
      and prior = "wf_results r", OF k drive_settles [OF k], of E] obtain w' where
    "catch (bind (drive_run (errand_consumers E) ?run (errand_consumer E) (wf_results r)) (\<lambda>_. ret True))
      (\<lambda>e. bind (crash_report (errand_consumers E) ?run ''The workflow couldn't run.'' ''run crashed'') (\<lambda>_. ret True)) w
      = (w', Inr True)" "settled i (wf_cursor r) (wf_results r) w w'" by (auto simp: i)
  with assms k show ?thesis
    by (intro that [of w']) (simp_all add: run_workflow_def run_bind run_gets load_run_def)
qed

subsection \<open>What a settled run looks like\<close>

lemma stepped_find:
  assumes "stepped i Q w w'" "find_wf i w = Some r"
  shows "(\<exists>r'. find_wf i w' = Some r' \<and> same_errand r r' \<and> Q r r') \<and>
    (\<forall>j. j = i \<or> find_wf j w' = find_wf j w) \<and> w_plans w' = w_plans w"
proof -
  from assms(1) obtain f where f: "w_plans w' = w_plans w"
    "w_workflows w' = upd_where (\<lambda>r. wf_id r = i) f (w_workflows w)" "\<And>r. same_errand r (f r)" "\<And>r. Q r (f r)"
    unfolding stepped_def by blast
  have "find_wf j w' = (if j = i then map_option f (find_wf j w) else find_wf j w)" for j
    using find_upd_where_key [of wf_id f j i "w_workflows w"] same_errand_id [OF f(3)]
    by (simp add: find_wf_def f(2))
  with f assms(2) show ?thesis by simp
qed

definition settled_row :: "string \<Rightarrow> int \<Rightarrow> pydict list \<Rightarrow> workflow \<Rightarrow> world \<Rightarrow> world \<Rightarrow> bool" where
  "settled_row i cursor prior r w w' \<longleftrightarrow>
     (\<exists>r'. find_wf i w' = Some r' \<and> same_errand r r' \<and>
       (further cursor prior r' \<and> reports w' = reports w \<or> ended (wf_state r') \<and> reports w' = Suc (reports w))) \<and>
     (\<forall>j. j = i \<or> find_wf j w' = find_wf j w) \<and> w_plans w' = w_plans w"

definition ended_row :: "string \<Rightarrow> workflow \<Rightarrow> world \<Rightarrow> world \<Rightarrow> bool" where
  "ended_row i r w w' \<longleftrightarrow>
     (\<exists>r'. find_wf i w' = Some r' \<and> same_errand r r' \<and> ended (wf_state r') \<and> reports w' = Suc (reports w)) \<and>
     (\<forall>j. j = i \<or> find_wf j w' = find_wf j w) \<and> w_plans w' = w_plans w"

lemma ended_find: "ended_once i w w' \<Longrightarrow> find_wf i w = Some r \<Longrightarrow> ended_row i r w w'"
  unfolding ended_once_def ended_row_def using stepped_find by blast

lemma settled_find: "settled i c p w w' \<Longrightarrow> find_wf i w = Some r \<Longrightarrow> settled_row i c p r w w'"
  unfolding settled_def ended_once_def settled_row_def using stepped_find by blast

subsection \<open>Signals\<close>

text \<open>A signal is accepted by the one waiting run whose cursor is right after the named step.\<close>

definition accepts :: "int \<Rightarrow> workflow \<Rightarrow> bool" where
  "accepts step r \<longleftrightarrow> wf_state r = ''waiting'' \<and> wf_cursor r = step + 1"

lemma deliver_ignored:
  "\<not> (\<exists>r. find_wf i w = Some r \<and> accepts step r) \<Longrightarrow> deliver_signal cons i step k out w = (w, Inr False)"
  by (auto simp: deliver_signal_def io_simps load_run_def accepts_def split: option.splits)

text \<open>A signal that is read as a failure, or cannot be read, ends the run.\<close>

lemma failed_signal_settles:
  assumes "rn_kind run = ''errand''"
    "\<And>d. interpret_signal h out (rn_steps run) step = Inr d \<Longrightarrow> \<not> truthy (dget d ''success'')"
  shows "(\<exists>w'. resume_claimed (errand_consumers E) run (errand_consumer E) h step out w = (w', Inr ()) \<and>
       ended_once (rn_id run) w w') \<or>
     (\<exists>w' e. resume_claimed (errand_consumers E) run (errand_consumer E) h step out w = (w', Inl e) \<and>
       unsettled (rn_id run) w w')"
proof (cases "interpret_signal h out (rn_steps run) step")
  case (Inl e)
  then show ?thesis by (simp add: resume_claimed_def run_bind run_lift unsettled_quiet)
next
  case (Inr d)
  from assms(2) [OF Inr] have False: "\<not> truthy (dget d ''success'')" .
  let ?rs = "rn_results run @ [d]"
  from noraise_aggregate obtain w1 res where a: "aggregate_and_compose E (rn_goal run) ?rs w = (w1, Inr res)"
    by (rule noraiseE)
  let ?err = "rbind (short_message res) (\<lambda>m. Inr (Some m))"
  obtain w' where "bind (emit_progress (errand_consumers E) run (complete_event res)) (\<lambda>_.
        bind (lift ?err) (\<lambda>e. modify (save_terminal (rn_id run) (terminal_state res) e))) w1 = (w', Inr ())"
      "ended_once (rn_id run) w w'"
    by (rule finish_settles [OF a unsettled_quiet [OF finalize_frozen [OF a]] assms(1), where err = ?err]) auto
  with a Inr False show ?thesis
    by (cases "short_message res") (auto simp: resume_claimed_def errand_consumer_def run_bind run_lift
        emit_complete [OF assms(1)])
qed

lemma resume_settles:
  assumes "rn_kind run = ''errand''"
  shows "\<exists>d. settles run (rn_results run @ [d]) w
     (resume_claimed (errand_consumers E) run (errand_consumer E) h step out w)"
proof (cases "\<exists>d. interpret_signal h out (rn_steps run) step = Inr d \<and> truthy (dget d ''success'')")
  case True
  then obtain d where "interpret_signal h out (rn_steps run) step = Inr d" "truthy (dget d ''success'')" by blast
  with drive_settles [OF assms, of "rn_results run @ [d]" w E] show ?thesis
    by (intro exI [of _ d]) (simp add: resume_claimed_def run_bind run_lift)
next
  case False
  with failed_signal_settles [OF assms, of h out step E w] show ?thesis
    by (auto simp: settles_def ended_settled)
qed

lemma settled_claim:
  assumes "settled i c p (upd_wf i (set_wf_state st) w) w'"
  shows "settled i c p w w'"
proof -
  have r: "reports (upd_wf i (set_wf_state st) w) = reports w" by (simp add: reports_def)
  have "stepped i Q w w'" if s: "stepped i Q (upd_wf i (set_wf_state st) w) w'" and q: "\<And>r. Q (set_wf_state st r) = Q r" for Q
  proof -
    from s obtain f where f: "w_plans w' = w_plans w" "w_now w' = w_now w"
      "w_workflows w' = upd_where (\<lambda>r. wf_id r = i) f (upd_where (\<lambda>r. wf_id r = i) (set_wf_state st) (w_workflows w))"
      "\<And>r. same_errand r (f r)" "\<And>r. Q r (f r)"
      unfolding stepped_def by (auto simp: upd_wf_def)
    from f(4,5) [of "set_wf_state st _"] have "same_errand r (f (set_wf_state st r))" "Q r (f (set_wf_state st r))" for r
      using q by simp_all
    with f(1-3) show ?thesis
      unfolding stepped_def by (intro conjI exI [of _ "f \<circ> set_wf_state st"]) (simp_all add: upd_where_upd_where)
  qed
  from this [of "\<lambda>r r'. further c p r'"] this [of "\<lambda>r r'. ended (wf_state r')"] assms r
  show ?thesis unfolding settled_def ended_once_def by auto
qed

lemma ended_claim:
  assumes "ended_once i (upd_wf i (set_wf_state st) w) w'"
  shows "ended_once i w w'"
proof -
  have s: "settled i c p w w'" for c p by (rule settled_claim, rule ended_settled, rule assms)
  have "reports w' = Suc (reports w)" using assms by (simp add: ended_once_def reports_def)
  with s show ?thesis by (auto simp: settled_def)
qed

lemma deferred_builtin: "k \<in> {''phone_call'', ''timer'', ''approval''} \<Longrightarrow> \<exists>h. deferred_handler builtin_handlers k = Some h"
  by (auto simp: deferred_handler_def builtin_handlers_def register_handler_def)

lemma deliver_settled:
  assumes "find_wf i w = Some r" "wf_kind r = ''errand''" "accepts step r" "deferred_handler builtin_handlers k = Some h"
  obtains w' d where "deliver_signal (errand_consumers E) i step k out w = (w', Inr True)"
    "settled i (step + 1) (wf_results r @ [d]) w w'"
proof -
  let ?run = "run_of r" and ?w1 = "upd_wf i (set_wf_state ''running'') w"
  have i: "wf_id r = i" using assms(1) by (rule find_wf_id)
  from assms(2) have k: "rn_kind ?run = ''errand''" by simp
  from assms(3) have a: "wf_state r = ''waiting''" "wf_cursor r = step + 1" by (simp_all add: accepts_def)
  let ?m = "resume_claimed (errand_consumers E) ?run (errand_consumer E) h step out"
  from resume_settles [OF k, of ?w1 E h step out] obtain d where
    s: "settles ?run (wf_results r @ [d]) ?w1 (?m ?w1)" by auto
  from drive_guarded [where m = ?m, OF k s, of E] obtain w' where
    "catch (bind ?m (\<lambda>_. ret True))
      (\<lambda>e. bind (crash_report (errand_consumers E) ?run ''The workflow hit a snag after the last step.'' ''resume crashed'')
         (\<lambda>_. ret True)) ?w1 = (w', Inr True)" "settled i (step + 1) (wf_results r @ [d]) ?w1 w'"
    by (auto simp: i a)
  with assms k a show ?thesis
    by (intro that [of w' d])
      (simp_all add: deliver_signal_def run_bind run_gets load_run_def claim_running_def settled_claim)
qed

lemma deliver_read:
  assumes "find_wf i w = Some r" "wf_kind r = ''errand''" "accepts step r" "deferred_handler builtin_handlers k = Some h"
    "interpret_signal h out (wf_steps r) step = Inr d" "truthy (dget d ''success'')"
  obtains w' where "deliver_signal (errand_consumers E) i step k out w = (w', Inr True)"
    "settled i (step + 1) (wf_results r @ [d]) w w'"
proof -
  let ?run = "run_of r" and ?w1 = "upd_wf i (set_wf_state ''running'') w"
  have i: "wf_id r = i" using assms(1) by (rule find_wf_id)
  from assms(2) have k: "rn_kind ?run = ''errand''" by simp
  from assms(3) have a: "wf_state r = ''waiting''" "wf_cursor r = step + 1" by (simp_all add: accepts_def)
  let ?m = "resume_claimed (errand_consumers E) ?run (errand_consumer E) h step out"
  have s: "settles ?run (wf_results r @ [d]) ?w1 (?m ?w1)"
    using drive_settles [OF k, of "wf_results r @ [d]" ?w1 E] assms(5,6) by (simp add: resume_claimed_def run_bind run_lift)
  from drive_guarded [where m = ?m, OF k s, of E] obtain w' where
    "catch (bind ?m (\<lambda>_. ret True))
      (\<lambda>e. bind (crash_report (errand_consumers E) ?run ''The workflow hit a snag after the last step.'' ''resume crashed'')
         (\<lambda>_. ret True)) ?w1 = (w', Inr True)" "settled i (step + 1) (wf_results r @ [d]) ?w1 w'"
    by (auto simp: i a)
  with assms k a show ?thesis
    by (intro that [of w'])
      (simp_all add: deliver_signal_def run_bind run_gets load_run_def claim_running_def settled_claim)
qed

lemma drive_guarded_end:
  assumes "rn_kind run = ''errand''"
    "(\<exists>w'. m w = (w', Inr ()) \<and> ended_once (rn_id run) w w') \<or> (\<exists>w' e. m w = (w', Inl e) \<and> unsettled (rn_id run) w w')"
  obtains w' where "catch (bind m (\<lambda>_. ret True))
      (\<lambda>e. bind (crash_report (errand_consumers E) run msg err) (\<lambda>_. ret True)) w = (w', Inr True)"
    "ended_once (rn_id run) w w'"
proof (cases "\<exists>w1. m w = (w1, Inr ()) \<and> ended_once (rn_id run) w w1")
  case True
  then obtain w1 where "m w = (w1, Inr ())" "ended_once (rn_id run) w w1" by blast
  then show ?thesis by (intro that [of w1]) (simp_all add: io_simps)
next
  case False
  with assms(2) obtain w1 e where e: "m w = (w1, Inl e)" "unsettled (rn_id run) w w1" by blast
  from crash_settles [OF e(2) assms(1)] obtain w2 where
    "crash_report (errand_consumers E) run msg err w1 = (w2, Inr ())" "ended_once (rn_id run) w w2" by blast
  with e(1) show ?thesis by (intro that [of w2]) (simp_all add: io_simps)
qed

lemma deliver_ended:
  assumes "find_wf i w = Some r" "wf_kind r = ''errand''" "accepts step r" "deferred_handler builtin_handlers k = Some h"
    "\<And>d. interpret_signal h out (wf_steps r) step = Inr d \<Longrightarrow> \<not> truthy (dget d ''success'')"
  obtains w' where "deliver_signal (errand_consumers E) i step k out w = (w', Inr True)" "ended_once i w w'"
proof -
  let ?run = "run_of r" and ?w1 = "upd_wf i (set_wf_state ''running'') w"
  have i: "wf_id r = i" using assms(1) by (rule find_wf_id)
  from assms(2) have k: "rn_kind ?run = ''errand''" by simp
  from assms(3) have a: "wf_state r = ''waiting''" "wf_cursor r = step + 1" by (simp_all add: accepts_def)
  let ?m = "resume_claimed (errand_consumers E) ?run (errand_consumer E) h step out"
  have e: "(\<exists>w'. ?m ?w1 = (w', Inr ()) \<and> ended_once (rn_id ?run) ?w1 w') \<or>
      (\<exists>w' e. ?m ?w1 = (w', Inl e) \<and> unsettled (rn_id ?run) ?w1 w')"
    by (rule failed_signal_settles [OF k]) (simp add: assms(5))
  from drive_guarded_end [where m = ?m, OF k e, of E] obtain w' where
    "catch (bind ?m (\<lambda>_. ret True))
      (\<lambda>e. bind (crash_report (errand_consumers E) ?run ''The workflow hit a snag after the last step.'' ''resume crashed'')
         (\<lambda>_. ret True)) ?w1 = (w', Inr True)" "ended_once i ?w1 w'"
    by (auto simp: i)
  with assms k a show ?thesis
    by (intro that [of w'])
      (simp_all add: deliver_signal_def run_bind run_gets load_run_def claim_running_def ended_claim)
qed

lemma settled_rejects: "settled_row i (step + 1) p r w w' \<Longrightarrow> \<not> (\<exists>r'. find_wf i w' = Some r' \<and> accepts step r')"
  by (auto simp: settled_row_def further_def accepts_def dest: ended_not_open)

subsection \<open>Properties\<close>

text \<open>
  C3. Starting or recovering a run never raises and always settles it: afterwards the run is either
  parked with a later cursor, all earlier outcomes and a known trigger, and no completion card went
  out, or it is done, partial or failed and exactly one completion card went out. The plan of the
  run, every other run and every errand plan are as before.
\<close>

theorem run_workflow_settles:
  assumes "find_wf i w = Some r" "wf_kind r = ''errand''"
  shows "\<exists>w'. run_workflow (errand_consumers E) i w = (w', Inr True) \<and>
    settled_row i (wf_cursor r) (wf_results r) r w w'"
proof -
  from assms obtain w' where "run_workflow (errand_consumers E) i w = (w', Inr True)"
    "settled i (wf_cursor r) (wf_results r) w w'" by (rule run_workflow_settled)
  with settled_find [OF this(2) assms(1)] show ?thesis by blast
qed

definition sample_run :: "string \<Rightarrow> string \<Rightarrow> int \<Rightarrow> workflow" where
  "sample_run i st cursor =
     \<lparr>wf_id = i, wf_kind = ''errand'', wf_household = ''h1'', wf_user = Some 7, wf_node = Some ''n1'',
      wf_goal = ''Ask'', wf_title = Some ''Ask the cafe'', wf_steps = sample_steps, wf_cursor = cursor, wf_results = [],
      wf_revision = 1, wf_inbox = None, wf_state = st, wf_waiting_on = None, wf_wake_at = None, wf_error = None\<rparr>"

definition sample_runs :: "workflow list \<Rightarrow> world" where
  "sample_runs rows = (sample_world 0)\<lparr>w_workflows := rows\<rparr>"

lemma sample_run_fields [simp]:
  "wf_id (sample_run i st c) = i" "wf_kind (sample_run i st c) = ''errand''" "wf_state (sample_run i st c) = st"
  "wf_cursor (sample_run i st c) = c" "wf_results (sample_run i st c) = []"
  by (simp_all add: sample_run_def)

lemma find_sample_run: "find_wf i (sample_runs (sample_run i st c # rs)) = Some (sample_run i st c)"
  by (simp add: find_wf_def sample_runs_def)

theorem run_workflow_settles_witness:
  "\<exists>w'. run_workflow (errand_consumers sample_env) ''wf_9'' (sample_runs [sample_run ''wf_9'' ''running'' 0]) = (w', Inr True) \<and>
    settled_row ''wf_9'' 0 [] (sample_run ''wf_9'' ''running'' 0) (sample_runs [sample_run ''wf_9'' ''running'' 0]) w'"
  using run_workflow_settles [OF find_sample_run [of "''wf_9''" "''running''" 0 "[]"] sample_run_fields(2),
      where E = sample_env]
  unfolding sample_run_fields .

text \<open>
  C5. A signal for the step a run waits on, of any of the three kinds, is consumed without raising and
  settles the run by what its handler makes of it. Read as a success, the outcome is appended behind the
  earlier ones and the drive goes on from the next step: the run is parked further along with these
  outcomes kept and no completion card, or lands terminal with exactly one. Read as a failure, or not
  readable, the run lands terminal with exactly one completion card. Other runs and all plans are as before.
\<close>

theorem deliver_signal_settles:
  assumes "find_wf i w = Some r" "wf_kind r = ''errand''" "wf_state r = ''waiting''" "wf_cursor r = step + 1"
    "k \<in> {''phone_call'', ''timer'', ''approval''}"
  shows "\<exists>h w'. deferred_handler builtin_handlers k = Some h \<and>
    deliver_signal (errand_consumers E) i step k out w = (w', Inr True) \<and>
    (case interpret_signal h out (wf_steps r) step of
       Inr d \<Rightarrow> if truthy (dget d ''success'') then settled_row i (step + 1) (wf_results r @ [d]) r w w' else ended_row i r w w'
     | Inl e \<Rightarrow> ended_row i r w w')"
proof -
  from deferred_builtin [OF assms(5)] obtain h where h: "deferred_handler builtin_handlers k = Some h" by blast
  from assms(3,4) have a: "accepts step r" by (simp add: accepts_def)
  show ?thesis
  proof (cases "\<exists>d. interpret_signal h out (wf_steps r) step = Inr d \<and> truthy (dget d ''success'')")
    case True
    then obtain d where d: "interpret_signal h out (wf_steps r) step = Inr d" "truthy (dget d ''success'')" by blast
    obtain w' where w': "deliver_signal (errand_consumers E) i step k out w = (w', Inr True)"
      "settled i (step + 1) (wf_results r @ [d]) w w'" by (rule deliver_read [OF assms(1,2) a h d])
    from settled_find [OF w'(2) assms(1)] h w'(1) d show ?thesis by (intro exI [of _ h] exI [of _ w']) simp
  next
    case False
    obtain w' where w': "deliver_signal (errand_consumers E) i step k out w = (w', Inr True)" "ended_once i w w'"
      by (rule deliver_ended [OF assms(1,2) a h, of out E]) (use False in blast)
    from ended_find [OF w'(2) assms(1)] h w'(1) False show ?thesis
      by (intro exI [of _ h] exI [of _ w']) (simp split: sum.split)
  qed
qed

theorem deliver_signal_settles_witness:
  "\<exists>h w'. deferred_handler builtin_handlers ''phone_call'' = Some h \<and>
     deliver_signal (errand_consumers sample_env) ''wf_9'' 1 ''phone_call'' (marker ''done'')
       (sample_runs [sample_run ''wf_9'' ''waiting'' 2]) = (w', Inr True) \<and>
     (\<exists>r'. find_wf ''wf_9'' w' = Some r' \<and> wf_state r' \<noteq> ''running'')"
proof -
  obtain h w' where h: "deferred_handler builtin_handlers ''phone_call'' = Some h"
    "deliver_signal (errand_consumers sample_env) ''wf_9'' 1 ''phone_call'' (marker ''done'')
       (sample_runs [sample_run ''wf_9'' ''waiting'' 2]) = (w', Inr True)"
    "case interpret_signal h (marker ''done'') (wf_steps (sample_run ''wf_9'' ''waiting'' 2)) 1 of
       Inr d \<Rightarrow> if truthy (dget d ''success'') then settled_row ''wf_9'' (1 + 1) (wf_results (sample_run ''wf_9'' ''waiting'' 2) @ [d]) (sample_run ''wf_9'' ''waiting'' 2)
           (sample_runs [sample_run ''wf_9'' ''waiting'' 2]) w'
         else ended_row ''wf_9'' (sample_run ''wf_9'' ''waiting'' 2) (sample_runs [sample_run ''wf_9'' ''waiting'' 2]) w'
     | Inl e \<Rightarrow> ended_row ''wf_9'' (sample_run ''wf_9'' ''waiting'' 2) (sample_runs [sample_run ''wf_9'' ''waiting'' 2]) w'"
    using deliver_signal_settles [OF find_sample_run [of "''wf_9''" "''waiting''" 2 "[]"] sample_run_fields(2,3),
        where E = sample_env and step = 1 and k = "''phone_call''" and out = "marker ''done''"] by fastforce
  from h(3) have "\<exists>r'. find_wf ''wf_9'' w' = Some r' \<and> wf_state r' \<noteq> ''running''"
    by (auto simp: settled_row_def ended_row_def further_def dest: ended_not_open split: sum.splits if_splits)
  with h show ?thesis by blast
qed

text \<open>
  A signal is consumed at most once: after a delivery that was accepted, any further signal for
  the same step of the same run, of whatever kind, changes nothing and reports that it was not used.
  The poller, the call event and the timer sweep may therefore all deliver the same signal.
\<close>

lemma deliver_signal_once:
  assumes "deliver_signal (errand_consumers E) i step k out w = (w1, Inr True)"
  shows "deliver_signal (errand_consumers E) i step k' out' w1 = (w1, Inr False)"
proof (cases "\<exists>r. find_wf i w = Some r \<and> accepts step r")
  case False
  with deliver_ignored [OF this] assms show ?thesis by simp
next
  case True
  then obtain r where r: "find_wf i w = Some r" "accepts step r" by blast
  from assms r have "\<exists>c. errand_consumers E (wf_kind r) = Some c" "\<exists>h. deferred_handler builtin_handlers k = Some h"
    by (auto simp: deliver_signal_def io_simps load_run_def accepts_def claim_running_def split: option.splits)
  then obtain h where h: "wf_kind r = ''errand''" "deferred_handler builtin_handlers k = Some h"
    by (auto simp: errand_consumers_def split: if_splits)
  obtain w' d where "deliver_signal (errand_consumers E) i step k out w = (w', Inr True)"
    "settled i (step + 1) (wf_results r @ [d]) w w'" by (rule deliver_settled [OF r(1) h(1) r(2) h(2)])
  with assms have "settled_row i (step + 1) (wf_results r @ [d]) r w w1" using settled_find [OF _ r(1)] by simp
  from deliver_ignored [OF settled_rejects [OF this]] show ?thesis .
qed

lemma deliver_signal_once_witness:
  "let w1 = fst (deliver_signal (errand_consumers sample_env) ''wf_9'' 1 ''phone_call'' (marker ''done'')
       (sample_runs [sample_run ''wf_9'' ''waiting'' 2])) in
   deliver_signal (errand_consumers sample_env) ''wf_9'' 1 ''timer'' (marker ''fired'') w1 = (w1, Inr False)"
proof -
  let ?o = "deliver_signal (errand_consumers sample_env) ''wf_9'' 1 ''phone_call'' (marker ''done'')
       (sample_runs [sample_run ''wf_9'' ''waiting'' 2])"
  obtain h where h: "deferred_handler builtin_handlers ''phone_call'' = Some h" using deferred_builtin by blast
  have "accepts 1 (sample_run ''wf_9'' ''waiting'' 2)" by (simp add: accepts_def)
  from deliver_settled [OF find_sample_run sample_run_fields(2) this h] have "snd ?o = Inr True" by (metis snd_conv)
  then have "?o = (fst ?o, Inr True)" by (metis prod.collapse)
  from deliver_signal_once [OF this] show ?thesis by (simp only: Let_def)
qed

text \<open>
  A run that is not waiting (running, finished, failed or cancelled), or that waits on another
  step, ignores a signal altogether; so does an unknown run.
\<close>

lemma deliver_signal_stale:
  assumes "case find_wf i w of None \<Rightarrow> True | Some r \<Rightarrow> wf_state r \<noteq> ''waiting'' \<or> wf_cursor r \<noteq> step + 1"
  shows "deliver_signal cons i step k out w = (w, Inr False)"
  using assms by (intro deliver_ignored) (auto simp: accepts_def)

lemma deliver_signal_stale_witness:
  "deliver_signal (errand_consumers sample_env) ''wf_9'' 1 ''phone_call'' (marker ''done'')
       (sample_runs [sample_run ''wf_9'' ''cancelled'' 2]) = (sample_runs [sample_run ''wf_9'' ''cancelled'' 2], Inr False)"
  by (rule deliver_signal_stale) (simp add: find_sample_run)

end
