(* ===== verification/Errand_Taps.thy ===== *)
theory Errand_Taps
  imports Run_Drives
begin

section \<open>Taps on plan and checkpoint cards\<close>

text \<open>
  What the six callbacks of the errand service promise: a run starts only from a current draft of
  the tapping household and only once, an approved change is spliced in only once, and a stopped or
  discarded errand stays stopped.
\<close>

lemma find_upd_where_keyed:
  "(\<And>r. Q (f r) = Q r) \<Longrightarrow> find Q (upd_where p f rows) = map_option (\<lambda>r. if p r then f r else r) (find Q rows)"
  by (induction rows) auto

lemma find_append_iff: "find Q (xs @ ys) = (case find Q xs of None \<Rightarrow> find Q ys | Some x \<Rightarrow> Some x)"
  by (induction xs) auto

lemma find_key_unique: "distinct (map key rows) \<Longrightarrow> r \<in> set rows \<Longrightarrow> find (\<lambda>x. key x = key r) rows = Some r"
  by (induction rows) (auto simp: image_iff)

subsection \<open>Approving a plan\<close>

definition approvable :: "cb_ctx \<Rightarrow> errand_plan \<Rightarrow> world \<Rightarrow> bool" where
  "approvable ctx row w \<longleftrightarrow>
     truthy (dget (cx_data ctx) ''plan_id'') \<and>
     find_plan_by (dget (cx_data ctx) ''plan_id'') (cx_household ctx) w = Some row \<and>
     pl_state row = ''draft'' \<and> revisions_match (dget (cx_data ctx) ''revision'') (pl_revision row) \<and>
     pl_steps row \<noteq> []"

definition next_wf :: "world \<Rightarrow> string" where
  "next_wf w = ''wf_'' @ nat_str (w_seq w)"

definition launched_world :: "string \<Rightarrow> errand_plan \<Rightarrow> world \<Rightarrow> world" where
  "launched_world hh row w =
     upd_plan (pl_id row) (launch_plan (next_wf w) (w_now w))
       (w\<lparr>w_seq := Suc (w_seq w), w_workflows := w_workflows w @ [run_from_plan hh (next_wf w) row]\<rparr>)"

lemma run_approve:
  assumes "approvable ctx row w"
  shows "handle_approve_errand_plan E cons ctx w =
    bind (run_workflow cons (next_wf w)) (\<lambda>_. ret cb_ok) (launched_world (cx_household ctx) row w)"
  using assms unfolding approvable_def
  by (simp add: handle_approve_errand_plan_def run_bind run_gets run_modify insert_workflow_def Let_def
      launched_world_def next_wf_def)

lemma cb_ok_neq: "cb_ok \<noteq> cb_fail m" "cb_ok \<noteq> cb_inbox t s d" "cb_ok \<noteq> handled_card h s"
  "cb_fail m \<noteq> cb_ok" "cb_inbox t s d \<noteq> cb_ok" "handled_card h s \<noteq> cb_ok"
  by (simp_all add: cb_ok_def cb_fail_def cb_inbox_def handled_card_def)

lemma approve_refused:
  assumes "\<not> (\<exists>row. approvable ctx row w)"
  shows "\<exists>w' r. handle_approve_errand_plan E cons ctx w = (w', Inr r) \<and> r \<noteq> cb_ok \<and>
    w_workflows w' = w_workflows w \<and> w_log w' = w_log w"
  using assms unfolding approvable_def
  by (auto simp: handle_approve_errand_plan_def run_bind run_gets run_modify run_ret cb_ok_neq split: option.split)

text \<open>A drive, whatever row it finds, leaves the plans alone.\<close>

lemma run_workflow_plans: "w_plans (fst (run_workflow (errand_consumers E) i w)) = w_plans w"
proof (cases "find_wf i w")
  case None
  then show ?thesis by (simp add: run_workflow_def run_bind run_gets load_run_def run_ret)
next
  case (Some r)
  show ?thesis
  proof (cases "wf_kind r = ''errand''")
    case True
    from Some True obtain w' where "run_workflow (errand_consumers E) i w = (w', Inr True)"
      "settled i (wf_cursor r) (wf_results r) w w'" by (rule run_workflow_settled)
    with settled_find [OF this(2) Some] show ?thesis by (simp add: settled_row_def)
  next
    case False
    with Some show ?thesis
      by (simp add: run_workflow_def run_bind run_gets load_run_def run_ret run_modify errand_consumers_def
          save_terminal_def)
  qed
qed

lemma run_workflow_returns: "\<exists>b. snd (run_workflow (errand_consumers E) i w) = Inr b"
proof (cases "\<exists>r. find_wf i w = Some r \<and> wf_kind r = ''errand''")
  case True
  then obtain r where "find_wf i w = Some r" "wf_kind r = ''errand''" by blast
  then obtain w' where "run_workflow (errand_consumers E) i w = (w', Inr True)" by (rule run_workflow_settled)
  then show ?thesis by (intro exI [of _ True]) simp
next
  case False
  then show ?thesis
    by (auto simp: run_workflow_def run_bind run_gets load_run_def run_ret run_modify errand_consumers_def
        split: option.split)
qed

lemma find_plan_launched:
  assumes "find_plan_by pid hh w = Some row" "w_plans w' = w_plans (launched_world hh' row0 w)" "pl_id row0 = pl_id row"
  shows "find_plan_by pid hh w' = Some (launch_plan (next_wf w) (w_now w) row)"
proof -
  from assms(1) obtain s where s: "pid = PStr s" "find_plan s hh w = Some row"
    by (auto simp: find_plan_by_def split: pyval.splits)
  then have "pl_id row = s" using find_plan_id by blast
  moreover have "w_plans w' = upd_where (\<lambda>r. pl_id r = pl_id row) (launch_plan (next_wf w) (w_now w)) (w_plans w)"
    using assms(2,3) by (simp add: launched_world_def upd_plan_def)
  ultimately show ?thesis
    using s by (simp add: find_plan_by_def find_plan_def launch_plan_def find_upd_where_keyed)
qed

lemma approve_ok_launched:
  assumes "handle_approve_errand_plan E (errand_consumers E) ctx w = (w1, Inr cb_ok)"
  obtains row where "approvable ctx row w" "w_plans w1 = w_plans (launched_world (cx_household ctx) row w)"
    "w1 = fst (run_workflow (errand_consumers E) (next_wf w) (launched_world (cx_household ctx) row w))"
proof -
  have "\<exists>row. approvable ctx row w"
  proof (rule ccontr)
    assume "\<not> ?thesis"
    with approve_refused [OF this, of E "errand_consumers E"] assms show False by auto
  qed
  then obtain row where a: "approvable ctx row w" by blast
  let ?w = "launched_world (cx_household ctx) row w"
  have "w1 = fst (run_workflow (errand_consumers E) (next_wf w) ?w)"
    using assms run_approve [OF a, of E "errand_consumers E"] run_workflow_returns [of E "next_wf w" ?w]
    by (auto simp: run_bind run_ret split: prod.splits)
  with a that run_workflow_plans show ?thesis by simp
qed

text \<open>The key of the next run is not taken.\<close>

definition fresh_runs :: "world \<Rightarrow> bool" where
  "fresh_runs w \<longleftrightarrow> find_wf (next_wf w) w = None"

lemma find_wf_launched:
  assumes "fresh_runs w"
  shows "find_wf j (launched_world hh row w) =
    (if j = next_wf w then Some (run_from_plan hh (next_wf w) row) else find_wf j w)"
  using assms
  by (auto simp: fresh_runs_def find_wf_def launched_world_def upd_plan_def find_append_iff run_from_plan_def
      split: option.split)

lemma approve_launched:
  assumes "fresh_runs w" "approvable ctx row w"
  obtains w1 where "handle_approve_errand_plan E (errand_consumers E) ctx w = (w1, Inr cb_ok)"
    "find_plan_by (dget (cx_data ctx) ''plan_id'') (cx_household ctx) w1 = Some (launch_plan (next_wf w) (w_now w) row)"
    "settled_row (next_wf w) 0 [] (run_from_plan (cx_household ctx) (next_wf w) row)
       (launched_world (cx_household ctx) row w) w1"
proof -
  let ?w = "launched_world (cx_household ctx) row w" and ?r = "run_from_plan (cx_household ctx) (next_wf w) row"
  have f: "find_wf (next_wf w) ?w = Some ?r" by (simp add: find_wf_launched [OF assms(1)])
  have k: "wf_kind ?r = ''errand''" "wf_cursor ?r = 0" "wf_results ?r = []" by (simp_all add: run_from_plan_def)
  obtain w1 where r: "run_workflow (errand_consumers E) (next_wf w) ?w = (w1, Inr True)"
    "settled (next_wf w) 0 [] ?w w1" by (rule run_workflow_settled [OF f k(1), of E]) (simp add: k)
  from settled_find [OF r(2) f] have s: "settled_row (next_wf w) 0 [] ?r ?w w1" .
  have "handle_approve_errand_plan E (errand_consumers E) ctx w = (w1, Inr cb_ok)"
    by (simp add: run_approve [OF assms(2)] run_bind r(1) run_ret)
  moreover have "find_plan_by (dget (cx_data ctx) ''plan_id'') (cx_household ctx) w1 = Some (launch_plan (next_wf w) (w_now w) row)"
    using assms(2) s by (intro find_plan_launched [of _ _ _ _ _ _ row]) (simp_all add: approvable_def settled_row_def)
  ultimately show ?thesis using s by (rule that)
qed

text \<open>
  C10. A Run tap that is answered with success spends the plan: any later Run tap on the same plan by
  the household, with whatever revision, changes nothing and is told that the errand is launched.
\<close>

theorem approve_single_use:
  assumes "handle_approve_errand_plan E (errand_consumers E) ctx w = (w1, Inr cb_ok)"
    and "dget (cx_data ctx') ''plan_id'' = dget (cx_data ctx) ''plan_id''" and "cx_household ctx' = cx_household ctx"
  shows "handle_approve_errand_plan E cons ctx' w1 =
    (w1, Inr (handled_card (cx_household ctx) ''This errand is already launched.''))"
proof -
  from assms(1) obtain row where a: "approvable ctx row w" "w_plans w1 = w_plans (launched_world (cx_household ctx) row w)"
    by (rule approve_ok_launched)
  then have "find_plan_by (dget (cx_data ctx) ''plan_id'') (cx_household ctx) w1 = Some (launch_plan (next_wf w) (w_now w) row)"
    by (intro find_plan_launched [of _ _ _ _ _ _ row]) (simp_all add: approvable_def)
  with a(1) assms(2,3) show ?thesis
    by (simp add: handle_approve_errand_plan_def run_bind run_gets run_ret approvable_def launch_plan_def)
qed

text \<open>
  C4. A Run tap never raises, and it succeeds exactly when the plan it names is a draft of the tapping
  household with steps and not older than the card. Then it starts a run with the plan's steps, household
  and node, linked from the plan, which has settled, with one completion card iff it has ended.
  Otherwise the answer is not the success answer, no run is created or changed and nothing is sent.
\<close>

theorem approve_launches:
  assumes "fresh_runs w"
  shows "if \<exists>row. approvable ctx row w
    then \<exists>row w1. approvable ctx row w \<and> handle_approve_errand_plan E (errand_consumers E) ctx w = (w1, Inr cb_ok) \<and>
       find_plan_by (dget (cx_data ctx) ''plan_id'') (cx_household ctx) w1 = Some (launch_plan (next_wf w) (w_now w) row) \<and>
       settled_row (next_wf w) 0 [] (run_from_plan (cx_household ctx) (next_wf w) row)
         (launched_world (cx_household ctx) row w) w1
    else \<exists>w1 res. handle_approve_errand_plan E (errand_consumers E) ctx w = (w1, Inr res) \<and> res \<noteq> cb_ok \<and>
       w_workflows w1 = w_workflows w \<and> w_log w1 = w_log w"
proof (cases "\<exists>row. approvable ctx row w")
  case True
  then obtain row where a: "approvable ctx row w" by blast
  from assms this obtain w1 where "handle_approve_errand_plan E (errand_consumers E) ctx w = (w1, Inr cb_ok)"
    "find_plan_by (dget (cx_data ctx) ''plan_id'') (cx_household ctx) w1 = Some (launch_plan (next_wf w) (w_now w) row)"
    "settled_row (next_wf w) 0 [] (run_from_plan (cx_household ctx) (next_wf w) row)
       (launched_world (cx_household ctx) row w) w1" by (rule approve_launched)
  with a True show ?thesis by (simp only: if_True) blast
next
  case False
  with approve_refused [OF False, of E "errand_consumers E"] show ?thesis by (simp only: if_False)
qed

text \<open>A drafted plan and a tap on its card.\<close>

definition sample_plan :: errand_plan where
  "sample_plan =
     \<lparr>pl_id = ''pl_1'', pl_household = ''h1'', pl_user = Some 7, pl_node = Some ''n1'', pl_goal = ''Ask'',
      pl_summary = Some ''Ask the cafe'', pl_steps = [[(''command'', PStr ''get_news'')]], pl_inbox = None,
      pl_state = ''draft'', pl_revision = 1, pl_error = None, pl_confirmed_at = None, pl_workflow = None\<rparr>"

definition plan_tap :: "int \<Rightarrow> cb_ctx" where
  "plan_tap n = \<lparr>cx_job = ''j1'', cx_household = ''h1'', cx_user = Some 7,
     cx_data = [(''plan_id'', PStr ''pl_1''), (''revision'', PInt n)], cx_navigation = ''stay''\<rparr>"

definition plan_world :: world where
  "plan_world = (sample_world 0)\<lparr>w_plans := [sample_plan]\<rparr>"

lemma plan_world_ready: "fresh_runs plan_world" "approvable (plan_tap 1) sample_plan plan_world"
  by (code_simp, simp add: approvable_def plan_tap_def plan_world_def sample_plan_def find_plan_by_def find_plan_def
      revisions_match_def)

theorem approve_single_use_witness:
  "\<exists>w1. handle_approve_errand_plan sample_env (errand_consumers sample_env) (plan_tap 1) plan_world = (w1, Inr cb_ok) \<and>
     handle_approve_errand_plan sample_env (errand_consumers sample_env) (plan_tap 2) w1 =
       (w1, Inr (handled_card ''h1'' ''This errand is already launched.''))"
proof -
  obtain w1 where w1: "handle_approve_errand_plan sample_env (errand_consumers sample_env) (plan_tap 1) plan_world = (w1, Inr cb_ok)"
    by (rule approve_launched [OF plan_world_ready])
  from approve_single_use [OF w1, where ctx' = "plan_tap 2"] w1 show ?thesis
    by (simp add: plan_tap_def)
qed

theorem approve_launches_witness:
  "\<exists>w1 row. handle_approve_errand_plan sample_env (errand_consumers sample_env) (plan_tap 1) plan_world = (w1, Inr cb_ok) \<and>
     settled_row (next_wf plan_world) 0 [] (run_from_plan ''h1'' (next_wf plan_world) row)
       (launched_world ''h1'' row plan_world) w1"
proof -
  have h: "cx_household (plan_tap 1) = ''h1''" by (simp add: plan_tap_def)
  have "\<exists>row. approvable (plan_tap 1) row plan_world" using plan_world_ready(2) by blast
  with approve_launches [OF plan_world_ready(1), of "plan_tap 1" sample_env] h show ?thesis by (simp only: if_True) blast
qed

subsection \<open>Discarding and stopping\<close>

lemma decline_row_states:
  "ps_state s = ''draft'' \<Longrightarrow> ps_state (decline_row now s) = ''declined''"
  "ps_errand_id (decline_row now s) = ps_errand_id s"
  by (auto simp: decline_row_def transition_def allowed_from_def call_transitions_def Let_def split: prod.splits if_splits)

lemma run_decline:
  "\<exists>b. decline_pending_workflow_calls wid w =
     (w\<lparr>w_sessions := upd_where (pending_call wid) (decline_row (w_now w)) (w_sessions w)\<rparr>, Inr b)"
  by (simp add: decline_pending_workflow_calls_def)

text \<open>No call of the run is left as a draft, and no plan that points to it is live.\<close>

definition closed_down :: "string \<Rightarrow> world \<Rightarrow> bool" where
  "closed_down wid w \<longleftrightarrow>
     (\<exists>r. find_wf wid w = Some r \<and> wf_state r = ''cancelled'') \<and>
     (\<forall>s \<in> set (w_sessions w). ps_errand_id s = Some wid \<longrightarrow> ps_state s \<noteq> ''draft'')"

lemma declined_drafts:
  assumes "s \<in> set (upd_where (pending_call wid) (decline_row now) rows)" "ps_errand_id s = Some wid"
  shows "ps_state s \<noteq> ''draft''"
proof -
  from upd_where_member [OF assms(1)] consider
      (moved) s0 where "pending_call wid s0" "s = decline_row now s0"
    | (same) "\<not> pending_call wid s" by blast
  then show ?thesis
  proof cases
    case moved
    then have "ps_state s0 = ''draft'' \<or> ps_state s0 = ''confirmed''" by (simp add: pending_call_def)
    with moved(2) show ?thesis
      by (auto simp: decline_row_def transition_def allowed_from_def call_transitions_def enter_state_def Let_def)
  next
    case same
    with assms(2) show ?thesis by (simp add: pending_call_def)
  qed
qed

lemma find_wf_cancelled:
  "find_wf i w = Some r \<Longrightarrow> \<exists>r'. find_wf i (upd_wf i (set_wf_state st) w) = Some r' \<and> wf_state r' = st"
  by (simp add: find_wf_upd) (simp add: set_wf_state_def)

lemma closed_down_cancel:
  assumes "find_wf i w = Some r" "w_workflows w1 = w_workflows (upd_wf i (set_wf_state ''cancelled'') w)"
    "w_sessions w1 = upd_where (pending_call i) (decline_row now) (w_sessions w)"
  shows "closed_down i w1"
proof -
  from find_wf_cancelled [OF assms(1)] obtain r' where
    "find_wf i (upd_wf i (set_wf_state ''cancelled'') w) = Some r'" "wf_state r' = ''cancelled''" by blast
  then have "find_wf i w1 = Some r'" "wf_state r' = ''cancelled''" by (simp_all add: find_wf_def assms(2))
  moreover have "\<forall>s \<in> set (w_sessions w1). ps_errand_id s = Some i \<longrightarrow> ps_state s \<noteq> ''draft''"
    using declined_drafts by (auto simp: assms(3))
  ultimately show ?thesis by (auto simp: closed_down_def)
qed

lemma closed_down_ignores: "closed_down i w \<Longrightarrow> deliver_signal cons i step k out w = (w, Inr False)"
  by (rule deliver_ignored) (auto simp: closed_down_def accepts_def)

lemma find_wf_by_unique:
  assumes "distinct (map wf_id (w_workflows w))" "find_wf_by i hh w = Some r"
  shows "find_wf (wf_id r) w = Some r"
proof -
  from assms(2) have "r \<in> set (w_workflows w)"
    by (auto simp: find_wf_by_def split: pyval.splits dest: find_Some_props)
  with assms(1) show ?thesis unfolding find_wf_def by (rule find_key_unique)
qed

text \<open>
  C12. Stopping a waiting errand is final: its run is cancelled, every plan that points to it is
  cancelled, no call of it is left to be confirmed, no other run and no card is touched, and no later
  signal of any kind resumes it.
\<close>

theorem stop_errand_final:
  assumes "distinct (map wf_id (w_workflows w))"
    and "find_wf_by (dget (cx_data ctx) ''workflow_id'') (cx_household ctx) w = Some r" and "wf_state r = ''waiting''"
  shows "\<exists>w1 res. handle_stop_errand ctx w = (w1, Inr res) \<and> closed_down (wf_id r) w1 \<and>
    (\<forall>p \<in> set (w_plans w1). pl_workflow p = Some (wf_id r) \<longrightarrow> pl_state p = ''cancelled'') \<and>
    (\<forall>j. j = wf_id r \<or> find_wf j w1 = find_wf j w) \<and> w_log w1 = w_log w \<and>
    deliver_signal cons (wf_id r) step k out w1 = (w1, Inr False)"
proof -
  let ?i = "wf_id r"
  note f = find_wf_by_unique [OF assms(1,2)]
  let ?w1 = "upd_wf ?i (set_wf_state ''cancelled'') w"
  define w1 where "w1 = cancel_linked_plans ?i
    (?w1\<lparr>w_sessions := upd_where (pending_call ?i) (decline_row (w_now w)) (w_sessions w)\<rparr>)"
  obtain res where "handle_stop_errand ctx w = (w1, Inr res)"
    using assms(2,3)
    by (simp add: handle_stop_errand_def run_bind run_gets run_modify run_ret decline_pending_workflow_calls_def w1_def)
  moreover have c: "closed_down ?i w1"
    by (rule closed_down_cancel [OF f, of _ "w_now w"]) (simp_all add: w1_def cancel_linked_plans_def)
  moreover have "pl_state p = ''cancelled''" if "p \<in> set (w_plans w1)" "pl_workflow p = Some ?i" for p
    using that by (auto simp: w1_def cancel_linked_plans_def upd_where_def cancel_plan_def split: if_splits)
  moreover have "find_wf j w1 = find_wf j ?w1" for j by (simp add: w1_def cancel_linked_plans_def find_wf_def)
  then have "\<forall>j. j = ?i \<or> find_wf j w1 = find_wf j w" by (simp add: find_wf_upd)
  moreover have "w_log w1 = w_log w" by (simp add: w1_def cancel_linked_plans_def)
  ultimately show ?thesis using closed_down_ignores [OF c] by (intro exI [of _ w1] exI [of _ res]) blast
qed

definition run_tap :: "int \<Rightarrow> cb_ctx" where
  "run_tap n = \<lparr>cx_job = ''j2'', cx_household = ''h1'', cx_user = Some 7,
     cx_data = [(''workflow_id'', PStr ''wf_9''), (''revision'', PInt n)], cx_navigation = ''stay''\<rparr>"

lemma sample_run_household [simp]: "wf_household (sample_run i st c) = ''h1''"
  by (simp add: sample_run_def)

lemma find_sample_run_by:
  "find_wf_by (dget (cx_data (run_tap n)) ''workflow_id'') (cx_household (run_tap n)) (sample_runs [sample_run ''wf_9'' st c])
     = Some (sample_run ''wf_9'' st c)"
  by (simp add: find_wf_by_def run_tap_def sample_runs_def)

theorem stop_errand_final_witness:
  "\<exists>w1 res. handle_stop_errand (run_tap 1) (sample_runs [sample_run ''wf_9'' ''waiting'' 2]) = (w1, Inr res) \<and>
     deliver_signal (errand_consumers sample_env) ''wf_9'' 1 ''phone_call'' (marker ''done'') w1 = (w1, Inr False)"
proof -
  have "distinct (map wf_id (w_workflows (sample_runs [sample_run ''wf_9'' ''waiting'' 2])))" by (simp add: sample_runs_def)
  from stop_errand_final [OF this find_sample_run_by sample_run_fields(3), where cons = "errand_consumers sample_env"
    and step = 1 and k = "''phone_call''" and out = "marker ''done''"] show ?thesis unfolding sample_run_fields by blast
qed

definition linked_run :: "errand_plan \<Rightarrow> world \<Rightarrow> workflow option" where
  "linked_run row w = (if pl_state row = ''launched'' \<and> otruthy (pl_workflow row) then find_wf (oor (pl_workflow row) []) w else None)"

lemma find_plan_cancelled:
  assumes "find_plan_by pid hh w = Some row" "w_plans w' = upd_where (\<lambda>r. pl_id r = pl_id row) cancel_plan (w_plans w)"
  shows "find_plan_by pid hh w' = Some (cancel_plan row)"
proof -
  from assms(1) obtain s where s: "pid = PStr s" "find_plan s hh w = Some row"
    by (auto simp: find_plan_by_def split: pyval.splits)
  then have "pl_id row = s" using find_plan_id by blast
  with assms(2) s show ?thesis
    by (simp add: find_plan_by_def find_plan_def cancel_plan_def find_upd_where_keyed)
qed

text \<open>
  A Cancel tap on a plan of the household never raises and reports success. A draft is cancelled
  and nothing else changes; a launched errand whose run is waiting is cancelled with its run, and no
  call of it is left to be confirmed; anything else is left exactly as it is.
\<close>

lemma discard_errand_exact:
  assumes "find_plan_by (dget (cx_data ctx) ''plan_id'') (cx_household ctx) w = Some row"
  shows "\<exists>w1 res. handle_discard_errand_plan ctx w = (w1, Inr res) \<and> cr_success res \<and> w_log w1 = w_log w \<and>
    (if pl_state row = ''draft''
     then w1 = upd_plan (pl_id row) cancel_plan w
     else case linked_run row w of
         Some r \<Rightarrow>
           if wf_state r = ''waiting''
           then closed_down (wf_id r) w1 \<and>
             find_plan_by (dget (cx_data ctx) ''plan_id'') (cx_household ctx) w1 = Some (cancel_plan row)
           else w1 = w
       | None \<Rightarrow> w1 = w)"
proof (cases "pl_state row = ''draft''")
  case True
  with assms show ?thesis
    by (simp add: handle_discard_errand_plan_def run_bind run_gets run_modify run_ret cb_inbox_def)
next
  case nd: False
  have lr: "(if pl_state row = ''launched'' \<and> otruthy (pl_workflow row) then find_wf (oor (pl_workflow row) []) w else None)
      = linked_run row w" by (simp add: linked_run_def)
  show ?thesis
  proof (cases "linked_run row w")
    case None
    with nd assms show ?thesis
      by (simp add: handle_discard_errand_plan_def run_bind run_gets run_ret lr handled_card_def cb_inbox_def)
  next
    case (Some r)
    show ?thesis
    proof (cases "wf_state r = ''waiting''")
      case False
      with nd assms Some show ?thesis
        by (simp add: handle_discard_errand_plan_def run_bind run_gets run_ret lr handled_card_def cb_inbox_def)
    next
      case True
      define w1 where "w1 = (upd_plan (pl_id row) cancel_plan (upd_wf (wf_id r) (set_wf_state ''cancelled'') w))
        \<lparr>w_sessions := upd_where (pending_call (wf_id r)) (decline_row (w_now w)) (w_sessions w)\<rparr>"
      from Some have f: "find_wf (wf_id r) w = Some r" by (auto simp: linked_run_def find_wf_id split: if_splits)
      have "closed_down (wf_id r) w1"
        by (rule closed_down_cancel [OF f, of _ "w_now w"]) (simp_all add: w1_def)
      moreover have "find_plan_by (dget (cx_data ctx) ''plan_id'') (cx_household ctx) w1 = Some (cancel_plan row)"
        by (rule find_plan_cancelled [OF assms]) (simp add: w1_def upd_plan_def)
      moreover obtain res where "handle_discard_errand_plan ctx w = (w1, Inr res)" "cr_success res"
        using nd assms Some True
        by (simp add: handle_discard_errand_plan_def run_bind run_gets run_modify run_ret lr
            decline_pending_workflow_calls_def w1_def cb_inbox_def)
      moreover have "w_log w1 = w_log w" by (simp add: w1_def)
      ultimately show ?thesis using nd Some True by (intro exI [of _ w1] exI [of _ res]) simp
    qed
  qed
qed

lemma discard_errand_exact_witness:
  "\<exists>res. handle_discard_errand_plan (plan_tap 1) plan_world = (upd_plan ''pl_1'' cancel_plan plan_world, Inr res) \<and> cr_success res"
proof -
  have f: "find_plan_by (dget (cx_data (plan_tap 1)) ''plan_id'') (cx_household (plan_tap 1)) plan_world = Some sample_plan"
    using plan_world_ready(2) unfolding approvable_def by blast
  have "pl_state sample_plan = ''draft''" "pl_id sample_plan = ''pl_1''" by (simp_all add: sample_plan_def)
  with discard_errand_exact [OF f] show ?thesis by auto
qed

subsection \<open>Approving a change\<close>

definition amend :: "int \<Rightarrow> pyval list \<Rightarrow> workflow \<Rightarrow> workflow" where
  "amend pos add r = bump_wf_revision (set_wf_steps (splice (nat pos) add (wf_steps r)) r)"

lemma amend_fields [simp]:
  "wf_id (amend pos add r) = wf_id r" "wf_kind (amend pos add r) = wf_kind r"
  "wf_household (amend pos add r) = wf_household r" "wf_state (amend pos add r) = wf_state r"
  "wf_cursor (amend pos add r) = wf_cursor r" "wf_results (amend pos add r) = wf_results r"
  "wf_steps (amend pos add r) = splice (nat pos) add (wf_steps r)"
  "wf_waiting_on (amend pos add r) = wf_waiting_on r"
  by (simp_all add: amend_def bump_wf_revision_def set_wf_steps_def)

lemma amend_revision: "wf_revision (amend pos add r) \<noteq> wf_revision r"
  by (simp add: amend_def bump_wf_revision_def set_wf_steps_def)

lemma upd_wf_amend:
  assumes "find_wf i w = Some r"
  shows "find_wf j (upd_wf i (bump_wf_revision \<circ> set_wf_steps (splice (nat pos) add (wf_steps r))) w) =
    (if j = i then Some (amend pos add r) else find_wf j w)"
  using assms by (auto simp: find_wf_upd bump_wf_revision_def set_wf_steps_def amend_def)

lemma apply_replan_ok:
  assumes "apply_workflow_replan i pos w = (w1, Inr True)"
  obtains r add where "find_wf i w = Some r" "0 \<le> pos" "pos < int (length (wf_steps r))"
    "proposed_additions (wf_steps r ! nat pos) = Inr add"
    "w1 = upd_wf i (bump_wf_revision \<circ> set_wf_steps (splice (nat pos) add (wf_steps r))) w"
  using assms
  by (auto simp: apply_workflow_replan_def run_bind run_gets run_modify run_ret run_lift split: option.splits if_splits sum.splits)

lemma apply_replan_result: "snd (apply_workflow_replan i pos w) = Inr False \<or> snd (apply_workflow_replan i pos w) = Inr True \<or>
    (\<exists>e. snd (apply_workflow_replan i pos w) = Inl e)"
  by (auto simp: apply_workflow_replan_def run_bind run_gets run_modify run_ret run_lift split: option.splits if_splits sum.splits)

lemma approve_replan_ok:
  assumes "handle_approve_replan cons ctx w = (w1, Inr cb_ok)"
  obtains r w' b where "find_wf_by (dget (cx_data ctx) ''workflow_id'') (cx_household ctx) w = Some r"
    "truthy (dget (cx_data ctx) ''workflow_id'')" "wf_state r = ''waiting''" "wf_waiting_on r = Some ''approval''"
    "revisions_match (dget (cx_data ctx) ''revision'') (wf_revision r)"
    "apply_workflow_replan (wf_id r) (wf_cursor r - 1) w = (w', Inr True)"
    "deliver_signal cons (wf_id r) (wf_cursor r - 1) ''approval'' (marker ''approved'') w' = (w1, Inr b)"
  using assms unfolding handle_approve_replan_def
  by (auto simp: run_gets run_ret cb_ok_neq split: if_splits option.splits elim!: bindE)

text \<open>A step through the table, found by a tap.\<close>

lemma find_wf_by_step:
  assumes "w_workflows w' = upd_where (\<lambda>r. wf_id r = i) f (w_workflows w)"
    "\<And>r. wf_id (f r) = wf_id r" "\<And>r. wf_household (f r) = wf_household r"
    "find_wf_by pid hh w = Some r" "wf_id r = i"
  shows "find_wf_by pid hh w' = Some (f r)"
  using assms by (auto simp: find_wf_by_def find_upd_where_keyed split: pyval.splits)

lemma settled_find_by:
  assumes "settled i c p w w'" "find_wf_by pid hh w = Some r" "wf_id r = i"
  obtains r' where "find_wf_by pid hh w' = Some r'" "same_errand r r'"
    "further c p r' \<or> ended (wf_state r')"
proof -
  have "\<exists>r'. find_wf_by pid hh w' = Some r' \<and> same_errand r r' \<and> Q r r'" if "stepped i Q w w'" for Q
  proof -
    from that obtain f where f: "w_workflows w' = upd_where (\<lambda>r. wf_id r = i) f (w_workflows w)"
      "\<And>r. same_errand r (f r)" "\<And>r. Q r (f r)" unfolding stepped_def by blast
    have "wf_household (f r) = wf_household r" for r
      using f(2) [of r] by (cases r; cases "f r") (simp add: same_errand_def)
    with find_wf_by_step [OF f(1) _ _ assms(2,3)] same_errand_id [OF f(2)] f(2,3) show ?thesis by blast
  qed
  with assms(1) that show ?thesis unfolding settled_def ended_once_def by blast
qed

lemma same_errand_fields: "same_errand r r' \<Longrightarrow> wf_steps r' = wf_steps r \<and> wf_revision r' = wf_revision r"
  by (cases r; cases r') (simp add: same_errand_def)

text \<open>
  C11. An approved change is spliced in exactly once: when an Approve tap succeeds, the run's plan is
  the old one with the proposed steps inserted right behind the checkpoint it was parked on, the
  steps before it untouched, and its revision has moved on; the same tap again changes nothing.
\<close>

theorem approve_replan_once:
  assumes "distinct (map wf_id (w_workflows w))" and "dget (cx_data ctx) ''revision'' = PInt n"
    and "find_wf_by (dget (cx_data ctx) ''workflow_id'') (cx_household ctx) w = Some r" and "wf_kind r = ''errand''"
    and "handle_approve_replan (errand_consumers E) ctx w = (w1, Inr cb_ok)"
  shows "\<exists>add r1. proposed_additions (wf_steps r ! nat (wf_cursor r - 1)) = Inr add \<and>
    find_wf_by (dget (cx_data ctx) ''workflow_id'') (cx_household ctx) w1 = Some r1 \<and>
    wf_steps r1 = splice (nat (wf_cursor r - 1)) add (wf_steps r) \<and> wf_revision r1 \<noteq> n \<and>
    (\<exists>res. handle_approve_replan (errand_consumers E) ctx w1 = (w1, Inr res) \<and> res \<noteq> cb_ok)"
proof -
  let ?pid = "dget (cx_data ctx) ''workflow_id''" and ?i = "wf_id r" and ?pos = "wf_cursor r - 1"
  note fr = find_wf_by_unique [OF assms(1,3)]
  from assms(3,5) obtain w' b where g: "truthy ?pid" "wf_state r = ''waiting''" "wf_waiting_on r = Some ''approval''"
      "revisions_match (PInt n) (wf_revision r)"
      "apply_workflow_replan ?i ?pos w = (w', Inr True)"
      "deliver_signal (errand_consumers E) ?i ?pos ''approval'' (marker ''approved'') w' = (w1, Inr b)"
    by (elim approve_replan_ok) (simp add: assms(2))
  from g(5) fr obtain add where a: "proposed_additions (wf_steps r ! nat ?pos) = Inr add"
    "w' = upd_wf ?i (bump_wf_revision \<circ> set_wf_steps (splice (nat ?pos) add (wf_steps r))) w"
    by (elim apply_replan_ok) simp
  let ?r' = "amend ?pos add r"
  have f': "find_wf ?i w' = Some ?r'" by (simp add: a(2) upd_wf_amend [OF fr])
  have by': "find_wf_by ?pid (cx_household ctx) w' = Some ?r'"
    using find_wf_by_step [of w' ?i "bump_wf_revision \<circ> set_wf_steps (splice (nat ?pos) add (wf_steps r))" w ?pid
        "cx_household ctx" r] assms(3)
    by (simp add: a(2) upd_wf_def amend_def bump_wf_revision_def set_wf_steps_def)
  have acc: "accepts ?pos ?r'" using g(2) by (simp add: accepts_def)
  obtain h where h: "deferred_handler builtin_handlers ''approval'' = Some h" using deferred_builtin by blast
  obtain w2 d where "deliver_signal (errand_consumers E) ?i ?pos ''approval'' (marker ''approved'') w' = (w2, Inr True)"
    "settled ?i (?pos + 1) (wf_results ?r' @ [d]) w' w2"
    by (rule deliver_settled [OF f' _ acc h]) (simp add: assms(4))
  with g(6) have st: "settled ?i (?pos + 1) (wf_results ?r' @ [d]) w' w1" by simp
  from settled_find_by [OF st by'] obtain r1 where r1: "find_wf_by ?pid (cx_household ctx) w1 = Some r1" "same_errand ?r' r1"
    by (auto simp del: amend_fields simp: amend_fields(1))
  from same_errand_fields [OF r1(2)] have steps: "wf_steps r1 = splice (nat ?pos) add (wf_steps r)"
    and rv: "wf_revision r1 = wf_revision ?r'" by simp_all
  have "n = wf_revision r" using g(4) by (simp add: revisions_match_def)
  with rv amend_revision have nr: "wf_revision r1 \<noteq> n" by simp
  then have "\<not> revisions_match (PInt n) (wf_revision r1)" by (auto simp: revisions_match_def)
  then have "\<exists>res. handle_approve_replan (errand_consumers E) ctx w1 = (w1, Inr res) \<and> res \<noteq> cb_ok"
    using g(1) r1(1) assms(2) by (simp add: handle_approve_replan_def run_bind run_gets run_ret cb_ok_neq)
  with a(1) r1(1) steps nr show ?thesis by blast
qed

text \<open>A run parked on a checkpoint that proposes one more step.\<close>

definition checkpoint_run :: workflow where
  "checkpoint_run = (sample_run ''wf_9'' ''waiting'' 1)\<lparr>wf_waiting_on := Some ''approval'',
     wf_steps := [PDict [(''command'', PStr ''request_replan''),
       (''args'', PDict [(''add_steps'', PList [PDict [(''command'', PStr ''get_news'')]])])]]\<rparr>"

lemma approve_replan_runs:
  assumes "find_wf_by (dget (cx_data ctx) ''workflow_id'') (cx_household ctx) w = Some r"
    "truthy (dget (cx_data ctx) ''workflow_id'')" "find_wf (wf_id r) w = Some r" "wf_kind r = ''errand''"
    "wf_state r = ''waiting''" "wf_waiting_on r = Some ''approval''"
    "revisions_match (dget (cx_data ctx) ''revision'') (wf_revision r)"
    "0 \<le> wf_cursor r - 1" "wf_cursor r - 1 < int (length (wf_steps r))"
    "proposed_additions (wf_steps r ! nat (wf_cursor r - 1)) = Inr add"
  obtains w1 where "handle_approve_replan (errand_consumers E) ctx w = (w1, Inr cb_ok)"
proof -
  let ?pos = "wf_cursor r - 1"
  define w' where "w' = upd_wf (wf_id r) (bump_wf_revision \<circ> set_wf_steps (splice (nat ?pos) add (wf_steps r))) w"
  have a: "apply_workflow_replan (wf_id r) ?pos w = (w', Inr True)"
    using assms(3,8-10) by (simp add: apply_workflow_replan_def run_bind run_gets run_modify run_ret run_lift w'_def)
  have f': "find_wf (wf_id r) w' = Some (amend ?pos add r)" by (simp add: w'_def upd_wf_amend [OF assms(3)])
  have acc: "accepts ?pos (amend ?pos add r)" using assms(5) by (simp add: accepts_def)
  obtain h where h: "deferred_handler builtin_handlers ''approval'' = Some h" using deferred_builtin by blast
  obtain w1 where "deliver_signal (errand_consumers E) (wf_id r) ?pos ''approval'' (marker ''approved'') w' = (w1, Inr True)"
    by (rule deliver_settled [OF f' _ acc h]) (simp add: assms(4))
  with assms(1,2,5-7) a that show ?thesis
    by (simp add: handle_approve_replan_def run_bind run_gets run_ret)
qed

lemma checkpoint_run_fields [simp]:
  "wf_id checkpoint_run = ''wf_9''" "wf_kind checkpoint_run = ''errand''" "wf_state checkpoint_run = ''waiting''"
  "wf_waiting_on checkpoint_run = Some ''approval''" "wf_cursor checkpoint_run = 1" "wf_revision checkpoint_run = 1"
  "wf_household checkpoint_run = ''h1''" "length (wf_steps checkpoint_run) = 1"
  "proposed_additions (wf_steps checkpoint_run ! 0) = Inr [PDict [(''command'', PStr ''get_news'')]]"
  by (simp_all add: checkpoint_run_def sample_run_def proposed_additions_def por_def)

theorem approve_replan_once_witness:
  "\<exists>w1 res. handle_approve_replan (errand_consumers sample_env) (run_tap 1) (sample_runs [checkpoint_run]) = (w1, Inr cb_ok) \<and>
     handle_approve_replan (errand_consumers sample_env) (run_tap 1) w1 = (w1, Inr res) \<and> res \<noteq> cb_ok"
proof -
  let ?w = "sample_runs [checkpoint_run]" and ?c = "run_tap 1"
  have t: "truthy (dget (cx_data ?c) ''workflow_id'')" "dget (cx_data ?c) ''revision'' = PInt 1"
    by (simp_all add: run_tap_def)
  have f: "find_wf_by (dget (cx_data ?c) ''workflow_id'') (cx_household ?c) ?w = Some checkpoint_run"
    by (simp add: find_wf_by_def run_tap_def sample_runs_def)
  have d: "distinct (map wf_id (w_workflows ?w))" by (simp add: sample_runs_def)
  obtain w1 where w1: "handle_approve_replan (errand_consumers sample_env) ?c ?w = (w1, Inr cb_ok)"
    by (rule approve_replan_runs [OF f t(1) find_wf_by_unique [OF d f]]) (simp_all add: t(2) revisions_match_def)
  from approve_replan_once [OF d t(2) f _ w1] w1 show ?thesis by auto
qed

end
