(* ===== verification/Errand_Drafts.thy ===== *)
theory Errand_Drafts
  imports Errand_Taps
begin

section \<open>Drafting never vanishes\<close>

text \<open>
  The voice tool promises a card and leaves; whatever the planner, the node or the model do, a card
  follows, and a draft is stored exactly when planning succeeded.
\<close>

definition tables_are :: "workflow list \<Rightarrow> errand_plan list \<Rightarrow> world \<Rightarrow> bool" where
  "tables_are W P w \<longleftrightarrow> w_workflows w = W \<and> w_plans w = P"

lemma quiet_tables: "quiet (tables_are W P)"
  by (simp add: quiet_def tables_are_def)

lemma keeps_node_menu: "quiet P \<Longrightarrow> keeps P (resolve_node_menu E node hh user)"
  unfolding resolve_node_menu_def by (intro io_keeps) auto

lemma keeps_run_planner: "quiet P \<Longrightarrow> keeps P (run_planner E kind parts)"
  unfolding run_planner_def by (intro io_keeps) auto

lemma keeps_plan_errand: "quiet P \<Longrightarrow> keeps P (plan_errand E goal menu)"
  unfolding plan_errand_def Let_def by (intro io_keeps keeps_run_planner)

lemma keeps_planning:
  "quiet P \<Longrightarrow> keeps P (bind (case menu0 of Some m \<Rightarrow> ret m | None \<Rightarrow> resolve_node_menu E node hh user) (plan_errand E goal))"
  by (intro io_keeps keeps_plan_errand keeps_node_menu)

lemma inbox_card_fields [simp]:
  "cd_household (inbox_card hh u t s b c m) = hh" "cd_title (inbox_card hh u t s b c m) = t"
  by (simp_all add: inbox_card_def)

text \<open>A fresh plan's card is posted, whatever becomes of it.\<close>

lemma run_push_fresh:
  assumes "pl_inbox row = None"
  obtains c T where "push_plan_card E row hh user w = (w\<lparr>w_plans := T, w_log := FxCard c # w_log w\<rparr>, Inr ())"
    "cd_household c = hh" "cd_title c = ''Errand plan: '' @ plan_title row"
    "T = w_plans w \<or> (\<exists>item. T = upd_where (\<lambda>r. pl_id r = pl_id row) (set_pl_inbox item) (w_plans w))"
proof -
  define c where "c = inbox_card hh user (''Errand plan: '' @ plan_title row) (plan_title row)
      (plan_card_body (plan_title row) (pl_steps row)) errand_plan_category (build_plan_card_metadata row (pl_steps row) hh)"
  have p: "post_errand_plan_card E row (pl_steps row) hh user w = (log_effect (FxCard c) w, en_card E (FxCard c # w_log w))"
    using assms by (simp add: post_errand_plan_card_def post_or_update_def post_inbox_def otruthy_def run_perform c_def)
  have "push_plan_card E row hh user w = (log_effect (FxCard c) w, Inr ()) \<or>
      (\<exists>item. push_plan_card E row hh user w = (upd_plan (pl_id row) (set_pl_inbox item) (log_effect (FxCard c) w), Inr ()))"
    by (cases "en_card E (FxCard c # w_log w)")
      (auto simp: push_plan_card_def run_catch run_bind p run_modify run_ret)
  then consider (same) "push_plan_card E row hh user w = (log_effect (FxCard c) w, Inr ())"
    | (set) item where "push_plan_card E row hh user w = (upd_plan (pl_id row) (set_pl_inbox item) (log_effect (FxCard c) w), Inr ())"
    by blast
  then show ?thesis
  proof cases
    case same
    then show ?thesis by (intro that [of c "w_plans w"]) (simp_all add: log_effect_def c_def)
  next
    case (set item)
    then show ?thesis
      by (intro that [of c "upd_where (\<lambda>r. pl_id r = pl_id row) (set_pl_inbox item) (w_plans w)"])
        (simp_all add: log_effect_def upd_plan_def c_def, blast)
  qed
qed

lemma run_couldnt_plan:
  obtains c where "post_couldnt_plan_card E hh user s b w = (log_effect (FxCard c) w, Inr ())" "cd_household c = hh"
    "cd_title c = ''Couldn't plan that errand''"
proof -
  let ?c = "inbox_card hh user ''Couldn't plan that errand'' s b errand_plan_category [(''household_id'', PStr hh)]"
  have "post_couldnt_plan_card E hh user s b w = (log_effect (FxCard ?c) w, Inr ())"
    by (simp add: post_couldnt_plan_card_def post_inbox_def run_catch run_bind run_perform run_ret split: sum.split)
  then show ?thesis by (rule that) simp_all
qed

lemma plan_errand_steps: "plan_errand E goal menu w = (w', Inr p) \<Longrightarrow> ep_steps p \<noteq> []"
  by (erule plan_errand_data) (auto simp: plan_from_data_def rbind_Inr_iff split: if_splits)

lemma create_errand_plan_cases:
  obtains (drafted) w' pid c l row where "create_errand_plan E hh node goal user menu w = (w', Inr pid)"
      "w_log w' = FxCard c # l" "cd_household c = hh" "\<exists>t. cd_title c = ''Errand plan: '' @ t" "w_workflows w' = w_workflows w"
      "length (w_plans w') = Suc (length (w_plans w))" "row = last (w_plans w')" "pl_household row = hh"
      "pl_goal row = goal" "pl_state row = ''draft''" "pl_revision row = 1" "pl_steps row \<noteq> []"
  | (failed) w' e where "create_errand_plan E hh node goal user menu w = (w', Inl e)"
      "w_workflows w' = w_workflows w" "w_plans w' = w_plans w"
proof -
  let ?m = "bind (case menu of Some m \<Rightarrow> ret m | None \<Rightarrow> resolve_node_menu E node hh user) (plan_errand E goal)"
  have split: "create_errand_plan E hh node goal user menu =
      bind ?m (\<lambda>p. bind (insert_plan (\<lambda>pid. new_plan pid hh user node goal p)) (\<lambda>pid.
        bind (push_plan_card E (new_plan pid hh user node goal p) hh user) (\<lambda>_. ret pid)))"
    by (simp add: create_errand_plan_def bind_assoc)
  obtain w1 r where r: "?m w = (w1, r)" by force
  have t: "w_workflows w1 = w_workflows w" "w_plans w1 = w_plans w"
    using keepsD' [OF keeps_planning [OF quiet_tables] _ r, of "w_workflows w" "w_plans w"] by (simp_all add: tables_are_def)
  show ?thesis
  proof (cases r)
    case (Inl e)
    with r t show ?thesis by (intro failed [of w1 e]) (simp_all add: split run_bind [of ?m])
  next
    case (Inr p)
    from r Inr have st: "ep_steps p \<noteq> []" by (auto elim!: bindE dest: plan_errand_steps)
    let ?pid = "''pl_'' @ nat_str (w_seq w1)"
    let ?row = "new_plan ?pid hh user node goal p"
    let ?w2 = "w1\<lparr>w_seq := Suc (w_seq w1), w_plans := w_plans w1 @ [?row]\<rparr>"
    have "pl_inbox ?row = None" by (simp add: new_plan_def)
    then obtain c T where push: "push_plan_card E ?row hh user ?w2 = (?w2\<lparr>w_plans := T, w_log := FxCard c # w_log ?w2\<rparr>, Inr ())"
      "cd_household c = hh" "cd_title c = ''Errand plan: '' @ plan_title ?row"
      "T = w_plans ?w2 \<or> (\<exists>item. T = upd_where (\<lambda>r. pl_id r = pl_id ?row) (set_pl_inbox item) (w_plans ?w2))"
      by (rule run_push_fresh)
    let ?w3 = "?w2\<lparr>w_plans := T, w_log := FxCard c # w_log ?w2\<rparr>"
    have run: "create_errand_plan E hh node goal user menu w = (?w3, Inr ?pid)"
      using r Inr push(1) by (simp add: split run_bind [of ?m] run_bind insert_plan_def Let_def run_ret)
    have T: "length T = Suc (length (w_plans w))" "\<exists>item. last T = ?row\<lparr>pl_inbox := item\<rparr>"
      using push(4) t(2) by (auto simp: upd_where_def set_pl_inbox_def new_plan_def)
    then obtain item where "last T = ?row\<lparr>pl_inbox := item\<rparr>" by blast
    with run push(2,3) T(1) t(1) st show ?thesis
      by (intro drafted [of ?w3 ?pid c "w_log ?w2" "last T"]) (simp_all add: new_plan_def routine_steps_def)
  qed
qed

text \<open>
  A detached draft never raises, never touches a run, and always ends with a card for the
  household: either one new draft with at least one step is stored at revision 1 and its plan card is
  posted, or no plan changes and the card says that the errand couldn't be planned.
\<close>

lemma detached_draft_reports:
  "\<exists>w' c l. draft_errand_plan_detached E hh node goal user menu w = (w', Inr ()) \<and>
     w_log w' = FxCard c # l \<and> cd_household c = hh \<and> w_workflows w' = w_workflows w \<and>
     (if cd_title c = ''Couldn't plan that errand'' then w_plans w' = w_plans w
      else length (w_plans w') = Suc (length (w_plans w)) \<and>
        (let row = last (w_plans w') in pl_household row = hh \<and> pl_goal row = goal \<and> pl_state row = ''draft'' \<and>
           pl_revision row = 1 \<and> pl_steps row \<noteq> []))"
proof (cases rule: create_errand_plan_cases [of E hh node goal user menu w])
  case (drafted w' pid c l row)
  from drafted(4) have "cd_title c \<noteq> ''Couldn't plan that errand''" by auto
  with drafted show ?thesis
    by (intro exI [of _ w'] exI [of _ c] exI [of _ l])
      (simp add: draft_errand_plan_detached_def run_catch run_bind run_ret Let_def)
next
  case (failed w' e)
  obtain s b where "draft_errand_plan_detached E hh node goal user menu w = post_couldnt_plan_card E hh user s b w'"
    using failed(1) by (cases e) (simp_all add: draft_errand_plan_detached_def run_catch run_bind)
  moreover obtain c where "post_couldnt_plan_card E hh user s b w' = (log_effect (FxCard c) w', Inr ())" "cd_household c = hh"
    "cd_title c = ''Couldn't plan that errand''" by (rule run_couldnt_plan)
  ultimately show ?thesis using failed(2,3)
    by (intro exI [of _ "log_effect (FxCard c) w'"] exI [of _ c] exI [of _ "w_log w'"]) simp
qed

end
