(* ===== verification/Errand_Sweeps.thy ===== *)
theory Errand_Sweeps
  imports Errand_Taps Phone_Safety
begin

section \<open>Startup recovery, timers, overdue calls and detached drafts\<close>

text \<open>
  The periodic and background entries of the errand service: what the recovery at startup, the timer
  sweep and the phone sweep do to each run, and that a detached draft always ends in a card.
\<close>

subsection \<open>Recovery\<close>

definition recovered :: "workflow \<Rightarrow> workflow" where
  "recovered r = (if wf_state r = ''running''
     then land (if passed_count (wf_results r) > 0 then ''partial'' else ''failed'') (Some ''interrupted by a restart'') r
     else r)"

lemma interrupted_state:
  "terminal_state (interrupted_result r) = (if passed_count (wf_results r) > 0 then ''partial'' else ''failed'')"
  by (simp add: interrupted_result_def terminal_state_def por_def py_str_def Let_def)

lemma emit_interrupted:
  "\<exists>w'. emit_progress (errand_consumers E) ((run_of r)\<lparr>rn_steps := []\<rparr>) (complete_event res) w = (w', Inr ()) \<and>
     frozen w w' \<and> w_sessions w' = w_sessions w \<and>
     reports w' = reports w + (if wf_kind r = ''errand'' then 1 else 0)"
proof (cases "wf_kind r = ''errand''")
  case True
  then have "rn_kind ((run_of r)\<lparr>rn_steps := []\<rparr>) = ''errand''" by simp
  from emit_complete [OF this, of E res w] True show ?thesis by simp
next
  case False
  then show ?thesis by (simp add: emit_progress_def errand_consumers_def run_ret)
qed

lemma find_none_id: "wf_id r \<notin> set (map wf_id rs) \<Longrightarrow> find (\<lambda>y. wf_id y = wf_id r) rs = None"
  by (auto simp: find_None_iff) (metis imageI)

lemma recover_rows_result:
  "distinct (map wf_id rs) \<Longrightarrow>
   \<exists>w'. recover_rows (errand_consumers E) rs w = (w', Inr ()) \<and>
     w_workflows w' = map (\<lambda>x. case find (\<lambda>r. wf_id r = wf_id x) rs of None \<Rightarrow> x
        | Some r \<Rightarrow> land (terminal_state (interrupted_result r)) (Some ''interrupted by a restart'') x) (w_workflows w) \<and>
     w_plans w' = w_plans w \<and> w_sessions w' = w_sessions w \<and>
     reports w' = reports w + length (filter (\<lambda>r. wf_kind r = ''errand'') rs)"
proof (induction rs arbitrary: w)
  case (Cons r rs)
  let ?ts = "terminal_state (interrupted_result r)" and ?e = "Some ''interrupted by a restart''"
  obtain w1 where e: "emit_progress (errand_consumers E) ((run_of r)\<lparr>rn_steps := []\<rparr>) (complete_event (interrupted_result r)) w
      = (w1, Inr ())" "frozen w w1" "w_sessions w1 = w_sessions w"
      "reports w1 = reports w + (if wf_kind r = ''errand'' then 1 else 0)" using emit_interrupted by blast
  let ?w2 = "save_terminal (wf_id r) ?ts ?e w1"
  from Cons.prems have d: "distinct (map wf_id rs)" and n: "wf_id r \<notin> set (map wf_id rs)" by simp_all
  from Cons.IH [OF d, of ?w2] obtain w' where w': "recover_rows (errand_consumers E) rs ?w2 = (w', Inr ())"
     "w_workflows w' = map (\<lambda>x. case find (\<lambda>r. wf_id r = wf_id x) rs of None \<Rightarrow> x
        | Some r \<Rightarrow> land (terminal_state (interrupted_result r)) ?e x) (w_workflows ?w2)"
     "w_plans w' = w_plans ?w2" "w_sessions w' = w_sessions ?w2"
     "reports w' = reports ?w2 + length (filter (\<lambda>r. wf_kind r = ''errand'') rs)" by blast
  have rows: "w_workflows ?w2 = upd_where (\<lambda>x. wf_id x = wf_id r) (land ?ts ?e) (w_workflows w)"
    using e(2) by (simp add: save_terminal_def upd_wf_def frozen_def)
  have "w_workflows w' = map (\<lambda>x. case find (\<lambda>r. wf_id r = wf_id x) (r # rs) of None \<Rightarrow> x
        | Some r \<Rightarrow> land (terminal_state (interrupted_result r)) ?e x) (w_workflows w)"
    unfolding w'(2) rows upd_where_def using find_none_id [OF n]
    by (auto split: option.splits)
  moreover have "recover_rows (errand_consumers E) (r # rs) w = (w', Inr ())"
    by (simp add: run_bind e(1) run_modify w'(1))
  ultimately show ?case using w'(3-5) e(2-4) by (auto simp: save_terminal_def frozen_def reports_def)
qed (simp add: run_ret)

lemma find_running:
  assumes "distinct (map wf_id rows)" "x \<in> set rows"
  shows "find (\<lambda>r. wf_id r = wf_id x) (filter (\<lambda>r. wf_state r = ''running'') rows) =
    (if wf_state x = ''running'' then Some x else None)"
  using assms by (induction rows) (auto simp: image_iff find_None_iff)

text \<open>
  C13. Startup recovery leaves no run behind that claims to be running: every such run is landed as
  partial or failed by what it had completed, with one card each for errands; every other run, every
  plan and every call session is exactly as before, and the number reported is the number landed.
\<close>

theorem recovery_lands_all:
  assumes "distinct (map wf_id (w_workflows w))"
  shows "\<exists>w'. recover_orphaned_running_workflows (errand_consumers E) w =
      (w', Inr (int (length (filter (\<lambda>r. wf_state r = ''running'') (w_workflows w))))) \<and>
    w_workflows w' = map recovered (w_workflows w) \<and>
    \<not> list_ex (\<lambda>r. wf_state r = ''running'') (w_workflows w') \<and>
    w_plans w' = w_plans w \<and> w_sessions w' = w_sessions w \<and>
    reports w' = reports w + length (filter (\<lambda>r. wf_state r = ''running'' \<and> wf_kind r = ''errand'') (w_workflows w))"
proof -
  let ?rs = "filter (\<lambda>r. wf_state r = ''running'') (w_workflows w)"
  have "distinct (map wf_id ?rs)" using assms by (simp add: distinct_map_filter)
  from recover_rows_result [OF this, of E w] obtain w' where w':
     "recover_rows (errand_consumers E) ?rs w = (w', Inr ())"
     "w_workflows w' = map (\<lambda>x. case find (\<lambda>r. wf_id r = wf_id x) ?rs of None \<Rightarrow> x
        | Some r \<Rightarrow> land (terminal_state (interrupted_result r)) (Some ''interrupted by a restart'') x) (w_workflows w)"
     "w_plans w' = w_plans w" "w_sessions w' = w_sessions w"
     "reports w' = reports w + length (filter (\<lambda>r. wf_kind r = ''errand'') ?rs)" by blast
  have m: "w_workflows w' = map recovered (w_workflows w)"
    unfolding w'(2) using find_running [OF assms] by (auto simp: recovered_def interrupted_state)
  have "\<not> list_ex (\<lambda>r. wf_state r = ''running'') (w_workflows w')"
    unfolding m by (auto simp: list_ex_iff recovered_def land_def split: if_splits)
  with w' m show ?thesis
    by (intro exI [of _ w']) (simp add: recover_orphaned_running_workflows_def run_bind run_gets run_ret conj_commute)
qed

theorem recovery_lands_all_witness:
  "\<exists>w'. recover_orphaned_running_workflows (errand_consumers sample_env)
       (sample_runs [sample_run ''wf_9'' ''running'' 1, sample_run ''wf_8'' ''waiting'' 2]) = (w', Inr 1) \<and>
     map wf_state (w_workflows w') = [''failed'', ''waiting''] \<and> reports w' = 1"
proof -
  let ?w = "sample_runs [sample_run ''wf_9'' ''running'' 1, sample_run ''wf_8'' ''waiting'' 2]"
  have rows: "w_workflows ?w = [sample_run ''wf_9'' ''running'' 1, sample_run ''wf_8'' ''waiting'' 2]"
    and r0: "reports ?w = 0" by (simp_all add: sample_runs_def reports_def sample_world_def)
  have d: "distinct (map wf_id (w_workflows ?w))" by (simp add: rows)
  from recovery_lands_all [OF d, of sample_env] show ?thesis
    unfolding rows r0 by (auto simp: recovered_def land_def passed_count_def)
qed

subsection \<open>Timers\<close>

definition advanced :: "int \<Rightarrow> workflow \<Rightarrow> workflow \<Rightarrow> bool" where
  "advanced step r r' \<longleftrightarrow> same_errand r r' \<and>
     (if accepts step r then wf_state r' = ''waiting'' \<and> step + 1 < wf_cursor r' \<or> ended (wf_state r') else r' = r)"

definition effect_on :: "int \<Rightarrow> workflow option \<Rightarrow> workflow option \<Rightarrow> bool" where
  "effect_on step fr fr' \<longleftrightarrow> (case fr of None \<Rightarrow> fr' = None | Some r \<Rightarrow> \<exists>r'. fr' = Some r' \<and> advanced step r r')"

definition all_errands :: "world \<Rightarrow> bool" where
  "all_errands w \<longleftrightarrow> (\<forall>i r. find_wf i w = Some r \<longrightarrow> wf_kind r = ''errand'')"

lemma same_errand_kind: "same_errand r r' \<Longrightarrow> wf_kind r' = wf_kind r"
  by (cases r; cases r') (simp add: same_errand_def)

lemma deliver_effect:
  assumes "all_errands w" "k \<in> {''phone_call'', ''timer'', ''approval''}"
  shows "\<exists>w1 b. deliver_signal (errand_consumers E) i step k out w = (w1, Inr b) \<and>
    effect_on step (find_wf i w) (find_wf i w1) \<and> (\<forall>j. j = i \<or> find_wf j w1 = find_wf j w)"
proof (cases "\<exists>r. find_wf i w = Some r \<and> accepts step r")
  case False
  then have "effect_on step (find_wf i w) (find_wf i w)"
    by (auto simp: effect_on_def advanced_def split: option.split)
  with deliver_ignored [OF False] show ?thesis by blast
next
  case True
  then obtain r where r: "find_wf i w = Some r" "accepts step r" by blast
  with assms(1) have kind: "wf_kind r = ''errand''" by (simp add: all_errands_def)
  from deferred_builtin [OF assms(2)] obtain h where h: "deferred_handler builtin_handlers k = Some h" by blast
  obtain w1 d where d: "deliver_signal (errand_consumers E) i step k out w = (w1, Inr True)"
    "settled i (step + 1) (wf_results r @ [d]) w w1" by (rule deliver_settled [OF r(1) kind r(2) h])
  from settled_find [OF d(2) r(1)] have s: "settled_row i (step + 1) (wf_results r @ [d]) r w w1" .
  then have "effect_on step (find_wf i w) (find_wf i w1)"
    using r by (auto simp: settled_row_def effect_on_def advanced_def further_def)
  moreover from s have "\<forall>j. j = i \<or> find_wf j w1 = find_wf j w" by (simp add: settled_row_def)
  ultimately show ?thesis using d(1) by blast
qed

lemma effect_errands:
  assumes "all_errands w" "effect_on step (find_wf i w) (find_wf i w1)" "\<forall>j. j = i \<or> find_wf j w1 = find_wf j w"
  shows "all_errands w1"
  unfolding all_errands_def
proof (intro allI impI)
  fix j r assume j: "find_wf j w1 = Some r"
  show "wf_kind r = ''errand''"
  proof (cases "j = i")
    case True
    with j assms(2) obtain r0 where "find_wf i w = Some r0" "same_errand r0 r"
      by (auto simp: effect_on_def advanced_def split: option.splits)
    with assms(1) same_errand_kind show ?thesis by (simp add: all_errands_def)
  next
    case False
    with j assms(1,3) show ?thesis by (auto simp: all_errands_def)
  qed
qed

lemma fire_timers_effect:
  "distinct (map fst pend) \<Longrightarrow> all_errands w \<Longrightarrow>
   \<exists>w'. fire_timers (errand_consumers E) pend n w = (w', Inr (n + int (length pend))) \<and>
     (\<forall>j. case map_of pend j of None \<Rightarrow> find_wf j w' = find_wf j w
        | Some c \<Rightarrow> effect_on (max (c - 1) 0) (find_wf j w) (find_wf j w'))"
proof (induction pend arbitrary: n w)
  case (Cons p pend)
  obtain i c where p: "p = (i, c)" by force
  let ?step = "max (c - 1) 0"
  from deliver_effect [OF Cons.prems(2), of "''timer''" E i ?step "marker ''fired''"] obtain w1 b where
    d: "deliver_signal (errand_consumers E) i ?step ''timer'' (marker ''fired'') w = (w1, Inr b)"
      "effect_on ?step (find_wf i w) (find_wf i w1)" "\<forall>j. j = i \<or> find_wf j w1 = find_wf j w" by auto
  have a: "all_errands w1" by (rule effect_errands [OF Cons.prems(2) d(2,3)])
  have dist: "distinct (map fst pend)" "map_of pend i = None" using Cons.prems(1) by (auto simp: p map_of_eq_None_iff)
  from Cons.IH [OF dist(1) a, of "n + 1"] obtain w' where w':
    "fire_timers (errand_consumers E) pend (n + 1) w1 = (w', Inr (n + 1 + int (length pend)))"
    "\<And>j. case map_of pend j of None \<Rightarrow> find_wf j w' = find_wf j w1
        | Some c \<Rightarrow> effect_on (max (c - 1) 0) (find_wf j w1) (find_wf j w')" by blast
  have "case map_of (p # pend) j of None \<Rightarrow> find_wf j w' = find_wf j w
        | Some c \<Rightarrow> effect_on (max (c - 1) 0) (find_wf j w) (find_wf j w')" for j
  proof (cases "j = i")
    case True
    with w'(2) [of i] dist(2) d(2) p show ?thesis by simp
  next
    case False
    with w'(2) [of j] d(3) p show ?thesis by (auto split: option.splits)
  qed
  moreover have "fire_timers (errand_consumers E) (p # pend) n w = (w', Inr (n + int (length (p # pend))))"
    by (simp add: p run_bind d(1) w'(1))
  ultimately show ?case by blast
qed (simp add: run_ret)

lemma map_of_due:
  assumes "distinct (map wf_id rows)" "r \<in> set rows"
  shows "map_of (map (\<lambda>r. (wf_id r, wf_cursor r)) (filter Q rows)) (wf_id r) = (if Q r then Some (wf_cursor r) else None)"
  using assms by (induction rows) (auto simp: image_iff map_of_eq_None_iff)

text \<open>
  The timer sweep wakes exactly the due runs: it never raises and counts them; every due run has
  moved past its wait or ended, with its plan and owner unchanged, and every other run, waiting on
  whatever else, is untouched.
\<close>

lemma timer_sweep_exact:
  assumes "distinct (map wf_id (w_workflows w))" and "\<forall>r \<in> set (w_workflows w). wf_kind r = ''errand'' \<and> 0 < wf_cursor r"
  shows "\<exists>w'. resume_due_timer_workflows (errand_consumers E) w =
      (w', Inr (int (length (filter (timer_due (w_now w)) (w_workflows w))))) \<and>
    (\<forall>r \<in> set (w_workflows w). \<exists>r'. find_wf (wf_id r) w' = Some r' \<and>
       (if timer_due (w_now w) r
        then same_errand r r' \<and> (wf_state r' = ''waiting'' \<and> wf_cursor r < wf_cursor r' \<or> ended (wf_state r'))
        else r' = r))"
proof -
  let ?rows = "w_workflows w" and ?due = "timer_due (w_now w)"
  let ?pend = "map (\<lambda>r. (wf_id r, wf_cursor r)) (filter ?due ?rows)"
  have find: "find_wf (wf_id r) w = Some r" if "r \<in> set ?rows" for r
    using find_key_unique [OF assms(1) that] by (simp add: find_wf_def)
  have a: "all_errands w" using assms(2) by (auto simp: all_errands_def find_wf_def dest: find_Some_props)
  have "distinct (map fst ?pend)" using assms(1) by (simp add: comp_def distinct_map_filter)
  from fire_timers_effect [OF this a, of E 0] obtain w' where w':
    "fire_timers (errand_consumers E) ?pend 0 w = (w', Inr (int (length ?pend)))"
    "\<And>j. case map_of ?pend j of None \<Rightarrow> find_wf j w' = find_wf j w
        | Some c \<Rightarrow> effect_on (max (c - 1) 0) (find_wf j w) (find_wf j w')" by auto
  have "\<exists>r'. find_wf (wf_id r) w' = Some r' \<and>
       (if ?due r then same_errand r r' \<and> (wf_state r' = ''waiting'' \<and> wf_cursor r < wf_cursor r' \<or> ended (wf_state r'))
        else r' = r)" if r: "r \<in> set ?rows" for r
  proof (cases "?due r")
    case True
    with w'(2) [of "wf_id r"] map_of_due [OF assms(1) r, of ?due] find [OF r] obtain r' where
      r': "find_wf (wf_id r) w' = Some r'" "advanced (max (wf_cursor r - 1) 0) r r'" by (auto simp: effect_on_def)
    from assms(2) r have "0 < wf_cursor r" by blast
    with True have "accepts (max (wf_cursor r - 1) 0) r" by (simp add: accepts_def timer_due_def)
    with r' \<open>0 < wf_cursor r\<close> True show ?thesis by (intro exI [of _ r']) (simp add: advanced_def)
  next
    case False
    with w'(2) [of "wf_id r"] map_of_due [OF assms(1) r, of ?due] find [OF r] show ?thesis by simp
  qed
  with w'(1) show ?thesis
    by (intro exI [of _ w']) (simp add: resume_due_timer_workflows_def run_bind run_gets)
qed

definition timer_run :: workflow where
  "timer_run = (sample_run ''wf_9'' ''waiting'' 2)\<lparr>wf_waiting_on := Some ''timer'', wf_wake_at := Some 0\<rparr>"

lemma timer_sweep_exact_witness:
  "\<exists>w'. resume_due_timer_workflows (errand_consumers sample_env) (sample_runs [timer_run, sample_run ''wf_8'' ''waiting'' 2])
       = (w', Inr 1) \<and>
     (\<exists>r'. find_wf ''wf_9'' w' = Some r' \<and> (wf_cursor r' > 2 \<or> ended (wf_state r'))) \<and>
     find_wf ''wf_8'' w' = Some (sample_run ''wf_8'' ''waiting'' 2)"
proof -
  let ?w = "sample_runs [timer_run, sample_run ''wf_8'' ''waiting'' 2]"
  have f: "wf_id timer_run = ''wf_9''" "wf_kind timer_run = ''errand''" "wf_cursor timer_run = 2" "wf_state timer_run = ''waiting''"
    by (simp_all add: timer_run_def)
  have due: "timer_due (w_now ?w) timer_run" "\<not> timer_due (w_now ?w) (sample_run ''wf_8'' ''waiting'' 2)"
    by (simp_all add: timer_due_def timer_run_def sample_run_def sample_runs_def sample_world_def)
  have rows: "w_workflows ?w = [timer_run, sample_run ''wf_8'' ''waiting'' 2]" by (simp add: sample_runs_def)
  have h: "distinct (map wf_id (w_workflows ?w))" "\<forall>r \<in> set (w_workflows ?w). wf_kind r = ''errand'' \<and> 0 < wf_cursor r"
    by (simp_all add: rows f)
  from timer_sweep_exact [OF h, of sample_env] obtain w' where
    "resume_due_timer_workflows (errand_consumers sample_env) ?w = (w', Inr 1)"
    "\<forall>r \<in> set (w_workflows ?w). \<exists>r'. find_wf (wf_id r) w' = Some r' \<and>
       (if timer_due (w_now ?w) r
        then same_errand r r' \<and> (wf_state r' = ''waiting'' \<and> wf_cursor r < wf_cursor r' \<or> ended (wf_state r'))
        else r' = r)" using rows due by auto
  then show ?thesis using due f by (intro exI [of _ w']) (auto simp: rows)
qed

subsection \<open>Calls that never succeed\<close>

lemma phone_not_done: "oor (so_state t) [] \<noteq> ''done'' \<Longrightarrow> phone_interpret t steps i = Inr d \<Longrightarrow> \<not> truthy (dget d ''success'')"
  by (auto simp: phone_interpret_def Let_def rbind_Inr_iff failed_outcome_def)

lemma phone_handler: "deferred_handler builtin_handlers ''phone_call'' = Some PhoneCallHandler"
  by (simp add: deferred_handler_def builtin_handlers_def register_handler_def)

lemma find_latest: "latest_call i step w = Some s \<Longrightarrow> ps_errand_id s = Some i \<and> ps_errand_step s = Some step"
proof -
  assume "latest_call i step w = Some s"
  then obtain rest where e: "sort_key (\<lambda>s. - ps_created_at s)
      (filter (\<lambda>s. ps_errand_id s = Some i \<and> ps_errand_step s = Some step) (w_sessions w)) = s # rest"
    by (auto simp: latest_call_def split: list.splits)
  have "s \<in> set (sort_key (\<lambda>s. - ps_created_at s)
      (filter (\<lambda>s. ps_errand_id s = Some i \<and> ps_errand_step s = Some step) (w_sessions w)))"
    unfolding e by simp
  then show ?thesis by simp
qed

text \<open>
  An errand never waits for ever on a call: when the sweep visits a waiting run whose latest call
  failed, was declined or expired, or did not finish within the hour after it was planned, the run
  ends, with exactly one completion card and without placing another call.
\<close>

lemma unfinished_call_ends_errand:
  assumes "find_wf i w = Some r" and "wf_kind r = ''errand''" and "wf_state r = ''waiting''" and "0 < wf_cursor r"
    and "i \<noteq> []" and "latest_call i (wf_cursor r - 1) w = Some s"
    and "ps_state s \<in> {''failed'', ''declined'', ''expired''} \<or>
         ps_state s \<notin> set call_terminal \<and> ps_created_at s < now - errand_wait_deadline_us"
  shows "\<exists>w' r'. resume_rows (errand_consumers E) now [r] n w = (w', Inr (n + 1)) \<and>
    find_wf i w' = Some r' \<and> same_errand r r' \<and> ended (wf_state r') \<and> reports w' = Suc (reports w)"
proof -
  let ?step = "wf_cursor r - 1"
  have i: "wf_id r = i" using assms(1) by (rule find_wf_id)
  have l: "ps_errand_id s = Some i" "ps_errand_step s = Some ?step" using find_latest [OF assms(6)] by simp_all
  obtain t where t: "call_trigger now (Some s) = Some t" "so_errand t = Some i" "so_step t = Some ?step"
    "oor (so_state t) [] \<in> {''failed'', ''declined'', ''expired''}"
    using assms(5,7) l
    by (auto simp: call_trigger_def resume_signal_def timed_out_call_def otruthy_def call_terminal_def)
  have nd: "oor (so_state t) [] \<noteq> ''done''" using t(4) by auto
  have acc: "accepts ?step r" using assms(3) by (simp add: accepts_def)
  obtain w' where d: "deliver_signal (errand_consumers E) i ?step ''phone_call'' t w = (w', Inr True)" "ended_once i w w'"
    by (rule deliver_ended [OF assms(1,2) acc phone_handler]) (simp, rule phone_not_done [OF nd])
  from d(2) have st: "stepped i (\<lambda>r r'. ended (wf_state r')) w w'" "reports w' = Suc (reports w)"
    by (simp_all add: ended_once_def)
  from stepped_find [OF st(1) assms(1)] obtain r' where
    r': "find_wf i w' = Some r'" "same_errand r r'" "ended (wf_state r')" by blast
  have tm: "oor (so_state t) [] \<in> set call_terminal" using t(4) by (auto simp: call_terminal_def)
  have ot: "otruthy (so_errand t)" "oor (so_errand t) [] = i" using t(2) assms(5) by (simp_all add: otruthy_def)
  have "resume_errand_after_call (errand_consumers E) t w = (w', Inr ())"
    using tm ot t(3) d(1) by (simp add: resume_errand_after_call_def run_bind run_ret)
  moreover have "max ?step 0 = ?step" using assms(4) by simp
  ultimately have "resume_rows (errand_consumers E) now [r] n w = (w', Inr (n + 1))"
    using assms(6) t(1) by (simp add: run_bind run_gets run_ret i)
  with r' st(2) show ?thesis by blast
qed

definition overdue_call :: "phone_session \<Rightarrow> phone_session" where
  "overdue_call s = s\<lparr>ps_errand_id := Some ''wf_9'', ps_errand_step := Some 1, ps_state := ''confirmed'', ps_created_at := 0\<rparr>"

lemma unfinished_call_ends_errand_witness:
  "\<exists>w' r'. resume_rows (errand_consumers sample_env) 3600000001 [sample_run ''wf_9'' ''waiting'' 2] 0
       ((sample_runs [sample_run ''wf_9'' ''waiting'' 2])\<lparr>w_sessions := map overdue_call (w_sessions sample_planned)\<rparr>)
       = (w', Inr 1) \<and> find_wf ''wf_9'' w' = Some r' \<and> ended (wf_state r')"
proof -
  let ?r = "sample_run ''wf_9'' ''waiting'' 2"
  have "map ps_id (w_sessions sample_planned) = [''call_0'']" by code_simp
  then obtain s where s: "w_sessions sample_planned = [s]" by auto
  let ?w = "(sample_runs [?r])\<lparr>w_sessions := map overdue_call (w_sessions sample_planned)\<rparr>"
  have f: "find_wf ''wf_9'' ?w = Some ?r" using find_sample_run [of "''wf_9''"] by (simp add: find_wf_def)
  have l: "latest_call ''wf_9'' (wf_cursor ?r - 1) ?w = Some (overdue_call s)"
    by (simp add: latest_call_def s) (simp add: overdue_call_def)
  have u: "ps_state (overdue_call s) \<in> {''failed'', ''declined'', ''expired''} \<or>
      ps_state (overdue_call s) \<notin> set call_terminal \<and> ps_created_at (overdue_call s) < 3600000001 - errand_wait_deadline_us"
    by (simp add: overdue_call_def call_terminal_def errand_wait_deadline_us_def minute_us_def)
  from unfinished_call_ends_errand [OF f _ _ _ _ l u, of sample_env 0] show ?thesis by auto
qed

end
