(* ===== verification/Run_Interleaving.thy ===== *)
theory Run_Interleaving
  imports Errand_Sweeps
begin

section \<open>Interleaved drives\<close>

text \<open>
  The handlers of the errand service share one event loop: accepting a signal (load, check, claim)
  runs without a pause, a drive pauses at every step, and taps, sweeps and other drives happen in
  between. Here a drive is split in two: its start, which takes the snapshot and the claim, and its
  end, which writes the run's row. Between the two anything else may happen.
\<close>

subsection \<open>The two halves of a delivery\<close>

definition accept_signal :: "string \<Rightarrow> int \<Rightarrow> world \<Rightarrow> (world \<times> workflow_run) option" where
  "accept_signal i step w = (case load_run i w of
      None \<Rightarrow> None
    | Some run \<Rightarrow>
        if rn_state run = ''waiting'' \<and> rn_cursor run = step + 1 then
          (case claim_running i w of (w', b) \<Rightarrow> if b then Some (w', run) else None)
        else None)"

definition resume_run :: "consumers \<Rightarrow> workflow_run \<Rightarrow> int \<Rightarrow> string \<Rightarrow> signal_outcome \<Rightarrow> (world, bool) io" where
  "resume_run cons run step kind outcome =
     (case (cons (rn_kind run), deferred_handler builtin_handlers kind) of
        (Some c, Some h) \<Rightarrow>
          catch (bind (resume_claimed cons run c h step outcome) (\<lambda>_. ret True))
            (\<lambda>e. bind (crash_report cons run ''The workflow hit a snag after the last step.'' ''resume crashed'')
               (\<lambda>_. ret True))
      | _ \<Rightarrow> bind (modify (save_terminal (rn_id run) ''failed'' (Some ''no consumer/handler for this signal''))) (\<lambda>_. ret False))"

definition start_run :: "consumers \<Rightarrow> workflow_run \<Rightarrow> (world, bool) io" where
  "start_run cons run =
     (case cons (rn_kind run) of
        None \<Rightarrow> bind (modify (save_terminal (rn_id run) ''failed'' (Some ''no consumer for this workflow kind''))) (\<lambda>_. ret False)
      | Some c \<Rightarrow>
          catch (bind (drive_run cons run c (rn_results run)) (\<lambda>_. ret True))
            (\<lambda>e. bind (crash_report cons run ''The workflow couldn't run.'' ''run crashed'') (\<lambda>_. ret True)))"

lemma deliver_split:
  "deliver_signal cons i step kind out w =
     (case accept_signal i step w of None \<Rightarrow> (w, Inr False) | Some (w', run) \<Rightarrow> resume_run cons run step kind out w')"
  by (auto simp: deliver_signal_def accept_signal_def resume_run_def run_bind run_gets run_ret load_run_def claim_running_def
      dest: find_wf_id split: option.split)

lemma run_workflow_split:
  "run_workflow cons i w = (case load_run i w of None \<Rightarrow> (w, Inr False) | Some run \<Rightarrow> start_run cons run w)"
  by (auto simp: run_workflow_def start_run_def run_bind run_gets run_ret load_run_def dest: find_wf_id split: option.split)

lemma accept_signal_iff:
  "accept_signal i step w = Some (w', run) \<longleftrightarrow>
     (\<exists>r. find_wf i w = Some r \<and> accepts step r \<and> run = run_of r \<and> w' = upd_wf i (set_wf_state ''running'') w)"
  by (auto simp: accept_signal_def load_run_def claim_running_def accepts_def split: option.splits)

lemma resume_run_settled:
  assumes "rn_kind run = ''errand''" "k \<in> {''phone_call'', ''timer'', ''approval''}"
  obtains w' d where "resume_run (errand_consumers E) run step k out w = (w', Inr True)"
    "settled (rn_id run) (rn_cursor run) (rn_results run @ [d]) w w'"
proof -
  from deferred_builtin [OF assms(2)] obtain h where h: "deferred_handler builtin_handlers k = Some h" by blast
  let ?m = "resume_claimed (errand_consumers E) run (errand_consumer E) h step out"
  from resume_settles [OF assms(1), of w E h step out] obtain d where
    s: "settles run (rn_results run @ [d]) w (?m w)" by blast
  from drive_guarded [where m = ?m, OF assms(1) s, of E] obtain w' where
    "catch (bind ?m (\<lambda>_. ret True))
      (\<lambda>e. bind (crash_report (errand_consumers E) run ''The workflow hit a snag after the last step.'' ''resume crashed'')
         (\<lambda>_. ret True)) w = (w', Inr True)" "settled (rn_id run) (rn_cursor run) (rn_results run @ [d]) w w'" by blast
  with assms h show ?thesis by (intro that [of w' d]) (simp_all add: resume_run_def)
qed

lemma start_run_settled:
  assumes "rn_kind run = ''errand''"
  obtains w' where "start_run (errand_consumers E) run w = (w', Inr True)"
    "settled (rn_id run) (rn_cursor run) (rn_results run) w w'"
proof -
  let ?m = "drive_run (errand_consumers E) run (errand_consumer E) (rn_results run)"
  from drive_guarded [where m = ?m, OF assms drive_settles [OF assms], of E] obtain w' where
    "catch (bind ?m (\<lambda>_. ret True))
      (\<lambda>e. bind (crash_report (errand_consumers E) run ''The workflow couldn't run.'' ''run crashed'') (\<lambda>_. ret True)) w
      = (w', Inr True)" "settled (rn_id run) (rn_cursor run) (rn_results run) w w'" by blast
  with assms show ?thesis by (intro that [of w']) (simp_all add: start_run_def)
qed

subsection \<open>The engine as a system of drivers\<close>

datatype driver = Resume workflow_run int string signal_outcome | Start workflow_run

fun driver_run :: "driver \<Rightarrow> workflow_run" where
  "driver_run (Resume run step k out) = run"
| "driver_run (Start run) = run"

fun finish_drive :: "env \<Rightarrow> driver \<Rightarrow> world \<Rightarrow> world" where
  "finish_drive E (Resume run step k out) w = fst (resume_run (errand_consumers E) run step k out w)"
| "finish_drive E (Start run) w = fst (start_run (errand_consumers E) run w)"

record system =
  sy_world :: world
  sy_drivers :: "driver list"
  sy_accepted :: "(string \<times> int) list"

inductive engine_step :: "env \<Rightarrow> system \<Rightarrow> system \<Rightarrow> bool" for E where
  signal: "accept_signal i step (sy_world s) = Some (w', run) \<Longrightarrow> k \<in> {''phone_call'', ''timer'', ''approval''} \<Longrightarrow>
     engine_step E s \<lparr>sy_world = w', sy_drivers = sy_drivers s @ [Resume run step k out],
       sy_accepted = (i, step) # sy_accepted s\<rparr>"
| launch: "fresh_runs (sy_world s) \<Longrightarrow> approvable ctx row (sy_world s) \<Longrightarrow>
     load_run (next_wf (sy_world s)) (launched_world (cx_household ctx) row (sy_world s)) = Some run \<Longrightarrow>
     engine_step E s \<lparr>sy_world = launched_world (cx_household ctx) row (sy_world s),
       sy_drivers = sy_drivers s @ [Start run], sy_accepted = sy_accepted s\<rparr>"
| finish: "sy_drivers s = before @ d # after \<Longrightarrow>
     engine_step E s \<lparr>sy_world = finish_drive E d (sy_world s), sy_drivers = before @ after, sy_accepted = sy_accepted s\<rparr>"
| stop: "engine_step E s (s\<lparr>sy_world := fst (handle_stop_errand ctx (sy_world s))\<rparr>)"
| discard: "engine_step E s (s\<lparr>sy_world := fst (handle_discard_errand_plan ctx (sy_world s))\<rparr>)"
| tick: "w_now (sy_world s) \<le> t \<Longrightarrow> engine_step E s (s\<lparr>sy_world := (sy_world s)\<lparr>w_now := t\<rparr>\<rparr>)"

inductive_cases engine_stepE: "engine_step E s s'"

subsection \<open>The invariant\<close>

definition running :: "world \<Rightarrow> string \<Rightarrow> bool" where
  "running w i \<longleftrightarrow> (\<exists>r. find_wf i w = Some r \<and> wf_state r = ''running'')"

fun driver_ok :: "world \<Rightarrow> driver \<Rightarrow> bool" where
  "driver_ok w (Resume run step k out) \<longleftrightarrow> rn_kind run = ''errand'' \<and> k \<in> {''phone_call'', ''timer'', ''approval''} \<and>
     (\<exists>r. find_wf (rn_id run) w = Some r \<and> wf_cursor r = rn_cursor run)"
| "driver_ok w (Start run) \<longleftrightarrow> rn_kind run = ''errand'' \<and>
     (\<exists>r. find_wf (rn_id run) w = Some r \<and> wf_cursor r = rn_cursor run)"

definition consumed :: "world \<Rightarrow> string \<times> int \<Rightarrow> bool" where
  "consumed w a \<longleftrightarrow> (\<exists>r. find_wf (fst a) w = Some r \<and>
     (wf_state r = ''running'' \<longrightarrow> snd a + 1 \<le> wf_cursor r) \<and> (wf_state r = ''waiting'' \<longrightarrow> snd a + 1 < wf_cursor r))"

definition driver_id :: "driver \<Rightarrow> string" where
  "driver_id d = rn_id (driver_run d)"

definition engine_inv :: "system \<Rightarrow> bool" where
  "engine_inv s \<longleftrightarrow> all_errands (sy_world s) \<and> distinct (map wf_id (w_workflows (sy_world s))) \<and>
     distinct (map driver_id (sy_drivers s)) \<and>
     (\<forall>i. i \<in> driver_id ` set (sy_drivers s) \<longleftrightarrow> running (sy_world s) i) \<and>
     (\<forall>d \<in> set (sy_drivers s). driver_ok (sy_world s) d) \<and>
     distinct (sy_accepted s) \<and> (\<forall>a \<in> set (sy_accepted s). consumed (sy_world s) a)"

lemma driver_ok_other:
  "driver_ok w d \<Longrightarrow> find_wf (driver_id d) w' = find_wf (driver_id d) w \<Longrightarrow> driver_ok w' d"
  by (cases d) (auto simp: driver_id_def)

lemma consumed_other: "consumed w a \<Longrightarrow> find_wf (fst a) w' = find_wf (fst a) w \<Longrightarrow> consumed w' a"
  by (simp add: consumed_def)

text \<open>A step of one run's row: what it must do for the invariant to survive.\<close>

lemma engine_inv_row:
  assumes "engine_inv s" "find_wf i (sy_world s) = Some r" "find_wf i w' = Some r'" "wf_kind r' = ''errand''"
    "\<And>j. j \<noteq> i \<Longrightarrow> find_wf j w' = find_wf j (sy_world s)" "map wf_id (w_workflows w') = map wf_id (w_workflows (sy_world s))"
    "distinct (map driver_id ds)" "\<And>j. j \<in> driver_id ` set ds \<longleftrightarrow> (if j = i then wf_state r' = ''running'' else running (sy_world s) j)"
    "\<And>d. d \<in> set ds \<Longrightarrow> driver_id d = i \<Longrightarrow> driver_ok w' d"
    "\<And>d. d \<in> set ds \<Longrightarrow> driver_id d \<noteq> i \<Longrightarrow> d \<in> set (sy_drivers s)"
    "distinct acc" "\<And>a. a \<in> set acc \<Longrightarrow> fst a = i \<Longrightarrow> consumed w' a"
    "\<And>a. a \<in> set acc \<Longrightarrow> fst a \<noteq> i \<Longrightarrow> a \<in> set (sy_accepted s)"
  shows "engine_inv \<lparr>sy_world = w', sy_drivers = ds, sy_accepted = acc\<rparr>"
proof -
  from assms(1) have inv: "all_errands (sy_world s)" "distinct (map wf_id (w_workflows (sy_world s)))"
    "\<And>d. d \<in> set (sy_drivers s) \<Longrightarrow> driver_ok (sy_world s) d" "\<And>a. a \<in> set (sy_accepted s) \<Longrightarrow> consumed (sy_world s) a"
    unfolding engine_inv_def by simp_all
  have "all_errands w'" unfolding all_errands_def
  proof (intro allI impI)
    fix j r0 assume j: "find_wf j w' = Some r0"
    show "wf_kind r0 = ''errand''"
    proof (cases "j = i")
      case True
      with j assms(3) have "r0 = r'" by simp
      with assms(4) show ?thesis by simp
    next
      case False
      with j assms(5) [of j] have "find_wf j (sy_world s) = Some r0" by simp
      with inv(1) show ?thesis unfolding all_errands_def by blast
    qed
  qed
  moreover have "(j \<in> driver_id ` set ds) = running w' j" for j
    using assms(3) assms(5,8) [of j] by (auto simp: running_def)
  moreover have "driver_ok w' d" if d: "d \<in> set ds" for d
  proof (cases "driver_id d = i")
    case True
    with d assms(9) show ?thesis by blast
  next
    case False
    with d assms(10) have "driver_ok (sy_world s) d" by (intro inv(3)) blast
    then show ?thesis by (rule driver_ok_other) (rule assms(5) [OF False])
  qed
  moreover have "consumed w' a" if a: "a \<in> set acc" for a
  proof (cases "fst a = i")
    case True
    with a assms(12) show ?thesis by blast
  next
    case False
    with a assms(13) have "consumed (sy_world s) a" by (intro inv(4)) blast
    then show ?thesis by (rule consumed_other) (rule assms(5) [OF False])
  qed
  ultimately show ?thesis using inv(2) assms(6,7,11) unfolding engine_inv_def by simp
qed

lemma stop_rows:
  assumes "distinct (map wf_id (w_workflows w))"
  shows "w_workflows (fst (handle_stop_errand ctx w)) = w_workflows w \<or>
    (\<exists>r. find_wf (wf_id r) w = Some r \<and> wf_state r = ''waiting'' \<and>
       w_workflows (fst (handle_stop_errand ctx w)) = w_workflows (upd_wf (wf_id r) (set_wf_state ''cancelled'') w))"
proof (cases "find_wf_by (dget (cx_data ctx) ''workflow_id'') (cx_household ctx) w")
  case (Some r)
  from find_wf_by_unique [OF assms Some] have f: "find_wf (wf_id r) w = Some r" .
  show ?thesis
  proof (cases "wf_state r = ''waiting''")
    case True
    with Some f show ?thesis
      by (intro disjI2 exI [of _ r]) (simp add: handle_stop_errand_def run_bind run_gets run_modify run_ret
        decline_pending_workflow_calls_def cancel_linked_plans_def)
  qed (use Some in \<open>simp add: handle_stop_errand_def run_bind run_gets run_ret\<close>)
qed (simp add: handle_stop_errand_def run_bind run_gets run_ret)

lemma discard_rows:
  "w_workflows (fst (handle_discard_errand_plan ctx w)) = w_workflows w \<or>
    (\<exists>r. find_wf (wf_id r) w = Some r \<and> wf_state r = ''waiting'' \<and>
       w_workflows (fst (handle_discard_errand_plan ctx w)) = w_workflows (upd_wf (wf_id r) (set_wf_state ''cancelled'') w))"
proof (cases "find_plan_by (dget (cx_data ctx) ''plan_id'') (cx_household ctx) w")
  case (Some row)
  show ?thesis
  proof (cases "pl_state row = ''draft''")
    case False
    have lr: "(if pl_state row = ''launched'' \<and> otruthy (pl_workflow row) then find_wf (oor (pl_workflow row) []) w else None)
        = linked_run row w" by (simp add: linked_run_def)
    have id: "linked_run row w = Some r \<Longrightarrow> find_wf (wf_id r) w = Some r" for r
      by (auto simp: linked_run_def find_wf_id split: if_splits)
    show ?thesis
    proof (cases "linked_run row w")
      case None
      with Some False show ?thesis
        by (simp add: handle_discard_errand_plan_def run_bind run_gets run_ret lr)
    next
      case r: (Some r)
      with Some False id [OF r] show ?thesis
        by (cases "wf_state r = ''waiting''") (auto simp: handle_discard_errand_plan_def run_bind run_gets run_modify run_ret lr
            decline_pending_workflow_calls_def intro!: exI [of _ r])
    qed
  qed (use Some in \<open>simp add: handle_discard_errand_plan_def run_bind run_gets run_modify run_ret\<close>)
qed (simp add: handle_discard_errand_plan_def run_bind run_gets run_ret)

lemma find_wf_cong: "w_workflows w' = w_workflows w \<Longrightarrow> find_wf i w' = find_wf i w"
  by (simp add: find_wf_def)

lemma engine_inv_same:
  assumes "engine_inv s" "w_workflows w' = w_workflows (sy_world s)"
  shows "engine_inv (s\<lparr>sy_world := w'\<rparr>)"
proof -
  have f: "find_wf i w' = find_wf i (sy_world s)" for i using assms(2) by (rule find_wf_cong)
  have "driver_ok w' d = driver_ok (sy_world s) d" for d by (cases d) (simp_all add: f)
  moreover have "consumed w' a = consumed (sy_world s) a" for a by (simp add: consumed_def f)
  ultimately show ?thesis using assms by (simp add: engine_inv_def all_errands_def running_def f)
qed

lemma engine_inv_cancel:
  assumes "engine_inv s" "find_wf i (sy_world s) = Some r" "wf_state r = ''waiting''"
    "w_workflows w' = w_workflows (upd_wf i (set_wf_state ''cancelled'') (sy_world s))"
  shows "engine_inv (s\<lparr>sy_world := w'\<rparr>)"
proof -
  let ?r = "set_wf_state ''cancelled'' r"
  have f: "find_wf j w' = (if j = i then Some ?r else find_wf j (sy_world s))" for j
    using find_wf_cong [OF assms(4)] assms(2) by (simp add: find_wf_upd)
  have m: "map wf_id (w_workflows w') = map wf_id (w_workflows (sy_world s))"
    by (simp add: assms(4) upd_wf_def map_upd_where)
  from assms(1) have e: "distinct (map driver_id (sy_drivers s))" "\<And>j. j \<in> driver_id ` set (sy_drivers s) \<longleftrightarrow> running (sy_world s) j"
    "distinct (sy_accepted s)" "all_errands (sy_world s)" unfolding engine_inv_def by simp_all
  have nr: "\<not> running (sy_world s) i" using assms(2,3) by (simp add: running_def)
  have "engine_inv \<lparr>sy_world = w', sy_drivers = sy_drivers s, sy_accepted = sy_accepted s\<rparr>"
  proof (rule engine_inv_row [OF assms(1,2), of w' ?r])
    show "wf_kind ?r = ''errand''" using e(4) assms(2) by (simp add: all_errands_def set_wf_state_def)
    show "j \<in> driver_id ` set (sy_drivers s) \<longleftrightarrow> (if j = i then wf_state ?r = ''running'' else running (sy_world s) j)" for j
      using e(2) nr by (simp add: set_wf_state_def)
    show "driver_ok w' d" if "d \<in> set (sy_drivers s)" "driver_id d = i" for d
      using that e(2) [of i] nr by auto
    show "consumed w' a" if "a \<in> set (sy_accepted s)" "fst a = i" for a
      using that f [of i] by (simp add: consumed_def set_wf_state_def)
  qed (use f m e in simp_all)
  then show ?thesis by (cases s) simp
qed

lemma engine_inv_signal:
  assumes "engine_inv s" "accept_signal i step (sy_world s) = Some (w', run)" "k \<in> {''phone_call'', ''timer'', ''approval''}"
  shows "engine_inv \<lparr>sy_world = w', sy_drivers = sy_drivers s @ [Resume run step k out],
       sy_accepted = (i, step) # sy_accepted s\<rparr>"
proof -
  from assms(2) obtain r where r: "find_wf i (sy_world s) = Some r" "accepts step r" "run = run_of r"
    "w' = upd_wf i (set_wf_state ''running'') (sy_world s)" by (auto simp: accept_signal_iff)
  let ?r = "set_wf_state ''running'' r"
  have st: "wf_state r = ''waiting''" "wf_cursor r = step + 1" using r(2) by (simp_all add: accepts_def)
  have i: "wf_id r = i" using r(1) by (rule find_wf_id)
  have f: "find_wf j w' = (if j = i then Some ?r else find_wf j (sy_world s))" for j
    using r(1) by (simp add: r(4) find_wf_upd)
  have m: "map wf_id (w_workflows w') = map wf_id (w_workflows (sy_world s))"
    by (simp add: r(4) upd_wf_def map_upd_where)
  from assms(1) have e: "distinct (map driver_id (sy_drivers s))" "\<And>j. j \<in> driver_id ` set (sy_drivers s) \<longleftrightarrow> running (sy_world s) j"
    "distinct (sy_accepted s)" "all_errands (sy_world s)" "\<And>a. a \<in> set (sy_accepted s) \<Longrightarrow> consumed (sy_world s) a"
    unfolding engine_inv_def by simp_all
  have nr: "\<not> running (sy_world s) i" using r(1) st by (simp add: running_def)
  have kind: "wf_kind r = ''errand''" using e(4) r(1) by (simp add: all_errands_def)
  have id: "driver_id (Resume run step k out) = i" by (simp add: driver_id_def r(3) i)
  have ok: "driver_ok w' (Resume run step k out)"
    using f [of i] kind assms(3) by (simp add: r(3) i set_wf_state_def)
  have na: "(i, step) \<notin> set (sy_accepted s)"
    using e(5) [of "(i, step)"] r(1) st by (auto simp: consumed_def)
  have old: "driver_id d \<noteq> i" if "d \<in> set (sy_drivers s)" for d
    using that e(2) [of i] nr by auto
  show ?thesis
  proof (rule engine_inv_row [OF assms(1) r(1), of w' ?r])
    show "wf_kind ?r = ''errand''" using kind by (simp add: set_wf_state_def)
    show "j \<in> driver_id ` set (sy_drivers s @ [Resume run step k out]) \<longleftrightarrow>
        (if j = i then wf_state ?r = ''running'' else running (sy_world s) j)" for j
      using e(2) [of j] nr id by (auto simp: set_wf_state_def)
    show "distinct (map driver_id (sy_drivers s @ [Resume run step k out]))" using e(1) id by (auto dest: old)
    show "driver_ok w' d" if "d \<in> set (sy_drivers s @ [Resume run step k out])" "driver_id d = i" for d
      using that old ok by auto
    show "d \<in> set (sy_drivers s)" if "d \<in> set (sy_drivers s @ [Resume run step k out])" "driver_id d \<noteq> i" for d
      using that id by auto
    show "consumed w' a" if "a \<in> set ((i, step) # sy_accepted s)" "fst a = i" for a
    proof (cases "a = (i, step)")
      case True
      then show ?thesis using f [of i] st by (simp add: consumed_def set_wf_state_def)
    next
      case False
      with that e(5) have "consumed (sy_world s) a" by simp
      with that(2) f [of i] r(1) st show ?thesis by (auto simp: consumed_def set_wf_state_def)
    qed
    show "distinct ((i, step) # sy_accepted s)" using na e(3) by simp
  qed (use f m in auto)
qed

lemma engine_inv_finish:
  assumes "engine_inv s" "sy_drivers s = before @ d # after"
  shows "engine_inv \<lparr>sy_world = finish_drive E d (sy_world s), sy_drivers = before @ after, sy_accepted = sy_accepted s\<rparr>"
proof -
  let ?w = "sy_world s" and ?i = "driver_id d" and ?run = "driver_run d"
  let ?w' = "finish_drive E d ?w"
  from assms(1) have e: "distinct (map driver_id (sy_drivers s))" "\<And>j. j \<in> driver_id ` set (sy_drivers s) \<longleftrightarrow> running ?w j"
    "distinct (sy_accepted s)" "all_errands ?w" "\<And>a. a \<in> set (sy_accepted s) \<Longrightarrow> consumed ?w a"
    "\<And>d. d \<in> set (sy_drivers s) \<Longrightarrow> driver_ok ?w d" unfolding engine_inv_def by simp_all
  have d: "d \<in> set (sy_drivers s)" using assms(2) by simp
  from e(6) [OF d] obtain r where r: "find_wf ?i ?w = Some r" "wf_cursor r = rn_cursor ?run"
    by (cases d) (auto simp: driver_id_def)
  from e(2) [of ?i] d r(1) have run: "wf_state r = ''running''" by (auto simp: running_def)
  have "\<exists>p. settled ?i (rn_cursor ?run) p ?w ?w'"
  proof (cases d)
    case (Resume run step k out)
    with e(6) [OF d] have "rn_kind run = ''errand''" "k \<in> {''phone_call'', ''timer'', ''approval''}" by simp_all
    then obtain w' o' where "resume_run (errand_consumers E) run step k out ?w = (w', Inr True)"
      "settled (rn_id run) (rn_cursor run) (rn_results run @ [o']) ?w w'" by (rule resume_run_settled)
    then show ?thesis by (intro exI [of _ "rn_results run @ [o']"]) (simp add: Resume driver_id_def)
  next
    case (Start run)
    with e(6) [OF d] have "rn_kind run = ''errand''" by simp
    then obtain w' where "start_run (errand_consumers E) run ?w = (w', Inr True)"
      "settled (rn_id run) (rn_cursor run) (rn_results run) ?w w'" by (rule start_run_settled)
    then show ?thesis by (intro exI [of _ "rn_results run"]) (simp add: Start driver_id_def)
  qed
  then obtain p where st: "settled ?i (rn_cursor ?run) p ?w ?w'" by blast
  from settled_find [OF st r(1)] obtain r' where r': "find_wf ?i ?w' = Some r'" "same_errand r r'"
    "further (rn_cursor ?run) p r' \<or> ended (wf_state r')" "\<And>j. j \<noteq> ?i \<Longrightarrow> find_wf j ?w' = find_wf j ?w"
    by (auto simp: settled_row_def)
  have m: "map wf_id (w_workflows ?w') = map wf_id (w_workflows ?w)"
    using st same_errand_id by (auto simp: settled_def ended_once_def stepped_def map_upd_where)
  have nr: "wf_state r' \<noteq> ''running''" using r'(3) by (auto simp: further_def ended_def)
  have others: "driver_id d' \<noteq> ?i" "d' \<in> set (sy_drivers s)" if "d' \<in> set (before @ after)" for d'
    using that e(1) assms(2) by (auto simp: rev_image_eqI)
  have ids: "j \<in> driver_id ` set (before @ after) \<longleftrightarrow> j \<noteq> ?i \<and> j \<in> driver_id ` set (sy_drivers s)" for j
    using others assms(2) by auto
  show ?thesis
  proof (rule engine_inv_row [OF assms(1) r(1) r'(1)])
    show "wf_kind r' = ''errand''" using e(4) r(1) r'(2) same_errand_kind by (simp add: all_errands_def)
    show "distinct (map driver_id (before @ after))" using e(1) assms(2) by auto
    show "j \<in> driver_id ` set (before @ after) \<longleftrightarrow> (if j = ?i then wf_state r' = ''running'' else running ?w j)" for j
      using ids [of j] e(2) [of j] nr by simp
    show "driver_ok ?w' d'" if "d' \<in> set (before @ after)" "driver_id d' = ?i" for d' using that others(1) by blast
    show "consumed ?w' a" if "a \<in> set (sy_accepted s)" "fst a = ?i" for a
      using e(5) [OF that(1)] that(2) r r'(1,3) run nr by (auto simp: consumed_def further_def ended_def)
  qed (use r'(4) m others e(3) in simp_all)
qed

lemma engine_inv_launch:
  assumes "engine_inv s" "fresh_runs (sy_world s)" "approvable ctx row (sy_world s)"
    "load_run (next_wf (sy_world s)) (launched_world hh row (sy_world s)) = Some run"
  shows "engine_inv \<lparr>sy_world = launched_world hh row (sy_world s), sy_drivers = sy_drivers s @ [Start run],
       sy_accepted = sy_accepted s\<rparr>"
proof -
  let ?w = "sy_world s" and ?i = "next_wf (sy_world s)"
  let ?w' = "launched_world hh row ?w" and ?r = "run_from_plan hh ?i row"
  from assms(1) have e: "distinct (map driver_id (sy_drivers s))" "\<And>j. j \<in> driver_id ` set (sy_drivers s) \<longleftrightarrow> running ?w j"
    "distinct (sy_accepted s)" "all_errands ?w" "\<And>a. a \<in> set (sy_accepted s) \<Longrightarrow> consumed ?w a"
    "\<And>d. d \<in> set (sy_drivers s) \<Longrightarrow> driver_ok ?w d" "distinct (map wf_id (w_workflows ?w))"
    unfolding engine_inv_def by simp_all
  note f = find_wf_launched [OF assms(2), of _ hh row]
  have none: "find_wf ?i ?w = None" using assms(2) by (simp add: fresh_runs_def)
  have run: "run = run_of ?r" using assms(4) by (simp add: load_run_def f)
  have r: "wf_id ?r = ?i" "wf_kind ?r = ''errand''" "wf_state ?r = ''running''" by (simp_all add: run_from_plan_def)
  have id: "driver_id (Start run) = ?i" by (simp add: driver_id_def run r)
  have nr: "\<not> running ?w ?i" using none by (simp add: running_def)
  have old: "driver_id d \<noteq> ?i" if "d \<in> set (sy_drivers s)" for d
    using imageI [OF that, of driver_id] e(2) [of ?i] nr by metis
  have "?i \<notin> set (map wf_id (w_workflows ?w))" using none by (auto simp: find_wf_def find_None_iff)
  then have "distinct (map wf_id (w_workflows ?w'))" using e(7) by (simp add: launched_world_def run_from_plan_def)
  moreover have "all_errands ?w'" using e(4) r(2) by (auto simp: all_errands_def f)
  moreover have "distinct (map driver_id (sy_drivers s @ [Start run]))" using e(1) id by (auto dest: old)
  moreover have "j \<in> driver_id ` set (sy_drivers s @ [Start run]) \<longleftrightarrow> running ?w' j" for j
    using e(2) [of j] id r(3) by (auto simp: running_def f)
  moreover have "driver_ok ?w' d" if "d \<in> set (sy_drivers s @ [Start run])" for d
  proof (cases "d = Start run")
    case True
    then show ?thesis using r by (simp add: run f)
  next
    case False
    with that have d: "d \<in> set (sy_drivers s)" by simp
    from e(6) [OF d] show ?thesis by (rule driver_ok_other) (simp add: f old [OF d])
  qed
  moreover have "consumed ?w' a" if a: "a \<in> set (sy_accepted s)" for a
  proof -
    from e(5) [OF a] none have "fst a \<noteq> ?i" by (auto simp: consumed_def)
    then have same: "find_wf (fst a) ?w' = find_wf (fst a) ?w" by (simp add: f)
    from e(5) [OF a] same show ?thesis by (rule consumed_other)
  qed
  ultimately show ?thesis using e(3) unfolding engine_inv_def by simp
qed

lemma engine_inv_step: "engine_step E s s' \<Longrightarrow> engine_inv s \<Longrightarrow> engine_inv s'"
proof (induction rule: engine_step.induct)
  case (signal i step s w' run k out)
  from engine_inv_signal [OF signal(3,1,2)] show ?case .
next
  case (launch s ctx row run)
  from engine_inv_launch [OF launch(4,1,2,3)] show ?case .
next
  case (finish s before d after)
  from engine_inv_finish [OF finish(2,1)] show ?case .
next
  case (stop s ctx)
  then have "distinct (map wf_id (w_workflows (sy_world s)))" by (simp add: engine_inv_def)
  from stop_rows [OF this, of ctx] show ?case
    by (elim disjE exE conjE) (rule engine_inv_same [OF stop], assumption, rule engine_inv_cancel [OF stop])
next
  case (discard s ctx)
  from discard_rows [of ctx "sy_world s"] show ?case
    by (elim disjE exE conjE) (rule engine_inv_same [OF discard], assumption, rule engine_inv_cancel [OF discard])
next
  case (tick s t)
  show ?case by (rule engine_inv_same [OF tick(2)]) simp
qed

lemma engine_inv_steps: "(engine_step E)\<^sup>*\<^sup>* s s' \<Longrightarrow> engine_inv s \<Longrightarrow> engine_inv s'"
  by (induction rule: rtranclp_induct) (auto intro: engine_inv_step)

subsection \<open>Properties\<close>

definition calm :: "world \<Rightarrow> bool" where
  "calm w \<longleftrightarrow> all_errands w \<and> distinct (map wf_id (w_workflows w)) \<and> (\<forall>i. \<not> running w i)"

definition engine_start :: "world \<Rightarrow> system" where
  "engine_start w = \<lparr>sy_world = w, sy_drivers = [], sy_accepted = []\<rparr>"

lemma engine_inv_start: "calm w \<Longrightarrow> engine_inv (engine_start w)"
  by (simp add: calm_def engine_inv_def engine_start_def)

text \<open>
  C2. From a database in which nothing runs, after any interleaving of signals, Run taps, ends of
  drives, Stop and Cancel taps and passing time, every running errand is driven by exactly one drive,
  and every drive belongs to a running errand: no two drives ever share a run, none is orphaned, and
  none is cancelled under its driver.
\<close>

theorem one_driver_per_run:
  assumes "calm w" and "(engine_step E)\<^sup>*\<^sup>* (engine_start w) s"
  shows "distinct (map driver_id (sy_drivers s)) \<and>
    driver_id ` set (sy_drivers s) = {i. \<exists>r. find_wf i (sy_world s) = Some r \<and> wf_state r = ''running''}"
proof -
  have "engine_inv s" by (rule engine_inv_steps [OF assms(2) engine_inv_start [OF assms(1)]])
  then have d: "distinct (map driver_id (sy_drivers s))" and e: "\<And>i. i \<in> driver_id ` set (sy_drivers s) \<longleftrightarrow> running (sy_world s) i"
    by (simp_all add: engine_inv_def)
  have "driver_id ` set (sy_drivers s) = {i. running (sy_world s) i}" by (rule set_eqI) (simp only: e mem_Collect_eq)
  with d show ?thesis unfolding running_def by (rule conjI)
qed

text \<open>
  C6. In any such interleaving no step of a run is resumed twice: the pairs of run and step whose
  signal was accepted are pairwise different, although the call event, the sweeps and the taps may
  all deliver.
\<close>

theorem signal_accepted_once:
  assumes "calm w" and "(engine_step E)\<^sup>*\<^sup>* (engine_start w) s"
  shows "distinct (sy_accepted s)"
  using engine_inv_steps [OF assms(2) engine_inv_start [OF assms(1)]] by (simp add: engine_inv_def)

lemma sample_calm: "calm (sample_runs [sample_run ''wf_9'' ''waiting'' 2])"
  by (simp add: calm_def all_errands_def running_def find_wf_def sample_runs_def)

lemma sample_accepted:
  "\<exists>w' run. engine_step sample_env (engine_start (sample_runs [sample_run ''wf_9'' ''waiting'' 2]))
     \<lparr>sy_world = w', sy_drivers = [Resume run 1 ''timer'' (marker ''fired'')], sy_accepted = [(''wf_9'', 1)]\<rparr> \<and>
     rn_id run = ''wf_9''"
proof -
  let ?w = "sample_runs [sample_run ''wf_9'' ''waiting'' 2]" and ?r = "sample_run ''wf_9'' ''waiting'' 2"
  have f: "find_wf ''wf_9'' ?w = Some ?r" by (rule find_sample_run)
  have a: "accept_signal ''wf_9'' 1 (sy_world (engine_start ?w)) = Some (upd_wf ''wf_9'' (set_wf_state ''running'') ?w, run_of ?r)"
    using f by (simp add: accept_signal_iff engine_start_def accepts_def)
  have id: "rn_id (run_of ?r) = ''wf_9''" by simp
  have "engine_step sample_env (engine_start ?w) \<lparr>sy_world = upd_wf ''wf_9'' (set_wf_state ''running'') ?w,
      sy_drivers = [Resume (run_of ?r) 1 ''timer'' (marker ''fired'')], sy_accepted = [(''wf_9'', 1)]\<rparr>"
    using engine_step.signal [OF a, of "''timer''" sample_env "marker ''fired''"] by (simp add: engine_start_def)
  then show ?thesis using id by blast
qed

theorem one_driver_per_run_witness:
  "\<exists>s. (engine_step sample_env)\<^sup>*\<^sup>* (engine_start (sample_runs [sample_run ''wf_9'' ''waiting'' 2])) s \<and>
     {i. \<exists>r. find_wf i (sy_world s) = Some r \<and> wf_state r = ''running''} = {''wf_9''}"
proof -
  from sample_accepted obtain w' run where
    st: "engine_step sample_env (engine_start (sample_runs [sample_run ''wf_9'' ''waiting'' 2]))
     \<lparr>sy_world = w', sy_drivers = [Resume run 1 ''timer'' (marker ''fired'')], sy_accepted = [(''wf_9'', 1)]\<rparr>" (is "engine_step _ _ ?s")
    and id: "rn_id run = ''wf_9''" by blast
  from st have r: "(engine_step sample_env)\<^sup>*\<^sup>* (engine_start (sample_runs [sample_run ''wf_9'' ''waiting'' 2])) ?s" by (rule r_into_rtranclp)
  from one_driver_per_run [OF sample_calm r] have
    "{i. \<exists>r. find_wf i (sy_world ?s) = Some r \<and> wf_state r = ''running''} = {''wf_9''}" using id by (simp add: driver_id_def)
  with r show ?thesis by (intro exI conjI)
qed

theorem signal_accepted_once_witness:
  "\<exists>s. (engine_step sample_env)\<^sup>*\<^sup>* (engine_start (sample_runs [sample_run ''wf_9'' ''waiting'' 2])) s \<and>
     sy_accepted s = [(''wf_9'', 1)] \<and> distinct (sy_accepted s)"
proof -
  from sample_accepted obtain w' run where
    "engine_step sample_env (engine_start (sample_runs [sample_run ''wf_9'' ''waiting'' 2]))
     \<lparr>sy_world = w', sy_drivers = [Resume run 1 ''timer'' (marker ''fired'')], sy_accepted = [(''wf_9'', 1)]\<rparr>" (is "engine_step _ _ ?s")
    by blast
  then have r: "(engine_step sample_env)\<^sup>*\<^sup>* (engine_start (sample_runs [sample_run ''wf_9'' ''waiting'' 2])) ?s" by (rule r_into_rtranclp)
  have "sy_accepted ?s = [(''wf_9'', 1)] \<and> distinct (sy_accepted ?s)"
    using signal_accepted_once [OF sample_calm r] by simp
  with r show ?thesis by blast
qed

text \<open>
  The claim alone does not protect a snapshot: it asks for the waiting state only, so a delivery that
  loaded the run before another delivery moved it on, and claims afterwards, still succeeds and would
  drive from the old cursor. Loading and claiming must not be separated.
\<close>

definition two_waits :: workflow where
  "two_waits = (sample_run ''wf_9'' ''waiting'' 1)\<lparr>wf_waiting_on := Some ''timer'',
     wf_steps := [PDict [(''command'', PStr ''wait_for''), (''args'', PDict [(''delay_seconds'', PInt 5)])],
                  PDict [(''command'', PStr ''wait_for''), (''args'', PDict [(''delay_seconds'', PInt 5)])]]\<rparr>"

lemma claim_after_move:
  "map_option rn_cursor (load_run ''wf_9'' (sample_runs [two_waits])) = Some 1 \<and>
   (let w1 = fst (deliver_signal (errand_consumers sample_env) ''wf_9'' 0 ''timer'' (marker ''fired'') (sample_runs [two_waits]))
    in map_option rn_cursor (load_run ''wf_9'' w1) = Some 2 \<and> snd (claim_running ''wf_9'' w1))"
  by code_simp

end
