(* ===== verification/Inbox_Notify.thy ===== *)
theory Inbox_Notify
  imports CC_State
begin

section \<open>The notification client and the tables of the attention broker\<close>

text \<open>
  \<^verbatim>\<open>app/services/inbox_notification_service.py\<close> up to the adapter cards, over a state \<open>hub\<close> that also
  holds the attention tables of \<^verbatim>\<open>app/models.py\<close>. A request to the notification service is put at the
  head of \<open>hb_http\<close>; the service's answer (the decoded JSON body, or the exception the client raises,
  bad status codes included) is a function of the requests so far.
\<close>

subsection \<open>State\<close>

datatype http = InboxPost pydict | NotifyPost pydict

record att_event =
  ev_id :: string
  ev_household :: string
  ev_source :: string
  ev_category :: string
  ev_title :: string
  ev_summary :: string
  ev_key :: string
  ev_user :: "int option"
  ev_node :: "string option"
  ev_payload :: "pydict option"
  ev_created :: int

text \<open>An entry of the gate trail: gate, result, detail.\<close>

type_synonym gate_entry = "string \<times> string \<times> string"

record att_delivery =
  dl_id :: string
  dl_event :: string
  dl_household :: string
  dl_rung :: string
  dl_trail :: "gate_entry list"
  dl_withheld :: "string option"
  dl_inbox :: "string option"
  dl_outcome :: "string option"
  dl_created :: int

record att_consent =
  co_household :: string
  co_source :: string
  co_category :: string
  co_max :: string

record att_tier =
  ti_household :: string
  ti_source :: string
  ti_category :: string
  ti_tier :: int
  ti_reason :: "string option"

record hub =
  hb_now :: int
  hb_seq :: nat
  hb_events :: "att_event list"
  hb_deliveries :: "att_delivery list"
  hb_consents :: "att_consent list"
  hb_tiers :: "att_tier list"
  hb_http :: "http list"

type_synonym notify_service = "http list \<Rightarrow> exc + pyval"

definition http_post :: "notify_service \<Rightarrow> http \<Rightarrow> (hub, pyval) io" where
  "http_post S r = (\<lambda>h. let l = r # hb_http h in (h\<lparr>hb_http := l\<rparr>, S l))"

text \<open>\<open>d["id"]\<close> on a decoded body, as a nullable text.\<close>

definition body_id :: "pyval \<Rightarrow> exc + string option" where
  "body_id v = rbind (as_dict v) (\<lambda>d.
     if dhas d ''id'' then Inr (if dget d ''id'' = PNone then None else Some (py_str (dget d ''id'')))
     else Inl (KeyError ''id''))"

subsection \<open>Requests\<close>

definition resolve_push_target :: "string \<Rightarrow> int option \<Rightarrow> string \<Rightarrow> string \<times> string" where
  "resolve_push_target target user hh =
     (if target = ''user'' then (case user of None \<Rightarrow> (''household'', hh) | Some u \<Rightarrow> (''user'', int_str u))
      else (''household'', hh))"

definition opt_int :: "int option \<Rightarrow> pyval" where
  "opt_int u = (case u of None \<Rightarrow> PNone | Some n \<Rightarrow> PInt n)"

definition inbox_payload :: "string \<Rightarrow> string \<Rightarrow> string \<Rightarrow> string \<Rightarrow> string \<Rightarrow> pydict \<Rightarrow> int option \<Rightarrow> pydict" where
  "inbox_payload hh title summary body cat meta user =
     [(''household_id'', PStr hh), (''title'', PStr title), (''summary'', PStr summary), (''body'', PStr body),
      (''category'', PStr cat), (''source_service'', PStr ''jarvis-command-center''), (''user_id'', opt_int user),
      (''metadata'', PDict meta)]"

definition notify_payload :: "string \<times> string \<Rightarrow> string \<Rightarrow> string \<Rightarrow> pydict \<Rightarrow> string \<Rightarrow> pydict" where
  "notify_payload tgt title body data cat =
     [(''target_type'', PStr (fst tgt)), (''target_id'', PStr (snd tgt)), (''title'', PStr title),
      (''body'', PStr body), (''data'', PDict data), (''priority'', PStr ''high''), (''category'', PStr cat)]"

text \<open>A push is best effort: whatever the service answers, nothing is raised.\<close>

definition send_push :: "notify_service \<Rightarrow> pydict \<Rightarrow> (hub, unit) io" where
  "send_push S payload = catch (bind (http_post S (NotifyPost payload)) (\<lambda>_. ret ())) (\<lambda>_. ret ())"

definition post_inbox_item_sync :: "notify_service \<Rightarrow> string \<Rightarrow> string \<Rightarrow> string \<Rightarrow> string \<Rightarrow> string \<Rightarrow> pydict
    \<Rightarrow> int option \<Rightarrow> bool \<Rightarrow> string \<Rightarrow> (hub, string option) io" where
  "post_inbox_item_sync S hh title summary body cat meta user push target =
     bind (catch (bind (http_post S (InboxPost (inbox_payload hh title summary body cat meta user)))
                    (\<lambda>v. bind (lift (body_id v)) (\<lambda>i. ret (Some i))))
             (\<lambda>_. ret None)) (\<lambda>posted.
     case posted of
       None \<Rightarrow> ret None
     | Some item \<Rightarrow>
         bind (if push
               then send_push S (notify_payload (resolve_push_target target user hh) title summary
                      [(''type'', PStr cat), (''inbox_item_id'', opt_str item)] cat)
               else ret ()) (\<lambda>_. ret item))"

definition push_confirmation_to_inbox :: "notify_service \<Rightarrow> string \<Rightarrow> int option \<Rightarrow> string \<Rightarrow> string \<Rightarrow> string \<Rightarrow> string
    \<Rightarrow> string \<Rightarrow> pyval list \<Rightarrow> pyval \<Rightarrow> string \<Rightarrow> (hub, string option) io" where
  "push_confirmation_to_inbox S hh user node title summary body cmd actions draft target =
     catch
       (bind (http_post S (InboxPost (inbox_payload hh title summary body ''confirmation''
               [(''command_name'', PStr cmd), (''node_id'', PStr node), (''actions'', PList actions), (''draft'', draft)]
               user))) (\<lambda>v.
        bind (lift (body_id v)) (\<lambda>item.
        bind (send_push S (notify_payload (resolve_push_target target user hh) title summary
               [(''type'', PStr ''confirmation''), (''inbox_item_id'', opt_str item)] ''confirmation'')) (\<lambda>_.
        ret item))))
       (\<lambda>_. ret None)"

definition send_link_push_sync :: "notify_service \<Rightarrow> string \<Rightarrow> int \<Rightarrow> string \<Rightarrow> string \<Rightarrow> string \<Rightarrow> (hub, bool) io" where
  "send_link_push_sync S hh user url title body =
     bind (catch (bind (http_post S (InboxPost (inbox_payload hh title body url ''link''
                    [(''url'', PStr url), (''type'', PStr ''open_url'')] (Some user))))
                    (\<lambda>v. bind (lift (as_dict v)) (\<lambda>d. ret (Some (dget d ''id'')))))
             (\<lambda>_. ret None)) (\<lambda>posted.
     case posted of
       None \<Rightarrow> ret False
     | Some item \<Rightarrow>
         bind (send_push S [(''target_type'', PStr ''user''), (''target_id'', PStr (int_str user)),
                 (''title'', PStr title), (''body'', PStr body), (''category'', PStr ''link''), (''priority'', PStr ''high''),
                 (''data'', PDict [(''type'', PStr ''open_url''), (''url'', PStr url), (''household_id'', PStr hh),
                                   (''inbox_item_id'', item)])])
           (\<lambda>_. ret True))"

subsection \<open>What a request does to the state\<close>

fun is_notify :: "http \<Rightarrow> bool" where
  "is_notify (NotifyPost _) = True"
| "is_notify (InboxPost _) = False"

text \<open>
  \<open>sends S h h' ps\<close>: from \<open>h\<close> to \<open>h'\<close> exactly the requests \<open>ps\<close> (oldest first) were made and nothing
  else changed.
\<close>

definition sends :: "hub \<Rightarrow> hub \<Rightarrow> http list \<Rightarrow> bool" where
  "sends h h' ps \<longleftrightarrow> h' = h\<lparr>hb_http := rev ps @ hb_http h\<rparr>"

lemma sends_refl [simp]: "sends h h []"
  by (simp add: sends_def)

lemma sends_trans: "sends h h1 ps \<Longrightarrow> sends h1 h2 qs \<Longrightarrow> sends h h2 (ps @ qs)"
  by (simp add: sends_def)

lemma run_http_post: "http_post S r h = (h\<lparr>hb_http := r # hb_http h\<rparr>, S (r # hb_http h))"
  by (simp add: http_post_def Let_def)

lemma run_send_push: "send_push S p h = (h\<lparr>hb_http := NotifyPost p # hb_http h\<rparr>, Inr ())"
  by (simp add: send_push_def io_simps run_http_post split: sum.split)

text \<open>
  One call makes one inbox request, and behind it a push only when the card was stored. It never
  raises.
\<close>

lemma post_inbox_item_cases:
  obtains (lost) "post_inbox_item_sync S hh t s b c m u push tgt h =
      (h\<lparr>hb_http := InboxPost (inbox_payload hh t s b c m u) # hb_http h\<rparr>, Inr None)"
    | (silent) item where "\<not> push" "post_inbox_item_sync S hh t s b c m u push tgt h =
      (h\<lparr>hb_http := InboxPost (inbox_payload hh t s b c m u) # hb_http h\<rparr>, Inr item)"
    | (pushed) p item where "push" "post_inbox_item_sync S hh t s b c m u push tgt h =
      (h\<lparr>hb_http := NotifyPost p # InboxPost (inbox_payload hh t s b c m u) # hb_http h\<rparr>, Inr item)"
proof (cases "rbind (S (InboxPost (inbox_payload hh t s b c m u) # hb_http h)) body_id")
  case (Inl e)
  then show ?thesis
    using lost by (auto simp: post_inbox_item_sync_def io_simps run_http_post rbind_def split: sum.splits)
next
  case (Inr item)
  show ?thesis
  proof (cases push)
    case True
    with Inr show ?thesis
      using pushed by (auto simp: post_inbox_item_sync_def io_simps run_http_post run_send_push rbind_def split: sum.splits)
  next
    case False
    with Inr show ?thesis
      using silent by (auto simp: post_inbox_item_sync_def io_simps run_http_post rbind_def split: sum.splits)
  qed
qed

lemma push_confirmation_cases:
  obtains (lost) p where "push_confirmation_to_inbox S hh u n t s b c acts dr tgt h =
      (h\<lparr>hb_http := InboxPost p # hb_http h\<rparr>, Inr None)"
    | (pushed) p q item where "push_confirmation_to_inbox S hh u n t s b c acts dr tgt h =
      (h\<lparr>hb_http := NotifyPost q # InboxPost p # hb_http h\<rparr>, Inr item)"
proof -
  let ?p = "inbox_payload hh t s b ''confirmation''
      [(''command_name'', PStr c), (''node_id'', PStr n), (''actions'', PList acts), (''draft'', dr)] u"
  show ?thesis
  proof (cases "rbind (S (InboxPost ?p # hb_http h)) body_id")
    case (Inl e)
    then show ?thesis
      using lost by (auto simp: push_confirmation_to_inbox_def io_simps run_http_post rbind_def split: sum.splits)
  next
    case (Inr item)
    then show ?thesis
      using pushed by (auto simp: push_confirmation_to_inbox_def io_simps run_http_post run_send_push rbind_def split: sum.splits)
  qed
qed

lemma send_link_cases:
  obtains (lost) p where "send_link_push_sync S hh u url t b h = (h\<lparr>hb_http := InboxPost p # hb_http h\<rparr>, Inr False)"
    | (pushed) p q where "send_link_push_sync S hh u url t b h =
      (h\<lparr>hb_http := NotifyPost q # InboxPost p # hb_http h\<rparr>, Inr True)"
proof -
  let ?p = "inbox_payload hh t b url ''link'' [(''url'', PStr url), (''type'', PStr ''open_url'')] (Some u)"
  show ?thesis
  proof (cases "rbind (S (InboxPost ?p # hb_http h)) as_dict")
    case (Inl e)
    then show ?thesis
      using lost by (auto simp: send_link_push_sync_def io_simps run_http_post rbind_def split: sum.splits)
  next
    case (Inr d)
    then show ?thesis
      using pushed by (auto simp: send_link_push_sync_def io_simps run_http_post run_send_push rbind_def split: sum.splits)
  qed
qed

end
