(* ===== verification/Py_Words.thy ===== *)
theory Py_Words
  imports Py_Time
begin

section \<open>Python text, continued: words and fixed fields\<close>

subsection \<open>Character classes on the bits of a character\<close>

text \<open>Equations for evaluation: a character's class from its bits, without computing its code.\<close>

lemma is_digit_code [code]: "is_digit (Char b0 b1 b2 b3 b4 b5 b6 b7) \<longleftrightarrow> \<not> b7 \<and> \<not> b6 \<and> b5 \<and> b4 \<and> (\<not> b3 \<or> \<not> b2 \<and> \<not> b1)"
  by (cases b0; cases b1; cases b2; cases b3; cases b4; cases b5; cases b6; cases b7; simp add: is_digit_def)

lemma lower_char_code [code]:
  "lower_char (Char b0 b1 b2 b3 b4 b5 b6 b7) =
     (if b6 \<and> \<not> b5 \<and> (if b7 then \<not> (b4 \<and> b2 \<and> b1 \<and> b0) else (b0 \<or> b1 \<or> b2 \<or> b3 \<or> b4) \<and> \<not> (b4 \<and> b3 \<and> (b2 \<or> b1 \<and> b0)))
      then Char b0 b1 b2 b3 b4 True b6 b7 else Char b0 b1 b2 b3 b4 b5 b6 b7)"
  by (cases b0; cases b1; cases b2; cases b3; cases b4; cases b5; cases b6; cases b7; simp add: lower_char_def char_of_def bit_0)

lemma is_space_code [code]:
  "is_space (Char b0 b1 b2 b3 b4 b5 b6 b7) \<longleftrightarrow>
     (if b7 then Char b0 b1 b2 b3 b4 b5 b6 b7 = CHR 0x85 \<or> Char b0 b1 b2 b3 b4 b5 b6 b7 = CHR 0xA0
      else \<not> b6 \<and> (if b5 then \<not> b4 \<and> \<not> b3 \<and> \<not> b2 \<and> \<not> b1 \<and> \<not> b0
        else b3 \<and> (if b4 then b2 else (b0 \<or> b1) \<and> \<not> (b2 \<and> b1) \<or> b2 \<and> \<not> b1)))"
  by (cases b0; cases b1; cases b2; cases b3; cases b4; cases b5; cases b6; cases b7; simp add: is_space_def)

subsection \<open>Words\<close>

text \<open>\<open>str.split()\<close> without a separator: the maximal runs of characters that are not white space.\<close>

fun words_at :: "string \<Rightarrow> string \<Rightarrow> string list" where
  "words_at cur [] = (if cur = [] then [] else [cur])"
| "words_at cur (c # cs) =
     (if is_space c then (if cur = [] then words_at [] cs else cur # words_at [] cs)
      else words_at (cur @ [c]) cs)"

definition words :: "string \<Rightarrow> string list" where
  "words s = words_at [] s"

text \<open>\<open>str.isdigit\<close>: superscript two, three and one count, although \<open>int\<close> refuses them.\<close>

definition py_isdigit :: "string \<Rightarrow> bool" where
  "py_isdigit s \<longleftrightarrow> s \<noteq> [] \<and> list_all (\<lambda>c. is_digit c \<or> code c \<in> {178, 179, 185}) s"

text \<open>\<open>bool(x) in settings\<close>: true itself, or the spellings true, 1, yes.\<close>

definition setting_truthy :: "pyval \<Rightarrow> bool" where
  "setting_truthy v \<longleftrightarrow> v = PBool True \<or> lower (py_str v) \<in> {''true'', ''1'', ''yes''}"

text \<open>\<open>s or d\<close> on text.\<close>

definition or_else :: "string \<Rightarrow> string \<Rightarrow> string" where
  "or_else s d = (if s = [] then d else s)"

text \<open>Text between single quotes.\<close>

definition squoted :: "string \<Rightarrow> string" where
  "squoted s = [CHR 0x27] @ s @ [CHR 0x27]"

lemma words_at_space_free: "list_all (\<lambda>c. \<not> is_space c) cur \<Longrightarrow>
  list_all (\<lambda>w. w \<noteq> [] \<and> list_all (\<lambda>c. \<not> is_space c) w) (words_at cur s)"
  by (induction cur s rule: words_at.induct) auto

lemma words_space_free: "w \<in> set (words s) \<Longrightarrow> w \<noteq> [] \<and> (\<forall>c \<in> set w. \<not> is_space c)"
  using words_at_space_free [of "[]" s] by (auto simp: words_def list_all_iff)

subsection \<open>Replacing\<close>

text \<open>\<open>str.replace\<close> for a non-empty pattern: occurrences from the left, without overlap.\<close>

fun replace_fuel :: "nat \<Rightarrow> string \<Rightarrow> string \<Rightarrow> string \<Rightarrow> string" where
  "replace_fuel 0 p q s = s"
| "replace_fuel (Suc n) p q [] = []"
| "replace_fuel (Suc n) p q (c # s) =
     (if starts_with (c # s) p then q @ replace_fuel n p q (drop (length p) (c # s)) else c # replace_fuel n p q s)"

definition replace_sub :: "string \<Rightarrow> string \<Rightarrow> string \<Rightarrow> string" where
  "replace_sub p q s = replace_fuel (length s) p q s"

subsection \<open>Time zones and printed dates\<close>

text \<open>
  A zone of the time zone database: the offset from UTC at an instant, and the offset a wall clock
  time is read with.
\<close>

record zone =
  zo_at :: "int \<Rightarrow> int"
  zo_wall :: "int \<Rightarrow> int"

definition utc_zone :: zone where
  "utc_zone = \<lparr>zo_at = (\<lambda>_. 0), zo_wall = (\<lambda>_. 0)\<rparr>"

definition to_local :: "zone \<Rightarrow> int \<Rightarrow> int" where
  "to_local z u = u + zo_at z u"

definition from_local :: "zone \<Rightarrow> int \<Rightarrow> int" where
  "from_local z l = l - zo_wall z l"

text \<open>Monday is 0.\<close>

definition weekday_of :: "int \<Rightarrow> int" where
  "weekday_of u = (u div day_us + 3) mod 7"

definition hour_of :: "int \<Rightarrow> int" where
  "hour_of u = u mod day_us div (60 * minute_us)"

definition minute_of :: "int \<Rightarrow> int" where
  "minute_of u = u mod day_us div minute_us mod 60"

definition weekday_names :: "string list" where
  "weekday_names = [''Monday'', ''Tuesday'', ''Wednesday'', ''Thursday'', ''Friday'', ''Saturday'', ''Sunday'']"

definition month_names3 :: "string list" where
  "month_names3 = [''Jan'', ''Feb'', ''Mar'', ''Apr'', ''May'', ''Jun'', ''Jul'', ''Aug'', ''Sep'', ''Oct'', ''Nov'', ''Dec'']"

text \<open>The twelve hour clock with minutes: \<open>%-I:%M %p\<close>.\<close>

definition clock12 :: "int \<Rightarrow> string" where
  "clock12 u = (let h = hour_of u; h12 = (if h mod 12 = 0 then 12 else h mod 12) in
     int_str h12 @ '':'' @ pad 2 (int_str (minute_of u)) @ (if h < 12 then '' AM'' else '' PM''))"

text \<open>\<open>%a %b %-d, %-I:%M %p\<close>\<close>

definition short_date_time :: "int \<Rightarrow> string" where
  "short_date_time u = (case civil_from_days (u div day_us) of (y, m, d) \<Rightarrow>
     take 3 (weekday_names ! nat (weekday_of u)) @ '' '' @ month_names3 ! nat (m - 1) @ '' '' @ int_str d @ '', '' @ clock12 u)"

lemma weekday_bounds: "0 \<le> weekday_of u \<and> weekday_of u < 7"
  by (simp add: weekday_of_def)

lemma date_examples:
  "short_date_time 1785943260000000 = ''Wed Aug 5, 3:21 PM''"
  "replace_sub '':00'' [] ''9:00 AM'' = ''9 AM''"
  by code_simp+

end
