(* ===== verification/Attention_Broker.thy ===== *)
theory Attention_Broker
  imports Inbox_Notify Py_Words
begin

section \<open>The attention broker\<close>

text \<open>
  \<^verbatim>\<open>app/services/attention_broker.py\<close>: every proactive message is recorded and routed down the ladder
  push, inbox, journal through the gates deduplication, consent, trust tier, budget and quiet hours.
  A setting is a function of its key and the household. The time zone database gives for a zone the
  offset from UTC at an instant and the offset of a wall clock time; a name it does not know stands
  for UTC. The digest of the fallback key is a parameter. An exception leaves the tables as they
  were, since nothing was committed.
\<close>

record broker_env =
  be_setting :: "string \<Rightarrow> string \<Rightarrow> pyval"
  be_zone :: "string \<Rightarrow> zone option"
  be_sha256 :: "string \<Rightarrow> string"

subsection \<open>The ladder\<close>

definition rungs :: "string list" where
  "rungs = [''journal'', ''inbox'', ''push'', ''led_invite'', ''speak'']"

definition tier_to_max_rung :: "(int \<times> string) list" where
  "tier_to_max_rung = [(0, ''journal''), (1, ''inbox''), (2, ''push''), (3, ''push'')]"

definition rung_index :: "string \<Rightarrow> nat" where
  "rung_index r = length (takeWhile (\<lambda>x. x \<noteq> r) rungs)"

definition demote :: "string \<Rightarrow> string" where
  "demote r = rungs ! (rung_index r - 1)"

definition cap :: "string \<Rightarrow> string \<Rightarrow> string" where
  "cap r limit = (if rung_index r \<le> rung_index limit then r else limit)"

definition fallback_dedupe_key :: "broker_env \<Rightarrow> string \<Rightarrow> string" where
  "fallback_dedupe_key E title =
     ''title:'' @ take 32 (be_sha256 E (join '' '' (words (lower (strip title)))))"

subsection \<open>Settings and the household's clock\<close>

definition attention_enabled :: "broker_env \<Rightarrow> string \<Rightarrow> bool" where
  "attention_enabled E hh = setting_truthy (be_setting E ''attention.enabled'' hh)"

definition household_zone :: "broker_env \<Rightarrow> string \<Rightarrow> zone" where
  "household_zone E hh =
     (case be_zone E (py_str (por (be_setting E ''attention.timezone'' hh) (PStr ''UTC''))) of
        None \<Rightarrow> utc_zone | Some z \<Rightarrow> z)"

definition household_now :: "broker_env \<Rightarrow> string \<Rightarrow> int \<Rightarrow> int" where
  "household_now E hh now = now + zo_at (household_zone E hh) now"

definition local_day_start :: "broker_env \<Rightarrow> string \<Rightarrow> int \<Rightarrow> int" where
  "local_day_start E hh now =
     (let midnight = day_start_us (household_now E hh now) in midnight - zo_wall (household_zone E hh) midnight)"

definition clock_of :: "string \<Rightarrow> int option" where
  "clock_of s = (case split_char CHR '':'' (strip s) of
      h # m # _ \<Rightarrow>
        (case (int_of_str h, int_of_str m) of
           (Some hi, Some mi) \<Rightarrow>
             if 0 \<le> hi \<and> hi < 24 \<and> 0 \<le> mi \<and> mi < 60 then Some ((hi * 60 + mi) * minute_us) else None
         | _ \<Rightarrow> None)
    | _ \<Rightarrow> None)"

definition in_quiet_hours :: "string \<Rightarrow> int \<Rightarrow> bool" where
  "in_quiet_hours spec local_now = (case split_char CHR ''-'' spec of
      [a, b] \<Rightarrow>
        (case (clock_of a, clock_of b) of
           (Some start, Some stop) \<Rightarrow>
             (let t = local_now mod day_us in
              if start \<le> stop then start \<le> t \<and> t < stop else t \<ge> start \<or> t < stop)
         | _ \<Rightarrow> False)
    | _ \<Rightarrow> False)"

definition safety_categories :: "broker_env \<Rightarrow> string \<Rightarrow> string list" where
  "safety_categories E hh =
     map (\<lambda>p. lower (strip p))
       (filter (\<lambda>p. strip p \<noteq> [])
         (split_char CHR '','' (py_str (por (be_setting E ''attention.safety_categories'' hh) (PStr [])))))"

definition int_setting :: "broker_env \<Rightarrow> string \<Rightarrow> string \<Rightarrow> int \<Rightarrow> int" where
  "int_setting E k hh d = (case py_int (be_setting E k hh) of Inl _ \<Rightarrow> d | Inr n \<Rightarrow> n)"

subsection \<open>The gates\<close>

text \<open>What the gates pass along: the rung so far, the gate that withheld, and the trail.\<close>

record routing =
  rt_rung :: string
  rt_withheld :: "string option"
  rt_trail :: "gate_entry list"

definition gate_pass :: "gate_entry \<Rightarrow> string \<Rightarrow> string option \<Rightarrow> routing \<Rightarrow> routing" where
  "gate_pass e rung by rt = \<lparr>rt_rung = rung, rt_withheld = by, rt_trail = rt_trail rt @ [e]\<rparr>"

definition find_consent :: "hub \<Rightarrow> string \<Rightarrow> string \<Rightarrow> string \<Rightarrow> att_consent option" where
  "find_consent h hh src cat =
     find (\<lambda>c. co_household c = hh \<and> co_source c = src \<and> co_category c = cat) (hb_consents h)"

definition find_tier :: "hub \<Rightarrow> string \<Rightarrow> string \<Rightarrow> string \<Rightarrow> att_tier option" where
  "find_tier h hh src cat =
     find (\<lambda>t. ti_household t = hh \<and> ti_source t = src \<and> ti_category t = cat) (hb_tiers h)"

definition known_rung :: "string \<Rightarrow> string" where
  "known_rung r = (if r \<in> set rungs then r else ''push'')"

definition consent_gate :: "att_consent option \<Rightarrow> routing \<Rightarrow> routing" where
  "consent_gate consent rt =
     (let limit = (case consent of None \<Rightarrow> ''push'' | Some c \<Rightarrow> co_max c) in
      if limit = ''never'' then gate_pass (''consent'', ''withheld'', ''ceiling is '' @ squoted ''never'') ''journal'' (Some ''consent'') rt
      else let capped = cap (rt_rung rt) (known_rung limit) in
        gate_pass (''consent'', if capped = rt_rung rt then ''pass'' else ''demoted'', ''ceiling '' @ limit)
          capped None rt)"

definition tier_ceiling :: "int \<Rightarrow> string" where
  "tier_ceiling t = (case map_of tier_to_max_rung t of None \<Rightarrow> ''push'' | Some r \<Rightarrow> r)"

definition tier_gate :: "att_tier option \<Rightarrow> routing \<Rightarrow> routing" where
  "tier_gate tier rt =
     (if rt_withheld rt \<noteq> None then rt
      else (case tier of
        None \<Rightarrow> gate_pass (''tier'', ''pass'', ''no tier row (default)'') (rt_rung rt) None rt
      | Some row \<Rightarrow>
          let capped = cap (rt_rung rt) (tier_ceiling (ti_tier row)) in
          gate_pass (''tier'', if capped = rt_rung rt then ''pass'' else ''demoted'',
              ''T'' @ int_str (ti_tier row) @
              (if otruthy (ti_reason row) then '' ('' @ oor (ti_reason row) [] @ '')'' else []))
            capped (if capped = ''journal'' then Some ''tier'' else None) rt))"

definition delivered_on :: "hub \<Rightarrow> string \<Rightarrow> int \<Rightarrow> att_delivery list" where
  "delivered_on h hh day_start = filter (\<lambda>d. dl_household d = hh \<and> day_start \<le> dl_created d) (hb_deliveries h)"

definition event_source :: "hub \<Rightarrow> string \<Rightarrow> string option" where
  "event_source h i = map_option ev_source (find (\<lambda>e. ev_id e = i) (hb_events h))"

definition source_today :: "hub \<Rightarrow> string \<Rightarrow> string \<Rightarrow> int \<Rightarrow> int" where
  "source_today h hh src day_start =
     int (length (filter (\<lambda>d. event_source h (dl_event d) = Some src \<and> dl_rung d \<noteq> ''journal'')
       (delivered_on h hh day_start)))"

definition rung_used :: "hub \<Rightarrow> string \<Rightarrow> int \<Rightarrow> string \<Rightarrow> int" where
  "rung_used h hh day_start rung = int (length (filter (\<lambda>d. dl_rung d = rung) (delivered_on h hh day_start)))"

definition budget_keys :: "(string \<times> string \<times> int) list" where
  "budget_keys = [(''push'', ''attention.daily_push_budget'', 8), (''inbox'', ''attention.daily_inbox_budget'', 30)]"

definition rung_budget :: "broker_env \<Rightarrow> string \<Rightarrow> string \<Rightarrow> int" where
  "rung_budget E hh rung = (case map_of budget_keys rung of None \<Rightarrow> 0 | Some (k, d) \<Rightarrow> int_setting E k hh d)"

lemma rung_index_simps [simp]:
  "rung_index ''journal'' = 0" "rung_index ''inbox'' = 1" "rung_index ''push'' = 2"
  "rung_index ''led_invite'' = 3" "rung_index ''speak'' = 4"
  by (simp_all add: rung_index_def rungs_def)

lemma demote_simps [simp]:
  "demote ''push'' = ''inbox''" "demote ''inbox'' = ''journal''" "demote ''journal'' = ''journal''"
  by (simp_all add: demote_def rungs_def)

lemma budgeted_iff: "rung \<in> fst ` set budget_keys \<longleftrightarrow> rung = ''push'' \<or> rung = ''inbox''"
  by (simp add: budget_keys_def)

lemma demote_less: "rung \<in> fst ` set budget_keys \<Longrightarrow> rung_index (demote rung) < rung_index rung"
  unfolding budgeted_iff by (elim disjE) simp_all

text \<open>The loop goes down the ladder while a rung has a budget that is used up.\<close>

function budget_loop :: "(string \<Rightarrow> int) \<Rightarrow> (string \<Rightarrow> int) \<Rightarrow> string \<Rightarrow> gate_entry list \<Rightarrow> string \<times> gate_entry list" where
  "budget_loop budget used rung trail =
     (if rung \<notin> fst ` set budget_keys then (rung, trail)
      else if used rung < budget rung
        then (rung, trail @ [(''budget'', ''pass'', rung @ '' '' @ int_str (used rung) @ ''/'' @ int_str (budget rung))])
      else budget_loop budget used (demote rung)
             (trail @ [(''budget'', ''demoted'',
                rung @ '' budget '' @ int_str (budget rung) @ ''/day exhausted -> '' @ demote rung)]))"
  by pat_completeness auto

termination
  by (relation "measure (\<lambda>(b, u, rung, t). rung_index rung)") (simp_all add: demote_less)

declare budget_loop.simps [simp del]

definition budget_gate :: "broker_env \<Rightarrow> hub \<Rightarrow> string \<Rightarrow> string \<Rightarrow> int \<Rightarrow> routing \<Rightarrow> routing" where
  "budget_gate E h hh src day_start rt =
     (if rt_withheld rt \<noteq> None then rt
      else let source_cap = int_setting E ''attention.source_daily_cap'' hh 4 in
      if source_today h hh src day_start \<ge> source_cap then
        gate_pass (''budget'', ''withheld'', ''source cap '' @ int_str source_cap @ ''/day reached'') ''journal'' (Some ''budget'') rt
      else (case budget_loop (rung_budget E hh) (rung_used h hh day_start) (rt_rung rt) (rt_trail rt) of
        (rung, trail) \<Rightarrow>
          \<lparr>rt_rung = rung, rt_withheld = (if rung = ''journal'' then Some ''budget'' else None), rt_trail = trail\<rparr>))"

definition quiet_now :: "broker_env \<Rightarrow> string \<Rightarrow> int \<Rightarrow> bool" where
  "quiet_now E hh now =
     (let quiet = por (be_setting E ''attention.quiet_hours'' hh) (PStr []) in
      truthy quiet \<and> in_quiet_hours (py_str quiet) (household_now E hh now))"

definition context_gate :: "broker_env \<Rightarrow> string \<Rightarrow> int \<Rightarrow> routing \<Rightarrow> routing" where
  "context_gate E hh now rt =
     (if rt_withheld rt = None \<and> rt_rung rt = ''push'' then
        if quiet_now E hh now then
          gate_pass (''context'', ''demoted'',
              ''quiet hours '' @ py_str (be_setting E ''attention.quiet_hours'' hh) @ '' -> inbox'') ''inbox'' None rt
        else gate_pass (''context'', ''pass'', ''outside quiet hours'') (rt_rung rt) None rt
      else rt)"
subsection \<open>Recording and routing one event\<close>

record att_request =
  rq_household :: string
  rq_source :: string
  rq_category :: string
  rq_title :: string
  rq_summary :: string
  rq_rung :: string
  rq_key :: "string option"
  rq_user :: "int option"
  rq_node :: "string option"
  rq_payload :: pydict
  rq_force :: bool

definition norm_title :: "att_request \<Rightarrow> string" where
  "norm_title q = or_else (take 500 (strip (rq_title q))) ''(untitled)''"

definition norm_category :: "att_request \<Rightarrow> string" where
  "norm_category q = or_else (take 50 (strip (or_else (rq_category q) ''general''))) ''general''"

definition norm_source :: "att_request \<Rightarrow> string" where
  "norm_source q = take 100 (strip (or_else (rq_source q) (norm_category q)))"

definition event_key :: "broker_env \<Rightarrow> att_request \<Rightarrow> string" where
  "event_key E q = (let own = (case rq_key q of None \<Rightarrow> [] | Some k \<Rightarrow> k) in
     if own = [] then fallback_dedupe_key E (norm_title q) else own)"

definition event_of :: "broker_env \<Rightarrow> att_request \<Rightarrow> hub \<Rightarrow> att_event" where
  "event_of E q h =
     \<lparr>ev_id = ''ev_'' @ nat_str (hb_seq h), ev_household = rq_household q, ev_source = norm_source q,
      ev_category = norm_category q, ev_title = norm_title q, ev_summary = rq_summary q, ev_key = event_key E q,
      ev_user = rq_user q, ev_node = rq_node q,
      ev_payload = (if rq_payload q = [] then None else Some (rq_payload q)), ev_created = hb_now h\<rparr>"

definition hour_us :: int where
  "hour_us = 60 * minute_us"

definition dedupe_window :: "broker_env \<Rightarrow> string \<Rightarrow> int" where
  "dedupe_window E hh = int_setting E ''attention.dedupe_window_hours'' hh 24"

definition window_start :: "broker_env \<Rightarrow> string \<Rightarrow> int \<Rightarrow> exc + int" where
  "window_start E hh now = (let t = now - dedupe_window E hh * hour_us in
     if in_range t then Inr t else Inl (OverflowError ''date value out of range''))"

definition find_duplicate :: "hub \<Rightarrow> att_event \<Rightarrow> int \<Rightarrow> att_event option" where
  "find_duplicate h e start =
     find (\<lambda>x. ev_household x = ev_household e \<and> ev_source x = ev_source e \<and> ev_key x = ev_key e \<and>
               start \<le> ev_created x) (hb_events h)"

definition is_safety :: "broker_env \<Rightarrow> att_request \<Rightarrow> bool" where
  "is_safety E q \<longleftrightarrow> lower (norm_category q) \<in> set (safety_categories E (rq_household q))"

definition dedup_applies :: "broker_env \<Rightarrow> att_request \<Rightarrow> bool" where
  "dedup_applies E q \<longleftrightarrow> \<not> rq_force q \<and> (rq_key q \<noteq> None \<or> \<not> is_safety E q)"

definition asked_rung :: "att_request \<Rightarrow> string" where
  "asked_rung q = cap (known_rung (rq_rung q)) ''push''"

definition governed_route :: "broker_env \<Rightarrow> att_request \<Rightarrow> hub \<Rightarrow> routing" where
  "governed_route E q h =
     (let hh = rq_household q; src = norm_source q; cat = norm_category q;
          start = \<lparr>rt_rung = asked_rung q, rt_withheld = None, rt_trail = []\<rparr> in
      context_gate E hh (hb_now h)
        (budget_gate E h hh src (local_day_start E hh (hb_now h))
          (tier_gate (find_tier h hh src cat)
            (consent_gate (find_consent h hh src cat) start))))"

definition route :: "broker_env \<Rightarrow> att_request \<Rightarrow> att_event option \<Rightarrow> hub \<Rightarrow> routing" where
  "route E q dup h =
     (if rq_force q then
        \<lparr>rt_rung = asked_rung q, rt_withheld = None,
         rt_trail = [(''force'', ''bypass'', ''forced delivery - all gates skipped'')]\<rparr>
      else (case dup of
        Some d \<Rightarrow>
          \<lparr>rt_rung = ''journal'', rt_withheld = Some ''dedupe'',
           rt_trail = [(''dedupe'', ''duplicate'', ''of event '' @ ev_id d @ '' within '' @
             int_str (dedupe_window E (rq_household q)) @ ''h'')]\<rparr>
      | None \<Rightarrow>
          if is_safety E q then
            \<lparr>rt_rung = asked_rung q, rt_withheld = None,
             rt_trail = [(''safety_class'', ''bypass'', ''category '' @ squoted (norm_category q) @ '' is safety-class'' @
               (if rq_key q = None then '' - never deduped without an explicit key'' else []))]\<rparr>
          else governed_route E q h))"

record decision =
  dc_deliver :: bool
  dc_rung :: string
  dc_event :: string
  dc_delivery :: string
  dc_withheld :: "string option"
  dc_trail :: "gate_entry list"

definition delivery_of :: "att_event \<Rightarrow> routing \<Rightarrow> hub \<Rightarrow> att_delivery" where
  "delivery_of e rt h =
     \<lparr>dl_id = ''dl_'' @ nat_str (hb_seq h), dl_event = ev_id e, dl_household = ev_household e, dl_rung = rt_rung rt,
      dl_trail = rt_trail rt, dl_withheld = rt_withheld rt, dl_inbox = None,
      dl_outcome = (if rt_withheld rt = Some ''dedupe'' then Some ''duplicate'' else None), dl_created = hb_now h\<rparr>"

definition record_and_route :: "broker_env \<Rightarrow> att_request \<Rightarrow> (hub, decision) io" where
  "record_and_route E q = (\<lambda>h.
     let e = event_of E q h in
     case (if dedup_applies E q then rbind (window_start E (rq_household q) (hb_now h)) (\<lambda>s. Inr (find_duplicate h e s))
           else Inr None) of
       Inl x \<Rightarrow> (h, Inl x)
     | Inr dup \<Rightarrow>
         let rt = route E q dup h; d = delivery_of e rt h in
         (h\<lparr>hb_seq := Suc (hb_seq h), hb_events := hb_events h @ [e], hb_deliveries := hb_deliveries h @ [d]\<rparr>,
          Inr \<lparr>dc_deliver = (rt_rung rt \<noteq> ''journal''), dc_rung = rt_rung rt, dc_event = ev_id e, dc_delivery = dl_id d,
               dc_withheld = rt_withheld rt, dc_trail = rt_trail rt\<rparr>))"

definition stamp :: "string \<Rightarrow> string option \<Rightarrow> att_delivery \<Rightarrow> att_delivery" where
  "stamp outcome item d =
     d\<lparr>dl_outcome := Some outcome, dl_inbox := (if otruthy item then item else dl_inbox d)\<rparr>"

definition mark_outcome :: "string \<Rightarrow> string \<Rightarrow> string option \<Rightarrow> hub \<Rightarrow> hub" where
  "mark_outcome i outcome item h =
     h\<lparr>hb_deliveries := upd_where (\<lambda>d. dl_id d = i) (stamp outcome item) (hb_deliveries h)\<rparr>"

end
