(* ===== verification/Attention_Facts.thy ===== *)
theory Attention_Facts
  imports Attention_Broker
begin

section \<open>What the attention broker promises\<close>

text \<open>
  The gates against a reference rule, one order of cases over the ceilings, budgets and quiet hours. Safety
  and forced messages are never withheld. The daily push budget holds over any sequence of events.
\<close>

lemmas gate_simps = gate_pass_def consent_gate_def tier_gate_def budget_gate_def context_gate_def

lemma known_rung_in [simp]: "known_rung r \<in> set rungs"
  by (simp add: known_rung_def rungs_def)

lemma rungs_set: "r \<in> set rungs \<longleftrightarrow> r \<in> {''journal'', ''inbox'', ''push'', ''led_invite'', ''speak''}"
  by (simp add: rungs_def)

lemma cap_cases: "cap r l = r \<or> cap r l = l"
  by (simp add: cap_def)

lemma cap_index: "rung_index (cap r l) = min (rung_index r) (rung_index l)"
  by (simp add: cap_def)

lemma rung_eq_iff: "r \<in> set rungs \<Longrightarrow> s \<in> set rungs \<Longrightarrow> r = s \<longleftrightarrow> rung_index r = rung_index s"
  unfolding rungs_set by (elim insertE emptyE) simp_all

lemma rung_le_simps [simp]: "rung_index r = 0 \<longleftrightarrow> r = ''journal''"
  by (simp add: rung_index_def rungs_def)

definition on_ladder :: "string \<Rightarrow> bool" where
  "on_ladder r \<longleftrightarrow> r = ''journal'' \<or> r = ''inbox'' \<or> r = ''push''"

lemma on_ladder_iff: "r \<in> set rungs \<Longrightarrow> on_ladder r \<longleftrightarrow> rung_index r \<le> 2"
  unfolding rungs_set on_ladder_def by (elim insertE emptyE) simp_all

lemma on_ladder_rung: "on_ladder r \<Longrightarrow> r \<in> set rungs"
  by (auto simp: on_ladder_def rungs_set)

lemma cap_ladder: "on_ladder r \<Longrightarrow> l \<in> set rungs \<Longrightarrow> on_ladder (cap r l)"
  using cap_cases [of r l] by (metis cap_index min.coboundedI1 on_ladder_iff on_ladder_rung)

lemma asked_ladder: "on_ladder (asked_rung q)"
proof -
  have "asked_rung q \<in> set rungs" unfolding asked_rung_def using cap_cases by (metis known_rung_in rungs_set insertI1 insert_iff)
  moreover have "rung_index (asked_rung q) \<le> 2" by (simp add: asked_rung_def cap_index)
  ultimately show ?thesis by (simp add: on_ladder_iff)
qed

lemma tier_ceiling_in: "tier_ceiling t \<in> set rungs"
proof (cases "map_of tier_to_max_rung t")
  case (Some r)
  then have "r \<in> snd ` set tier_to_max_rung" by (metis map_of_SomeD image_eqI snd_conv)
  with Some show ?thesis by (auto simp: tier_ceiling_def tier_to_max_rung_def rungs_set)
qed (simp add: tier_ceiling_def rungs_set)

subsection \<open>The budget loop\<close>

lemma budget_loop_journal: "budget_loop b u ''journal'' t = (''journal'', t)"
  by (subst budget_loop.simps) (simp add: budgeted_iff)

lemma budget_loop_inbox:
  "fst (budget_loop b u ''inbox'' t) = (if u ''inbox'' < b ''inbox'' then ''inbox'' else ''journal'')"
  by (subst budget_loop.simps) (simp add: budgeted_iff budget_loop_journal)

lemma budget_loop_push:
  "fst (budget_loop b u ''push'' t) =
     (if u ''push'' < b ''push'' then ''push'' else if u ''inbox'' < b ''inbox'' then ''inbox'' else ''journal'')"
  by (subst budget_loop.simps) (simp add: budgeted_iff budget_loop_inbox)

subsection \<open>The reference\<close>

definition consent_limit :: "att_consent option \<Rightarrow> nat" where
  "consent_limit c = (case c of None \<Rightarrow> 2 | Some c \<Rightarrow> if co_max c = ''never'' then 0 else rung_index (known_rung (co_max c)))"

definition tier_limit :: "att_tier option \<Rightarrow> nat" where
  "tier_limit t = (case t of None \<Rightarrow> 2 | Some t \<Rightarrow> rung_index (tier_ceiling (ti_tier t)))"

definition rung_allowed :: "broker_env \<Rightarrow> att_request \<Rightarrow> hub \<Rightarrow> string \<Rightarrow> bool" where
  "rung_allowed E q h r \<longleftrightarrow>
     (let hh = rq_household q; src = norm_source q; cat = norm_category q; day = local_day_start E hh (hb_now h) in
      rung_index r \<le> rung_index (asked_rung q) \<and>
      rung_index r \<le> consent_limit (find_consent h hh src cat) \<and>
      rung_index r \<le> tier_limit (find_tier h hh src cat) \<and>
      source_today h hh src day < int_setting E ''attention.source_daily_cap'' hh 4 \<and>
      rung_used h hh day r < rung_budget E hh r)"

definition best_rung :: "broker_env \<Rightarrow> att_request \<Rightarrow> hub \<Rightarrow> string" where
  "best_rung E q h =
     (let r = (if rung_allowed E q h ''push'' then ''push'' else if rung_allowed E q h ''inbox'' then ''inbox''
               else ''journal'')
      in if r = ''push'' \<and> quiet_now E (rq_household q) (hb_now h) then ''inbox'' else r)"

lemma consent_gate_limit:
  assumes "on_ladder (rt_rung rt)"
  shows "on_ladder (rt_rung (consent_gate c rt))"
    and "rung_index (rt_rung (consent_gate c rt)) = min (rung_index (rt_rung rt)) (consent_limit c)"
    and "rt_withheld (consent_gate c rt) \<noteq> None \<longrightarrow> rt_rung (consent_gate c rt) = ''journal''"
proof -
  have i: "rung_index (rt_rung rt) \<le> 2" using assms on_ladder_iff on_ladder_rung by blast
  show "on_ladder (rt_rung (consent_gate c rt))"
    using assms by (auto simp: gate_simps Let_def cap_ladder on_ladder_def [of "''journal''"] split: option.split)
  show "rung_index (rt_rung (consent_gate c rt)) = min (rung_index (rt_rung rt)) (consent_limit c)"
    using i by (auto simp: gate_simps Let_def cap_index consent_limit_def known_rung_def rungs_set split: option.split)
  show "rt_withheld (consent_gate c rt) \<noteq> None \<longrightarrow> rt_rung (consent_gate c rt) = ''journal''"
    by (auto simp: gate_simps Let_def split: option.splits if_splits)
qed

lemma tier_gate_limit:
  assumes "on_ladder (rt_rung rt)" and "rt_withheld rt \<noteq> None \<longrightarrow> rt_rung rt = ''journal''"
  shows "on_ladder (rt_rung (tier_gate t rt))"
    and "rung_index (rt_rung (tier_gate t rt)) = min (rung_index (rt_rung rt)) (tier_limit t)"
    and "rt_withheld (tier_gate t rt) \<noteq> None \<longrightarrow> rt_rung (tier_gate t rt) = ''journal''"
proof -
  have i: "rung_index (rt_rung rt) \<le> 2" using assms on_ladder_iff on_ladder_rung by blast
  show "on_ladder (rt_rung (tier_gate t rt))"
    using assms by (auto simp: gate_simps Let_def cap_ladder tier_ceiling_in split: option.split)
  show "rung_index (rt_rung (tier_gate t rt)) = min (rung_index (rt_rung rt)) (tier_limit t)"
    using i assms(2) by (auto simp: gate_simps Let_def cap_index tier_limit_def split: option.split)
  show "rt_withheld (tier_gate t rt) \<noteq> None \<longrightarrow> rt_rung (tier_gate t rt) = ''journal''"
    using assms(2) by (auto simp: gate_simps Let_def split: option.splits if_splits)
qed

lemma budget_gate_rung:
  assumes "on_ladder (rt_rung rt)" and "rt_withheld rt \<noteq> None \<longrightarrow> rt_rung rt = ''journal''"
  shows "rt_rung (budget_gate E h hh src day rt) =
      (if source_today h hh src day \<ge> int_setting E ''attention.source_daily_cap'' hh 4 then ''journal''
       else if rt_rung rt = ''push'' \<and> rung_used h hh day ''push'' < rung_budget E hh ''push'' then ''push''
       else if rt_rung rt \<noteq> ''journal'' \<and> rung_used h hh day ''inbox'' < rung_budget E hh ''inbox'' then ''inbox''
       else ''journal'')" (is "?L = ?R")
    and "rt_withheld (budget_gate E h hh src day rt) = None \<longleftrightarrow> rt_rung (budget_gate E h hh src day rt) \<noteq> ''journal''"
proof -
  show "?L = ?R"
  proof (cases "rt_withheld rt = None")
    case True
    then show ?thesis
      using assms(1) unfolding on_ladder_def
      by (elim disjE)
        (simp_all add: gate_simps Let_def budget_loop_push budget_loop_inbox budget_loop_journal split: prod.split,
         metis budget_loop_inbox fst_conv, metis budget_loop_push fst_conv)
  next
    case False
    with assms(2) show ?thesis by (simp add: gate_simps)
  qed
  show "rt_withheld (budget_gate E h hh src day rt) = None \<longleftrightarrow> rt_rung (budget_gate E h hh src day rt) \<noteq> ''journal''"
    using assms(2) by (auto simp: gate_simps Let_def split: prod.split)
qed

lemma ladder_index_cases:
  assumes "on_ladder r"
  shows "r = ''push'' \<longleftrightarrow> 2 \<le> rung_index r" and "r \<noteq> ''journal'' \<longleftrightarrow> 1 \<le> rung_index r"
  using assms by (auto simp: on_ladder_def)

lemma governed_best: "rt_rung (governed_route E q h) = best_rung E q h"
proof -
  let ?hh = "rq_household q" and ?src = "norm_source q" and ?cat = "norm_category q"
  let ?day = "local_day_start E ?hh (hb_now h)"
  let ?c = "find_consent h ?hh ?src ?cat" and ?t = "find_tier h ?hh ?src ?cat"
  let ?r0 = "\<lparr>rt_rung = asked_rung q, rt_withheld = None, rt_trail = []\<rparr>"
  let ?r1 = "consent_gate ?c ?r0" let ?r2 = "tier_gate ?t ?r1" let ?r3 = "budget_gate E h ?hh ?src ?day ?r2"
  have l0: "on_ladder (rt_rung ?r0)" by (simp add: asked_ladder)
  note c = consent_gate_limit [OF l0, of ?c]
  note t = tier_gate_limit [OF c(1) c(3), of ?t]
  note b = budget_gate_rung [OF t(1) t(3), of E h ?hh ?src ?day]
  have i: "rung_index (rt_rung ?r2) = min (min (rung_index (asked_rung q)) (consent_limit ?c)) (tier_limit ?t)"
    by (simp add: t(2) c(2))
  have r3: "rt_rung ?r3 = (if rung_allowed E q h ''push'' then ''push'' else if rung_allowed E q h ''inbox'' then ''inbox'' else ''journal'')"
    using ladder_index_cases [OF t(1)] by (subst b(1)) (simp add: rung_allowed_def Let_def i)
  have "rt_rung (context_gate E ?hh (hb_now h) ?r3) =
      (if rt_rung ?r3 = ''push'' \<and> quiet_now E ?hh (hb_now h) then ''inbox'' else rt_rung ?r3)"
    using b(2) by (simp add: context_gate_def gate_pass_def)
  then show ?thesis by (simp only: governed_route_def best_rung_def Let_def r3)
qed

lemma governed_withheld:
  "rt_withheld (governed_route E q h) = None \<longleftrightarrow> rt_rung (governed_route E q h) \<noteq> ''journal''"
proof -
  let ?hh = "rq_household q" and ?src = "norm_source q" and ?cat = "norm_category q"
  let ?r0 = "\<lparr>rt_rung = asked_rung q, rt_withheld = None, rt_trail = []\<rparr>"
  have l0: "on_ladder (rt_rung ?r0)" by (simp add: asked_ladder)
  note c = consent_gate_limit [OF l0, of "find_consent h ?hh ?src ?cat"]
  note t = tier_gate_limit [OF c(1) c(3), of "find_tier h ?hh ?src ?cat"]
  note b = budget_gate_rung(2) [OF t(1) t(3), of E h ?hh ?src "local_day_start E ?hh (hb_now h)"]
  show ?thesis using b by (auto simp: governed_route_def Let_def context_gate_def gate_pass_def)
qed

text \<open>The state after an event: one event row and one delivery row more.\<close>

lemma record_and_route_cases:
  obtains (overflow) x where "dedup_applies E q" "window_start E (rq_household q) (hb_now h) = Inl x"
      "record_and_route E q h = (h, Inl x)"
    | (routed) dup d where
      "\<And>s. dedup_applies E q \<Longrightarrow> window_start E (rq_household q) (hb_now h) = Inr s \<Longrightarrow>
         dup = find_duplicate h (event_of E q h) s"
      "\<not> dedup_applies E q \<Longrightarrow> dup = None"
      "record_and_route E q h =
         (h\<lparr>hb_seq := Suc (hb_seq h), hb_events := hb_events h @ [event_of E q h],
            hb_deliveries := hb_deliveries h @ [delivery_of (event_of E q h) (route E q dup h) h]\<rparr>, Inr d)"
      "dc_rung d = rt_rung (route E q dup h)" "dc_withheld d = rt_withheld (route E q dup h)"
      "dc_deliver d \<longleftrightarrow> rt_rung (route E q dup h) \<noteq> ''journal''"
      "dc_event d = ev_id (event_of E q h)" "dc_delivery d = dl_id (delivery_of (event_of E q h) (route E q dup h) h)"
proof (cases "dedup_applies E q")
  case False
  then show ?thesis using routed [of None] by (simp add: record_and_route_def Let_def)
next
  case True
  show ?thesis
  proof (cases "window_start E (rq_household q) (hb_now h)")
    case (Inl x)
    with True show ?thesis using overflow by (simp add: record_and_route_def Let_def)
  next
    case (Inr s)
    with True show ?thesis
      using routed [of "find_duplicate h (event_of E q h) s"] by (simp add: record_and_route_def Let_def)
  qed
qed

subsection \<open>Routing\<close>

lemma route_governed:
  "\<not> rq_force q \<Longrightarrow> \<not> is_safety E q \<Longrightarrow> route E q None h = governed_route E q h"
  by (simp add: route_def)

lemma gates_not_dedupe:
  "rt_withheld (consent_gate c rt) \<noteq> Some ''dedupe''"
  "rt_withheld rt \<noteq> Some ''dedupe'' \<Longrightarrow> rt_withheld (tier_gate t rt) \<noteq> Some ''dedupe''"
  "rt_withheld rt \<noteq> Some ''dedupe'' \<Longrightarrow> rt_withheld (budget_gate E h hh src day rt) \<noteq> Some ''dedupe''"
  "rt_withheld rt \<noteq> Some ''dedupe'' \<Longrightarrow> rt_withheld (context_gate E hh now rt) \<noteq> Some ''dedupe''"
  by (simp_all add: gate_simps Let_def split: option.split prod.split)

lemma governed_not_dedupe: "rt_withheld (governed_route E q h) \<noteq> Some ''dedupe''"
  unfolding governed_route_def Let_def
  by (rule gates_not_dedupe(4), rule gates_not_dedupe(3), rule gates_not_dedupe(2), rule gates_not_dedupe(1))

lemma route_dedupe: "rt_withheld (route E q dup h) = Some ''dedupe'' \<longleftrightarrow> \<not> rq_force q \<and> dup \<noteq> None"
  using governed_not_dedupe by (auto simp: route_def split: option.splits)

definition sample_broker :: broker_env where
  "sample_broker = \<lparr>be_setting = (\<lambda>k hh. if k = ''attention.safety_categories'' then PStr ''medication, alarm'' else PNone),
     be_zone = (\<lambda>_. None), be_sha256 = (\<lambda>s. s)\<rparr>"

definition sample_hub :: hub where
  "sample_hub = \<lparr>hb_now = 1785000000000000, hb_seq = 0, hb_events = [], hb_deliveries = [], hb_consents = [], hb_tiers = [],
     hb_http = []\<rparr>"

definition sample_request :: "string \<Rightarrow> att_request" where
  "sample_request cat = \<lparr>rq_household = ''hh_1'', rq_source = cat, rq_category = cat, rq_title = ''Take your pills'',
     rq_summary = [], rq_rung = ''push'', rq_key = None, rq_user = None, rq_node = None, rq_payload = [], rq_force = False\<rparr>"

definition duplicate :: "broker_env \<Rightarrow> att_request \<Rightarrow> hub \<Rightarrow> bool" where
  "duplicate E q h \<longleftrightarrow> dedup_applies E q \<and>
     (case window_start E (rq_household q) (hb_now h) of
        Inl _ \<Rightarrow> False | Inr s \<Rightarrow> find_duplicate h (event_of E q h) s \<noteq> None)"

definition reference_rung :: "broker_env \<Rightarrow> att_request \<Rightarrow> hub \<Rightarrow> string" where
  "reference_rung E q h =
     (if rq_force q then asked_rung q
      else if duplicate E q h then ''journal''
      else if is_safety E q then asked_rung q
      else best_rung E q h)"



lemma sample_best: "best_rung sample_broker (sample_request ''weather'') sample_hub = ''push''"
  by code_simp

lemma sample_routed:
  "\<not> is_safety sample_broker (sample_request ''weather'') \<and> is_safety sample_broker (sample_request ''medication'') \<and>
   (case snd (record_and_route sample_broker (sample_request ''weather'') sample_hub) of
      Inl _ \<Rightarrow> False | Inr d \<Rightarrow> dc_withheld d = None)"
  by code_simp



subsection \<open>The daily budget over a sequence of events\<close>

fun route_all :: "broker_env \<Rightarrow> (int \<times> att_request) list \<Rightarrow> hub \<Rightarrow> hub" where
  "route_all E [] h = h"
| "route_all E ((t, q) # rest) h = route_all E rest (fst (record_and_route E q (h\<lparr>hb_now := t\<rparr>)))"

definition governed_dl :: "att_delivery \<Rightarrow> bool" where
  "governed_dl d \<longleftrightarrow> \<not> list_ex (\<lambda>(gate, result, detail). result = ''bypass'') (dl_trail d)"

definition governed_count :: "hub \<Rightarrow> string \<Rightarrow> int \<Rightarrow> string \<Rightarrow> int" where
  "governed_count h hh day r = int (length (filter (\<lambda>d. dl_rung d = r \<and> governed_dl d) (delivered_on h hh day)))"

lemma governed_count_le: "governed_count h hh day r \<le> rung_used h hh day r"
proof -
  have "length (filter (\<lambda>d. dl_rung d = r \<and> governed_dl d) xs) \<le> length (filter (\<lambda>d. dl_rung d = r) xs)" for xs
    by (induction xs) simp_all
  then show ?thesis by (simp add: governed_count_def rung_used_def)
qed

lemma governed_count_now [simp]: "governed_count (h\<lparr>hb_now := t\<rparr>) hh day r = governed_count h hh day r"
  by (simp add: governed_count_def delivered_on_def)

lemma governed_count_step:
  assumes "local_day_start E hh (hb_now h) = day"
  shows "governed_count (fst (record_and_route E q h)) hh day ''push'' \<le>
     max (governed_count h hh day ''push'') (rung_budget E hh ''push'')"
proof (cases rule: record_and_route_cases [of E q h])
  case overflow
  then show ?thesis by simp
next
  case (routed dup d)
  let ?d = "delivery_of (event_of E q h) (route E q dup h) h"
  have c: "governed_count (fst (record_and_route E q h)) hh day ''push'' = governed_count h hh day ''push'' +
      (if dl_household ?d = hh \<and> day \<le> dl_created ?d \<and> dl_rung ?d = ''push'' \<and> governed_dl ?d then 1 else 0)"
    by (simp add: routed(3) governed_count_def delivered_on_def)
  show ?thesis
  proof (cases "dl_household ?d = hh \<and> dl_rung ?d = ''push'' \<and> governed_dl ?d")
    case True
    then have hh: "rq_household q = hh" by (simp add: delivery_of_def event_of_def)
    from True have r: "rt_rung (route E q dup h) = ''push''" and
      g: "\<not> list_ex (\<lambda>(gate, result, detail). result = ''bypass'') (rt_trail (route E q dup h))"
      by (simp_all add: delivery_of_def governed_dl_def)
    have "route E q dup h = governed_route E q h"
      using r g by (auto simp: route_def split: if_splits option.splits)
    with r have "best_rung E q h = ''push''" by (simp add: governed_best)
    then have "rung_allowed E q h ''push''" by (simp add: best_rung_def Let_def split: if_splits)
    then have "rung_used h hh day ''push'' < rung_budget E hh ''push''"
      using assms by (simp add: rung_allowed_def Let_def hh)
    with governed_count_le [of h hh day "''push''"] show ?thesis unfolding c by auto
  next
    case False
    then show ?thesis unfolding c by auto
  qed
qed

lemma governed_count_run:
  "(\<And>t q. (t, q) \<in> set qs \<Longrightarrow> local_day_start E hh t = day) \<Longrightarrow>
   governed_count (route_all E qs h) hh day ''push'' \<le> max (governed_count h hh day ''push'') (rung_budget E hh ''push'')"
proof (induction E qs h rule: route_all.induct)
  case (2 E t q rest h)
  let ?h1 = "fst (record_and_route E q (h\<lparr>hb_now := t\<rparr>))"
  have "governed_count (route_all E rest ?h1) hh day ''push'' \<le>
      max (governed_count ?h1 hh day ''push'') (rung_budget E hh ''push'')"
  proof (rule 2(1))
    fix t' q'
    assume "(t', q') \<in> set rest"
    then have "(t', q') \<in> set ((t, q) # rest)" by simp
    then show "local_day_start E hh t' = day" by (rule 2(2))
  qed
  moreover have "governed_count ?h1 hh day ''push'' \<le> max (governed_count h hh day ''push'') (rung_budget E hh ''push'')"
    using governed_count_step [of E hh "h\<lparr>hb_now := t\<rparr>" day q] 2(2) [of t q] by simp
  ultimately show ?case by simp
qed simp

text \<open>
  However many events arrive on a household's local day, from whatever sources and in whatever
  order, the pushes that went through the gates never exceed the daily push budget; only forced and
  safety messages are outside it.
\<close>

lemma push_budget_kept:
  assumes "\<And>t q. (t, q) \<in> set qs \<Longrightarrow> local_day_start E hh t = day"
    and "governed_count h hh day ''push'' = 0"
  shows "governed_count (route_all E qs h) hh day ''push'' \<le> max 0 (rung_budget E hh ''push'')"
  using governed_count_run [of qs E hh day h, OF assms(1)] assms(2) by simp

lemma push_budget_kept_witness:
  "governed_count (route_all sample_broker
     [(1785000000000000, sample_request ''weather''), (1785000060000000, sample_request ''news'')] sample_hub)
     ''hh_1'' (local_day_start sample_broker ''hh_1'' 1785000000000000) ''push'' \<le> 8"
proof -
  have b: "rung_budget sample_broker ''hh_1'' ''push'' = 8" by code_simp
  have day: "local_day_start sample_broker ''hh_1'' 1785000060000000 = local_day_start sample_broker ''hh_1'' 1785000000000000"
    by code_simp
  have z: "governed_count sample_hub ''hh_1'' d ''push'' = 0" for d
    by (simp add: governed_count_def delivered_on_def sample_hub_def)
  let ?day = "local_day_start sample_broker ''hh_1'' 1785000000000000"
  have "local_day_start sample_broker ''hh_1'' t = ?day"
    if "(t, q) \<in> set [(1785000000000000, sample_request ''weather''), (1785000060000000, sample_request ''news'')]" for t q
  proof -
    from that have "t = 1785000000000000 \<or> t = 1785000060000000" by auto
    then show ?thesis using day by (elim disjE) simp_all
  qed
  from push_budget_kept [OF this z] show ?thesis by (simp only: b max.absorb2 zero_le_numeral)
qed

text \<open>
  The inbox has no such guarantee: quiet hours demote a push to the inbox behind the budget gate, so
  an inbox whose budget is used up still receives it. And a message that asked for the journal only is
  recorded as withheld by the budget, although no budget was used.
\<close>

definition quiet_broker :: broker_env where
  "quiet_broker = sample_broker\<lparr>be_setting := (\<lambda>k hh.
     if k = ''attention.daily_inbox_budget'' then PInt 0
     else if k = ''attention.quiet_hours'' then PStr ''00:00-23:59'' else PNone)\<rparr>"

lemma quiet_hours_overflow_inbox:
  "rung_budget quiet_broker ''hh_1'' ''inbox'' = 0 \<and>
   best_rung quiet_broker (sample_request ''weather'') sample_hub = ''inbox''"
  by code_simp

lemma journal_blamed_on_budget:
  "best_rung sample_broker (sample_request ''weather''\<lparr>rq_rung := ''inbox''\<rparr>) sample_hub = ''inbox'' \<and>
   rt_withheld (governed_route sample_broker (sample_request ''weather''\<lparr>rq_rung := ''journal''\<rparr>) sample_hub) = Some ''budget''"
  by code_simp

end
