(* ===== verification/Attention_Api.thy ===== *)
theory Attention_Api
  imports Attention_Facts
begin

section \<open>The endpoints behind the attention broker, and its journal\<close>

text \<open>
  The three notification endpoints of \<^verbatim>\<open>app/api/node_commands.py\<close>, the event ingest and the journal
  view of \<^verbatim>\<open>app/api/attention.py\<close>, and \<^verbatim>\<open>app/services/attention_journal.py\<close>. A node belongs to a
  household; an empty household name stands for none. A broker that raises is passed over: the
  message takes the path it had without a broker.
\<close>

record node_ref =
  nd_id :: string
  nd_household :: string

subsection \<open>The gate in front of the endpoints\<close>

definition attention_gate :: "broker_env \<Rightarrow> att_request \<Rightarrow> (hub, decision option) io" where
  "attention_gate E q =
     catch (if \<not> attention_enabled E (rq_household q) then ret None
            else bind (record_and_route E q) (\<lambda>d. ret (Some d)))
           (\<lambda>_. ret None)"

definition attention_outcome :: "decision option \<Rightarrow> bool \<Rightarrow> string option \<Rightarrow> (hub, unit) io" where
  "attention_outcome dec ok item = (case dec of
      None \<Rightarrow> ret ()
    | Some d \<Rightarrow> modify (mark_outcome (dc_delivery d) (if ok then ''delivered'' else ''failed'') item))"

record push_request =
  pu_title :: string
  pu_body :: string
  pu_priority :: string
  pu_category :: string
  pu_user :: "int option"
  pu_target :: string
  pu_key :: "string option"
  pu_force :: bool

record push_response =
  rs_sent :: bool
  rs_item :: "string option"
  rs_withheld :: "string option"

definition push_dump :: "push_request \<Rightarrow> pydict" where
  "push_dump r =
     [(''title'', PStr (pu_title r)), (''body'', PStr (pu_body r)), (''priority'', PStr (pu_priority r)),
      (''category'', PStr (pu_category r)), (''user_id'', opt_int (pu_user r)), (''target_type'', PStr (pu_target r)),
      (''dedupe_key'', opt_str (pu_key r)), (''force'', PBool (pu_force r))]"

definition push_event :: "node_ref \<Rightarrow> push_request \<Rightarrow> att_request" where
  "push_event nd r =
     \<lparr>rq_household = nd_household nd, rq_source = pu_category r, rq_category = pu_category r, rq_title = pu_title r,
      rq_summary = pu_body r, rq_rung = ''push'', rq_key = pu_key r, rq_user = pu_user r, rq_node = Some (nd_id nd),
      rq_payload = push_dump r, rq_force = pu_force r\<rparr>"

definition withheld_response :: "decision \<Rightarrow> push_response" where
  "withheld_response d = \<lparr>rs_sent = False, rs_item = None, rs_withheld = dc_withheld d\<rparr>"

definition sent_response :: "string option \<Rightarrow> push_response" where
  "sent_response item = \<lparr>rs_sent = (item \<noteq> None), rs_item = item, rs_withheld = None\<rparr>"

text \<open>The skeleton the endpoints share: withheld, demoted to the inbox, or the full delivery.\<close>

definition node_push_notification :: "broker_env \<Rightarrow> notify_service \<Rightarrow> node_ref \<Rightarrow> push_request \<Rightarrow> (hub, push_response) io" where
  "node_push_notification E S nd r =
     bind (attention_gate E (push_event nd r)) (\<lambda>dec.
     case dec of
       Some d \<Rightarrow>
         if \<not> dc_deliver d then ret (withheld_response d)
         else bind
           (if dc_rung d = ''inbox''
            then post_inbox_item_sync S (nd_household nd) (pu_title r) (pu_body r) (pu_body r) (pu_category r)
                   [(''node_id'', PStr (nd_id nd))] (pu_user r) False (pu_target r)
            else push_confirmation_to_inbox S (nd_household nd) (pu_user r) (nd_id nd) (pu_title r) (pu_body r) (pu_body r)
                   ''reminder'' [] PNone (pu_target r)) (\<lambda>item.
         bind (attention_outcome dec (otruthy item) item) (\<lambda>_. ret (sent_response item)))
     | None \<Rightarrow>
         bind (push_confirmation_to_inbox S (nd_household nd) (pu_user r) (nd_id nd) (pu_title r) (pu_body r) (pu_body r)
                 ''reminder'' [] PNone (pu_target r)) (\<lambda>item. ret (sent_response item)))"

record link_request =
  lk_user :: int
  lk_url :: string
  lk_title :: "string option"
  lk_body :: "string option"

definition link_title :: "link_request \<Rightarrow> string" where
  "link_title r = or_else (strip (oor (lk_title r) ''Link from Jarvis'')) ''Link from Jarvis''"

definition link_body :: "link_request \<Rightarrow> string" where
  "link_body r = or_else (strip (oor (lk_body r) ''Tap to open'')) ''Tap to open''"

definition link_event :: "node_ref \<Rightarrow> link_request \<Rightarrow> att_request" where
  "link_event nd r =
     \<lparr>rq_household = nd_household nd, rq_source = ''send_link'', rq_category = ''link'', rq_title = link_title r,
      rq_summary = link_body r, rq_rung = ''push'', rq_key = Some (strip (lk_url r)), rq_user = Some (lk_user r),
      rq_node = Some (nd_id nd),
      rq_payload = [(''user_id'', PInt (lk_user r)), (''url'', PStr (lk_url r)), (''title'', opt_str (lk_title r)),
                    (''body'', opt_str (lk_body r))],
      rq_force = False\<rparr>"

definition node_send_link :: "broker_env \<Rightarrow> notify_service \<Rightarrow> node_ref \<Rightarrow> link_request \<Rightarrow> (hub, push_response) io" where
  "node_send_link E S nd r =
     (let url = strip (lk_url r); title = link_title r; body = link_body r; hh = nd_household nd in
      if \<not> (starts_with url ''http://'' \<or> starts_with url ''https://'')
      then ret \<lparr>rs_sent = False, rs_item = None, rs_withheld = None\<rparr>
      else bind (attention_gate E (link_event nd r)) (\<lambda>dec.
        case dec of
          Some d \<Rightarrow>
            if \<not> dc_deliver d then ret (withheld_response d)
            else if dc_rung d = ''inbox'' then
              bind (post_inbox_item_sync S hh title body
                      (body @ newline @ newline @ ''['' @ title @ ''](''@ url @ '')'') ''link''
                      [(''node_id'', PStr (nd_id nd))] (Some (lk_user r)) False ''user'') (\<lambda>item.
              bind (attention_outcome dec (otruthy item) item) (\<lambda>_.
              ret \<lparr>rs_sent = (item \<noteq> None), rs_item = None, rs_withheld = None\<rparr>))
            else
              bind (send_link_push_sync S hh (lk_user r) url title body) (\<lambda>ok.
              bind (attention_outcome dec ok None) (\<lambda>_. ret \<lparr>rs_sent = ok, rs_item = None, rs_withheld = None\<rparr>))
        | None \<Rightarrow>
            bind (send_link_push_sync S hh (lk_user r) url title body) (\<lambda>ok.
            ret \<lparr>rs_sent = ok, rs_item = None, rs_withheld = None\<rparr>)))"

record item_request =
  it_title :: string
  it_summary :: string
  it_body :: string
  it_category :: string
  it_metadata :: pydict
  it_user :: "int option"
  it_push :: bool
  it_target :: string
  it_key :: "string option"
  it_force :: bool

definition item_metadata :: "node_ref \<Rightarrow> item_request \<Rightarrow> pydict" where
  "item_metadata nd r = dsetdefault (it_metadata r) ''node_id'' (PStr (nd_id nd))"

definition item_key :: "node_ref \<Rightarrow> item_request \<Rightarrow> string option" where
  "item_key nd r = (if otruthy (it_key r) then it_key r
     else (case dget (item_metadata nd r) ''dedupe_key'' of PStr s \<Rightarrow> Some s | _ \<Rightarrow> None))"

definition item_event :: "node_ref \<Rightarrow> item_request \<Rightarrow> att_request" where
  "item_event nd r =
     \<lparr>rq_household = nd_household nd, rq_source = or_else (it_category r) ''general'',
      rq_category = or_else (it_category r) ''general'', rq_title = strip (it_title r), rq_summary = it_summary r,
      rq_rung = (if it_push r then ''push'' else ''inbox''), rq_key = item_key nd r, rq_user = it_user r,
      rq_node = Some (nd_id nd),
      rq_payload = [(''title'', PStr (it_title r)), (''summary'', PStr (it_summary r)), (''body'', PStr (it_body r)),
        (''category'', PStr (it_category r)), (''user_id'', opt_int (it_user r)),
        (''create_push_notification'', PBool (it_push r)), (''target_type'', PStr (it_target r)),
        (''dedupe_key'', opt_str (it_key r)), (''force'', PBool (it_force r))],
      rq_force = it_force r\<rparr>"

definition node_post_inbox_item :: "broker_env \<Rightarrow> notify_service \<Rightarrow> node_ref \<Rightarrow> item_request \<Rightarrow> (hub, push_response) io" where
  "node_post_inbox_item E S nd r =
     (if strip (it_title r) = [] \<or> nd_household nd = []
      then ret \<lparr>rs_sent = False, rs_item = None, rs_withheld = None\<rparr>
      else bind (attention_gate E (item_event nd r)) (\<lambda>dec.
        case dec of
          Some d \<Rightarrow>
            if \<not> dc_deliver d then ret (withheld_response d)
            else
              bind (post_inbox_item_sync S (nd_household nd) (strip (it_title r)) (it_summary r) (it_body r)
                      (or_else (it_category r) ''general'') (item_metadata nd r) (it_user r)
                      (dc_rung d = ''push'') (it_target r)) (\<lambda>item.
              bind (attention_outcome dec (otruthy item) item) (\<lambda>_. ret (sent_response item)))
        | None \<Rightarrow>
            bind (post_inbox_item_sync S (nd_household nd) (strip (it_title r)) (it_summary r) (it_body r)
                    (or_else (it_category r) ''general'') (item_metadata nd r) (it_user r) (it_push r) (it_target r))
              (\<lambda>item. ret (sent_response item))))"

subsection \<open>Event ingest\<close>

record event_in =
  ei_source :: string
  ei_category :: string
  ei_title :: string
  ei_summary :: string
  ei_key :: "string option"
  ei_user :: "int option"
  ei_rung :: string

definition ingest_event :: "node_ref \<Rightarrow> event_in \<Rightarrow> att_request" where
  "ingest_event nd e =
     \<lparr>rq_household = nd_household nd, rq_source = ei_source e, rq_category = ei_category e, rq_title = ei_title e,
      rq_summary = ei_summary e, rq_rung = ei_rung e, rq_key = ei_key e, rq_user = ei_user e, rq_node = Some (nd_id nd),
      rq_payload = [], rq_force = False\<rparr>"

text \<open>One event: the broker is not guarded here, so an exception ends the request.\<close>

definition ingest_one :: "broker_env \<Rightarrow> notify_service \<Rightarrow> node_ref \<Rightarrow> event_in \<Rightarrow> (hub, decision) io" where
  "ingest_one E S nd e =
     bind (record_and_route E (ingest_event nd e)) (\<lambda>d.
     if \<not> dc_deliver d then ret d
     else
       bind (post_inbox_item_sync S (nd_household nd) (take 500 (ei_title e)) (ei_summary e) (ei_summary e)
               (take 50 (ei_category e)) [(''node_id'', PStr (nd_id nd))] (ei_user e) (dc_rung d = ''push'')
               (if ei_user e \<noteq> None then ''user'' else ''household'')) (\<lambda>item.
       bind (attention_outcome (Some d) (otruthy item) item) (\<lambda>_. ret d)))"

fun ingest_all :: "broker_env \<Rightarrow> notify_service \<Rightarrow> node_ref \<Rightarrow> event_in list \<Rightarrow> (hub, decision list) io" where
  "ingest_all E S nd [] = ret []"
| "ingest_all E S nd (e # es) =
     bind (ingest_one E S nd e) (\<lambda>d. bind (ingest_all E S nd es) (\<lambda>ds. ret (d # ds)))"

definition post_attention_events :: "broker_env \<Rightarrow> notify_service \<Rightarrow> node_ref \<Rightarrow> event_in list
    \<Rightarrow> (hub, bool \<times> decision list) io" where
  "post_attention_events E S nd es =
     (if nd_household nd = [] \<or> \<not> attention_enabled E (nd_household nd) then ret (False, [])
      else bind (ingest_all E S nd (take 50 es)) (\<lambda>ds. ret (True, ds)))"

subsection \<open>The journal\<close>

definition find_event :: "string \<Rightarrow> hub \<Rightarrow> att_event option" where
  "find_event i h = find (\<lambda>e. ev_id e = i) (hb_events h)"

text \<open>Deliveries of a household since a cutoff, newest first, each with its event.\<close>

definition journal_rows :: "hub \<Rightarrow> string \<Rightarrow> int \<Rightarrow> (att_delivery \<times> att_event) list" where
  "journal_rows h hh cutoff =
     sort_key (\<lambda>(d, e). - dl_created d)
       (List.map_filter (\<lambda>d. map_option (Pair d) (find_event (dl_event d) h))
         (filter (\<lambda>d. dl_household d = hh \<and> cutoff \<le> dl_created d) (hb_deliveries h)))"

definition households_with_activity :: "hub \<Rightarrow> int \<Rightarrow> string list" where
  "households_with_activity h hours =
     remdups (map ev_household (filter (\<lambda>e. hb_now h - hours * hour_us \<le> ev_created e) (hb_events h)))"

text \<open>\<open>Counter.most_common\<close>: by falling count, equal counts in the order of first occurrence.\<close>

definition count_of :: "string \<Rightarrow> string list \<Rightarrow> nat" where
  "count_of x xs = length (filter (\<lambda>y. y = x) xs)"

definition most_common :: "string list \<Rightarrow> (string \<times> nat) list" where
  "most_common xs = sort_key (\<lambda>(x, n). - int n) (map (\<lambda>x. (x, count_of x xs)) (rev (remdups (rev xs))))"

definition withheld_gate :: "att_delivery \<Rightarrow> string" where
  "withheld_gate d = oor (dl_withheld d) ''unknown''"

definition gate_detail :: "att_delivery \<Rightarrow> string" where
  "gate_detail d = (case find (\<lambda>(g, r, x). g = withheld_gate d) (dl_trail d) of None \<Rightarrow> [] | Some (g, r, x) \<Rightarrow> x)"

definition delivered_lines :: "(att_delivery \<times> att_event) list \<Rightarrow> string list" where
  "delivered_lines rows =
     (if rows = [] then []
      else [''**Delivered ('' @ nat_str (length rows) @ '')**''] @
        map (\<lambda>(d, e). ''- '' @ ev_title e @ '' - '' @ ev_source e @ '' -> '' @ dl_rung d) (take 20 rows) @
        (if length rows > 20 then [''- ...and '' @ nat_str (length rows - 20) @ '' more''] else []) @ [[]])"

definition withheld_lines :: "(att_delivery \<times> att_event) list \<Rightarrow> string list" where
  "withheld_lines rows =
     (if rows = [] then []
      else [''**Withheld ('' @ nat_str (length rows) @ '')** - '' @
          join '', '' (map (\<lambda>(g, n). nat_str n @ '' '' @ g) (most_common (map (withheld_gate \<circ> fst) rows)))] @
        map (\<lambda>(d, e). ''- '' @ ev_title e @ '' - '' @ ev_source e @ '' ('' @ withheld_gate d @
               (if gate_detail d = [] then [] else '': '' @ gate_detail d) @ '')'') (take 20 rows) @
        (if length rows > 20 then [''- ...and '' @ nat_str (length rows - 20) @ '' more''] else []))"

definition compose_journal_card :: "hub \<Rightarrow> string \<Rightarrow> int \<Rightarrow> (string \<times> string) option" where
  "compose_journal_card h hh hours =
     (let rows = journal_rows h hh (hb_now h - hours * hour_us);
          delivered = filter (\<lambda>(d, e). dl_rung d \<noteq> ''journal'') rows;
          withheld = filter (\<lambda>(d, e). dl_rung d = ''journal'') rows in
      if rows = [] then None
      else Some (''Delivered '' @ nat_str (length delivered) @ '', withheld '' @ nat_str (length withheld) @
                   '' in the last '' @ int_str hours @ ''h'',
                 join newline (delivered_lines delivered @ withheld_lines withheld)))"

definition post_journal_card :: "notify_service \<Rightarrow> string \<Rightarrow> (hub, string option) io" where
  "post_journal_card S hh =
     bind (gets (\<lambda>h. (hb_now h, compose_journal_card h hh 24))) (\<lambda>(now, composed).
     case composed of
       None \<Rightarrow> ret None
     | Some (summary, body) \<Rightarrow>
         post_inbox_item_sync S hh (''Attention journal - '' @ take 10 (isoformat now)) summary body ''attention_journal'' []
           None False ''household'')"

text \<open>Deleting an event deletes its deliveries with it.\<close>

definition cleanup_expired :: "int \<Rightarrow> hub \<Rightarrow> hub \<times> int" where
  "cleanup_expired ttl_days h =
     (let old = (\<lambda>e. ev_created e < hb_now h - ttl_days * day_us); gone = filter old (hb_events h) in
      (h\<lparr>hb_events := filter (\<lambda>e. \<not> old e) (hb_events h),
         hb_deliveries := filter (\<lambda>d. dl_event d \<notin> ev_id ` set gone) (hb_deliveries h)\<rparr>,
       int (length gone)))"

definition attention_journal :: "hub \<Rightarrow> string \<Rightarrow> int \<Rightarrow> pydict" where
  "attention_journal h hh hours =
     [(''household_id'', PStr hh), (''hours'', PInt hours),
      (''deliveries'', PList (map (\<lambda>(d, e). PDict
         [(''delivery_id'', PStr (dl_id d)), (''event_id'', PStr (ev_id e)), (''source'', PStr (ev_source e)),
          (''category'', PStr (ev_category e)), (''title'', PStr (ev_title e)), (''rung'', PStr (dl_rung d)),
          (''withheld_by'', opt_str (dl_withheld d)), (''outcome'', opt_str (dl_outcome d)),
          (''gate_trail'', PList (map (\<lambda>(g, r, x). PDict [(''gate'', PStr g), (''result'', PStr r), (''detail'', PStr x)])
             (dl_trail d))),
          (''created_at'', PStr (isoformat (dl_created d)))])
        (take 500 (journal_rows h hh (hb_now h - hours * hour_us)))))]"

subsection \<open>Every message is accounted for\<close>

lemma attention_gate_cases:
  obtains (legacy) "attention_gate E q h = (h, Inr None)"
    | (decided) e d dec where "attention_gate E q h =
        (h\<lparr>hb_seq := Suc (hb_seq h), hb_events := hb_events h @ [e], hb_deliveries := hb_deliveries h @ [d]\<rparr>, Inr (Some dec))"
      "dl_event d = ev_id e" "dl_rung d = dc_rung dec" "dl_withheld d = dc_withheld dec" "dl_id d = dc_delivery dec"
      "dc_deliver dec \<longleftrightarrow> dc_rung dec \<noteq> ''journal''" "ev_title e = norm_title q" "dl_household d = rq_household q"
proof (cases "attention_enabled E (rq_household q)")
  case False
  with legacy show ?thesis by (simp add: attention_gate_def io_simps)
next
  case True
  show ?thesis
  proof (cases rule: record_and_route_cases [of E q h])
    case overflow
    with True legacy show ?thesis by (simp add: attention_gate_def io_simps)
  next
    case (routed dup dec)
    with True show ?thesis
      by (intro decided [of "delivery_of (event_of E q h) (route E q dup h) h" "event_of E q h" dec])
        (simp_all add: attention_gate_def io_simps, simp_all add: delivery_of_def event_of_def)
  qed
qed

text \<open>
  A message is withheld on record, or posted: the first means that nothing was sent and the journal
  holds the delivery the response names, the second that exactly one inbox request was made, with at
  most one push behind it.
\<close>

definition withheld_on_record :: "string \<Rightarrow> hub \<Rightarrow> hub \<Rightarrow> push_response \<Rightarrow> bool" where
  "withheld_on_record hh h h' rs \<longleftrightarrow> \<not> rs_sent rs \<and> hb_http h' = hb_http h \<and>
     (\<exists>d. hb_deliveries h' = hb_deliveries h @ [d] \<and> dl_household d = hh \<and> dl_rung d = ''journal'' \<and>
          dl_withheld d = rs_withheld rs)"

definition posted_once :: "hub \<Rightarrow> hub \<Rightarrow> bool" where
  "posted_once h h' \<longleftrightarrow>
     (\<exists>p. hb_http h' = InboxPost p # hb_http h \<or> (\<exists>q. hb_http h' = NotifyPost q # InboxPost p # hb_http h))"

lemma post_inbox_once:
  obtains h' item where "post_inbox_item_sync S hh t s b c m u push tgt h = (h', Inr item)" "posted_once h h'"
    "hb_deliveries h' = hb_deliveries h"
  by (cases rule: post_inbox_item_cases [of S hh t s b c m u push tgt h]) (auto simp: posted_once_def)

lemma push_confirmation_once:
  obtains h' item where "push_confirmation_to_inbox S hh u n t s b c acts dr tgt h = (h', Inr item)" "posted_once h h'"
    "hb_deliveries h' = hb_deliveries h"
  by (cases rule: push_confirmation_cases [of S hh u n t s b c acts dr tgt h]) (auto simp: posted_once_def)

lemma send_link_once:
  obtains h' ok where "send_link_push_sync S hh u url t b h = (h', Inr ok)" "posted_once h h'"
    "hb_deliveries h' = hb_deliveries h"
  by (cases rule: send_link_cases [of S hh u url t b h]) (auto simp: posted_once_def)

lemma attention_outcome_http:
  obtains h' where "attention_outcome dec ok item h = (h', Inr ())" "hb_http h' = hb_http h"
  by (cases dec) (auto simp: attention_outcome_def io_simps mark_outcome_def)

lemma posted_once_cong: "posted_once h h' \<Longrightarrow> hb_http h0 = hb_http h \<Longrightarrow> hb_http h1 = hb_http h' \<Longrightarrow> posted_once h0 h1"
  by (simp add: posted_once_def)

text \<open>A guarded call: gate, then the delivery, then the outcome stamp.\<close>

lemma guarded_delivery:
  assumes "\<And>h. \<exists>h' x. deliver h = (h', Inr x) \<and> posted_once h h' \<and> hb_deliveries h' = hb_deliveries h"
  shows "\<exists>h' rs. bind (deliver) (\<lambda>x. bind (attention_outcome dec (ok x) (item x)) (\<lambda>_. ret (resp x))) h = (h', Inr rs) \<and>
     posted_once h h' \<and> (\<exists>x. rs = resp x)"
proof -
  from assms obtain h1 x where d: "deliver h = (h1, Inr x)" "posted_once h h1" by blast
  obtain h2 where o': "attention_outcome dec (ok x) (item x) h1 = (h2, Inr ())" "hb_http h2 = hb_http h1"
    by (rule attention_outcome_http)
  from d(2) o'(2) have "posted_once h h2" by (simp add: posted_once_def)
  with d o' show ?thesis by (intro exI [of _ h2] exI [of _ "resp x"]) (auto simp: io_simps)
qed

text \<open>
  A node's push request is never lost in silence and never raises: either it is withheld, then
  nothing is sent and the response names the gate recorded with the delivery in the journal; or
  exactly one inbox request is made, with at most one push behind it. A broker that is switched off
  or fails delivers.
\<close>

lemma node_push_accounted:
  "\<exists>h' rs. node_push_notification E S nd r h = (h', Inr rs) \<and>
     (withheld_on_record (nd_household nd) h h' rs \<or> posted_once h h' \<and> rs_withheld rs = None)"
proof (cases rule: attention_gate_cases [of E "push_event nd r" h])
  case legacy
  obtain h' item where p: "push_confirmation_to_inbox S (nd_household nd) (pu_user r) (nd_id nd) (pu_title r) (pu_body r)
      (pu_body r) ''reminder'' [] PNone (pu_target r) h = (h', Inr item)" "posted_once h h'" by (rule push_confirmation_once)
  with legacy have "node_push_notification E S nd r h = (h', Inr (sent_response item))"
    by (simp add: node_push_notification_def io_simps)
  with p(2) show ?thesis by (auto simp: sent_response_def)
next
  case (decided e d dec)
  let ?h1 = "h\<lparr>hb_seq := Suc (hb_seq h), hb_events := hb_events h @ [e], hb_deliveries := hb_deliveries h @ [d]\<rparr>"
  show ?thesis
  proof (cases "dc_deliver dec")
    case False
    with decided have "node_push_notification E S nd r h = (?h1, Inr (withheld_response dec))"
      by (simp add: node_push_notification_def io_simps)
    moreover have "withheld_on_record (nd_household nd) h ?h1 (withheld_response dec)"
      using False decided by (simp add: withheld_on_record_def withheld_response_def push_event_def)
    ultimately show ?thesis by blast
  next
    case True
    let ?deliver = "if dc_rung dec = ''inbox''
            then post_inbox_item_sync S (nd_household nd) (pu_title r) (pu_body r) (pu_body r) (pu_category r)
                   [(''node_id'', PStr (nd_id nd))] (pu_user r) False (pu_target r)
            else push_confirmation_to_inbox S (nd_household nd) (pu_user r) (nd_id nd) (pu_title r) (pu_body r) (pu_body r)
                   ''reminder'' [] PNone (pu_target r)"
    have "\<exists>h' x. ?deliver g = (h', Inr x) \<and> posted_once g h' \<and> hb_deliveries h' = hb_deliveries g" for g
    proof (cases "dc_rung dec = ''inbox''")
      case True
      obtain h' item where "post_inbox_item_sync S (nd_household nd) (pu_title r) (pu_body r) (pu_body r) (pu_category r)
          [(''node_id'', PStr (nd_id nd))] (pu_user r) False (pu_target r) g = (h', Inr item)" "posted_once g h'"
        "hb_deliveries h' = hb_deliveries g" by (rule post_inbox_once)
      with True show ?thesis by simp
    next
      case False
      obtain h' item where "push_confirmation_to_inbox S (nd_household nd) (pu_user r) (nd_id nd) (pu_title r) (pu_body r)
          (pu_body r) ''reminder'' [] PNone (pu_target r) g = (h', Inr item)" "posted_once g h'"
        "hb_deliveries h' = hb_deliveries g" by (rule push_confirmation_once)
      with False show ?thesis by simp
    qed
    from guarded_delivery [of ?deliver "Some dec" otruthy "\<lambda>x. x" sent_response ?h1, OF this] obtain h' rs where
      "bind ?deliver (\<lambda>x. bind (attention_outcome (Some dec) (otruthy x) x) (\<lambda>_. ret (sent_response x))) ?h1 = (h', Inr rs)"
      "posted_once ?h1 h'" "\<exists>x. rs = sent_response x" by blast
    moreover have "node_push_notification E S nd r h =
        bind ?deliver (\<lambda>x. bind (attention_outcome (Some dec) (otruthy x) x) (\<lambda>_. ret (sent_response x))) ?h1"
      using True decided(1) by (simp add: node_push_notification_def run_bind [of "attention_gate E (push_event nd r)"])
    ultimately have "node_push_notification E S nd r h = (h', Inr rs)" "posted_once h h'" "rs_withheld rs = None"
      by (auto simp: posted_once_def sent_response_def)
    then show ?thesis by blast
  qed
qed

end
