(* ===== verification/Py_Regex.thy ===== *)
theory Py_Regex
  imports Py_Words
begin

section \<open>Python's regular expressions\<close>

text \<open>
  The backtracking matcher of \<^verbatim>\<open>re\<close> for the operators the source uses. A match function returns all
  ways to match, in the order in which backtracking tries them, so the first is what \<^verbatim>\<open>re\<close> reports.
  A repetition needs no more rounds than there are characters left, since a round that consumes nothing
  ends it; \<open>rep_all_fuel\<close> proves that this bound loses nothing. No pattern used matches the empty
  text in \<open>finditer\<close> or \<open>sub\<close>.
\<close>

subsection \<open>Patterns and positions\<close>

datatype rx =
    Cls "char \<Rightarrow> bool"
  | Eps
  | Cat rx rx
  | Alt rx rx
  | Rep nat "nat option" bool rx
  | Cap nat rx
  | Bnd
  | Bol
  | Eol
  | Ahead bool rx
  | Behind bool "char \<Rightarrow> bool"

record mark =
  mk_prev :: "char option"
  mk_rest :: string
  mk_caps :: "(nat \<times> string) list"

definition is_word :: "char \<Rightarrow> bool" where
  "is_word c \<longleftrightarrow> is_digit c \<or> 65 \<le> code c \<and> code c \<le> 90 \<or> 97 \<le> code c \<and> code c \<le> 122 \<or> code c = 95 \<or>
     192 \<le> code c \<and> code c \<noteq> 215 \<and> code c \<noteq> 247 \<or> code c \<in> {170, 178, 179, 181, 185, 186, 188, 189, 190}"

lemma is_word_code [code]:
  "is_word (Char b0 b1 b2 b3 b4 b5 b6 b7) \<longleftrightarrow>
     (if b7 then
        (if b6 then \<not> (b4 \<and> \<not> b3 \<and> b2 \<and> b1 \<and> b0)
         else Char b0 b1 b2 b3 b4 b5 b6 b7 \<in> {CHR 0xAA, CHR 0xB2, CHR 0xB3, CHR 0xB5, CHR 0xB9, CHR 0xBA, CHR 0xBC, CHR 0xBD, CHR 0xBE})
      else if b6 then (if b4 \<and> b3 then b5 \<and> \<not> b2 \<and> \<not> (b1 \<and> b0) \<or> \<not> b5 \<and> (\<not> b2 \<and> \<not> (b1 \<and> b0)) \<or>
              \<not> b5 \<and> b2 \<and> b1 \<and> b0 else b0 \<or> b1 \<or> b2 \<or> b3 \<or> b4)
      else b5 \<and> b4 \<and> (\<not> b3 \<or> \<not> b2 \<and> \<not> b1))"
  by (cases b0; cases b1; cases b2; cases b3; cases b4; cases b5; cases b6; cases b7; simp add: is_word_def is_digit_code)

definition at_boundary :: "mark \<Rightarrow> bool" where
  "at_boundary s \<longleftrightarrow>
     ((case mk_prev s of None \<Rightarrow> False | Some c \<Rightarrow> is_word c) \<noteq> (case mk_rest s of [] \<Rightarrow> False | c # _ \<Rightarrow> is_word c))"

subsection \<open>Matching\<close>

fun rep_all :: "(mark \<Rightarrow> mark list) \<Rightarrow> nat \<Rightarrow> nat option \<Rightarrow> bool \<Rightarrow> nat \<Rightarrow> mark \<Rightarrow> mark list" where
  "rep_all f lo hi greedy 0 s = (if lo = 0 then [s] else [])"
| "rep_all f lo hi greedy (Suc n) s =
     (let more = (if hi = Some 0 then []
                  else concat (map (\<lambda>t. if length (mk_rest t) < length (mk_rest s)
                                        then rep_all f (lo - 1) (map_option (\<lambda>h. h - 1) hi) greedy n t else [])
                                 (f s)));
          here = (if lo = 0 then [s] else [])
      in if greedy then more @ here else here @ more)"

primrec rx_all :: "rx \<Rightarrow> mark \<Rightarrow> mark list" where
  "rx_all (Cls p) = (\<lambda>s. case mk_rest s of [] \<Rightarrow> []
     | c # cs \<Rightarrow> if p c then [s\<lparr>mk_prev := Some c, mk_rest := cs\<rparr>] else [])"
| "rx_all Eps = (\<lambda>s. [s])"
| "rx_all (Cat a b) = (\<lambda>s. concat (map (rx_all b) (rx_all a s)))"
| "rx_all (Alt a b) = (\<lambda>s. rx_all a s @ rx_all b s)"
| "rx_all (Rep lo hi greedy r) = (\<lambda>s. rep_all (rx_all r) lo hi greedy (Suc (length (mk_rest s))) s)"
| "rx_all (Cap n r) = (\<lambda>s. map (\<lambda>t. t\<lparr>mk_caps :=
     AList.update n (take (length (mk_rest s) - length (mk_rest t)) (mk_rest s)) (mk_caps t)\<rparr>) (rx_all r s))"
| "rx_all Bnd = (\<lambda>s. if at_boundary s then [s] else [])"
| "rx_all Bol = (\<lambda>s. if mk_prev s = None then [s] else [])"
| "rx_all Eol = (\<lambda>s. if mk_rest s = [] \<or> mk_rest s = newline then [s] else [])"
| "rx_all (Ahead pos r) = (\<lambda>s. if (rx_all r s \<noteq> []) = pos then [s] else [])"
| "rx_all (Behind pos p) = (\<lambda>s. if (case mk_prev s of None \<Rightarrow> False | Some c \<Rightarrow> p c) = pos then [s] else [])"

lemma rep_all_fuel:
  "length (mk_rest s) < n \<Longrightarrow> length (mk_rest s) < m \<Longrightarrow> rep_all f lo hi greedy n s = rep_all f lo hi greedy m s"
proof (induction n arbitrary: m s lo hi)
  case (Suc n)
  from Suc.prems obtain k where m: "m = Suc k" by (cases m) auto
  have "(if length (mk_rest t) < length (mk_rest s) then rep_all f (lo - 1) (map_option (\<lambda>h. h - 1) hi) greedy n t else []) =
      (if length (mk_rest t) < length (mk_rest s) then rep_all f (lo - 1) (map_option (\<lambda>h. h - 1) hi) greedy k t else [])" for t
    using Suc.IH [of t k] Suc.prems by (simp add: m)
  then show ?case by (simp add: m)
qed simp

text \<open>What a match leaves over is a tail of what was there.\<close>

lemma rep_all_suffix:
  assumes f: "\<And>s t. t \<in> set (f s) \<Longrightarrow> suffix (mk_rest t) (mk_rest s)"
  shows "t \<in> set (rep_all f lo hi greedy n s) \<Longrightarrow> suffix (mk_rest t) (mk_rest s)"
proof (induction n arbitrary: s lo hi)
  case (Suc n)
  then consider "t = s"
    | u where "u \<in> set (f s)" "t \<in> set (rep_all f (lo - 1) (map_option (\<lambda>h. h - 1) hi) greedy n u)"
    by (auto simp: Let_def split: if_splits)
  then show ?case
  proof cases
    case 2
    with Suc.IH f show ?thesis using suffix_order.order_trans by blast
  qed simp
qed (simp split: if_splits)

lemma rx_all_suffix: "t \<in> set (rx_all r s) \<Longrightarrow> suffix (mk_rest t) (mk_rest s)"
proof (induction r arbitrary: s t)
  case (Cls p)
  then show ?case by (cases "mk_rest s") (auto simp: suffix_def split: if_splits)
next
  case (Cat a b)
  then obtain u where u: "u \<in> set (rx_all a s)" "t \<in> set (rx_all b u)" by auto
  from Cat.IH(2) [OF u(2)] Cat.IH(1) [OF u(1)] show ?case by (rule suffix_order.order_trans)
next
  case (Rep lo hi greedy r)
  from Rep.prems have "t \<in> set (rep_all (rx_all r) lo hi greedy (Suc (length (mk_rest s))) s)"
    by (simp only: rx_all.simps)
  then show ?case by (rule rep_all_suffix [rotated]) (rule Rep.IH)
qed (auto split: if_splits)

subsection \<open>Searching\<close>

record hit =
  hi_before :: string
  hi_text :: string
  hi_after :: string
  hi_caps :: "(nat \<times> string) list"

definition cap_of :: "nat \<Rightarrow> hit \<Rightarrow> string option" where
  "cap_of n h = map_of (hi_caps h) n"

definition last_opt :: "string \<Rightarrow> char option" where
  "last_opt s = (if s = [] then None else Some (last s))"

definition rx_at :: "rx \<Rightarrow> string \<Rightarrow> string \<Rightarrow> hit option" where
  "rx_at r pre s = (case rx_all r \<lparr>mk_prev = last_opt pre, mk_rest = s, mk_caps = []\<rparr> of
      [] \<Rightarrow> None
    | t # _ \<Rightarrow> Some \<lparr>hi_before = pre, hi_text = take (length s - length (mk_rest t)) s, hi_after = mk_rest t,
                    hi_caps = mk_caps t\<rparr>)"

definition rx_match :: "rx \<Rightarrow> string \<Rightarrow> hit option" where
  "rx_match r s = rx_at r [] s"

definition rx_fullmatch :: "rx \<Rightarrow> string \<Rightarrow> hit option" where
  "rx_fullmatch r s = map_option (\<lambda>t. \<lparr>hi_before = [], hi_text = s, hi_after = [], hi_caps = mk_caps t\<rparr>)
     (find (\<lambda>t. mk_rest t = []) (rx_all r \<lparr>mk_prev = None, mk_rest = s, mk_caps = []\<rparr>))"

fun search_from :: "rx \<Rightarrow> string \<Rightarrow> string \<Rightarrow> hit option" where
  "search_from r pre [] = rx_at r pre []"
| "search_from r pre (c # cs) =
     (case rx_at r pre (c # cs) of Some h \<Rightarrow> Some h | None \<Rightarrow> search_from r (pre @ [c]) cs)"

definition rx_search :: "rx \<Rightarrow> string \<Rightarrow> hit option" where
  "rx_search r s = search_from r [] s"

lemma rx_at_parts: "rx_at r pre s = Some h \<Longrightarrow> hi_before h = pre \<and> s = hi_text h @ hi_after h"
proof -
  assume a: "rx_at r pre s = Some h"
  then obtain t ts where t: "rx_all r \<lparr>mk_prev = last_opt pre, mk_rest = s, mk_caps = []\<rparr> = t # ts"
    by (auto simp: rx_at_def split: list.splits)
  then have "suffix (mk_rest t) s" using rx_all_suffix [of t r "\<lparr>mk_prev = last_opt pre, mk_rest = s, mk_caps = []\<rparr>"] by simp
  then have "s = take (length s - length (mk_rest t)) s @ mk_rest t" by (auto simp: suffix_def)
  with a t show ?thesis by (auto simp: rx_at_def)
qed

lemma search_from_parts: "search_from r pre s = Some h \<Longrightarrow> pre @ s = hi_before h @ hi_text h @ hi_after h"
proof (induction r pre s rule: search_from.induct)
  case (1 r pre)
  then show ?case using rx_at_parts [of r pre "[]" h] by simp
next
  case (2 r pre c cs)
  show ?case
  proof (cases "rx_at r pre (c # cs)")
    case None
    with 2 show ?thesis by simp
  next
    case (Some h')
    with 2(2) have "h' = h" by simp
    with Some show ?thesis using rx_at_parts [of r pre "c # cs" h] by simp
  qed
qed

text \<open>A match splits the text into what stands before it, the match and the rest.\<close>

lemma rx_search_parts: "rx_search r s = Some h \<Longrightarrow> s = hi_before h @ hi_text h @ hi_after h"
  unfolding rx_search_def by (drule search_from_parts) simp

lemma search_from_after: "search_from r pre s = Some h \<Longrightarrow> length (hi_after h) + length (hi_text h) \<le> length s"
proof (induction r pre s rule: search_from.induct)
  case (1 r pre)
  then show ?case using rx_at_parts [of r pre "[]" h] by simp
next
  case (2 r pre c cs)
  show ?case
  proof (cases "rx_at r pre (c # cs)")
    case None
    with 2 show ?thesis by simp
  next
    case (Some h')
    with 2(2) have "h' = h" by simp
    with Some have "c # cs = hi_text h @ hi_after h" using rx_at_parts [of r pre "c # cs" h] by simp
    then have "length (c # cs) = length (hi_text h @ hi_after h)" by (rule arg_cong)
    then show ?thesis by simp
  qed
qed

lemma rx_at_hit: "rx_at r pre s = Some h \<Longrightarrow> \<exists>s' t. t \<in> set (rx_all r s') \<and> hi_caps h = mk_caps t"
proof -
  let ?m = "\<lparr>mk_prev = last_opt pre, mk_rest = s, mk_caps = []\<rparr>"
  assume "rx_at r pre s = Some h"
  then obtain t ts where "rx_all r ?m = t # ts" "hi_caps h = mk_caps t" by (auto simp: rx_at_def split: list.splits)
  then show ?thesis by (intro exI [of _ ?m] exI [of _ t]) simp
qed

lemma search_from_hit:
  "search_from r pre s = Some h \<Longrightarrow> \<exists>s' t. t \<in> set (rx_all r s') \<and> hi_caps h = mk_caps t"
proof (induction r pre s rule: search_from.induct)
  case (1 r pre)
  then show ?case by (simp add: rx_at_hit)
next
  case (2 r pre c cs)
  show ?case
  proof (cases "rx_at r pre (c # cs)")
    case None
    with 2 show ?thesis by simp
  next
    case (Some h')
    with 2(2) have "rx_at r pre (c # cs) = Some h" by simp
    then show ?thesis by (rule rx_at_hit)
  qed
qed

text \<open>All matches from left to right; the search goes on behind a match.\<close>

function finditer_from :: "rx \<Rightarrow> string \<Rightarrow> string \<Rightarrow> hit list" where
  "finditer_from r pre s =
     (case search_from r pre s of
        None \<Rightarrow> []
      | Some h \<Rightarrow>
          if hi_text h = [] then
            (case hi_after h of [] \<Rightarrow> [h] | c # cs \<Rightarrow> h # finditer_from r (hi_before h @ [c]) cs)
          else h # finditer_from r (hi_before h @ hi_text h) (hi_after h))"
  by pat_completeness auto

termination
proof (relation "measure (\<lambda>(r, pre, s). length s)", goal_cases)
  case (2 r pre s h c cs)
  then show ?case using search_from_after [of r pre s h] by simp
next
  case (3 r pre s h)
  then show ?case using search_from_after [of r pre s h] by (cases "hi_text h") auto
qed simp

declare finditer_from.simps [simp del]

definition rx_finditer :: "rx \<Rightarrow> string \<Rightarrow> hit list" where
  "rx_finditer r s = finditer_from r [] s"

text \<open>\<open>re.sub\<close> with a replacement that may depend on the match.\<close>

fun sub_hits :: "(hit \<Rightarrow> string) \<Rightarrow> nat \<Rightarrow> hit list \<Rightarrow> string \<Rightarrow> string" where
  "sub_hits f pos [] s = drop pos s"
| "sub_hits f pos (h # hs) s =
     take (length (hi_before h) - pos) (drop pos s) @ f h @
     sub_hits f (length (hi_before h) + length (hi_text h)) hs s"

definition rx_sub :: "rx \<Rightarrow> (hit \<Rightarrow> string) \<Rightarrow> string \<Rightarrow> string" where
  "rx_sub r f s = sub_hits f 0 (rx_finditer r s) s"

subsection \<open>Notation for patterns\<close>

definition ch :: "char \<Rightarrow> rx" where
  "ch c = Cls (\<lambda>x. x = c)"

definition ch_ci :: "char \<Rightarrow> rx" where
  "ch_ci c = Cls (\<lambda>x. lower_char x = c)"

fun rx_cat :: "rx list \<Rightarrow> rx" where
  "rx_cat [] = Eps"
| "rx_cat [r] = r"
| "rx_cat (r # s # rs) = Cat r (rx_cat (s # rs))"

fun rx_alt :: "rx list \<Rightarrow> rx" where
  "rx_alt [] = Cls (\<lambda>_. False)"
| "rx_alt [r] = r"
| "rx_alt (r # s # rs) = Alt r (rx_alt (s # rs))"

definition lit :: "string \<Rightarrow> rx" where
  "lit s = rx_cat (map ch s)"

definition lit_ci :: "string \<Rightarrow> rx" where
  "lit_ci s = rx_cat (map ch_ci s)"

definition many :: "rx \<Rightarrow> rx" where
  "many r = Rep 0 None True r"

definition some1 :: "rx \<Rightarrow> rx" where
  "some1 r = Rep 1 None True r"

definition opt :: "rx \<Rightarrow> rx" where
  "opt r = Rep 0 (Some 1) True r"

definition lazy :: "rx \<Rightarrow> rx" where
  "lazy r = Rep 0 None False r"

definition spaces :: rx where
  "spaces = many (Cls is_space)"

definition digit :: rx where
  "digit = Cls is_digit"

lemma regex_examples:
  "map_option hi_text (rx_search (lit_ci ''noon'') ''At Noon please'') = Some ''Noon''"
  "map hi_text (rx_finditer (rx_cat [Bnd, some1 digit, Bnd]) ''call 12 or 7x or 30'') = [''12'', ''30'']"
  "rx_sub (some1 (Cls is_space)) (\<lambda>_. '' '') ''a   b  c'' = ''a b c''"
  "map_option (cap_of 1) (rx_search (rx_cat [ch CHR ''<'', Cap 1 (lazy (Cls (\<lambda>_. True))), ch CHR ''>'']) ''x<ab>c>'')
     = Some (Some ''ab'')"
  by code_simp+

subsection \<open>What a pattern captures\<close>

fun no_cap :: "rx \<Rightarrow> bool" where
  "no_cap (Cat a b) \<longleftrightarrow> no_cap a \<and> no_cap b"
| "no_cap (Alt a b) \<longleftrightarrow> no_cap a \<and> no_cap b"
| "no_cap (Rep lo hi g r) \<longleftrightarrow> no_cap r"
| "no_cap (Cap n r) \<longleftrightarrow> False"
| "no_cap (Cls p) \<longleftrightarrow> True"
| "no_cap Eps \<longleftrightarrow> True"
| "no_cap Bnd \<longleftrightarrow> True"
| "no_cap Bol \<longleftrightarrow> True"
| "no_cap Eol \<longleftrightarrow> True"
| "no_cap (Ahead b r) \<longleftrightarrow> True"
| "no_cap (Behind b p) \<longleftrightarrow> True"

lemma rep_all_keeps:
  assumes "\<And>s t. t \<in> set (f s) \<Longrightarrow> g t = g s"
  shows "t \<in> set (rep_all f lo hi greedy n s) \<Longrightarrow> g t = g s"
proof (induction n arbitrary: s lo hi)
  case (Suc n)
  then consider "t = s"
    | u where "u \<in> set (f s)" "t \<in> set (rep_all f (lo - 1) (map_option (\<lambda>h. h - 1) hi) greedy n u)"
    by (auto simp: Let_def split: if_splits)
  then show ?case
  proof cases
    case 2
    with Suc.IH [OF 2(2)] assms [OF 2(1)] show ?thesis by simp
  qed simp
qed (simp split: if_splits)

lemma no_cap_keeps: "no_cap r \<Longrightarrow> t \<in> set (rx_all r s) \<Longrightarrow> mk_caps t = mk_caps s"
proof (induction r arbitrary: s t)
  case (Cls p)
  then show ?case by (cases "mk_rest s") (auto split: if_splits)
next
  case (Cat a b)
  then obtain u where u: "u \<in> set (rx_all a s)" "t \<in> set (rx_all b u)" by auto
  from Cat.IH(2) [OF _ u(2)] Cat.IH(1) [OF _ u(1)] Cat.prems(1) show ?case by simp
next
  case (Rep lo hi greedy r)
  from Rep.prems have "t \<in> set (rep_all (rx_all r) lo hi greedy (Suc (length (mk_rest s))) s)"
    by (simp only: rx_all.simps)
  then show ?case by (rule rep_all_keeps [rotated]) (use Rep in simp)
qed (auto split: if_splits)

text \<open>A literal that ignores case consumes a text whose lower case it is.\<close>

lemma ch_ci_consumes: "t \<in> set (rx_all (ch_ci c) s) \<Longrightarrow> \<exists>x. mk_rest s = x # mk_rest t \<and> lower_char x = c"
  by (cases "mk_rest s") (auto simp: ch_ci_def split: if_splits)

lemma lit_ci_consumes: "t \<in> set (rx_all (lit_ci w) s) \<Longrightarrow> \<exists>u. mk_rest s = u @ mk_rest t \<and> lower u = w"
proof (induction "map ch_ci w" arbitrary: w s rule: rx_cat.induct)
  case 1
  then show ?case by (auto simp: lit_ci_def lower_def)
next
  case (2 r)
  then obtain c where w: "w = [c]" "r = ch_ci c" by auto
  with 2 have "t \<in> set (rx_all (ch_ci c) s)" by (simp add: lit_ci_def)
  then obtain x where "mk_rest s = x # mk_rest t" "lower_char x = c" using ch_ci_consumes by blast
  with w show ?case by (intro exI [of _ "[x]"]) (simp add: lower_def)
next
  case (3 r q rs)
  then obtain c d cs where w: "w = c # d # cs" by (cases w; cases "tl w") auto
  with 3(3) obtain v where v: "v \<in> set (rx_all (ch_ci c) s)" "t \<in> set (rx_all (lit_ci (d # cs)) v)"
    by (auto simp: lit_ci_def)
  obtain x where x: "mk_rest s = x # mk_rest v" "lower_char x = c" using ch_ci_consumes [OF v(1)] by blast
  from 3(1) [of "d # cs" v] 3(2) w v(2) obtain u where "mk_rest v = u @ mk_rest t" "lower u = d # cs" by auto
  with x w show ?case by (intro exI [of _ "x # u"]) (simp add: lower_def)
qed

lemma rx_alt_cases: "t \<in> set (rx_all (rx_alt rs) s) \<Longrightarrow> \<exists>r \<in> set rs. t \<in> set (rx_all r s)"
  by (induction rs rule: rx_alt.induct) (auto split: list.splits)

lemma no_cap_cat: "list_all no_cap rs \<Longrightarrow> no_cap (rx_cat rs)"
  by (induction rs rule: rx_cat.induct) simp_all

lemma no_cap_alt: "list_all no_cap rs \<Longrightarrow> no_cap (rx_alt rs)"
  by (induction rs rule: rx_alt.induct) simp_all

lemma no_cap_lits [simp]: "no_cap (lit_ci w)" "no_cap (rx_alt (map lit_ci ws))"
proof -
  show l: "no_cap (lit_ci w)" for w unfolding lit_ci_def by (rule no_cap_cat) (simp add: list_all_iff ch_ci_def)
  show "no_cap (rx_alt (map lit_ci ws))" by (rule no_cap_alt) (simp add: list_all_iff l)
qed

end
