(* ===== verification/Time_Window.thy ===== *)
theory Time_Window
  imports Py_Regex Call_Brief
begin

section \<open>Time windows of a phone brief\<close>

text \<open>
  \<^verbatim>\<open>app/services/time_window.py\<close>: whether a time the callee proposes lies in the confirmed windows. A day
  is 0 (Monday) to 6, a minute counts from midnight. The long dashes a range may be written with are
  outside the character set; the hyphen and the word between two times are kept.
\<close>

record interval =
  in_day :: nat
  in_start :: int
  in_end :: int

definition interval_contains :: "interval \<Rightarrow> nat \<Rightarrow> int \<Rightarrow> bool" where
  "interval_contains i day minute \<longleftrightarrow> day = in_day i \<and> in_start i \<le> minute \<and> minute < in_end i"

record windows =
  wi_acceptable :: "interval list"
  wi_blocked :: "interval list"

definition is_open :: "windows \<Rightarrow> nat \<Rightarrow> int \<Rightarrow> bool" where
  "is_open w day minute \<longleftrightarrow>
     list_ex (\<lambda>i. interval_contains i day minute) (wi_acceptable w) \<and>
     \<not> list_ex (\<lambda>i. interval_contains i day minute) (wi_blocked w)"

record proposed =
  pt_day :: nat
  pt_minutes :: "int list"
  pt_label :: string

record check_result =
  cr_detected :: bool
  cr_available :: "bool option"
  cr_label :: "string option"
  cr_summary :: "string option"

subsection \<open>Clock faces\<close>

datatype meridiem = AM | PM

definition parse_clock :: "int \<Rightarrow> int \<Rightarrow> meridiem option \<Rightarrow> int option" where
  "parse_clock hour minute mer =
     (if \<not> (0 \<le> minute \<and> minute < 60) \<or> hour < 0 \<or> hour > 23 then None
      else (case mer of
        None \<Rightarrow> Some (hour * 60 + minute)
      | Some AM \<Rightarrow> if hour = 12 then Some minute else if hour > 12 then None else Some (hour * 60 + minute)
      | Some PM \<Rightarrow> if hour < 12 then Some ((hour + 12) * 60 + minute) else if hour > 12 then None
                    else Some (hour * 60 + minute)))"

fun opt_list :: "'a option \<Rightarrow> 'a list" where
  "opt_list None = []"
| "opt_list (Some x) = [x]"

definition candidate_minutes :: "int \<Rightarrow> int \<Rightarrow> meridiem option \<Rightarrow> int list" where
  "candidate_minutes hour minute mer =
     (if mer \<noteq> None then opt_list (parse_clock hour minute mer)
      else if hour > 12 then opt_list (parse_clock hour minute None)
      else rev (remdups (rev (opt_list (parse_clock hour minute (Some AM)) @ opt_list (parse_clock hour minute (Some PM))))))"

subsection \<open>Patterns\<close>

definition meridiem_rx :: rx where
  "meridiem_rx = Alt (rx_cat [ch_ci CHR ''a'', opt (ch CHR ''.''), ch_ci CHR ''m'', opt (ch CHR ''.'')])
                     (rx_cat [ch_ci CHR ''p'', opt (ch CHR ''.''), ch_ci CHR ''m'', opt (ch CHR ''.'')])"

definition face_rx :: rx where
  "face_rx = rx_cat [Cap 1 (Rep 1 (Some 2) True digit), opt (rx_cat [ch CHR '':'', Cap 2 (rx_cat [digit, digit])]),
     spaces, opt (Cap 3 meridiem_rx)]"

definition time_rx :: rx where
  "time_rx = Cat Bnd face_rx"

definition day_names3 :: "string list" where
  "day_names3 = [''mon'', ''tue'', ''wed'', ''thu'', ''fri'', ''sat'', ''sun'']"

definition day_names :: "string list" where
  "day_names = [''Monday'', ''Tuesday'', ''Wednesday'', ''Thursday'', ''Friday'', ''Saturday'', ''Sunday'']"

definition letter :: rx where
  "letter = Cls (\<lambda>c. 97 \<le> code (lower_char c) \<and> code (lower_char c) \<le> 122)"

definition day_rx :: rx where
  "day_rx = rx_cat [Bnd, Cap 1 (rx_alt (map lit_ci day_names3)), many letter, Bnd]"

definition noon_rx :: rx where
  "noon_rx = rx_cat [Bnd, lit_ci ''noon'', Bnd]"

definition midnight_rx :: rx where
  "midnight_rx = rx_cat [Bnd, lit_ci ''midnight'', Bnd]"

definition clock_text_rx :: rx where
  "clock_text_rx = rx_cat [Rep 1 (Some 2) True digit, opt (rx_cat [ch CHR '':'', digit, digit]), spaces, opt meridiem_rx]"

definition range_rx :: rx where
  "range_rx = rx_cat [Cap 1 clock_text_rx, spaces, Alt (ch CHR ''-'') (lit_ci ''to''), spaces, Cap 2 clock_text_rx]"

definition label_rx :: rx where
  "label_rx = rx_cat [spaces, ch CHR ''('', many (Cls (\<lambda>c. c \<noteq> CHR '')'')), ch CHR '')'', spaces, Eol]"

subsection \<open>Reading a proposal\<close>

definition day_index :: "string \<Rightarrow> nat" where
  "day_index s = length (takeWhile (\<lambda>x. x \<noteq> lower s) day_names3)"

definition cap_text :: "nat \<Rightarrow> hit \<Rightarrow> string" where
  "cap_text n h = (case cap_of n h of None \<Rightarrow> [] | Some s \<Rightarrow> s)"

definition first_day :: "string \<Rightarrow> nat option" where
  "first_day text = map_option (\<lambda>h. day_index (cap_text 1 h)) (rx_search day_rx text)"

definition num_of :: "string \<Rightarrow> int" where
  "num_of s = int (digits_val 0 s)"

text \<open>The hour, the minute and the am or pm of a matched face.\<close>

definition face_of :: "hit \<Rightarrow> int \<times> int \<times> meridiem option" where
  "face_of h =
     (num_of (cap_text 1 h), (if otruthy (cap_of 2 h) then num_of (cap_text 2 h) else 0),
      (if otruthy (cap_of 3 h) then Some (if starts_with (lower (cap_text 3 h)) ''a'' then AM else PM) else None))"

definition format_label :: "nat \<Rightarrow> int \<Rightarrow> int \<Rightarrow> meridiem option \<Rightarrow> string" where
  "format_label day hour minute mer =
     strip (day_names ! day @ '' at '' @
       (if minute \<noteq> 0 then int_str hour @ '':'' @ pad 2 (int_str minute) else int_str hour) @
       (case mer of None \<Rightarrow> [] | Some AM \<Rightarrow> '' am'' | Some PM \<Rightarrow> '' pm''))"

fun first_face :: "nat \<Rightarrow> hit list \<Rightarrow> proposed option" where
  "first_face day [] = None"
| "first_face day (h # hs) =
     (case face_of h of (hour, minute, mer) \<Rightarrow>
        (case candidate_minutes hour minute mer of
           [] \<Rightarrow> first_face day hs
         | ms \<Rightarrow> Some \<lparr>pt_day = day, pt_minutes = ms, pt_label = format_label day hour minute mer\<rparr>))"

definition parse_proposed :: "string \<Rightarrow> proposed option" where
  "parse_proposed utterance =
     (let text = strip utterance in
      if text = [] then None
      else (case first_day text of
        None \<Rightarrow> None
      | Some day \<Rightarrow>
          if rx_search noon_rx text \<noteq> None then
            Some \<lparr>pt_day = day, pt_minutes = [12 * 60], pt_label = day_names ! day @ '' at noon''\<rparr>
          else if rx_search midnight_rx text \<noteq> None then
            Some \<lparr>pt_day = day, pt_minutes = [0], pt_label = day_names ! day @ '' at midnight''\<rparr>
          else first_face day (rx_finditer time_rx text)))"

subsection \<open>Reading the envelope\<close>

definition split_once :: "char \<Rightarrow> string \<Rightarrow> (string \<times> string) option" where
  "split_once c s = (case dropWhile (\<lambda>x. x \<noteq> c) s of [] \<Rightarrow> None | _ # r \<Rightarrow> Some (takeWhile (\<lambda>x. x \<noteq> c) s, r))"

definition parse_face :: "string \<Rightarrow> (int \<times> int \<times> meridiem option) option" where
  "parse_face s = map_option face_of (rx_fullmatch face_rx (strip s))"

definition parse_range :: "string \<Rightarrow> (int \<times> int) option" where
  "parse_range text = (case split_once CHR ''-'' text of
      None \<Rightarrow> None
    | Some (a, b) \<Rightarrow>
        (case (parse_face (strip a), parse_face (strip b)) of
           (Some (sh, sm, s_mer), Some (eh, em, e_mer)) \<Rightarrow>
             (case (parse_clock sh sm (case s_mer of None \<Rightarrow> e_mer | m \<Rightarrow> m),
                    parse_clock eh em (case e_mer of None \<Rightarrow> Some PM | m \<Rightarrow> m)) of
                (Some start, Some stop) \<Rightarrow> if start \<ge> stop then None else Some (start, stop)
              | _ \<Rightarrow> None)
         | _ \<Rightarrow> None))"

definition parse_entry :: "string \<Rightarrow> interval option" where
  "parse_entry chunk0 =
     (let chunk = strip (rx_sub label_rx (\<lambda>_. []) (strip chunk0)) in
      case rx_match day_rx chunk of
        None \<Rightarrow> None
      | Some dm \<Rightarrow>
          (case rx_search range_rx (hi_after dm) of
             None \<Rightarrow> None
           | Some r \<Rightarrow>
               (case parse_range (strip (cap_text 1 r) @ ''-'' @ strip (cap_text 2 r)) of
                  None \<Rightarrow> None
                | Some (start, stop) \<Rightarrow> Some \<lparr>in_day = day_index (cap_text 1 dm), in_start = start, in_end = stop\<rparr>)))"

definition parse_entries :: "string \<Rightarrow> interval list" where
  "parse_entries body = List.map_filter parse_entry (filter (\<lambda>c. strip c \<noteq> []) (split_char CHR '';'' body))"

definition acceptable_prefix :: string where
  "acceptable_prefix = ''acceptable times:''"

definition blocked_prefix :: string where
  "blocked_prefix = ''do not book:''"

definition line_windows :: "string \<Rightarrow> windows \<Rightarrow> windows" where
  "line_windows line w =
     (let low = lower (strip line) in
      if starts_with low acceptable_prefix then
        w\<lparr>wi_acceptable := wi_acceptable w @ parse_entries (drop (length acceptable_prefix) (strip line))\<rparr>
      else if starts_with low blocked_prefix then
        w\<lparr>wi_blocked := wi_blocked w @ parse_entries (drop (length blocked_prefix) (strip line))\<rparr>
      else w)"

definition parse_windows :: "string option \<Rightarrow> windows" where
  "parse_windows envelope = fold line_windows (splitlines (oor envelope [])) \<lparr>wi_acceptable = [], wi_blocked = []\<rparr>"

subsection \<open>The check\<close>

definition acceptable_summary :: "string option \<Rightarrow> string option" where
  "acceptable_summary envelope =
     map_option strip (find (\<lambda>l. starts_with (lower (strip l)) acceptable_prefix) (splitlines (oor envelope [])))"

definition check_time :: "string option \<Rightarrow> string \<Rightarrow> check_result" where
  "check_time envelope utterance = (case parse_proposed utterance of
      None \<Rightarrow> \<lparr>cr_detected = False, cr_available = None, cr_label = None, cr_summary = None\<rparr>
    | Some p \<Rightarrow>
        let w = parse_windows envelope; summary = acceptable_summary envelope;
            verdict = (\<lambda>a. \<lparr>cr_detected = True, cr_available = a, cr_label = Some (pt_label p), cr_summary = summary\<rparr>) in
        if list_ex (\<lambda>b. list_ex (interval_contains b (pt_day p)) (pt_minutes p)) (wi_blocked w) then verdict (Some False)
        else if wi_acceptable w = [] then verdict None
        else verdict (Some (list_ex (is_open w (pt_day p)) (pt_minutes p))))"

end
