(* ===== verification/Time_Facts.thy ===== *)
theory Time_Facts
  imports Time_Window Phone_Sessions
begin

section \<open>What the time check promises\<close>

text \<open>
  The endpoint of \<^verbatim>\<open>app/api/phone_sessions.py\<close> that asks for the check, the bounds of the windows that
  are read, and the verdicts: a time that may fall into a blocked window is never reported free. At the end, what
  \<open>isoformat\<close> prints is read back by \<open>fromisoformat\<close>.
\<close>

subsection \<open>Well-formed windows\<close>

lemma day_rx_caps:
  assumes "t \<in> set (rx_all day_rx s)"
  shows "\<exists>u. map_of (mk_caps t) 1 = Some u \<and> lower u \<in> set day_names3"
proof -
  let ?alt = "rx_alt (map lit_ci day_names3)"
  from assms obtain v where v: "v \<in> set (rx_all (Cap 1 ?alt) s)" "t \<in> set (rx_all (rx_cat [many letter, Bnd]) v)"
    by (auto simp: day_rx_def split: if_splits)
  have "no_cap (rx_cat [many letter, Bnd])" by (simp add: many_def letter_def)
  from no_cap_keeps [OF this v(2)] have c: "mk_caps t = mk_caps v" .
  from v(1) obtain y where y: "y \<in> set (rx_all ?alt s)"
    and vy: "v = y\<lparr>mk_caps := AList.update 1 (take (length (mk_rest s) - length (mk_rest y)) (mk_rest s)) (mk_caps y)\<rparr>" by auto
  from rx_alt_cases [OF y] obtain w where w: "w \<in> set day_names3" "y \<in> set (rx_all (lit_ci w) s)" by auto
  from lit_ci_consumes [OF w(2)] obtain u where u: "mk_rest s = u @ mk_rest y" "lower u = w" by blast
  have "map_of (mk_caps t) 1 = Some u" by (simp add: c vy u(1) update_conv)
  with u(2) w(1) show ?thesis by blast
qed


lemma takeWhile_member: "x \<in> set xs \<Longrightarrow> length (takeWhile (\<lambda>y. y \<noteq> x) xs) < length xs"
  by (induction xs) auto

lemma day_index_bound: "lower u \<in> set day_names3 \<Longrightarrow> day_index u < 7"
proof -
  assume "lower u \<in> set day_names3"
  then have "length (takeWhile (\<lambda>x. x \<noteq> lower u) day_names3) < length day_names3"
    by (rule takeWhile_member)
  then show ?thesis by (simp add: day_index_def day_names3_def)
qed

lemma parse_clock_bound: "parse_clock h m mer = Some t \<Longrightarrow> 0 \<le> t \<and> t < 1440"
  by (auto simp: parse_clock_def split: if_splits option.splits meridiem.splits)

lemma parse_range_bound: "parse_range s = Some (a, b) \<Longrightarrow> 0 \<le> a \<and> a < b \<and> b < 1440"
  by (auto simp: parse_range_def dest!: parse_clock_bound split: option.splits prod.splits if_splits)

definition well_formed :: "interval \<Rightarrow> bool" where
  "well_formed i \<longleftrightarrow> in_day i < 7 \<and> 0 \<le> in_start i \<and> in_start i < in_end i \<and> in_end i < 1440"

lemma parse_entry_wf: "parse_entry c = Some i \<Longrightarrow> well_formed i"
proof -
  assume a: "parse_entry c = Some i"
  then obtain dm r a b where dm: "rx_match day_rx (strip (rx_sub label_rx (\<lambda>_. []) (strip c))) = Some dm"
    and pr: "parse_range (strip (cap_text 1 r) @ ''-'' @ strip (cap_text 2 r)) = Some (a, b)"
    and i: "i = \<lparr>in_day = day_index (cap_text 1 dm), in_start = a, in_end = b\<rparr>"
    by (auto simp: parse_entry_def Let_def split: option.splits prod.splits)
  from dm obtain s t ts where "rx_all day_rx s = t # ts" "hi_caps dm = mk_caps t"
    by (auto simp: rx_match_def rx_at_def split: list.splits)
  then have "t \<in> set (rx_all day_rx s)" "hi_caps dm = mk_caps t" by simp_all
  with day_rx_caps obtain u where "map_of (hi_caps dm) 1 = Some u" "lower u \<in> set day_names3" by metis
  then have "day_index (cap_text 1 dm) < 7" by (simp add: cap_text_def cap_of_def day_index_bound)
  with parse_range_bound [OF pr] i show ?thesis by (simp add: well_formed_def)
qed

lemma parse_entries_wf: "i \<in> set (parse_entries s) \<Longrightarrow> well_formed i"
  by (auto simp: parse_entries_def List.map_filter_def dest: parse_entry_wf)

definition wf_windows :: "windows \<Rightarrow> bool" where
  "wf_windows w \<longleftrightarrow> list_all well_formed (wi_acceptable w) \<and> list_all well_formed (wi_blocked w)"

lemma line_windows_wf: "wf_windows w \<Longrightarrow> wf_windows (line_windows l w)"
  by (auto simp: wf_windows_def line_windows_def Let_def list_all_iff parse_entries_wf)

lemma fold_wf: "wf_windows w \<Longrightarrow> wf_windows (fold line_windows ls w)"
  by (induction ls arbitrary: w) (simp_all add: line_windows_wf)

text \<open>
  Whatever text the envelope is, every window read from it lies on one of the seven days, within
  the day, and is not empty.
\<close>

lemma windows_well_formed: "wf_windows (parse_windows envelope)"
  unfolding parse_windows_def by (rule fold_wf) (simp add: wf_windows_def)

subsection \<open>Verdicts\<close>

definition session_envelope :: "phone_session \<Rightarrow> string option" where
  "session_envelope s = (if otruthy (ps_constraints s) then ps_constraints s else extract_constraint_envelope (ps_details s))"

definition check_session_time :: "string \<Rightarrow> string \<Rightarrow> (world, pydict) io" where
  "check_session_time sid utterance =
     bind (gets (find_session sid)) (\<lambda>found.
     case found of
       None \<Rightarrow> throw (HTTPError 404 ''Session not found'')
     | Some s \<Rightarrow>
         let r = check_time (session_envelope s) utterance in
         ret [(''time_detected'', PBool (cr_detected r)),
              (''available'', case cr_available r of None \<Rightarrow> PNone | Some b \<Rightarrow> PBool b),
              (''proposed_label'', opt_str (cr_label r)), (''acceptable_summary'', opt_str (cr_summary r))])"

text \<open>The minutes a proposal may stand for that an interval of the list covers.\<close>

definition covered :: "interval list \<Rightarrow> proposed \<Rightarrow> int set" where
  "covered is p = {m \<in> set (pt_minutes p). \<exists>i \<in> set is. pt_day p = in_day i \<and> in_start i \<le> m \<and> m < in_end i}"

lemma covered_iff:
  "list_ex (\<lambda>b. list_ex (interval_contains b (pt_day p)) (pt_minutes p)) is \<longleftrightarrow> covered is p \<noteq> {}"
  unfolding covered_def list_ex_iff interval_contains_def by blast

lemma open_iff:
  "list_ex (is_open w (pt_day p)) (pt_minutes p) \<longleftrightarrow> covered (wi_acceptable w) p - covered (wi_blocked w) p \<noteq> {}"
  unfolding covered_def list_ex_iff is_open_def interval_contains_def by blast

lemma covered_Nil [simp]: "covered [] p = {}"
  by (simp add: covered_def)

lemma candidate_minutes_bound: "m \<in> set (candidate_minutes h mi mer) \<Longrightarrow> 0 \<le> m \<and> m < 1440"
proof -
  have "x \<in> set (opt_list y) \<longleftrightarrow> y = Some x" for x :: int and y by (cases y) auto
  then show "m \<in> set (candidate_minutes h mi mer) \<Longrightarrow> 0 \<le> m \<and> m < 1440"
    by (auto simp: candidate_minutes_def dest!: parse_clock_bound split: if_splits)
qed

definition sound_proposal :: "proposed \<Rightarrow> bool" where
  "sound_proposal p \<longleftrightarrow> pt_day p < 7 \<and> pt_minutes p \<noteq> [] \<and> list_all (\<lambda>m. 0 \<le> m \<and> m < 1440) (pt_minutes p)"

lemma first_face_sound: "first_face day hs = Some p \<Longrightarrow> day < 7 \<Longrightarrow> sound_proposal p"
proof (induction day hs rule: first_face.induct)
  case (2 day h hs)
  obtain hour minute mer where f: "face_of h = (hour, minute, mer)" by (cases "face_of h") auto
  show ?case
  proof (cases "candidate_minutes hour minute mer")
    case Nil
    with 2 f show ?thesis by simp
  next
    case (Cons m ms)
    have "list_all (\<lambda>m. 0 \<le> m \<and> m < 1440) (candidate_minutes hour minute mer)"
      using candidate_minutes_bound by (simp add: list_all_iff)
    with 2(2,3) f Cons show ?thesis by (auto simp: sound_proposal_def)
  qed
qed simp

lemma first_day_bound: "first_day t = Some d \<Longrightarrow> d < 7"
proof -
  assume "first_day t = Some d"
  then obtain h where h: "rx_search day_rx t = Some h" and d: "d = day_index (cap_text 1 h)" by (auto simp: first_day_def)
  from search_from_hit [OF h [unfolded rx_search_def]] obtain s m where
    "m \<in> set (rx_all day_rx s)" "hi_caps h = mk_caps m" by blast
  with day_rx_caps obtain u where "map_of (hi_caps h) 1 = Some u" "lower u \<in> set day_names3" by metis
  with d show ?thesis by (simp add: cap_text_def cap_of_def day_index_bound)
qed

lemma parse_proposed_sound: "parse_proposed u = Some p \<Longrightarrow> sound_proposal p"
proof -
  assume a: "parse_proposed u = Some p"
  then obtain d where d: "first_day (strip u) = Some d" by (auto simp: parse_proposed_def Let_def split: if_splits option.splits)
  from first_day_bound [OF d] a show ?thesis
    by (auto simp: parse_proposed_def Let_def d sound_proposal_def [of "\<lparr>pt_day = e, pt_minutes = [n], pt_label = l\<rparr>" for e n l]
        dest: first_face_sound split: if_splits)
qed

text \<open>
  A proposal that is read has a day and minutes of that day, and the verdict on it is: free
  exactly when no reading of the time falls into a blocked window and some reading falls into an
  acceptable one; taken exactly when some reading is blocked, or acceptable windows exist and no
  reading lies in them; otherwise left open.
\<close>

lemma check_time_verdict:
  assumes "parse_proposed utterance = Some p"
  shows "sound_proposal p \<and> cr_available (check_time envelope utterance) =
     (let blocked = covered (wi_blocked (parse_windows envelope)) p;
          free = covered (wi_acceptable (parse_windows envelope)) p in
      if blocked \<noteq> {} then Some False
      else if free \<noteq> {} then Some True
      else if wi_acceptable (parse_windows envelope) \<noteq> [] then Some False
      else None)"
  using assms parse_proposed_sound [OF assms] by (auto simp: check_time_def Let_def covered_iff open_iff)

lemma sample_proposal:
  "parse_proposed ''Thursday at noon'' = Some \<lparr>pt_day = 3, pt_minutes = [720], pt_label = ''Thursday at noon''\<rparr>"
  by code_simp

lemma sample_windows:
  "parse_windows (Some ''Acceptable times: Thu 9am-8pm'') =
     \<lparr>wi_acceptable = [\<lparr>in_day = 3, in_start = 540, in_end = 1200\<rparr>], wi_blocked = []\<rparr>"
  by code_simp

lemma check_time_verdict_witness:
  "cr_available (check_time (Some ''Acceptable times: Thu 9am-8pm'') ''Thursday at noon'') = Some True"
  using check_time_verdict [OF sample_proposal, of "Some ''Acceptable times: Thu 9am-8pm''"]
  by (simp add: sample_windows covered_def)

text \<open>
  Blocked ranges are lost when they end at midnight, are written on the 24 hour clock, or leave the
  morning of an early start unwritten: the entry is dropped, so the time in it is not vetoed. And a
  day of the month in the utterance is taken for the hour.
\<close>

lemma blocked_ranges_lost:
  "parse_range ''8pm-12am'' = None" "parse_range ''13:00-17:00'' = None" "parse_range ''9-5pm'' = None"
  by code_simp+

lemma ordinal_taken_for_hour:
  "map_option pt_label (parse_proposed ''Wed the 5th at 2pm'') = Some ''Wednesday at 5''"
  by code_simp

section \<open>A printed instant is read back\<close>

subsection \<open>The civil calendar\<close>

definition era_years :: "int \<Rightarrow> int" where
  "era_years n = n - n div 1460 + n div 36524 - n div 146096"

definition year_start :: "int \<Rightarrow> int" where
  "year_start y = 365 * y + y div 4 - y div 100"

lemma int_div_step: "0 < k \<Longrightarrow> (y + 1) div k = y div k + (if k dvd y + 1 then 1 else 0)" for y k :: int
proof -
  assume k: "0 < k"
  have y: "y = k * (y div k) + y mod k" "0 \<le> y mod k" "y mod k < k" using k by simp_all
  show ?thesis
  proof (cases "y mod k = k - 1")
    case True
    then have "y + 1 = k * (y div k + 1)" using y(1) unfolding distrib_left mult_1_right by linarith
    then show ?thesis using k by (metis dvd_triv_left nonzero_mult_div_cancel_left order_less_irrefl)
  next
    case False
    have s: "y + 1 = k * (y div k) + (y mod k + 1)" using y(1) by linarith
    have "0 \<le> y mod k + 1" "y mod k + 1 < k" using y False by linarith+
    from int_div_pos_eq [OF s this] have "(y + 1) div k = y div k" .
    moreover have "\<not> k dvd y + 1"
    proof
      assume "k dvd y + 1"
      then have "k dvd y mod k + 1" unfolding s by (simp only: dvd_add_right_iff dvd_triv_left)
      with y False show False using zdvd_imp_le [of k "y mod k + 1"] by simp
    qed
    ultimately show ?thesis by simp
  qed
qed

lemma era_years_step: "0 \<le> n \<Longrightarrow> era_years n \<le> era_years (n + 1)"
proof -
  have rest: "(r \<Longrightarrow> q) \<Longrightarrow> n - a + b - c \<le> n + 1 - (a + (if p then 1 else 0)) + (b + (if q then 1 else 0)) - (c + (if r then 1 else 0))"
    for a b c :: int and p q r by auto
  have "146096 dvd n + 1 \<Longrightarrow> 36524 dvd n + 1" by (rule dvd_trans [of 36524 "146096::int" "n + 1"]) simp
  from rest [OF this] show ?thesis
    unfolding era_years_def int_div_step [of 1460 n, OF zero_less_numeral] int_div_step [of 36524 n, OF zero_less_numeral]
      int_div_step [of 146096 n, OF zero_less_numeral] .
qed

lemma era_years_mono: "0 \<le> m \<Longrightarrow> m \<le> n \<Longrightarrow> era_years m \<le> era_years n"
proof -
  have "0 \<le> m \<Longrightarrow> era_years m \<le> era_years (m + int k)" for k
  proof (induction k)
    case (Suc k)
    then show ?case using era_years_step [of "m + int k"] by (simp add: algebra_simps)
  qed simp
  from this [of "nat (n - m)"] show "0 \<le> m \<Longrightarrow> m \<le> n \<Longrightarrow> ?thesis" by simp
qed

definition year_ok :: "int \<Rightarrow> int \<Rightarrow> bool" where
  "year_ok y s \<longleftrightarrow> 365 * y \<le> era_years s \<and> (y = 0 \<or> era_years (s - 1) < 365 * y) \<and> 0 \<le> s"

lemma years_checked: "list_all (\<lambda>y. year_ok y (year_start y)) [0..399]"
  by code_simp

lemma year_start_at: "0 \<le> y \<Longrightarrow> y \<le> 399 \<Longrightarrow>
    365 * y \<le> era_years (year_start y) \<and> (y = 0 \<or> era_years (year_start y - 1) < 365 * y) \<and> 0 \<le> year_start y"
  using years_checked by (simp add: list_all_iff year_ok_def)

lemma year_of_era:
  fixes n defines "y \<equiv> era_years n div 365"
  assumes "0 \<le> n" "n \<le> 146096"
  shows "0 \<le> y" "y \<le> 399" "year_start y \<le> n" "n \<le> year_start y + 365"
    "n = year_start y + 365 \<Longrightarrow> y = 399 \<or> 4 dvd (y + 1) \<and> \<not> 100 dvd (y + 1)"
proof -
  have ends: "era_years 0 = 0" "era_years 146096 = 145999" by (simp_all add: era_years_def)
  have "0 \<le> era_years n" "era_years n \<le> 145999"
    using era_years_mono [of 0 n] era_years_mono [of n 146096] assms(2,3) unfolding ends by simp_all
  then show y: "0 \<le> y" "y \<le> 399" unfolding y_def by linarith+
  have within: "365 * y \<le> era_years n" "era_years n < 365 * (y + 1)" using mult_div_mod_eq [of 365 "era_years n"] pos_mod_bound [of 365 "era_years n"] pos_mod_sign [of 365 "era_years n"]
    unfolding y_def distrib_left by linarith+
  show start: "year_start y \<le> n"
  proof (rule ccontr)
    assume "\<not> year_start y \<le> n"
    then have "era_years n \<le> era_years (year_start y - 1)" "y \<noteq> 0"
      using era_years_mono [of n "year_start y - 1"] assms(2) by (auto simp: year_start_def)
    with year_start_at [OF y] within show False by simp
  qed
  have next_start: "n < year_start (y + 1)" if "y < 399"
  proof (rule ccontr)
    assume "\<not> n < year_start (y + 1)"
    then have "era_years (year_start (y + 1)) \<le> era_years n"
      using era_years_mono [of "year_start (y + 1)" n] year_start_at [of "y + 1"] y that by simp
    with year_start_at [of "y + 1"] within y that show False by simp
  qed
  have "year_start (y + 1) \<le> year_start y + 366"
    using zdiv_mono1 [of y "y + 1" 100] zdiv_mono1 [of "y + 1" "y + 4" 4] by (simp add: year_start_def)
  moreover have "n \<le> year_start 399 + 365" using assms(3) by (simp add: year_start_def)
  ultimately show end_y: "n \<le> year_start y + 365"
    using next_start y by (cases "y = 399") simp_all
  assume last: "n = year_start y + 365"
  show "y = 399 \<or> 4 dvd (y + 1) \<and> \<not> 100 dvd (y + 1)"
  proof (cases "y = 399")
    case False
    with y next_start last have "365 < year_start (y + 1) - year_start y" by simp
    then have "y div 4 + (y + 1) div 100 < (y + 1) div 4 + y div 100" by (simp add: year_start_def)
    then show ?thesis using int_div_step [of 4 y] int_div_step [of 100 y] by (simp split: if_splits)
  qed simp
qed

definition month_of :: "int \<Rightarrow> int" where
  "month_of n = (let mp = (5 * n + 2) div 153 in if mp < 10 then mp + 3 else mp - 9)"

definition dom_of :: "int \<Rightarrow> int" where
  "dom_of n = n - (153 * ((5 * n + 2) div 153) + 2) div 5 + 1"

lemma month_at:
  assumes "0 \<le> n" "n \<le> 365"
  shows "(153 * (if month_of n > 2 then month_of n - 3 else month_of n + 9) + 2) div 5 + dom_of n - 1 = n"
    "1 \<le> month_of n" "month_of n \<le> 12" "1 \<le> dom_of n"
    "dom_of n \<le> (if month_of n = 2 then (if n = 365 then 29 else 28) else if month_of n \<in> {4, 6, 9, 11} then 30 else 31)"
    "306 \<le> n \<longleftrightarrow> month_of n \<le> 2"
proof -
  define mp where "mp = (5 * n + 2) div 153"
  have n: "153 * mp \<le> 5 * n + 2" "5 * n + 2 < 153 * mp + 153" unfolding mp_def by linarith+
  have eqs: "month_of n = (if mp < 10 then mp + 3 else mp - 9)" "dom_of n = n - (153 * mp + 2) div 5 + 1"
    by (simp_all add: month_of_def dom_of_def mp_def Let_def)
  have "0 \<le> mp" "mp \<le> 11" using n assms by linarith+
  then have "mp = 0 \<or> mp = 1 \<or> mp = 2 \<or> mp = 3 \<or> mp = 4 \<or> mp = 5 \<or> mp = 6 \<or> mp = 7 \<or> mp = 8 \<or> mp = 9 \<or> mp = 10 \<or> mp = 11"
    by presburger
  then have mp: "mp \<in> {0, 1, 2, 3, 4, 5, 6, 7, 8, 9, 10, 11}" by simp
  show "(153 * (if month_of n > 2 then month_of n - 3 else month_of n + 9) + 2) div 5 + dom_of n - 1 = n"
    "1 \<le> month_of n" "month_of n \<le> 12" unfolding eqs using mp by auto
  show "1 \<le> dom_of n" unfolding eqs using mp n by auto
  show "306 \<le> n \<longleftrightarrow> month_of n \<le> 2" unfolding eqs using mp n by auto
  show "dom_of n \<le> (if month_of n = 2 then (if n = 365 then 29 else 28) else if month_of n \<in> {4, 6, 9, 11} then 30 else 31)"
    unfolding eqs using mp n assms by auto
qed

lemma civil_parts:
  fixes z defines "era \<equiv> (z + 719468) div 146097" and "n \<equiv> (z + 719468) mod 146097"
  defines "yoe \<equiv> era_years n div 365"
  defines "doy \<equiv> n - year_start yoe"
  shows "civil_from_days z = (yoe + era * 400 + (if month_of doy \<le> 2 then 1 else 0), month_of doy, dom_of doy)"
proof -
  have n: "z + 719468 - era * 146097 = n" unfolding n_def era_def by (simp add: minus_div_mult_eq_mod)
  have yoe: "(n - n div 1460 + n div 36524 - n div 146096) div 365 = yoe" by (simp only: yoe_def era_years_def)
  have doy: "n - (365 * yoe + yoe div 4 - yoe div 100) = doy" by (simp only: doy_def year_start_def)
  show ?thesis
    unfolding civil_from_days_def Let_def era_def [symmetric] n yoe doy by (simp only: month_of_def dom_of_def Let_def)
qed

lemma civil_roundtrip:
  assumes "civil_from_days z = (y, m, d)" "-719162 \<le> z" "z \<le> 2932896"
  shows "days_from_civil y m d = z" "1 \<le> y" "y \<le> 9999" "1 \<le> m" "m \<le> 12" "1 \<le> d" "d \<le> month_len y m"
proof -
  define era where "era = (z + 719468) div 146097"
  define n where "n = (z + 719468) mod 146097"
  define yoe where "yoe = era_years n div 365"
  define doy where "doy = n - year_start yoe"
  have n: "0 \<le> n" "n \<le> 146096" unfolding n_def by simp_all
  have z: "z = era * 146097 + n - 719468" unfolding era_def n_def by (simp add: algebra_simps)
  note yr = year_of_era [OF n, folded yoe_def]
  have doy: "0 \<le> doy" "doy \<le> 365" using yr by (simp_all add: doy_def)
  note mo = month_at [OF doy]
  have parts: "y = yoe + era * 400 + (if month_of doy \<le> 2 then 1 else 0)" "m = month_of doy" "d = dom_of doy"
    using civil_parts [of z, folded era_def n_def yoe_def doy_def] assms(1) by simp_all
  have y': "(if m \<le> 2 then y - 1 else y) = yoe + era * 400" using parts by simp
  have eras: "(yoe + era * 400) div 400 = era" "yoe + era * 400 - era * 400 = yoe" using yr(1,2) by simp_all
  have inner: "(153 * (if m > 2 then m - 3 else m + 9) + 2) div 5 + d - 1 = doy" using mo(1) by (simp only: parts(2,3))
  show "days_from_civil y m d = z"
    using z unfolding days_from_civil_def Let_def y' eras inner doy_def year_start_def by linarith
  show "1 \<le> m" "m \<le> 12" "1 \<le> d" using mo parts by simp_all
  have era: "0 \<le> era" "era \<le> 24" using assms(2,3) z n by linarith+
  show "1 \<le> y"
  proof (cases "era = 0 \<and> yoe = 0")
    case True
    then have "306 \<le> doy" using z assms(2) by (simp add: doy_def year_start_def)
    with mo(6) parts show ?thesis using True by simp
  qed (use era yr parts in \<open>auto simp: le_less\<close>)
  show "y \<le> 9999"
  proof (cases "era = 24 \<and> yoe = 399")
    case True
    then have "doy < 306" using z assms(3) by (simp add: doy_def year_start_def)
    with mo(6) parts show ?thesis using True by simp
  qed (use era yr parts in auto)
  have "is_leap y" if "doy = 365" "m = 2"
  proof -
    have y: "y = yoe + 1 + 400 * era" using parts that(2) by simp
    have "4 dvd 400 * era" "100 dvd 400 * era" "400 dvd 400 * era" by (simp_all add: dvd_mult2)
    then have k: "k dvd y \<longleftrightarrow> k dvd yoe + 1" if "k \<in> {4, 100, 400}" for k
      using that unfolding y by (auto simp: dvd_add_left_iff)
    have "yoe = 399 \<or> 4 dvd (yoe + 1) \<and> \<not> 100 dvd (yoe + 1)" using yr(5) that(1) by (simp add: doy_def)
    then show ?thesis
      unfolding is_leap_def k [of 4, simplified] k [of 100, simplified] k [of 400, simplified] by (rule disjE) simp_all
  qed
  then show "d \<le> month_len y m" using mo(5) parts by (auto simp: month_len_def split: if_splits)
qed

subsection \<open>Digits\<close>

lemma length_nat_str: "n < 10 ^ k \<Longrightarrow> 0 < k \<Longrightarrow> length (nat_str n) \<le> k"
proof (induction k arbitrary: n)
  case (Suc k)
  show ?case
  proof (cases "n < 10")
    case False
    with Suc.prems have "0 < k" by (cases k) auto
    with Suc.IH [of "n div 10"] Suc.prems(1) False show ?thesis
      by (subst nat_str.simps) (simp add: less_mult_imp_div_less mult.commute)
  qed (simp add: nat_str.simps [of n])
qed simp

lemma digits_val_zeros: "digits_val 0 (replicate k CHR ''0'' @ s) = digits_val 0 s"
  by (induction k) simp_all

lemma pad_digits:
  assumes "0 \<le> v" "v < 10 ^ k" "0 < k"
  shows "length (pad k (int_str v)) = k" "list_all is_digit (pad k (int_str v))" "int (digits_val 0 (pad k (int_str v))) = v"
proof -
  have v: "int_str v = nat_str (nat v)" "nat v < 10 ^ k"
    using assms by (simp_all add: int_str_def nat_less_iff)
  from length_nat_str [OF v(2) assms(3)] show "length (pad k (int_str v)) = k" by (simp add: pad_def v)
  show "list_all is_digit (pad k (int_str v))"
    using nat_str_digits [of "nat v"] by (auto simp: pad_def v list_all_iff is_digit_def)
  show "int (digits_val 0 (pad k (int_str v))) = v"
    using assms(1) by (simp add: pad_def v digits_val_zeros digits_val_nat_str)
qed

lemma two_digits:
  assumes "0 \<le> v" "v < 100"
  obtains a b where "pad 2 (int_str v) = [a, b]" "is_digit a" "is_digit b" "10 * dig a + dig b = v"
proof -
  from pad_digits [of v 2] assms have p: "length (pad 2 (int_str v)) = 2" "list_all is_digit (pad 2 (int_str v))"
    "int (digits_val 0 (pad 2 (int_str v))) = v" by simp_all
  then obtain a b where ab: "pad 2 (int_str v) = [a, b]" by (auto simp: numeral_eq_Suc length_Suc_conv)
  with p(2,3) that show thesis by (simp add: dig_def is_digit_def)
qed

lemma take2_pad: "0 \<le> v \<Longrightarrow> v < 100 \<Longrightarrow> take2 (pad 2 (int_str v) @ r) = Some (v, r)"
  by (erule (1) two_digits) simp

lemma four_digits:
  assumes "0 \<le> v" "v < 10000"
  obtains a b c d where "pad 4 (int_str v) = [a, b, c, d]" "is_digit a" "is_digit b" "is_digit c" "is_digit d"
    "1000 * dig a + 100 * dig b + 10 * dig c + dig d = v"
proof -
  from pad_digits [of v 4] assms have p: "length (pad 4 (int_str v)) = 4" "list_all is_digit (pad 4 (int_str v))"
    "int (digits_val 0 (pad 4 (int_str v))) = v" by simp_all
  then obtain a b c d where "pad 4 (int_str v) = [a, b, c, d]" by (auto simp: numeral_eq_Suc length_Suc_conv)
  with p(2,3) that show thesis by (simp add: dig_def is_digit_def)
qed

lemma frac_us_digits:
  assumes "t = [] \<or> \<not> is_digit (hd t)"
  shows "list_all is_digit ds \<Longrightarrow> length ds = n \<Longrightarrow> frac_us n (int a) (ds @ t) = (int (digits_val a ds), t)"
proof (induction ds arbitrary: n a)
  case Nil
  then show ?case using assms by (cases t) simp_all
next
  case (Cons c ds)
  have "10 * int a + dig c = int (10 * a + (code c - 48))" using Cons.prems(1) by (simp add: dig_def is_digit_def)
  moreover obtain m where "n = Suc m" "length ds = m" using Cons.prems(2) by (cases n) simp_all
  ultimately show ?case using Cons.IH [of m "10 * a + (code c - 48)"] Cons.prems(1) by simp
qed

lemma six_digits:
  assumes "0 \<le> v" "v < 1000000"
  obtains a r where "pad 6 (int_str v) = a # r" "is_digit a" "\<And>t. (t = [] \<or> \<not> is_digit (hd t)) \<Longrightarrow> frac_us 6 0 ((a # r) @ t) = (v, t)"
proof -
  from pad_digits [of v 6] assms have p: "length (pad 6 (int_str v)) = 6" "list_all is_digit (pad 6 (int_str v))"
    "int (digits_val 0 (pad 6 (int_str v))) = v" by simp_all
  then obtain a r where ds: "pad 6 (int_str v) = a # r" by (cases "pad 6 (int_str v)") simp_all
  show thesis
  proof (rule that [OF ds])
    show "is_digit a" using p(2) ds by simp
    show "frac_us 6 0 ((a # r) @ t) = (v, t)" if "t = [] \<or> \<not> is_digit (hd t)" for t
      using frac_us_digits [OF that, of "a # r" 6 0] p unfolding ds by simp
  qed
qed

subsection \<open>Reading what was printed\<close>

lemma take_date_digits:
  assumes "list_all is_digit [a, b, c, d, e, f, g, h]"
  shows "take_date ([a, b, c, d] @ ''-'' @ [e, f] @ ''-'' @ [g, h] @ r) =
    (let y = 1000 * dig a + 100 * dig b + 10 * dig c + dig d; m = 10 * dig e + dig f; n = 10 * dig g + dig h
     in if 1 \<le> y \<and> 1 \<le> m \<and> m \<le> 12 \<and> 1 \<le> n \<and> n \<le> month_len y m then Some (days_from_civil y m n, r) else None)"
  unfolding take_date_def append.simps list.case char.case bool.case using assms by (simp only: if_True)

lemma read_date:
  assumes "in_range u" "civil_from_days (u div day_us) = (y, m, d)"
  shows "take_date (pad 4 (int_str y) @ ''-'' @ pad 2 (int_str m) @ ''-'' @ pad 2 (int_str d) @ r) = Some (u div day_us, r)"
proof -
  have "-719162 \<le> u div day_us" "u div day_us \<le> 2932896"
    using assms(1) zdiv_mono1 [of "-62135596800000000" u 86400000000] zdiv_mono1 [of u 253402300799999999 86400000000]
    by (simp_all add: in_range_def dt_min_def dt_max_def day_us_def)
  note rt = civil_roundtrip [OF assms(2) this]
  have range: "0 \<le> y" "y < 10000" "0 \<le> m" "m < 100" "0 \<le> d" "d < 100"
    using rt by (auto simp: month_len_def split: if_splits)
  obtain y1 y2 y3 y4 where y: "pad 4 (int_str y) = [y1, y2, y3, y4]" "is_digit y1" "is_digit y2" "is_digit y3"
    "is_digit y4" "1000 * dig y1 + 100 * dig y2 + 10 * dig y3 + dig y4 = y" using four_digits [OF range(1,2)] by blast
  obtain m1 m2 where m: "pad 2 (int_str m) = [m1, m2]" "is_digit m1" "is_digit m2" "10 * dig m1 + dig m2 = m"
    using two_digits [OF range(3,4)] by blast
  obtain d1 d2 where d: "pad 2 (int_str d) = [d1, d2]" "is_digit d1" "is_digit d2" "10 * dig d1 + dig d2 = d"
    using two_digits [OF range(5,6)] by blast
  have "list_all is_digit [y1, y2, y3, y4, m1, m2, d1, d2]" using y m d by simp
  from take_date_digits [OF this] show ?thesis
    unfolding y(1) m(1) d(1) y(6) m(4) d(4) Let_def using rt by simp
qed

lemma take_clock_steps:
  assumes "take2 s = Some (h, '':'' @ s1)" "take2 s1 = Some (mi, '':'' @ s2)" "take2 s2 = Some (se, s3)"
  shows "take_clock s = (case s3 of CHR ''.'' # c # r3 \<Rightarrow>
      (if is_digit c then (case frac_us 6 0 (c # r3) of (u, r4) \<Rightarrow> Some ((h, mi, se, u), r4)) else None)
    | _ \<Rightarrow> Some ((h, mi, se, 0), s3))"
  using assms unfolding take_clock_def append.simps by (simp only: option.case prod.case list.case char.case bool.case)

lemma take_clock_whole:
  assumes "take2 s = Some (h, '':'' @ s1)" "take2 s1 = Some (mi, '':'' @ s2)" "take2 s2 = Some (se, r)"
    "r = [] \<or> hd r \<in> {CHR ''+'', CHR ''-'', CHR ''Z''}"
  shows "take_clock s = Some ((h, mi, se, 0), r)"
  unfolding take_clock_steps [OF assms(1-3)] using assms(4) by (cases r) (auto simp only: list.case char.case bool.case list.sel insert_iff empty_iff)

lemma take_clock_fraction:
  assumes "take2 s = Some (h, '':'' @ s1)" "take2 s1 = Some (mi, '':'' @ s2)" "take2 s2 = Some (se, ''.'' @ c # q)"
    "is_digit c" "frac_us 6 0 (c # q) = (us, r)"
  shows "take_clock s = Some ((h, mi, se, us), r)"
  unfolding take_clock_steps [OF assms(1-3)] append.simps list.case char.case bool.case using assms(4,5) by simp

lemma read_clock:
  assumes "0 \<le> t" "t < day_us" "r = [] \<or> hd r \<in> {CHR ''+'', CHR ''-'', CHR ''Z''}"
  defines "sec \<equiv> t div 1000000" and "us \<equiv> t mod 1000000"
  shows "\<exists>c. take_clock (pad 2 (int_str (sec div 3600)) @ '':'' @ pad 2 (int_str (sec div 60 mod 60)) @ '':'' @
     pad 2 (int_str (sec mod 60)) @ (if us = 0 then [] else ''.'' @ pad 6 (int_str us)) @ r) = Some (c, r) \<and> clock_us c = Some t"
proof -
  have sec: "0 \<le> sec" "sec < 86400" and us: "0 \<le> us" "us < 1000000" and t: "sec * 1000000 + us = t"
    using assms(1,2) by (simp_all add: sec_def us_def day_us_def)
  have h: "0 \<le> sec div 3600" "sec div 3600 < 24" "0 \<le> sec div 60 mod 60" "sec div 60 mod 60 < 60" "0 \<le> sec mod 60" "sec mod 60 < 60"
    using sec by (simp_all only: pos_imp_zdiv_nonneg_iff pos_mod_sign pos_mod_bound zero_less_numeral)
  have "(sec div 3600 * 60 + sec div 60 mod 60) * 60 + sec mod 60 = sec"
    using zdiv_zmult2_eq [of 60 sec 60, simplified] div_mult_mod_eq [of "sec div 60" 60] div_mult_mod_eq [of sec 60] by (simp only:)
  then have clock: "clock_us (sec div 3600, sec div 60 mod 60, sec mod 60, us) = Some t"
    unfolding clock_us_def prod.case using h(2,4,6) t by (simp only: simp_thms if_True)
  have two: "take2 (pad 2 (int_str (sec div 3600)) @ q) = Some (sec div 3600, q)"
    "take2 (pad 2 (int_str (sec div 60 mod 60)) @ q) = Some (sec div 60 mod 60, q)"
    "take2 (pad 2 (int_str (sec mod 60)) @ q) = Some (sec mod 60, q)" for q
    using h by (simp_all add: take2_pad)
  obtain a q where six: "pad 6 (int_str us) = a # q" "is_digit a"
    "\<And>t. (t = [] \<or> \<not> is_digit (hd t)) \<Longrightarrow> frac_us 6 0 ((a # q) @ t) = (us, t)" using six_digits [OF us] by blast
  have "r = [] \<or> \<not> is_digit (hd r)" using assms(3) by (auto simp: is_digit_def)
  from six(3) [OF this] have frac: "frac_us 6 0 (a # q @ r) = (us, r)" by simp
  have "take_clock (pad 2 (int_str (sec div 3600)) @ '':'' @ pad 2 (int_str (sec div 60 mod 60)) @ '':'' @
     pad 2 (int_str (sec mod 60)) @ (if us = 0 then [] else ''.'' @ pad 6 (int_str us)) @ r) =
     Some ((sec div 3600, sec div 60 mod 60, sec mod 60, us), r)"
  proof (cases "us = 0")
    case True
    then show ?thesis
      using take_clock_whole [OF two(1) two(2) two(3) assms(3)] unfolding True by (simp only: if_True append_Nil simp_thms)
  next
    case False
    then show ?thesis
      using take_clock_fraction [OF two(1) two(2) two(3) six(2) frac] by (simp only: six(1) if_False append.assoc append_Cons)
  qed
  with clock show ?thesis by blast
qed

theorem iso_roundtrip:
  assumes "in_range u" "r = [] \<or> hd r \<in> {CHR ''+'', CHR ''-'', CHR ''Z''}" "take_offset r = Some z"
  shows "fromisoformat (isoformat u @ r) = Some \<lparr>dt_us = u, dt_off = z\<rparr>"
proof -
  let ?t = "u mod day_us"
  have t: "0 \<le> ?t" "?t < day_us" by (simp_all add: day_us_def)
  have u: "u div day_us * day_us + ?t = u" by simp
  from read_clock [OF t assms(2)] obtain c where c: "take_clock (pad 2 (int_str (?t div 1000000 div 3600)) @ '':'' @
      pad 2 (int_str (?t div 1000000 div 60 mod 60)) @ '':'' @ pad 2 (int_str (?t div 1000000 mod 60)) @
      (if ?t mod 1000000 = 0 then [] else ''.'' @ pad 6 (int_str (?t mod 1000000))) @ r) = Some (c, r)" "clock_us c = Some ?t" by blast
  obtain y m d where ymd: "civil_from_days (u div day_us) = (y, m, d)" by (cases "civil_from_days (u div day_us)")
  have "isoformat u @ r = pad 4 (int_str y) @ ''-'' @ pad 2 (int_str m) @ ''-'' @ pad 2 (int_str d) @ CHR ''T'' #
      (pad 2 (int_str (?t div 1000000 div 3600)) @ '':'' @
      pad 2 (int_str (?t div 1000000 div 60 mod 60)) @ '':'' @ pad 2 (int_str (?t div 1000000 mod 60)) @
      (if ?t mod 1000000 = 0 then [] else ''.'' @ pad 6 (int_str (?t mod 1000000))) @ r)"
    by (simp add: isoformat_def ymd Let_def)
  with read_date [OF assms(1) ymd] c assms(3) u show ?thesis by (simp add: fromisoformat_def)
qed

end
