(* ===== verification/Schedules.thy ===== *)
theory Schedules
  imports Errand_Service Py_Words Py_Json
begin

section \<open>Scheduled errands\<close>

text \<open>
  \<^verbatim>\<open>app/services/schedule_service.py\<close> and \<^verbatim>\<open>app/api/mobile_schedules.py\<close>: the table of schedules, the
  next occurrence, the sweep that fires what is due, and the management card. Occurrences of a cron
  expression in a zone come from the croniter package, a parameter whose errors the code swallows.
  Firing drafts an errand plan with the planner of \<open>Errand_Service\<close>.
\<close>

subsection \<open>State\<close>

record schedule =
  sc_id :: string
  sc_household :: string
  sc_user :: "int option"
  sc_node :: "string option"
  sc_intent :: string
  sc_title :: "string option"
  sc_zone :: string
  sc_next :: int
  sc_recurrence :: "string option"
  sc_state :: string
  sc_last :: "int option"

record agenda =
  ag_world :: world
  ag_rows :: "schedule list"

record sched_env =
  se_env :: env
  se_zone :: "string \<Rightarrow> zone option"
  se_cron :: "string \<Rightarrow> zone \<Rightarrow> int \<Rightarrow> exc + int"

definition in_world :: "(world, 'a) io \<Rightarrow> (agenda, 'a) io" where
  "in_world m = (\<lambda>a. case m (ag_world a) of (w, r) \<Rightarrow> (a\<lparr>ag_world := w\<rparr>, r))"

definition schedule_tz :: "sched_env \<Rightarrow> string \<Rightarrow> zone" where
  "schedule_tz S name = (case se_zone S (or_else name ''UTC'') of None \<Rightarrow> utc_zone | Some z \<Rightarrow> z)"

subsection \<open>The next occurrence\<close>

text \<open>The loop that skips occurrences that are already past; it advances by at least a microsecond.\<close>

function advance :: "int \<Rightarrow> int \<Rightarrow> int \<Rightarrow> int" where
  "advance after step nxt = (if nxt \<le> after \<and> step > 0 then advance after step (nxt + step) else nxt)"
  by pat_completeness auto

termination
  by (relation "measure (\<lambda>(after, step, nxt). nat (after + 1 - nxt))") auto

declare advance.simps [simp del]

definition next_interval :: "pydict \<Rightarrow> int \<Rightarrow> exc + int option" where
  "next_interval spec after =
     rbind (py_int (por (dget spec ''interval_seconds'') (PInt 0))) (\<lambda>secs.
     if secs \<le> 0 then Inr None
     else if in_range (after + secs * 1000000) then Inr (Some (advance after (secs * 1000000) (after + secs * 1000000)))
     else Inl (OverflowError ''date value out of range''))"

definition next_cron :: "sched_env \<Rightarrow> pydict \<Rightarrow> int \<Rightarrow> string \<Rightarrow> int option" where
  "next_cron S spec after tz = (case dget spec ''cron'' of
      PStr c \<Rightarrow> if c = [] then None
               else (case se_cron S c (schedule_tz S tz) after of Inl _ \<Rightarrow> None | Inr t \<Rightarrow> Some t)
    | _ \<Rightarrow> None)"

definition compute_next_fire :: "sched_env \<Rightarrow> string option \<Rightarrow> int \<Rightarrow> string \<Rightarrow> exc + int option" where
  "compute_next_fire S recurrence after tz =
     (if \<not> otruthy recurrence then Inr None
      else (case json_loads (oor recurrence []) of
        None \<Rightarrow> Inr None
      | Some v \<Rightarrow>
          rbind (as_dict v) (\<lambda>spec.
          if dget spec ''type'' = PStr ''interval'' then next_interval spec after
          else if dget spec ''type'' = PStr ''cron'' then Inr (next_cron S spec after tz)
          else Inr None)))"

subsection \<open>The table\<close>

definition new_schedule :: "string \<Rightarrow> string option \<Rightarrow> int option \<Rightarrow> string \<Rightarrow> int \<Rightarrow> string \<Rightarrow> string option \<Rightarrow> string option
    \<Rightarrow> string \<Rightarrow> schedule" where
  "new_schedule hh node user intent fire_at tz title recurrence sid =
     \<lparr>sc_id = sid, sc_household = hh, sc_user = user, sc_node = node, sc_intent = intent, sc_title = title,
      sc_zone = or_else tz ''UTC'', sc_next = fire_at, sc_recurrence = recurrence, sc_state = ''active'',
      sc_last = None\<rparr>"

definition create_schedule :: "(string \<Rightarrow> schedule) \<Rightarrow> (agenda, string) io" where
  "create_schedule mk = (\<lambda>a. let w = ag_world a; sid = ''sch_'' @ nat_str (w_seq w) in
     (a\<lparr>ag_world := w\<lparr>w_seq := Suc (w_seq w)\<rparr>, ag_rows := ag_rows a @ [mk sid]\<rparr>, Inr sid))"

definition live_schedule :: "schedule \<Rightarrow> bool" where
  "live_schedule r \<longleftrightarrow> sc_state r = ''active'' \<or> sc_state r = ''paused''"

definition list_schedules :: "string \<Rightarrow> bool \<Rightarrow> agenda \<Rightarrow> schedule list" where
  "list_schedules hh include_done a =
     sort_key sc_next (filter (\<lambda>r. sc_household r = hh \<and> (include_done \<or> live_schedule r)) (ag_rows a))"

definition set_sc_state :: "string \<Rightarrow> schedule \<Rightarrow> schedule" where
  "set_sc_state st r = r\<lparr>sc_state := st\<rparr>"

text \<open>An update that names its condition: the rows it applies to, and whether there were any.\<close>

definition update_rows :: "(schedule \<Rightarrow> bool) \<Rightarrow> (schedule \<Rightarrow> schedule) \<Rightarrow> agenda \<Rightarrow> agenda \<times> bool" where
  "update_rows p f a = (a\<lparr>ag_rows := upd_where p f (ag_rows a)\<rparr>, list_ex p (ag_rows a))"

definition cancel_schedule :: "string \<Rightarrow> string \<Rightarrow> agenda \<Rightarrow> agenda \<times> bool" where
  "cancel_schedule sid hh = update_rows (\<lambda>r. sc_id r = sid \<and> sc_household r = hh \<and> live_schedule r) (set_sc_state ''cancelled'')"

definition finish_row :: "int \<Rightarrow> schedule \<Rightarrow> schedule" where
  "finish_row now r = r\<lparr>sc_state := ''done'', sc_last := Some now\<rparr>"

definition rearm_row :: "int \<Rightarrow> int \<Rightarrow> schedule \<Rightarrow> schedule" where
  "rearm_row now nxt r = r\<lparr>sc_next := nxt, sc_last := Some now\<rparr>"

definition claim_one_shot :: "string \<Rightarrow> int \<Rightarrow> agenda \<Rightarrow> agenda \<times> bool" where
  "claim_one_shot sid now = update_rows (\<lambda>r. sc_id r = sid \<and> sc_state r = ''active'') (finish_row now)"

definition claim_and_rearm :: "string \<Rightarrow> int \<Rightarrow> int \<Rightarrow> agenda \<Rightarrow> agenda \<times> bool" where
  "claim_and_rearm sid now nxt =
     update_rows (\<lambda>r. sc_id r = sid \<and> sc_state r = ''active'' \<and> sc_next r \<le> now) (rearm_row now nxt)"

subsection \<open>The sweep\<close>

definition due_schedule :: "int \<Rightarrow> schedule \<Rightarrow> bool" where
  "due_schedule now r \<longleftrightarrow> sc_state r = ''active'' \<and> sc_next r \<le> now"

definition claim_occurrence :: "string \<Rightarrow> int \<Rightarrow> int option \<Rightarrow> agenda \<Rightarrow> agenda \<times> bool" where
  "claim_occurrence sid now nxt = (case nxt of
      Some t \<Rightarrow> claim_and_rearm sid now t
    | None \<Rightarrow> claim_one_shot sid now)"

definition fire_schedule :: "sched_env \<Rightarrow> schedule \<Rightarrow> (agenda, int) io" where
  "fire_schedule S r =
     catch (bind (in_world (draft_errand_plan_detached (se_env S) (sc_household r) (sc_node r) (sc_intent r) (sc_user r) None))
              (\<lambda>_. ret 1))
           (\<lambda>_. ret 0)"

fun fire_rows :: "sched_env \<Rightarrow> int \<Rightarrow> schedule list \<Rightarrow> int \<Rightarrow> (agenda, int) io" where
  "fire_rows S now [] n = ret n"
| "fire_rows S now (r # rs) n =
     bind (lift (compute_next_fire S (sc_recurrence r) now (sc_zone r))) (\<lambda>nxt.
     bind (\<lambda>a. case claim_occurrence (sc_id r) now nxt a of (a', b) \<Rightarrow> (a', Inr b)) (\<lambda>claimed.
     if \<not> claimed then fire_rows S now rs n
     else bind (fire_schedule S r) (\<lambda>k. fire_rows S now rs (n + k))))"

definition fire_due_schedules :: "sched_env \<Rightarrow> (agenda, int) io" where
  "fire_due_schedules S =
     bind (gets (\<lambda>a. w_now (ag_world a))) (\<lambda>now.
     bind (gets (\<lambda>a. filter (due_schedule now) (ag_rows a))) (\<lambda>due.
     fire_rows S now due 0))"

subsection \<open>What the user sees\<close>

definition cron_weekdays :: "string list" where
  "cron_weekdays = [''Sunday'', ''Monday'', ''Tuesday'', ''Wednesday'', ''Thursday'', ''Friday'', ''Saturday'']"

definition parse_int :: "string \<Rightarrow> exc + int" where
  "parse_int s = py_int (PStr s)"

definition cron_time_phrase :: "string \<Rightarrow> string \<Rightarrow> exc + string" where
  "cron_time_phrase minute hour =
     (if \<not> (py_isdigit minute \<and> py_isdigit hour) then Inr []
      else rbind (parse_int hour) (\<lambda>h. rbind (parse_int minute) (\<lambda>m.
        Inr ('' at '' @ int_str (if h mod 12 = 0 then 12 else h mod 12) @ '':'' @ pad 2 (int_str m) @ '' '' @
             (if h < 12 then ''AM'' else ''PM'')))))"

definition cron_phrase :: "string \<Rightarrow> exc + string" where
  "cron_phrase cron = (case words cron of
      [minute, hour, mday, month, dow] \<Rightarrow>
        rbind (cron_time_phrase minute hour) (\<lambda>tod.
        if dow = ''1-5'' then Inr (''every weekday'' @ tod)
        else if py_isdigit dow then
          rbind (parse_int dow) (\<lambda>d. Inr (''every '' @ cron_weekdays ! nat (d mod 7) @ tod))
        else if py_isdigit mday then Inr (''monthly on day '' @ mday @ tod)
        else Inr (''every day'' @ tod))
    | _ \<Rightarrow> Inr ''repeating'')"

definition interval_phrase :: "int \<Rightarrow> string" where
  "interval_phrase secs =
     (if secs \<noteq> 0 \<and> secs mod 3600 = 0 then
        (if secs div 3600 = 1 then ''every hour'' else ''every '' @ int_str (secs div 3600) @ '' hours'')
      else if secs \<noteq> 0 \<and> secs mod 60 = 0 then
        (if secs div 60 = 1 then ''every minute'' else ''every '' @ int_str (secs div 60) @ '' minutes'')
      else ''on a repeating interval'')"

definition describe_recurrence :: "string option \<Rightarrow> exc + string" where
  "describe_recurrence recurrence =
     (if \<not> otruthy recurrence then Inr ''once''
      else (case json_loads (oor recurrence []) of
        None \<Rightarrow> Inr ''repeating''
      | Some v \<Rightarrow>
          rbind (as_dict v) (\<lambda>spec.
          if dget spec ''type'' = PStr ''interval'' then
            rbind (py_int (por (dget spec ''interval_seconds'') (PInt 0))) (\<lambda>secs. Inr (interval_phrase secs))
          else if dget spec ''type'' = PStr ''cron'' then
            rbind (as_str (por (dget spec ''cron'') (PStr []))) cron_phrase
          else Inr ''repeating'')))"

definition local_when :: "sched_env \<Rightarrow> string option \<Rightarrow> string \<Rightarrow> string" where
  "local_when S stamp tz =
     (if \<not> otruthy stamp then []
      else (case fromisoformat (oor stamp []) of
        None \<Rightarrow> []
      | Some t \<Rightarrow> replace_sub '':00'' [] (short_date_time (to_local (schedule_tz S tz) (utc_us t)))))"

definition describe_schedule :: "sched_env \<Rightarrow> schedule \<Rightarrow> exc + string" where
  "describe_schedule S r =
     rbind (describe_recurrence (sc_recurrence r)) (\<lambda>cadence.
     let nxt = local_when S (Some (isoformat (sc_next r))) (sc_zone r);
         bits = [strip (or_else (sc_intent r) ''an errand''), cadence] @ (if nxt = [] then [] else [''next '' @ nxt])
     in Inr (join '' - '' (filter (\<lambda>b. b \<noteq> []) bits)))"

definition schedule_dict :: "schedule \<Rightarrow> pydict" where
  "schedule_dict r =
     [(''id'', PStr (sc_id r)), (''intent'', PStr (sc_intent r)), (''state'', PStr (sc_state r)),
      (''next_fire_at'', PStr (isoformat (sc_next r))), (''recurrence'', opt_str (sc_recurrence r)),
      (''timezone'', PStr (sc_zone r)),
      (''last_fired_at'', case sc_last r of None \<Rightarrow> PNone | Some t \<Rightarrow> PStr (isoformat t))]"

definition schedule_view :: "sched_env \<Rightarrow> schedule \<Rightarrow> exc + pydict" where
  "schedule_view S r =
     rbind (describe_recurrence (sc_recurrence r)) (\<lambda>cadence.
     rbind (describe_schedule S r) (\<lambda>text.
     Inr (schedule_dict r @
       [(''is_recurring'', PBool (otruthy (sc_recurrence r))), (''cadence'', PStr cadence),
        (''next_local'', PStr (local_when S (Some (isoformat (sc_next r))) (sc_zone r))), (''description'', PStr text)])))"

definition list_schedule_views :: "sched_env \<Rightarrow> string \<Rightarrow> bool \<Rightarrow> agenda \<Rightarrow> exc + pydict list" where
  "list_schedule_views S hh include_done a = rmap (schedule_view S) (list_schedules hh include_done a)"

subsection \<open>The management card\<close>

definition list_card_max :: nat where
  "list_card_max = 8"

fun numbered_lines :: "nat \<Rightarrow> string list \<Rightarrow> string list" where
  "numbered_lines i [] = []"
| "numbered_lines i (l # ls) = (nat_str i @ ''. '' @ l) # numbered_lines (Suc i) ls"

definition schedule_list_body :: "sched_env \<Rightarrow> schedule list \<Rightarrow> exc + string" where
  "schedule_list_body S rows =
     (if rows = [] then Inr ''You don't have any errands scheduled right now.''
      else rbind (rmap (describe_schedule S) rows) (\<lambda>texts.
        Inr (join newline ([''Your scheduled errands:'', []] @ numbered_lines 1 texts @
          (if length rows > list_card_max
           then [[], ''_Showing the first '' @ nat_str list_card_max @ '' of '' @ nat_str (length rows) @ ''._''] else []) @
          [[], ''Tap **Cancel** on any errand to stop it.'']))))"

definition cancel_button :: "schedule \<Rightarrow> pydict" where
  "cancel_button r =
     [(''id'', PStr (''cancel-schedule-'' @ sc_id r)),
      (''label'', PStr (''Cancel: '' @ take 32 (or_else (sc_intent r) ''errand''))),
      (''command'', PStr ''schedule''), (''callback'', PStr ''cancel_schedule''), (''target'', PStr ''server''),
      (''data'', PDict [(''schedule_id'', PStr (sc_id r))])]"

definition schedule_card_metadata :: "schedule list \<Rightarrow> string \<Rightarrow> pydict" where
  "schedule_card_metadata rows hh =
     (let shown = take list_card_max rows in
      [(''household_id'', PStr hh), (''schedules'', PList (map (PDict \<circ> schedule_dict) shown)),
       (''interactive_elements'', PList (map (PDict \<circ> cancel_button) shown))])"

definition plural_s :: "nat \<Rightarrow> string" where
  "plural_s n = (if n = 1 then [] else ''s'')"

definition post_schedule_list_card :: "sched_env \<Rightarrow> string \<Rightarrow> int option \<Rightarrow> (agenda, nat \<times> string option) io" where
  "post_schedule_list_card S hh user =
     bind (gets (list_schedules hh False)) (\<lambda>rows.
     let n = length rows in
     if n = 0 then ret (0, None)
     else
       bind (lift (if n = 1 then describe_schedule S (hd rows) else Inr (nat_str n @ '' errands scheduled''))) (\<lambda>summary.
       bind (lift (schedule_list_body S rows)) (\<lambda>body.
       bind (in_world (post_inbox (se_env S)
               (inbox_card hh user (nat_str n @ '' scheduled errand'' @ plural_s n) summary body ''schedule''
                 (schedule_card_metadata rows hh)))) (\<lambda>item.
       ret (n, item)))))"

definition handle_cancel_schedule :: "sched_env \<Rightarrow> cb_ctx \<Rightarrow> (agenda, cb_result) io" where
  "handle_cancel_schedule S ctx =
     (if \<not> truthy (dget (cx_data ctx) ''schedule_id'') then ret (cb_fail ''No schedule to cancel.'')
      else
        bind (\<lambda>a. case (case dget (cx_data ctx) ''schedule_id'' of
                       PStr sid \<Rightarrow> cancel_schedule sid (cx_household ctx) a | _ \<Rightarrow> (a, False)) of
                    (a', b) \<Rightarrow> (a', Inr b)) (\<lambda>cancelled.
        bind (post_schedule_list_card S (cx_household ctx) (cx_user ctx)) (\<lambda>(remaining, item).
        ret (cb_inbox (if cancelled then ''Errand cancelled'' else ''Errand already stopped'')
               (if remaining > 0
                then ''Done - you have '' @ nat_str remaining @ '' errand'' @ plural_s remaining @ '' still scheduled.''
                else ''Done - you have no errands scheduled now.'')
               [(''household_id'', PStr (cx_household ctx))]))))"

subsection \<open>The phone screen\<close>

text \<open>The household role check of the auth service, a parameter: it raises, or passes.\<close>

definition list_household_schedules :: "sched_env \<Rightarrow> (exc + unit) \<Rightarrow> string \<Rightarrow> agenda \<Rightarrow> exc + pydict" where
  "list_household_schedules S role hh a =
     rbind role (\<lambda>_. rbind (list_schedule_views S hh False a) (\<lambda>views.
     Inr [(''household_id'', PStr hh), (''schedules'', PList (map PDict views))]))"

definition cancel_household_schedule :: "sched_env \<Rightarrow> (exc + unit) \<Rightarrow> string \<Rightarrow> string \<Rightarrow> (agenda, pydict) io" where
  "cancel_household_schedule S role hh sid =
     bind (lift role) (\<lambda>_.
     bind (\<lambda>a. case cancel_schedule sid hh a of (a', b) \<Rightarrow> (a', Inr b)) (\<lambda>cancelled.
     bind (gets (list_schedule_views S hh False)) (\<lambda>views.
     bind (lift views) (\<lambda>vs.
     ret [(''cancelled'', PBool cancelled), (''schedules'', PList (map PDict vs))]))))"

end
