(* ===== verification/Schedule_Facts.thy ===== *)
theory Schedule_Facts
  imports Schedules Errand_Drafts
begin

section \<open>What the scheduler promises\<close>

text \<open>
  The next occurrence lies strictly ahead; one sweep serves what is due, in order, up to a recurrence that
  cannot be computed; and however many
  sweeps interleave with each other, with new schedules, cancellations and passing time, no occurrence
  of a schedule fires twice. The only fact used of the croniter package is what it documents: the
  occurrence it returns comes after the instant it is asked for.
\<close>

definition cron_law :: "sched_env \<Rightarrow> bool" where
  "cron_law S \<longleftrightarrow> (\<forall>c z u t. se_cron S c z u = Inr t \<longrightarrow> u < t)"

lemma advance_ahead: "after < nxt \<Longrightarrow> advance after step nxt = nxt"
  by (subst advance.simps) simp

lemma next_interval_ahead: "next_interval spec after = Inr (Some t) \<Longrightarrow> after < t"
  by (auto simp: next_interval_def rbind_Inr_iff advance_ahead split: if_splits)

lemma next_cron_ahead: "cron_law S \<Longrightarrow> next_cron S spec after tz = Some t \<Longrightarrow> after < t"
  by (auto simp: next_cron_def cron_law_def split: pyval.splits if_splits sum.splits)

lemma compute_next_fire_ahead: "cron_law S \<Longrightarrow> compute_next_fire S r after tz = Inr (Some t) \<Longrightarrow> after < t"
  by (auto simp: compute_next_fire_def rbind_Inr_iff dest: next_interval_ahead next_cron_ahead
      split: if_splits option.splits)

subsection \<open>One sweep\<close>

lemma ag_rows_in_world [simp]: "ag_rows (fst (in_world m a)) = ag_rows a"
  by (simp add: in_world_def split: prod.split)

lemma ag_rows_fire [simp]: "ag_rows (fst (fire_schedule S r a)) = ag_rows a"
proof -
  obtain a' x where m: "in_world (draft_errand_plan_detached (se_env S) (sc_household r) (sc_node r) (sc_intent r)
      (sc_user r) None) a = (a', x)" by fastforce
  then have "ag_rows a' = ag_rows a" by (metis ag_rows_in_world fst_conv)
  with m show ?thesis by (cases x) (simp_all add: fire_schedule_def io_simps)
qed

text \<open>What a served schedule leaves in the household's world: its errand was drafted, and a card says so or says why not.\<close>

definition draft_reported :: "sched_env \<Rightarrow> schedule \<Rightarrow> world \<Rightarrow> world \<Rightarrow> bool" where
  "draft_reported S r w w' \<longleftrightarrow>
     w' = fst (draft_errand_plan_detached (se_env S) (sc_household r) (sc_node r) (sc_intent r) (sc_user r) None w) \<and>
     (\<exists>c l. w_log w' = FxCard c # l \<and> cd_household c = sc_household r \<and> w_workflows w' = w_workflows w \<and>
        (if cd_title c = ''Couldn't plan that errand'' then w_plans w' = w_plans w
         else length (w_plans w') = Suc (length (w_plans w)) \<and>
           (let row = last (w_plans w') in pl_household row = sc_household r \<and> pl_goal row = sc_intent r \<and>
              pl_state row = ''draft'' \<and> pl_revision row = 1 \<and> pl_steps row \<noteq> [])))"

fun drafts :: "sched_env \<Rightarrow> schedule list \<Rightarrow> world \<Rightarrow> world \<Rightarrow> bool" where
  "drafts S [] w w' \<longleftrightarrow> w' = w"
| "drafts S (r # rs) w w' \<longleftrightarrow> (\<exists>u. draft_reported S r w u \<and> drafts S rs u w')"

lemma fire_drafts: "\<exists>a'. fire_schedule S r a = (a', Inr 1) \<and> ag_rows a' = ag_rows a \<and> draft_reported S r (ag_world a) (ag_world a')"
proof -
  obtain w' c l where d: "draft_errand_plan_detached (se_env S) (sc_household r) (sc_node r) (sc_intent r) (sc_user r) None (ag_world a) = (w', Inr ())"
    "w_log w' = FxCard c # l" "cd_household c = sc_household r" "w_workflows w' = w_workflows (ag_world a)"
    "if cd_title c = ''Couldn't plan that errand'' then w_plans w' = w_plans (ag_world a)
      else length (w_plans w') = Suc (length (w_plans (ag_world a))) \<and>
        (let row = last (w_plans w') in pl_household row = sc_household r \<and> pl_goal row = sc_intent r \<and> pl_state row = ''draft'' \<and>
           pl_revision row = 1 \<and> pl_steps row \<noteq> [])"
    using detached_draft_reports [of "se_env S" "sc_household r" "sc_node r" "sc_intent r" "sc_user r" None "ag_world a"] by blast
  then show ?thesis by (intro exI [of _ "a\<lparr>ag_world := w'\<rparr>"]) (auto simp: fire_schedule_def in_world_def io_simps draft_reported_def)
qed

definition fired_row :: "sched_env \<Rightarrow> int \<Rightarrow> schedule \<Rightarrow> schedule" where
  "fired_row S now r =
     (if due_schedule now r then
        (case compute_next_fire S (sc_recurrence r) now (sc_zone r) of
           Inr (Some t) \<Rightarrow> rearm_row now t r
         | _ \<Rightarrow> finish_row now r)
      else r)"

lemma row_updates_id [simp]:
  "sc_id (finish_row now r) = sc_id r" "sc_id (rearm_row now t r) = sc_id r" "sc_id (set_sc_state st r) = sc_id r"
  by (simp_all add: finish_row_def rearm_row_def set_sc_state_def)

lemma fired_row_id [simp]: "sc_id (fired_row S now r) = sc_id r"
  by (simp add: fired_row_def split: sum.split option.split)

lemma fired_row_not_due: "cron_law S \<Longrightarrow> \<not> due_schedule now (fired_row S now r)"
  using compute_next_fire_ahead [of S "sc_recurrence r" now "sc_zone r"]
  by (auto simp: fired_row_def due_schedule_def finish_row_def rearm_row_def split: sum.splits option.splits)

lemma claim_due:
  assumes "distinct (map sc_id (ag_rows a))" and "r \<in> set (ag_rows a)" and "due_schedule now r"
    and "compute_next_fire S (sc_recurrence r) now (sc_zone r) = Inr nxt"
  shows "claim_occurrence (sc_id r) now nxt a =
     (a\<lparr>ag_rows := map (\<lambda>x. if sc_id x = sc_id r then fired_row S now x else x) (ag_rows a)\<rparr>, True)"
proof -
  have u: "x = r" if "x \<in> set (ag_rows a)" "sc_id x = sc_id r" for x
    using assms(1,2) that by (metis distinct_map inj_onD)
  have upd: "upd_where p f (ag_rows a) = map (\<lambda>x. if sc_id x = sc_id r then fired_row S now x else x) (ag_rows a)"
    if p: "\<And>x. p x \<Longrightarrow> sc_id x = sc_id r" "p r" and f: "f r = fired_row S now r" for p f
    unfolding upd_where_def
  proof (intro map_cong refl)
    fix x
    assume x: "x \<in> set (ag_rows a)"
    show "(if p x then f x else x) = (if sc_id x = sc_id r then fired_row S now x else x)"
    proof (cases "sc_id x = sc_id r")
      case True
      with u x have "x = r" by blast
      with p(2) f show ?thesis by simp
    next
      case False
      with p(1) show ?thesis by auto
    qed
  qed
  have d: "sc_state r = ''active''" "sc_next r \<le> now" using assms(3) by (simp_all add: due_schedule_def)
  show ?thesis
  proof (cases nxt)
    case None
    have "finish_row now r = fired_row S now r" using assms(3,4) None by (simp add: fired_row_def)
    from upd [where p = "\<lambda>x. sc_id x = sc_id r \<and> sc_state x = ''active''" and f = "finish_row now", OF _ _ this] d
    show ?thesis using assms(2) by (auto simp: None claim_occurrence_def claim_one_shot_def update_rows_def list_ex_iff)
  next
    case (Some t)
    have "rearm_row now t r = fired_row S now r" using assms(3,4) Some by (simp add: fired_row_def)
    from upd [where p = "\<lambda>x. sc_id x = sc_id r \<and> sc_state x = ''active'' \<and> sc_next x \<le> now" and f = "rearm_row now t", OF _ _ this] d
    show ?thesis using assms(2) by (auto simp: Some claim_occurrence_def claim_and_rearm_def update_rows_def list_ex_iff)
  qed
qed

text \<open>The rows a sweep has visited are fired, the others are as they were.\<close>

lemma fire_rows_sweep:
  assumes "cron_law S" and "distinct (map sc_id rs)" and "distinct (map sc_id (ag_rows a))"
    and "set rs \<subseteq> set (ag_rows a)" and "\<And>r. r \<in> set rs \<Longrightarrow> due_schedule now r"
    and "\<And>r. r \<in> set rs \<Longrightarrow> \<not> isl (compute_next_fire S (sc_recurrence r) now (sc_zone r))"
  shows "\<exists>a'. fire_rows S now rs n a = (a', Inr (n + int (length rs))) \<and> drafts S rs (ag_world a) (ag_world a') \<and>
     ag_rows a' = map (\<lambda>x. if sc_id x \<in> sc_id ` set rs then fired_row S now x else x) (ag_rows a)"
  using assms
proof (induction rs arbitrary: n a)
  case Nil
  then show ?case by (simp add: io_simps)
next
  case (Cons r rs)
  from Cons.prems(6) [of r] obtain nxt where n: "compute_next_fire S (sc_recurrence r) now (sc_zone r) = Inr nxt"
    by (cases "compute_next_fire S (sc_recurrence r) now (sc_zone r)") auto
  let ?a1 = "a\<lparr>ag_rows := map (\<lambda>x. if sc_id x = sc_id r then fired_row S now x else x) (ag_rows a)\<rparr>"
  have c: "claim_occurrence (sc_id r) now nxt a = (?a1, True)"
  proof (rule claim_due [OF Cons.prems(3) _ _ n])
    show "r \<in> set (ag_rows a)" using Cons.prems(4) by simp
    show "due_schedule now r" by (rule Cons.prems(5)) simp
  qed
  let ?one = "\<lambda>x. if sc_id x = sc_id r then fired_row S now x else x"
  obtain a2 where f: "fire_schedule S r ?a1 = (a2, Inr 1)" and dr: "draft_reported S r (ag_world a) (ag_world a2)"
    using fire_drafts [of S r ?a1] by auto
  have rows2: "ag_rows a2 = map ?one (ag_rows a)" using ag_rows_fire [of S r ?a1] by (simp add: f)
  have ids: "map sc_id (ag_rows a2) = map sc_id (ag_rows a)" unfolding rows2 by (simp add: comp_def)
  have sub: "set rs \<subseteq> set (ag_rows a2)"
  proof
    fix x
    assume x: "x \<in> set rs"
    then have "sc_id x \<in> sc_id ` set rs" by (rule imageI)
    with Cons.prems(2) have "sc_id x \<noteq> sc_id r" by auto
    with x Cons.prems(4) show "x \<in> set (ag_rows a2)" unfolding rows2 by (auto intro!: image_eqI [of _ _ x])
  qed
  have "\<exists>a'. fire_rows S now rs (n + 1) a2 = (a', Inr (n + 1 + int (length rs))) \<and> drafts S rs (ag_world a2) (ag_world a') \<and>
     ag_rows a' = map (\<lambda>x. if sc_id x \<in> sc_id ` set rs then fired_row S now x else x) (ag_rows a2)"
  proof (rule Cons.IH [OF Cons.prems(1) _ _ sub])
    show "distinct (map sc_id rs)" using Cons.prems(2) by simp
    show "distinct (map sc_id (ag_rows a2))" using Cons.prems(3) ids by (simp only:)
    show "due_schedule now x" if "x \<in> set rs" for x by (rule Cons.prems(5)) (use that in simp)
    show "\<not> isl (compute_next_fire S (sc_recurrence x) now (sc_zone x))" if "x \<in> set rs" for x
      by (rule Cons.prems(6)) (use that in simp)
  qed
  then obtain a' where a': "fire_rows S now rs (n + 1) a2 = (a', Inr (n + 1 + int (length rs)))"
    "ag_rows a' = map (\<lambda>x. if sc_id x \<in> sc_id ` set rs then fired_row S now x else x) (ag_rows a2)"
    "drafts S rs (ag_world a2) (ag_world a')" by blast
  with dr have "drafts S (r # rs) (ag_world a) (ag_world a')" by auto
  have idx: "sc_id (?one x) = sc_id x" for x by simp
  have eq: "(if sc_id (?one x) \<in> sc_id ` set rs then fired_row S now (?one x) else ?one x) =
        (if sc_id x \<in> sc_id ` set (r # rs) then fired_row S now x else x)" for x
  proof (cases "sc_id x = sc_id r")
    case True
    then have "sc_id x \<notin> sc_id ` set rs" using Cons.prems(2) by simp
    with True show ?thesis by simp
  next
    case False
    then show ?thesis by simp
  qed
  have "ag_rows a' = map (\<lambda>x. if sc_id x \<in> sc_id ` set (r # rs) then fired_row S now x else x) (ag_rows a)"
    unfolding a'(2) rows2 map_map by (rule map_cong [OF refl]) (unfold comp_def, rule eq)
  moreover have "fire_rows S now (r # rs) n a = (a', Inr (n + int (length (r # rs))))"
    using a'(1) by (simp add: run_bind run_lift n c f)
  ultimately show ?case using \<open>drafts S (r # rs) (ag_world a) (ag_world a')\<close> by blast
qed

lemma fire_rows_append: "fire_rows S now xs n a = (a', Inr m) \<Longrightarrow> fire_rows S now (xs @ ys) n a = fire_rows S now ys m a'"
  by (induction xs arbitrary: n a) (auto simp: io_simps split: prod.splits sum.splits if_splits)

lemma filter_due_fired:
  assumes "cron_law S" "distinct (map sc_id rows)" "filter (due_schedule now) rows = xs @ ys"
  shows "filter (due_schedule now) (map (\<lambda>x. if sc_id x \<in> sc_id ` set xs then fired_row S now x else x) rows) = ys"
proof -
  let ?f = "\<lambda>x. if sc_id x \<in> sc_id ` set xs then fired_row S now x else x"
  have d: "distinct (map sc_id (xs @ ys))" using distinct_map_filter [OF assms(2), of "due_schedule now"] unfolding assms(3) .
  have "filter (due_schedule now) (map ?f rows) = filter (\<lambda>x. sc_id x \<notin> sc_id ` set xs) (filter (due_schedule now) rows)"
  proof -
    have "filter (due_schedule now) (map ?f rs) = filter (\<lambda>x. sc_id x \<notin> sc_id ` set xs) (filter (due_schedule now) rs)" for rs
      by (induction rs) (auto simp: fired_row_not_due [OF assms(1)])
    then show ?thesis .
  qed
  also have "\<dots> = ys" unfolding assms(3) using d by (auto simp: filter_empty_conv intro!: filter_True)
  finally show ?thesis .
qed

definition computable :: "sched_env \<Rightarrow> int \<Rightarrow> schedule \<Rightarrow> bool" where
  "computable S now r \<longleftrightarrow> \<not> isl (compute_next_fire S (sc_recurrence r) now (sc_zone r))"

text \<open>
  C22. A sweep serves the due schedules in the order of the table, up to the first whose recurrence cannot be
  computed. Each one served is claimed once, a recurring one armed for a later instant and a one-shot done, and
  its errand is drafted: a draft of its intent is stored with a card, or a card says that it couldn't be
  planned. No other schedule changes, and what stays due is what was not served. The sweep returns the number
  of due schedules when all were computable, so that nothing stays due, and raises otherwise.
\<close>

theorem sweep_serves_due:
  assumes "cron_law S" and "distinct (map sc_id (ag_rows a))" and "w_now (ag_world a) = now"
    and "filter (due_schedule now) (ag_rows a) = due" and "takeWhile (computable S now) due = served"
  shows "\<exists>a' r. fire_due_schedules S a = (a', r) \<and> (if served = due then r = Inr (int (length due)) else isl r) \<and>
     drafts S served (ag_world a) (ag_world a') \<and>
     ag_rows a' = map (\<lambda>x. if x \<in> set served then fired_row S now x else x) (ag_rows a) \<and>
     served @ filter (due_schedule now) (ag_rows a') = due"
proof -
  have ds: "distinct (map sc_id due)" using assms(2) unfolding assms(4) [symmetric] by (rule distinct_map_filter)
  define rest where "rest = dropWhile (computable S now) due"
  have due: "due = served @ rest" by (simp add: rest_def assms(5) [symmetric])
  have "set served \<subseteq> set (filter (due_schedule now) (ag_rows a))" unfolding assms(4) by (simp add: due)
  then have sub: "set served \<subseteq> set (ag_rows a)" "\<And>r. r \<in> set served \<Longrightarrow> due_schedule now r" by auto
  have ok: "\<not> isl (compute_next_fire S (sc_recurrence r) now (sc_zone r))" if "r \<in> set served" for r
    using that set_takeWhileD [of r "computable S now" due] by (simp add: assms(5) computable_def)
  have "distinct (map sc_id served)" using ds by (simp add: due)
  from fire_rows_sweep [OF assms(1) this assms(2) sub ok, of 0] obtain a1 where
    a1: "fire_rows S now served 0 a = (a1, Inr (int (length served)))" "drafts S served (ag_world a) (ag_world a1)"
      "ag_rows a1 = map (\<lambda>x. if sc_id x \<in> sc_id ` set served then fired_row S now x else x) (ag_rows a)" by auto
  have run: "fire_due_schedules S a = fire_rows S now rest (int (length served)) a1"
    using fire_rows_append [OF a1(1), of rest] by (simp add: fire_due_schedules_def run_bind run_gets assms(3,4) due)
  have keys: "sc_id x \<in> sc_id ` set served \<longleftrightarrow> x \<in> set served" if "x \<in> set (ag_rows a)" for x
    using that assms(2) sub(1) by (auto simp: distinct_map inj_on_def)
  then have rows: "ag_rows a1 = map (\<lambda>x. if x \<in> set served then fired_row S now x else x) (ag_rows a)"
    unfolding a1(3) by (intro map_cong) simp_all
  have left: "filter (due_schedule now) (ag_rows a1) = rest"
    unfolding a1(3) by (rule filter_due_fired [OF assms(1,2)]) (simp add: assms(4) due)
  show ?thesis
  proof (cases rest)
    case Nil
    with run a1(2) rows left due show ?thesis by (simp add: io_simps)
  next
    case (Cons r rs)
    then have "\<not> computable S now r" using hd_dropWhile [of "computable S now" due] by (simp add: rest_def [symmetric])
    then obtain e where "compute_next_fire S (sc_recurrence r) now (sc_zone r) = Inl e"
      by (cases "compute_next_fire S (sc_recurrence r) now (sc_zone r)") (simp_all add: computable_def)
    then have "fire_due_schedules S a = (a1, Inl e)" using run Cons by (simp add: io_simps)
    with a1(2) rows left due Cons show ?thesis by simp
  qed
qed

subsection \<open>Interleaved sweeps\<close>

text \<open>
  A sweep that is under way: its clock and the rows of its scan it has not visited. The log of
  fired occurrences records, at each claim, the schedule and the instant it was armed for.
\<close>

record sweeper =
  sp_now :: int
  sp_pending :: "schedule list"

record sched_system =
  ss_agenda :: agenda
  ss_sweeps :: "sweeper list"
  ss_fired :: "(string \<times> int) list"

definition armed_for :: "string \<Rightarrow> agenda \<Rightarrow> int" where
  "armed_for i a = (case find (\<lambda>r. sc_id r = i) (ag_rows a) of None \<Rightarrow> 0 | Some r \<Rightarrow> sc_next r)"

inductive sched_step :: "sched_env \<Rightarrow> sched_system \<Rightarrow> sched_system \<Rightarrow> bool" for S where
  scan: "now = w_now (ag_world (ss_agenda s)) \<Longrightarrow>
     sched_step S s (s\<lparr>ss_sweeps := ss_sweeps s @ [\<lparr>sp_now = now, sp_pending = filter (due_schedule now) (ag_rows (ss_agenda s))\<rparr>]\<rparr>)"
| fire: "ss_sweeps s = before @ \<lparr>sp_now = now, sp_pending = r # rs\<rparr> # after \<Longrightarrow>
     compute_next_fire S (sc_recurrence r) now (sc_zone r) = Inr nxt \<Longrightarrow>
     claim_occurrence (sc_id r) now nxt (ss_agenda s) = (a, True) \<Longrightarrow>
     sched_step S s \<lparr>ss_agenda = fst (fire_schedule S r a), ss_sweeps = before @ \<lparr>sp_now = now, sp_pending = rs\<rparr> # after,
       ss_fired = (sc_id r, armed_for (sc_id r) (ss_agenda s)) # ss_fired s\<rparr>"
| lose: "ss_sweeps s = before @ \<lparr>sp_now = now, sp_pending = r # rs\<rparr> # after \<Longrightarrow>
     compute_next_fire S (sc_recurrence r) now (sc_zone r) = Inr nxt \<Longrightarrow>
     claim_occurrence (sc_id r) now nxt (ss_agenda s) = (a, False) \<Longrightarrow>
     sched_step S s (s\<lparr>ss_agenda := a, ss_sweeps := before @ \<lparr>sp_now = now, sp_pending = rs\<rparr> # after\<rparr>)"
| crash: "ss_sweeps s = before @ \<lparr>sp_now = now, sp_pending = r # rs\<rparr> # after \<Longrightarrow>
     compute_next_fire S (sc_recurrence r) now (sc_zone r) = Inl e \<Longrightarrow>
     sched_step S s (s\<lparr>ss_sweeps := before @ after\<rparr>)"
| create: "create_schedule mk (ss_agenda s) = (a, Inr i) \<Longrightarrow> sc_id (mk i) = i \<Longrightarrow> i \<notin> sc_id ` set (ag_rows (ss_agenda s)) \<Longrightarrow>
     i \<notin> fst ` set (ss_fired s) \<Longrightarrow> sched_step S s (s\<lparr>ss_agenda := a\<rparr>)"
| cancel: "sched_step S s (s\<lparr>ss_agenda := fst (cancel_schedule i hh (ss_agenda s))\<rparr>)"
| other: "ag_rows a = ag_rows (ss_agenda s) \<Longrightarrow> sched_step S s (s\<lparr>ss_agenda := a\<rparr>)"

inductive_cases sched_stepE: "sched_step S s s'"

text \<open>A fired occurrence is behind its schedule, which is armed for later or at an end.\<close>

definition sched_inv :: "sched_system \<Rightarrow> bool" where
  "sched_inv s \<longleftrightarrow> distinct (map sc_id (ag_rows (ss_agenda s))) \<and> distinct (ss_fired s) \<and>
     (\<forall>(i, t) \<in> set (ss_fired s). \<exists>r \<in> set (ag_rows (ss_agenda s)). sc_id r = i \<and> (sc_state r \<noteq> ''active'' \<or> t < sc_next r))"

text \<open>Updates that only move rows forward keep the invariant.\<close>

definition forward :: "schedule \<Rightarrow> schedule \<Rightarrow> bool" where
  "forward r r' \<longleftrightarrow> sc_id r' = sc_id r \<and> (sc_state r' = ''active'' \<longrightarrow> sc_state r = ''active'' \<and> sc_next r \<le> sc_next r')"

lemma sched_inv_forward:
  assumes "sched_inv s" and "ag_rows a = map f (ag_rows (ss_agenda s))" and "\<And>r. forward r (f r)"
  shows "sched_inv (s\<lparr>ss_agenda := a\<rparr>)"
proof -
  have id: "sc_id (f r) = sc_id r" for r using assms(3) by (simp add: forward_def)
  have "\<exists>r \<in> set (ag_rows a). sc_id r = i \<and> (sc_state r \<noteq> ''active'' \<or> t < sc_next r)" if "(i, t) \<in> set (ss_fired s)" for i t
  proof -
    from that assms(1) obtain r where r: "r \<in> set (ag_rows (ss_agenda s))" "sc_id r = i" "sc_state r \<noteq> ''active'' \<or> t < sc_next r"
      by (fastforce simp: sched_inv_def)
    with assms(3) [of r] have "sc_id (f r) = i \<and> (sc_state (f r) \<noteq> ''active'' \<or> t < sc_next (f r))"
      by (auto simp: forward_def)
    with r(1) show ?thesis unfolding assms(2) by auto
  qed
  with assms(1) id show ?thesis by (auto simp: sched_inv_def assms(2) comp_def)
qed

lemma forward_rows:
  "forward r r" "forward r (finish_row now r)" "sc_next r \<le> t \<Longrightarrow> forward r (rearm_row now t r)"
  "st \<noteq> ''active'' \<Longrightarrow> forward r (set_sc_state st r)"
  by (simp_all add: forward_def finish_row_def rearm_row_def set_sc_state_def)

lemma sched_inv_sweeps: "sched_inv (s\<lparr>ss_sweeps := q\<rparr>) = sched_inv s"
  by (simp add: sched_inv_def)

lemma update_rows_map: "ag_rows (fst (update_rows p f a)) = map (\<lambda>r. if p r then f r else r) (ag_rows a)"
  by (simp add: update_rows_def upd_where_def)

text \<open>A claim as one update of the rows, and when it succeeds.\<close>

lemma claim_forward:
  assumes "cron_law S" and "compute_next_fire S rec now tz = Inr nxt"
  obtains f where "ag_rows (fst (claim_occurrence i now nxt a)) = map f (ag_rows a)" "\<And>r. forward r (f r)"
proof (cases nxt)
  case None
  then show ?thesis
    by (intro that [where f = "\<lambda>r. if sc_id r = i \<and> sc_state r = ''active'' then finish_row now r else r"])
      (simp_all add: claim_occurrence_def claim_one_shot_def update_rows_map forward_rows)
next
  case (Some t)
  with compute_next_fire_ahead [OF assms(1)] assms(2) have "now < t" by simp
  with Some show ?thesis
    by (intro that [where f = "\<lambda>r. if sc_id r = i \<and> sc_state r = ''active'' \<and> sc_next r \<le> now then rearm_row now t r else r"])
      (simp_all add: claim_occurrence_def claim_and_rearm_def update_rows_map forward_rows)
qed

lemma claim_wins:
  assumes "cron_law S" and "compute_next_fire S rec now tz = Inr nxt" and "claim_occurrence i now nxt a = (a', True)"
  obtains r r' where "r \<in> set (ag_rows a)" "sc_id r = i" "sc_state r = ''active''" "r' \<in> set (ag_rows a')" "sc_id r' = i"
    "sc_state r' \<noteq> ''active'' \<or> sc_next r < sc_next r'"
proof (cases nxt)
  case None
  with assms(3) obtain r where r: "r \<in> set (ag_rows a)" "sc_id r = i" "sc_state r = ''active''"
    and a': "ag_rows a' = map (\<lambda>r. if sc_id r = i \<and> sc_state r = ''active'' then finish_row now r else r) (ag_rows a)"
    by (auto simp: claim_occurrence_def claim_one_shot_def update_rows_def upd_where_def list_ex_iff)
  have "finish_row now r \<in> set (ag_rows a')" unfolding a' using r by (auto intro!: image_eqI [of _ _ r])
  with r show ?thesis by (intro that [of r "finish_row now r"]) (simp_all add: finish_row_def)
next
  case (Some t)
  with compute_next_fire_ahead [OF assms(1)] assms(2) have t: "now < t" by simp
  from Some assms(3) obtain r where r: "r \<in> set (ag_rows a)" "sc_id r = i" "sc_state r = ''active''" "sc_next r \<le> now"
    and a': "ag_rows a' = map (\<lambda>r. if sc_id r = i \<and> sc_state r = ''active'' \<and> sc_next r \<le> now then rearm_row now t r else r) (ag_rows a)"
    by (auto simp: claim_occurrence_def claim_and_rearm_def update_rows_def upd_where_def list_ex_iff)
  have "rearm_row now t r \<in> set (ag_rows a')" unfolding a' using r by (auto intro!: image_eqI [of _ _ r])
  with r t show ?thesis by (intro that [of r "rearm_row now t r"]) (simp_all add: rearm_row_def)
qed

lemma armed_for_row: "distinct (map sc_id (ag_rows a)) \<Longrightarrow> r \<in> set (ag_rows a) \<Longrightarrow> armed_for (sc_id r) a = sc_next r"
proof -
  assume d: "distinct (map sc_id (ag_rows a))" and r: "r \<in> set (ag_rows a)"
  then obtain x where x: "find (\<lambda>x. sc_id x = sc_id r) (ag_rows a) = Some x" by (metis (mono_tags) find_None_iff option.exhaust)
  then have "x \<in> set (ag_rows a)" "sc_id x = sc_id r" by (auto dest: find_Some_props)
  with d r have "x = r" by (metis distinct_map inj_onD)
  with x show ?thesis by (simp add: armed_for_def)
qed

lemma sched_inv_fire:
  assumes "cron_law S" and "sched_inv s" and "compute_next_fire S rec now tz = Inr nxt"
    and "claim_occurrence i now nxt (ss_agenda s) = (a, True)" and "ag_rows b = ag_rows a"
  shows "sched_inv \<lparr>ss_agenda = b, ss_sweeps = q, ss_fired = (i, armed_for i (ss_agenda s)) # ss_fired s\<rparr>"
proof -
  obtain f where f: "ag_rows a = map f (ag_rows (ss_agenda s))" "\<And>r. forward r (f r)"
    using claim_forward [OF assms(1,3), of i "ss_agenda s"] assms(4) by (metis fst_conv)
  have inv: "sched_inv (s\<lparr>ss_agenda := b\<rparr>)"
    using sched_inv_forward [OF assms(2), of b f] f assms(5) by simp
  obtain r r' where r: "r \<in> set (ag_rows (ss_agenda s))" "sc_id r = i" "sc_state r = ''active''"
    and r': "r' \<in> set (ag_rows a)" "sc_id r' = i" "sc_state r' \<noteq> ''active'' \<or> sc_next r < sc_next r'"
    by (rule claim_wins [OF assms(1,3,4)])
  have d: "distinct (map sc_id (ag_rows (ss_agenda s)))" using assms(2) by (simp add: sched_inv_def)
  have armed: "armed_for i (ss_agenda s) = sc_next r" using armed_for_row [OF d r(1)] r(2) by simp
  have new: "(i, sc_next r) \<notin> set (ss_fired s)"
  proof
    assume "(i, sc_next r) \<in> set (ss_fired s)"
    with assms(2) obtain x where x: "x \<in> set (ag_rows (ss_agenda s))" "sc_id x = i" "sc_state x \<noteq> ''active'' \<or> sc_next r < sc_next x"
      unfolding sched_inv_def by fast
    with d r have "x = r" by (metis distinct_map inj_onD)
    with x(3) r(3) show False by simp
  qed
  show ?thesis using inv new r' assms(5) unfolding sched_inv_def by (auto simp: armed)
qed

lemma sched_inv_step: "sched_step S s s' \<Longrightarrow> cron_law S \<Longrightarrow> sched_inv s \<Longrightarrow> sched_inv s'"
proof (induction rule: sched_step.induct)
  case (scan now s)
  then show ?case by (simp add: sched_inv_sweeps)
next
  case (fire s before now r rs after nxt a)
  from sched_inv_fire [OF fire.prems fire.hyps(2,3)] show ?case by simp
next
  case (lose s before now r rs after nxt a)
  obtain f where f: "ag_rows (fst (claim_occurrence (sc_id r) now nxt (ss_agenda s))) = map f (ag_rows (ss_agenda s))"
    "\<And>x. forward x (f x)" by (rule claim_forward [OF lose.prems(1) lose.hyps(2)]) blast
  from sched_inv_forward [OF lose.prems(2), of a f] f lose.hyps(3) have "sched_inv (s\<lparr>ss_agenda := a\<rparr>)" by simp
  then show ?case by (simp add: sched_inv_def)
next
  case (crash s before now r rs after e)
  then show ?case by (simp add: sched_inv_sweeps)
next
  case (create mk s a i)
  then have "ag_rows a = ag_rows (ss_agenda s) @ [mk i]" by (auto simp: create_schedule_def Let_def)
  with create show ?case by (fastforce simp: sched_inv_def)
next
  case (cancel s i hh)
  have "ag_rows (fst (cancel_schedule i hh (ss_agenda s))) =
      map (\<lambda>r. if sc_id r = i \<and> sc_household r = hh \<and> live_schedule r then set_sc_state ''cancelled'' r else r) (ag_rows (ss_agenda s))"
    by (simp add: cancel_schedule_def update_rows_map)
  from sched_inv_forward [OF cancel.prems(2) this] show ?case by (simp add: forward_rows)
next
  case (other a s)
  then show ?case by (simp add: sched_inv_def)
qed

lemma sched_inv_steps: "(sched_step S)\<^sup>*\<^sup>* s s' \<Longrightarrow> cron_law S \<Longrightarrow> sched_inv s \<Longrightarrow> sched_inv s'"
  by (induction rule: rtranclp_induct) (auto intro: sched_inv_step)

definition sched_start :: "agenda \<Rightarrow> sched_system" where
  "sched_start a = \<lparr>ss_agenda = a, ss_sweeps = [], ss_fired = []\<rparr>"

lemma sched_inv_start: "distinct (map sc_id (ag_rows a)) \<Longrightarrow> sched_inv (sched_start a)"
  by (simp add: sched_inv_def sched_start_def)

text \<open>
  C21. However many sweeps run at once, interleaved with new schedules, cancellations and passing time,
  and whichever of them crash, no occurrence of a schedule fires twice: the pairs of schedule and
  instant it was armed for are pairwise different.
\<close>

theorem occurrence_fires_once:
  assumes "cron_law S" and "distinct (map sc_id (ag_rows a))" and "(sched_step S)\<^sup>*\<^sup>* (sched_start a) s"
  shows "distinct (ss_fired s)"
  using sched_inv_steps [OF assms(3,1) sched_inv_start [OF assms(2)]] by (simp add: sched_inv_def)

definition sample_sched :: sched_env where
  "sample_sched = \<lparr>se_env = sample_env, se_zone = (\<lambda>_. Some utc_zone), se_cron = (\<lambda>c z u. Inr (u + day_us))\<rparr>"

definition sample_schedule :: schedule where
  "sample_schedule = new_schedule ''hh_1'' (Some ''node_1'') None ''water the plants'' 1000 ''UTC'' None None ''sch_0''"

definition sample_agenda :: agenda where
  "sample_agenda = \<lparr>ag_world = sample_world 2000, ag_rows = [sample_schedule]\<rparr>"

lemma sample_cron_law: "cron_law sample_sched"
  by (simp add: cron_law_def sample_sched_def day_us_def)

lemma sample_schedule_fields [simp]:
  "sc_id sample_schedule = ''sch_0''" "sc_state sample_schedule = ''active''" "sc_next sample_schedule = 1000"
  "sc_recurrence sample_schedule = None"
  by (simp_all add: sample_schedule_def new_schedule_def)

lemma sample_due: "1000 \<le> now \<Longrightarrow> due_schedule now sample_schedule"
  by (simp add: due_schedule_def)

lemma sample_next: "compute_next_fire S (sc_recurrence sample_schedule) now tz = Inr None"
  by (simp add: compute_next_fire_def otruthy_def)

theorem sweep_serves_due_witness:
  "\<exists>a'. fire_due_schedules sample_sched sample_agenda = (a', Inr 1) \<and> map sc_state (ag_rows a') = [''done''] \<and>
     draft_reported sample_sched sample_schedule (ag_world sample_agenda) (ag_world a')"
proof -
  let ?now = "w_now (ag_world sample_agenda)"
  have now: "1000 \<le> ?now" by (simp add: sample_agenda_def sample_world_def)
  have rows: "ag_rows sample_agenda = [sample_schedule]" by (simp add: sample_agenda_def)
  have due: "filter (due_schedule ?now) (ag_rows sample_agenda) = [sample_schedule]"
    using sample_due [OF now] by (simp add: rows)
  have ok: "takeWhile (computable sample_sched ?now) [sample_schedule] = [sample_schedule]"
    by (simp add: computable_def sample_next del: sample_schedule_fields(4))
  have d: "distinct (map sc_id (ag_rows sample_agenda))" by (simp add: rows)
  from sweep_serves_due [OF sample_cron_law d refl due ok] obtain a' where
    a': "fire_due_schedules sample_sched sample_agenda = (a', Inr 1)"
    "draft_reported sample_sched sample_schedule (ag_world sample_agenda) (ag_world a')"
    "ag_rows a' = map (\<lambda>x. if x \<in> set [sample_schedule] then fired_row sample_sched ?now x else x) [sample_schedule]"
    unfolding rows by auto
  have "sc_state (fired_row sample_sched ?now sample_schedule) = ''done''"
    using sample_due [OF now] by (simp add: fired_row_def sample_next finish_row_def del: sample_schedule_fields(4))
  with a' show ?thesis by auto
qed

theorem occurrence_fires_once_witness:
  "\<exists>s. (sched_step sample_sched)\<^sup>*\<^sup>* (sched_start sample_agenda) s \<and> ss_fired s = [(''sch_0'', 1000)] \<and> distinct (ss_fired s)"
proof -
  let ?now = "w_now (ag_world sample_agenda)"
  have now: "1000 \<le> ?now" by (simp add: sample_agenda_def sample_world_def)
  have rows: "ag_rows sample_agenda = [sample_schedule]" by (simp add: sample_agenda_def)
  let ?s1 = "\<lparr>ss_agenda = sample_agenda, ss_sweeps = [\<lparr>sp_now = ?now, sp_pending = [sample_schedule]\<rparr>], ss_fired = []\<rparr>"
  have "sched_step sample_sched (sched_start sample_agenda) ?s1"
    using sched_step.scan [of ?now "sched_start sample_agenda" sample_sched] sample_due [OF now]
    by (simp add: sched_start_def rows)
  moreover obtain a where c: "claim_occurrence (sc_id sample_schedule) ?now None sample_agenda = (a, True)"
    by (simp add: claim_occurrence_def claim_one_shot_def update_rows_def rows)
  have "sched_step sample_sched ?s1 \<lparr>ss_agenda = fst (fire_schedule sample_sched sample_schedule a),
      ss_sweeps = [\<lparr>sp_now = ?now, sp_pending = []\<rparr>], ss_fired = [(''sch_0'', 1000)]\<rparr>" (is "sched_step _ _ ?s2")
    using sched_step.fire [of ?s1 "[]" ?now sample_schedule "[]" "[]" sample_sched None a] sample_next c
    by (simp add: armed_for_def rows)
  ultimately have r: "(sched_step sample_sched)\<^sup>*\<^sup>* (sched_start sample_agenda) ?s2" by (meson converse_rtranclp_into_rtranclp r_into_rtranclp)
  have "distinct (map sc_id (ag_rows sample_agenda))" by (simp add: rows)
  from occurrence_fires_once [OF sample_cron_law this r] have "distinct (ss_fired ?s2)" .
  with r show ?thesis by (intro exI [of _ ?s2]) simp
qed

text \<open>
  A stored recurrence that is valid JSON but not an object, or whose interval is not a number, raises
  out of the sweep, so the schedules behind it do not fire, in this sweep and in every later one.
\<close>

lemma poison_recurrence:
  "compute_next_fire S (Some ''[]'') now tz = Inl (AttributeError ''get'')"
  "compute_next_fire S (Some ''{\"type\": \"interval\", \"interval_seconds\": \"soon\"}'') now tz = Inl (ValueError ''int'')"
proof -
  have j: "json_loads ''[]'' = Some (PList [])"
    "json_loads ''{\"type\": \"interval\", \"interval_seconds\": \"soon\"}'' =
       Some (PDict [(''type'', PStr ''interval''), (''interval_seconds'', PStr ''soon'')])" by code_simp+
  show "compute_next_fire S (Some ''[]'') now tz = Inl (AttributeError ''get'')"
    by (simp add: compute_next_fire_def otruthy_def j)
  have "int_of_str ''soon'' = None" by code_simp
  then show "compute_next_fire S (Some ''{\"type\": \"interval\", \"interval_seconds\": \"soon\"}'') now tz = Inl (ValueError ''int'')"
    by (simp add: compute_next_fire_def otruthy_def j next_interval_def por_def)
qed

lemma poison_blocks_sweep: "fire_rows S now (r # rs) n a = (a, Inl e)"
  if "compute_next_fire S (sc_recurrence r) now (sc_zone r) = Inl e"
  using that by (simp add: io_simps)

end
