(* ===== verification/Date_Resolution.thy ===== *)
theory Date_Resolution
  imports Py_Regex
begin

section \<open>Date keys\<close>

text \<open>
  \<^verbatim>\<open>app/core/date_resolution.py\<close>: the normal form of a date key, relative times, clock times, and the
  resolution of keys against a date context. A clock reading that Python rejects is the exception it
  raises.
\<close>

subsection \<open>Keys and relative times\<close>

definition normalize_date_key :: "string \<Rightarrow> string" where
  "normalize_date_key raw =
     replace_sub '':'' ''_'' (rx_sub (some1 (Cls is_space)) (\<lambda>_. ''_'') (lower (strip raw)))"

definition relative_time_rx :: rx where
  "relative_time_rx = rx_cat [Bol, lit ''in_'', Cap 1 (some1 digit), ch CHR ''_'',
     Cap 2 (rx_alt [lit ''minutes'', lit ''hours'', lit ''days'']),
     opt (rx_cat [ch CHR ''_'', Cap 3 (some1 digit), ch CHR ''_'', Cap 4 (lit ''minutes'')]), Eol]"

definition num_cap :: "nat \<Rightarrow> hit \<Rightarrow> int" where
  "num_cap n h = (case cap_of n h of None \<Rightarrow> 0 | Some s \<Rightarrow> int (digits_val 0 s))"

text \<open>An instant as \<open>...Z\<close>: whole seconds, in UTC.\<close>

definition iso_z :: "int \<Rightarrow> string" where
  "iso_z u = isoformat (u div 1000000 * 1000000) @ ''Z''"

text \<open>ISO text whose \<open>Z\<close> is read as UTC.\<close>

definition read_iso :: "string \<Rightarrow> pydt option" where
  "read_iso s = fromisoformat (if s \<noteq> [] \<and> last s = CHR ''Z'' then replace_sub ''Z'' ''+00:00'' s else s)"

text \<open>\<open>astimezone(utc)\<close>: a naive instant is on the server's clock.\<close>

definition as_utc :: "zone \<Rightarrow> pydt \<Rightarrow> int" where
  "as_utc server t = (case dt_off t of None \<Rightarrow> from_local server (dt_us t) | Some z \<Rightarrow> dt_us t - z)"

definition context_now :: "pydict \<Rightarrow> exc + pyval" where
  "context_now ctx =
     rbind (as_dict (dget_or ctx ''current'' (PDict []))) (\<lambda>cur.
     Inr (por (dget cur ''datetime'') (dget cur ''utc_start_of_day'')))"

definition unit_us :: "string \<Rightarrow> int" where
  "unit_us u = (if u = ''minutes'' then minute_us else if u = ''hours'' then 60 * minute_us else day_us)"

definition relative_offset :: "hit \<Rightarrow> int" where
  "relative_offset h = num_cap 1 h * unit_us (case cap_of 2 h of None \<Rightarrow> [] | Some u \<Rightarrow> u) +
     (if otruthy (cap_of 3 h) \<and> otruthy (cap_of 4 h) then num_cap 3 h * minute_us else 0)"

definition resolve_relative_time :: "zone \<Rightarrow> string \<Rightarrow> pydict \<Rightarrow> exc + string option" where
  "resolve_relative_time server key ctx = (case rx_match relative_time_rx key of
      None \<Rightarrow> Inr None
    | Some h \<Rightarrow>
        rbind (context_now ctx) (\<lambda>now.
        if \<not> truthy now then Inr None
        else rbind (as_str now) (\<lambda>s.
        case read_iso s of
          None \<Rightarrow> Inr None
        | Some t \<Rightarrow> rbind (add_us t (relative_offset h)) (\<lambda>t'. Inr (Some (iso_z (as_utc server t')))))))"

subsection \<open>The flat context\<close>

definition sub_dict :: "pydict \<Rightarrow> string \<Rightarrow> pydict" where
  "sub_dict d k = (case dget_or d k (PDict []) of PDict e \<Rightarrow> e | _ \<Rightarrow> [])"

definition start_of_day :: "pyval \<Rightarrow> string option" where
  "start_of_day v = (case v of
      PDict d \<Rightarrow> (case dget d ''utc_start_of_day'' of PStr s \<Rightarrow> Some s | _ \<Rightarrow> None)
    | _ \<Rightarrow> None)"

definition day_or_time :: "pyval \<Rightarrow> string option" where
  "day_or_time v = (case start_of_day v of
      Some s \<Rightarrow> Some s
    | None \<Rightarrow> (case v of PDict d \<Rightarrow> (case dget d ''datetime'' of PStr s \<Rightarrow> Some s | _ \<Rightarrow> None) | _ \<Rightarrow> None))"

definition put_all :: "(string \<times> pyval option) list \<Rightarrow> pydict \<Rightarrow> pydict" where
  "put_all kvs flat = fold (\<lambda>(k, v) d. case v of None \<Rightarrow> d | Some x \<Rightarrow> dset d k x) kvs flat"

definition day_list :: "pyval \<Rightarrow> pyval option" where
  "day_list v = (case v of
      PList xs \<Rightarrow> (case List.map_filter start_of_day xs of [] \<Rightarrow> None | ds \<Rightarrow> Some (PList (map PStr ds)))
    | _ \<Rightarrow> None)"

definition this_week_entries :: "pydict \<Rightarrow> exc + (string \<times> pyval option) list" where
  "this_week_entries ctx =
     rbind (as_dict (dget_or ctx ''weeks'' (PDict []))) (\<lambda>weeks.
     Inr (case dget_or weeks ''this_week'' (PList []) of
        PList xs \<Rightarrow> List.map_filter (\<lambda>x. case x of
            PDict e \<Rightarrow> (case (dget e ''day'', start_of_day x) of
               (PStr day, Some s) \<Rightarrow> Some (''this_'' @ lower (strip day), Some (PStr s))
             | _ \<Rightarrow> None)
          | _ \<Rightarrow> None) xs
      | _ \<Rightarrow> []))"

definition flatten_date_context :: "pydict \<Rightarrow> exc + pydict" where
  "flatten_date_context ctx =
     rbind (this_week_entries ctx) (\<lambda>week.
     Inr (put_all (map (\<lambda>(k, v). (normalize_date_key k, case v of PStr s \<Rightarrow> Some v | _ \<Rightarrow> None)) (sub_dict ctx ''time_expressions''))
       (put_all week
       (put_all (map (\<lambda>(k, v). (k, map_option PStr (start_of_day v))) (sub_dict ctx ''weekdays''))
       (put_all (map (\<lambda>(k, v). (k, day_list v))
          (concat (map (sub_dict ctx) [''weekend'', ''weeks'', ''months'', ''years''])))
       (put_all (map (\<lambda>(k, v). (k, map_option PStr (day_or_time v))) (sub_dict ctx ''relative_dates''))
       (put_all [(''today'', map_option PStr (start_of_day (dget_or ctx ''current'' (PDict []))))] [])))))))"

subsection \<open>Clock times\<close>

definition strip_chars :: "string \<Rightarrow> string \<Rightarrow> string" where
  "strip_chars cs s = rev (dropWhile (\<lambda>c. c \<in> set cs) (rev (dropWhile (\<lambda>c. c \<in> set cs) s)))"

definition ends_with :: "string \<Rightarrow> string \<Rightarrow> bool" where
  "ends_with s p \<longleftrightarrow> length p \<le> length s \<and> drop (length s - length p) s = p"

definition int_text :: "string \<Rightarrow> exc + int" where
  "int_text s = py_int (PStr s)"

definition split_meridiem :: "string \<Rightarrow> string option \<times> string" where
  "split_meridiem s =
     (if ends_with s ''am'' \<or> ends_with s ''pm''
      then (Some (drop (length s - 2) s), strip_chars ''_ '' (take (length s - 2) s)) else (None, s))"

definition to_24h :: "string option \<Rightarrow> int \<Rightarrow> int" where
  "to_24h mer hour = (if mer = Some ''pm'' \<and> hour \<noteq> 12 then hour + 12
     else if mer = Some ''am'' \<and> hour = 12 then 0 else hour)"

definition clock_or_zero :: "string option \<Rightarrow> int \<Rightarrow> int \<Rightarrow> int \<times> int" where
  "clock_or_zero mer hour minute =
     (let h = to_24h mer hour in
      if 0 \<le> h \<and> h \<le> 23 \<and> 0 \<le> minute \<and> minute \<le> 59 then (h, minute) else (0, 0))"

definition digits_or_zero :: "string \<Rightarrow> exc + int" where
  "digits_or_zero s = (if py_isdigit s then int_text s else Inr 0)"

definition parse_time_string :: "string \<Rightarrow> exc + int \<times> int" where
  "parse_time_string time_str =
     (case split_meridiem (lower (strip time_str)) of (mer, s0) \<Rightarrow>
      let s = replace_sub '':'' ''_'' (replace_sub ''.'' ''_'' s0) in
      if CHR ''_'' \<in> set s then
        (case split_char CHR ''_'' s of
           h # m # _ \<Rightarrow> rbind (digits_or_zero h) (\<lambda>hour. rbind (digits_or_zero m) (\<lambda>minute. Inr (clock_or_zero mer hour minute)))
         | _ \<Rightarrow> Inr (0, 0))
      else if py_isdigit s then
        (if length s \<ge> 3 then
           rbind (int_text (take (length s - 2) s)) (\<lambda>hour.
           rbind (int_text (drop (length s - 2) s)) (\<lambda>minute. Inr (clock_or_zero mer hour minute)))
         else rbind (int_text s) (\<lambda>hour. Inr (clock_or_zero mer hour 0)))
      else Inr (0, 0))"

text \<open>The clock set on an instant's own day: \<open>dt.replace(hour, minute, second=0)\<close>.\<close>

definition set_clock :: "int \<Rightarrow> int \<Rightarrow> pydt \<Rightarrow> pydt" where
  "set_clock hour minute t = t\<lparr>dt_us := day_start_us (dt_us t) + (hour * 60 + minute) * minute_us\<rparr>"

definition time_modifiers :: "(string \<times> int) list" where
  "time_modifiers = [(''morning'', 7), (''afternoon'', 13), (''evening'', 18), (''night'', 21), (''noon'', 12), (''midnight'', 0)]"

definition apply_time_modifier :: "zone \<Rightarrow> string \<Rightarrow> string \<Rightarrow> exc + string option" where
  "apply_time_modifier server base modifier = (case read_iso base of
      None \<Rightarrow> Inr None
    | Some t \<Rightarrow>
        rbind (case map_of time_modifiers modifier of
            Some h \<Rightarrow> Inr (set_clock h 0 t)
          | None \<Rightarrow> if starts_with modifier ''at_''
                   then rbind (parse_time_string (drop 3 modifier)) (\<lambda>(h, m). Inr (set_clock h m t)) else Inr t) (\<lambda>t'.
        Inr (Some (iso_z (as_utc server t')))))"

subsection \<open>Datetime parameters\<close>

definition items_datetime :: "pydict \<Rightarrow> bool" where
  "items_datetime d = (case dget_or d ''items'' (PDict []) of PDict i \<Rightarrow> dget i ''format'' = PStr ''date-time'' | _ \<Rightarrow> False)"

definition is_datetime_param :: "pyval \<Rightarrow> bool" where
  "is_datetime_param v = (case v of
      PDict d \<Rightarrow> dget d ''format'' = PStr ''date-time'' \<or> dget d ''type'' = PStr ''array'' \<and> items_datetime d
    | _ \<Rightarrow> False)"

definition is_datetime_array :: "pyval \<Rightarrow> bool" where
  "is_datetime_array v = (case v of PDict d \<Rightarrow> dget d ''type'' = PStr ''array'' \<and> items_datetime d | _ \<Rightarrow> False)"

subsection \<open>Resolution\<close>

definition is_modifier :: "string \<Rightarrow> bool" where
  "is_modifier key \<longleftrightarrow> key \<in> fst ` set time_modifiers \<or> starts_with key ''at_''"

text \<open>What one key resolves to, and whether it is reported as unknown.\<close>

definition resolve_key :: "zone \<Rightarrow> pydict \<Rightarrow> pydict \<Rightarrow> string \<Rightarrow> exc + string list \<times> string list" where
  "resolve_key server ctx flat key =
     rbind (resolve_relative_time server key ctx) (\<lambda>rel.
     if otruthy rel then Inr ([oor rel []], [])
     else Inr (case dget flat key of
        PList xs \<Rightarrow> (List.map_filter (\<lambda>v. case v of PStr s \<Rightarrow> Some s | _ \<Rightarrow> None) xs, [])
      | PStr s \<Rightarrow> ([s], [])
      | _ \<Rightarrow> ([], if is_modifier key then [] else [key])))"

definition date_and_time :: "zone \<Rightarrow> pydict \<Rightarrow> string list \<Rightarrow> exc + string list" where
  "date_and_time server flat keys =
     (case (find (\<lambda>k. is_str (dget flat k)) keys, find is_modifier keys) of
        (Some d, Some t) \<Rightarrow>
          if d = [] \<or> t = [] then Inr []
          else rbind (as_str (dget flat d)) (\<lambda>base.
            rbind (apply_time_modifier server base t) (\<lambda>c. Inr (if otruthy c then [oor c []] else [])))
      | _ \<Rightarrow> Inr [])"

fun dedupe :: "string list \<Rightarrow> string list" where
  "dedupe [] = []"
| "dedupe (x # xs) = x # dedupe (filter (\<lambda>y. y \<noteq> x) xs)"

definition resolve_date_keys :: "zone \<Rightarrow> pyval list \<Rightarrow> pydict \<Rightarrow> exc + string list \<times> string list" where
  "resolve_date_keys server date_keys ctx =
     (if date_keys = [] then Inr ([], [])
      else
        let keys = List.map_filter (\<lambda>v. case v of PStr s \<Rightarrow> Some (normalize_date_key s) | _ \<Rightarrow> None) date_keys in
        rbind (flatten_date_context ctx) (\<lambda>flat.
        rbind (rmap (resolve_key server ctx flat) keys) (\<lambda>parts.
        rbind (date_and_time server flat keys) (\<lambda>combined.
        Inr (dedupe (concat (map fst parts) @ combined), concat (map snd parts))))))"

end
