(* ===== verification/Date_Context.thy ===== *)
theory Date_Context
  imports Date_Resolution
begin

section \<open>The date context\<close>

text \<open>
  \<^verbatim>\<open>app/core/general_context.py\<close>: every relative date the prompts and the date keys may name, from one
  reading of the clock. The time zone database of the pytz package is a parameter: a name gives a
  zone or raises. As in pytz, a date moved by days keeps the offset of the instant it came from; only
  a naive date is read with the zone's own offset. The clock is taken to be well inside the years
  1 to 9999, so moving a date by up to a few years does not overflow.
\<close>

type_synonym tz_db = "string \<Rightarrow> zone option"

definition offset_name_rx :: rx where
  "offset_name_rx = rx_cat [Bol, lit ''UTC'', Cap 1 (Cls (\<lambda>c. c = CHR ''+'' \<or> c = CHR ''-'')), Cap 2 (Rep 1 (Some 2) True digit),
     opt (ch CHR '':''), opt (Cap 3 (rx_cat [digit, digit])), Eol]"

definition normalize_timezone :: "string option \<Rightarrow> string option" where
  "normalize_timezone tz = (case tz of
      None \<Rightarrow> None
    | Some s \<Rightarrow>
        if s = [] then tz
        else if s \<in> {''UTC'', ''UTC-00:00'', ''UTC+00:00'', ''UTC-0'', ''UTC+0''} then Some ''UTC''
        else (case rx_match offset_name_rx s of
          None \<Rightarrow> tz
        | Some h \<Rightarrow>
            let east = (cap_of 1 h = Some ''+''); hours = num_cap 2 h in
            if hours * 60 + num_cap 3 h = 0 then Some ''UTC''
            else Some (''Etc/GMT'' @ (if east then ''-'' else ''+'') @ int_str hours)))"

subsection \<open>Moving a date\<close>

definition add_days :: "pydt \<Rightarrow> int \<Rightarrow> pydt" where
  "add_days t n = t\<lparr>dt_us := dt_us t + n * day_us\<rparr>"

definition civil :: "pydt \<Rightarrow> int \<times> int \<times> int" where
  "civil t = civil_from_days (dt_us t div day_us)"

definition set_civil :: "int \<times> int \<times> int \<Rightarrow> pydt \<Rightarrow> pydt" where
  "set_civil c t = (case c of (y, m, d) \<Rightarrow> t\<lparr>dt_us := days_from_civil y m d * day_us + dt_us t mod day_us\<rparr>)"

definition set_day :: "int \<Rightarrow> pydt \<Rightarrow> pydt" where
  "set_day d t = (case civil t of (y, m, _) \<Rightarrow> set_civil (y, m, d) t)"

definition set_month_day :: "int \<Rightarrow> int \<Rightarrow> pydt \<Rightarrow> pydt" where
  "set_month_day m d t = (case civil t of (y, _, _) \<Rightarrow> set_civil (y, m, d) t)"

definition weekday :: "pydt \<Rightarrow> int" where
  "weekday t = weekday_of (dt_us t)"

definition weekday_name :: "pydt \<Rightarrow> string" where
  "weekday_name t = weekday_names ! nat (weekday t)"

definition ymd :: "pydt \<Rightarrow> string" where
  "ymd t = take 10 (isoformat (dt_us t))"

definition month_names :: "string list" where
  "month_names = [''January'', ''February'', ''March'', ''April'', ''May'', ''June'', ''July'', ''August'', ''September'',
     ''October'', ''November'', ''December'']"

text \<open>\<open>%A, %B %d %Y\<close> and \<open>%I:%M %p\<close>\<close>

definition long_date :: "pydt \<Rightarrow> string" where
  "long_date t = (case civil t of (y, m, d) \<Rightarrow>
     weekday_name t @ '', '' @ month_names ! nat (m - 1) @ '' '' @ pad 2 (int_str d) @ '' '' @ int_str y)"

definition clock_text :: "pydt \<Rightarrow> string" where
  "clock_text t = (let h = hour_of (dt_us t); h12 = (if h mod 12 = 0 then 12 else h mod 12) in
     pad 2 (int_str h12) @ '':'' @ pad 2 (int_str (minute_of (dt_us t))) @ (if h < 12 then '' AM'' else '' PM''))"

subsection \<open>Starts of days\<close>

record clock =
  ck_zones :: tz_db
  ck_server :: zone
  ck_utc :: int
  ck_tz :: "string option"
  ck_zone_info :: "pyval \<times> pyval"

definition clock_zone :: "clock \<Rightarrow> zone option" where
  "clock_zone c = (if otruthy (ck_tz c) then ck_zones c (oor (ck_tz c) []) else None)"

definition now_of :: "clock \<Rightarrow> pydt" where
  "now_of c = (case clock_zone c of
      Some z \<Rightarrow> \<lparr>dt_us = to_local z (ck_utc c), dt_off = Some (zo_at z (ck_utc c))\<rparr>
    | None \<Rightarrow> \<lparr>dt_us = to_local (ck_server c) (ck_utc c), dt_off = None\<rparr>)"

definition utc_start_of_day :: "clock \<Rightarrow> pydt \<Rightarrow> string" where
  "utc_start_of_day c t = (case clock_zone c of
      None \<Rightarrow> ymd t @ ''T00:00:00Z''
    | Some z \<Rightarrow>
        let midnight = day_start_us (dt_us t) in
        iso_z (case dt_off t of None \<Rightarrow> from_local z midnight | Some off \<Rightarrow> midnight - off))"

definition day_entry :: "clock \<Rightarrow> pydt \<Rightarrow> pyval" where
  "day_entry c t = PDict [(''date'', PStr (ymd t)), (''utc_start_of_day'', PStr (utc_start_of_day c t))]"

definition named_entry :: "clock \<Rightarrow> string \<Rightarrow> pydt \<Rightarrow> pyval" where
  "named_entry c name t =
     PDict [(''day'', PStr name), (''date'', PStr (ymd t)), (''utc_start_of_day'', PStr (utc_start_of_day c t))]"

subsection \<open>Weekends, weeks, months, years\<close>

text \<open>The Saturdays and Sundays of this, the last and the next weekend.\<close>

definition weekends :: "pydt \<Rightarrow> (pydt \<times> pydt) \<times> (pydt \<times> pydt) \<times> (pydt \<times> pydt)" where
  "weekends now =
     (if weekday now = 5 then
        ((now, add_days now 1), (add_days now (-7), add_days now (-6)), (add_days now 7, add_days now 8))
      else if weekday now = 6 then
        ((add_days now (-1), now), (add_days now (-8), add_days now (-7)), (add_days now 6, add_days now 7))
      else
        let sat = add_days now ((5 - weekday now) mod 7); sun = add_days sat 1;
            last_sat = add_days now (- (weekday now + 2)) in
        ((sat, sun), (last_sat, add_days last_sat 1), (add_days sat 7, add_days sun 7)))"

definition this_week_start :: "pydt \<Rightarrow> pydt" where
  "this_week_start now = (if weekday now = 6 then now else add_days now (- (weekday now + 1)))"

definition next_week_start :: "pydt \<Rightarrow> pydt" where
  "next_week_start now = add_days (this_week_start now) 7"

definition last_week_start :: "pydt \<Rightarrow> pydt" where
  "last_week_start now = add_days (this_week_start now) (-7)"

definition week_list :: "clock \<Rightarrow> string \<Rightarrow> pydt \<Rightarrow> pyval" where
  "week_list c label start =
     PList (map (\<lambda>i. named_entry c (label @ weekday_name (add_days start (int i))) (add_days start (int i))) [0..<7])"

definition weekday_keys :: "string list" where
  "weekday_keys = [''monday'', ''tuesday'', ''wednesday'', ''thursday'', ''friday'', ''saturday'', ''sunday'']"

text \<open>The dates of the next and last weekdays are printed and read back, which drops clock and offset.\<close>

definition weekday_dates :: "string \<Rightarrow> pydt \<Rightarrow> (string \<times> pydt) list" where
  "weekday_dates label start =
     map (\<lambda>i. (label @ weekday_keys ! i, \<lparr>dt_us = day_start_us (dt_us (add_days start (int i))), dt_off = None\<rparr>)) [0..<7]"

definition first_of_month :: "pydt \<Rightarrow> pydt" where
  "first_of_month t = set_day 1 t"

definition next_first :: "pydt \<Rightarrow> pydt" where
  "next_first t = set_day 1 (add_days (set_day 1 t) 32)"

definition last_of_month :: "pydt \<Rightarrow> pydt" where
  "last_of_month t = add_days (next_first t) (-1)"

definition month_pairs :: "pydt \<Rightarrow> (string \<times> pydt list) list" where
  "month_pairs now =
     [(''this_month'', [first_of_month now, last_of_month now]),
      (''next_month'', [next_first now, add_days (next_first (next_first now)) (-1)]),
      (''last_month'', [set_day 1 (add_days (set_day 1 now) (-1)), add_days (set_day 1 now) (-1)])]"

definition year_pairs :: "pydt \<Rightarrow> (string \<times> pydt list) list" where
  "year_pairs now =
     [(''this_year'', [set_month_day 1 1 now, set_month_day 12 31 now]),
      (''next_year'', [set_month_day 1 1 (add_days now 365), set_month_day 12 31 (add_days now 365)]),
      (''last_year'', [set_month_day 1 1 (add_days now (-365)), set_month_day 12 31 (add_days now (-365))])]"

subsection \<open>Time expressions\<close>

definition at_clock :: "int \<Rightarrow> int \<Rightarrow> pydt \<Rightarrow> pydt" where
  "at_clock h m t = t\<lparr>dt_us := day_start_us (dt_us t) + (h * 60 + m) * minute_us\<rparr>"

definition named_times :: "pydt \<Rightarrow> (string \<times> pydt) list" where
  "named_times now =
     (let today = at_clock 0 0 now; tomorrow = add_days today 1; yesterday = add_days today (-1) in
      [(''this morning'', at_clock 7 0 today), (''this afternoon'', at_clock 14 0 today),
       (''this evening'', at_clock 19 0 today), (''tonight'', at_clock 20 0 today),
       (''during lunch'', at_clock 12 0 today), (''at breakfast'', at_clock 8 0 today),
       (''at dinner'', at_clock 18 0 today), (''at noon'', at_clock 12 0 today), (''at midnight'', at_clock 0 0 today),
       (''tomorrow morning'', at_clock 7 0 tomorrow), (''tomorrow afternoon'', at_clock 14 0 tomorrow),
       (''tomorrow evening'', at_clock 19 0 tomorrow), (''tomorrow night'', at_clock 20 0 tomorrow),
       (''yesterday morning'', at_clock 7 0 yesterday), (''yesterday afternoon'', at_clock 14 0 yesterday),
       (''yesterday evening'', at_clock 19 0 yesterday), (''last night'', at_clock 20 0 yesterday)])"

definition exact_times :: "pydt \<Rightarrow> nat \<Rightarrow> (string \<times> pydt) list" where
  "exact_times now n =
     (let today = at_clock 0 0 now; hour = int n; am = (if n = 12 then 0 else hour); pm = (if n = 12 then 12 else hour + 12);
          on = (\<lambda>suffix h m. (''at '' @ nat_str n @ suffix, at_clock h m today)) in
      [on ''am'' am 0, on ''pm'' pm 0, on '':30am'' am 30, on '':30pm'' pm 30] @
      (if n \<in> {9, 10, 11, 1, 2, 3}
       then [on '':15am'' am 15, on '':45am'' am 45, on '':15pm'' pm 15, on '':45pm'' pm 45] else []))"

definition to_utc_iso :: "clock \<Rightarrow> pydt \<Rightarrow> exc + string" where
  "to_utc_iso c t =
     (if otruthy (ck_tz c) \<and> dt_off t = None then
        (case clock_zone c of
           None \<Rightarrow> Inl (OtherError ''UnknownTimeZoneError'')
         | Some z \<Rightarrow> Inr (iso_z (from_local z (dt_us t))))
      else Inr (iso_z (as_utc (ck_server c) t)))"

definition time_expressions :: "clock \<Rightarrow> pydt \<Rightarrow> exc + pydict" where
  "time_expressions c now =
     rbind (rmap (\<lambda>(k, t). rbind (to_utc_iso c t) (\<lambda>s. Inr (k, PStr s)))
       (named_times now @ concat (map (exact_times now) [1..<13]))) (\<lambda>kvs. Inr (fold (\<lambda>(k, v) d. dset d k v) kvs []))"

subsection \<open>The whole context\<close>

definition last_night_of :: "clock \<Rightarrow> pydt \<Rightarrow> string" where
  "last_night_of c now =
     (let t = at_clock 19 0 (add_days now (-1)) in
      iso_z (case dt_off t of
          Some off \<Rightarrow> dt_us t - off
        | None \<Rightarrow> (case clock_zone c of Some z \<Rightarrow> from_local z (dt_us t) | None \<Rightarrow> from_local (ck_server c) (dt_us t))))"

definition weekend_list :: "clock \<Rightarrow> pydt \<times> pydt \<Rightarrow> pyval" where
  "weekend_list c p = PList [named_entry c ''Saturday'' (fst p), named_entry c ''Sunday'' (snd p)]"

definition date_context :: "clock \<Rightarrow> exc + pydict" where
  "date_context c =
     (let now = now_of c in
      case weekends now of (this_we, last_we, next_we) \<Rightarrow>
      rbind (time_expressions c now) (\<lambda>times.
      Inr
       [(''current'', PDict
          [(''date'', PStr (long_date now)), (''date_iso'', PStr (ymd now)), (''time'', PStr (clock_text now)),
           (''datetime'', PStr (iso_z (as_utc (ck_server c) now))), (''weekday'', PStr (lower (weekday_name now))),
           (''weekday_number'', PInt (weekday now)), (''utc_start_of_day'', PStr (utc_start_of_day c now))]),
        (''relative_dates'', PDict
          [(''tomorrow'', day_entry c (add_days now 1)), (''yesterday'', day_entry c (add_days now (-1))),
           (''last_night'', PDict [(''date'', PStr (ymd (add_days now (-1)))), (''time'', PStr ''19:00:00''),
              (''datetime'', PStr (last_night_of c now))]),
           (''day_after_tomorrow'', day_entry c (add_days now 2)), (''day_before_yesterday'', day_entry c (add_days now (-2)))]),
        (''weekend'', PDict
          [(''this_weekend'', weekend_list c this_we), (''next_weekend'', weekend_list c next_we),
           (''last_weekend'', weekend_list c last_we)]),
        (''weeks'', PDict
          [(''this_week'', week_list c [] (this_week_start now)), (''next_week'', week_list c ''Next '' (next_week_start now)),
           (''last_week'', week_list c ''Last '' (last_week_start now))]),
        (''months'', PDict (map (\<lambda>(k, ts). (k, PList (map (day_entry c) ts))) (month_pairs now))),
        (''years'', PDict (map (\<lambda>(k, ts). (k, PList (map (day_entry c) ts))) (year_pairs now))),
        (''weekdays'', PDict (map (\<lambda>(k, t). (k, day_entry c t))
           (weekday_dates ''next_'' (next_week_start now) @ weekday_dates ''last_'' (last_week_start now)))),
        (''timezone'', PDict
          [(''user_timezone'', opt_str (ck_tz c)), (''current_timezone'', fst (ck_zone_info c)),
           (''is_dst'', snd (ck_zone_info c))]),
        (''time_expressions'', PDict times)]))"

definition generate_date_context_object :: "tz_db \<Rightarrow> zone \<Rightarrow> pyval \<times> pyval \<Rightarrow> string option \<Rightarrow> int \<Rightarrow> exc + pydict" where
  "generate_date_context_object db server info tz utc =
     date_context \<lparr>ck_zones = db, ck_server = server, ck_utc = utc, ck_tz = normalize_timezone tz, ck_zone_info = info\<rparr>"

end
