(* ===== verification/Conversation_Cache.thy ===== *)
theory Conversation_Cache
  imports Py_Prelude
begin

section \<open>The conversation cache\<close>

text \<open>
  \<^verbatim>\<open>app/core/conversation_cache.py\<close>: the history window and the cache of conversations, whose entries
  expire a fixed time after they were set and are dropped by the first operation that meets them
  then. Every operation holds the lock from start to end, so it is one step. A reader gets the value
  of the message list; that it shares the list with the entry is not modelled. Time is in
  microseconds and does not run backwards.
\<close>

subsection \<open>The history window\<close>

definition role_is :: "string \<Rightarrow> pydict \<Rightarrow> bool" where
  "role_is r msg \<longleftrightarrow> dget msg ''role'' = PStr r"

definition expects_continuation :: "pydict \<Rightarrow> bool" where
  "expects_continuation msg \<longleftrightarrow>
     role_is ''tool'' msg \<or> role_is ''assistant'' msg \<and> truthy (dget msg ''tool_calls'')"

definition system_prefix :: "pydict list \<Rightarrow> pydict list" where
  "system_prefix msgs = takeWhile (role_is ''system'') msgs"

text \<open>One message joins the last turn, or starts a new one.\<close>

definition add_to_turns :: "pydict list list \<Rightarrow> pydict \<Rightarrow> pydict list list" where
  "add_to_turns turns msg =
     (if role_is ''user'' msg \<and> (turns = [] \<or> \<not> expects_continuation (last (last turns))) then turns @ [[msg]]
      else if turns \<noteq> [] then butlast turns @ [last turns @ [msg]]
      else [[msg]])"

definition turns_of :: "pydict list \<Rightarrow> pydict list list" where
  "turns_of msgs = foldl add_to_turns [] (dropWhile (role_is ''system'') msgs)"

definition trim_history_to_max_turns :: "pydict list \<Rightarrow> int \<Rightarrow> pydict list \<times> nat" where
  "trim_history_to_max_turns msgs max_turns =
     (if max_turns \<le> 0 then (msgs, 0)
      else let turns = turns_of msgs; n = nat max_turns in
        if length turns \<le> n then (msgs, 0)
        else let trimmed = system_prefix msgs @ concat (drop (length turns - n) turns) in
          (trimmed, length msgs - length trimmed))"

subsection \<open>Entries\<close>

record client_call =
  ic_name :: pyval
  ic_hash :: string
  ic_time :: int

record conversation =
  cv_messages :: "pydict list"
  cv_commands :: "pydict list"
  cv_tools :: "pydict list"
  cv_zone :: "string option"
  cv_context :: "pydict option"
  cv_router :: "pydict option"
  cv_items :: "pydict list option"
  cv_wake :: "pydict option"
  cv_rounds :: int
  cv_calls :: "client_call list"
  cv_force :: bool
  cv_stamp :: int

record conv_cache =
  cc_rows :: "(string \<times> conversation) list"
  cc_ttl :: int
  cc_now :: int

definition expired :: "conv_cache \<Rightarrow> conversation \<Rightarrow> bool" where
  "expired c e \<longleftrightarrow> cc_now c - cv_stamp e > cc_ttl c"

definition put_entry :: "string \<Rightarrow> conversation \<Rightarrow> conv_cache \<Rightarrow> conv_cache" where
  "put_entry cid e c = c\<lparr>cc_rows := AList.update cid e (cc_rows c)\<rparr>"

definition drop_entry :: "string \<Rightarrow> conv_cache \<Rightarrow> conv_cache" where
  "drop_entry cid c = c\<lparr>cc_rows := AList.delete cid (cc_rows c)\<rparr>"

text \<open>
  The guard in front of every operation: an absent conversation gives the default, an expired one is
  dropped and gives the default, a live one is changed and answers.
\<close>

definition with_entry :: "string \<Rightarrow> (conversation \<Rightarrow> conversation \<times> 'a) \<Rightarrow> 'a \<Rightarrow> conv_cache \<Rightarrow> conv_cache \<times> 'a" where
  "with_entry cid step d c = (case map_of (cc_rows c) cid of
      None \<Rightarrow> (c, d)
    | Some e \<Rightarrow>
        if expired c e then (drop_entry cid c, d)
        else (case step e of (e', x) \<Rightarrow> (put_entry cid e' c, x)))"

definition entry_get :: "string \<Rightarrow> (conversation \<Rightarrow> 'a) \<Rightarrow> 'a \<Rightarrow> conv_cache \<Rightarrow> conv_cache \<times> 'a" where
  "entry_get cid f = with_entry cid (\<lambda>e. (e, f e))"

definition entry_set :: "string \<Rightarrow> (conversation \<Rightarrow> conversation) \<Rightarrow> conv_cache \<Rightarrow> conv_cache" where
  "entry_set cid f c = fst (with_entry cid (\<lambda>e. (f e, ())) () c)"

subsection \<open>Operations\<close>

definition new_conversation :: "pydict list \<Rightarrow> pydict list \<Rightarrow> string option \<Rightarrow> pydict list \<Rightarrow> pydict option \<Rightarrow> int
    \<Rightarrow> conversation" where
  "new_conversation msgs cmds tz tools ctx stamp =
     \<lparr>cv_messages = msgs, cv_commands = cmds, cv_tools = tools, cv_zone = tz, cv_context = ctx, cv_router = None,
      cv_items = None, cv_wake = None, cv_rounds = 0, cv_calls = [], cv_force = False, cv_stamp = stamp\<rparr>"

definition set_conversation :: "string \<Rightarrow> pydict list \<Rightarrow> pydict list \<Rightarrow> string option \<Rightarrow> pydict list \<Rightarrow> pydict option
    \<Rightarrow> conv_cache \<Rightarrow> conv_cache" where
  "set_conversation cid msgs cmds tz tools ctx c =
     put_entry cid (new_conversation msgs cmds tz tools ctx (cc_now c)) c"

definition get_messages :: "string \<Rightarrow> conv_cache \<Rightarrow> conv_cache \<times> pydict list option" where
  "get_messages cid = entry_get cid (\<lambda>e. Some (cv_messages e)) None"

definition get_available_commands :: "string \<Rightarrow> conv_cache \<Rightarrow> conv_cache \<times> pydict list option" where
  "get_available_commands cid = entry_get cid (\<lambda>e. Some (cv_commands e)) None"

definition get_timezone :: "string \<Rightarrow> conv_cache \<Rightarrow> conv_cache \<times> string option" where
  "get_timezone cid = entry_get cid cv_zone None"

definition get_node_context :: "string \<Rightarrow> conv_cache \<Rightarrow> conv_cache \<times> pydict option" where
  "get_node_context cid = entry_get cid cv_context None"

definition set_router_decision :: "string \<Rightarrow> pydict option \<Rightarrow> conv_cache \<Rightarrow> conv_cache" where
  "set_router_decision cid d = entry_set cid (\<lambda>e. e\<lparr>cv_router := d\<rparr>)"

definition get_router_decision :: "string \<Rightarrow> conv_cache \<Rightarrow> conv_cache \<times> pydict option" where
  "get_router_decision cid = entry_get cid cv_router None"

definition set_wake_verification :: "string \<Rightarrow> pydict option \<Rightarrow> conv_cache \<Rightarrow> conv_cache" where
  "set_wake_verification cid v = entry_set cid (\<lambda>e. e\<lparr>cv_wake := v\<rparr>)"

definition get_wake_verification :: "string \<Rightarrow> conv_cache \<Rightarrow> conv_cache \<times> pydict option" where
  "get_wake_verification cid = entry_get cid cv_wake None"

definition increment_answered_rounds :: "string \<Rightarrow> conv_cache \<Rightarrow> conv_cache \<times> int" where
  "increment_answered_rounds cid =
     with_entry cid (\<lambda>e. let e' = e\<lparr>cv_rounds := cv_rounds e + 1\<rparr> in (e', cv_rounds e')) 0"

definition get_answered_rounds :: "string \<Rightarrow> conv_cache \<Rightarrow> conv_cache \<times> int" where
  "get_answered_rounds cid = entry_get cid cv_rounds 0"

definition set_referenced_items :: "string \<Rightarrow> pydict list option \<Rightarrow> conv_cache \<Rightarrow> conv_cache" where
  "set_referenced_items cid items = entry_set cid (\<lambda>e. e\<lparr>cv_items := items\<rparr>)"

definition get_referenced_items :: "string \<Rightarrow> conv_cache \<Rightarrow> conv_cache \<times> pydict list" where
  "get_referenced_items cid = entry_get cid (\<lambda>e. case cv_items e of None \<Rightarrow> [] | Some xs \<Rightarrow> xs) []"

definition record_issued_client_call :: "string \<Rightarrow> pyval \<Rightarrow> string \<Rightarrow> conv_cache \<Rightarrow> conv_cache" where
  "record_issued_client_call cid tool hash c =
     entry_set cid (\<lambda>e. e\<lparr>cv_calls := cv_calls e @ [\<lparr>ic_name = tool, ic_hash = hash, ic_time = cc_now c\<rparr>]\<rparr>) c"

definition get_issued_client_calls :: "string \<Rightarrow> conv_cache \<Rightarrow> conv_cache \<times> client_call list" where
  "get_issued_client_calls cid = entry_get cid cv_calls []"

definition add_message :: "string \<Rightarrow> pydict \<Rightarrow> conv_cache \<Rightarrow> conv_cache" where
  "add_message cid m = entry_set cid (\<lambda>e. e\<lparr>cv_messages := cv_messages e @ [m]\<rparr>)"

definition add_messages :: "string \<Rightarrow> pydict list \<Rightarrow> conv_cache \<Rightarrow> conv_cache" where
  "add_messages cid ms = entry_set cid (\<lambda>e. e\<lparr>cv_messages := cv_messages e @ ms\<rparr>)"

definition update_messages :: "string \<Rightarrow> pydict list \<Rightarrow> conv_cache \<Rightarrow> conv_cache" where
  "update_messages cid ms = entry_set cid (\<lambda>e. e\<lparr>cv_messages := ms\<rparr>)"

definition get_tools :: "string \<Rightarrow> conv_cache \<Rightarrow> conv_cache \<times> pydict list option" where
  "get_tools cid = entry_get cid (\<lambda>e. Some (cv_tools e)) None"

definition remove_conversation :: "string \<Rightarrow> conv_cache \<Rightarrow> conv_cache" where
  "remove_conversation cid c = (if map_of (cc_rows c) cid = None then c else drop_entry cid c)"

definition clear_expired :: "conv_cache \<Rightarrow> conv_cache \<times> nat" where
  "clear_expired c =
     (let keys = map fst (filter (\<lambda>(k, e). expired c e) (cc_rows c)) in
      (fold drop_entry keys c, length keys))"

definition cache_size :: "conv_cache \<Rightarrow> nat" where
  "cache_size c = length (cc_rows c)"

definition cache_stats :: "conv_cache \<Rightarrow> pydict" where
  "cache_stats c =
     [(''total_entries'', PInt (int (length (cc_rows c)))),
      (''active_entries'', PInt (int (length (filter (\<lambda>(k, e). \<not> expired c e) (cc_rows c))))),
      (''expired_entries'', PInt (int (length (filter (\<lambda>(k, e). expired c e) (cc_rows c))))),
      (''ttl_seconds'', PInt (cc_ttl c div 1000000))]"

definition set_force_tool_calls :: "string \<Rightarrow> bool \<Rightarrow> conv_cache \<Rightarrow> conv_cache" where
  "set_force_tool_calls cid b = entry_set cid (\<lambda>e. e\<lparr>cv_force := b\<rparr>)"

definition get_force_tool_calls :: "string \<Rightarrow> conv_cache \<Rightarrow> conv_cache \<times> bool" where
  "get_force_tool_calls cid = entry_get cid cv_force False"

definition has_conversation :: "string \<Rightarrow> conv_cache \<Rightarrow> conv_cache \<times> bool" where
  "has_conversation cid = entry_get cid (\<lambda>_. True) False"

end
