(* ===== verification/Cache_Facts.thy ===== *)
theory Cache_Facts
  imports Conversation_Cache
begin

section \<open>What the conversation cache promises\<close>

text \<open>
  The history window keeps whole turns, and the lazily cleaned cache cannot be told from a map whose
  entries vanish at the instant they expire. The store below the cache is used through an interface,
  interpreted on the rows of the cache.
\<close>

subsection \<open>Turns\<close>

abbreviation is_user :: "pydict \<Rightarrow> bool" where
  "is_user \<equiv> role_is ''user''"

abbreviation is_system :: "pydict \<Rightarrow> bool" where
  "is_system \<equiv> role_is ''system''"

lemma user_not_system: "is_user m \<Longrightarrow> \<not> is_system m"
  by (simp add: role_is_def)

lemma add_to_turns_nonempty: "add_to_turns ts m \<noteq> []"
  by (simp add: add_to_turns_def)

lemma add_to_turns_concat: "concat (add_to_turns ts m) = concat ts @ [m]"
proof (cases ts rule: rev_cases)
  case (snoc us u)
  then show ?thesis by (simp add: add_to_turns_def)
qed (simp add: add_to_turns_def)

lemma add_to_turns_new: "is_user m \<Longrightarrow> ts = [] \<or> \<not> expects_continuation (last (last ts)) \<Longrightarrow> add_to_turns ts m = ts @ [[m]]"
  by (simp add: add_to_turns_def)

lemma add_to_turns_join: "is_user m \<longrightarrow> expects_continuation (last u) \<Longrightarrow> add_to_turns (us @ [u]) m = us @ [u @ [m]]"
  by (auto simp: add_to_turns_def)

lemma foldl_turns_concat: "concat (foldl add_to_turns ts ms) = concat ts @ ms"
  by (induction ms arbitrary: ts) (simp_all add: add_to_turns_concat)

text \<open>A turn: only a message that continues an open exchange may come from the user behind its start.\<close>

definition whole_turn :: "pydict list \<Rightarrow> bool" where
  "whole_turn u \<longleftrightarrow> u \<noteq> [] \<and>
     (\<forall>i. Suc i < length u \<longrightarrow> is_user (u ! Suc i) \<longrightarrow> expects_continuation (u ! i))"

definition turn_break :: "pydict list \<Rightarrow> pydict list \<Rightarrow> bool" where
  "turn_break u v \<longleftrightarrow> is_user (hd v) \<and> \<not> expects_continuation (last u)"

fun turn_chain :: "pydict list list \<Rightarrow> bool" where
  "turn_chain [] = True"
| "turn_chain [u] = whole_turn u"
| "turn_chain (u # v # ts) \<longleftrightarrow> whole_turn u \<and> turn_break u v \<and> turn_chain (v # ts)"

lemma whole_turn_single [simp]: "whole_turn [m]"
  by (simp add: whole_turn_def)

lemma whole_turn_snoc:
  "u \<noteq> [] \<Longrightarrow> whole_turn (u @ [m]) \<longleftrightarrow> whole_turn u \<and> (is_user m \<longrightarrow> expects_continuation (last u))"
  by (cases u rule: rev_cases) (auto simp: whole_turn_def nth_append less_Suc_eq)

lemma turn_chain_snoc:
  "turn_chain (ts @ [v]) \<longleftrightarrow> turn_chain ts \<and> whole_turn v \<and> (ts \<noteq> [] \<longrightarrow> turn_break (last ts) v)"
  by (induction ts rule: turn_chain.induct) auto

lemma turn_chain_drop: "turn_chain ts \<Longrightarrow> turn_chain (drop n ts)"
proof (induction n arbitrary: ts)
  case (Suc n)
  have "turn_chain (tl ts)" using Suc.prems by (cases ts rule: turn_chain.cases) auto
  with Suc.IH [of "tl ts"] show ?case by (cases ts) auto
qed simp

lemma turn_chain_whole: "turn_chain ts \<Longrightarrow> u \<in> set ts \<Longrightarrow> whole_turn u"
  by (induction ts rule: turn_chain.induct) auto

lemma turn_chain_break: "turn_chain (us @ vs) \<Longrightarrow> us \<noteq> [] \<Longrightarrow> vs \<noteq> [] \<Longrightarrow> turn_break (last us) (hd vs)"
proof (induction us)
  case (Cons u us)
  then show ?case by (cases us; cases vs) auto
qed simp

lemma add_to_turns_chain: "turn_chain ts \<Longrightarrow> turn_chain (add_to_turns ts m)"
proof (cases ts rule: rev_cases)
  case (snoc us u)
  assume a: "turn_chain ts"
  with snoc have w: "whole_turn u" "u \<noteq> []" by (auto simp: turn_chain_snoc whole_turn_def)
  show ?thesis
  proof (cases "is_user m \<and> \<not> expects_continuation (last u)")
    case True
    with snoc have "add_to_turns ts m = ts @ [[m]]" by (intro add_to_turns_new) simp_all
    moreover have "turn_chain (ts @ [[m]])"
      using a True unfolding turn_chain_snoc by (simp add: turn_break_def snoc)
    ultimately show ?thesis by simp
  next
    case False
    then have "add_to_turns ts m = us @ [u @ [m]]" by (simp add: add_to_turns_join snoc)
    with a False snoc w show ?thesis by (auto simp: turn_chain_snoc whole_turn_snoc turn_break_def)
  qed
qed (simp add: add_to_turns_def)

lemma foldl_turns_chain: "turn_chain ts \<Longrightarrow> turn_chain (foldl add_to_turns ts ms)"
  by (induction ms arbitrary: ts) (simp_all add: add_to_turns_chain)

text \<open>A whole turn is read back as one turn, and so is a chain of them.\<close>

lemma regroup_turn:
  assumes "whole_turn u" and "ts = [] \<or> turn_break (last ts) u"
  shows "foldl add_to_turns ts u = ts @ [u]"
  using assms
proof (induction u rule: rev_induct)
  case (snoc m u)
  show ?case
  proof (cases "u = []")
    case True
    with snoc.prems show ?thesis by (auto simp: add_to_turns_def turn_break_def)
  next
    case False
    with snoc.prems have "whole_turn u" "is_user m \<longrightarrow> expects_continuation (last u)"
      and "ts = [] \<or> turn_break (last ts) u" by (auto simp: whole_turn_snoc turn_break_def)
    with snoc.IH have "foldl add_to_turns ts u = ts @ [u]" by blast
    with \<open>is_user m \<longrightarrow> expects_continuation (last u)\<close> show ?thesis by (simp add: add_to_turns_join)
  qed
qed (simp add: whole_turn_def)

lemma regroup_chain:
  "turn_chain vs \<Longrightarrow> ts = [] \<or> vs = [] \<or> turn_break (last ts) (hd vs) \<Longrightarrow>
     foldl add_to_turns ts (concat vs) = ts @ vs"
proof (induction vs arbitrary: ts)
  case (Cons v vs)
  have "whole_turn v" using Cons.prems(1) by (rule turn_chain_whole) simp
  then have "foldl add_to_turns ts v = ts @ [v]" using Cons.prems(2) by (intro regroup_turn) auto
  moreover have "foldl add_to_turns (ts @ [v]) (concat vs) = (ts @ [v]) @ vs"
    using Cons.prems(1) by (intro Cons.IH) (cases vs; auto)+
  ultimately show ?case by simp
qed simp

subsection \<open>The window\<close>

lemma turns_chain: "turn_chain (turns_of msgs)"
  by (simp add: turns_of_def foldl_turns_chain)

lemma turns_concat: "system_prefix msgs @ concat (turns_of msgs) = msgs"
  by (simp add: turns_of_def system_prefix_def foldl_turns_concat)

lemma no_head: "xs = [] \<or> \<not> p (hd xs) \<Longrightarrow> takeWhile p xs = []" "xs = [] \<or> \<not> p (hd xs) \<Longrightarrow> dropWhile p xs = xs"
  by (cases xs; simp)+

lemma turns_of_window:
  assumes "turn_chain vs" and "vs = [] \<or> \<not> is_system (hd (hd vs))" and "list_all is_system p"
  shows "system_prefix (p @ concat vs) = p \<and> turns_of (p @ concat vs) = vs"
proof -
  have all: "\<forall>x\<in>set p. is_system x" using assms(3) by (simp add: list_all_iff)
  have h: "concat vs = [] \<or> \<not> is_system (hd (concat vs))"
  proof (cases vs)
    case (Cons v us)
    then have "v \<noteq> []" using turn_chain_whole [OF assms(1), of v] by (simp add: whole_turn_def)
    with Cons assms(2) show ?thesis by simp
  qed simp
  have t: "takeWhile is_system (concat vs) = []" "dropWhile is_system (concat vs) = concat vs"
    using h by (simp_all only: no_head)
  have "foldl add_to_turns [] (concat vs) = vs" using regroup_chain [OF assms(1), of "[]"] by simp
  with all t show ?thesis by (simp add: system_prefix_def turns_of_def takeWhile_append2 dropWhile_append2)
qed

definition starts_turn_after :: "pydict list \<Rightarrow> pydict list \<Rightarrow> bool" where
  "starts_turn_after old new \<longleftrightarrow> new \<noteq> [] \<and> is_user (hd new) \<and> \<not> expects_continuation (last old)"

text \<open>
  The window drops a run of messages right behind the system prompt and keeps everything else as it
  is; what it keeps are exactly the last turns, at most as many as asked, each with all its tool
  calls and results; what follows a dropped run starts with a user message no open exchange waits
  for; and trimming again drops nothing.
\<close>

lemma trim_keeps_last_turns:
  assumes "0 < n" and "trim_history_to_max_turns msgs n = (msgs', dropped)"
  shows "\<exists>old new. msgs = system_prefix msgs @ old @ new \<and> msgs' = system_prefix msgs @ new \<and>
     dropped = length old \<and> turns_of msgs' = drop (length (turns_of msgs) - nat n) (turns_of msgs) \<and>
     (old = [] \<or> starts_turn_after old new) \<and> trim_history_to_max_turns msgs' n = (msgs', 0)"
proof (cases "length (turns_of msgs) \<le> nat n")
  case True
  with assms have eq: "msgs' = msgs" "dropped = 0" by (auto simp: trim_history_to_max_turns_def Let_def)
  have "msgs = system_prefix msgs @ [] @ concat (turns_of msgs)" by (simp add: turns_concat)
  with eq True assms show ?thesis
    by (intro exI [of _ "[]"] exI [of _ "concat (turns_of msgs)"]) simp
next
  case False
  let ?ts = "turns_of msgs" and ?p = "system_prefix msgs"
  let ?k = "length ?ts - nat n"
  let ?old = "take ?k ?ts" and ?new = "drop ?k ?ts"
  have ne: "?old \<noteq> []" "?new \<noteq> []" using False assms(1) by auto
  have split: "msgs = ?p @ concat ?old @ concat ?new"
    by (metis append_take_drop_id concat_append turns_concat)
  from assms False have m': "msgs' = ?p @ concat ?new" "dropped = length msgs - length msgs'"
    by (auto simp: trim_history_to_max_turns_def Let_def)
  have d: "dropped = length (concat ?old)"
    using m'(2) arg_cong [OF split, of length] m'(1) by (simp del: length_concat)
  have b: "turn_break (last ?old) (hd ?new)"
    using turn_chain_break [of ?old ?new] ne turns_chain by simp
  have wo: "last ?old \<noteq> []" using turn_chain_whole [OF turns_chain, of "last ?old" msgs] last_in_set [OF ne(1)]
    by (auto simp: whole_turn_def dest: in_set_takeD)
  have wn: "hd ?new \<noteq> []" using turn_chain_whole [OF turns_chain, of "hd ?new" msgs] hd_in_set [OF ne(2)]
    by (auto simp: whole_turn_def dest: in_set_dropD)
  have lo: "last (concat ?old) = last (last ?old)"
    using wo ne(1) by (cases ?old rule: rev_cases) auto
  have hn: "concat ?new \<noteq> []" "hd (concat ?new) = hd (hd ?new)"
    using wn ne(2) by (cases ?new; simp)+
  have s: "starts_turn_after (concat ?old) (concat ?new)"
    using hn(1) b [unfolded turn_break_def] unfolding starts_turn_after_def hn(2) lo by (rule conjI)
  have "list_all is_system ?p" by (auto simp: list_all_iff system_prefix_def dest: set_takeWhileD)
  moreover have "\<not> is_system (hd (hd ?new))" using b by (simp add: turn_break_def user_not_system)
  ultimately have t: "turns_of msgs' = ?new"
    using turns_of_window [of ?new ?p] turn_chain_drop [OF turns_chain, of ?k msgs] m'(1) by simp
  then have "length (turns_of msgs') \<le> nat n" by (simp add: t)
  then have "trim_history_to_max_turns msgs' n = (msgs', 0)"
    by (simp add: trim_history_to_max_turns_def Let_def)
  with split m' d s t show ?thesis by blast
qed

definition say :: "string \<Rightarrow> string \<Rightarrow> pydict" where
  "say who what = [(''role'', PStr who), (''content'', PStr what)]"

definition sample_chat :: "pydict list" where
  "sample_chat = [say ''system'' ''prompt'', say ''user'' ''hello'', say ''assistant'' ''hi'',
     say ''user'' ''weather?'', say ''assistant'' '''' @ [(''tool_calls'', PList [PStr ''get_weather''])],
     say ''tool'' ''sunny'', say ''assistant'' ''It is sunny'']"

lemma trim_keeps_last_turns_witness:
  "turns_of (fst (trim_history_to_max_turns sample_chat 1)) = [drop 3 sample_chat]"
proof -
  obtain m' d where t: "trim_history_to_max_turns sample_chat 1 = (m', d)" by fastforce
  have "length (turns_of sample_chat) = 2" "drop 1 (turns_of sample_chat) = [drop 3 sample_chat]" by code_simp+
  with trim_keeps_last_turns [OF _ t] have "turns_of m' = [drop 3 sample_chat]" by auto
  with t show ?thesis by simp
qed

subsection \<open>A store whose entries expire\<close>

text \<open>
  The interface of the store below the cache, and what a reader who looks past the dead entries sees
  of it.
\<close>

definition fresh_view :: "('s \<Rightarrow> 'k \<Rightarrow> 'e option) \<Rightarrow> ('e \<Rightarrow> bool) \<Rightarrow> 's \<Rightarrow> 'k \<Rightarrow> 'e option" where
  "fresh_view seek alive s k = (case seek s k of None \<Rightarrow> None | Some e \<Rightarrow> if alive e then Some e else None)"

locale keyed_store =
  fixes seek :: "'s \<Rightarrow> 'k \<Rightarrow> 'e option"
    and put :: "'k \<Rightarrow> 'e \<Rightarrow> 's \<Rightarrow> 's"
    and del :: "'k \<Rightarrow> 's \<Rightarrow> 's"
  assumes find_put: "seek (put k e s) k' = (if k = k' then Some e else seek s k')"
    and find_del: "seek (del k s) k' = (if k = k' then None else seek s k')"
begin

lemma view_put: "alive e \<Longrightarrow> fresh_view seek alive (put k e s) = (fresh_view seek alive s)(k \<mapsto> e)"
  by (rule ext) (simp add: fresh_view_def find_put)

lemma view_del: "fresh_view seek alive (del k s) = (fresh_view seek alive s)(k := None)"
  by (rule ext) (simp add: fresh_view_def find_del)

lemma view_del_stale:
  assumes "seek s k = Some e" and "\<not> alive e"
  shows "fresh_view seek alive (del k s) = fresh_view seek alive s"
  using assms by (intro ext) (auto simp: fresh_view_def find_del)

lemma find_del_all: "seek (fold del ks s) k = (if k \<in> set ks then None else seek s k)"
  by (induction ks arbitrary: s) (auto simp: find_del)

lemma view_del_stale_all:
  assumes "\<And>k e. k \<in> set ks \<Longrightarrow> seek s k = Some e \<Longrightarrow> \<not> alive e"
  shows "fresh_view seek alive (fold del ks s) = fresh_view seek alive s"
  using assms by (intro ext) (auto simp: fresh_view_def find_del_all split: option.split)

end

interpretation rows: keyed_store "\<lambda>c. map_of (cc_rows c)" put_entry drop_entry
  by unfold_locales (auto simp: put_entry_def drop_entry_def update_conv delete_conv)

lemma expired_frame [simp]:
  "cc_now (put_entry k e c) = cc_now c" "cc_ttl (put_entry k e c) = cc_ttl c"
  "cc_now (drop_entry k c) = cc_now c" "cc_ttl (drop_entry k c) = cc_ttl c"
  by (simp_all add: put_entry_def drop_entry_def)

lemma drop_all_frame [simp]:
  "cc_now (fold drop_entry ks c) = cc_now c" "cc_ttl (fold drop_entry ks c) = cc_ttl c"
  by (induction ks arbitrary: c) simp_all

subsection \<open>The specification: a map of live conversations\<close>

text \<open>
  The specification keeps the live conversations only; when the clock moves on, the expired ones are
  gone at once. Its operations know nothing of expiry.
\<close>

record live_map =
  lv_rows :: "string \<Rightarrow> conversation option"
  lv_ttl :: int
  lv_now :: int

definition live :: "conv_cache \<Rightarrow> live_map" where
  "live c = \<lparr>lv_rows = fresh_view (\<lambda>c. map_of (cc_rows c)) (\<lambda>e. \<not> expired c e) c, lv_ttl = cc_ttl c, lv_now = cc_now c\<rparr>"

datatype cache_op =
    Tick nat
  | SetConversation string "pydict list" "pydict list" "string option" "pydict list" "pydict option"
  | GetMessages string
  | GetCommands string
  | GetTimezone string
  | GetContext string
  | SetRouter string "pydict option"
  | GetRouter string
  | SetWake string "pydict option"
  | GetWake string
  | IncRounds string
  | GetRounds string
  | SetItems string "pydict list option"
  | GetItems string
  | RecordCall string pyval string
  | GetCalls string
  | AddMessage string pydict
  | AddMessages string "pydict list"
  | UpdateMessages string "pydict list"
  | GetTools string
  | Remove string
  | ClearExpired
  | SetForce string bool
  | GetForce string
  | Has string

datatype reply =
    Done
  | Messages "pydict list option"
  | Context "pydict option"
  | Zone "string option"
  | Items "pydict list"
  | Calls "client_call list"
  | Rounds int
  | Flag bool

fun run_op :: "cache_op \<Rightarrow> conv_cache \<Rightarrow> conv_cache \<times> reply" where
  "run_op (Tick n) c = (c\<lparr>cc_now := cc_now c + int n\<rparr>, Done)"
| "run_op (SetConversation k ms cs tz ts ctx) c = (set_conversation k ms cs tz ts ctx c, Done)"
| "run_op (GetMessages k) c = apsnd Messages (get_messages k c)"
| "run_op (GetCommands k) c = apsnd Messages (get_available_commands k c)"
| "run_op (GetTimezone k) c = apsnd Zone (get_timezone k c)"
| "run_op (GetContext k) c = apsnd Context (get_node_context k c)"
| "run_op (SetRouter k d) c = (set_router_decision k d c, Done)"
| "run_op (GetRouter k) c = apsnd Context (get_router_decision k c)"
| "run_op (SetWake k v) c = (set_wake_verification k v c, Done)"
| "run_op (GetWake k) c = apsnd Context (get_wake_verification k c)"
| "run_op (IncRounds k) c = apsnd Rounds (increment_answered_rounds k c)"
| "run_op (GetRounds k) c = apsnd Rounds (get_answered_rounds k c)"
| "run_op (SetItems k xs) c = (set_referenced_items k xs c, Done)"
| "run_op (GetItems k) c = apsnd Items (get_referenced_items k c)"
| "run_op (RecordCall k t h) c = (record_issued_client_call k t h c, Done)"
| "run_op (GetCalls k) c = apsnd Calls (get_issued_client_calls k c)"
| "run_op (AddMessage k m) c = (add_message k m c, Done)"
| "run_op (AddMessages k ms) c = (add_messages k ms c, Done)"
| "run_op (UpdateMessages k ms) c = (update_messages k ms c, Done)"
| "run_op (GetTools k) c = apsnd Messages (get_tools k c)"
| "run_op (Remove k) c = (remove_conversation k c, Done)"
| "run_op ClearExpired c = (fst (clear_expired c), Done)"
| "run_op (SetForce k b) c = (set_force_tool_calls k b c, Done)"
| "run_op (GetForce k) c = apsnd Flag (get_force_tool_calls k c)"
| "run_op (Has k) c = apsnd Flag (has_conversation k c)"

text \<open>What an operation does to a live conversation, and what it answers where there is none.\<close>

fun entry_step :: "int \<Rightarrow> cache_op \<Rightarrow> (string \<times> (conversation \<Rightarrow> conversation \<times> reply) \<times> reply) option" where
  "entry_step now (GetMessages k) = Some (k, (\<lambda>e. (e, Messages (Some (cv_messages e)))), Messages None)"
| "entry_step now (GetCommands k) = Some (k, (\<lambda>e. (e, Messages (Some (cv_commands e)))), Messages None)"
| "entry_step now (GetTimezone k) = Some (k, (\<lambda>e. (e, Zone (cv_zone e))), Zone None)"
| "entry_step now (GetContext k) = Some (k, (\<lambda>e. (e, Context (cv_context e))), Context None)"
| "entry_step now (SetRouter k d) = Some (k, (\<lambda>e. (e\<lparr>cv_router := d\<rparr>, Done)), Done)"
| "entry_step now (GetRouter k) = Some (k, (\<lambda>e. (e, Context (cv_router e))), Context None)"
| "entry_step now (SetWake k v) = Some (k, (\<lambda>e. (e\<lparr>cv_wake := v\<rparr>, Done)), Done)"
| "entry_step now (GetWake k) = Some (k, (\<lambda>e. (e, Context (cv_wake e))), Context None)"
| "entry_step now (IncRounds k) =
     Some (k, (\<lambda>e. (e\<lparr>cv_rounds := cv_rounds e + 1\<rparr>, Rounds (cv_rounds e + 1))), Rounds 0)"
| "entry_step now (GetRounds k) = Some (k, (\<lambda>e. (e, Rounds (cv_rounds e))), Rounds 0)"
| "entry_step now (SetItems k xs) = Some (k, (\<lambda>e. (e\<lparr>cv_items := xs\<rparr>, Done)), Done)"
| "entry_step now (GetItems k) =
     Some (k, (\<lambda>e. (e, Items (case cv_items e of None \<Rightarrow> [] | Some xs \<Rightarrow> xs))), Items [])"
| "entry_step now (RecordCall k t h) =
     Some (k, (\<lambda>e. (e\<lparr>cv_calls := cv_calls e @ [\<lparr>ic_name = t, ic_hash = h, ic_time = now\<rparr>]\<rparr>, Done)), Done)"
| "entry_step now (GetCalls k) = Some (k, (\<lambda>e. (e, Calls (cv_calls e))), Calls [])"
| "entry_step now (AddMessage k m) = Some (k, (\<lambda>e. (e\<lparr>cv_messages := cv_messages e @ [m]\<rparr>, Done)), Done)"
| "entry_step now (AddMessages k ms) = Some (k, (\<lambda>e. (e\<lparr>cv_messages := cv_messages e @ ms\<rparr>, Done)), Done)"
| "entry_step now (UpdateMessages k ms) = Some (k, (\<lambda>e. (e\<lparr>cv_messages := ms\<rparr>, Done)), Done)"
| "entry_step now (GetTools k) = Some (k, (\<lambda>e. (e, Messages (Some (cv_tools e)))), Messages None)"
| "entry_step now (SetForce k b) = Some (k, (\<lambda>e. (e\<lparr>cv_force := b\<rparr>, Done)), Done)"
| "entry_step now (GetForce k) = Some (k, (\<lambda>e. (e, Flag (cv_force e))), Flag False)"
| "entry_step now (Has k) = Some (k, (\<lambda>e. (e, Flag True)), Flag False)"
| "entry_step now op = None"

definition age_out :: "live_map \<Rightarrow> live_map" where
  "age_out m = m\<lparr>lv_rows := \<lambda>k. case lv_rows m k of
      None \<Rightarrow> None | Some e \<Rightarrow> if lv_now m - cv_stamp e > lv_ttl m then None else Some e\<rparr>"

definition spec_op :: "cache_op \<Rightarrow> live_map \<Rightarrow> live_map \<times> reply" where
  "spec_op op m = (case op of
      Tick n \<Rightarrow> (age_out (m\<lparr>lv_now := lv_now m + int n\<rparr>), Done)
    | SetConversation k ms cs tz ts ctx \<Rightarrow>
        (m\<lparr>lv_rows := (lv_rows m)(k \<mapsto> new_conversation ms cs tz ts ctx (lv_now m))\<rparr>, Done)
    | Remove k \<Rightarrow> (m\<lparr>lv_rows := (lv_rows m)(k := None)\<rparr>, Done)
    | _ \<Rightarrow> (case entry_step (lv_now m) op of
          None \<Rightarrow> (m, Done)
        | Some (k, step, d) \<Rightarrow> (case lv_rows m k of
              None \<Rightarrow> (m, d)
            | Some e \<Rightarrow> (m\<lparr>lv_rows := (lv_rows m)(k \<mapsto> fst (step e))\<rparr>, snd (step e)))))"

fun run_ops :: "cache_op list \<Rightarrow> conv_cache \<Rightarrow> conv_cache \<times> reply list" where
  "run_ops [] c = (c, [])"
| "run_ops (op # ops) c = (case run_op op c of (c', r) \<Rightarrow> apsnd (Cons r) (run_ops ops c'))"

fun spec_ops :: "cache_op list \<Rightarrow> live_map \<Rightarrow> live_map \<times> reply list" where
  "spec_ops [] m = (m, [])"
| "spec_ops (op # ops) m = (case spec_op op m of (m', r) \<Rightarrow> apsnd (Cons r) (spec_ops ops m'))"

subsection \<open>The simulation\<close>

definition keeps_stamp :: "(conversation \<Rightarrow> conversation \<times> 'a) \<Rightarrow> bool" where
  "keeps_stamp step \<longleftrightarrow> (\<forall>e. cv_stamp (fst (step e)) = cv_stamp e)"

lemma live_row: "lv_rows (live c) k = (case map_of (cc_rows c) k of
    None \<Rightarrow> None | Some e \<Rightarrow> if expired c e then None else Some e)"
  by (auto simp: live_def fresh_view_def split: option.split)

lemma expired_cong [simp]:
  "expired (put_entry k e c) = expired c" "expired (drop_entry k c) = expired c" "expired (fold drop_entry ks c) = expired c"
  by (rule ext, simp add: expired_def)+

lemma live_put: "\<not> expired c e \<Longrightarrow> live (put_entry k e c) = (live c)\<lparr>lv_rows := (lv_rows (live c))(k \<mapsto> e)\<rparr>"
  by (simp add: live_def rows.view_put)

lemma live_drop: "live (drop_entry k c) = (live c)\<lparr>lv_rows := (lv_rows (live c))(k := None)\<rparr>"
  by (simp add: live_def rows.view_del)

lemma live_drop_stale: "map_of (cc_rows c) k = Some e \<Longrightarrow> expired c e \<Longrightarrow> live (drop_entry k c) = live c"
  by (simp add: live_def rows.view_del_stale)

lemma with_entry_live:
  assumes "keeps_stamp step"
  shows "live (fst (with_entry k step d c)) = (case lv_rows (live c) k of
      None \<Rightarrow> live c | Some e \<Rightarrow> (live c)\<lparr>lv_rows := (lv_rows (live c))(k \<mapsto> fst (step e))\<rparr>)"
proof (cases "map_of (cc_rows c) k")
  case None
  then show ?thesis by (simp add: with_entry_def live_row)
next
  case (Some e)
  obtain e' x where s: "step e = (e', x)" by fastforce
  with assms have "cv_stamp e' = cv_stamp e" unfolding keeps_stamp_def by (metis fst_conv)
  then have "expired c e' = expired c e" by (simp add: expired_def)
  with Some s show ?thesis by (simp add: with_entry_def live_row live_put live_drop_stale)
qed

lemma with_entry_reply: "snd (with_entry k step d c) = (case lv_rows (live c) k of None \<Rightarrow> d | Some e \<Rightarrow> snd (step e))"
  by (auto simp: with_entry_def live_row split: option.split prod.split)

lemma entry_step_keeps: "entry_step now op = Some (k, step, d) \<Longrightarrow> keeps_stamp step"
  by (cases op) (auto simp: keeps_stamp_def)

text \<open>Every operation on an entry is its specified step behind the guard.\<close>

lemma run_op_entry:
  "entry_step (cc_now c) op = Some (k, step, d) \<Longrightarrow> run_op op c = with_entry k step d c"
  by (cases op) (auto simp: with_entry_def entry_get_def entry_set_def get_messages_def get_available_commands_def
      get_timezone_def get_node_context_def set_router_decision_def get_router_decision_def set_wake_verification_def
      get_wake_verification_def increment_answered_rounds_def get_answered_rounds_def set_referenced_items_def
      get_referenced_items_def record_issued_client_call_def get_issued_client_calls_def add_message_def
      add_messages_def update_messages_def get_tools_def set_force_tool_calls_def get_force_tool_calls_def
      has_conversation_def Let_def split: option.split)

lemma spec_op_entry:
  "entry_step (lv_now m) op = Some (k, step, d) \<Longrightarrow> spec_op op m = (case lv_rows m k of
      None \<Rightarrow> (m, d) | Some e \<Rightarrow> (m\<lparr>lv_rows := (lv_rows m)(k \<mapsto> fst (step e))\<rparr>, snd (step e)))"
  by (cases op) (auto simp: spec_op_def split: option.split)

lemma live_now [simp]: "lv_now (live c) = cc_now c"
  by (simp add: live_def)

lemma live_ttl [simp]: "lv_ttl (live c) = cc_ttl c"
  by (simp add: live_def)

lemma live_tick: "live (c\<lparr>cc_now := cc_now c + int n\<rparr>) = age_out ((live c)\<lparr>lv_now := cc_now c + int n\<rparr>)"
  by (auto simp: live_def age_out_def fresh_view_def expired_def fun_eq_iff split: option.split)

subsection \<open>Keys stay distinct\<close>

definition proper :: "conv_cache \<Rightarrow> bool" where
  "proper c \<longleftrightarrow> distinct (map fst (cc_rows c)) \<and> 0 \<le> cc_ttl c"

lemma proper_put: "proper c \<Longrightarrow> proper (put_entry k e c)"
  by (simp add: proper_def put_entry_def distinct_update)

lemma proper_drop: "proper c \<Longrightarrow> proper (drop_entry k c)"
  by (simp add: proper_def drop_entry_def distinct_delete)

lemma proper_drop_all: "proper c \<Longrightarrow> proper (fold drop_entry ks c)"
  by (induction ks arbitrary: c) (simp_all add: proper_drop)

lemma proper_with_entry: "proper c \<Longrightarrow> proper (fst (with_entry k step d c))"
  by (auto simp: with_entry_def proper_put proper_drop split: option.split prod.split)

lemma entry_step_None:
  "entry_step now op = None \<Longrightarrow> (\<exists>n. op = Tick n) \<or> (\<exists>k ms cs tz ts x. op = SetConversation k ms cs tz ts x) \<or>
     (\<exists>k. op = Remove k) \<or> op = ClearExpired"
  by (cases op) auto

lemma proper_run_op: "proper c \<Longrightarrow> proper (fst (run_op op c))"
proof (cases "entry_step (cc_now c) op")
  case None
  assume "proper c"
  with entry_step_None [OF None] show ?thesis
    by (elim disjE exE) (simp_all add: proper_put proper_drop proper_drop_all set_conversation_def remove_conversation_def
        clear_expired_def Let_def, simp add: proper_def)
next
  case (Some t)
  assume "proper c"
  with Some show ?thesis by (cases t) (simp add: run_op_entry proper_with_entry)
qed

lemma clear_expired_rows:
  assumes "proper c"
  shows "cc_rows (fst (clear_expired c)) = filter (\<lambda>(k, e). \<not> expired c e) (cc_rows c)"
proof -
  have all: "cc_rows (fold drop_entry ks c) = filter (\<lambda>(k, e). k \<notin> set ks) (cc_rows c)" for ks c
    by (induction ks arbitrary: c) (auto simp: drop_entry_def AList.delete_eq intro: filter_cong)
  have stale: "k \<in> set (map fst (filter (\<lambda>(k, e). expired c e) (cc_rows c))) \<longleftrightarrow> expired c e"
    if "(k, e) \<in> set (cc_rows c)" for k e
    using assms that by (force simp: proper_def dest: eq_key_imp_eq_value)
  show ?thesis unfolding clear_expired_def Let_def fst_conv all
  proof (rule filter_cong [OF refl])
    fix x assume "x \<in> set (cc_rows c)"
    then show "(case x of (k, e) \<Rightarrow> k \<notin> set (map fst (filter (\<lambda>(k, e). expired c e) (cc_rows c)))) =
        (case x of (k, e) \<Rightarrow> \<not> expired c e)"
      using stale [of "fst x" "snd x"] by (simp only: prod.collapse split_beta)
  qed
qed

lemma map_of_filter_keep:
  "distinct (map fst xs) \<Longrightarrow> map_of (filter (\<lambda>(k, e). p e) xs) k =
     (case map_of xs k of None \<Rightarrow> None | Some e \<Rightarrow> if p e then Some e else None)"
proof (induction xs)
  case (Cons x xs)
  obtain a e where x: "x = (a, e)" by fastforce
  with Cons have "a \<notin> fst ` set xs" by simp
  then have "map_of xs a = None" by (simp add: map_of_eq_None_iff)
  with Cons x show ?case by (auto split: option.split)
qed simp

lemma clear_expired_live:
  assumes "proper c"
  shows "live (fst (clear_expired c)) = live c"
proof -
  obtain c' where c': "fst (clear_expired c) = c'" by blast
  have frame: "cc_now c' = cc_now c" "cc_ttl c' = cc_ttl c"
    unfolding c' [symmetric] by (simp_all add: clear_expired_def Let_def)
  have rows: "cc_rows c' = filter (\<lambda>(k, e). \<not> expired c e) (cc_rows c)"
    using clear_expired_rows [OF assms] c' by simp
  have same: "expired c' = expired c" using frame by (intro ext) (simp add: expired_def)
  have "distinct (map fst (cc_rows c))" using assms by (simp add: proper_def)
  then have "lv_rows (live c') k = lv_rows (live c) k" for k
    using same by (simp add: live_row rows map_of_filter_keep [where p = "\<lambda>e. \<not> expired c e"] split: option.split)
  then have "lv_rows (live c') = lv_rows (live c)" by (rule ext)
  with frame show ?thesis unfolding c' by (simp add: live_def)
qed

text \<open>One operation on the cache is one operation on the map of live conversations.\<close>

lemma run_op_refines:
  assumes "proper c"
  shows "live (fst (run_op op c)) = fst (spec_op op (live c)) \<and> snd (run_op op c) = snd (spec_op op (live c))"
proof (cases "entry_step (cc_now c) op")
  case None
  from entry_step_None [OF None] show ?thesis
  proof (elim disjE exE)
    fix n assume "op = Tick n"
    then show ?thesis by (simp add: spec_op_def live_tick)
  next
    fix k ms cs tz ts x assume "op = SetConversation k ms cs tz ts x"
    moreover have "\<not> expired c (new_conversation ms cs tz ts x (cc_now c))"
      using assms by (simp add: expired_def new_conversation_def proper_def)
    ultimately show ?thesis by (simp add: spec_op_def set_conversation_def live_put)
  next
    fix k assume "op = Remove k"
    moreover have "live (remove_conversation k c) = (live c)\<lparr>lv_rows := (lv_rows (live c))(k := None)\<rparr>"
    proof (cases "map_of (cc_rows c) k")
      case None
      then have "(lv_rows (live c))(k := None) = lv_rows (live c)" by (auto simp: live_row)
      with None show ?thesis by (simp add: remove_conversation_def)
    qed (simp add: remove_conversation_def live_drop)
    ultimately show ?thesis by (simp add: spec_op_def)
  next
    assume "op = ClearExpired"
    then show ?thesis by (simp add: spec_op_def clear_expired_live [OF assms])
  qed
next
  case (Some t)
  obtain k step d where t: "t = (k, step, d)" by (cases t)
  with Some have "keeps_stamp step" by (simp add: entry_step_keeps)
  from with_entry_live [OF this] Some t show ?thesis
    by (simp add: run_op_entry spec_op_entry with_entry_reply split: option.split)
qed

definition empty_cache :: "int \<Rightarrow> int \<Rightarrow> conv_cache" where
  "empty_cache ttl now = \<lparr>cc_rows = [], cc_ttl = ttl, cc_now = now\<rparr>"

lemma run_ops_refine:
  "proper c \<Longrightarrow> live (fst (run_ops ops c)) = fst (spec_ops ops (live c)) \<and> snd (run_ops ops c) = snd (spec_ops ops (live c))"
proof (induction ops arbitrary: c)
  case (Cons op ops)
  obtain c' r where c': "run_op op c = (c', r)" by fastforce
  obtain m' r' where m': "spec_op op (live c) = (m', r')" by fastforce
  from run_op_refines [OF Cons.prems, of op] c' m' have eq: "live c' = m'" "r = r'" by simp_all
  have "proper c'" using proper_run_op [OF Cons.prems, of op] c' by simp
  from Cons.IH [OF this] eq c' m' show ?case by (cases "run_ops ops c'"; cases "spec_ops ops m'") simp
qed simp

text \<open>
  C23. Nobody who only reads and writes conversations can tell the cache, which drops an expired entry
  when somebody happens to meet it, from a map whose entries vanish at the instant they expire: after
  any sequence of operations and clock ticks from the empty cache every answer is the map's, and the
  live entries are the map's entries.
\<close>

theorem cache_refines_live_map:
  assumes "0 \<le> ttl"
  shows "snd (run_ops ops (empty_cache ttl now)) = snd (spec_ops ops (live (empty_cache ttl now))) \<and>
     live (fst (run_ops ops (empty_cache ttl now))) = fst (spec_ops ops (live (empty_cache ttl now)))"
proof -
  have "proper (empty_cache ttl now)" using assms by (simp add: proper_def empty_cache_def)
  from run_ops_refine [OF this] show ?thesis by blast
qed

definition sample_ops :: "cache_op list" where
  "sample_ops = [SetConversation ''c1'' [] [] None [] None, Tick 500, AddMessage ''c1'' (say ''user'' ''hi''),
     GetMessages ''c1'', Tick 200, GetMessages ''c1'', Has ''c1'']"

theorem cache_refines_live_map_witness:
  "snd (spec_ops sample_ops (live (empty_cache 600 0))) =
     [Done, Done, Done, Messages (Some [say ''user'' ''hi'']), Done, Messages None, Flag False]"
proof -
  have "snd (run_ops sample_ops (empty_cache 600 0)) =
     [Done, Done, Done, Messages (Some [say ''user'' ''hi'']), Done, Messages None, Flag False]" by code_simp
  with cache_refines_live_map [of 600 sample_ops 0] show ?thesis by simp
qed

end
