(* ===== verification/Speech_Shapes.thy ===== *)
theory Speech_Shapes
  imports Py_Words Py_Regex
begin

section \<open>Markers and shapes of speech\<close>

text \<open>
  The text classifiers of the voice loop. \<^verbatim>\<open>app/core/not_for_me.py\<close> and
  \<^verbatim>\<open>app/core/exchange_complete.py\<close>: the two markers a reply may carry.
  \<^verbatim>\<open>app/core/transcript_filter.py\<close>: the shape of a transcript (question, command, report, noise, speech
  to another person) and of a reply (does it claim an action). \<^verbatim>\<open>app/core/tts_text.py\<close>: what is
  removed before a reply is spoken. Emoji and the ellipsis lie outside the 256 characters of the model,
  so the patterns that name them never match and are left out.
\<close>

subsection \<open>Pattern vocabulary\<close>

definition any_char :: rx where
  "any_char = Cls (\<lambda>_. True)"

definition non_newline :: rx where
  "non_newline = Cls (\<lambda>c. c \<noteq> CHR 0x0A)"

definition spaces1 :: rx where
  "spaces1 = some1 (Cls is_space)"

definition one_of :: "string \<Rightarrow> rx" where
  "one_of cs = Cls (\<lambda>c. c \<in> set cs)"

definition words_ci :: "string list \<Rightarrow> rx" where
  "words_ci ws = rx_alt (map lit_ci ws)"

definition text_end :: rx where
  "text_end = Ahead False any_char"

definition line_start :: rx where
  "line_start = Alt Bol (Behind True (\<lambda>c. c = CHR 0x0A))"

definition line_end :: rx where
  "line_end = Alt text_end (Ahead True (ch CHR 0x0A))"

definition some_text :: "string option \<Rightarrow> string" where
  "some_text t = (case t of None \<Rightarrow> [] | Some s \<Rightarrow> s)"

subsection \<open>The markers of a reply\<close>

definition sep_class :: rx where
  "sep_class = Cls (\<lambda>c. is_space c \<or> c = CHR ''_'' \<or> c = CHR ''-'')"

definition sentinel_rx :: rx where
  "sentinel_rx = rx_cat [ch CHR ''<'', spaces, lit_ci ''not'', some1 sep_class, lit_ci ''for'', some1 sep_class, lit_ci ''me'',
     spaces, opt (ch CHR ''/''), spaces, ch CHR ''>'']"

definition contains_sentinel :: "string option \<Rightarrow> bool" where
  "contains_sentinel t \<longleftrightarrow> rx_search sentinel_rx (some_text t) \<noteq> None"

definition strip_sentinel :: "string option \<Rightarrow> string" where
  "strip_sentinel t = strip (rx_sub sentinel_rx (\<lambda>_. []) (some_text t))"

definition marker_rx :: rx where
  "marker_rx = rx_cat [ch CHR ''<'', spaces, lit_ci ''exchange'', many sep_class, lit_ci ''complete'', spaces,
     opt (ch CHR ''/''), spaces, ch CHR ''>'']"

definition contains_marker :: "string option \<Rightarrow> bool" where
  "contains_marker t \<longleftrightarrow> rx_search marker_rx (some_text t) \<noteq> None"

definition strip_marker :: "string option \<Rightarrow> string" where
  "strip_marker t = strip (rx_sub marker_rx (\<lambda>_. []) (some_text t))"

definition apply_to_result :: "pydict \<Rightarrow> exc + pydict" where
  "apply_to_result result =
     (if dget result ''stop_reason'' = PStr ''not_for_me'' then Inr result
      else case dget result ''assistant_message'' of
        PStr m \<Rightarrow>
          if contains_marker (Some m)
          then Inr (dset (dset result ''assistant_message'' (PStr (strip_marker (Some m)))) ''end_of_exchange'' (PBool True))
          else Inr result
      | v \<Rightarrow> if truthy v then Inl (TypeError ''expected string or bytes-like object'') else Inr result)"

definition think_rx :: rx where
  "think_rx = rx_cat [lit_ci ''<think>'', lazy any_char, Alt (lit_ci ''</think>'') text_end]"

definition outside_think :: "string \<Rightarrow> string" where
  "outside_think s = rx_sub think_rx (\<lambda>_. []) s"

definition think_block_rx :: rx where
  "think_block_rx = rx_cat [lit ''<think>'', Cap 1 (lazy any_char), lit ''</think>'']"

definition think_parts :: "string \<Rightarrow> string list" where
  "think_parts s = filter (\<lambda>t. t \<noteq> []) (map (\<lambda>h. strip (some_text (cap_of 1 h))) (rx_finditer think_block_rx s))"

text \<open>\<^verbatim>\<open>ThinkBlockStripper\<close> of \<^verbatim>\<open>app/core/utils/think_block_stripper.py\<close>, for one pair of delimiters.\<close>

record think_stripper =
  ts_start :: string
  ts_end :: string

definition block_rx :: "think_stripper \<Rightarrow> rx" where
  "block_rx t = rx_cat [lit (ts_start t), lazy any_char, lit (ts_end t), spaces]"

definition unclosed_rx :: "think_stripper \<Rightarrow> rx" where
  "unclosed_rx t = rx_cat [lit (ts_start t), many any_char]"

definition strip_complete_blocks :: "think_stripper \<Rightarrow> string \<Rightarrow> string" where
  "strip_complete_blocks t s = rx_sub (block_rx t) (\<lambda>_. []) s"

definition has_open_block :: "think_stripper \<Rightarrow> string \<Rightarrow> bool" where
  "has_open_block t s \<longleftrightarrow> has_sub s (ts_start t) \<and> \<not> has_sub s (ts_end t)"

definition strip_all :: "think_stripper \<Rightarrow> string \<Rightarrow> string" where
  "strip_all t s = rx_sub (unclosed_rx t) (\<lambda>_. []) (strip_complete_blocks t s)"

definition default_think_delimiters :: think_stripper where
  "default_think_delimiters = \<lparr>ts_start = ''<think>'', ts_end = ''</think>''\<rparr>"

subsection \<open>Commands, questions, reports\<close>

definition speaker_dash_rx :: rx where
  "speaker_dash_rx = rx_cat [Alt Bol (Cls is_space), ch CHR ''-'', spaces1, Cls (\<lambda>c. \<not> is_space c)]"

definition has_multi_speaker_markers :: "string \<Rightarrow> bool" where
  "has_multi_speaker_markers s \<longleftrightarrow> length (rx_finditer speaker_dash_rx s) \<ge> 2"

definition wake_lead :: rx where
  "wake_lead = rx_cat [Bol, spaces, opt (rx_cat [lit_ci ''hey'', spaces1]),
     opt (rx_cat [some1 (Cls is_word), one_of '',.!'', spaces1])]"

definition polite_lead :: rx where
  "polite_lead = rx_cat [wake_lead, opt (rx_cat [lit_ci ''please'', opt (ch CHR '',''), spaces1])]"

definition device_command_verbs :: "string list" where
  "device_command_verbs = [''turn'', ''switch'', ''flip'', ''toggle'', ''dim'', ''brighten'', ''lock'', ''unlock'', ''set'',
     ''start'', ''stop'', ''pause'', ''resume'', ''open'', ''close'', ''shut'']"

definition verb_and_object :: "string list \<Rightarrow> rx" where
  "verb_and_object vs = rx_cat [polite_lead, words_ci vs, Bnd, spaces1, some1 (Cls (\<lambda>c. \<not> is_space c))]"

definition is_device_command_shaped :: "string \<Rightarrow> bool" where
  "is_device_command_shaped text \<longleftrightarrow>
     (let s = strip text in
      s \<noteq> [] \<and> \<not> has_sub s ''?'' \<and> \<not> has_multi_speaker_markers s \<and>
      rx_match (verb_and_object device_command_verbs) s \<noteq> None)"

definition action_command_verbs :: "string list" where
  "action_command_verbs = device_command_verbs @ [''play'', ''log'', ''add'', ''remind'', ''cancel'', ''mark'', ''record'',
     ''create'', ''delete'', ''remove'', ''schedule'', ''send'', ''text'', ''call'', ''snooze'', ''skip'', ''mute'',
     ''unmute'', ''check'', ''save'', ''note'', ''clear'']"

definition negated :: "string \<Rightarrow> string" where
  "negated w = w @ ''n'' @ [CHR 0x27] @ ''t''"

definition question_lead_words :: "string list" where
  "question_lead_words = [''what'', ''how'', ''why'', ''when'', ''where'', ''who'', ''whose'', ''which'', ''should'', ''could'',
     ''can'', ''would'', ''will'', ''shall'', ''may'', ''might'', ''do'', ''does'', ''did'', ''is'', ''are'', ''am'', ''was'',
     ''were'', ''have'', ''has'', negated ''is'', negated ''are'', negated ''do'', negated ''does'', negated ''did'',
     negated ''wo'', negated ''would'', negated ''could'', negated ''should'']"

definition question_lead_rx :: rx where
  "question_lead_rx = rx_cat [polite_lead, words_ci question_lead_words, Bnd]"

definition is_question_shaped :: "string \<Rightarrow> bool" where
  "is_question_shaped text \<longleftrightarrow>
     (let s = strip text in s \<noteq> [] \<and> (has_sub s ''?'' \<or> rx_match question_lead_rx s \<noteq> None))"

definition is_action_command_shaped :: "string \<Rightarrow> bool" where
  "is_action_command_shaped text \<longleftrightarrow>
     (let s = strip text in
      s \<noteq> [] \<and> \<not> is_question_shaped s \<and> \<not> has_multi_speaker_markers s \<and>
      rx_match (verb_and_object action_command_verbs) s \<noteq> None)"

definition name_word :: rx where
  "name_word = some1 (Cls (\<lambda>c. is_word c \<or> c = CHR 0x27))"

definition the_name :: rx where
  "the_name = rx_cat [opt (rx_cat [lit_ci ''the'', spaces1]), name_word, spaces1]"

definition report_rx :: rx where
  "report_rx = rx_cat [wake_lead, the_name,
     opt (rx_cat [words_ci [''just'', ''already'', ''finally''], spaces1]),
     words_ci [''took'', ''takes'', ''taken'', ''gave'', ''given'', ''administered'', ''got''], spaces1,
     opt the_name,
     words_ci [''his'', ''her'', ''their'', ''my'', ''our'', ''its'', ''the'', ''a'', ''an'', ''some'', ''him'', ''them''], Bnd]"

definition is_report_shaped :: "string \<Rightarrow> bool" where
  "is_report_shaped text \<longleftrightarrow>
     (let s = strip text in
      s \<noteq> [] \<and> \<not> is_question_shaped s \<and> \<not> has_multi_speaker_markers s \<and> rx_match report_rx s \<noteq> None)"

subsection \<open>Replies that claim an action\<close>

definition claim_base_verbs :: "string list" where
  "claim_base_verbs = [''check'', ''look'', ''mark'', ''log'', ''record'', ''add'', ''set'', ''remind'', ''schedule'', ''cancel'',
     ''delete'', ''remove'', ''turn'', ''play'', ''pause'', ''start'', ''send'', ''update'', ''save'', ''note'', ''create'',
     ''put'', ''track'', ''book'', ''order'', ''text'', ''message'']"

definition claim_past_verbs :: "string list" where
  "claim_past_verbs = [''checked'', ''looked'', ''marked'', ''logged'', ''recorded'', ''added'', ''set'', ''reminded'',
     ''scheduled'', ''cancelled'', ''canceled'', ''deleted'', ''removed'', ''turned'', ''played'', ''paused'', ''started'',
     ''sent'', ''updated'', ''saved'', ''noted'', ''created'', ''put'', ''tracked'', ''booked'', ''ordered'', ''texted'',
     ''messaged'']"

definition claim_ing_verbs :: "string list" where
  "claim_ing_verbs = [''checking'', ''looking'', ''marking'', ''logging'', ''recording'', ''adding'', ''setting'', ''reminding'',
     ''scheduling'', ''cancelling'', ''canceling'', ''deleting'', ''removing'', ''turning'', ''playing'', ''pausing'',
     ''starting'', ''sending'', ''updating'', ''saving'', ''noting'', ''creating'', ''putting'', ''tracking'', ''booking'',
     ''ordering'', ''texting'', ''messaging'']"

definition quote_opt :: rx where
  "quote_opt = opt (ch CHR 0x27)"

definition adverbs :: "string list \<Rightarrow> rx" where
  "adverbs ws = opt (rx_cat [words_ci ws, spaces1])"

definition going_to :: rx where
  "going_to = rx_cat [spaces1, lit_ci ''going'', spaces1, lit_ci ''to'']"

definition claim_intent_rx :: rx where
  "claim_intent_rx = rx_cat [Bnd,
     rx_alt [rx_cat [lit_ci ''i'', quote_opt, lit_ci ''ll''], rx_cat [lit_ci ''i'', spaces1, lit_ci ''will''],
             rx_cat [lit_ci ''i'', quote_opt, lit_ci ''m'', going_to],
             rx_cat [lit_ci ''i'', spaces1, lit_ci ''am'', going_to],
             rx_cat [lit_ci ''let'', spaces1, lit_ci ''me''], rx_cat [lit_ci ''i'', spaces1, lit_ci ''can'']],
     spaces1,
     opt (rx_cat [lit_ci ''go'', spaces1, lit_ci ''ahead'', spaces1, lit_ci ''and'', spaces1]),
     adverbs [''just'', ''now''], words_ci claim_base_verbs, Bnd]"

definition claim_done_rx :: rx where
  "claim_done_rx = rx_cat [Bnd,
     rx_alt [rx_cat [lit_ci ''i'', quote_opt, lit_ci ''ve''], rx_cat [lit_ci ''i'', spaces1, lit_ci ''have''], lit_ci ''i''],
     spaces1, adverbs [''just'', ''already''], words_ci claim_past_verbs, Bnd]"

definition claim_passive_rx :: rx where
  "claim_passive_rx = rx_cat [Bnd,
     words_ci [''is'', ''are'', ''was'', ''were'', [CHR 0x27] @ ''s'', [CHR 0x27] @ ''re'', ''has'', ''have'', ''had''],
     spaces1, opt (rx_cat [lit_ci ''been'', spaces1]), adverbs [''now'', ''already''], words_ci claim_past_verbs, Bnd]"

definition claim_progress_rx :: rx where
  "claim_progress_rx = rx_cat [
     Alt (rx_cat [Bnd, lit_ci ''i'', quote_opt, lit_ci ''m'', spaces1, adverbs [''just'', ''now'']]) (rx_cat [Bol, spaces]),
     words_ci claim_ing_verbs, Bnd]"

definition response_claims_action :: "string \<Rightarrow> bool" where
  "response_claims_action text \<longleftrightarrow>
     (let s = strip text in
      s \<noteq> [] \<and> list_ex (\<lambda>r. rx_search r s \<noteq> None) [claim_intent_rx, claim_done_rx, claim_passive_rx, claim_progress_rx])"

definition the_word :: rx where
  "the_word = rx_cat [lit_ci ''the'', spaces1, some1 (Cls is_word)]"

definition music_control_rx :: rx where
  "music_control_rx = rx_cat [polite_lead,
     rx_alt [rx_cat [words_ci [''stop'', ''pause'', ''resume'', ''skip'', ''mute'', ''unmute''], Bnd],
             rx_cat [lit_ci ''next'', Bnd], rx_cat [lit_ci ''play'', Bnd],
             rx_cat [words_ci [''turn'', ''crank''], spaces1, rx_alt [lit_ci ''it'', lit_ci ''that'', lit_ci ''this'', the_word],
                     spaces1, words_ci [''up'', ''down''], Bnd],
             rx_cat [lit_ci ''turn'', spaces1, words_ci [''up'', ''down'', ''off''], spaces1, the_word],
             rx_cat [lit_ci ''volume'', spaces1, words_ci [''up'', ''down''], Bnd],
             rx_cat [words_ci [''louder'', ''quieter'', ''softer''], Bnd],
             rx_cat [rx_alt [rx_cat [lit_ci ''go'', spaces1, lit_ci ''back''], lit_ci ''previous''], Bnd]]]"

definition is_music_control_shaped :: "string \<Rightarrow> bool" where
  "is_music_control_shaped text \<longleftrightarrow>
     (let s = strip text in
      s \<noteq> [] \<and> \<not> has_sub s ''?'' \<and> \<not> has_multi_speaker_markers s \<and> rx_match music_control_rx s \<noteq> None)"

subsection \<open>Speech to someone else; noise\<close>

definition addressable_name_tokens :: "pyval list \<Rightarrow> (string \<times> string) list" where
  "addressable_name_tokens names = foldl (\<lambda>toks v. case v of
       PStr name \<Rightarrow> (case map hi_text (rx_finditer name_word name) of
           [] \<Rightarrow> toks
         | token # _ \<Rightarrow> let low = lower token in
             if length low < 2 \<or> low \<in> {''jarvis'', ''hey''} then toks
             else if map_of toks low \<noteq> None then toks else toks @ [(low, token)])
     | _ \<Rightarrow> toks) [] names"

fun split_hits :: "nat \<Rightarrow> hit list \<Rightarrow> string \<Rightarrow> string list" where
  "split_hits pos [] s = [drop pos s]"
| "split_hits pos (h # hs) s =
     take (length (hi_before h) - pos) (drop pos s) # split_hits (length (hi_before h) + length (hi_text h)) hs s"

definition sentences :: "string \<Rightarrow> string list" where
  "sentences s = split_hits 0 (rx_finditer (some1 (one_of ''.!?;'')) s) s"

definition human_imperative_verbs :: "string list" where
  "human_imperative_verbs = [''come'', ''go'', ''stop'', ''wait'', ''get'', ''put'', ''grab'', ''bring'', ''take'', ''look'',
     ''listen'', ''sit'', ''stand'', ''stay'', ''hold'', ''leave'', ''hurry'', ''let'', ''help'', ''eat'', ''finish'',
     ''clean'', ''pick'']"

definition addresses :: "string \<Rightarrow> string \<Rightarrow> bool" where
  "addresses name s \<longleftrightarrow>
     rx_match (rx_cat [Bol, lit_ci name, spaces, one_of '',!:'']) s \<noteq> None \<or>
     rx_match (rx_cat [Bol, lit_ci name, spaces1, words_ci human_imperative_verbs, Bnd]) s \<noteq> None \<or>
     rx_search (rx_cat [ch CHR '','', spaces, lit_ci name, spaces, Eol]) s \<noteq> None \<or>
     rx_match (rx_cat [Bol, words_ci human_imperative_verbs, Bnd, many non_newline, Cls is_space, lit_ci name, spaces, Eol]) s
       \<noteq> None"

definition addressed_household_member :: "string \<Rightarrow> pyval list \<Rightarrow> string option" where
  "addressed_household_member text names =
     (let toks = addressable_name_tokens names in
      if text = [] \<or> toks = [] then None
      else case concat (map (\<lambda>s. map snd (filter (\<lambda>(low, _). s \<noteq> [] \<and> addresses low s) toks)) (map strip (sentences text))) of
          [] \<Rightarrow> None
        | d # _ \<Rightarrow> Some d)"

definition is_addressed_to_other_person :: "string \<Rightarrow> pyval list \<Rightarrow> bool" where
  "is_addressed_to_other_person text names \<longleftrightarrow> addressed_household_member text names \<noteq> None"

definition is_short_non_command_fragment :: "string \<Rightarrow> bool" where
  "is_short_non_command_fragment text \<longleftrightarrow>
     (let ws = rx_finditer name_word text in ws \<noteq> [] \<and> length ws \<le> 2 \<and> \<not> is_device_command_shaped text)"

definition filler_rx :: rx where
  "filler_rx = rx_cat [Bol, spaces,
     rx_alt (map (\<lambda>c. Rep 2 None True (ch c)) ''.-?!''), spaces, Eol]"

definition bracketed_token :: rx where
  "bracketed_token = rx_cat [one_of ''*[(<'', some1 (Cls (\<lambda>c. c \<notin> set ''*])>'')), one_of ''*])>'']"

definition bracketed_only_rx :: rx where
  "bracketed_only_rx = rx_cat [Bol, spaces,
     some1 (rx_cat [bracketed_token, spaces, opt (one_of ''.,!?-''), spaces]), opt (ch CHR ''.''), spaces, Eol]"

definition is_stt_noise :: "string \<Rightarrow> bool" where
  "is_stt_noise text \<longleftrightarrow>
     (let s = strip text in
      s = [] \<or> rx_match filler_rx s \<noteq> None \<or> rx_match bracketed_only_rx s \<noteq> None \<or> rx_search name_word s = None)"

subsection \<open>Text for the speaker\<close>

definition keep_cap :: "hit \<Rightarrow> string" where
  "keep_cap h = some_text (cap_of 1 h)"

definition blanks :: rx where
  "blanks = many (one_of [CHR '' '', CHR 0x09])"

definition blanks1 :: rx where
  "blanks1 = some1 (one_of [CHR '' '', CHR 0x09])"

definition not_in :: "string \<Rightarrow> rx" where
  "not_in cs = Cls (\<lambda>c. c \<notin> set cs)"

definition is_alnum :: "char \<Rightarrow> bool" where
  "is_alnum c \<longleftrightarrow> is_digit c \<or> 65 \<le> code c \<and> code c \<le> 90 \<or> 97 \<le> code c \<and> code c \<le> 122"

definition wrapped :: "string \<Rightarrow> char \<Rightarrow> rx" where
  "wrapped d c = rx_cat [lit d, Cap 1 (Rep 1 None False (not_in [c, CHR 0x0A])), lit d]"

definition markdown_subs :: "(rx \<times> (hit \<Rightarrow> string)) list" where
  "markdown_subs =
     [(rx_cat [lit ''```'', many (Cls (\<lambda>c. is_alnum c \<or> c = CHR ''_'' \<or> c = CHR ''-'')), opt (ch CHR 0x0A),
               Cap 1 (lazy any_char), lit ''```''], keep_cap),
      (rx_cat [ch CHR 0x60, Cap 1 (some1 (not_in [CHR 0x60, CHR 0x0A])), ch CHR 0x60], keep_cap),
      (rx_cat [lit ''!['', many (not_in '']''), lit '']('', some1 (not_in '')''), ch CHR '')''], \<lambda>_. []),
      (rx_cat [ch CHR ''['', Cap 1 (some1 (not_in '']'')), lit '']('', some1 (not_in '')''), ch CHR '')''], keep_cap),
      (wrapped ''***'' CHR ''*'', keep_cap), (wrapped ''**'' CHR ''*'', keep_cap), (wrapped ''*'' CHR ''*'', keep_cap),
      (wrapped ''__'' CHR ''_'', keep_cap),
      (rx_cat [Behind False is_alnum, wrapped ''_'' CHR ''_'', Ahead False (Cls is_alnum)], keep_cap),
      (wrapped ''~~'' CHR ''~'', keep_cap),
      (rx_cat [line_start, blanks, Rep 1 (Some 6) True (ch CHR ''#''), blanks1], \<lambda>_. []),
      (rx_cat [line_start, blanks, ch CHR ''>'', opt (one_of [CHR '' '', CHR 0x09])], \<lambda>_. []),
      (rx_cat [line_start, blanks, one_of ''-*+'', blanks1], \<lambda>_. []),
      (rx_cat [line_start, blanks, some1 digit, ch CHR ''.'', blanks1], \<lambda>_. []),
      (rx_cat [line_start, blanks, Rep 3 None True (one_of ''-*_''), blanks, line_end], \<lambda>_. [])]"

definition orphan_markdown_rx :: rx where
  "orphan_markdown_rx =
     (let glyphs = some1 (one_of [CHR ''*'', CHR ''~'', CHR 0x60]) in
      Alt (Cat (Behind False is_word) glyphs) (Cat glyphs (Ahead False (Cls is_word))))"

definition clean_for_tts :: "string \<Rightarrow> string" where
  "clean_for_tts text =
     (let c0 = (if contains_marker (Some text) then strip_marker (Some text) else text);
          c1 = fold (\<lambda>(r, f) s. rx_sub r f s) markdown_subs c0;
          c2 = rx_sub orphan_markdown_rx (\<lambda>_. []) c1
      in if c2 = text then text
         else strip (rx_sub (Rep 3 None True (ch CHR 0x0A)) (\<lambda>_. [CHR 0x0A, CHR 0x0A])
                (rx_sub (Rep 2 None True (one_of [CHR '' '', CHR 0x09])) (\<lambda>_. '' '') c2)))"

end
