(* ===== verification/Tool_Parser.thy ===== *)
theory Tool_Parser
  imports Speech_Shapes Py_Json Date_Resolution
begin

section \<open>Reading tool calls out of a reply\<close>

text \<open>
  \<^verbatim>\<open>app/core/tool_call_parser.py\<close>, for models without native tool calling, and
  \<^verbatim>\<open>_normalize_native_tool_calls\<close> of \<^verbatim>\<open>app/core/tool_execution_engine.py\<close> for those with it.
  A tool call is a dictionary in the OpenAI shape. The random part of a generated call id is a
  counter, threaded through. The two functions that write tools into the prompt are text only and
  are left out.
\<close>

type_synonym tool_call = pydict

subsection \<open>Comments and embedded objects\<close>

fun strip_line :: "bool \<Rightarrow> bool \<Rightarrow> string \<Rightarrow> string" where
  "strip_line in_string escape_next [] = []"
| "strip_line in_string escape_next (c # cs) =
     (if escape_next then c # strip_line in_string False cs
      else if c = CHR 0x5C then c # strip_line in_string True cs
      else if c = CHR 0x22 then c # strip_line (\<not> in_string) False cs
      else if c = CHR ''#'' \<and> \<not> in_string then []
      else c # strip_line in_string False cs)"

definition strip_json_comments :: "string \<Rightarrow> string" where
  "strip_json_comments text = join newline (map (strip_line False False) (split_char CHR 0x0A text))"

definition slice :: "nat \<Rightarrow> nat \<Rightarrow> string \<Rightarrow> string" where
  "slice a b s = take (b - a) (drop a s)"

fun scan_objects :: "string \<Rightarrow> nat \<Rightarrow> bool \<Rightarrow> bool \<Rightarrow> nat \<Rightarrow> nat option \<Rightarrow> string \<Rightarrow> string list" where
  "scan_objects text i in_string escape_next depth start [] = []"
| "scan_objects text i in_string escape_next depth start (c # cs) =
     (if escape_next then scan_objects text (Suc i) in_string False depth start cs
      else if c = CHR 0x5C then scan_objects text (Suc i) in_string True depth start cs
      else if c = CHR 0x22 then scan_objects text (Suc i) (\<not> in_string) False depth start cs
      else if in_string then scan_objects text (Suc i) True False depth start cs
      else if c = CHR ''{'' then
        scan_objects text (Suc i) False False (Suc depth) (if depth = 0 then Some i else start) cs
      else if c = CHR ''}'' \<and> depth > 0 then
        (case (depth = 1, start) of
           (True, Some b) \<Rightarrow> slice b (Suc i) text # scan_objects text (Suc i) False False 0 None cs
         | _ \<Rightarrow> scan_objects text (Suc i) False False (depth - 1) start cs)
      else scan_objects text (Suc i) False False depth start cs)"

definition extract_balanced_json_objects :: "string \<Rightarrow> string list" where
  "extract_balanced_json_objects text = scan_objects text 0 False False 0 None text"

definition parses :: "string \<Rightarrow> bool" where
  "parses s \<longleftrightarrow> json_loads s \<noteq> None"

definition extract_json_from_text :: "string \<Rightarrow> string option" where
  "extract_json_from_text text =
     (case find parses (map strip_json_comments (extract_balanced_json_objects text)) of
        Some c \<Rightarrow> Some c
      | None \<Rightarrow> (case (find_sub text ''{'', rfind_sub text ''}'') of
          (Some a, Some b) \<Rightarrow>
            let c = strip_json_comments (slice a (Suc b) text) in
            if b > a \<and> parses c then Some c else None
        | _ \<Rightarrow> None))"

subsection \<open>One tool call\<close>

definition nested_dates :: "pyval \<Rightarrow> pyval list" where
  "nested_dates v = (case v of
      PStr s \<Rightarrow> [PStr (normalize_date_key s)]
    | PDict d \<Rightarrow>
        if dhas d ''resolved_datetimes'' then
          (case dget d ''resolved_datetimes'' of
             PList xs \<Rightarrow> List.map_filter (\<lambda>x. case x of PStr s \<Rightarrow> Some (PStr (normalize_date_key s)) | _ \<Rightarrow> None) xs
           | PStr s \<Rightarrow> [PStr (normalize_date_key s)]
           | _ \<Rightarrow> [])
        else [v]
    | _ \<Rightarrow> [v])"

definition unwrap_dates :: "pydict \<Rightarrow> pydict" where
  "unwrap_dates args = (case map_of args ''resolved_datetimes'' of
      Some (PList xs) \<Rightarrow> dset args ''resolved_datetimes'' (PList (concat (map nested_dates xs)))
    | _ \<Rightarrow> args)"

definition call_id :: "nat \<Rightarrow> string" where
  "call_id n = ''call_'' @ nat_str n"

definition make_call :: "string \<Rightarrow> pyval \<Rightarrow> string \<Rightarrow> tool_call" where
  "make_call cid name args =
     [(''id'', PStr cid), (''type'', PStr ''function''),
      (''function'', PDict [(''name'', name), (''arguments'', PStr args)])]"

definition named_function :: "pydict \<Rightarrow> exc + pyval \<times> pyval" where
  "named_function raw =
     (let name = dget raw ''name''; args = dget_or raw ''arguments'' (PDict []) in
      if \<not> truthy name \<and> dhas raw ''function'' then
        rbind (as_dict (por (dget raw ''function'') (PDict []))) (\<lambda>f.
        Inr (dget f ''name'', dget_or f ''arguments'' args))
      else Inr (name, args))"

definition read_arguments :: "pyval \<Rightarrow> pydict option" where
  "read_arguments v =
     (let v' = (case v of PStr s \<Rightarrow> (case json_loads s of Some x \<Rightarrow> x | None \<Rightarrow> v) | _ \<Rightarrow> v) in
      case v' of PNone \<Rightarrow> Some [] | PDict d \<Rightarrow> Some d | _ \<Rightarrow> None)"

definition format_tool_call :: "nat \<Rightarrow> pyval \<Rightarrow> exc + tool_call list \<times> nat" where
  "format_tool_call n v = (case v of
      PDict raw \<Rightarrow>
        rbind (named_function raw) (\<lambda>(name, args).
        if \<not> truthy name then Inr ([], n)
        else case read_arguments args of
            None \<Rightarrow> Inr ([], n)
          | Some d \<Rightarrow>
              let call = make_call (call_id n) name (json_dumps (PDict (unwrap_dates d))) in
              Inr ([case dget raw ''failure_message'' of
                      PStr m \<Rightarrow> if m = [] then call else dset call ''failure_message'' (PStr m)
                    | _ \<Rightarrow> call], Suc n))
    | _ \<Rightarrow> Inr ([], n))"

fun format_all :: "nat \<Rightarrow> pyval list \<Rightarrow> exc + tool_call list \<times> nat" where
  "format_all n [] = Inr ([], n)"
| "format_all n (v # vs) =
     rbind (format_tool_call n v) (\<lambda>(c, n1). rbind (format_all n1 vs) (\<lambda>(cs, n2). Inr (c @ cs, n2)))"

subsection \<open>A whole reply\<close>

record reading =
  rd_finish :: string
  rd_calls :: "tool_call list"
  rd_message :: pyval

definition plain_reading :: "pyval \<Rightarrow> reading" where
  "plain_reading m = \<lparr>rd_finish = ''stop'', rd_calls = [], rd_message = m\<rparr>"

definition if_none :: "tool_call list \<times> nat \<Rightarrow> (nat \<Rightarrow> exc + tool_call list \<times> nat) \<Rightarrow> exc + tool_call list \<times> nat" where
  "if_none r f = (if fst r = [] then f (snd r) else Inr r)"

definition calls_of :: "nat \<Rightarrow> pydict \<Rightarrow> exc + tool_call list \<times> nat" where
  "calls_of n parsed =
     rbind (case dget parsed ''tool_calls'' of PList xs \<Rightarrow> format_all n xs | _ \<Rightarrow> Inr ([], n)) (\<lambda>r1.
     rbind (if_none r1 (\<lambda>n1. if truthy (dget parsed ''tool_call'') then format_tool_call n1 (dget parsed ''tool_call'')
                              else Inr ([], n1))) (\<lambda>r2.
     if_none r2 (\<lambda>n2. if dhas parsed ''tool_calls'' \<or> dhas parsed ''tool_call'' then Inr ([], n2)
                       else format_tool_call n2 (PDict parsed))))"

definition read_object :: "nat \<Rightarrow> pyval \<Rightarrow> exc + reading \<times> nat" where
  "read_object n v =
     rbind (as_dict v) (\<lambda>parsed.
     rbind (calls_of n parsed) (\<lambda>(calls, n').
     Inr (\<lparr>rd_finish = (if calls = [] then ''stop'' else ''tool_calls''), rd_calls = calls,
           rd_message = dget_or parsed ''message'' (PStr [])\<rparr>, n')))"

text \<open>
  The recursion of \<^verbatim>\<open>parse_response\<close> is kept as the code has it, with no argument that shrinks:
  \<open>None\<close> is a call that never returns. An error of \<^verbatim>\<open>read_object\<close> is the \<^verbatim>\<open>except Exception\<close> branch;
  the ids it drew go with the calls it drops.
\<close>

partial_function (option) parse_response :: "nat \<Rightarrow> string \<Rightarrow> (reading \<times> nat) option" where
  "parse_response n llm_output =
     (case json_loads (strip_json_comments llm_output) of
        Some v \<Rightarrow> (case read_object n v of
            Inr r \<Rightarrow> Some r
          | Inl e \<Rightarrow> Some (plain_reading (PStr llm_output), n))
      | None \<Rightarrow> (case extract_json_from_text llm_output of
            Some extracted \<Rightarrow> if extracted = [] then Some (plain_reading (PStr llm_output), n)
                              else parse_response n extracted
          | None \<Rightarrow> Some (plain_reading (PStr llm_output), n)))"

declare parse_response.simps [code]

subsection \<open>Native tool calls\<close>

definition native_arguments :: "pydict \<Rightarrow> string" where
  "native_arguments f = (case dget_or f ''arguments'' (PStr ''{}'') of
      PDict d \<Rightarrow> json_dumps (PDict d) | PStr s \<Rightarrow> s | _ \<Rightarrow> ''{}'')"

fun normalize_native_tool_calls :: "nat \<Rightarrow> pyval list \<Rightarrow> exc + tool_call list \<times> nat" where
  "normalize_native_tool_calls n [] = Inr ([], n)"
| "normalize_native_tool_calls n (v # vs) =
     rbind (as_dict v) (\<lambda>call.
     rbind (as_dict (dget_or call ''function'' (PDict []))) (\<lambda>f.
     if \<not> truthy (dget f ''name'') then normalize_native_tool_calls n vs
     else let own = truthy (dget call ''id'');
              c = [(''id'', por (dget call ''id'') (PStr (call_id n))), (''type'', PStr ''function''),
                   (''function'', PDict [(''name'', dget f ''name''), (''arguments'', PStr (native_arguments f))])]
          in rbind (normalize_native_tool_calls (if own then n else Suc n) vs) (\<lambda>(cs, n'). Inr (c # cs, n'))))"

end
