(* ===== verification/Param_Validation.thy ===== *)
theory Param_Validation
  imports Tool_Parser
begin

section \<open>Checking the arguments of a tool call\<close>

text \<open>
  \<^verbatim>\<open>app/core/param_validation.py\<close>. The declared types and allowed values of a tool's parameters
  are association lists in the order of the code's dictionaries. A dictionary lookup with a list or a
  dictionary as its key raises, as in Python. The arguments of a call are text or a dictionary, the two
  forms the parser and the native path produce.
\<close>

definition hash_key :: "pyval \<Rightarrow> exc + string option" where
  "hash_key v = (case v of
      PStr s \<Rightarrow> Inr (Some s)
    | PList _ \<Rightarrow> Inl (TypeError ''unhashable type: list'')
    | PDict _ \<Rightarrow> Inl (TypeError ''unhashable type: dict'')
    | _ \<Rightarrow> Inr None)"

definition call_function :: "tool_call \<Rightarrow> exc + pydict" where
  "call_function c = as_dict (dget_or c ''function'' (PDict []))"

definition call_name :: "tool_call \<Rightarrow> exc + pyval" where
  "call_name c = rbind (call_function c) (\<lambda>f. Inr (dget f ''name''))"

text \<open>\<open>json.loads\<close> of the argument text, or a copy of the argument dictionary; what cannot be read counts as no arguments.\<close>

definition args_or_empty :: "pyval \<Rightarrow> pyval" where
  "args_or_empty v = (case v of
      PStr s \<Rightarrow> (case json_loads s of Some x \<Rightarrow> x | None \<Rightarrow> PDict [])
    | PDict d \<Rightarrow> PDict d
    | _ \<Rightarrow> PDict [])"

definition call_args :: "tool_call \<Rightarrow> exc + pyval" where
  "call_args c = rbind (call_function c) (\<lambda>f. Inr (args_or_empty (dget_or f ''arguments'' (PStr ''{}''))))"

subsection \<open>Types\<close>

definition between :: "string \<Rightarrow> string \<Rightarrow> string \<Rightarrow> string option" where
  "between a b s = (if starts_with s a \<and> ends_with s b
     then Some (strip (drop (length a) (take (length s - length b) s))) else None)"

definition normalize_param_type :: "string option \<Rightarrow> string option \<times> bool" where
  "normalize_param_type t =
     (if \<not> otruthy t then (None, False)
      else let raw = lower (strip (some_text t)) in
        case (between ''array<'' ''>'' raw, between ''array['' '']'' raw) of
          (Some b, _) \<Rightarrow> (Some b, True)
        | (None, Some b) \<Rightarrow> (Some b, True)
        | (None, None) \<Rightarrow>
            if ends_with raw ''[]'' then (Some (strip (take (length raw - 2) raw)), True) else (Some raw, False))"

definition iso_date_rx :: rx where
  "iso_date_rx = rx_cat [Bol, Rep 4 (Some 4) True digit, ch CHR ''-'', Rep 2 (Some 2) True digit, ch CHR ''-'',
     Rep 2 (Some 2) True digit, Eol]"

definition is_iso_date :: "string \<Rightarrow> bool" where
  "is_iso_date s \<longleftrightarrow> rx_match iso_date_rx s \<noteq> None"

definition is_iso_datetime :: "string \<Rightarrow> bool" where
  "is_iso_datetime s \<longleftrightarrow> has_sub s ''T'' \<and> (case read_iso s of None \<Rightarrow> False | Some t \<Rightarrow> dt_off t \<noteq> None)"

definition validate_scalar :: "pyval \<Rightarrow> string \<Rightarrow> bool" where
  "validate_scalar v base \<longleftrightarrow>
     (if base = ''string'' then is_str v
      else if base \<in> {''int'', ''integer''} then (case v of PInt _ \<Rightarrow> True | _ \<Rightarrow> False)
      else if base \<in> {''float'', ''number'', ''double''} then (case v of PInt _ \<Rightarrow> True | PFloat _ _ \<Rightarrow> True | _ \<Rightarrow> False)
      else if base \<in> {''bool'', ''boolean''} then (case v of PBool _ \<Rightarrow> True | _ \<Rightarrow> False)
      else if base = ''date'' then (case v of PStr s \<Rightarrow> is_iso_date s | _ \<Rightarrow> False)
      else if base = ''datetime'' then (case v of PStr s \<Rightarrow> is_iso_datetime s | _ \<Rightarrow> False)
      else True)"

definition validate_value :: "pyval \<Rightarrow> string \<Rightarrow> bool \<Rightarrow> bool" where
  "validate_value v base is_array \<longleftrightarrow>
     (if is_array then (case v of PList xs \<Rightarrow> list_all (\<lambda>x. validate_scalar x base) xs | _ \<Rightarrow> False)
      else validate_scalar v base)"

subsection \<open>Invalid parameters\<close>

type_synonym type_map = "(string \<times> (string \<times> string) list) list"
type_synonym enum_map = "(string \<times> (string \<times> pyval list) list) list"

definition type_fault :: "string \<Rightarrow> pydict \<Rightarrow> string \<times> string \<Rightarrow> string list" where
  "type_fault tool args spec = (case spec of (param, ptype) \<Rightarrow>
     if \<not> dhas args param then []
     else case normalize_param_type (Some ptype) of
         (Some base, is_array) \<Rightarrow>
           if base = [] \<or> validate_value (dget args param) base is_array then []
           else [tool @ ''.'' @ param @ '' expected '' @ ptype]
       | (None, _) \<Rightarrow> [])"

definition enum_fault :: "string \<Rightarrow> pydict \<Rightarrow> string \<times> pyval list \<Rightarrow> exc + string list" where
  "enum_fault tool args spec = (case spec of (param, allowed) \<Rightarrow>
     let v = dget args param in
     if v = PNone \<or> PStr (py_str v) \<in> set allowed then Inr []
     else rbind (rmap as_str allowed) (\<lambda>names.
       Inr [tool @ ''.'' @ param @ '' must be one of: '' @ join '', '' names]))"

definition specs_of :: "(string \<times> 'a list) list \<Rightarrow> pyval \<Rightarrow> exc + 'a list" where
  "specs_of m name =
     (if m = [] then Inr []
      else rbind (hash_key name) (\<lambda>k. Inr (case k of None \<Rightarrow> [] | Some s \<Rightarrow> (case map_of m s of None \<Rightarrow> [] | Some l \<Rightarrow> l))))"

definition call_faults :: "type_map \<Rightarrow> enum_map \<Rightarrow> tool_call \<Rightarrow> exc + string list" where
  "call_faults types enums c =
     rbind (call_name c) (\<lambda>name.
     if \<not> truthy name then Inr []
     else rbind (call_args c) (\<lambda>v. case v of
         PDict args \<Rightarrow>
           rbind (specs_of types name) (\<lambda>ts.
           rbind (specs_of enums name) (\<lambda>es.
           rbind (rmap (enum_fault (py_str name) args) es) (\<lambda>ef.
           Inr (concat (map (type_fault (py_str name) args) ts) @ concat ef))))
       | _ \<Rightarrow> Inr []))"

definition find_invalid_params :: "tool_call list \<Rightarrow> type_map \<Rightarrow> enum_map \<Rightarrow> exc + string list" where
  "find_invalid_params calls types enums =
     (if types = [] \<and> enums = [] then Inr []
      else rbind (rmap (call_faults types enums) calls) (\<lambda>fs. Inr (concat fs)))"

end
