(* ===== verification/Tool_Routing.thy ===== *)
theory Tool_Routing
  imports Param_Validation
begin

section \<open>Routing by name and by keyword\<close>

text \<open>
  \<^verbatim>\<open>app/core/tool_routing.py\<close> without the fastText classifier, which is a service: its prediction, a
  tool name and a score, is an argument. Sets of names are lists. Tool and command definitions are dictionaries.
\<close>

definition tool_name_of :: "pydict \<Rightarrow> pyval" where
  "tool_name_of tool = (case dget tool ''function'' of PDict f \<Rightarrow> dget f ''name'' | _ \<Rightarrow> dget tool ''name'')"

definition extract_tool_names :: "pydict list \<Rightarrow> pyval list" where
  "extract_tool_names tools = filter truthy (map tool_name_of tools)"

definition route_tool :: "string \<Rightarrow> pydict list \<Rightarrow> (string \<Rightarrow> string \<times> rat) option \<Rightarrow> (string \<times> rat) option" where
  "route_tool utterance tools classifier = (case classifier of
      None \<Rightarrow> None
    | Some predict \<Rightarrow>
        if utterance = [] then None
        else case predict utterance of (name, score) \<Rightarrow>
          if name = [] \<or> PStr name \<notin> set (extract_tool_names tools) then None else Some (name, score))"

definition filter_tools_for_utterance :: "string \<Rightarrow> pydict list \<Rightarrow> pydict list option \<Rightarrow> pydict list" where
  "filter_tools_for_utterance voice_command tools available = tools"

definition keyword_match_min_len :: nat where
  "keyword_match_min_len = 3"

definition normalize_for_keyword_match :: "string \<Rightarrow> string" where
  "normalize_for_keyword_match text =
     ([CHR '' ''] @ join '' '' (words (rx_sub (some1 (Cls (\<lambda>c. \<not> (is_digit c \<or> 97 \<le> code c \<and> code c \<le> 122)))) (\<lambda>_. '' '')
        (lower text))) @ '' '')"

definition item_keywords :: "pyval \<Rightarrow> string list" where
  "item_keywords item = (case item of
      PDict d \<Rightarrow>
        (case (if dget d ''keywords'' = PNone
               then (case dget d ''function'' of PDict f \<Rightarrow> dget f ''keywords'' | _ \<Rightarrow> PNone) else dget d ''keywords'') of
           PList ks \<Rightarrow> List.map_filter (\<lambda>k. case k of PStr s \<Rightarrow> if strip s = [] then None else Some s | _ \<Rightarrow> None) ks
         | _ \<Rightarrow> [])
    | _ \<Rightarrow> [])"

definition collect_tool_keywords :: "pydict list list \<Rightarrow> string list" where
  "collect_tool_keywords sources = dedupe (concat (map (\<lambda>d. item_keywords (PDict d)) (concat sources)))"

definition utterance_matches_keywords :: "string \<Rightarrow> string list \<Rightarrow> bool" where
  "utterance_matches_keywords utterance keywords \<longleftrightarrow>
     (let u = normalize_for_keyword_match utterance in
      strip u \<noteq> [] \<and>
      list_ex (\<lambda>kw. let k = strip (normalize_for_keyword_match kw) in
                      keyword_match_min_len \<le> length k \<and> has_sub u ([CHR '' ''] @ k @ '' '')) keywords)"

definition prune_tools_by_confidence :: "pydict list \<Rightarrow> string \<Rightarrow> rat \<Rightarrow> rat \<Rightarrow> string list \<Rightarrow> pydict list option" where
  "prune_tools_by_confidence tools predicted confidence threshold server_names =
     (if confidence < threshold then Some tools
      else let pruned = filter (\<lambda>t. \<exists>n \<in> set (predicted # server_names). n \<noteq> [] \<and> tool_name_of t = PStr n) tools in
        if pruned = [] then None else Some pruned)"

end
