(* ===== verification/Tool_Executor.thy ===== *)
theory Tool_Executor
  imports Tool_Routing Date_Context Conversation_Cache
begin

section \<open>One voice turn: its state, its services, the server tools\<close>

text \<open>
  The state of a turn of \<^verbatim>\<open>ToolExecutionEngine.execute\<close> and \<^verbatim>\<open>app/core/tool_executor.py\<close>. The state
  holds the message list, the conversation cache, the requests sent to the language model and the
  server tools run so far; a service's answer is a function of what it was asked before. The tools
  behind the registry are services too: \<open>le_run\<close> is \<^verbatim>\<open>tool.execute\<close>, which may raise.
\<close>

datatype ask =
    Ask_turn "pydict list" "pydict list option" pyval pyval int
  | Ask_date_key string string "string list"
  | Ask_params string string pydict "pydict list" pyval

record turn =
  tn_messages :: "pydict list"
  tn_cache :: conv_cache
  tn_ids :: nat
  tn_asked :: "ask list"
  tn_ran :: "(string \<times> pydict) list"

text \<open>The prompt provider: the members of \<^verbatim>\<open>IJarvisPromptProvider\<close> the engine calls.\<close>

record provider =
  pv_native :: bool
  pv_tools :: "pydict list \<Rightarrow> pydict list option"
  pv_format :: "pyval option"
  pv_parse :: "string \<Rightarrow> string option"
  pv_sanitize :: "string \<Rightarrow> string"

record loop_env =
  le_llm :: "ask list \<Rightarrow> ask \<Rightarrow> exc + pyval"
  le_tools :: "string list"
  le_run :: "(string \<times> pydict) list \<Rightarrow> string \<Rightarrow> pydict \<Rightarrow> exc + pyval"
  le_provider :: "provider option"
  le_format :: pyval
  le_sha :: "string \<Rightarrow> string"
  le_window :: rat
  le_small :: bool
  le_retry_max :: "string option"
  le_mcp :: "string list \<Rightarrow> string option \<Rightarrow> exc + (string list \<times> string list) option"
  le_zones :: tz_db
  le_server :: zone
  le_info :: "pyval \<times> pyval"
  le_now :: int

definition ask_llm :: "loop_env \<Rightarrow> ask \<Rightarrow> (turn, pyval) io" where
  "ask_llm env q = (\<lambda>t. (t\<lparr>tn_asked := tn_asked t @ [q]\<rparr>, le_llm env (tn_asked t) q))"

definition with_cache :: "(conv_cache \<Rightarrow> conv_cache \<times> 'a) \<Rightarrow> (turn, 'a) io" where
  "with_cache f = (\<lambda>t. case f (tn_cache t) of (c, x) \<Rightarrow> (t\<lparr>tn_cache := c\<rparr>, Inr x))"

definition set_messages :: "pydict list \<Rightarrow> (turn, unit) io" where
  "set_messages ms = modify (tn_messages_update (\<lambda>_. ms))"

definition append_messages :: "pydict list \<Rightarrow> (turn, unit) io" where
  "append_messages ms = modify (tn_messages_update (\<lambda>old. old @ ms))"

definition drop_last_message :: "(turn, unit) io" where
  "drop_last_message = modify (tn_messages_update butlast)"

subsection \<open>One server tool\<close>

definition day_starts :: "pyval list \<Rightarrow> pyval list" where
  "day_starts days = List.map_filter (\<lambda>v. case v of
       PDict d \<Rightarrow> let s = dget d ''utc_start_of_day'' in if truthy s then Some s else None
     | _ \<Rightarrow> None) days"

definition compact_tool_result :: "string \<Rightarrow> pyval \<Rightarrow> pyval" where
  "compact_tool_result tool v = (case v of
      PDict r \<Rightarrow>
        if tool \<noteq> ''resolve_relative_date'' then v
        else let term = (''term'', dget r ''term'') in
          if truthy (dget r ''error'') then
            PDict [term, (''error'', dget r ''error''),
                   (''message'', dget_or r ''message'' (PStr ''Failed to resolve relative date''))]
          else if dhas r ''utc_start_of_day'' then PDict [term, (''utc_start_of_day'', dget r ''utc_start_of_day'')]
          else (case (dhas r ''dates'', dget r ''dates'') of
              (True, PList days) \<Rightarrow> PDict [term, (''utc_start_of_day'', PList (day_starts days))]
            | _ \<Rightarrow>
                if dhas r ''datetime'' then PDict [term, (''datetime'', dget r ''datetime'')]
                else if truthy (dget r ''candidates'') then
                  PDict [term, (''error'', PStr ''unresolved_relative_date''),
                         (''message'', dget_or r ''message'' (PStr ''Could not resolve term''))]
                else v)
    | _ \<Rightarrow> v)"

text \<open>\<^verbatim>\<open>tool_registry.execute_tool(name, **kwargs)\<close>: a keyword argument called like one of its own parameters raises.\<close>

definition registry_execute :: "loop_env \<Rightarrow> string \<Rightarrow> pydict \<Rightarrow> (turn, pyval) io" where
  "registry_execute env tool kwargs =
     (if dhas kwargs ''name'' \<or> dhas kwargs ''self'' then throw (TypeError ''got multiple values for argument'')
      else if tool \<notin> set (le_tools env) then
        ret (PDict [(''error'', PStr ''tool_not_found''), (''message'', PStr (''Tool '' @ squoted tool @ '' is not registered''))])
      else (\<lambda>t. (t\<lparr>tn_ran := tn_ran t @ [(tool, kwargs)]\<rparr>,
              Inr (case le_run env (tn_ran t) tool kwargs of
                Inr v \<Rightarrow> v
              | Inl e \<Rightarrow> PDict [(''error'', PStr ''execution_error''),
                               (''message'', PStr (''Tool execution failed: '' @ exc_str e))]))))"

definition tool_kwargs :: "pydict \<Rightarrow> string \<Rightarrow> string option \<Rightarrow> pydict" where
  "tool_kwargs args cid utterance =
     (let d = (if cid = [] then args else dset args ''conversation_id'' (PStr cid)) in
      if otruthy utterance then dset d ''user_utterance'' (PStr (some_text utterance)) else d)"

definition execute_tool :: "loop_env \<Rightarrow> string \<Rightarrow> pyval \<Rightarrow> string \<Rightarrow> string option \<Rightarrow> (turn, pydict) io" where
  "execute_tool env tool args cid utterance = (case args of
      PDict d \<Rightarrow>
        bind (registry_execute env tool (tool_kwargs d cid utterance)) (\<lambda>v.
        case compact_tool_result tool v of
          PDict r \<Rightarrow> ret r
        | _ \<Rightarrow> throw (AttributeError ''get''))
    | _ \<Rightarrow> throw (TypeError ''argument after ** must be a mapping''))"

subsection \<open>The calls of a reply\<close>

definition executor_args :: "tool_call \<Rightarrow> exc + pyval" where
  "executor_args c = rbind (call_function c) (\<lambda>f. Inr (case dget_or f ''arguments'' (PStr ''{}'') of
      PStr s \<Rightarrow> (case json_loads s of Some x \<Rightarrow> x | None \<Rightarrow> PDict [])
    | v \<Rightarrow> v))"

definition tool_message :: "pyval \<Rightarrow> string \<Rightarrow> pydict \<Rightarrow> pydict" where
  "tool_message cid tool result =
     [(''role'', PStr ''tool''), (''tool_call_id'', cid), (''name'', PStr tool), (''content'', PStr (json_dumps (PDict result)))]"

definition server_tool :: "loop_env \<Rightarrow> tool_call \<Rightarrow> exc + string option" where
  "server_tool env c = rbind (call_name c) (\<lambda>v. rbind (hash_key v) (\<lambda>k.
     Inr (case k of None \<Rightarrow> None | Some s \<Rightarrow> if s \<in> set (le_tools env) then Some s else None)))"

fun execute_tool_calls ::
    "loop_env \<Rightarrow> string \<Rightarrow> string option \<Rightarrow> tool_call list \<Rightarrow> (turn, pydict list \<times> tool_call list) io" where
  "execute_tool_calls env cid utterance [] = ret ([], [])"
| "execute_tool_calls env cid utterance (c # cs) =
     bind (lift (server_tool env c)) (\<lambda>s. case s of
         Some tool \<Rightarrow>
           bind (lift (executor_args c)) (\<lambda>args.
           bind (execute_tool env tool args cid utterance) (\<lambda>r.
           bind (execute_tool_calls env cid utterance cs) (\<lambda>(results, clients).
           ret (tool_message (dget c ''id'') tool r # results, clients))))
       | None \<Rightarrow>
           bind (execute_tool_calls env cid utterance cs) (\<lambda>(results, clients). ret (results, c # clients)))"

end
