(* ===== verification/Param_Refinement.thy ===== *)
theory Param_Refinement
  imports Tool_Executor
begin

section \<open>A second look at refinable parameters\<close>

text \<open>
  \<^verbatim>\<open>app/core/param_refinement.py\<close>: parameters marked refinable are left out of the first request and
  filled by a second one. The prompt is its variable parts: the tool, the utterance, the refinable
  schemas, the examples and the arguments already chosen. The enum lists of a schema are taken to hold text.
\<close>

definition resolver_handled_tools :: "string list" where
  "resolver_handled_tools = [''control_device'', ''get_device_status'']"

definition dict_get :: "pyval \<Rightarrow> string \<Rightarrow> pyval \<Rightarrow> exc + pyval" where
  "dict_get v k d = rbind (as_dict v) (\<lambda>m. Inr (dget_or m k d))"

fun find_tool :: "pyval \<Rightarrow> pydict list \<Rightarrow> exc + (pydict \<times> pydict) option" where
  "find_tool name [] = Inr None"
| "find_tool name (t # ts) =
     rbind (as_dict (dget_or t ''function'' (PDict []))) (\<lambda>f.
     if dget f ''name'' = name then Inr (Some (t, f)) else find_tool name ts)"

definition refinable_of :: "pydict \<Rightarrow> pydict" where
  "refinable_of props = filter (\<lambda>(k, v). case v of PDict s \<Rightarrow> truthy (dget s ''_refinable'') | _ \<Rightarrow> False) props"

definition get_refinable_params :: "pyval \<Rightarrow> pydict list \<Rightarrow> exc + pydict" where
  "get_refinable_params name tools =
     rbind (find_tool name tools) (\<lambda>hit. case hit of
         None \<Rightarrow> Inr []
       | Some (t, f) \<Rightarrow>
           rbind (dict_get (dget_or f ''parameters'' (PDict [])) ''properties'' (PDict [])) (\<lambda>props.
           rbind (as_dict props) (\<lambda>p. Inr (refinable_of p))))"

definition refinement_example :: "pydict \<Rightarrow> pyval \<Rightarrow> exc + pydict list" where
  "refinement_example refinable v =
     rbind (as_dict v) (\<lambda>ex.
     let utterance = dget_or ex ''voice_command'' (PStr []) in
     if \<not> truthy utterance then Inr []
     else rbind (as_dict (dget_or ex ''expected_parameters'' (PDict []))) (\<lambda>params.
       Inr [[(''utterance'', utterance), (''params'', PDict (map (\<lambda>(k, _). (k, dget params k)) refinable))]]))"

definition get_refinement_examples :: "pyval \<Rightarrow> pydict list \<Rightarrow> pydict \<Rightarrow> exc + pydict list" where
  "get_refinement_examples name tools refinable =
     rbind (find_tool name tools) (\<lambda>hit. case hit of
         None \<Rightarrow> Inr []
       | Some (t, f) \<Rightarrow> (case dget_or t ''examples'' (PList []) of
           PList xs \<Rightarrow> rbind (rmap (refinement_example refinable) xs) (\<lambda>es. Inr (concat es))
         | v \<Rightarrow> if truthy v then Inl (AttributeError ''get'') else Inr []))"

text \<open>The reply of the second request: the text of the first choice, else the top-level message.\<close>

definition first_choice_text :: "pydict \<Rightarrow> exc + pyval" where
  "first_choice_text r = (case dget_or r ''choices'' (PList []) of
      PList (c # _) \<Rightarrow> rbind (dict_get c ''message'' (PDict [])) (\<lambda>m. dict_get m ''content'' (PStr []))
    | v \<Rightarrow> if truthy v then Inl (TypeError ''choices'') else Inr (PStr []))"

definition unfence :: "string \<Rightarrow> string" where
  "unfence raw =
     (let content = strip raw in
      if starts_with content ''```'' then
        strip (join newline (filter (\<lambda>l. \<not> starts_with (strip l) ''```'') (split_char CHR 0x0A content)))
      else content)"

definition refined_reply :: "exc + pyval \<Rightarrow> pydict option" where
  "refined_reply reply =
     (case rbind reply (\<lambda>v. case v of
          PDict r \<Rightarrow> rbind (first_choice_text r) (\<lambda>c. Inr (if truthy c then c else dget_or r ''message'' (PStr [])))
        | _ \<Rightarrow> Inr (PStr [])) of
       Inr (PStr raw) \<Rightarrow> (case json_loads (unfence raw) of Some (PDict d) \<Rightarrow> Some d | _ \<Rightarrow> None)
     | _ \<Rightarrow> None)"

definition call_llm :: "loop_env \<Rightarrow> ask \<Rightarrow> (turn, pydict option) io" where
  "call_llm env q = (\<lambda>t. case ask_llm env q t of (t', r) \<Rightarrow> (t', Inr (refined_reply r)))"

definition set_call_args :: "tool_call \<Rightarrow> pydict \<Rightarrow> tool_call" where
  "set_call_args c args = (case dget c ''function'' of
      PDict f \<Rightarrow> dset c ''function'' (PDict (dset f ''arguments'' (PStr (json_dumps (PDict args)))))
    | _ \<Rightarrow> c)"

definition merge_refined_params :: "tool_call \<Rightarrow> pydict \<Rightarrow> exc + tool_call" where
  "merge_refined_params c resolved =
     rbind (call_args c) (\<lambda>v. case v of
         PDict args \<Rightarrow> Inr (set_call_args c (fold (\<lambda>(k, x) d. if x = PNone then d else dset d k x) resolved args))
       | _ \<Rightarrow> if list_all (\<lambda>(k, x). x = PNone) resolved
              then Inr (dset c ''function'' (case dget c ''function'' of
                     PDict f \<Rightarrow> PDict (dset f ''arguments'' (PStr (json_dumps v))) | g \<Rightarrow> g))
              else Inl (TypeError ''item assignment''))"

definition refine_call :: "loop_env \<Rightarrow> pydict list \<Rightarrow> string \<Rightarrow> tool_call \<Rightarrow> (turn, tool_call) io" where
  "refine_call env tools utterance c =
     bind (lift (rbind (call_function c) (\<lambda>f. Inr (dget_or f ''name'' (PStr []))))) (\<lambda>name.
     bind (lift (hash_key name)) (\<lambda>k.
     if (case k of None \<Rightarrow> False | Some s \<Rightarrow> s \<in> set resolver_handled_tools) then ret c
     else bind (lift (get_refinable_params name tools)) (\<lambda>refinable.
       if refinable = [] then ret c
       else bind (lift (call_args c)) (\<lambda>existing.
         bind (lift (get_refinement_examples name tools refinable)) (\<lambda>examples.
         bind (call_llm env (Ask_params (py_str name) utterance refinable examples existing)) (\<lambda>resolved.
         case resolved of
           Some r \<Rightarrow> if r = [] then ret c else lift (merge_refined_params c r)
         | None \<Rightarrow> ret c))))))"

fun refine_params :: "loop_env \<Rightarrow> pydict list \<Rightarrow> string \<Rightarrow> tool_call list \<Rightarrow> (turn, tool_call list) io" where
  "refine_params env tools utterance [] = ret []"
| "refine_params env tools utterance (c # cs) =
     bind (refine_call env tools utterance c) (\<lambda>c'.
     bind (refine_params env tools utterance cs) (\<lambda>cs'. ret (c' # cs')))"

end
