(* ===== verification/Date_Injection.thy ===== *)
theory Date_Injection
  imports Param_Refinement
begin

section \<open>Dates in tool calls\<close>

text \<open>
  The two date passes of \<^verbatim>\<open>app/core/tool_execution_engine.py\<close>: ISO timestamps where a date key is
  expected are mapped back to keys, and parameters of type date-time are filled or completed. The
  date context is computed once per turn from a clock that stands still, so computing it again gives the
  same value; what the code keeps between parameters is whether it has been loaded and whether the list of
  keys for the language model has been set with it (\<open>dates_state\<close>). With it
  \<^verbatim>\<open>resolve_with_llm_fallback\<close> and \<^verbatim>\<open>get_available_keys\<close> of
  \<^verbatim>\<open>app/core/tools/resolve_relative_date_tool.py\<close>. The date service of the MCP client package is a
  parameter; when it is missing or unreachable it answers nothing.
\<close>

fun str_le :: "string \<Rightarrow> string \<Rightarrow> bool" where
  "str_le [] b = True"
| "str_le (x # a) [] = False"
| "str_le (x # a) (y # b) \<longleftrightarrow> code x < code y \<or> code x = code y \<and> str_le a b"

fun insert_str :: "string \<Rightarrow> string list \<Rightarrow> string list" where
  "insert_str x [] = [x]"
| "insert_str x (y # ys) = (if str_le x y then x # y # ys else y # insert_str x ys)"

definition sort_strs :: "string list \<Rightarrow> string list" where
  "sort_strs xs = foldr insert_str xs []"

definition texts :: "pyval list \<Rightarrow> string list" where
  "texts xs = List.map_filter (\<lambda>v. case v of PStr s \<Rightarrow> Some s | _ \<Rightarrow> None) xs"

subsection \<open>The date context of a turn\<close>

definition context_of :: "loop_env \<Rightarrow> string option \<Rightarrow> exc + pydict" where
  "context_of env tz = generate_date_context_object (le_zones env) (le_server env) (le_info env) tz (le_now env)"

definition flat_of :: "loop_env \<Rightarrow> string option \<Rightarrow> exc + pydict" where
  "flat_of env tz = rbind (context_of env tz) flatten_date_context"

definition get_available_keys :: "pydict \<Rightarrow> string list" where
  "get_available_keys ctx = [''today'', ''now''] @ map fst (sub_dict ctx ''relative_dates'') @ map fst (sub_dict ctx ''weekdays'') @
     [''this_weekend'', ''next_weekend'', ''last_weekend'', ''this_week'', ''next_week'', ''last_week'',
      ''this_year'', ''next_year'', ''last_year''] @ map fst (sub_dict ctx ''time_expressions'')"

definition key_reply :: "exc + pyval \<Rightarrow> string option" where
  "key_reply reply =
     (case rbind reply (\<lambda>v. rbind (as_dict v) (\<lambda>r.
          let top = dget_or r ''message'' (PStr []) in if truthy top then Inr top else first_choice_text r)) of
        Inr (PStr raw) \<Rightarrow> if raw = [] then None
          else Some (replace_sub '' '' ''_'' (lower (strip_chars [CHR 0x22, CHR 0x27] (strip (strip_all default_think_delimiters raw)))))
      | _ \<Rightarrow> None)"

definition pick_key :: "string list \<Rightarrow> string \<Rightarrow> string option" where
  "pick_key keys selected =
     (if selected \<in> set keys then Some selected
      else case find (\<lambda>k. replace_sub ''_'' [] k = replace_sub ''_'' [] selected) keys of
          Some k \<Rightarrow> Some k
        | None \<Rightarrow> if ''today'' \<in> set keys then Some ''today'' else None)"

definition resolve_with_llm_fallback :: "loop_env \<Rightarrow> string \<Rightarrow> string list option \<Rightarrow> string \<Rightarrow> (turn, string option) io" where
  "resolve_with_llm_fallback env key available utterance = (case available of
      None \<Rightarrow> ret None
    | Some keys \<Rightarrow>
        if keys = [] then ret None
        else (\<lambda>t. case ask_llm env (Ask_date_key utterance key keys) t of (t', r) \<Rightarrow>
               (t', Inr (Option.bind (key_reply r) (pick_key keys)))))"

type_synonym dates_state = "bool \<times> string list option"

definition load_dates :: "loop_env \<Rightarrow> string option \<Rightarrow> dates_state \<Rightarrow> exc + dates_state" where
  "load_dates env tz st =
     (if fst st then Inr st
      else rbind (context_of env tz) (\<lambda>ctx. rbind (flatten_date_context ctx) (\<lambda>_. Inr (True, Some (get_available_keys ctx)))))"

subsection \<open>ISO timestamps in place of keys\<close>

datatype iso_verdict = Iso_clean | Iso_fixed | Iso_bad

definition iso_dates_of :: "tool_call \<Rightarrow> exc + string list" where
  "iso_dates_of c =
     rbind (call_function c) (\<lambda>f.
     Inr (case (case dget_or f ''arguments'' (PStr ''{}'') of PStr s \<Rightarrow> json_loads s | v \<Rightarrow> Some v) of
       Some (PDict args) \<Rightarrow>
         (case dget_or args ''resolved_datetimes'' (PList []) of
            PStr s \<Rightarrow> filter is_iso_datetime [s]
          | PList xs \<Rightarrow> filter is_iso_datetime (texts xs)
          | _ \<Rightarrow> [])
     | _ \<Rightarrow> []))"

definition flat_texts :: "pyval \<Rightarrow> string list" where
  "flat_texts v = (case v of PList xs \<Rightarrow> texts xs | PStr s \<Rightarrow> [s] | _ \<Rightarrow> [])"

definition reverse_multi :: "pydict \<Rightarrow> string list \<Rightarrow> string option" where
  "reverse_multi flat dates =
     map_option fst (find (\<lambda>(k, v). is_list v \<and> flat_texts v \<noteq> [] \<and> sort_strs (flat_texts v) = sort_strs dates) (rev flat))"

definition reverse_single :: "pydict \<Rightarrow> string \<Rightarrow> string option" where
  "reverse_single flat d = map_option fst (find (\<lambda>(k, v). d \<in> set (flat_texts v)) flat)"

fun all_keys :: "(string \<Rightarrow> string option) \<Rightarrow> string list \<Rightarrow> string list option" where
  "all_keys f [] = Some []"
| "all_keys f (d # ds) = (case f d of None \<Rightarrow> None | Some k \<Rightarrow> map_option (Cons k) (all_keys f ds))"

definition keys_for :: "pydict \<Rightarrow> string list \<Rightarrow> string list option" where
  "keys_for flat dates = (case reverse_multi flat dates of
      Some k \<Rightarrow> Some [k]
    | None \<Rightarrow> all_keys (reverse_single flat) dates)"

definition replace_datetimes :: "tool_call \<Rightarrow> string list \<Rightarrow> tool_call" where
  "replace_datetimes c keys = (case call_args c of
      Inr (PDict args) \<Rightarrow> set_call_args c (dset args ''resolved_datetimes'' (PList (map PStr keys)))
    | _ \<Rightarrow> c)"

definition fix_iso_call :: "pydict \<Rightarrow> tool_call \<times> string list \<Rightarrow> bool \<times> tool_call" where
  "fix_iso_call flat p = (case p of (c, dates) \<Rightarrow>
     if dates = [] then (True, c)
     else case keys_for flat dates of
         Some keys \<Rightarrow> (True, replace_datetimes c keys)
       | None \<Rightarrow> (False, c))"

definition try_fix_iso_dates :: "loop_env \<Rightarrow> string option \<Rightarrow> tool_call list \<Rightarrow> exc + iso_verdict \<times> tool_call list" where
  "try_fix_iso_dates env tz calls =
     rbind (rmap iso_dates_of calls) (\<lambda>found.
     if list_all (\<lambda>ds. ds = []) found then Inr (Iso_clean, calls)
     else rbind (flat_of env tz) (\<lambda>flat.
       let done = map (fix_iso_call flat) (zip calls found) in
       Inr (if list_all fst done then Iso_fixed else Iso_bad, map snd done)))"

subsection \<open>The dates the reply named\<close>

definition fallback_dates :: "loop_env \<Rightarrow> string option \<Rightarrow> string list option \<Rightarrow> string \<Rightarrow> string \<Rightarrow> (turn, string list) io" where
  "fallback_dates env tz keys utterance key =
     bind (resolve_with_llm_fallback env key keys utterance) (\<lambda>k. case k of
         None \<Rightarrow> ret []
       | Some k' \<Rightarrow> bind (lift (flat_of env tz)) (\<lambda>flat. ret (flat_texts (dget flat k'))))"

fun fallback_all :: "loop_env \<Rightarrow> string option \<Rightarrow> string list option \<Rightarrow> string \<Rightarrow> string list \<Rightarrow> (turn, string list) io" where
  "fallback_all env tz keys utterance [] = ret []"
| "fallback_all env tz keys utterance (u # us) =
     bind (fallback_dates env tz keys utterance u) (\<lambda>ds.
     bind (fallback_all env tz keys utterance us) (\<lambda>rest. ret (ds @ rest)))"

definition resolve_locally :: "loop_env \<Rightarrow> string option \<Rightarrow> string list \<Rightarrow> exc + (string list \<times> string list) \<times> dates_state" where
  "resolve_locally env tz date_keys =
     rbind (context_of env tz) (\<lambda>ctx.
     rbind (load_dates env tz (False, None)) (\<lambda>st.
     rbind (resolve_date_keys (le_server env) (map PStr date_keys) ctx) (\<lambda>r. Inr (r, st))))"

definition resolve_reply_dates ::
    "loop_env \<Rightarrow> string option \<Rightarrow> string option \<Rightarrow> string list \<Rightarrow> (turn, string list \<times> dates_state) io" where
  "resolve_reply_dates env tz utterance date_keys =
     (if date_keys = [] then ret ([], (False, None))
      else bind (lift (rbind (le_mcp env date_keys tz) (\<lambda>m. case m of
               Some r \<Rightarrow> Inr (r, (False, None))
             | None \<Rightarrow> resolve_locally env tz date_keys))) (\<lambda>((resolved, unresolved), st).
        if unresolved = [] \<or> \<not> otruthy utterance then ret (resolved, st)
        else bind (lift (load_dates env tz st)) (\<lambda>st'.
          bind (fallback_all env tz (snd st') (some_text utterance) unresolved) (\<lambda>more. ret (resolved @ more, st')))))"

subsection \<open>One parameter, one call\<close>

definition first_text :: "pyval \<Rightarrow> string option" where
  "first_text v = (case v of PStr s \<Rightarrow> Some s | PList (PStr s # _) \<Rightarrow> Some s | _ \<Rightarrow> None)"

definition settles_date :: "pyval \<Rightarrow> bool" where
  "settles_date v \<longleftrightarrow> is_str v \<or> (is_list v \<and> truthy v)"

definition resolve_relative_datetime ::
    "loop_env \<Rightarrow> string option \<Rightarrow> string option \<Rightarrow> dates_state \<Rightarrow> string \<Rightarrow> (turn, string option \<times> dates_state) io" where
  "resolve_relative_datetime env tz utterance st value =
     bind (lift (load_dates env tz st)) (\<lambda>st'.
     bind (lift (flat_of env tz)) (\<lambda>flat.
     let v = dget flat (normalize_date_key value) in
     if settles_date v then ret (first_text v, st')
     else if \<not> otruthy utterance then ret (None, st')
     else bind (resolve_with_llm_fallback env value (snd st') (some_text utterance)) (\<lambda>k. case k of
         None \<Rightarrow> ret (None, st')
       | Some k' \<Rightarrow> ret (first_text (dget flat k'), st'))))"

fun clean_dates ::
    "loop_env \<Rightarrow> string option \<Rightarrow> string option \<Rightarrow> dates_state \<Rightarrow> pyval list \<Rightarrow> (turn, string list \<times> dates_state) io" where
  "clean_dates env tz utterance st [] = ret ([], st)"
| "clean_dates env tz utterance st (v # vs) = (case v of
      PStr s \<Rightarrow>
        if is_iso_datetime s then
          bind (clean_dates env tz utterance st vs) (\<lambda>(ds, st'). ret (s # ds, st'))
        else bind (resolve_relative_datetime env tz utterance st s) (\<lambda>(r, st1).
          bind (clean_dates env tz utterance st1 vs) (\<lambda>(ds, st'). ret ((if otruthy r then some_text r # ds else ds), st')))
    | _ \<Rightarrow> clean_dates env tz utterance st vs)"

definition default_dates :: "loop_env \<Rightarrow> string option \<Rightarrow> dates_state \<Rightarrow> string list \<Rightarrow> exc + string list \<times> dates_state" where
  "default_dates env tz st resolved =
     (if resolved \<noteq> [] then Inr (resolved, st)
      else rbind (flat_of env tz) (\<lambda>flat. Inr (flat_texts (dget flat ''today''), (True, snd st))))"

definition date_value :: "bool \<Rightarrow> string list \<Rightarrow> pyval" where
  "date_value is_array ds = (if is_array then PList (map PStr ds) else PStr (hd ds))"

definition inject_param ::
    "loop_env \<Rightarrow> string option \<Rightarrow> string option \<Rightarrow> string list \<Rightarrow> dates_state \<Rightarrow> pydict \<Rightarrow> string \<times> pyval
     \<Rightarrow> (turn, (pydict \<times> bool) \<times> dates_state) io" where
  "inject_param env tz utterance resolved st args spec = (case spec of (param, schema) \<Rightarrow>
     let existing = dget args param; is_array = is_datetime_array schema in
     if \<not> is_datetime_param schema then ret ((args, False), st)
     else if existing \<in> {PNone, PList [], PStr []} then
       bind (lift (default_dates env tz st resolved)) (\<lambda>(ds, st').
       ret (if ds = [] then (args, False) else (dset args param (date_value is_array ds), True), st'))
     else case (is_array, existing) of
         (True, PList xs) \<Rightarrow>
           bind (clean_dates env tz utterance st xs) (\<lambda>(ds, st').
           ret (if map PStr ds = xs then (args, False)
                else (dset args param (PList (map PStr (if ds = [] then resolved else ds))), True), st'))
       | (False, PStr s) \<Rightarrow>
           if is_iso_datetime s then ret ((args, False), st)
           else bind (resolve_relative_datetime env tz utterance st s) (\<lambda>(r, st').
             ret (if otruthy r then (dset args param (PStr (some_text r)), True)
                  else if resolved \<noteq> [] then (dset args param (PStr (hd resolved)), True)
                  else (args, False), st'))
       | _ \<Rightarrow> ret ((args, False), st))"

fun inject_specs ::
    "loop_env \<Rightarrow> string option \<Rightarrow> string option \<Rightarrow> string list \<Rightarrow> dates_state \<Rightarrow> pydict \<Rightarrow> (string \<times> pyval) list
     \<Rightarrow> (turn, (pydict \<times> bool) \<times> dates_state) io" where
  "inject_specs env tz utterance resolved st args [] = ret ((args, False), st)"
| "inject_specs env tz utterance resolved st args (p # ps) =
     bind (inject_param env tz utterance resolved st args p) (\<lambda>((args1, b1), st1).
     bind (inject_specs env tz utterance resolved st1 args1 ps) (\<lambda>((args2, b2), st2). ret ((args2, b1 \<or> b2), st2)))"

definition tool_def :: "pydict list \<Rightarrow> string \<Rightarrow> pydict" where
  "tool_def tools name = fold (\<lambda>t found. case dget t ''function'' of
       PDict f \<Rightarrow> if name \<noteq> [] \<and> dget f ''name'' = PStr name then f else found
     | _ \<Rightarrow> if dget t ''name'' = PStr name then t else found) tools []"

definition inject_call ::
    "loop_env \<Rightarrow> string option \<Rightarrow> string option \<Rightarrow> pydict list \<Rightarrow> string list \<Rightarrow> dates_state \<Rightarrow> tool_call
     \<Rightarrow> (turn, tool_call \<times> dates_state) io" where
  "inject_call env tz utterance tools resolved st c =
     bind (lift (call_name c)) (\<lambda>name.
     if \<not> truthy name then ret (c, st)
     else bind (lift (hash_key name)) (\<lambda>k.
       let d = (case k of None \<Rightarrow> [] | Some s \<Rightarrow> tool_def tools s) in
       bind (lift (dict_get (dget_or d ''parameters'' (PDict [])) ''properties'' (PDict []))) (\<lambda>props.
       bind (lift (call_args c)) (\<lambda>v. case (props, v) of
           (PDict specs, PDict args) \<Rightarrow>
             bind (inject_specs env tz utterance resolved st args specs) (\<lambda>((args', mutated), st').
             ret (if mutated then set_call_args c args' else c, st'))
         | _ \<Rightarrow> ret (c, st)))))"

fun inject_calls ::
    "loop_env \<Rightarrow> string option \<Rightarrow> string option \<Rightarrow> pydict list \<Rightarrow> string list \<Rightarrow> dates_state \<Rightarrow> tool_call list
     \<Rightarrow> (turn, tool_call list) io" where
  "inject_calls env tz utterance tools resolved st [] = ret []"
| "inject_calls env tz utterance tools resolved st (c # cs) =
     bind (inject_call env tz utterance tools resolved st c) (\<lambda>(c', st').
     bind (inject_calls env tz utterance tools resolved st' cs) (\<lambda>cs'. ret (c' # cs')))"

definition inject_date_keys ::
    "loop_env \<Rightarrow> string option \<Rightarrow> string option \<Rightarrow> pydict list \<Rightarrow> string list \<Rightarrow> tool_call list \<Rightarrow> (turn, tool_call list) io" where
  "inject_date_keys env tz utterance tools date_keys calls =
     (if calls = [] then ret []
      else bind (resolve_reply_dates env tz utterance date_keys) (\<lambda>(resolved, st).
        inject_calls env tz utterance tools resolved st calls))"

end
