(* ===== verification/Tool_Loop.thy ===== *)
theory Tool_Loop
  imports Date_Injection
begin

section \<open>The tool loop\<close>

text \<open>
  \<^verbatim>\<open>ToolExecutionEngine.execute\<close> of \<^verbatim>\<open>app/core/tool_execution_engine.py\<close>: one language-model request per
  iteration, then a decision on its reply. \<open>voice_turn\<close> holds what the call fixes, \<open>looper\<close> what one
  iteration hands to the next. Logs, metrics and timing are left out. The reply's list of calls is
  the same object in the transcript, so rewriting a call rewrites the last message (\<open>show_calls\<close>).
  Names of commands and tools in the definitions of the household are text.
\<close>

record voice_turn =
  vt_cid :: string
  vt_tools :: "pydict list"
  vt_utterance :: "string option"
  vt_double_check :: bool
  vt_zone :: "string option"
  vt_adapter :: pyval
  vt_native :: "pydict list option"

record looper =
  lo_popped :: "string option"
  lo_checked :: bool
  lo_nudged :: "(pyval \<times> string) list"
  lo_pending :: bool
  lo_budget :: int
  lo_reasoning :: "string list"

datatype flow = Again looper | Done pydict

subsection \<open>Steering messages\<close>

definition is_retry_nag :: "string \<Rightarrow> pydict \<Rightarrow> bool" where
  "is_retry_nag tag m \<longleftrightarrow>
     role_is ''system'' m \<and> starts_with (lstrip (py_str (dget_or m ''content'' (PStr [])))) tag"

definition must_call_tag :: string where
  "must_call_tag = ''[MUST_CALL_RETRY]''"

definition dedupe_tag :: string where
  "dedupe_tag = ''[TOOL_DEDUPE]''"

definition double_check_tag :: string where
  "double_check_tag = ''[NOT_FOR_ME_DOUBLE_CHECK]''"

definition is_stale_nag :: "pydict \<Rightarrow> bool" where
  "is_stale_nag m \<longleftrightarrow> is_retry_nag must_call_tag m \<or> is_retry_nag dedupe_tag m"

definition scrub_stale :: "pydict list \<Rightarrow> pydict list" where
  "scrub_stale ms = (case ms of [] \<Rightarrow> [] | m # r \<Rightarrow> m # filter (\<lambda>x. \<not> is_stale_nag x) r)"

definition system_message :: "string \<Rightarrow> pydict" where
  "system_message s = [(''role'', PStr ''system''), (''content'', PStr s)]"

definition nag_count :: "string \<Rightarrow> pydict list \<Rightarrow> nat" where
  "nag_count tag ms = length (filter (is_retry_nag tag) ms)"

definition must_call_retry_count :: "pydict list \<Rightarrow> nat" where
  "must_call_retry_count = nag_count must_call_tag"

definition invalid_param_retry_count :: "pydict list \<Rightarrow> nat" where
  "invalid_param_retry_count = nag_count ''[INVALID_PARAM_RETRY]''"

text \<open>\<open>in\<close> on a value that need not be text.\<close>

definition contains_tag :: "string \<Rightarrow> pyval \<Rightarrow> exc + bool" where
  "contains_tag tag v = (case v of
      PStr s \<Rightarrow> Inr (has_sub s tag)
    | PList xs \<Rightarrow> Inr (PStr tag \<in> set xs)
    | PDict d \<Rightarrow> Inr (dhas d tag)
    | _ \<Rightarrow> Inl (TypeError ''argument is not iterable''))"

definition iso_date_tag :: string where
  "iso_date_tag = ''[ISO_DATE_RETRY]''"

definition iso_date_retry_count :: "pydict list \<Rightarrow> exc + nat" where
  "iso_date_retry_count ms =
     rbind (rmap (\<lambda>m. contains_tag iso_date_tag (dget_or m ''content'' (PStr []))) (filter (role_is ''system'') ms)) (\<lambda>bs.
     Inr (length (filter id bs)))"

definition iso_date_nag :: pydict where
  "iso_date_nag = system_message
     (iso_date_tag @ '' The dates you provided were incorrect. Use date KEY STRINGS only: today, tomorrow, yesterday, this_weekend, etc. Example: {'' @
      [CHR 0x22] @ ''resolved_datetimes'' @ [CHR 0x22] @ '': ['' @ [CHR 0x22] @ ''today'' @ [CHR 0x22] @ '']}. Try again.'')"

definition force_nag :: "nat \<Rightarrow> pydict" where
  "force_nag retry_count = system_message
     (must_call_tag @ '' You MUST call a tool. Do NOT answer directly. Pick the best matching function from the available tools. (attempt '' @
      nat_str (retry_count + 1) @ ''/2)'')"

definition must_call_nag :: "string list \<Rightarrow> pydict" where
  "must_call_nag names = system_message
     (must_call_tag @ '' Direct answers are not allowed for this request. You must call exactly one tool next. Tools that require a call: '' @
      join '', '' names @ ''.'')"

definition dedupe_nag :: "string \<Rightarrow> pydict" where
  "dedupe_nag tool = system_message
     (dedupe_tag @ '' The results of '' @ tool @ '' with those arguments are already in this conversation above - answer from them concisely; do not re-run the tool or repeat the full results aloud.'')"

definition invalid_param_nag :: "nat \<Rightarrow> int \<Rightarrow> string list \<Rightarrow> pydict" where
  "invalid_param_nag retry_count max_retries invalid = system_message
     (''[INVALID_PARAM_RETRY '' @ nat_str (retry_count + 1) @ ''/'' @ int_str max_retries @
      ''] Some parameters have invalid types or formats. Fix the parameters to match expected types and return absolute date/time values when required. Invalid: '' @
      join '', '' invalid)"

definition double_check_nag :: pydict where
  "double_check_nag = [(''role'', PStr ''user''), (''content'', PStr (double_check_tag @
     '' You dismissed that utterance with <not_for_me/>, but the wake evidence says it was directed at you (wake word fired; the room was quiet). Re-read it and reason it through. Remember: speech ABOUT a person or pet by name - '' @
     [CHR 0x22] @ ''who is Leo?'' @ [CHR 0x22] @ '', '' @ [CHR 0x22] @ ''where'' @ [CHR 0x27] @ ''s mom?'' @ [CHR 0x22] @
     '' - is a question FOR you; answer it from the User Profile or the recall tool. Only if you still conclude the speech was not aimed at you, reply with <not_for_me/> alone again. Otherwise answer normally or call the right tool. /think''))]"

subsection \<open>Identical calls\<close>

fun insert_field :: "string \<times> pyval \<Rightarrow> pydict \<Rightarrow> pydict" where
  "insert_field f [] = [f]"
| "insert_field f (g # gs) = (if str_le (fst f) (fst g) then f # g # gs else g # insert_field f gs)"

definition sort_fields :: "pydict \<Rightarrow> pydict" where
  "sort_fields d = foldr insert_field d []"

fun compact_dumps :: "pyval \<Rightarrow> string" where
  "compact_dumps (PList xs) = ''['' @ join '','' (map compact_dumps xs) @ '']''"
| "compact_dumps (PDict d) =
     ''{'' @ join '','' (map (\<lambda>(k, s). json_quote k @ '':'' @ s)
        (map (\<lambda>(k, v). (k, case v of PStr s \<Rightarrow> s | _ \<Rightarrow> [])) (sort_fields (map (\<lambda>(k, v). (k, PStr (compact_dumps v))) d)))) @ ''}''"
| "compact_dumps v = json_dumps v"

definition canonical_args_key :: "loop_env \<Rightarrow> pyval \<Rightarrow> string option" where
  "canonical_args_key env arguments =
     map_option (\<lambda>v. le_sha env (compact_dumps (if v = PNone then PDict [] else v)))
       (case arguments of PStr s \<Rightarrow> json_loads s | v \<Rightarrow> Some v)"

definition call_key :: "loop_env \<Rightarrow> tool_call \<Rightarrow> (pyval \<times> string) option" where
  "call_key env c = (case dget c ''function'' of
      PDict f \<Rightarrow> if truthy (dget f ''name'')
                 then map_option (Pair (dget f ''name'')) (canonical_args_key env (dget f ''arguments'')) else None
    | _ \<Rightarrow> None)"

definition issued_within :: "loop_env \<Rightarrow> int \<Rightarrow> client_call list \<Rightarrow> pyval \<times> string \<Rightarrow> bool" where
  "issued_within env now issued k \<longleftrightarrow>
     (\<exists>r \<in> set issued. ic_name r = fst k \<and> ic_hash r = snd k \<and> of_int (now - ic_time r) \<le> le_window env * 1000000)"

definition find_duplicate_issued_call ::
    "loop_env \<Rightarrow> int \<Rightarrow> client_call list \<Rightarrow> (pyval \<times> string) list \<Rightarrow> tool_call list \<Rightarrow> (pyval \<times> string) option" where
  "find_duplicate_issued_call env now issued nudged calls =
     (if le_window env \<le> 0 then None
      else find (\<lambda>k. k \<notin> set nudged \<and> issued_within env now issued k) (List.map_filter (call_key env) calls))"

fun record_calls :: "string \<Rightarrow> (pyval \<times> string) list \<Rightarrow> conv_cache \<Rightarrow> conv_cache" where
  "record_calls cid [] c = c"
| "record_calls cid ((name, key) # ks) c = record_calls cid ks (record_issued_client_call cid name key c)"

subsection \<open>What the household declared\<close>

definition declared_name :: "string \<Rightarrow> pydict \<Rightarrow> string list" where
  "declared_name k d = (case dget d k of PStr s \<Rightarrow> if s = [] then [] else [s] | _ \<Rightarrow> [])"

definition must_call_tools :: "pydict list \<Rightarrow> pydict list \<Rightarrow> string list" where
  "must_call_tools commands tools =
     sort_strs (dedupe
       (concat (map (declared_name ''command_name'') (filter (\<lambda>c. dget c ''allow_direct_answer'' = PBool False) commands)) @
        concat (map (\<lambda>t. case dget t ''function'' of PDict f \<Rightarrow> declared_name ''name'' f | _ \<Rightarrow> declared_name ''name'' t)
                    (filter (\<lambda>t. dget t ''allow_direct_answer'' = PBool False) tools))))"

definition param_specs :: "pydict \<Rightarrow> exc + (string \<times> pydict) list" where
  "param_specs cmd =
     (case declared_name ''command_name'' cmd of
        [] \<Rightarrow> Inr []
      | name # _ \<Rightarrow> (case por (dget cmd ''parameters'') (PList []) of
          PList ps \<Rightarrow> rbind (rmap (\<lambda>p. as_dict (por p (PDict []))) ps) (\<lambda>ds. Inr (map (Pair name) ds))
        | _ \<Rightarrow> Inl (AttributeError ''get'')))"

definition put_spec :: "string \<Rightarrow> string \<Rightarrow> 'a \<Rightarrow> (string \<times> (string \<times> 'a) list) list \<Rightarrow> (string \<times> (string \<times> 'a) list) list" where
  "put_spec cmd param x m =
     AList.update cmd (AList.update param x (case map_of m cmd of None \<Rightarrow> [] | Some l \<Rightarrow> l)) m"

definition build_param_maps :: "pydict list \<Rightarrow> exc + type_map \<times> enum_map" where
  "build_param_maps commands =
     rbind (rmap param_specs commands) (\<lambda>specs.
     Inr (fold (\<lambda>(cmd, p) m. case (dget p ''name'', dget p ''type'') of
                  (PStr n, PStr ty) \<Rightarrow> if n = [] \<or> ty = [] then m else put_spec cmd n ty m | _ \<Rightarrow> m) (concat specs) [],
          fold (\<lambda>(cmd, p) m. case (dget p ''name'', dget p ''enum_values'') of
                  (PStr n, PList vs) \<Rightarrow> if n = [] \<or> vs = [] then m else put_spec cmd n vs m | _ \<Rightarrow> m) (concat specs) []))"

definition env_int :: "string option \<Rightarrow> int \<Rightarrow> int" where
  "env_int raw default_value = (case raw of
      None \<Rightarrow> default_value
    | Some s \<Rightarrow> if strip s = [] then default_value else (case int_of_str s of Some i \<Rightarrow> i | None \<Rightarrow> default_value))"

definition extension_keys :: "string list" where
  "extension_keys = [''allow_direct_answer'', ''is_server_tool'', ''command_name'', ''keywords'', ''examples'', ''_refinable'']"

definition unmark :: "pyval \<Rightarrow> pyval" where
  "unmark v = (case v of PDict s \<Rightarrow> PDict (AList.delete ''_refinable'' s) | _ \<Rightarrow> v)"

definition strip_jarvis_extensions :: "pydict list \<Rightarrow> exc + pydict list" where
  "strip_jarvis_extensions tools = rmap (\<lambda>tool.
     let clean = filter (\<lambda>(k, v). k \<notin> set extension_keys) tool in
     rbind (as_dict (dget_or clean ''function'' (PDict []))) (\<lambda>f.
     rbind (as_dict (dget_or f ''parameters'' (PDict []))) (\<lambda>ps.
     case dget_or ps ''properties'' (PDict []) of
       PDict props \<Rightarrow>
         Inr (if props = [] then clean
              else dset clean ''function'' (PDict (dset f ''parameters'' (PDict (dset ps ''properties''
                (PDict (map (\<lambda>(k, v). (k, unmark v)) props)))))))
     | v \<Rightarrow> if truthy v then Inl (AttributeError ''values'') else Inr clean))) tools"

end
