(* ===== verification/Tool_Engine.thy ===== *)
theory Tool_Engine
  imports Tool_Loop
begin

section \<open>One iteration, the loop, a turn\<close>

text \<open>
  The body of \<^verbatim>\<open>execute\<close>: ask the model, read its reply, then one of three decisions. A marker
  that says the speech was not for the assistant ends the turn, restores an answer a guard had popped, or
  buys one second opinion. An answer in prose is accepted, or popped and answered with a steering message that
  demands a tool. Tool calls are corrected, run or forwarded.
\<close>

definition with_reasoning :: "looper \<Rightarrow> pydict \<Rightarrow> pydict" where
  "with_reasoning lo d =
     (if lo_reasoning lo = [] then d
      else dset d ''reasoning'' (PStr (join (newline @ newline) (lo_reasoning lo))))"

definition finished :: "looper \<Rightarrow> pydict \<Rightarrow> flow" where
  "finished lo d = Done (with_reasoning lo d)"

subsection \<open>The reply\<close>

record reply =
  re_raw :: string
  re_finish :: string
  re_calls :: "tool_call list"
  re_message :: pyval
  re_dates :: "string list"

definition turn_request :: "loop_env \<Rightarrow> voice_turn \<Rightarrow> int \<Rightarrow> pydict list \<Rightarrow> ask" where
  "turn_request env vt budget ms =
     (case le_provider env of
        Some p \<Rightarrow> if pv_native p then Ask_turn ms (vt_native vt) PNone (vt_adapter vt) budget
                  else Ask_turn ms None (case pv_format p of Some f \<Rightarrow> f | None \<Rightarrow> le_format env) (vt_adapter vt) budget
      | None \<Rightarrow> Ask_turn ms None (le_format env) (vt_adapter vt) budget)"

definition is_native :: "loop_env \<Rightarrow> bool" where
  "is_native env \<longleftrightarrow> (case le_provider env of Some p \<Rightarrow> pv_native p | None \<Rightarrow> False)"

definition no_content :: "pydict option \<times> string \<times> pyval" where
  "no_content = (None, [], PStr ''stop'')"

definition extract_content :: "pydict \<Rightarrow> exc + pydict option \<times> string \<times> pyval" where
  "extract_content response = (case dget response ''choices'' of
      PList (PDict choice # _) \<Rightarrow>
        let finish = dget_or choice ''finish_reason'' (PStr ''stop'') in
        (case dget choice ''message'' of
           PDict m \<Rightarrow> (case dget m ''content'' of
               PStr s \<Rightarrow> Inr (Some m, s, finish)
             | v \<Rightarrow> if \<not> truthy v then Inr (Some m, [], finish)
                     else if is_list v \<or> is_dict v then Inl (TypeError ''expected string or bytes-like object'')
                     else Inr no_content)
         | PStr s \<Rightarrow> Inr (None, s, finish)
         | _ \<Rightarrow> Inr (None, [], finish))
    | _ \<Rightarrow> Inr no_content)"

definition reply_dates :: "pydict \<Rightarrow> string list" where
  "reply_dates response = (case dget response ''date_keys'' of
      PList ks \<Rightarrow> map normalize_date_key (texts ks) | _ \<Rightarrow> [])"

definition take_ids :: "(nat \<Rightarrow> exc + 'a \<times> nat) \<Rightarrow> (turn, 'a) io" where
  "take_ids f = (\<lambda>t. case f (tn_ids t) of Inl e \<Rightarrow> (t, Inl e) | Inr (x, n) \<Rightarrow> (t\<lparr>tn_ids := n\<rparr>, Inr x))"

text \<open>\<^verbatim>\<open>parse_response\<close> always returns (theory \<^verbatim>\<open>Parser_Facts\<close>), so taking its value is safe.\<close>

definition read_calls :: "loop_env \<Rightarrow> pydict option \<times> string \<times> pyval \<Rightarrow> (turn, reading) io" where
  "read_calls env content = (case content of (msg, raw, finish) \<Rightarrow>
     if is_native env then
       (let calls = (case msg of Some m \<Rightarrow> dget m ''tool_calls'' | None \<Rightarrow> PNone) in
        if finish = PStr ''tool_calls'' \<and> truthy calls then
          (case calls of
             PList vs \<Rightarrow> bind (take_ids (\<lambda>n. normalize_native_tool_calls n vs)) (\<lambda>cs.
               ret \<lparr>rd_finish = ''tool_calls'', rd_calls = cs, rd_message = PStr raw\<rparr>)
           | v \<Rightarrow> throw (if is_str v \<or> is_dict v then AttributeError ''get'' else TypeError ''not iterable''))
        else ret (plain_reading (PStr raw)))
     else
       let parsed = (case le_provider env of None \<Rightarrow> raw | Some p \<Rightarrow> (case pv_parse p raw of Some s \<Rightarrow> s | None \<Rightarrow> raw)) in
       take_ids (\<lambda>n. Inr (the (parse_response n parsed))))"

definition assistant_message :: "string \<Rightarrow> tool_call list \<Rightarrow> pydict" where
  "assistant_message raw calls =
     [(''role'', PStr ''assistant''), (''content'', PStr raw)] @
     (if calls = [] then [] else [(''tool_calls'', PList (map PDict calls))])"

definition mentions :: "string \<Rightarrow> pydict \<Rightarrow> bool" where
  "mentions tag m \<longleftrightarrow> has_sub (py_str (dget_or m ''content'' (PStr []))) tag"

text \<open>The reply joins the transcript; the steering messages it answers leave it.\<close>

definition settle_transcript :: "looper \<Rightarrow> string \<Rightarrow> tool_call list \<Rightarrow> pydict list \<Rightarrow> pydict list" where
  "settle_transcript lo raw calls ms =
     (let ms1 = ms @ [assistant_message raw calls];
          ms2 = (if lo_checked lo then filter (\<lambda>m. \<not> mentions double_check_tag m) ms1 else ms1)
      in if lo_pending lo then filter (\<lambda>m. \<not> is_retry_nag dedupe_tag m) ms2 else ms2)"

definition still_shown :: "looper \<Rightarrow> string \<Rightarrow> bool" where
  "still_shown lo raw \<longleftrightarrow> \<not> (lo_checked lo \<and> has_sub raw double_check_tag)"

definition show_calls :: "bool \<Rightarrow> tool_call list \<Rightarrow> (turn, unit) io" where
  "show_calls shown calls = modify (tn_messages_update (\<lambda>ms.
     if shown \<and> calls \<noteq> [] \<and> ms \<noteq> [] then butlast ms @ [dset (last ms) ''tool_calls'' (PList (map PDict calls))] else ms))"

subsection \<open>Not for me\<close>

definition message_text :: "pyval \<Rightarrow> string option" where
  "message_text v = (case v of PStr s \<Rightarrow> Some s | _ \<Rightarrow> None)"

definition says_not_for_me :: "reply \<Rightarrow> bool" where
  "says_not_for_me r \<longleftrightarrow> contains_sentinel (Some (outside_think (re_raw r))) \<or>
     contains_sentinel (map_option outside_think (message_text (re_message r)))"

fun drop_nags :: "pydict list \<Rightarrow> pydict list" where
  "drop_nags [] = []"
| "drop_nags (m # ms) = (if is_retry_nag must_call_tag m then drop_nags ms else m # ms)"

definition drop_reply_and_nags :: "pydict list \<Rightarrow> pydict list" where
  "drop_reply_and_nags ms =
     (let ms1 = (if ms \<noteq> [] \<and> role_is ''assistant'' (last ms) then butlast ms else ms) in rev (drop_nags (rev ms1)))"

definition spoken :: "loop_env \<Rightarrow> string \<Rightarrow> string" where
  "spoken env s = clean_for_tts (case le_provider env of Some p \<Rightarrow> pv_sanitize p s | None \<Rightarrow> s)"

definition on_sentinel :: "loop_env \<Rightarrow> voice_turn \<Rightarrow> nat \<Rightarrow> looper \<Rightarrow> reply \<Rightarrow> (turn, flow) io" where
  "on_sentinel env vt left lo r = (case lo_popped lo of
      Some answer \<Rightarrow>
        let restored = spoken env answer in
        bind (modify (tn_messages_update (\<lambda>ms. drop_reply_and_nags ms @
               [[(''role'', PStr ''assistant''), (''content'', PStr restored)]]))) (\<lambda>_.
        ret (finished lo [(''stop_reason'', PStr ''complete''), (''assistant_message'', PStr restored)]))
    | None \<Rightarrow>
        if vt_double_check vt \<and> \<not> lo_checked lo \<and> left > 0 then
          bind drop_last_message (\<lambda>_.
          bind (append_messages [double_check_nag]) (\<lambda>_.
          ret (Again (lo\<lparr>lo_checked := True, lo_budget := 1536\<rparr>))))
        else ret (finished lo [(''stop_reason'', PStr ''not_for_me''), (''assistant_message'', PStr (re_raw r))]))"

subsection \<open>An answer in prose\<close>

definition terminal_texts :: "reply \<Rightarrow> string list" where
  "terminal_texts r = outside_think (re_raw r) #
     (case re_message r of
        PStr s \<Rightarrow> [outside_think s]
      | PDict d \<Rightarrow> (case dget d ''content'' of PStr s \<Rightarrow> [outside_think s] | _ \<Rightarrow> [])
      | _ \<Rightarrow> [])"

definition ends_exchange :: "reply \<Rightarrow> bool" where
  "ends_exchange r \<longleftrightarrow> list_ex (\<lambda>t. contains_marker (Some t)) (terminal_texts r)"

definition is_terminal :: "reply \<Rightarrow> bool" where
  "is_terminal r \<longleftrightarrow> ends_exchange r \<or> list_ex (\<lambda>t. contains_sentinel (Some t)) (terminal_texts r)"

definition asks_question :: "voice_turn \<Rightarrow> bool" where
  "asks_question vt \<longleftrightarrow> otruthy (vt_utterance vt) \<and> is_question_shaped (some_text (vt_utterance vt))"

definition or_nil :: "'a list option \<Rightarrow> 'a list" where
  "or_nil x = (case x of None \<Rightarrow> [] | Some xs \<Rightarrow> xs)"

definition keyword_gate :: "voice_turn \<Rightarrow> reply \<Rightarrow> (turn, bool) io" where
  "keyword_gate vt r =
     (let u = some_text (vt_utterance vt);
          actionable = (is_action_command_shaped u \<or> is_report_shaped u);
          claims = list_ex response_claims_action (terminal_texts r) in
      if asks_question vt \<or> \<not> (actionable \<or> claims) then ret False
      else
        bind (with_cache (get_available_commands (vt_cid vt))) (\<lambda>commands.
        bind (with_cache (get_tools (vt_cid vt))) (\<lambda>tools.
        let pool = collect_tool_keywords [or_nil commands, or_nil tools, vt_tools vt];
            text = (if claims \<and> \<not> actionable then join '' '' (u # filter (\<lambda>t. t \<noteq> []) (terminal_texts r)) else u)
        in ret (pool = [] \<or> utterance_matches_keywords text pool))))"

definition stash :: "reply \<Rightarrow> looper \<Rightarrow> looper" where
  "stash r lo = (case re_message r of PStr s \<Rightarrow> if strip s = [] then lo else lo\<lparr>lo_popped := Some s\<rparr> | _ \<Rightarrow> lo)"

definition pop_and_nag :: "reply \<Rightarrow> looper \<Rightarrow> pydict \<Rightarrow> (turn, flow) io" where
  "pop_and_nag r lo nag =
     bind drop_last_message (\<lambda>_. bind (append_messages [nag]) (\<lambda>_. ret (Again (stash r lo))))"

definition clean_answer :: "loop_env \<Rightarrow> pyval \<Rightarrow> pyval" where
  "clean_answer env v = (case v of
      PStr s \<Rightarrow> if s = [] then v else PStr (spoken env s)
    | PDict d \<Rightarrow> (case dget d ''content'' of
        PStr s \<Rightarrow> if s = [] \<or> spoken env s = s then v else PDict (dset d ''content'' (PStr (spoken env s)))
      | _ \<Rightarrow> v)
    | _ \<Rightarrow> v)"

definition accept_answer :: "loop_env \<Rightarrow> looper \<Rightarrow> reply \<Rightarrow> flow" where
  "accept_answer env lo r =
     (let d = [(''stop_reason'', PStr ''complete''), (''assistant_message'', clean_answer env (re_message r))] in
      finished lo (if ends_exchange r then dset d ''end_of_exchange'' (PBool True) else d))"

definition router_used :: "pydict option \<Rightarrow> bool" where
  "router_used d \<longleftrightarrow> (case d of None \<Rightarrow> False | Some r \<Rightarrow> truthy (dget r ''used''))"

definition per_command_guard :: "loop_env \<Rightarrow> voice_turn \<Rightarrow> looper \<Rightarrow> reply \<Rightarrow> nat \<Rightarrow> (turn, flow) io" where
  "per_command_guard env vt lo r count =
     bind (with_cache (get_router_decision (vt_cid vt))) (\<lambda>router.
     bind (with_cache (get_available_commands (vt_cid vt))) (\<lambda>commands.
     let must = must_call_tools (or_nil commands) (vt_tools vt) in
     if must \<noteq> [] \<and> router_used router \<and> count < 1 \<and> \<not> lo_checked lo \<and> \<not> is_terminal r \<and> \<not> asks_question vt
     then pop_and_nag r lo (must_call_nag must)
     else ret (accept_answer env lo r)))"

definition on_answer :: "loop_env \<Rightarrow> voice_turn \<Rightarrow> looper \<Rightarrow> reply \<Rightarrow> (turn, flow) io" where
  "on_answer env vt lo r =
     bind (with_cache (get_force_tool_calls (vt_cid vt))) (\<lambda>declared.
     bind (gets (\<lambda>t. must_call_retry_count (tn_messages t))) (\<lambda>count.
     let armed = (count < 2 \<and> \<not> lo_checked lo \<and> \<not> is_terminal r) in
     bind (if declared \<and> armed \<and> otruthy (vt_utterance vt) then keyword_gate vt r else ret declared) (\<lambda>force.
     if force \<and> armed then pop_and_nag r lo (force_nag count) else per_command_guard env vt lo r count)))"

subsection \<open>Tool calls\<close>

definition call_named :: "tool_call list \<Rightarrow> string \<Rightarrow> bool" where
  "call_named calls name \<longleftrightarrow> list_ex (\<lambda>c. call_name c = Inr (PStr name)) calls"

definition validation_request :: "pydict \<Rightarrow> pydict option" where
  "validation_request m = (case dget m ''content'' of
      PStr s \<Rightarrow> (case json_loads s of
        Some (PDict c) \<Rightarrow>
          if truthy (dget c ''_validation_request'') \<and> dhas c ''question'' \<and> dhas c ''parameter_name''
          then Some [(''question'', dget c ''question''), (''parameter_name'', dget c ''parameter_name''),
                     (''options'', dget_or c ''options'' (PList []))]
          else None
      | _ \<Rightarrow> None)
    | _ \<Rightarrow> None)"

definition on_duplicate :: "looper \<Rightarrow> pyval \<times> string \<Rightarrow> (turn, flow) io" where
  "on_duplicate lo k =
     bind (modify (tn_messages_update (\<lambda>ms.
        (if ms \<noteq> [] \<and> role_is ''assistant'' (last ms) then butlast ms else ms) @ [dedupe_nag (py_str (fst k))]))) (\<lambda>_.
     ret (Again (lo\<lparr>lo_nudged := k # lo_nudged lo, lo_pending := True\<rparr>)))"

definition refine_clients :: "loop_env \<Rightarrow> voice_turn \<Rightarrow> tool_call list \<Rightarrow> (turn, tool_call list) io" where
  "refine_clients env vt calls =
     bind (with_cache (get_force_tool_calls (vt_cid vt))) (\<lambda>force.
     if force \<and> otruthy (vt_utterance vt) then
       bind (with_cache (get_tools (vt_cid vt))) (\<lambda>tools.
       refine_params env (or_nil tools) (some_text (vt_utterance vt)) calls)
     else ret calls)"

definition client_faults :: "voice_turn \<Rightarrow> tool_call list \<Rightarrow> (turn, string list) io" where
  "client_faults vt calls =
     bind (with_cache (get_available_commands (vt_cid vt))) (\<lambda>commands.
     lift (rbind (build_param_maps (or_nil commands)) (\<lambda>(types, enums). find_invalid_params calls types enums)))"

definition retry_limit :: "loop_env \<Rightarrow> int" where
  "retry_limit env = env_int (le_retry_max env) (if le_small env then 1 else 2)"

definition forward_clients :: "loop_env \<Rightarrow> voice_turn \<Rightarrow> looper \<Rightarrow> reply \<Rightarrow> tool_call list \<Rightarrow> (turn, flow) io" where
  "forward_clients env vt lo r calls =
     bind (with_cache (\<lambda>c. (record_calls (vt_cid vt) (List.map_filter (call_key env) calls) c, ()))) (\<lambda>_.
     ret (finished (lo\<lparr>lo_pending := False\<rparr>)
       [(''stop_reason'', PStr ''tool_calls''), (''tool_calls'', PList (map PDict calls)), (''assistant_message'', re_message r)]))"

definition on_client_calls :: "loop_env \<Rightarrow> voice_turn \<Rightarrow> bool \<Rightarrow> looper \<Rightarrow> reply \<Rightarrow> tool_call list \<Rightarrow> (turn, flow) io" where
  "on_client_calls env vt shown lo r calls0 =
     bind (refine_clients env vt calls0) (\<lambda>calls.
     bind (show_calls shown calls) (\<lambda>_.
     bind (if le_window env \<le> 0 then ret [] else with_cache (get_issued_client_calls (vt_cid vt))) (\<lambda>issued.
     bind (gets (\<lambda>t. find_duplicate_issued_call env (cc_now (tn_cache t)) issued (lo_nudged lo) calls)) (\<lambda>dup.
     case dup of
       Some k \<Rightarrow> on_duplicate lo k
     | None \<Rightarrow>
         bind (client_faults vt calls) (\<lambda>invalid.
         bind (gets (\<lambda>t. invalid_param_retry_count (tn_messages t))) (\<lambda>count.
         if invalid \<noteq> [] \<and> int count < retry_limit env then
           bind (append_messages [invalid_param_nag count (retry_limit env) invalid]) (\<lambda>_. ret (Again lo))
         else forward_clients env vt lo r calls))))))"

definition run_calls :: "loop_env \<Rightarrow> voice_turn \<Rightarrow> bool \<Rightarrow> looper \<Rightarrow> reply \<Rightarrow> tool_call list \<Rightarrow> (turn, flow) io" where
  "run_calls env vt shown lo r calls =
     bind (execute_tool_calls env (vt_cid vt) (vt_utterance vt) calls) (\<lambda>(results, clients).
     bind (append_messages results) (\<lambda>_.
     let validation = call_named calls ''request_validation''; examples = call_named calls ''get_command_examples'';
         others = (length calls > 1 \<or> clients \<noteq> [] \<or> examples) in
     if examples \<or> validation \<and> others then ret (Again lo)
     else case (if validation then List.map_filter validation_request results else []) of
         v # _ \<Rightarrow> ret (finished lo [(''stop_reason'', PStr ''validation_required''), (''validation_request'', PDict v)])
       | [] \<Rightarrow>
           if clients \<noteq> [] then
             if results \<noteq> [] then ret (Again lo) else on_client_calls env vt shown lo r clients
           else if results \<noteq> [] \<and> \<not> is_native env then
             ret (finished lo [(''stop_reason'', PStr ''server_tool_complete''),
                               (''server_tool_results'', PList (map PDict results)), (''assistant_message'', re_message r)])
           else ret (Again lo)))"

definition on_calls :: "loop_env \<Rightarrow> voice_turn \<Rightarrow> looper \<Rightarrow> reply \<Rightarrow> (turn, flow) io" where
  "on_calls env vt lo r =
     (let shown = still_shown lo (re_raw r) in
      bind (lift (try_fix_iso_dates env (vt_zone vt) (re_calls r))) (\<lambda>(verdict, calls1).
      bind (show_calls shown calls1) (\<lambda>_.
      bind (if verdict = Iso_bad then (\<lambda>t. (t, iso_date_retry_count (tn_messages t))) else ret 1) (\<lambda>count.
      if count < 1 then
        bind drop_last_message (\<lambda>_. bind (append_messages [iso_date_nag]) (\<lambda>_. ret (Again lo)))
      else
        bind (with_cache (get_tools (vt_cid vt))) (\<lambda>cached.
        bind (inject_date_keys env (vt_zone vt) (vt_utterance vt) (vt_tools vt @ or_nil cached) (re_dates r) calls1) (\<lambda>calls2.
        bind (show_calls shown calls2) (\<lambda>_.
        run_calls env vt shown lo r calls2)))))))"

subsection \<open>Iterations\<close>

definition on_reply :: "loop_env \<Rightarrow> voice_turn \<Rightarrow> nat \<Rightarrow> looper \<Rightarrow> reply \<Rightarrow> (turn, flow) io" where
  "on_reply env vt left lo r =
     (if says_not_for_me r then on_sentinel env vt left lo r
      else if re_finish r = ''stop'' then on_answer env vt lo r
      else if re_finish r = ''tool_calls'' then on_calls env vt lo r
      else ret (finished lo [(''stop_reason'', PStr ''complete''), (''assistant_message'', re_message r)]))"

definition read_response :: "loop_env \<Rightarrow> pydict \<Rightarrow> (turn, reply) io" where
  "read_response env response =
     bind (lift (extract_content response)) (\<lambda>content.
     bind (read_calls env content) (\<lambda>rd.
     ret \<lparr>re_raw = fst (snd content), re_finish = rd_finish rd, re_calls = rd_calls rd, re_message = rd_message rd,
          re_dates = reply_dates response\<rparr>))"

definition handle_response :: "loop_env \<Rightarrow> voice_turn \<Rightarrow> nat \<Rightarrow> looper \<Rightarrow> pyval \<Rightarrow> (turn, flow) io" where
  "handle_response env vt left lo v =
     bind (lift (as_dict v)) (\<lambda>response.
     bind (read_response env response) (\<lambda>r.
     bind (modify (tn_messages_update (settle_transcript lo (re_raw r) (re_calls r)))) (\<lambda>_.
     on_reply env vt left (lo\<lparr>lo_reasoning := lo_reasoning lo @ think_parts (re_raw r)\<rparr>) r)))"

definition iteration :: "loop_env \<Rightarrow> voice_turn \<Rightarrow> nat \<Rightarrow> looper \<Rightarrow> (turn, flow) io" where
  "iteration env vt left lo = (\<lambda>t.
     case ask_llm env (turn_request env vt (lo_budget lo) (tn_messages t)) t of
       (t', Inl e) \<Rightarrow> (t', Inr (Done [(''stop_reason'', PStr ''error''), (''error'', PStr (exc_str e))]))
     | (t', Inr v) \<Rightarrow> handle_response env vt left (lo\<lparr>lo_budget := 256\<rparr>) v t')"

definition exhausted :: "looper \<Rightarrow> pydict" where
  "exhausted lo = with_reasoning lo
     [(''stop_reason'', PStr ''complete''), (''assistant_message'', PStr ''Maximum tool execution iterations reached.''),
      (''error'', PStr ''max_iterations_exceeded'')]"

fun tool_loop :: "loop_env \<Rightarrow> voice_turn \<Rightarrow> nat \<Rightarrow> looper \<Rightarrow> (turn, pydict) io" where
  "tool_loop env vt 0 lo = ret (exhausted lo)"
| "tool_loop env vt (Suc left) lo =
     bind (iteration env vt left lo) (\<lambda>f. case f of Done d \<Rightarrow> ret d | Again lo' \<Rightarrow> tool_loop env vt left lo')"

definition fresh_looper :: looper where
  "fresh_looper = \<lparr>lo_popped = None, lo_checked = False, lo_nudged = [], lo_pending = False, lo_budget = 256, lo_reasoning = []\<rparr>"

definition adapter_settings :: "pydict option \<Rightarrow> pyval" where
  "adapter_settings ctx =
     (let h = dget (case ctx of None \<Rightarrow> [] | Some d \<Rightarrow> d) ''adapter_hash'' in
      if truthy h then PDict [(''hash'', h), (''enabled'', PBool True)] else PNone)"

definition execute_loop ::
    "loop_env \<Rightarrow> string \<Rightarrow> pydict list \<Rightarrow> nat \<Rightarrow> string option \<Rightarrow> bool \<Rightarrow> (turn, pydict) io" where
  "execute_loop env cid tools max_iterations utterance double_check =
     bind (modify (tn_messages_update scrub_stale)) (\<lambda>_.
     bind (with_cache (get_node_context cid)) (\<lambda>ctx.
     bind (with_cache (get_timezone cid)) (\<lambda>tz.
     bind (lift (case le_provider env of
         Some p \<Rightarrow> if pv_native p then rbind (strip_jarvis_extensions tools) (\<lambda>ts. Inr (pv_tools p ts)) else Inr None
       | None \<Rightarrow> Inr None)) (\<lambda>native.
     tool_loop env \<lparr>vt_cid = cid, vt_tools = tools, vt_utterance = utterance,
        vt_double_check = double_check, vt_zone = tz, vt_adapter = adapter_settings ctx, vt_native = native\<rparr>
       max_iterations fresh_looper))))"

end
