(* ===== verification/Sample_Turn.thy ===== *)
theory Sample_Turn
  imports Tool_Engine
begin

section \<open>A small voice turn for the examples\<close>

text \<open>
  One conversation that forces tool calls and knows two commands, one server tool that repeats its
  arguments, and a language model given as the text of its next reply.
\<close>

definition text_response :: "string \<Rightarrow> pyval" where
  "text_response s = PDict [(''choices'', PList [PDict [(''message'', PDict [(''content'', PStr s)])]])]"

definition sample_loop :: "(ask list \<Rightarrow> string) \<Rightarrow> loop_env" where
  "sample_loop says = \<lparr>le_llm = (\<lambda>asked q. Inr (text_response (says asked))), le_tools = [''recall''],
     le_run = (\<lambda>ran tool d. Inr (PDict [(''echo'', PDict d)])), le_provider = None, le_format = PNone, le_sha = id,
     le_window = 120, le_small = False, le_retry_max = None, le_mcp = (\<lambda>_ _. Inr None), le_zones = (\<lambda>_. None),
     le_server = utc_zone, le_info = (PNone, PNone), le_now = 0\<rparr>"

definition said :: "string \<Rightarrow> string \<Rightarrow> pydict" where
  "said role content = [(''role'', PStr role), (''content'', PStr content)]"

definition sample_commands :: "pydict list" where
  "sample_commands = [[(''command_name'', PStr ''set_timer'')], [(''command_name'', PStr ''get_weather'')]]"

definition sample_conversation :: conversation where
  "sample_conversation = \<lparr>cv_messages = [], cv_commands = sample_commands, cv_tools = [], cv_zone = None, cv_context = None,
     cv_router = None, cv_items = None, cv_wake = None, cv_rounds = 0, cv_calls = [], cv_force = True, cv_stamp = 0\<rparr>"

definition sample_turn :: "string \<Rightarrow> turn" where
  "sample_turn utterance =
     \<lparr>tn_messages = [said ''system'' ''You are Jarvis.'', said ''system'' (must_call_tag @ '' call a tool''), said ''user'' utterance],
      tn_cache = \<lparr>cc_rows = [(''c1'', sample_conversation)], cc_ttl = 600000000, cc_now = 5\<rparr>,
      tn_ids = 0, tn_asked = [], tn_ran = []\<rparr>"

definition sample_voice :: "string \<Rightarrow> voice_turn" where
  "sample_voice utterance = \<lparr>vt_cid = ''c1'', vt_tools = [], vt_utterance = Some utterance, vt_double_check = False,
     vt_zone = None, vt_adapter = PNone, vt_native = None\<rparr>"

definition sample_call :: "nat \<Rightarrow> string \<Rightarrow> pydict \<Rightarrow> tool_call" where
  "sample_call n tool d = make_call (call_id n) (PStr tool) (json_dumps (PDict d))"

definition spoken_reply :: "string \<Rightarrow> tool_call list \<Rightarrow> reply" where
  "spoken_reply raw calls = \<lparr>re_raw = raw, re_finish = (if calls = [] then ''stop'' else ''tool_calls''), re_calls = calls,
     re_message = PStr raw, re_dates = []\<rparr>"

end
