(* ===== verification/Json_Facts.thy ===== *)
theory Json_Facts
  imports Py_Json
begin

section \<open>Printed JSON is read back\<close>

text \<open>
  \<open>json.loads (json.dumps v) = v\<close> for values without floats whose dictionaries have no repeated
  key, which is what a Python dictionary guarantees. The components that store a dictionary as
  text and read it later (tool arguments, plan and draft columns) rest on it.
\<close>

fun plain_json :: "pyval \<Rightarrow> bool" where
  "plain_json (PFloat _ _) \<longleftrightarrow> False"
| "plain_json (PList xs) \<longleftrightarrow> list_all plain_json xs"
| "plain_json (PDict d) \<longleftrightarrow> distinct (map fst d) \<and> list_all (\<lambda>(k, v). plain_json v) d"
| "plain_json _ \<longleftrightarrow> True"

text \<open>What may follow a value inside a text.\<close>

definition closes :: "string \<Rightarrow> bool" where
  "closes r \<longleftrightarrow> r = [] \<or> hd r \<in> {CHR '','', CHR '']'', CHR ''}''}"

subsection \<open>Strings\<close>

lemma hex_val_digit: "d < 16 \<Longrightarrow> hex_val (hex_digit d) = Some d"
  by (auto simp: hex_val_def hex_digit_def is_digit_def)

lemma hex_val_zero: "hex_val (CHR ''0'') = Some 0"
  by code_simp

lemma code_less: "code c < 256"
  by (cases c) (simp add: of_char_def horner_sum_simps split: if_splits)

lemma hex_digits_code:
  "n < 256 \<Longrightarrow> hex_val (hex_digit (n div 16)) = Some (n div 16) \<and> hex_val (hex_digit (n mod 16)) = Some (n mod 16)"
  by (intro conjI hex_val_digit) simp_all

lemma hex4_code:
  assumes "n < 256"
  shows "hex4 4 0 (CHR ''0'' # CHR ''0'' # hex_digit (n div 16) # hex_digit (n mod 16) # s) = Some (n, s)"
proof -
  have four: "(4::nat) = Suc (Suc (Suc (Suc 0)))" by simp
  note hex = hex_digits_code [OF assms, THEN conjunct1] hex_digits_code [OF assms, THEN conjunct2]
  show ?thesis by (simp only: four hex4.simps hex hex_val_zero option.case mult_0_right add_0 mult_div_mod_eq)
qed

lemma code_eq: "code c = n \<Longrightarrow> c = char_of n"
  by (metis char_of_char)

lemma json_string_char: "json_string (Suc n) (json_char c @ s) = map_option (\<lambda>(t, r). (c # t, r)) (json_string n s)"
proof -
  consider "code c = 34 \<or> code c = 92" | "code c = 10" | "code c = 13" | "code c = 9" | "code c = 8" | "code c = 12"
    | "code c < 32 \<or> 126 < code c" "code c \<notin> {8, 9, 10, 12, 13, 34, 92}"
    | "32 \<le> code c" "code c \<le> 126" "code c \<notin> {34, 92}" by fastforce
  then show ?thesis
  proof cases
    case 1
    then have "escape_char c = Some c" "c \<noteq> CHR ''u''" by (auto simp: escape_char_def)
    with 1 show ?thesis by (auto simp: json_char_def)
  next
    case 7
    have "json_char c = [char_of (92::nat), CHR ''u'', CHR ''0'', CHR ''0'', hex_digit (code c div 16), hex_digit (code c mod 16)]"
      using 7 by (auto simp: json_char_def)
    then show ?thesis using hex4_code [OF code_less [of c]] code_less [of c] by simp
  next
    case 8
    then have "json_char c = [c]" by (simp add: json_char_def)
    with 8 show ?thesis by simp
  qed (auto simp: json_char_def escape_char_def dest: code_eq)
qed

lemma json_string_quoted:
  "length s < n \<Longrightarrow> json_string n (concat (map json_char s) @ CHR 0x22 # r) = Some (s, r)"
proof (induction s arbitrary: n)
  case Nil
  then show ?case by (cases n) simp_all
next
  case (Cons c s)
  then obtain m where "n = Suc m" "length s < m" by (cases n) auto
  with Cons.IH show ?case by (simp add: json_string_char)
qed

lemma json_char_length: "0 < length (json_char c)"
  by (simp add: json_char_def)

lemma quoted_length: "length s \<le> length (concat (map json_char s))"
proof (induction s)
  case (Cons c s)
  then show ?case using json_char_length [of c] by (simp only: list.map concat.simps length_append list.size)
qed simp

subsection \<open>Numbers\<close>

lemma hd_nat_str: "0 < n \<Longrightarrow> hd (nat_str n) \<noteq> CHR ''0''"
proof (induction n rule: nat_str.induct)
  case (1 n)
  show ?case
  proof (cases "n < 10")
    case True
    then have "code (digit_char n) = 48 + n" by simp
    then have "digit_char n \<noteq> CHR ''0''" using 1(2) by auto
    with True show ?thesis by (simp add: nat_str.simps [of n])
  next
    case False
    with 1(1) have "hd (nat_str (n div 10)) \<noteq> CHR ''0''" by simp
    with False show ?thesis by (simp add: nat_str.simps [of n])
  qed
qed

lemma nat_str_no_zero: "length (nat_str n) > 1 \<Longrightarrow> hd (nat_str n) \<noteq> CHR ''0''"
  by (cases "n = 0") (auto simp: nat_str.simps [of 0] hd_nat_str)

lemma closes_not_digit: "closes r \<Longrightarrow> r \<noteq> [] \<Longrightarrow> \<not> is_digit (hd r) \<and> hd r \<notin> {CHR ''.'', CHR ''e'', CHR ''E''}"
  by (auto simp: closes_def is_digit_def)

lemma digits_nat_str:
  assumes "closes r"
  shows "digits_of (nat_str n @ r) = nat_str n" "after_digits (nat_str n @ r) = r"
proof -
  have all: "\<And>c. c \<in> set (nat_str n) \<Longrightarrow> is_digit c" using nat_str_digits by blast
  have "takeWhile is_digit r = []" "dropWhile is_digit r = r"
    using closes_not_digit [OF assms] by (cases r; simp)+
  with all show "digits_of (nat_str n @ r) = nat_str n" "after_digits (nat_str n @ r) = r"
    by (simp_all add: digits_of_def after_digits_def)
qed

lemma hd_nat_str_digit: "is_digit (hd (nat_str n))"
  using nat_str_digits [of n] by (cases "nat_str n") auto

lemma not_exponent:
  assumes "closes r"
  shows "(case r of [] \<Rightarrow> x | c # t \<Rightarrow> if c = CHR ''.'' then f t else x) = x"
    "(case r of [] \<Rightarrow> y | c # t \<Rightarrow> if c = CHR ''e'' \<or> c = CHR ''E'' then g c t else y) = y"
  using closes_not_digit [OF assms] by (cases r; simp)+

lemma json_number_int:
  assumes "closes r"
  shows "json_number (int_str i @ r) = Some (PInt i, r)"
proof -
  have minus: "hd (nat_str n @ r) \<noteq> CHR ''-''" for n
    using hd_nat_str_digit [of n] by (cases "nat_str n") (auto simp: is_digit_def)
  show ?thesis
  proof (cases "i < 0")
    case True
    then have "int_str i @ r = CHR ''-'' # (nat_str (nat (- i)) @ r)" by (simp add: int_str_def)
    with True show ?thesis
      unfolding json_number_def Let_def
      by (simp only: list.sel list.simps simp_thms if_True digits_nat_str [OF assms] not_exponent [OF assms])
        (simp add: nat_str_no_zero digits_val_nat_str)
  next
    case False
    then have "int_str i @ r = nat_str (nat i) @ r" by (simp add: int_str_def)
    with False minus [of "nat i"] show ?thesis
      unfolding json_number_def Let_def
      by (simp only: simp_thms if_False digits_nat_str [OF assms] not_exponent [OF assms])
        (simp add: nat_str_no_zero digits_val_nat_str not_exponent [OF assms])
  qed
qed

subsection \<open>Values\<close>

abbreviation reads :: "pyval \<Rightarrow> bool" where
  "reads v \<equiv> \<forall>n r. length (json_dumps v) < n \<longrightarrow> closes r \<longrightarrow> json_value n (json_dumps v @ r) = Some (v, r)"

lemma skip_blank: "skip_space (CHR '' '' # s) = skip_space s"
  by (simp add: skip_space_def json_space_def)

lemma json_value_blank: "json_value n (CHR '' '' # s) = json_value n s"
  by (cases n) (simp_all add: skip_blank)

lemma json_items_blank: "json_items n (CHR '' '' # s) = json_items n s"
  by (cases n) (simp_all add: json_value_blank)

lemma json_fields_blank: "json_fields n d (CHR '' '' # s) = json_fields n d s"
  by (cases n) (simp_all add: skip_blank)

lemma skip_closes: "closes r \<Longrightarrow> skip_space r = r"
  by (cases r) (auto simp: closes_def skip_space_def json_space_def)

lemma skip_sign: "skip_space (c # s) = c # s" if "\<not> json_space c"
  using that by (simp add: skip_space_def)

lemma reads_int: "reads (PInt i)"
proof (intro allI impI)
  fix n r
  assume n: "length (json_dumps (PInt i)) < n" and r: "closes r"
  from n obtain m where m: "n = Suc m" by (cases n) auto
  have "int_str i \<noteq> [] \<and> (is_digit (hd (int_str i)) \<or> hd (int_str i) = CHR ''-'')"
    by (simp add: int_str_def hd_nat_str_digit)
  then obtain c s where s: "int_str i = c # s" "is_digit c \<or> c = CHR ''-''" by (cases "int_str i") auto
  then have "\<not> json_space c" "code c \<noteq> 34" "c \<notin> {CHR ''['', CHR ''{'', CHR ''t'', CHR ''f'', CHR ''n''}"
    by (auto simp: json_space_def is_digit_def)
  with json_number_int [OF r, of i] s show "json_value n (json_dumps (PInt i) @ r) = Some (PInt i, r)"
    by (simp add: m skip_sign starts_with_def)
qed

lemma reads_str: "reads (PStr t)"
proof (intro allI impI)
  fix n r
  assume n: "length (json_dumps (PStr t)) < n" and r: "closes r"
  from n obtain m where m: "n = Suc m" by (cases n) auto
  have "json_string (Suc (length (concat (map json_char t) @ CHR 0x22 # r))) (concat (map json_char t) @ CHR 0x22 # r) = Some (t, r)"
    by (rule json_string_quoted) (use quoted_length [of t] in simp)
  then show "json_value n (json_dumps (PStr t) @ r) = Some (PStr t, r)"
    by (simp add: m json_quote_def skip_sign json_space_def)
qed

lemma reads_word: "reads PNone" "reads (PBool b)"
proof -
  have "json_value (Suc m) (''null'' @ r) = Some (PNone, r)" "json_value (Suc m) (''true'' @ r) = Some (PBool True, r)"
    "json_value (Suc m) (''false'' @ r) = Some (PBool False, r)" for m r
    by (simp_all add: skip_sign json_space_def starts_with_def)
  then show "reads PNone" "reads (PBool b)" by (metis json_dumps.simps(1,2) less_nat_zero_code not0_implies_Suc)+
qed

lemma json_items_printed:
  assumes "xs \<noteq> []" "\<And>x. x \<in> set xs \<Longrightarrow> reads x" "length (join '', '' (map json_dumps xs)) + 1 < n"
  shows "json_items n (join '', '' (map json_dumps xs) @ CHR '']'' # r) = Some (xs, r)"
  using assms
proof (induction xs arbitrary: n rule: induct_list012)
  case (2 x)
  then obtain m where m: "n = Suc m" "length (json_dumps x) < m" by (cases n) auto
  with 2 have "json_value m (json_dumps x @ CHR '']'' # r) = Some (x, CHR '']'' # r)" by (simp add: closes_def)
  with m show ?case by (simp add: skip_sign json_space_def)
next
  case (3 x y zs)
  then obtain m where m: "n = Suc m" "length (json_dumps x) < m"
    "length (join '', '' (map json_dumps (y # zs))) + 1 < m" by (cases n) auto
  let ?s = "join '', '' (map json_dumps (y # zs)) @ CHR '']'' # r"
  have "json_value m (json_dumps x @ CHR '','' # CHR '' '' # ?s) = Some (x, CHR '','' # CHR '' '' # ?s)"
    using 3(4) [of x] m by (simp add: closes_def del: join.simps)
  moreover have "json_items m ?s = Some (y # zs, r)" by (rule 3(2)) (use 3(4) m in auto)
  ultimately show ?case by (simp add: m skip_sign json_space_def json_items_blank)
qed simp

lemma update_new: "k \<notin> fst ` set d \<Longrightarrow> AList.update k v d = d @ [(k, v)]"
  by (induction d) auto

abbreviation print_field :: "string \<times> pyval \<Rightarrow> string" where
  "print_field \<equiv> \<lambda>(k, v). json_quote k @ '': '' @ json_dumps v"

lemma json_field_start:
  assumes "reads v" "length (json_dumps v) < m" "closes s"
  shows "json_fields (Suc m) d (print_field (k, v) @ s) =
    (case s of [] \<Rightarrow> None
     | e # r4 \<Rightarrow> if e = CHR ''}'' then Some (dset d k v, r4)
                else if e = CHR '','' then json_fields m (dset d k v) r4 else None)"
proof -
  let ?t = "CHR '':'' # CHR '' '' # json_dumps v @ s"
  have "json_string (Suc (length (concat (map json_char k) @ CHR 0x22 # ?t))) (concat (map json_char k) @ CHR 0x22 # ?t)
      = Some (k, ?t)"
    by (rule json_string_quoted) (use quoted_length [of k] in simp)
  moreover have "json_value m (CHR '' '' # json_dumps v @ s) = Some (v, s)"
    using assms by (simp add: json_value_blank)
  ultimately show ?thesis using skip_closes [OF assms(3)]
    by (cases s) (simp_all add: json_quote_def skip_sign json_space_def)
qed

lemma json_fields_printed:
  assumes "kvs \<noteq> []" "\<And>k v. (k, v) \<in> set kvs \<Longrightarrow> reads v" "length (join '', '' (map print_field kvs)) + 1 < n"
    "distinct (map fst (d @ kvs))"
  shows "json_fields n d (join '', '' (map print_field kvs) @ CHR ''}'' # r) = Some (d @ kvs, r)"
  using assms
proof (induction kvs arbitrary: n d rule: induct_list012)
  case (2 kv)
  obtain k v where kv: "kv = (k, v)" by (cases kv)
  from 2 kv obtain m where m: "n = Suc m" "length (json_dumps v) < m" by (cases n) auto
  from 2 kv have "reads v" "k \<notin> fst ` set d" by auto
  with json_field_start [of v m "CHR ''}'' # r" d k] m show ?case by (simp add: kv closes_def dset_def update_new)
next
  case (3 kv kv2 kvs)
  obtain k v where kv: "kv = (k, v)" by (cases kv)
  let ?s = "join '', '' (map print_field (kv2 # kvs)) @ CHR ''}'' # r"
  from 3 kv obtain m where m: "n = Suc m" "length (json_dumps v) < m"
    "length (join '', '' (map print_field (kv2 # kvs))) + 1 < m" by (cases n) auto
  have "reads v" by (rule 3(4) [of k]) (simp add: kv)
  moreover have new: "k \<notin> fst ` set d" using 3(6) kv by auto
  ultimately have "json_fields n d (print_field (k, v) @ CHR '','' # CHR '' '' # ?s) = json_fields m (d @ [(k, v)]) ?s"
    using json_field_start [of v m "CHR '','' # CHR '' '' # ?s" d k] m
    by (simp add: closes_def dset_def update_new json_fields_blank del: join.simps)
  moreover have "json_fields m (d @ [(k, v)]) ?s = Some ((d @ [(k, v)]) @ kv2 # kvs, r)"
    by (rule 3(2)) (use 3(4,6) m kv in \<open>auto simp del: join.simps\<close>)
  ultimately show ?case by (simp add: kv)
qed simp

lemma dumps_head: "plain_json v \<Longrightarrow> \<exists>c s. json_dumps v = c # s \<and> \<not> json_space c \<and> c \<noteq> CHR '']''"
proof (cases v)
  case (PInt i)
  have "int_str i \<noteq> [] \<and> (is_digit (hd (int_str i)) \<or> hd (int_str i) = CHR ''-'')"
    by (simp add: int_str_def hd_nat_str_digit)
  then show ?thesis using PInt by (cases "int_str i") (auto simp: json_space_def is_digit_def)
qed (auto simp: json_space_def json_quote_def)

lemma reads_list:
  assumes "\<And>x. x \<in> set xs \<Longrightarrow> reads x" "list_all plain_json xs"
  shows "reads (PList xs)"
proof (intro allI impI)
  fix n r
  assume n: "length (json_dumps (PList xs)) < n" and r: "closes r"
  let ?s = "join '', '' (map json_dumps xs) @ CHR '']'' # r"
  from n obtain m where m: "n = Suc m" "length (join '', '' (map json_dumps xs)) + 1 < m" by (cases n) auto
  show "json_value n (json_dumps (PList xs) @ r) = Some (PList xs, r)"
  proof (cases xs)
    case Nil
    then show ?thesis by (simp add: m skip_sign json_space_def)
  next
    case (Cons x ys)
    with assms(2) obtain c s where h: "json_dumps x = c # s" "\<not> json_space c" "c \<noteq> CHR '']''" using dumps_head [of x] by auto
    have "\<exists>s. ?s = c # s" using Cons h(1) by (cases ys) auto
    then obtain s' where s': "?s = c # s'" by blast
    have "json_items m ?s = Some (xs, r)" by (rule json_items_printed) (use Cons assms(1) m in auto)
    then show ?thesis using h s' by (simp add: m(1) skip_sign json_space_def)
  qed
qed

lemma reads_dict:
  assumes "\<And>k v. (k, v) \<in> set d \<Longrightarrow> reads v" "distinct (map fst d)"
  shows "reads (PDict d)"
proof (intro allI impI)
  fix n r
  assume n: "length (json_dumps (PDict d)) < n" and r: "closes r"
  let ?s = "join '', '' (map print_field d) @ CHR ''}'' # r"
  from n obtain m where m: "n = Suc m" "length (join '', '' (map print_field d)) + 1 < m" by (cases n) auto
  show "json_value n (json_dumps (PDict d) @ r) = Some (PDict d, r)"
  proof (cases d)
    case Nil
    then show ?thesis by (simp add: m skip_sign json_space_def)
  next
    case (Cons kv d')
    have "\<exists>s. ?s = CHR 0x22 # s" using Cons by (cases d') (auto simp: json_quote_def split: prod.split)
    then obtain s' where s': "?s = CHR 0x22 # s'" by blast
    have "json_fields m [] ?s = Some ([] @ d, r)" by (rule json_fields_printed) (use Cons assms m in auto)
    then show ?thesis using s' by (simp add: m(1) skip_sign json_space_def)
  qed
qed

lemma reads_plain: "plain_json v \<Longrightarrow> reads v"
proof (induction v)
  case (PList xs)
  show ?case by (rule reads_list) (use PList in \<open>auto simp: list_all_iff\<close>)
next
  case (PDict d)
  show ?case
  proof (rule reads_dict)
    show "reads v" if "(k, v) \<in> set d" for k v
      by (rule PDict.IH [OF that]) (use PDict.prems that in \<open>auto simp: list_all_iff\<close>)
  qed (use PDict.prems in simp)
qed (use reads_int reads_str reads_word in \<open>simp_all only: plain_json.simps\<close>)

lemma json_roundtrip: "plain_json v \<Longrightarrow> json_loads (json_dumps v) = Some v"
proof -
  assume "plain_json v"
  then have "json_value (Suc (2 * length (json_dumps v))) (json_dumps v @ []) = Some (v, [])"
    by (intro reads_plain [rule_format]) (simp_all add: closes_def)
  then show ?thesis by (simp add: json_loads_def skip_space_def)
qed

end
