(* ===== verification/Parser_Facts.thy ===== *)
theory Parser_Facts
  imports Tool_Parser Json_Facts
begin

section \<open>The parser returns, and what it returns is a tool call\<close>

text \<open>
  Removing comments twice is removing them once, so the text the parser extracts from prose is
  read as JSON by its next call: the recursion is at most one deep. Every call it returns has the
  shape the executor expects, with arguments that are read back unchanged.
\<close>

subsection \<open>Comments are removed once\<close>

lemma strip_line_idem: "strip_line q e (strip_line q e s) = strip_line q e s"
  by (induction q e s rule: strip_line.induct) auto

lemma strip_line_set: "set (strip_line q e s) \<subseteq> set s"
  by (induction q e s rule: strip_line.induct) auto

lemma split_char_lines: "c \<notin> set s \<Longrightarrow> split_char c s = [s]"
  by (induction s) auto

lemma split_char_append: "c \<notin> set l \<Longrightarrow> split_char c (l @ c # s) = l # split_char c s"
  by (induction l) auto

lemma split_join: "ls \<noteq> [] \<Longrightarrow> (\<And>l. l \<in> set ls \<Longrightarrow> c \<notin> set l) \<Longrightarrow> split_char c (join [c] ls) = ls"
proof (induction ls rule: induct_list012)
  case (3 x y zs)
  then have "split_char c (join [c] (y # zs)) = y # zs" "c \<notin> set x" by simp_all
  then show ?case using split_char_append [of c x "join [c] (y # zs)"] by simp
qed (simp_all add: split_char_lines)

lemma strip_json_comments_idem: "strip_json_comments (strip_json_comments s) = strip_json_comments s"
proof -
  have "split_char CHR 0x0A (strip_json_comments s) = map (strip_line False False) (split_char CHR 0x0A s)"
    unfolding strip_json_comments_def
    by (rule split_join) (use strip_line_set split_char_pieces in fastforce)+
  then show ?thesis by (simp add: strip_json_comments_def [of "strip_json_comments s"] strip_line_idem o_def)
       (simp add: strip_json_comments_def)
qed

lemma extracted_parses:
  "extract_json_from_text text = Some e \<Longrightarrow> parses e \<and> strip_json_comments e = e"
  by (auto simp: extract_json_from_text_def Let_def find_Some_iff strip_json_comments_idem
      split: option.splits if_splits)

subsection \<open>Every reply gets a reading\<close>

definition settle :: "nat \<Rightarrow> string \<Rightarrow> pyval \<Rightarrow> reading \<times> nat" where
  "settle n text v = (case read_object n v of Inr r \<Rightarrow> r | Inl e \<Rightarrow> (plain_reading (PStr text), n))"

lemma settle_read: "(case read_object n v of Inr r \<Rightarrow> Some r | Inl e \<Rightarrow> Some (plain_reading (PStr t), n)) = Some (settle n t v)"
  by (simp add: settle_def split: sum.split)

lemma parse_extracted:
  assumes "extract_json_from_text s = Some e"
  shows "e \<noteq> []" "parse_response n e = Some (settle n e (the (json_loads e)))"
proof -
  from extracted_parses [OF assms] obtain v where v: "json_loads e = Some v" "strip_json_comments e = e"
    by (auto simp: parses_def)
  have "json_loads [] = None" by code_simp
  with v(1) show "e \<noteq> []" by auto
  show "parse_response n e = Some (settle n e (the (json_loads e)))"
    by (subst parse_response.simps) (simp add: v settle_read)
qed

lemma parse_response_eq:
  "parse_response n s = Some
     (case json_loads (strip_json_comments s) of
        Some v \<Rightarrow> settle n s v
      | None \<Rightarrow> (case extract_json_from_text s of
          Some e \<Rightarrow> settle n e (the (json_loads e))
        | None \<Rightarrow> (plain_reading (PStr s), n)))"
proof (subst parse_response.simps, cases "json_loads (strip_json_comments s)")
  case None
  then show "(case json_loads (strip_json_comments s) of
        Some v \<Rightarrow> (case read_object n v of Inr r \<Rightarrow> Some r | Inl e \<Rightarrow> Some (plain_reading (PStr s), n))
      | None \<Rightarrow> (case extract_json_from_text s of
            Some extracted \<Rightarrow> if extracted = [] then Some (plain_reading (PStr s), n) else parse_response n extracted
          | None \<Rightarrow> Some (plain_reading (PStr s), n))) = Some
     (case json_loads (strip_json_comments s) of
        Some v \<Rightarrow> settle n s v
      | None \<Rightarrow> (case extract_json_from_text s of
          Some e \<Rightarrow> settle n e (the (json_loads e))
        | None \<Rightarrow> (plain_reading (PStr s), n)))"
    by (cases "extract_json_from_text s") (simp_all add: parse_extracted)
qed (simp add: settle_read)

text \<open>
  C24. The parser returns on every reply, after at most one call to itself: a reply that is JSON once its comments are
  removed is read as it is; prose that holds a JSON object is read as that object; anything else is
  a plain answer.
\<close>

theorem parse_response_returns:
  "parse_response n s = Some
     (case json_loads (strip_json_comments s) of
        Some v \<Rightarrow> settle n s v
      | None \<Rightarrow> (case extract_json_from_text s of
          Some e \<Rightarrow> settle n e (the (json_loads e))
        | None \<Rightarrow> (plain_reading (PStr s), n)))"
  by (rule parse_response_eq)

subsection \<open>The calls of a reading\<close>

definition well_typed_call :: "nat \<Rightarrow> tool_call \<Rightarrow> bool" where
  "well_typed_call k c \<longleftrightarrow> (\<exists>name args.
     dget c ''id'' = PStr (call_id k) \<and> dget c ''type'' = PStr ''function'' \<and>
     dget c ''function'' = PDict [(''name'', name), (''arguments'', PStr (json_dumps (PDict args)))] \<and> truthy name)"

abbreviation numbered :: "nat \<Rightarrow> tool_call list \<Rightarrow> nat \<Rightarrow> bool" where
  "numbered n cs n' \<equiv> n' = n + length cs \<and> (\<forall>i < length cs. well_typed_call (n + i) (cs ! i))"

lemma numbered_append: "numbered n a m \<Longrightarrow> numbered m b k \<Longrightarrow> numbered n (a @ b) k"
proof -
  assume a: "numbered n a m" and b: "numbered m b k"
  have "well_typed_call (n + i) ((a @ b) ! i)" if "i < length (a @ b)" for i
  proof (cases "i < length a")
    case False
    with that have "i - length a < length b" by simp
    with b have "well_typed_call (m + (i - length a)) (b ! (i - length a))" by blast
    with a False show ?thesis by (simp add: nth_append)
  qed (use a in \<open>simp add: nth_append\<close>)
  with a b show ?thesis by simp
qed

lemma format_tool_call_typed: "format_tool_call n v = Inr (cs, n') \<Longrightarrow> numbered n cs n' \<and> length cs \<le> 1"
  by (auto simp: format_tool_call_def rbind_Inr_iff well_typed_call_def make_call_def Let_def
      split: pyval.splits if_splits option.splits)

lemma format_all_typed: "format_all n vs = Inr (cs, n') \<Longrightarrow> numbered n cs n'"
proof (induction n vs arbitrary: cs n' rule: format_all.induct)
  case (2 n v vs)
  then obtain c n1 ds where "format_tool_call n v = Inr (c, n1)" "format_all n1 vs = Inr (ds, n')" "cs = c @ ds"
    by (auto simp: rbind_Inr_iff)
  with 2(1) show ?case using numbered_append format_tool_call_typed by meson
qed simp

lemma if_none_typed:
  assumes "if_none r f = Inr (cs, n')" "numbered n (fst r) (snd r)" "\<And>cs n'. f (snd r) = Inr (cs, n') \<Longrightarrow> numbered (snd r) cs n'"
  shows "numbered n cs n'"
proof (cases "fst r = []")
  case True
  with assms have "f n = Inr (cs, n')" "snd r = n" by (simp_all add: if_none_def)
  with assms(3) show ?thesis by metis
next
  case False
  with assms(1) have "r = (cs, n')" by (simp add: if_none_def)
  with assms(2) show ?thesis by simp
qed

lemma calls_of_typed:
  assumes "calls_of n d = Inr (cs, n')"
  shows "numbered n cs n'"
proof -
  from assms obtain r1 r2 where r1: "(case dget d ''tool_calls'' of PList xs \<Rightarrow> format_all n xs | _ \<Rightarrow> Inr ([], n)) = Inr r1"
    and r2: "if_none r1 (\<lambda>n1. if truthy (dget d ''tool_call'') then format_tool_call n1 (dget d ''tool_call'') else Inr ([], n1)) = Inr r2"
    and r3: "if_none r2 (\<lambda>n2. if dhas d ''tool_calls'' \<or> dhas d ''tool_call'' then Inr ([], n2) else format_tool_call n2 (PDict d)) = Inr (cs, n')"
    by (auto simp: calls_of_def rbind_Inr_iff)
  have "numbered n (fst r1) (snd r1)"
    using r1 format_all_typed [of n _ "fst r1" "snd r1"] by (auto split: pyval.splits)
  then have "numbered n (fst r2) (snd r2)"
    by (rule if_none_typed [where cs = "fst r2" and n' = "snd r2", rotated])
      (use r2 format_tool_call_typed in \<open>auto split: if_splits\<close>)
  then show ?thesis
    by (rule if_none_typed [OF r3]) (use format_tool_call_typed in \<open>auto split: if_splits\<close>)
qed

lemma settle_typed:
  "settle n t v = (rd, n') \<Longrightarrow> numbered n (rd_calls rd) n' \<and>
     rd_finish rd = (if rd_calls rd = [] then ''stop'' else ''tool_calls'')"
  by (auto simp: settle_def read_object_def plain_reading_def rbind_Inr_iff split: sum.splits dest: calls_of_typed)

text \<open>
  What the parser returns is well typed: it says "tool_calls" exactly when there are calls; each call is a
  function call with an id of its own, a name that is not empty, and arguments that are the printed
  form of a dictionary.
\<close>

lemma reading_well_typed:
  assumes "parse_response n s = Some (rd, n')"
  shows "rd_finish rd = (if rd_calls rd = [] then ''stop'' else ''tool_calls'') \<and>
    n' = n + length (rd_calls rd) \<and> (\<forall>i < length (rd_calls rd). well_typed_call (n + i) (rd_calls rd ! i))"
proof -
  from assms consider t v where "settle n t v = (rd, n')" | t where "rd = plain_reading (PStr t)" "n' = n"
    unfolding parse_response_eq by (fastforce split: option.splits)
  then show ?thesis
  proof cases
    case 1
    with settle_typed show ?thesis by blast
  qed (simp add: plain_reading_def)
qed

definition sample_reply :: string where
  "sample_reply = ''Sure: {\"tool_calls\": [{\"name\": \"get_weather\", \"arguments\": {\"city\": \"Oslo\"}}]}''"

lemma sample_reading: "map_option (\<lambda>(rd, n). (rd_finish rd, length (rd_calls rd), n)) (parse_response 0 sample_reply) = Some (''tool_calls'', 1, 1)"
  unfolding parse_response_eq by code_simp

lemma reading_well_typed_witness:
  "\<exists>rd. parse_response 0 sample_reply = Some (rd, 1) \<and> rd_finish rd = ''tool_calls'' \<and> well_typed_call 0 (rd_calls rd ! 0)"
proof -
  obtain rd where rd: "parse_response 0 sample_reply = Some (rd, 1)" "length (rd_calls rd) = 1" "rd_finish rd = ''tool_calls''"
    using sample_reading by auto
  from reading_well_typed [OF rd(1)] rd(2,3) show ?thesis using rd(1) by auto
qed

end
