(* ===== verification/Tool_Facts.thy ===== *)
theory Tool_Facts
  imports Sample_Turn Parser_Facts
begin

section \<open>Types, arguments and order of tool calls\<close>

subsection \<open>The validator is a type checker\<close>

text \<open>The types a command may declare for a parameter; an unknown name is a type of everything.\<close>

definition known_types :: "string set" where
  "known_types = {''string'', ''int'', ''integer'', ''float'', ''number'', ''double'', ''bool'', ''boolean'', ''date'', ''datetime''}"

inductive has_type :: "pyval \<Rightarrow> string \<Rightarrow> bool" where
  txt_ty: "has_type (PStr s) ''string''"
| whole_ty: "b \<in> {''int'', ''integer'', ''float'', ''number'', ''double''} \<Longrightarrow> has_type (PInt i) b"
| real_ty: "b \<in> {''float'', ''number'', ''double''} \<Longrightarrow> has_type (PFloat x s) b"
| truth_ty: "b \<in> {''bool'', ''boolean''} \<Longrightarrow> has_type (PBool t) b"
| date_ty: "is_iso_date s \<Longrightarrow> has_type (PStr s) ''date''"
| datetime_ty: "is_iso_datetime s \<Longrightarrow> has_type (PStr s) ''datetime''"
| other_ty: "b \<notin> known_types \<Longrightarrow> has_type v b"

inductive_simps has_type_simps:
  "has_type PNone b" "has_type (PBool t) b" "has_type (PInt i) b" "has_type (PFloat x s) b" "has_type (PStr s) b"
  "has_type (PList xs) b" "has_type (PDict d) b"

lemma validate_scalar_iff: "validate_scalar v b \<longleftrightarrow> has_type v b"
  by (cases v) (auto simp: validate_scalar_def has_type_simps known_types_def)

definition fits :: "string \<Rightarrow> pyval \<Rightarrow> bool" where
  "fits declared v \<longleftrightarrow> (case normalize_param_type (Some declared) of
      (Some b, True) \<Rightarrow> b = [] \<or> (\<exists>xs. v = PList xs \<and> (\<forall>x \<in> set xs. has_type x b))
    | (Some b, False) \<Rightarrow> b = [] \<or> has_type v b
    | (None, _) \<Rightarrow> True)"

lemma type_fault_iff: "type_fault tool args (p, ty) = [] \<longleftrightarrow> (dhas args p \<longrightarrow> fits ty (dget args p))"
  by (auto simp: type_fault_def fits_def validate_value_def validate_scalar_iff list_all_iff
      split: prod.split option.split bool.split pyval.split)

definition well_typed_args :: "type_map \<Rightarrow> enum_map \<Rightarrow> string \<Rightarrow> pydict \<Rightarrow> bool" where
  "well_typed_args types enums tool args \<longleftrightarrow>
     (\<forall>(p, ty) \<in> set (case map_of types tool of None \<Rightarrow> [] | Some l \<Rightarrow> l). dhas args p \<longrightarrow> fits ty (dget args p)) \<and>
     (\<forall>(p, allowed) \<in> set (case map_of enums tool of None \<Rightarrow> [] | Some l \<Rightarrow> l).
        dget args p \<noteq> PNone \<longrightarrow> PStr (py_str (dget args p)) \<in> set allowed)"

definition text_enums :: "enum_map \<Rightarrow> bool" where
  "text_enums enums \<longleftrightarrow> (\<forall>(tool, es) \<in> set enums. \<forall>(p, allowed) \<in> set es. \<forall>v \<in> set allowed. is_str v)"

lemma rmap_texts: "\<forall>v \<in> set vs. is_str v \<Longrightarrow> \<exists>names. rmap as_str vs = Inr names"
proof (induction vs)
  case (Cons v vs)
  then show ?case by (cases v) auto
qed simp

lemma enum_fault_iff:
  assumes "\<forall>v \<in> set allowed. is_str v"
  shows "\<exists>r. enum_fault tool args (p, allowed) = Inr r \<and>
    (r = [] \<longleftrightarrow> (dget args p \<noteq> PNone \<longrightarrow> PStr (py_str (dget args p)) \<in> set allowed))"
  using rmap_texts [OF assms] by (auto simp: enum_fault_def Let_def)

lemma rmap_all:
  "(\<And>x. x \<in> set xs \<Longrightarrow> \<exists>r. f x = Inr r \<and> (r = [] \<longleftrightarrow> Q x)) \<Longrightarrow>
   \<exists>rs. rmap f xs = Inr rs \<and> (concat rs = [] \<longleftrightarrow> (\<forall>x \<in> set xs. Q x))"
proof (induction xs)
  case (Cons x xs)
  then obtain rs where rs: "rmap f xs = Inr rs" "concat rs = [] \<longleftrightarrow> (\<forall>x \<in> set xs. Q x)" by auto
  from Cons.prems [of x] obtain r where "f x = Inr r" "r = [] \<longleftrightarrow> Q x" by auto
  with rs show ?case by (intro exI [of _ "r # rs"]) auto
qed simp

lemma rmap_map: "rmap f (map g xs) = rmap (f \<circ> g) xs"
  by (induction xs) auto

lemma call_faults_iff:
  assumes "call_name c = Inr (PStr tool)" "tool \<noteq> []" "call_args c = Inr (PDict args)" "text_enums enums"
  shows "\<exists>r. call_faults types enums c = Inr r \<and> (r = [] \<longleftrightarrow> well_typed_args types enums tool args)"
proof -
  let ?es = "case map_of enums tool of None \<Rightarrow> [] | Some l \<Rightarrow> l"
  let ?ts = "case map_of types tool of None \<Rightarrow> [] | Some l \<Rightarrow> l"
  have specs: "specs_of m (PStr tool) = Inr (case map_of m tool of None \<Rightarrow> [] | Some l \<Rightarrow> l)" for m :: "(string \<times> 'z list) list"
    by (cases m) (auto simp: specs_of_def hash_key_def)
  have "\<exists>r. enum_fault tool args e = Inr r \<and>
      (r = [] \<longleftrightarrow> (case e of (p, allowed) \<Rightarrow> dget args p \<noteq> PNone \<longrightarrow> PStr (py_str (dget args p)) \<in> set allowed))"
    if "e \<in> set ?es" for e
  proof -
    obtain p allowed where e: "e = (p, allowed)" by (cases e)
    with that obtain es where "map_of enums tool = Some es" "(p, allowed) \<in> set es" by (cases "map_of enums tool") auto
    then have "(tool, es) \<in> set enums" "(p, allowed) \<in> set es" by (auto dest: map_of_SomeD)
    with assms(4) have "\<forall>v \<in> set allowed. is_str v" unfolding text_enums_def by fastforce
    with enum_fault_iff [of allowed tool args p] e show ?thesis by simp
  qed
  then obtain ef where ef: "rmap (enum_fault tool args) ?es = Inr ef"
    "concat ef = [] \<longleftrightarrow> (\<forall>e \<in> set ?es. case e of (p, allowed) \<Rightarrow> dget args p \<noteq> PNone \<longrightarrow> PStr (py_str (dget args p)) \<in> set allowed)"
    using rmap_all [of ?es "enum_fault tool args"] by blast
  have "concat (map (type_fault tool args) ?ts) = [] \<longleftrightarrow> (\<forall>(p, ty) \<in> set ?ts. dhas args p \<longrightarrow> fits ty (dget args p))"
    by (cases "map_of types tool") (fastforce simp: type_fault_iff)+
  with ef show ?thesis
    by (simp add: call_faults_def assms specs py_str_def [of "PStr tool"] well_typed_args_def)
qed

text \<open>
  C17. The parameter check is a type checker: for calls that name a tool and carry a dictionary, it reports nothing
  exactly when every argument has the type its command declares for it (a list of the type for an array) and
  every argument with declared values is one of them.
\<close>

theorem params_valid_iff_typed:
  assumes "list_all (\<lambda>(c, tool, args). call_name c = Inr (PStr tool) \<and> tool \<noteq> [] \<and> call_args c = Inr (PDict args)) readings"
    and "text_enums enums"
  shows "find_invalid_params (map fst readings) types enums = Inr [] \<longleftrightarrow>
    list_all (\<lambda>(c, tool, args). well_typed_args types enums tool args) readings"
proof (cases "types = [] \<and> enums = []")
  case True
  then show ?thesis by (simp add: find_invalid_params_def well_typed_args_def list_all_iff split: prod.split)
next
  case False
  let ?ok = "\<lambda>(c, tool, args). well_typed_args types enums tool args"
  have "\<exists>r. (call_faults types enums \<circ> fst) x = Inr r \<and> (r = [] \<longleftrightarrow> ?ok x)" if "x \<in> set readings" for x
  proof -
    obtain c tool args where x: "x = (c, tool, args)" by (cases x)
    with that assms(1) have "call_name c = Inr (PStr tool)" "tool \<noteq> []" "call_args c = Inr (PDict args)"
      by (auto simp: list_all_iff)
    from call_faults_iff [OF this assms(2), of types] x show ?thesis by simp
  qed
  then obtain rs where "rmap (call_faults types enums) (map fst readings) = Inr rs"
    "concat rs = [] \<longleftrightarrow> (\<forall>x \<in> set readings. ?ok x)"
    using rmap_all [of readings "call_faults types enums \<circ> fst" ?ok] unfolding rmap_map by blast
  with False show ?thesis by (simp only: find_invalid_params_def if_False rbind_simps list_all_iff sum.inject)
qed

theorem params_valid_iff_typed_witness:
  "find_invalid_params [sample_call 0 ''set_timer'' [(''minutes'', PInt 5)]] [(''set_timer'', [(''minutes'', ''int'')])] [] = Inr [] \<longleftrightarrow>
   well_typed_args [(''set_timer'', [(''minutes'', ''int'')])] [] ''set_timer'' [(''minutes'', PInt 5)]"
proof -
  let ?readings = "[(sample_call 0 ''set_timer'' [(''minutes'', PInt 5)], ''set_timer'', [(''minutes'', PInt 5)])]"
  have "list_all (\<lambda>(c, tool, args). call_name c = Inr (PStr tool) \<and> tool \<noteq> [] \<and> call_args c = Inr (PDict args)) ?readings"
    "text_enums []" by code_simp+
  from params_valid_iff_typed [OF this, of "[(''set_timer'', [(''minutes'', ''int'')])]"] show ?thesis by simp
qed

subsection \<open>Arguments survive the trip through text\<close>

lemma plain_dset: "plain_json (PDict d) \<Longrightarrow> plain_json v \<Longrightarrow> plain_json (PDict (dset d k v))"
proof -
  assume d: "plain_json (PDict d)" "plain_json v"
  have "set (dset d k v) \<subseteq> insert (k, v) (set d)" by (induction d) (auto simp: dset_def)
  with d show ?thesis by (auto simp: dset_def list_all_iff distinct_update)
qed

lemma plain_nested: "plain_json v \<Longrightarrow> x \<in> set (nested_dates v) \<Longrightarrow> plain_json x"
  by (auto simp: nested_dates_def map_filter_def list_all_iff split: pyval.splits if_splits)

lemma plain_unwrap: "plain_json (PDict d) \<Longrightarrow> plain_json (PDict (unwrap_dates d))"
proof (cases "map_of d ''resolved_datetimes''")
  case (Some v)
  assume d: "plain_json (PDict d)"
  with Some have v: "plain_json v" by (auto simp: list_all_iff dest: map_of_SomeD)
  show ?thesis
  proof (cases v)
    case (PList xs)
    with v have "plain_json (PList (concat (map nested_dates xs)))" by (auto simp: list_all_iff dest: plain_nested)
    with plain_dset [OF d] Some PList show ?thesis by (simp add: unwrap_dates_def)
  qed (use d Some in \<open>simp_all add: unwrap_dates_def\<close>)
qed (simp add: unwrap_dates_def)

text \<open>
  The arguments of a call survive the trip: whether the model wrote them as an object or as JSON text, the
  formatted call carries a text from which the check and the executor read back the very same
  dictionary, with its date keys unwrapped.
\<close>

lemma arguments_roundtrip:
  assumes "plain_json (PDict d)" "truthy name" "args \<in> {PDict d, PStr (json_dumps (PDict d))}"
  shows "\<exists>c. format_tool_call n (PDict [(''name'', name), (''arguments'', args)]) = Inr ([c], Suc n) \<and>
    dget c ''id'' = PStr (call_id n) \<and> call_name c = Inr name \<and>
    call_args c = Inr (PDict (unwrap_dates d)) \<and> executor_args c = Inr (PDict (unwrap_dates d))"
proof -
  have "read_arguments args = Some d"
    using assms(3) by (auto simp: read_arguments_def json_roundtrip [OF assms(1)] simp del: json_dumps.simps)
  moreover have "json_loads (json_dumps (PDict (unwrap_dates d))) = Some (PDict (unwrap_dates d))"
    by (rule json_roundtrip [OF plain_unwrap [OF assms(1)]])
  ultimately show ?thesis
    using assms(2) by (simp add: format_tool_call_def named_function_def make_call_def call_name_def call_function_def
        call_args_def args_or_empty_def executor_args_def dget_def dget_or_def)
qed

lemma arguments_roundtrip_witness:
  "\<exists>c. format_tool_call 7 (PDict [(''name'', PStr ''get_weather''), (''arguments'', PDict [(''city'', PStr ''Oslo''), (''days'', PInt 3)])]) =
       Inr ([c], 8) \<and> executor_args c = Inr (PDict [(''city'', PStr ''Oslo''), (''days'', PInt 3)])"
proof -
  let ?d = "[(''city'', PStr ''Oslo''), (''days'', PInt 3)]"
  have "plain_json (PDict ?d)" "truthy (PStr ''get_weather'')" "unwrap_dates ?d = ?d" by code_simp+
  with arguments_roundtrip [of ?d "PStr ''get_weather''" "PDict ?d" 7] show ?thesis by auto
qed

subsection \<open>Calls run in order\<close>

definition server_run :: "loop_env \<Rightarrow> string \<Rightarrow> string option \<Rightarrow> tool_call \<Rightarrow> (string \<times> pydict) option" where
  "server_run env cid u c = (case (server_tool env c, executor_args c) of
      (Inr (Some tool), Inr (PDict d)) \<Rightarrow> Some (tool, tool_kwargs d cid u)
    | _ \<Rightarrow> None)"

lemma execute_tool_runs:
  assumes "execute_tool env tool args cid u t = (t', Inr r)" "tool \<in> set (le_tools env)"
  obtains d where "args = PDict d" "t' = t\<lparr>tn_ran := tn_ran t @ [(tool, tool_kwargs d cid u)]\<rparr>"
  using assms by (auto simp: execute_tool_def registry_execute_def io_simps split: pyval.splits if_splits prod.splits sum.splits)

text \<open>
  Tool calls run in order and none is lost: when the executor returns, the calls of registered tools have run
  exactly once each in the order of the reply, with its arguments, the conversation and the utterance,
  each with one answer under its own id, and all others are handed back for the device in their order.
\<close>

lemma calls_split_in_order:
  assumes "execute_tool_calls env cid u cs t = (t', Inr (results, clients))"
  shows "t' = t\<lparr>tn_ran := tn_ran t @ List.map_filter (server_run env cid u) cs\<rparr> \<and>
    clients = filter (\<lambda>c. server_tool env c = Inr None) cs \<and>
    length (List.map_filter (server_run env cid u) cs) + length clients = length cs \<and>
    map (\<lambda>m. (dget m ''tool_call_id'', dget m ''name'')) results =
      List.map_filter (\<lambda>c. map_option (\<lambda>(tool, _). (dget c ''id'', PStr tool)) (server_run env cid u c)) cs"
  using assms
proof (induction cs arbitrary: t results clients)
  case (Cons c cs)
  show ?case
  proof (cases "server_tool env c")
    case (Inr s)
    show ?thesis
    proof (cases s)
      case None
      with Cons.prems Inr obtain rest where rest: "execute_tool_calls env cid u cs t = (t', Inr (results, rest))" "clients = c # rest"
        by (auto simp: io_simps split: prod.splits sum.splits)
      have "server_run env cid u c = None" using Inr None by (simp add: server_run_def)
      with Cons.IH [OF rest(1)] rest(2) Inr None show ?thesis by (auto simp: List.map_filter_simps)
    next
      case (Some tool)
      then have tool: "tool \<in> set (le_tools env)"
        using Inr by (auto simp: server_tool_def rbind_Inr_iff split: option.splits if_splits)
      from Cons.prems Inr Some obtain args r t1 rs
        where args: "executor_args c = Inr args" and r: "execute_tool env tool args cid u t = (t1, Inr r)"
          and rest: "execute_tool_calls env cid u cs t1 = (t', Inr (rs, clients))" "results = tool_message (dget c ''id'') tool r # rs"
        by (auto simp: io_simps split: prod.splits sum.splits)
      obtain d where "args = PDict d" "t1 = t\<lparr>tn_ran := tn_ran t @ [(tool, tool_kwargs d cid u)]\<rparr>"
        using execute_tool_runs [OF r tool] by blast
      moreover from this(1) have "server_run env cid u c = Some (tool, tool_kwargs d cid u)"
        using Inr Some args by (simp add: server_run_def)
      ultimately show ?thesis
        using Cons.IH [OF rest(1)] rest(2) Inr Some by (auto simp: List.map_filter_simps tool_message_def dget_def dget_or_def)
    qed
  qed (use Cons.prems in \<open>simp add: io_simps\<close>)
qed (simp add: io_simps List.map_filter_simps)

lemma calls_split_in_order_witness:
  "\<exists>t' results. execute_tool_calls (sample_loop (\<lambda>_. [])) ''c1'' None
       [sample_call 0 ''set_timer'' [], sample_call 1 ''recall'' [(''q'', PStr ''Leo'')]] (sample_turn ''x'') =
     (t', Inr (results, [sample_call 0 ''set_timer'' []])) \<and>
     tn_ran t' = [(''recall'', [(''q'', PStr ''Leo''), (''conversation_id'', PStr ''c1'')])]"
proof -
  let ?env = "sample_loop (\<lambda>_. [])" and ?cs = "[sample_call 0 ''set_timer'' [], sample_call 1 ''recall'' [(''q'', PStr ''Leo'')]]"
  let ?run = "execute_tool_calls ?env ''c1'' None ?cs (sample_turn ''x'')"
  have "case snd ?run of Inr (_, clients) \<Rightarrow> clients = [sample_call 0 ''set_timer'' []] | Inl _ \<Rightarrow> False" by code_simp
  then obtain t' results where run: "?run = (t', Inr (results, [sample_call 0 ''set_timer'' []]))"
    by (cases ?run) (auto split: sum.splits)
  moreover have "tn_ran (sample_turn ''x'') @ List.map_filter (server_run ?env ''c1'' None) ?cs =
      [(''recall'', [(''q'', PStr ''Leo''), (''conversation_id'', PStr ''c1'')])]" by code_simp
  ultimately show ?thesis using calls_split_in_order [OF run] by simp
qed

end
