(* ===== verification/Io_Logic.thy ===== *)
theory Io_Logic
  imports Py_Prelude
begin

section \<open>Triples for effects\<close>

text \<open>
  A small program logic for the effect type: \<open>valid P m Q E\<close> says that \<open>m\<close>, started in a state with
  \<open>P\<close>, either returns \<open>x\<close> in a state with \<open>Q x\<close> or raises in a state with \<open>E\<close>. The rules follow
  the combinators; \<open>io_rules\<close> collects those that need no invention.
\<close>

named_theorems io_rules "triples of the effect combinators"

definition valid :: "('w \<Rightarrow> bool) \<Rightarrow> ('w, 'a) io \<Rightarrow> ('a \<Rightarrow> 'w \<Rightarrow> bool) \<Rightarrow> ('w \<Rightarrow> bool) \<Rightarrow> bool" where
  "valid P m Q E \<longleftrightarrow> (\<forall>w. P w \<longrightarrow> (case snd (m w) of Inl e \<Rightarrow> E (fst (m w)) | Inr x \<Rightarrow> Q x (fst (m w))))"

lemma validI: "(\<And>w. P w \<Longrightarrow> case snd (m w) of Inl e \<Rightarrow> E (fst (m w)) | Inr x \<Rightarrow> Q x (fst (m w))) \<Longrightarrow> valid P m Q E"
  by (simp add: valid_def)

lemma validD_Inr: "valid P m Q E \<Longrightarrow> P w \<Longrightarrow> m w = (w', Inr x) \<Longrightarrow> Q x w'"
  by (fastforce simp: valid_def)

lemma validD_Inl: "valid P m Q E \<Longrightarrow> P w \<Longrightarrow> m w = (w', Inl e) \<Longrightarrow> E w'"
  by (fastforce simp: valid_def)

lemma valid_fst: "valid P m (\<lambda>_. R) R \<Longrightarrow> P w \<Longrightarrow> R (fst (m w))"
  by (auto simp: valid_def split: sum.splits)

lemma valid_pre: "valid P' m Q E \<Longrightarrow> (\<And>w. P w \<Longrightarrow> P' w) \<Longrightarrow> valid P m Q E"
  by (simp add: valid_def)

lemma valid_post: "valid P m Q' E \<Longrightarrow> (\<And>x w. Q' x w \<Longrightarrow> Q x w) \<Longrightarrow> valid P m Q E"
  by (fastforce simp: valid_def split: sum.splits)

lemma valid_ret [io_rules]: "(\<And>w. P w \<Longrightarrow> Q x w) \<Longrightarrow> valid P (ret x) Q E"
  by (simp add: valid_def io_simps)

lemma valid_throw [io_rules]: "(\<And>w. P w \<Longrightarrow> E w) \<Longrightarrow> valid P (throw e) Q E"
  by (simp add: valid_def io_simps)

lemma valid_lift [io_rules]:
  "(\<And>w x. P w \<Longrightarrow> r = Inr x \<Longrightarrow> Q x w) \<Longrightarrow> (\<And>w. P w \<Longrightarrow> E w) \<Longrightarrow> valid P (lift r) Q E"
  by (simp add: valid_def io_simps split: sum.split)

lemma valid_gets [io_rules]: "(\<And>w. P w \<Longrightarrow> Q (f w) w) \<Longrightarrow> valid P (gets f) Q E"
  by (simp add: valid_def io_simps)

lemma valid_modify [io_rules]: "(\<And>w. P w \<Longrightarrow> Q () (f w)) \<Longrightarrow> valid P (modify f) Q E"
  by (simp add: valid_def io_simps)

lemma valid_bind: "valid P m R E \<Longrightarrow> (\<And>x. valid (R x) (f x) Q E) \<Longrightarrow> valid P (bind m f) Q E"
  by (fastforce simp: valid_def io_simps split: sum.splits prod.splits)

lemma valid_if [io_rules]: "(b \<Longrightarrow> valid P m Q E) \<Longrightarrow> (\<not> b \<Longrightarrow> valid P n Q E) \<Longrightarrow> valid P (if b then m else n) Q E"
  by simp

lemma valid_keeps: "keeps P m \<Longrightarrow> valid P m (\<lambda>_. P) P"
  by (simp add: keeps_def valid_def split: sum.split)

lemma valid_keeps_when: "(c \<Longrightarrow> keeps P m) \<Longrightarrow> valid (\<lambda>w. P w \<and> c) m (\<lambda>_. P) P"
  by (simp add: keeps_def valid_def split: sum.split)

text \<open>A step that keeps \<open>P\<close>, then the rest.\<close>

lemma valid_keep_bind: "keeps P m \<Longrightarrow> (\<And>w. P w \<Longrightarrow> E w) \<Longrightarrow> (\<And>x. valid P (f x) Q E) \<Longrightarrow> valid P (bind m f) Q E"
  by (rule valid_bind [where R = "\<lambda>_. P"]) (auto simp: keeps_def valid_def split: sum.split)

lemma keeps_split [io_keeps]: "(\<And>a b. p = (a, b) \<Longrightarrow> keeps P (f a b)) \<Longrightarrow> keeps P (case p of (a, b) \<Rightarrow> f a b)"
  by (cases p) simp

lemma keeps_list [io_keeps]:
  "keeps P m \<Longrightarrow> (\<And>y ys. keeps P (f y ys)) \<Longrightarrow> keeps P (case xs of [] \<Rightarrow> m | y # ys \<Rightarrow> f y ys)"
  by (cases xs) simp_all

lemma keeps_state: "(\<And>w. P w \<Longrightarrow> P (g w)) \<Longrightarrow> keeps P (\<lambda>w. (g w, r w))"
  by (simp add: keeps_def)

end
