(* ===== verification/Loop_Law.thy ===== *)
theory Loop_Law
  imports Io_Logic Tool_Engine Parser_Facts
begin

section \<open>What the parts of a turn leave alone\<close>

text \<open>
  The interface between the loop and the services it calls. A predicate on the state of a turn that the
  cache, the counter of ids, the requests beside the turn's own and the server tools do not
  disturb is kept by every part of the turn that does not write the transcript. The locale is
  interpreted twice: on the number of turn requests, and on any predicate of the transcript.
\<close>

fun is_turn :: "ask \<Rightarrow> bool" where
  "is_turn (Ask_turn _ _ _ _ _) = True"
| "is_turn _ = False"

locale undisturbed =
  fixes P :: "turn \<Rightarrow> bool"
  assumes cache: "P t \<Longrightarrow> P (t\<lparr>tn_cache := c\<rparr>)"
    and ids: "P t \<Longrightarrow> P (t\<lparr>tn_ids := n\<rparr>)"
    and asked: "P t \<Longrightarrow> \<not> is_turn q \<Longrightarrow> P (t\<lparr>tn_asked := tn_asked t @ [q]\<rparr>)"
    and ran: "P t \<Longrightarrow> P (t\<lparr>tn_ran := tn_ran t @ [x]\<rparr>)"
begin

lemma with_cache: "keeps P (with_cache f)"
  by (rule keepsI) (simp add: with_cache_def cache split: prod.split)

lemma take_ids: "keeps P (take_ids f)"
  by (rule keepsI) (auto simp: take_ids_def ids split: prod.split sum.split)

lemma ask_llm: "\<not> is_turn q \<Longrightarrow> keeps P (ask_llm env q)"
  by (rule keepsI) (simp add: ask_llm_def asked)

lemma resolve_with_llm_fallback: "keeps P (resolve_with_llm_fallback env key available u)"
  by (rule keepsI) (auto simp: resolve_with_llm_fallback_def ask_llm_def asked io_simps split: option.split)

lemma fallback_all: "keeps P (fallback_all env tz keys u us)"
  by (induction us) (auto simp: fallback_dates_def intro!: keeps_bind resolve_with_llm_fallback keeps_option)

lemma resolve_reply_dates: "keeps P (resolve_reply_dates env tz u ks)"
  by (auto simp: resolve_reply_dates_def intro!: keeps_bind keeps_if fallback_all split: prod.split)

lemma resolve_relative_datetime: "keeps P (resolve_relative_datetime env tz u st v)"
  by (auto simp: resolve_relative_datetime_def Let_def intro!: keeps_bind keeps_if keeps_option resolve_with_llm_fallback)

lemma clean_dates: "keeps P (clean_dates env tz u st vs)"
  by (induction env tz u st vs rule: clean_dates.induct)
    (auto intro!: keeps_bind keeps_if resolve_relative_datetime split: pyval.split prod.split)

lemma inject_param: "keeps P (inject_param env tz u resolved st args spec)"
  by (auto simp: inject_param_def Let_def intro!: keeps_bind keeps_if clean_dates resolve_relative_datetime
      split: pyval.split prod.split bool.split)

lemma inject_specs: "keeps P (inject_specs env tz u resolved st args ps)"
  by (induction ps arbitrary: st args) (auto intro!: keeps_bind inject_param split: prod.split)

lemma inject_call: "keeps P (inject_call env tz u tools resolved st c)"
  by (auto simp: inject_call_def Let_def intro!: keeps_bind keeps_if inject_specs split: pyval.split prod.split)

lemma inject_calls: "keeps P (inject_calls env tz u tools resolved st cs)"
  by (induction cs arbitrary: st) (auto intro!: keeps_bind inject_call split: prod.split)

lemma inject_date_keys: "keeps P (inject_date_keys env tz u tools ks cs)"
  by (auto simp: inject_date_keys_def intro!: keeps_bind keeps_if resolve_reply_dates inject_calls split: prod.split)

lemma call_llm: "\<not> is_turn q \<Longrightarrow> keeps P (call_llm env q)"
  by (rule keepsI) (simp add: call_llm_def ask_llm_def asked)

lemma refine_params: "keeps P (refine_params env tools u cs)"
  by (induction cs) (auto simp: refine_call_def intro!: keeps_bind keeps_if keeps_option call_llm)

lemma registry_execute: "keeps P (registry_execute env tool kw)"
  by (rule keepsI) (auto simp: registry_execute_def io_simps ran)

lemma execute_tool: "keeps P (execute_tool env tool args cid u)"
  by (auto simp: execute_tool_def intro!: keeps_bind registry_execute split: pyval.split)

lemma execute_tool_calls: "keeps P (execute_tool_calls env cid u cs)"
  by (induction cs) (auto intro!: keeps_bind keeps_option execute_tool split: prod.split)

lemma read_calls: "keeps P (read_calls env content)"
  by (auto simp: read_calls_def Let_def intro!: keeps_bind keeps_if take_ids split: pyval.split prod.split)

lemma read_response: "keeps P (read_response env response)"
  by (auto simp: read_response_def intro!: keeps_bind read_calls)

lemma keyword_gate: "keeps P (keyword_gate vt r)"
  by (auto simp: keyword_gate_def Let_def intro!: keeps_bind keeps_if with_cache)

lemma refine_clients: "keeps P (refine_clients env vt cs)"
  by (auto simp: refine_clients_def intro!: keeps_bind keeps_if with_cache refine_params)

lemma client_faults: "keeps P (client_faults vt cs)"
  by (auto simp: client_faults_def intro!: keeps_bind with_cache)

end

locale unwritten = undisturbed +
  assumes messages: "P t \<Longrightarrow> P (tn_messages_update f t)"
begin

lemma edit: "keeps P (modify (tn_messages_update f))"
  by (rule keeps_modify) (rule messages)

lemma edits: "keeps P drop_last_message" "keeps P (append_messages ms)" "keeps P (show_calls shown cs)"
  by (simp_all only: drop_last_message_def append_messages_def show_calls_def edit)

lemma on_sentinel: "keeps P (on_sentinel env vt left lo r)"
  by (auto simp: on_sentinel_def Let_def intro!: keeps_bind keeps_if edit edits split: option.split)

lemma on_answer: "keeps P (on_answer env vt lo r)"
  by (auto simp: on_answer_def per_command_guard_def pop_and_nag_def Let_def intro!: keeps_bind keeps_if with_cache keyword_gate edits)

lemma on_client_calls: "keeps P (on_client_calls env vt shown lo r cs)"
  by (auto simp: on_client_calls_def on_duplicate_def forward_clients_def
      intro!: keeps_bind keeps_if keeps_option with_cache refine_clients client_faults edit edits)

lemma run_calls: "keeps P (run_calls env vt shown lo r cs)"
  by (auto simp: run_calls_def Let_def intro!: keeps_bind keeps_if keeps_list execute_tool_calls on_client_calls edits split: prod.split)

lemma on_calls: "keeps P (on_calls env vt lo r)"
  by (auto simp: on_calls_def Let_def intro!: keeps_bind keeps_if keeps_state with_cache inject_date_keys run_calls edits
      split: prod.split)

lemma handle_response: "keeps P (handle_response env vt left lo v)"
  by (auto simp: handle_response_def on_reply_def intro!: keeps_bind keeps_if read_response edit on_sentinel on_answer on_calls)

end

definition turn_requests :: "turn \<Rightarrow> nat" where
  "turn_requests t = length (filter is_turn (tn_asked t))"

interpretation requests: unwritten "\<lambda>t. turn_requests t = k" for k
  by unfold_locales (simp_all add: turn_requests_def)

interpretation transcript: undisturbed "\<lambda>t. Q (tn_messages t)" for Q
  by unfold_locales simp_all

subsection \<open>The loop from its iterations\<close>

lemma tool_loop_valid:
  assumes step: "\<And>left lo. valid (P (Suc left) lo) (iteration env vt left lo)
      (\<lambda>f. case f of Done d \<Rightarrow> Q d | Again lo' \<Rightarrow> P left lo') E"
    and out: "\<And>lo t. P 0 lo t \<Longrightarrow> Q (exhausted lo) t"
  shows "valid (P n lo) (tool_loop env vt n lo) Q E"
proof (induction n arbitrary: lo)
  case 0
  show ?case by (simp add: valid_ret out)
next
  case (Suc n)
  show ?case
    unfolding tool_loop.simps
  proof (rule valid_bind [OF step])
    show "valid ((case f of Done d \<Rightarrow> Q d | Again lo' \<Rightarrow> P n lo')) (case f of Done d \<Rightarrow> ret d | Again lo' \<Rightarrow> tool_loop env vt n lo') Q E"
      for f by (cases f) (simp_all add: Suc.IH valid_ret)
  qed
qed

end
