(* ===== verification/Loop_Facts.thy ===== *)
theory Loop_Facts
  imports Loop_Law Sample_Turn
begin

section \<open>What a turn guarantees\<close>

subsection \<open>A turn ends\<close>

lemma ask_turn_once: "turn_requests (fst (ask_llm env q t)) \<le> Suc (turn_requests t)"
  by (simp add: ask_llm_def turn_requests_def)

lemma iteration_requests:
  "valid (\<lambda>t. turn_requests t + Suc left \<le> N) (iteration env vt left lo)
     (\<lambda>f. case f of Done d \<Rightarrow> (\<lambda>t. turn_requests t \<le> N) | Again lo' \<Rightarrow> (\<lambda>t. turn_requests t + left \<le> N))
     (\<lambda>t. turn_requests t \<le> N)"
proof (rule validI)
  fix t assume "turn_requests t + Suc left \<le> N"
  moreover obtain t1 reply where ask: "ask_llm env (turn_request env vt (lo_budget lo) (tn_messages t)) t = (t1, reply)"
    by fastforce
  ultimately have t1: "turn_requests t1 + left \<le> N"
    using ask_turn_once [of env "turn_request env vt (lo_budget lo) (tn_messages t)" t] by simp
  have "turn_requests (fst (iteration env vt left lo t)) = turn_requests t1"
    using keepsD [OF requests.handle_response, of t1 "turn_requests t1"]
    by (simp add: iteration_def ask split: sum.split)
  with t1 show "case snd (iteration env vt left lo t) of
      Inl e \<Rightarrow> turn_requests (fst (iteration env vt left lo t)) \<le> N
    | Inr x \<Rightarrow> (case x of Done d \<Rightarrow> \<lambda>t. turn_requests t \<le> N | Again lo' \<Rightarrow> \<lambda>t. turn_requests t + left \<le> N)
                 (fst (iteration env vt left lo t))"
    by (auto split: sum.split flow.split)
qed

lemma tool_loop_requests:
  "valid (\<lambda>t. turn_requests t + n \<le> N) (tool_loop env vt n lo) (\<lambda>_ t. turn_requests t \<le> N) (\<lambda>t. turn_requests t \<le> N)"
  by (rule tool_loop_valid [where P = "\<lambda>left lo t. turn_requests t + left \<le> N"]) (rule iteration_requests, simp)

lemma execute_loop_valid:
  assumes "\<And>t. P t \<Longrightarrow> R (tn_messages_update scrub_stale t)"
    and "undisturbed R" "\<And>t. R t \<Longrightarrow> E t"
    and "\<And>vt. vt_double_check vt = dc \<Longrightarrow> vt_utterance vt = u \<Longrightarrow> valid R (tool_loop env vt n fresh_looper) Q E"
  shows "valid P (execute_loop env cid tools n u dc) Q E"
  unfolding execute_loop_def
  by (rule valid_bind [where R = "\<lambda>_. R"], rule valid_modify)
    (auto simp: assms(1,3) intro!: valid_keep_bind [where E = E] undisturbed.with_cache [OF assms(2)] keeps_lift assms(3,4))

lemma requests_undisturbed: "undisturbed (\<lambda>t. turn_requests t + n \<le> N)"
  by unfold_locales (simp_all add: turn_requests_def)

lemma turn_requests_messages [simp]: "turn_requests (tn_messages_update f t) = turn_requests t"
  by (simp add: turn_requests_def)

text \<open>
  A turn ends: whatever the model, the tools and the services answer, executing the loop sends the model at
  most as many turn requests as the iterations it was given, also when an exception leaves it.
\<close>

lemma turn_requests_bounded:
  "turn_requests (fst (execute_loop env cid tools n u dc t)) \<le> turn_requests t + n"
proof -
  let ?N = "turn_requests t + n"
  have "valid (\<lambda>s. turn_requests s + n \<le> ?N) (execute_loop env cid tools n u dc) (\<lambda>_ s. turn_requests s \<le> ?N) (\<lambda>s. turn_requests s \<le> ?N)"
    by (rule execute_loop_valid [OF _ requests_undisturbed [of n ?N]], simp, simp, rule tool_loop_requests)
  then show ?thesis by (rule valid_fst [where P = "\<lambda>s. turn_requests s + n \<le> ?N"]) simp
qed

subsection \<open>The transcript only grows\<close>

lemma role_not_nag: "role_is r m \<Longrightarrow> r \<noteq> ''system'' \<Longrightarrow> \<not> is_retry_nag tag m"
  by (auto simp: is_retry_nag_def role_is_def)

lemma assistant_role [simp]: "role_is ''assistant'' (assistant_message raw cs)"
  by (simp add: assistant_message_def role_is_def)

lemma role_dset [simp]: "role_is r (dset m ''tool_calls'' v) \<longleftrightarrow> role_is r m"
  by (simp add: role_is_def)

definition extends :: "pydict list \<Rightarrow> turn \<Rightarrow> bool" where
  "extends base t \<longleftrightarrow> (\<exists>own. tn_messages t = base @ own)"

definition replied :: "pydict list \<Rightarrow> turn \<Rightarrow> bool" where
  "replied base t \<longleftrightarrow> (\<exists>own a. tn_messages t = base @ own @ [a] \<and> role_is ''assistant'' a)"

lemma replied_extends: "replied base t \<Longrightarrow> extends base t"
  by (auto simp: replied_def extends_def)

lemma extends_undisturbed: "undisturbed (extends base)"
  by unfold_locales (simp_all add: extends_def)

lemma replied_undisturbed: "undisturbed (replied base)"
  by unfold_locales (simp_all add: replied_def)

lemma extends_append: "extends base t \<Longrightarrow> extends base (tn_messages_update (\<lambda>ms. ms @ xs) t)"
  by (auto simp: extends_def)

lemma replied_butlast: "replied base t \<Longrightarrow> extends base (tn_messages_update butlast t)"
  by (auto simp: replied_def extends_def butlast_append)

lemma replied_drop_append:
  "replied base t \<Longrightarrow> extends base (tn_messages_update (\<lambda>ms.
     (if ms \<noteq> [] \<and> role_is ''assistant'' (last ms) then butlast ms else ms) @ xs) t)"
  by (auto simp: replied_def extends_def butlast_append)

lemma replied_show:
  "replied base t \<Longrightarrow> replied base (tn_messages_update (\<lambda>ms.
     if shown \<and> cs \<noteq> [] \<and> ms \<noteq> [] then butlast ms @ [dset (last ms) ''tool_calls'' v] else ms) t)"
  by (auto simp: replied_def butlast_append) 

lemma drop_nags_dropWhile: "drop_nags ms = dropWhile (is_retry_nag must_call_tag) ms"
  by (induction ms) auto

lemma drop_own_nags:
  assumes "list_all (\<lambda>m. \<not> is_retry_nag must_call_tag m) base"
  shows "\<exists>own'. rev (drop_nags (rev (base @ own))) = base @ own'"
proof (cases "\<forall>m \<in> set own. is_retry_nag must_call_tag m")
  case True
  then have "drop_nags (rev (base @ own)) = drop_nags (rev base)" by (simp add: drop_nags_dropWhile dropWhile_append)
  also have "\<dots> = rev base"
    using assms by (cases "rev base") (auto simp: drop_nags_dropWhile list_all_iff dest: arg_cong [where f = set])
  finally show ?thesis by (intro exI [of _ "[]"]) simp
next
  case False
  then have "drop_nags (rev (base @ own)) = dropWhile (is_retry_nag must_call_tag) (rev own) @ rev base"
    by (auto simp: drop_nags_dropWhile dropWhile_append)
  then show ?thesis by (intro exI [of _ "rev (dropWhile (is_retry_nag must_call_tag) (rev own))"]) simp
qed

lemma replied_restore:
  "list_all (\<lambda>m. \<not> is_retry_nag must_call_tag m) base \<Longrightarrow> replied base t \<Longrightarrow>
   extends base (tn_messages_update (\<lambda>ms. drop_reply_and_nags ms @ xs) t)"
proof -
  assume base: "list_all (\<lambda>m. \<not> is_retry_nag must_call_tag m) base" and "replied base t"
  then obtain own a where own: "tn_messages t = base @ own @ [a]" "role_is ''assistant'' a" by (auto simp: replied_def)
  from drop_own_nags [OF base, of own] obtain own' where "rev (drop_nags (rev (base @ own))) = base @ own'" by blast
  with own have "drop_reply_and_nags (tn_messages t) = base @ own'" by (simp add: drop_reply_and_nags_def butlast_append)
  then show ?thesis by (simp add: extends_def)
qed

lemma settle_replied:
  assumes "list_all (\<lambda>m. \<not> is_retry_nag dedupe_tag m) base" "\<not> lo_checked lo" "extends base t"
  shows "replied base (tn_messages_update (settle_transcript lo raw cs) t)"
proof -
  from assms(3) obtain own where own: "tn_messages t = base @ own" by (auto simp: extends_def)
  have keep: "filter (\<lambda>m. \<not> is_retry_nag dedupe_tag m) base = base" using assms(1) by (simp add: filter_id_conv list_all_iff)
  have "\<not> is_retry_nag dedupe_tag (assistant_message raw cs)" by (rule role_not_nag [OF assistant_role]) simp
  then have "settle_transcript lo raw cs (tn_messages t) =
      base @ (if lo_pending lo then filter (\<lambda>m. \<not> is_retry_nag dedupe_tag m) own else own) @ [assistant_message raw cs]"
    using assms(2) keep by (simp add: settle_transcript_def own)
  then show ?thesis by (auto simp: replied_def)
qed

definition steady :: "looper \<Rightarrow> flow \<Rightarrow> bool" where
  "steady lo f \<longleftrightarrow> (case f of Done d \<Rightarrow> True | Again lo' \<Rightarrow> lo_checked lo' = lo_checked lo)"

lemma steady_simps [simp]: "steady lo (Done d)" "steady lo (Again lo') \<longleftrightarrow> lo_checked lo' = lo_checked lo" "steady lo (finished lo' d)"
  by (simp_all add: steady_def finished_def)

lemma stash_checked [simp]: "lo_checked (stash r lo) = lo_checked lo"
  by (simp add: stash_def split: pyval.split)

abbreviation grows :: "pydict list \<Rightarrow> looper \<Rightarrow> (turn, flow) io \<Rightarrow> bool" where
  "grows base lo m \<equiv> valid (replied base) m (\<lambda>f t. extends base t \<and> steady lo f) (extends base)"

lemmas replied_keeps =
  undisturbed.with_cache [OF replied_undisturbed] undisturbed.keyword_gate [OF replied_undisturbed]
  undisturbed.refine_clients [OF replied_undisturbed] undisturbed.client_faults [OF replied_undisturbed]
  undisturbed.inject_date_keys [OF replied_undisturbed] undisturbed.execute_tool_calls [OF replied_undisturbed]

lemma replied_bind:
  "keeps (replied base) m \<Longrightarrow> (\<And>x. grows base lo (f x)) \<Longrightarrow> grows base lo (bind m f)"
  by (rule valid_keep_bind) (auto dest: replied_extends)

lemma grows_ret: "steady lo f \<Longrightarrow> grows base lo (ret f)"
  by (rule valid_ret) (simp add: replied_extends)

lemma grows_edit:
  "(\<And>t. replied base t \<Longrightarrow> extends base (tn_messages_update g t)) \<Longrightarrow> steady lo f \<Longrightarrow>
   grows base lo (bind (modify (tn_messages_update g)) (\<lambda>_. ret f))"
  by (rule valid_bind [where R = "\<lambda>_. extends base"]) (auto intro!: valid_modify valid_ret)

lemma grows_pop:
  "steady lo f \<Longrightarrow> grows base lo (bind drop_last_message (\<lambda>_. bind (append_messages xs) (\<lambda>_. ret f)))"
  unfolding drop_last_message_def append_messages_def
  by (rule valid_bind [where R = "\<lambda>_. extends base"])
    (auto intro!: valid_bind [where R = "\<lambda>_. extends base"] valid_modify valid_ret replied_butlast extends_append)

lemma show_keeps: "keeps (replied base) (show_calls shown cs)"
  unfolding show_calls_def by (rule keeps_modify) (rule replied_show)

lemma grows_answer: "grows base lo (on_answer env vt lo r)"
  unfolding on_answer_def per_command_guard_def pop_and_nag_def Let_def accept_answer_def
  by (auto intro!: replied_bind replied_keeps keeps_if valid_if grows_pop grows_ret simp: Let_def)

lemma grows_sentinel:
  assumes "\<not> vt_double_check vt" "list_all (\<lambda>m. \<not> is_retry_nag must_call_tag m) base"
  shows "grows base lo (on_sentinel env vt left lo r)"
  unfolding on_sentinel_def Let_def
  by (cases "lo_popped lo") (auto simp: assms intro!: grows_edit grows_ret replied_restore)

lemma grows_clients: "grows base lo (on_client_calls env vt shown lo r cs)"
proof -
  have dup: "grows base lo (on_duplicate lo k)" for k
    unfolding on_duplicate_def by (rule grows_edit) (auto intro: replied_drop_append)
  have nag: "grows base lo (bind (append_messages xs) (\<lambda>_. ret (Again lo)))" for xs
    unfolding append_messages_def by (rule grows_edit) (auto intro: extends_append replied_extends)
  have fwd: "grows base lo (forward_clients env vt lo r cs)" for cs
    unfolding forward_clients_def by (auto intro!: replied_bind replied_keeps grows_ret)
  show ?thesis
    unfolding on_client_calls_def
    by (auto intro!: replied_bind replied_keeps keeps_if show_keeps valid_if nag fwd dup split: option.split)
qed

lemma grows_run:
  "grows base lo (run_calls env vt shown lo r cs)"
proof -
  have results: "grows base lo (bind (append_messages results) (\<lambda>_.
      if b then ret (Again lo)
      else case vs of v # _ \<Rightarrow> ret (finished lo (d v))
        | [] \<Rightarrow> if clients \<noteq> [] then if results \<noteq> [] then ret (Again lo) else on_client_calls env vt shown lo r clients
               else if results \<noteq> [] \<and> \<not> is_native env then ret (finished lo e) else ret (Again lo)))"
    for results clients b vs d e
  proof (cases "results = []")
    case True
    then have "keeps (replied base) (append_messages results)" by (simp add: append_messages_def) (rule keeps_modify, simp add: replied_def)
    with True show ?thesis
      by (auto intro!: replied_bind valid_if grows_ret grows_clients split: list.split)
  next
    case False
    have "valid (replied base) (append_messages results) (\<lambda>_. extends base) (extends base)"
      unfolding append_messages_def by (rule valid_modify) (auto intro: extends_append replied_extends)
    then show ?thesis
      by (rule valid_bind) (use False in \<open>auto intro!: valid_ret split: list.split\<close>)
  qed
  show ?thesis
    unfolding run_calls_def Let_def
    by (auto intro!: replied_bind replied_keeps results split: prod.split)
qed

lemma grows_calls: "grows base lo (on_calls env vt lo r)"
proof -
  have count: "keeps (replied base) (if b then (\<lambda>t. (t, iso_date_retry_count (tn_messages t))) else ret 1)" for b
    by (simp add: keeps_def io_simps)
  show ?thesis
    unfolding on_calls_def Let_def
    by (auto intro!: replied_bind replied_keeps keeps_lift show_keeps count valid_if grows_pop grows_run split: prod.split)
qed

lemma iteration_grows:
  assumes "\<not> vt_double_check vt" "list_all (\<lambda>m. \<not> is_stale_nag m) base" "\<not> lo_checked lo"
  shows "valid (extends base) (iteration env vt left lo) (\<lambda>f t. extends base t \<and> steady lo f) (extends base)"
proof -
  have base: "list_all (\<lambda>m. \<not> is_retry_nag must_call_tag m) base" "list_all (\<lambda>m. \<not> is_retry_nag dedupe_tag m) base"
    using assms(2) by (auto simp: list_all_iff is_stale_nag_def)
  define lo' where "lo' = lo\<lparr>lo_budget := 256\<rparr>"
  have replies: "grows base lo (on_reply env vt left (lo'\<lparr>lo_reasoning := x\<rparr>) r)" for x r
  proof -
    let ?l = "lo'\<lparr>lo_reasoning := x\<rparr>"
    have "steady lo f = steady ?l f" for f by (simp add: steady_def lo'_def split: flow.split)
    then show ?thesis
      using grows_sentinel [OF assms(1) base(1)] grows_answer grows_calls
      by (auto simp: on_reply_def intro!: valid_if grows_ret)
  qed
  have handle: "valid (extends base) (handle_response env vt left lo' v) (\<lambda>f t. extends base t \<and> steady lo f) (extends base)" for v
    unfolding handle_response_def
    by (rule valid_keep_bind [where P = "extends base"], rule keeps_lift, assumption,
        rule valid_keep_bind [where P = "extends base"], rule undisturbed.read_response [OF extends_undisturbed], assumption,
        rule valid_bind [where R = "\<lambda>_. replied base"], rule valid_modify, rule settle_replied [OF base(2)])
      (use replies assms(3) in \<open>simp_all add: lo'_def\<close>)
  show ?thesis
  proof (rule validI)
    fix t assume t: "extends base t"
    obtain t1 reply where ask: "ask_llm env (turn_request env vt (lo_budget lo) (tn_messages t)) t = (t1, reply)" by fastforce
    with t have t1: "extends base t1" by (auto simp: ask_llm_def extends_def)
    note after = handle [unfolded valid_def, rule_format, OF t1]
    show "case snd (iteration env vt left lo t) of Inl e \<Rightarrow> extends base (fst (iteration env vt left lo t))
        | Inr f \<Rightarrow> extends base (fst (iteration env vt left lo t)) \<and> steady lo f"
    proof (cases reply)
      case (Inr v)
      then have "iteration env vt left lo t = handle_response env vt left lo' v t1" by (simp add: iteration_def ask lo'_def)
      with after [of v] show ?thesis by (simp only:)
    qed (use t1 in \<open>simp add: iteration_def ask\<close>)
  qed
qed

text \<open>
  C18. A turn never loses history: unless the second-opinion option is on, executing the loop, however it ends, leaves the
  transcript it was given, less the steering messages of earlier turns, in front of whatever it added; no guard
  pops a message that was there before.
\<close>

theorem transcript_kept:
  assumes "tn_messages t = first # rest" "\<not> is_stale_nag first"
  shows "\<exists>own. tn_messages (fst (execute_loop env cid tools n u False t)) = first # filter (\<lambda>m. \<not> is_stale_nag m) rest @ own"
proof -
  let ?base = "first # filter (\<lambda>m. \<not> is_stale_nag m) rest"
  have scrub: "scrub_stale (tn_messages t) = ?base" by (simp add: assms(1) scrub_stale_def)
  have base: "list_all (\<lambda>m. \<not> is_stale_nag m) ?base" using assms(2) by (simp add: list_all_iff)
  have loop: "valid (extends ?base) (tool_loop env vt n fresh_looper) (\<lambda>_. extends ?base) (extends ?base)"
    if "\<not> vt_double_check vt" for vt
  proof (rule valid_pre [OF tool_loop_valid [where P = "\<lambda>_ lo t. \<not> lo_checked lo \<and> extends ?base t"]])
    show "valid (\<lambda>t. \<not> lo_checked lo \<and> extends ?base t) (iteration env vt left lo)
        (\<lambda>f. case f of Done d \<Rightarrow> extends ?base | Again lo' \<Rightarrow> (\<lambda>t. \<not> lo_checked lo' \<and> extends ?base t)) (extends ?base)" for left lo
      using iteration_grows [OF that base, of lo env left]
      by (cases "lo_checked lo") (auto simp: valid_def steady_def split: sum.splits flow.splits)
  qed (simp_all add: fresh_looper_def)
  have "valid (\<lambda>s. s = t) (execute_loop env cid tools n u False) (\<lambda>_. extends ?base) (extends ?base)"
    by (rule execute_loop_valid [OF _ extends_undisturbed [of ?base]]) (auto simp: scrub extends_def [of _ "tn_messages_update _ _"] intro: loop)
  then have "extends ?base (fst (execute_loop env cid tools n u False t))" by (rule valid_fst [where P = "\<lambda>s. s = t"]) simp
  then show ?thesis by (simp add: extends_def)
qed

theorem transcript_kept_witness:
  "\<exists>own. tn_messages (fst (execute_loop (sample_loop (\<lambda>_. ''It is noon.'')) ''c1'' [] 3 (Some ''Turn on the light'') False
     (sample_turn ''Turn on the light''))) = [said ''system'' ''You are Jarvis.'', said ''user'' ''Turn on the light''] @ own"
proof -
  let ?stale = "said ''system'' (must_call_tag @ '' call a tool'')" and ?u = "''Turn on the light''"
  have "tn_messages (sample_turn ?u) = said ''system'' ''You are Jarvis.'' # [?stale, said ''user'' ?u]"
    by (simp add: sample_turn_def)
  moreover have "\<not> is_stale_nag (said ''system'' ''You are Jarvis.'')"
    "filter (\<lambda>m. \<not> is_stale_nag m) [?stale, said ''user'' ?u] = [said ''user'' ?u]" by code_simp+
  ultimately show ?thesis
    using transcript_kept [of "sample_turn ?u" _ _ "sample_loop (\<lambda>_. ''It is noon.'')" "''c1''" "[]" 3 "Some ?u"] by auto
qed

end
