(* ===== verification/Loop_Guards.thy ===== *)
theory Loop_Guards
  imports Loop_Facts
begin

section \<open>When a turn may demand a tool\<close>

text \<open>
  The guards that pop a prose answer and demand a tool call. \<open>calm k j\<close>: neither the transcript nor any
  request to the model after the first \<open>j\<close> holds more than \<open>k\<close> such demands.
\<close>

subsection \<open>Counting demands\<close>

lemma nag_count_append [simp]: "nag_count tag (a @ b) = nag_count tag a + nag_count tag b"
  by (simp add: nag_count_def)

lemma nag_count_Nil [simp]: "nag_count tag [] = 0"
  by (simp add: nag_count_def)

lemma nag_count_one: "nag_count tag [m] = (if is_retry_nag tag m then 1 else 0)"
  by (simp add: nag_count_def)

lemma nag_count_butlast: "nag_count tag (butlast ms) \<le> nag_count tag ms"
  by (cases ms rule: rev_cases) simp_all

lemma nag_count_filter: "nag_count tag (filter p ms) \<le> nag_count tag ms"
  by (induction ms) (auto simp: nag_count_def)

lemma nag_count_drop_while: "nag_count tag (rev (drop_nags (rev ms))) \<le> nag_count tag ms"
proof -
  have "nag_count tag (rev ms) = nag_count tag ms" for ms by (simp add: nag_count_def rev_filter [symmetric])
  moreover have "nag_count tag (drop_nags ms) \<le> nag_count tag ms" for ms
    by (induction ms) (auto simp: nag_count_def)
  ultimately show ?thesis by metis
qed

lemma nag_count_restore: "nag_count tag (drop_reply_and_nags ms) \<le> nag_count tag ms"
  unfolding drop_reply_and_nags_def Let_def
  by (cases "ms \<noteq> [] \<and> role_is ''assistant'' (last ms)")
    (use order_trans [OF nag_count_drop_while nag_count_butlast] nag_count_drop_while in auto)

lemma nag_dset [simp]: "is_retry_nag tag (dset m ''tool_calls'' v) \<longleftrightarrow> is_retry_nag tag m"
  by (simp add: is_retry_nag_def role_is_def)

lemma nag_count_show:
  "ms \<noteq> [] \<Longrightarrow> nag_count tag (butlast ms) + nag_count tag [dset (last ms) ''tool_calls'' v] = nag_count tag ms"
  by (cases ms rule: rev_cases) (auto simp: nag_count_one)

lemma not_demands [simp]:
  "\<not> is_retry_nag must_call_tag (assistant_message raw cs)" "\<not> is_retry_nag must_call_tag double_check_nag"
  "\<not> is_retry_nag must_call_tag iso_date_nag" "\<not> is_retry_nag must_call_tag (dedupe_nag s)"
  "\<not> is_retry_nag must_call_tag (invalid_param_nag c m xs)"
  "\<not> is_retry_nag must_call_tag [(''role'', PStr ''assistant''), (''content'', PStr s)]"
  "\<not> is_retry_nag must_call_tag (tool_message cid tool res)"
  by (simp_all add: is_retry_nag_def role_is_def assistant_message_def double_check_nag_def iso_date_nag_def dedupe_nag_def
      invalid_param_nag_def system_message_def tool_message_def must_call_tag_def iso_date_tag_def dedupe_tag_def py_str_def
      lstrip_def is_space_def starts_with_def dget_or_def)

text \<open>
  The retry for invalid parameters counts messages that begin with a tag its own message never has, so
  its limit is never reached.
\<close>

lemma invalid_param_retry_uncounted: "\<not> is_retry_nag ''[INVALID_PARAM_RETRY]'' (invalid_param_nag c m xs)"
  by (simp add: is_retry_nag_def role_is_def invalid_param_nag_def system_message_def py_str_def lstrip_def is_space_def
      starts_with_def dget_or_def)

fun prompt_demands :: "ask \<Rightarrow> nat" where
  "prompt_demands (Ask_turn ms _ _ _ _) = must_call_retry_count ms"
| "prompt_demands _ = 0"

definition calm :: "nat \<Rightarrow> nat \<Rightarrow> turn \<Rightarrow> bool" where
  "calm k j t \<longleftrightarrow> must_call_retry_count (tn_messages t) \<le> k \<and> (\<forall>q \<in> set (drop j (tn_asked t)). prompt_demands q \<le> k)"

lemma calm_asked: "calm k j t \<Longrightarrow> prompt_demands q \<le> k \<Longrightarrow> calm k j (t\<lparr>tn_asked := tn_asked t @ [q]\<rparr>)"
  by (auto simp: calm_def dest: in_set_dropD split: if_splits)

lemma calm_undisturbed: "undisturbed (calm k j)"
proof
  show "calm k j (t\<lparr>tn_asked := tn_asked t @ [q]\<rparr>)" if "calm k j t" "\<not> is_turn q" for t q
    using calm_asked [OF that(1), of q] that(2) by (cases q) simp_all
qed (simp_all add: calm_def)

lemma calm_edit:
  "(\<And>ms. must_call_retry_count (f ms) \<le> must_call_retry_count ms) \<Longrightarrow> keeps (calm k j) (modify (tn_messages_update f))"
  by (rule keeps_modify) (auto simp: calm_def intro: order_trans)

lemmas calm_keeps =
  undisturbed.with_cache [OF calm_undisturbed] undisturbed.keyword_gate [OF calm_undisturbed]
  undisturbed.refine_clients [OF calm_undisturbed] undisturbed.client_faults [OF calm_undisturbed]
  undisturbed.inject_date_keys [OF calm_undisturbed] undisturbed.execute_tool_calls [OF calm_undisturbed]
  undisturbed.read_response [OF calm_undisturbed]

lemma calm_edits:
  "keeps (calm k j) drop_last_message" "keeps (calm k j) (show_calls shown cs)"
  "nag_count must_call_tag xs = 0 \<Longrightarrow> keeps (calm k j) (append_messages xs)"
  by (auto simp: drop_last_message_def show_calls_def append_messages_def must_call_retry_count_def nag_count_butlast nag_count_show
      intro!: calm_edit)

lemma calm_sentinel: "keeps (calm k j) (on_sentinel env vt left lo r)"
  by (auto simp: on_sentinel_def Let_def must_call_retry_count_def nag_count_one nag_count_restore
      intro!: keeps_bind keeps_if calm_edit calm_edits split: option.split)

lemma calm_clients: "keeps (calm k j) (on_client_calls env vt shown lo r cs)"
  by (auto simp: on_client_calls_def on_duplicate_def forward_clients_def must_call_retry_count_def nag_count_one nag_count_butlast
      intro!: keeps_bind keeps_if keeps_option calm_keeps calm_edit calm_edits)

lemma nag_count_Cons: "nag_count tag (m # ms) = (if is_retry_nag tag m then Suc (nag_count tag ms) else nag_count tag ms)"
  by (simp add: nag_count_def)

lemma valid_any: "valid P m (\<lambda>_ _. True) (\<lambda>_. True)"
  by (simp add: valid_def split: sum.split)

lemma results_demand_nothing:
  "valid (\<lambda>_. True) (execute_tool_calls env cid u cs) (\<lambda>x _. nag_count must_call_tag (fst x) = 0) (\<lambda>_. True)"
proof (induction cs)
  case (Cons c cs)
  have rest: "valid (\<lambda>_. True) (bind (execute_tool_calls env cid u cs) (\<lambda>(results, clients). ret (f results, g clients)))
      (\<lambda>x _. nag_count must_call_tag (fst x) = 0) (\<lambda>_. True)"
    if "\<And>rs. nag_count must_call_tag (f rs) = nag_count must_call_tag rs" for f and g :: "tool_call list \<Rightarrow> tool_call list"
    by (rule valid_bind [OF Cons.IH]) (auto simp: that intro!: valid_ret split: prod.split)
  show ?case
    unfolding execute_tool_calls.simps
    by (auto intro!: valid_bind [where R = "\<lambda>_ _. True"] valid_any rest simp: nag_count_Cons split: option.split)
qed (simp add: valid_ret)

lemma calm_execute:
  "valid (calm k j) (execute_tool_calls env cid u cs) (\<lambda>x t. calm k j t \<and> nag_count must_call_tag (fst x) = 0) (calm k j)"
  using results_demand_nothing [of env cid u cs] undisturbed.execute_tool_calls [OF calm_undisturbed, of k j env cid u cs]
  by (auto simp: valid_def keeps_def split: sum.splits)

lemma calm_run: "valid (calm k j) (run_calls env vt shown lo r cs) (\<lambda>_. calm k j) (calm k j)"
proof -
  have rest: "keeps (calm k j) (bind (append_messages results) (\<lambda>_.
      if b then ret (Again lo)
      else case vs of v # _ \<Rightarrow> ret (finished lo (d v))
        | [] \<Rightarrow> if clients \<noteq> [] then if results \<noteq> [] then ret (Again lo) else on_client_calls env vt shown lo r clients
               else if results \<noteq> [] \<and> \<not> is_native env then ret (finished lo e) else ret (Again lo)))"
    if "nag_count must_call_tag results = 0" for results clients b vs d e
    by (intro keeps_bind calm_edits(3) [OF that]) (auto intro!: keeps_if keeps_list calm_clients)
  show ?thesis
    unfolding run_calls_def Let_def
    by (rule valid_bind [OF calm_execute], rule valid_keeps_when, rule keeps_split, rule rest, simp)
qed

lemma calm_calls: "valid (calm k j) (on_calls env vt lo r) (\<lambda>_. calm k j) (calm k j)"
proof -
  have count: "keeps (calm k j) (if b then (\<lambda>t. (t, iso_date_retry_count (tn_messages t))) else ret 1)" for b
    by (simp add: keeps_def io_simps)
  have nag: "nag_count must_call_tag [iso_date_nag] = 0" by (simp add: nag_count_one)
  show ?thesis
    unfolding on_calls_def Let_def
    by (auto intro!: valid_keep_bind [where P = "calm k j"] calm_keeps calm_edits calm_edits(3) [OF nag] keeps_lift count valid_if
        valid_ret calm_run split: prod.split)
qed

text \<open>The demand itself: never for a question, never a third time.\<close>

lemma demand_nag [simp]: "nag_count must_call_tag [force_nag c] = 1" "nag_count must_call_tag [must_call_nag names] = 1"
  by (simp_all add: nag_count_one is_retry_nag_def role_is_def force_nag_def must_call_nag_def system_message_def
      must_call_tag_def py_str_def lstrip_def is_space_def starts_with_def dget_or_def)

lemma calm_demand:
  assumes "2 \<le> k" "nag_count must_call_tag [nag] = 1"
  shows "valid (\<lambda>t. calm k j t \<and> must_call_retry_count (tn_messages t) < 2) (pop_and_nag r lo nag) (\<lambda>_. calm k j) (calm k j)"
proof -
  have "calm k j (tn_messages_update ((\<lambda>old. old @ [nag]) \<circ> butlast) t)"
    if "calm k j t" "must_call_retry_count (tn_messages t) < 2" for t
    using that assms nag_count_butlast [of must_call_tag "tn_messages t"] by (auto simp: calm_def must_call_retry_count_def)
  then show ?thesis
    by (auto simp: valid_def pop_and_nag_def drop_last_message_def append_messages_def io_simps)
qed

text \<open>What the prose branch does: it accepts the answer, or pops it, and then only under the guards' conditions.\<close>

lemma with_cache_run: "with_cache f t = (t\<lparr>tn_cache := fst (f (tn_cache t))\<rparr>, Inr (snd (f (tn_cache t))))"
  by (simp add: with_cache_def split: prod.split)

lemma cache_again [simp]: "t\<lparr>tn_cache := c, tn_cache := d\<rparr> = t\<lparr>tn_cache := d\<rparr>"
  by simp

lemma keyword_gate_run:
  "\<exists>c b. keyword_gate vt r t = (t\<lparr>tn_cache := c\<rparr>, Inr b) \<and> (b \<longrightarrow> \<not> asks_question vt)"
proof (cases "asks_question vt")
  case True
  then show ?thesis by (intro exI [of _ "tn_cache t"] exI [of _ False]) (simp add: keyword_gate_def io_simps Let_def)
next
  case False
  then show ?thesis by (auto simp: keyword_gate_def io_simps with_cache_run Let_def intro: exI [of _ "tn_cache t"])
qed

lemma force_step_run:
  "\<exists>c b. (if g then keyword_gate vt r else ret declared) t = (t\<lparr>tn_cache := c\<rparr>, Inr b) \<and>
     (b \<and> g \<longrightarrow> \<not> asks_question vt) \<and> (b \<longrightarrow> g \<or> declared)"
proof (cases g)
  case True
  then show ?thesis using keyword_gate_run [of vt r t] by auto
next
  case False
  then show ?thesis by (intro exI [of _ "tn_cache t"]) (simp add: io_simps)
qed

definition demand :: "pydict \<Rightarrow> bool" where
  "demand nag \<longleftrightarrow> (\<exists>c. nag = force_nag c) \<or> (\<exists>names. nag = must_call_nag names)"

lemma on_answer_run:
  assumes "declared = snd (get_force_tool_calls (vt_cid vt) (tn_cache t))" "c0 = fst (get_force_tool_calls (vt_cid vt) (tn_cache t))"
    and "n = must_call_retry_count (tn_messages t)" "armed = (n < 2 \<and> \<not> lo_checked lo \<and> \<not> is_terminal r)"
    and "g = (declared \<and> armed \<and> otruthy (vt_utterance vt))"
    and "(if g then keyword_gate vt r else ret declared) (t\<lparr>tn_cache := c0\<rparr>) = (t1, Inr b)"
  shows "on_answer env vt lo r t = (if b \<and> armed then pop_and_nag r lo (force_nag n) else per_command_guard env vt lo r n) t1"
proof -
  have n: "must_call_retry_count (tn_messages (t\<lparr>tn_cache := c0\<rparr>)) = n" by (simp add: assms(3))
  show ?thesis
    unfolding on_answer_def run_bind [of "with_cache _"] with_cache_run prod.case sum.case run_bind [of "gets _"] run_gets Let_def
      assms(1,2) [symmetric] n
    by (simp only: assms(4,5) [symmetric] run_bind assms(6) prod.case sum.case)
qed

lemma per_command_guard_run:
  "\<exists>c names. per_command_guard env vt lo r n t =
     (if names \<noteq> [] \<and> n < 1 \<and> \<not> lo_checked lo \<and> \<not> is_terminal r \<and> \<not> asks_question vt
      then pop_and_nag r lo (must_call_nag names) else ret (accept_answer env lo r)) (t\<lparr>tn_cache := c\<rparr>)"
proof -
  define c1 where "c1 = fst (get_router_decision (vt_cid vt) (tn_cache t))"
  define router where "router = snd (get_router_decision (vt_cid vt) (tn_cache t))"
  define must where "must = must_call_tools (or_nil (snd (get_available_commands (vt_cid vt) c1))) (vt_tools vt)"
  have "per_command_guard env vt lo r n t =
      (if must \<noteq> [] \<and> router_used router \<and> n < 1 \<and> \<not> lo_checked lo \<and> \<not> is_terminal r \<and> \<not> asks_question vt
       then pop_and_nag r lo (must_call_nag must) else ret (accept_answer env lo r))
      (t\<lparr>tn_cache := fst (get_available_commands (vt_cid vt) c1)\<rparr>)"
    unfolding per_command_guard_def run_bind [of "with_cache _"] with_cache_run prod.case sum.case Let_def must_def router_def c1_def by simp
  then show ?thesis
    by (intro exI [of _ "fst (get_available_commands (vt_cid vt) c1)"] exI [of _ "if router_used router then must else []"]) simp
qed

lemma on_answer_cases:
  obtains (accepted) c where "on_answer env vt lo r t = (t\<lparr>tn_cache := c\<rparr>, Inr (accept_answer env lo r))"
  | (demanded) c nag where "on_answer env vt lo r t = pop_and_nag r lo nag (t\<lparr>tn_cache := c\<rparr>)" "demand nag"
      "must_call_retry_count (tn_messages t) < 2" "\<not> lo_checked lo" "\<not> is_terminal r" "\<not> asks_question vt"
proof -
  define n where "n = must_call_retry_count (tn_messages t)"
  define declared where "declared = snd (get_force_tool_calls (vt_cid vt) (tn_cache t))"
  define armed where "armed = (n < 2 \<and> \<not> lo_checked lo \<and> \<not> is_terminal r)"
  define g where "g = (declared \<and> armed \<and> otruthy (vt_utterance vt))"
  define c0 where "c0 = fst (get_force_tool_calls (vt_cid vt) (tn_cache t))"
  obtain c b where force: "(if g then keyword_gate vt r else ret declared) (t\<lparr>tn_cache := c0\<rparr>) = (t\<lparr>tn_cache := c\<rparr>, Inr b)"
    "b \<and> g \<longrightarrow> \<not> asks_question vt" "b \<longrightarrow> g \<or> declared"
    using force_step_run [of g vt r declared "t\<lparr>tn_cache := c0\<rparr>"] by auto
  note run = on_answer_run [OF declared_def c0_def n_def armed_def g_def force(1), of env]
  show ?thesis
  proof (cases "b \<and> armed")
    case True
    then have "\<not> asks_question vt" using force(2,3) by (auto simp: g_def asks_question_def)
    with True run show ?thesis by (intro demanded [where c = c and nag = "force_nag n"]) (auto simp: n_def armed_def demand_def)
  next
    case False
    obtain c' names where "per_command_guard env vt lo r n (t\<lparr>tn_cache := c\<rparr>) =
        (if names \<noteq> [] \<and> n < 1 \<and> \<not> lo_checked lo \<and> \<not> is_terminal r \<and> \<not> asks_question vt
         then pop_and_nag r lo (must_call_nag names) else ret (accept_answer env lo r)) (t\<lparr>tn_cache := c, tn_cache := c'\<rparr>)"
      using per_command_guard_run by blast
    moreover from False run have "on_answer env vt lo r t = per_command_guard env vt lo r n (t\<lparr>tn_cache := c\<rparr>)" by (simp only: if_False)
    ultimately have run': "on_answer env vt lo r t =
        (if names \<noteq> [] \<and> n < 1 \<and> \<not> lo_checked lo \<and> \<not> is_terminal r \<and> \<not> asks_question vt
         then pop_and_nag r lo (must_call_nag names) else ret (accept_answer env lo r)) (t\<lparr>tn_cache := c'\<rparr>)" by simp
    show ?thesis
    proof (cases "names \<noteq> [] \<and> n < 1 \<and> \<not> lo_checked lo \<and> \<not> is_terminal r \<and> \<not> asks_question vt")
      case True
      with run' show ?thesis by (intro demanded [where c = c' and nag = "must_call_nag names"]) (auto simp: n_def demand_def)
    next
      case False
      with run' have "on_answer env vt lo r t = ret (accept_answer env lo r) (t\<lparr>tn_cache := c'\<rparr>)" by (simp only: if_False)
      then show ?thesis by (intro accepted [where c = c']) (simp add: io_simps)
    qed
  qed
qed

lemma demand_count: "demand nag \<Longrightarrow> nag_count must_call_tag [nag] = 1"
  by (auto simp: demand_def)

lemma calm_answer:
  assumes "2 \<le> k \<or> asks_question vt"
  shows "valid (calm k j) (on_answer env vt lo r) (\<lambda>_. calm k j) (calm k j)"
proof (rule validI)
  fix t assume t: "calm k j t"
  show "case snd (on_answer env vt lo r t) of Inl e \<Rightarrow> calm k j (fst (on_answer env vt lo r t))
      | Inr x \<Rightarrow> calm k j (fst (on_answer env vt lo r t))"
  proof (cases rule: on_answer_cases [of env vt lo r t])
    case (accepted c)
    with t show ?thesis by (simp add: calm_def)
  next
    case (demanded c nag)
    with assms have "2 \<le> k" by blast
    from calm_demand [OF this demand_count [OF demanded(2)], of j r lo] t demanded(1,3)
    show ?thesis by (auto simp: valid_def calm_def [of _ _ "t\<lparr>tn_cache := c\<rparr>"] calm_def [of _ _ t])
  qed
qed

lemma iteration_calm:
  assumes "2 \<le> k \<or> asks_question vt"
  shows "valid (calm k j) (iteration env vt left lo) (\<lambda>_. calm k j) (calm k j)"
proof -
  have replies: "valid (calm k j) (on_reply env vt left l r) (\<lambda>_. calm k j) (calm k j)" for l r
    unfolding on_reply_def
    by (auto intro!: valid_if valid_ret valid_keeps calm_sentinel calm_answer [OF assms] calm_calls)
  have settle: "keeps (calm k j) (modify (tn_messages_update (settle_transcript lo raw cs)))" for lo raw cs
  proof (rule calm_edit)
    fix ms
    have "nag_count must_call_tag (ms @ [assistant_message raw cs]) = nag_count must_call_tag ms" by (simp add: nag_count_one)
    moreover have "nag_count must_call_tag (filter q (filter p (ms @ [assistant_message raw cs])))
        \<le> nag_count must_call_tag (ms @ [assistant_message raw cs])" for p q
      by (rule order_trans [OF nag_count_filter nag_count_filter])
    ultimately show "must_call_retry_count (settle_transcript lo raw cs ms) \<le> must_call_retry_count ms"
      using nag_count_filter [of must_call_tag _ "ms @ [assistant_message raw cs]"]
      by (cases "lo_checked lo"; cases "lo_pending lo")
        (simp_all only: must_call_retry_count_def settle_transcript_def Let_def if_True if_False order_refl)
  qed
  have handle: "valid (calm k j) (handle_response env vt left l v) (\<lambda>_. calm k j) (calm k j)" for l v
    unfolding handle_response_def
    by (rule valid_keep_bind [where P = "calm k j"], rule keeps_lift, assumption,
        rule valid_keep_bind [where P = "calm k j"], rule calm_keeps, assumption,
        rule valid_keep_bind [where P = "calm k j"], rule settle, assumption, rule replies)
  show ?thesis
  proof (rule validI)
    fix t assume t: "calm k j t"
    obtain t1 reply where ask: "ask_llm env (turn_request env vt (lo_budget lo) (tn_messages t)) t = (t1, reply)" by fastforce
    have "prompt_demands (turn_request env vt (lo_budget lo) (tn_messages t)) = must_call_retry_count (tn_messages t)"
      by (simp add: turn_request_def split: option.split)
    with ask calm_asked [OF t, of "turn_request env vt (lo_budget lo) (tn_messages t)"] t
    have t1: "calm k j t1" by (auto simp: ask_llm_def calm_def)
    note after = handle [unfolded valid_def, rule_format, OF t1]
    show "case snd (iteration env vt left lo t) of Inl e \<Rightarrow> calm k j (fst (iteration env vt left lo t))
        | Inr f \<Rightarrow> calm k j (fst (iteration env vt left lo t))"
    proof (cases reply)
      case (Inr v)
      then have "iteration env vt left lo t = handle_response env vt left (lo\<lparr>lo_budget := 256\<rparr>) v t1" by (simp add: iteration_def ask)
      with after [where l = "lo\<lparr>lo_budget := 256\<rparr>" and v = v] show ?thesis by (simp only:)
    qed (use t1 in \<open>simp add: iteration_def ask\<close>)
  qed
qed

lemma execute_calm:
  assumes "2 \<le> k \<or> (otruthy u \<and> is_question_shaped (some_text u))"
    "must_call_retry_count (scrub_stale (tn_messages t)) \<le> k"
  shows "calm k (length (tn_asked t)) (fst (execute_loop env cid tools n u dc t))"
proof -
  let ?C = "calm k (length (tn_asked t))"
  have "valid ?C (tool_loop env vt n fresh_looper) (\<lambda>_. ?C) ?C" if "vt_utterance vt = u" for vt
    by (rule tool_loop_valid [where P = "\<lambda>_ _. ?C"], rule valid_post [OF iteration_calm])
      (use that assms(1) in \<open>auto simp: asks_question_def split: flow.split\<close>)
  moreover have "?C (tn_messages_update scrub_stale t)" using assms(2) by (simp add: calm_def)
  ultimately have "valid (\<lambda>s. s = t) (execute_loop env cid tools n u dc) (\<lambda>_. ?C) ?C"
    by (intro execute_loop_valid [OF _ calm_undisturbed]) auto
  then show ?thesis by (rule valid_fst [where P = "\<lambda>s. s = t"]) simp
qed

lemma scrubbed_count: "must_call_retry_count (scrub_stale ms) = (if ms \<noteq> [] \<and> is_retry_nag must_call_tag (hd ms) then 1 else 0)"
proof (cases ms)
  case (Cons m r)
  have "filter (is_retry_nag must_call_tag) (filter (\<lambda>x. \<not> is_stale_nag x) r) = []"
    by (auto simp: filter_empty_conv is_stale_nag_def)
  with Cons show ?thesis by (simp add: must_call_retry_count_def scrub_stale_def nag_count_def)
qed (simp add: must_call_retry_count_def scrub_stale_def)

text \<open>
  C14. A question is never forced into a tool: when the utterance is shaped like a question, no request of the turn to
  the model and no message it leaves behind carries a demand for a tool call, whatever the household forces,
  the router found and the reply claimed.
\<close>

theorem question_never_forced:
  assumes "otruthy u" "is_question_shaped (some_text u)" "tn_messages t = first # rest" "\<not> is_retry_nag must_call_tag first"
    "execute_loop env cid tools n u dc t = (t', res)"
  shows "must_call_retry_count (tn_messages t') = 0 \<and> (\<forall>q \<in> set (drop (length (tn_asked t)) (tn_asked t')). prompt_demands q = 0)"
  using execute_calm [of 0 u t env cid tools n dc] assms by (simp add: scrubbed_count calm_def)

theorem question_never_forced_witness:
  "\<exists>t'. execute_loop (sample_loop (\<lambda>_. ''It is noon.'')) ''c1'' [] 3 (Some ''What time is it?'') False (sample_turn ''What time is it?'') =
     (t', Inr [(''stop_reason'', PStr ''complete''), (''assistant_message'', PStr ''It is noon.'')]) \<and>
     must_call_retry_count (tn_messages t') = 0 \<and> (\<forall>q \<in> set (tn_asked t'). prompt_demands q = 0)"
proof -
  let ?u = "''What time is it?''"
  let ?run = "execute_loop (sample_loop (\<lambda>_. ''It is noon.'')) ''c1'' [] 3 (Some ?u) False (sample_turn ?u)"
  have "snd ?run = Inr [(''stop_reason'', PStr ''complete''), (''assistant_message'', PStr ''It is noon.'')]" by code_simp
  then have res: "?run = (fst ?run, Inr [(''stop_reason'', PStr ''complete''), (''assistant_message'', PStr ''It is noon.'')])"
    by (simp only: prod_eq_iff fst_conv snd_conv)
  have "otruthy (Some ?u)" "is_question_shaped (some_text (Some ?u))" "\<not> is_retry_nag must_call_tag (said ''system'' ''You are Jarvis.'')"
    by code_simp+
  moreover have "tn_messages (sample_turn ?u) = said ''system'' ''You are Jarvis.'' #
      [said ''system'' (must_call_tag @ '' call a tool''), said ''user'' ?u]" "tn_asked (sample_turn ?u) = []"
    by (simp_all add: sample_turn_def)
  ultimately have "must_call_retry_count (tn_messages (fst ?run)) = 0 \<and> (\<forall>q \<in> set (tn_asked (fst ?run)). prompt_demands q = 0)"
    using question_never_forced [OF _ _ _ _ res] by simp
  with res show ?thesis by (intro exI conjI) (rule res, rule conjunct1, assumption, rule conjunct2)
qed

text \<open>
  C15. No turn demands a tool more than twice: every request it sends to the model, and the transcript it leaves,
  carry at most two demands.
\<close>

theorem demanded_at_most_twice:
  "must_call_retry_count (tn_messages (fst (execute_loop env cid tools n u dc t))) \<le> 2 \<and>
   list_all (\<lambda>q. prompt_demands q \<le> 2) (drop (length (tn_asked t)) (tn_asked (fst (execute_loop env cid tools n u dc t))))"
  using execute_calm [of 2 u t env cid tools n dc] by (simp add: scrubbed_count calm_def list_all_iff)

text \<open>
  The model's own marker outranks the guards: a prose reply that closes the exchange is accepted as it is, with the
  turn ended and the exchange marked as ended; nothing in the transcript changes, no tool runs and the model
  is not asked again.
\<close>

lemma closing_reply_accepted:
  assumes "re_finish r = ''stop''" "ends_exchange r" "\<not> says_not_for_me r"
  shows "\<exists>c d. on_reply env vt left lo r t = (t\<lparr>tn_cache := c\<rparr>, Inr (Done d)) \<and>
     dget d ''stop_reason'' = PStr ''complete'' \<and> dget d ''end_of_exchange'' = PBool True"
proof -
  have "is_terminal r" using assms(2) by (simp add: is_terminal_def)
  moreover have "on_reply env vt left lo r t = on_answer env vt lo r t" using assms by (simp add: on_reply_def)
  ultimately obtain c where "on_reply env vt left lo r t = (t\<lparr>tn_cache := c\<rparr>, Inr (accept_answer env lo r))"
    by (cases rule: on_answer_cases [of env vt lo r t]) auto
  then show ?thesis using assms(2) by (auto simp: accept_answer_def finished_def with_reasoning_def Let_def)
qed

lemma closing_reply_accepted_witness:
  "\<exists>c d. on_reply (sample_loop (\<lambda>_. [])) (sample_voice ''Goodnight, turn off the light'') 2 fresh_looper
       (spoken_reply ''Goodnight! <exchange_complete/>'' []) (sample_turn ''Goodnight'') = ((sample_turn ''Goodnight'')\<lparr>tn_cache := c\<rparr>, Inr (Done d)) \<and>
     dget d ''end_of_exchange'' = PBool True"
proof -
  let ?r = "spoken_reply ''Goodnight! <exchange_complete/>'' []"
  have "re_finish ?r = ''stop''" "ends_exchange ?r" "\<not> says_not_for_me ?r" by code_simp+
  from closing_reply_accepted [OF this] show ?thesis by blast
qed

end
