(* ===== verification/Loop_Dedupe.thy ===== *)
theory Loop_Dedupe
  imports Loop_Guards
begin

section \<open>A client call is not repeated behind the user's back\<close>

text \<open>
  What the loop forwards to the device was either not issued in this conversation within the
  window, or the model was told once in this turn and asked again. What it forwards is recorded, so the
  next identical request meets the check.
\<close>

subsection \<open>Readings of the cache\<close>

lemma entry_get_again: "snd (entry_get cid g d' (fst (entry_get cid f d c))) = snd (entry_get cid g d' c)"
  by (auto simp: entry_get_def with_entry_def put_entry_def drop_entry_def expired_def update_conv' delete_conv' Let_def
      split: option.splits prod.splits)

lemma entry_get_now [simp]: "cc_now (fst (entry_get cid f d c)) = cc_now c"
  by (auto simp: entry_get_def with_entry_def put_entry_def drop_entry_def Let_def split: option.splits prod.splits)

definition issued_in :: "string \<Rightarrow> conv_cache \<Rightarrow> client_call list" where
  "issued_in cid c = snd (get_issued_client_calls cid c)"

definition live_in :: "string \<Rightarrow> conv_cache \<Rightarrow> bool" where
  "live_in cid c \<longleftrightarrow> snd (has_conversation cid c)"

definition reads_only :: "string \<Rightarrow> (conv_cache \<Rightarrow> conv_cache \<times> 'a) \<Rightarrow> bool" where
  "reads_only cid f \<longleftrightarrow> (\<forall>c. issued_in cid (fst (f c)) = issued_in cid c \<and> live_in cid (fst (f c)) = live_in cid c \<and> cc_now (fst (f c)) = cc_now c)"

lemma reads_entry_get: "reads_only cid (entry_get cid f d)"
  by (simp add: reads_only_def issued_in_def live_in_def get_issued_client_calls_def has_conversation_def entry_get_again)

lemma reads [simp]: "reads_only cid (get_force_tool_calls cid)" "reads_only cid (get_tools cid)"
  "reads_only cid (get_available_commands cid)" "reads_only cid (get_issued_client_calls cid)"
  by (simp_all add: get_force_tool_calls_def get_tools_def get_available_commands_def get_issued_client_calls_def reads_entry_get)

definition view :: "string \<Rightarrow> turn \<Rightarrow> client_call list \<times> bool \<times> int" where
  "view cid t = (issued_in cid (tn_cache t), live_in cid (tn_cache t), cc_now (tn_cache t))"

lemma view_reads: "reads_only cid f \<Longrightarrow> keeps (\<lambda>t. view cid t = v) (with_cache f)"
  by (rule keepsI) (auto simp: with_cache_run view_def reads_only_def)

lemma view_edit: "keeps (\<lambda>t. view cid t = v) (modify (tn_messages_update f))"
  by (rule keeps_modify) (simp add: view_def)

lemma view_call_llm: "keeps (\<lambda>t. view cid t = v) (call_llm env q)"
  by (rule keepsI) (simp add: call_llm_def ask_llm_def view_def)

lemma view_refine_params: "keeps (\<lambda>t. view cid t = v) (refine_params env tools u cs)"
  by (induction cs) (auto simp: refine_call_def intro!: keeps_bind keeps_if keeps_option view_call_llm)

lemma view_refine_clients: "keeps (\<lambda>t. view (vt_cid vt) t = v) (refine_clients env vt cs)"
  by (auto simp: refine_clients_def intro!: keeps_bind keeps_if view_reads view_refine_params)

lemma view_client_faults: "keeps (\<lambda>t. view (vt_cid vt) t = v) (client_faults vt cs)"
  by (auto simp: client_faults_def intro!: keeps_bind view_reads)

subsection \<open>Recording\<close>

lemma record_issued:
  "issued_in cid (record_issued_client_call cid n h c) =
     (if live_in cid c then issued_in cid c @ [\<lparr>ic_name = n, ic_hash = h, ic_time = cc_now c\<rparr>] else [])"
  "live_in cid (record_issued_client_call cid n h c) = live_in cid c"
  "cc_now (record_issued_client_call cid n h c) = cc_now c"
  by (auto simp: issued_in_def live_in_def record_issued_client_call_def entry_set_def get_issued_client_calls_def
      has_conversation_def entry_get_def with_entry_def put_entry_def drop_entry_def expired_def update_conv' delete_conv' Let_def
      split: option.splits prod.splits)

lemma record_calls_issued:
  "live_in cid c \<Longrightarrow> issued_in cid (record_calls cid ks c) =
     issued_in cid c @ map (\<lambda>(n, h). \<lparr>ic_name = n, ic_hash = h, ic_time = cc_now c\<rparr>) ks"
  "cc_now (record_calls cid ks c) = cc_now c"
  by (induction ks arbitrary: c) (auto simp: record_issued)

subsection \<open>Forwarding\<close>

definition keys_of :: "loop_env \<Rightarrow> tool_call list \<Rightarrow> (pyval \<times> string) list" where
  "keys_of env calls = List.map_filter (call_key env) calls"

definition forwards :: "loop_env \<Rightarrow> string \<Rightarrow> client_call list \<times> bool \<times> int \<Rightarrow> flow \<Rightarrow> (tool_call list \<Rightarrow> bool) \<Rightarrow> turn \<Rightarrow> bool" where
  "forwards env cid v f ok t \<longleftrightarrow> (case f of Again _ \<Rightarrow> True | Done d \<Rightarrow> \<exists>calls.
     dget d ''stop_reason'' = PStr ''tool_calls'' \<and> dget d ''tool_calls'' = PList (map PDict calls) \<and> ok calls \<and>
     (fst (snd v) \<longrightarrow> issued_in cid (tn_cache t) = fst v @ map (\<lambda>(n, h). \<lparr>ic_name = n, ic_hash = h, ic_time = snd (snd v)\<rparr>) (keys_of env calls)))"

lemma forward_valid:
  "valid (\<lambda>t. view (vt_cid vt) t = v \<and> ok calls) (forward_clients env vt lo r calls)
     (\<lambda>f t. forwards env (vt_cid vt) v f ok t) (\<lambda>_. True)"
proof (rule validI)
  fix t assume t: "view (vt_cid vt) t = v \<and> ok calls"
  then have "fst (snd v) \<Longrightarrow> issued_in (vt_cid vt) (record_calls (vt_cid vt) (keys_of env calls) (tn_cache t)) =
      fst v @ map (\<lambda>(n, h). \<lparr>ic_name = n, ic_hash = h, ic_time = snd (snd v)\<rparr>) (keys_of env calls)"
    using record_calls_issued(1) [of "vt_cid vt" "tn_cache t" "keys_of env calls"] by (auto simp: view_def)
  with t show "case snd (forward_clients env vt lo r calls t) of Inl e \<Rightarrow> True
      | Inr f \<Rightarrow> forwards env (vt_cid vt) v f ok (fst (forward_clients env vt lo r calls t))"
    by (auto simp: forward_clients_def io_simps with_cache_run forwards_def finished_def with_reasoning_def keys_of_def)
qed

definition fresh :: "loop_env \<Rightarrow> looper \<Rightarrow> client_call list \<times> bool \<times> int \<Rightarrow> tool_call list \<Rightarrow> bool" where
  "fresh env lo v calls \<longleftrightarrow> (\<forall>k \<in> set (keys_of env calls). k \<in> set (lo_nudged lo) \<or> \<not> issued_within env (snd (snd v)) (fst v) k)"

lemma no_duplicate_fresh:
  "0 < le_window env \<Longrightarrow> find_duplicate_issued_call env now issued (lo_nudged lo) calls = None \<Longrightarrow> fresh env lo (issued, b, now) calls"
  by (auto simp: find_duplicate_issued_call_def fresh_def keys_of_def find_None_iff)

lemma client_calls_forward:
  assumes "0 < le_window env"
  shows "valid (\<lambda>t. view (vt_cid vt) t = v) (on_client_calls env vt shown lo r cs)
     (\<lambda>f t. forwards env (vt_cid vt) v f (fresh env lo v) t) (\<lambda>_. True)"
proof -
  let ?V = "\<lambda>t. view (vt_cid vt) t = v"
  have show': "keeps ?V (show_calls shown calls)" for calls by (simp add: show_calls_def view_edit)
  have again: "valid P (bind (append_messages xs) (\<lambda>_. ret (Again lo'))) (\<lambda>f t. forwards env (vt_cid vt) v f ok t) (\<lambda>_. True)"
    for P xs lo' ok by (simp add: valid_def append_messages_def io_simps forwards_def)
  have dup: "valid P (on_duplicate lo k) (\<lambda>f t. forwards env (vt_cid vt) v f ok t) (\<lambda>_. True)" for P k ok
    by (simp add: valid_def on_duplicate_def io_simps forwards_def)
  have rest: "valid (\<lambda>t. ?V t \<and> fresh env lo v calls)
      (bind (client_faults vt calls) (\<lambda>invalid. bind (gets (\<lambda>t. invalid_param_retry_count (tn_messages t))) (\<lambda>count.
         if invalid \<noteq> [] \<and> int count < retry_limit env then
           bind (append_messages [invalid_param_nag count (retry_limit env) invalid]) (\<lambda>_. ret (Again lo))
         else forward_clients env vt lo r calls)))
      (\<lambda>f t. forwards env (vt_cid vt) v f (fresh env lo v) t) (\<lambda>_. True)" for calls
  proof (cases "fresh env lo v calls")
    case True
    then show ?thesis
      using forward_valid [of vt v "fresh env lo v" calls env lo r]
      by (auto intro!: valid_keep_bind [where P = ?V] view_client_faults valid_if again)
  qed (simp add: valid_def)
  have issued: "valid ?V (if le_window env \<le> 0 then ret [] else with_cache (get_issued_client_calls (vt_cid vt)))
      (\<lambda>issued t. ?V t \<and> issued = fst v) (\<lambda>_. True)"
    using assms view_reads [of "vt_cid vt" "get_issued_client_calls (vt_cid vt)" v]
    by (auto simp: valid_def keeps_def with_cache_run view_def issued_in_def)
  have find: "valid (\<lambda>t. ?V t \<and> issued = fst v) (gets (\<lambda>t. find_duplicate_issued_call env (cc_now (tn_cache t)) issued (lo_nudged lo) calls))
      (\<lambda>dup t. ?V t \<and> (dup = None \<longrightarrow> fresh env lo v calls)) (\<lambda>_. True)" for issued calls
    using no_duplicate_fresh [OF assms, of _ _ lo calls] by (auto simp: valid_def io_simps view_def)
  show ?thesis
    unfolding on_client_calls_def
    by (rule valid_keep_bind [where P = ?V], rule view_refine_clients, simp,
        rule valid_keep_bind [where P = ?V], rule show', simp,
        rule valid_bind [OF issued], rule valid_bind [OF find])
      (auto simp: dup split: option.split intro: valid_pre [OF rest])
qed

text \<open>
  C16. A command is not sent to the device twice behind the user's back: while the window is on, every call the loop
  forwards was either not issued in this conversation within the window, or is one the model was reminded of in this
  turn and repeated all the same; and as long as the conversation lives, what is forwarded is recorded with the
  time.
\<close>

theorem forwarded_calls_fresh:
  assumes "0 < le_window env" "on_client_calls env vt shown lo r cs t = (t', Inr (Done d))"
  shows "\<exists>calls. dget d ''stop_reason'' = PStr ''tool_calls'' \<and> dget d ''tool_calls'' = PList (map PDict calls) \<and>
    (\<forall>k \<in> set (keys_of env calls). k \<in> set (lo_nudged lo) \<or>
        \<not> issued_within env (cc_now (tn_cache t)) (issued_in (vt_cid vt) (tn_cache t)) k) \<and>
    (live_in (vt_cid vt) (tn_cache t) \<longrightarrow> issued_in (vt_cid vt) (tn_cache t') = issued_in (vt_cid vt) (tn_cache t) @
        map (\<lambda>(n, h). \<lparr>ic_name = n, ic_hash = h, ic_time = cc_now (tn_cache t)\<rparr>) (keys_of env calls))"
proof -
  have "forwards env (vt_cid vt) (view (vt_cid vt) t) (Done d) (fresh env lo (view (vt_cid vt) t)) t'"
    using client_calls_forward [OF assms(1), of vt "view (vt_cid vt) t" shown lo r cs] assms(2)
    by (auto simp: valid_def dest!: spec [of _ t])
  then show ?thesis by (auto simp: forwards_def fresh_def view_def)
qed

theorem forwarded_calls_fresh_witness:
  "\<exists>t' d calls. on_client_calls (sample_loop (\<lambda>_. [])) (sample_voice ''Set a timer'') True fresh_looper (spoken_reply [] [])
       [sample_call 0 ''set_timer'' [(''minutes'', PInt 5)]] (sample_turn ''Set a timer'') = (t', Inr (Done d)) \<and>
     dget d ''tool_calls'' = PList (map PDict calls) \<and> live_in ''c1'' (tn_cache (sample_turn ''Set a timer'')) \<and>
     length (issued_in ''c1'' (tn_cache t')) = length (keys_of (sample_loop (\<lambda>_. [])) calls)"
proof -
  let ?env = "sample_loop (\<lambda>_. [])" and ?t = "sample_turn ''Set a timer''"
  let ?run = "on_client_calls ?env (sample_voice ''Set a timer'') True fresh_looper (spoken_reply [] [])
    [sample_call 0 ''set_timer'' [(''minutes'', PInt 5)]] ?t"
  have "0 < le_window ?env" by (simp add: sample_loop_def)
  moreover have "case snd ?run of Inr (Done d) \<Rightarrow> True | _ \<Rightarrow> False" by code_simp
  then obtain t' d where run: "?run = (t', Inr (Done d))" by (cases ?run) (auto split: sum.splits flow.splits)
  moreover have "live_in ''c1'' (tn_cache ?t)" "issued_in ''c1'' (tn_cache ?t) = []" by code_simp+
  moreover have "vt_cid (sample_voice ''Set a timer'') = ''c1''" by (simp add: sample_voice_def)
  ultimately show ?thesis using forwarded_calls_fresh [of ?env, OF _ run] by fastforce
qed

end
