(* ===== verification/Bus_State.thy ===== *)
theory Bus_State
  imports Inbox_Notify Tool_Loop Callback_Registry
begin

section \<open>The signal bus: tables, process memory, services\<close>

text \<open>
  What the signal bus, the proposals, the callback jobs and the node commands share: their tables of
  \<^verbatim>\<open>app/models.py\<close>, the dictionaries the modules keep in the process, and the log of what the services
  were asked, newest first. A service's answer is a function of that log. The clock is in
  microseconds of UTC, does not run backwards and also stands for the monotonic clock. JSON text
  columns are values; ids are drawn from a counter. A scope's user is a number, its node and room are text.
\<close>

subsection \<open>Tables\<close>

record signal =
  sg_id :: nat
  sg_household :: string
  sg_user :: "int option"
  sg_node :: "string option"
  sg_room :: "string option"
  sg_kind :: string
  sg_subject :: "string option"
  sg_key :: string
  sg_summary :: "string option"
  sg_facts :: "pydict option"
  sg_agent :: "string option"
  sg_cacheable :: bool
  sg_salience :: pyval
  sg_observed :: int
  sg_expires :: "int option"
  sg_active :: bool

record suppression =
  su_id :: string
  su_household :: string
  su_user :: "int option"
  su_command :: string
  su_key :: "string option"
  su_descriptor :: "string option"
  su_created :: int

record callback_job =
  cj_id :: string
  cj_node :: "string option"
  cj_household :: string
  cj_user :: "int option"
  cj_command :: string
  cj_callback :: string
  cj_data :: pydict
  cj_idem :: "string option"
  cj_nav :: string
  cj_status :: string
  cj_error :: "string option"
  cj_result :: "pydict option"
  cj_created :: int
  cj_expires :: int
  cj_done :: "int option"

record node_row =
  nd_id :: string
  nd_household :: "string option"
  nd_seen :: "int option"
  nd_active :: bool

subsection \<open>Process memory and services\<close>

text \<open>\<open>NodeCommandService._pending_commands\<close>: the node, the verb and the end of an issued command.\<close>

record issued =
  is_node :: string
  is_verb :: string
  is_expires :: int

datatype bus_ask =
    Mqtt string pyval
  | Ask_tools string
  | Ask_result string
  | Ask_pick string string pydict "pydict list"
  | Ask_planner string
  | Queue pydict

record bus =
  bu_hub :: hub
  bu_ids :: nat
  bu_signals :: "signal list"
  bu_supps :: "suppression list"
  bu_jobs :: "callback_job list"
  bu_nodes :: "node_row list"
  bu_issued :: "(string \<times> issued) list"
  bu_asked :: "bus_ask list"
  bu_writes :: "((string \<times> string) \<times> pyval) list"
  bu_acted :: "((string \<times> string \<times> string) \<times> string) list"
  bu_leave :: "string list"
  bu_fired :: "string list"
  bu_daily :: "(string \<times> string \<times> nat) list"
  bu_last :: "((string \<times> string \<times> string) \<times> int) list"
  bu_rate :: "((string \<times> string) \<times> rat \<times> int) list"

definition bus_now :: "bus \<Rightarrow> int" where
  "bus_now b = hb_now (bu_hub b)"

record bus_env =
  be_notify :: notify_service
  be_serve :: "bus_ask list \<Rightarrow> exc + pyval"
  be_setting :: "((string \<times> string) \<times> pyval) list \<Rightarrow> string \<Rightarrow> string \<Rightarrow> exc + pyval"
  be_write_ok :: "((string \<times> string) \<times> pyval) list \<Rightarrow> bool"
  be_member :: "int \<Rightarrow> string \<Rightarrow> string \<Rightarrow> bool"
  be_sha :: "string \<Rightarrow> string"
  be_hash :: "string \<Rightarrow> int"
  be_mqtt :: bool
  be_late :: "bus_ask list \<Rightarrow> bool"
  be_nulls_first :: bool
  be_meanwhile :: "bus \<Rightarrow> bus"

definition ask_bus :: "bus_env \<Rightarrow> bus_ask \<Rightarrow> (bus, pyval) io" where
  "ask_bus E q = (\<lambda>b. let l = q # bu_asked b in (b\<lparr>bu_asked := l\<rparr>, be_serve E l))"

definition bus_id :: "(bus, nat) io" where
  "bus_id = (\<lambda>b. (b\<lparr>bu_ids := Suc (bu_ids b)\<rparr>, Inr (bu_ids b)))"

definition on_hub :: "(hub, 'a) io \<Rightarrow> (bus, 'a) io" where
  "on_hub m = (\<lambda>b. case m (bu_hub b) of (h, r) \<Rightarrow> (b\<lparr>bu_hub := h\<rparr>, r))"

definition setting :: "bus_env \<Rightarrow> string \<Rightarrow> string \<Rightarrow> bus \<Rightarrow> exc + pyval" where
  "setting E k hh b = be_setting E (bu_writes b) k hh"

definition uuid :: "nat \<Rightarrow> string" where
  "uuid n = ''id_'' @ nat_str n"

definition post_card :: "bus_env \<Rightarrow> string \<Rightarrow> string \<Rightarrow> string \<Rightarrow> string \<Rightarrow> string \<Rightarrow> pydict \<Rightarrow> int option \<Rightarrow> bool \<Rightarrow> string
    \<Rightarrow> (bus, string option) io" where
  "post_card E hh title summary body cat meta user push target =
     on_hub (post_inbox_item_sync (be_notify E) hh title summary body cat meta user push target)"

subsection \<open>Running the primitives\<close>

lemma run_ask_bus [io_simps]: "ask_bus E q b = (b\<lparr>bu_asked := q # bu_asked b\<rparr>, be_serve E (q # bu_asked b))"
  by (simp add: ask_bus_def Let_def)

lemma run_bus_id [io_simps]: "bus_id b = (b\<lparr>bu_ids := Suc (bu_ids b)\<rparr>, Inr (bu_ids b))"
  by (simp add: bus_id_def)

lemma bus_now_update [simp]:
  "bus_now (bu_ids_update f1 b) = bus_now b" "bus_now (bu_signals_update f2 b) = bus_now b"
  "bus_now (bu_supps_update f3 b) = bus_now b" "bus_now (bu_jobs_update f4 b) = bus_now b"
  "bus_now (bu_nodes_update f5 b) = bus_now b" "bus_now (bu_issued_update f6 b) = bus_now b"
  "bus_now (bu_asked_update f7 b) = bus_now b" "bus_now (bu_writes_update f8 b) = bus_now b"
  "bus_now (bu_acted_update f9 b) = bus_now b" "bus_now (bu_leave_update g1 b) = bus_now b"
  "bus_now (bu_fired_update g2 b) = bus_now b" "bus_now (bu_daily_update g3 b) = bus_now b"
  "bus_now (bu_last_update g4 b) = bus_now b" "bus_now (bu_rate_update g5 b) = bus_now b"
  by (simp_all add: bus_now_def)

lemma keeps_ask_bus [io_keeps]: "(\<And>b l. P b \<Longrightarrow> P (b\<lparr>bu_asked := l\<rparr>)) \<Longrightarrow> keeps P (ask_bus E q)"
  by (rule keepsI) (simp add: run_ask_bus)

lemma keeps_bus_id [io_keeps]: "(\<And>b n. P b \<Longrightarrow> P (b\<lparr>bu_ids := n\<rparr>)) \<Longrightarrow> keeps P bus_id"
  by (rule keepsI) (simp add: run_bus_id)

lemma keeps_on_hub [io_keeps]: "(\<And>b h. P b \<Longrightarrow> P (b\<lparr>bu_hub := h\<rparr>)) \<Longrightarrow> keeps P (on_hub m)"
  by (rule keepsI) (simp add: on_hub_def split: prod.split)

text \<open>A card leaves at most two requests with the notification service and changes nothing else.\<close>

lemma post_card_result:
  obtains (lost) h where "post_card E hh t s b c m u push tgt w = (w\<lparr>bu_hub := h\<rparr>, Inr None)" "hb_now h = bus_now w"
      "filter (\<lambda>r. \<not> is_notify r) (hb_http h) = InboxPost (inbox_payload hh t s b c m u) # filter (\<lambda>r. \<not> is_notify r) (hb_http (bu_hub w))"
    | (posted) h item where "post_card E hh t s b c m u push tgt w = (w\<lparr>bu_hub := h\<rparr>, Inr item)" "hb_now h = bus_now w"
      "filter (\<lambda>r. \<not> is_notify r) (hb_http h) = InboxPost (inbox_payload hh t s b c m u) # filter (\<lambda>r. \<not> is_notify r) (hb_http (bu_hub w))"
proof (cases rule: post_inbox_item_cases [of "be_notify E" hh t s b c m u push tgt "bu_hub w"])
  case lost
  then show ?thesis using that(1) by (simp add: post_card_def on_hub_def bus_now_def)
qed (use that(2) in \<open>simp_all add: post_card_def on_hub_def bus_now_def\<close>)

end
