(* ===== verification/Node_Commands.thy ===== *)
theory Node_Commands
  imports Bus_State
begin

section \<open>Commands to the nodes\<close>

text \<open>
  \<^verbatim>\<open>app/services/node_command_service.py\<close>: a command is registered under its request id before it is
  published, and a node may run it only after the id has been verified, once. A dispatch publishes a
  tool call and waits for the answer a node posts under the id; no answer in time is \<open>PNone\<close>.
\<close>

definition live_issued :: "int \<Rightarrow> (string \<times> issued) list \<Rightarrow> (string \<times> issued) list" where
  "live_issued now es = filter (\<lambda>(rid, e). \<not> now > is_expires e) es"

definition command_topic :: "string \<Rightarrow> string" where
  "command_topic node = ''jarvis/nodes/'' @ node @ ''/commands''"

definition publish_command_with_id :: "bus_env \<Rightarrow> string \<Rightarrow> string \<Rightarrow> pydict \<Rightarrow> string \<Rightarrow> (bus, string) io" where
  "publish_command_with_id E node verb details rid =
     bind (modify (\<lambda>b. b\<lparr>bu_issued := live_issued (bus_now b)
        (AList.update rid \<lparr>is_node = node, is_verb = verb, is_expires = bus_now b + 300000000\<rparr> (bu_issued b))\<rparr>)) (\<lambda>_.
     bind (if be_mqtt E
           then catch (bind (ask_bus E (Mqtt (command_topic node) (PList [PDict [(''command'', PStr verb),
                  (''details'', PDict (dset details ''request_id'' (PStr rid)))]]))) (\<lambda>_. ret ())) (\<lambda>_. ret ())
           else ret ()) (\<lambda>_.
     ret rid))"

definition publish_command :: "bus_env \<Rightarrow> string \<Rightarrow> string \<Rightarrow> pydict \<Rightarrow> (bus, string) io" where
  "publish_command E node verb details =
     bind bus_id (\<lambda>n. publish_command_with_id E node verb details (uuid n))"

definition verify_command :: "string \<Rightarrow> string \<Rightarrow> (bus, bool) io" where
  "verify_command rid node = (\<lambda>b. case map_of (bu_issued b) rid of
      None \<Rightarrow> (b, Inr False)
    | Some e \<Rightarrow>
        if is_node e \<noteq> node then (b, Inr False)
        else (b\<lparr>bu_issued := AList.delete rid (bu_issued b)\<rparr>, Inr (\<not> bus_now b > is_expires e)))"

definition dispatch_failed :: pydict where
  "dispatch_failed = [(''success'', PBool False), (''error'', PStr (''the node didn'' @ [CHR 0x27] @ ''t respond in time'')), (''timeout'', PBool True)]"

definition dispatch_details :: "string \<Rightarrow> pydict \<Rightarrow> int option \<Rightarrow> string \<Rightarrow> pydict" where
  "dispatch_details cmd args user rid =
     [(''command_name'', PStr cmd), (''arguments'', PDict args), (''tool_call_id'', PStr rid),
      (''reply_request_id'', PStr rid), (''trusted'', PBool True)] @
     (case user of None \<Rightarrow> [] | Some u \<Rightarrow> [(''user_id'', PInt u)])"

definition dispatch_node_command :: "bus_env \<Rightarrow> string \<Rightarrow> string \<Rightarrow> pydict \<Rightarrow> int option \<Rightarrow> (bus, pydict) io" where
  "dispatch_node_command E node cmd args user =
     bind bus_id (\<lambda>n.
     bind (publish_command_with_id E node ''tool_call'' (dispatch_details cmd args user (uuid n)) (uuid n)) (\<lambda>rid.
     bind (ask_bus E (Ask_result rid)) (\<lambda>v.
     if v = PNone then ret dispatch_failed
     else bind (lift (as_dict v)) (\<lambda>d.
       ret (case dget_or d ''output'' v of
              PDict out \<Rightarrow> out
            | out \<Rightarrow> [(''success'', PBool True), (''result'', out)])))))"

end
