(* ===== verification/Signal_Store.thy ===== *)
theory Signal_Store
  imports Bus_State
begin

section \<open>Signals and the rules a household attaches to them\<close>

text \<open>
  \<^verbatim>\<open>app/services/signal_service.py\<close>, \<^verbatim>\<open>app/services/signal_catalog.py\<close>,
  \<^verbatim>\<open>app/services/signal_automation_store.py\<close>, the authoring endpoints of
  \<^verbatim>\<open>app/api/mobile_signal_automations.py\<close> and the two gates of \<^verbatim>\<open>app/api/signals.py\<close>. The tokens of the rate
  limiter are exact rationals. Request bodies have passed the validation of their models.
\<close>

subsection \<open>Cacheable signals\<close>

definition float_rx :: rx where
  "float_rx = rx_cat [some1 digit, ch CHR ''.'', some1 digit]"

definition seconds_rx :: rx where
  "seconds_rx = rx_cat [Bnd, Rep 1 (Some 2) True digit, ch CHR '':'', Rep 2 (Some 2) True digit, ch CHR '':'',
     Rep 2 (Some 2) True digit, Bnd]"

definition relative_rx :: rx where
  "relative_rx = rx_cat [Bnd, rx_alt [lit_ci ''ago'', lit_ci ''just now'', lit_ci ''right now'',
     Cat (lit_ci ''moment'') (Cat (opt (ch_ci CHR ''s'')) (lit_ci '' ago'')),
     Cat (lit_ci ''minute'') (opt (ch_ci CHR ''s'')), Cat (lit_ci ''second'') (opt (ch_ci CHR ''s'')),
     rx_cat [lit_ci ''in '', some1 digit, lit_ci '' min'']], Bnd]"

definition reject_non_quantized :: "string option \<Rightarrow> pydict option \<Rightarrow> exc + unit" where
  "reject_non_quantized summary facts =
     (let blob = join '' '' (filter (\<lambda>p. p \<noteq> [])
        [oor summary [], case facts of None \<Rightarrow> [] | Some d \<Rightarrow> json_dumps (PDict d)]) in
      if rx_search float_rx blob \<noteq> None \<or> rx_search seconds_rx blob \<noteq> None \<or> rx_search relative_rx blob \<noteq> None
      then Inl (ValueError ''cacheable Signal must be quantized/absolute'') else Inr ())"

subsection \<open>The store\<close>

record signal_in =
  si_kind :: string
  si_key :: string
  si_subject :: "string option"
  si_summary :: "string option"
  si_facts :: "pydict option"
  si_user :: "int option"
  si_node :: "string option"
  si_room :: "string option"
  si_ttl :: "int option"
  si_cacheable :: bool
  si_salience :: pyval
  si_agent :: "string option"
  si_observed :: "int option"

definition matches_signal :: "string \<Rightarrow> string \<Rightarrow> signal \<Rightarrow> bool" where
  "matches_signal hh key s \<longleftrightarrow> sg_household s = hh \<and> sg_key s = key \<and> sg_active s"

definition write_signal :: "int \<Rightarrow> signal_in \<Rightarrow> signal \<Rightarrow> signal" where
  "write_signal now i s = s\<lparr>sg_user := si_user i, sg_node := si_node i, sg_room := si_room i, sg_kind := si_kind i,
     sg_subject := si_subject i, sg_summary := si_summary i, sg_facts := si_facts i, sg_agent := si_agent i,
     sg_cacheable := si_cacheable i, sg_salience := si_salience i,
     sg_observed := (case si_observed i of None \<Rightarrow> now | Some t \<Rightarrow> t),
     sg_expires := (case si_ttl i of None \<Rightarrow> None | Some n \<Rightarrow> if n = 0 then None else Some (now + n * 1000000))\<rparr>"

definition blank_signal :: "nat \<Rightarrow> string \<Rightarrow> string \<Rightarrow> signal" where
  "blank_signal n hh key = \<lparr>sg_id = n, sg_household = hh, sg_user = None, sg_node = None, sg_room = None, sg_kind = [],
     sg_subject = None, sg_key = key, sg_summary = None, sg_facts = None, sg_agent = None, sg_cacheable = False,
     sg_salience = PNone, sg_observed = 0, sg_expires = None, sg_active = True\<rparr>"

text \<open>The table allows one row per household and key, so an insert beside an inactive row raises.\<close>

definition upsert_signal :: "int \<Rightarrow> nat \<Rightarrow> string \<Rightarrow> signal_in \<Rightarrow> signal list \<Rightarrow> exc + signal list \<times> signal" where
  "upsert_signal now n hh i rows =
     (case find (matches_signal hh (si_key i)) rows of
        Some s \<Rightarrow> let s' = write_signal now i s in
          Inr (map (\<lambda>r. if sg_id r = sg_id s then s' else r) rows, s')
      | None \<Rightarrow>
          if list_ex (\<lambda>s. sg_household s = hh \<and> sg_key s = si_key i) rows
          then Inl (OtherError ''UNIQUE constraint failed'')
          else let s' = write_signal now i (blank_signal n hh (si_key i)) in Inr (rows @ [s'], s'))"

definition save_signal :: "string \<Rightarrow> signal_in \<Rightarrow> (bus, signal) io" where
  "save_signal hh i =
     bind (lift (if si_cacheable i then reject_non_quantized (si_summary i) (si_facts i) else Inr ())) (\<lambda>_.
     bind bus_id (\<lambda>n.
     bind (gets (\<lambda>b. upsert_signal (bus_now b) n hh i (bu_signals b))) (\<lambda>r.
     bind (lift r) (\<lambda>(rows, s).
     bind (modify (bu_signals_update (\<lambda>_. rows))) (\<lambda>_. ret s)))))"

definition signal_expired :: "int \<Rightarrow> signal \<Rightarrow> bool" where
  "signal_expired now s \<longleftrightarrow> (case sg_expires s of None \<Rightarrow> False | Some t \<Rightarrow> t \<le> now)"

definition cleanup_expired :: "(bus, nat) io" where
  "cleanup_expired = (\<lambda>b. (b\<lparr>bu_signals := filter (\<lambda>s. \<not> signal_expired (bus_now b) s) (bu_signals b)\<rparr>,
     Inr (length (filter (signal_expired (bus_now b)) (bu_signals b)))))"

definition live_signals :: "string \<Rightarrow> bus \<Rightarrow> signal list" where
  "live_signals hh b = filter (\<lambda>s. sg_household s = hh \<and> sg_active s \<and> \<not> signal_expired (bus_now b) s) (bu_signals b)"

subsection \<open>Presence\<close>

definition user_key :: "int \<Rightarrow> string" where
  "user_key u = ''presence:'' @ int_str u"

definition presence_signal :: "int \<Rightarrow> string \<Rightarrow> string \<Rightarrow> string option \<Rightarrow> string option \<Rightarrow> string option \<Rightarrow> int option
    \<Rightarrow> string option \<Rightarrow> signal_in" where
  "presence_signal u state agent node room name ttl summary =
     (let home = (state = ''home'');
          who = oor name ''Someone'';
          place = (if otruthy room then '' in the '' @ oor room [] else []);
          text = (case summary of Some s \<Rightarrow> s | None \<Rightarrow> if home then who @ '' is home'' @ place else who @ '' is away'') in
      \<lparr>si_kind = (if home then ''presence.seen'' else ''presence.left''), si_key = user_key u,
       si_subject = Some (''user:'' @ int_str u), si_summary = Some text,
       si_facts = Some [(''user_id'', PInt u), (''state'', PStr state), (''room'', opt_str room)],
       si_user = Some u, si_node = node, si_room = room, si_ttl = ttl, si_cacheable = False, si_salience = PNone,
       si_agent = Some agent, si_observed = None\<rparr>)"

definition record_presence :: "string \<Rightarrow> int option \<Rightarrow> string \<Rightarrow> string \<Rightarrow> string option \<Rightarrow> string option \<Rightarrow> string option
    \<Rightarrow> int option \<Rightarrow> string option \<Rightarrow> (bus, signal option) io" where
  "record_presence hh user state agent node room name ttl summary = (case user of
      None \<Rightarrow> ret None
    | Some u \<Rightarrow> bind (save_signal hh (presence_signal u state agent node room name ttl summary)) (\<lambda>s. ret (Some s)))"

definition record_voice_presence :: "string \<Rightarrow> int option \<Rightarrow> string option \<Rightarrow> string option \<Rightarrow> int \<Rightarrow> (bus, signal option) io" where
  "record_voice_presence hh user node name ttl = (case user of
      None \<Rightarrow> ret None
    | Some u \<Rightarrow> record_presence hh user ''home'' ''voice'' node None name (Some ttl)
        (Some (oor name ''Someone'' @ '' was recently heard'' @
           (if otruthy node then '' at the '' @ oor node [] @ '' node'' else []))))"

subsection \<open>The catalog\<close>

record signal_kind =
  sk_kind :: string
  sk_label :: string
  sk_description :: string
  sk_facts :: pydict
  sk_example :: string
  sk_source :: string

definition signal_catalog :: "signal_kind list" where
  "signal_catalog =
     [\<lparr>sk_kind = ''presence.left'', sk_label = ''I leave home'',
       sk_description = ''Your phone leaves the home area - you'' @ [CHR 0x27] @ ''ve left.'',
       sk_facts = [(''user_id'', PStr ''Who left''), (''state'', PStr (''Always '' @ squoted ''away'')),
                   (''room'', PStr ''Last known room, if any'')],
       sk_example = ''Lock the front door'', sk_source = ''mobile''\<rparr>,
      \<lparr>sk_kind = ''presence.seen'', sk_label = ''I arrive home'',
       sk_description = ''Your phone enters the home area - you'' @ [CHR 0x27] @ ''re home.'',
       sk_facts = [(''user_id'', PStr ''Who arrived''), (''state'', PStr (''Always '' @ squoted ''home'')), (''room'', PStr ''Room, if known'')],
       sk_example = ''Turn on the entryway lights'', sk_source = ''mobile''\<rparr>,
      \<lparr>sk_kind = ''appt.upcoming'', sk_label = ''An appointment is coming up'',
       sk_description = ''A calendar event with a location enters its leave-by window.'',
       sk_facts = [(''title'', PStr ''Event title''), (''location'', PStr ''Where it is''),
                   (''start_iso'', PStr ''Start time (ISO-8601)''), (''start_display'', PStr ''Start time (friendly)''),
                   (''event_id'', PStr ''Calendar event id'')],
       sk_example = ''Remind me 30 minutes before I have to leave'', sk_source = ''calendar_alerts''\<rparr>]"

definition get_kind :: "string \<Rightarrow> signal_kind option" where
  "get_kind k = find (\<lambda>s. sk_kind s = k) signal_catalog"

definition is_authorable :: "string \<Rightarrow> bool" where
  "is_authorable k \<longleftrightarrow> get_kind k \<noteq> None"

subsection \<open>Rules\<close>

definition rules_key :: string where
  "rules_key = ''signals.automations''"

definition normalize_delivery :: "pyval \<Rightarrow> string" where
  "normalize_delivery v = (if v = PStr ''automatic'' then ''automatic'' else ''notification'')"

definition load_rules :: "bus_env \<Rightarrow> string \<Rightarrow> bus \<Rightarrow> exc + pydict" where
  "load_rules E hh b = rbind (setting E rules_key hh b) (\<lambda>raw.
     if \<not> truthy raw then Inr []
     else Inr (case (case raw of PStr s \<Rightarrow> json_loads s | v \<Rightarrow> Some v) of Some (PDict d) \<Rightarrow> d | _ \<Rightarrow> []))"

definition save_rules :: "bus_env \<Rightarrow> string \<Rightarrow> pydict \<Rightarrow> (bus, bool) io" where
  "save_rules E hh rules = (\<lambda>b.
     let ws = ((rules_key, hh), PStr (json_dumps (PDict rules))) # bu_writes b in
     if be_write_ok E ws then (b\<lparr>bu_writes := ws\<rparr>, Inr True) else (b, Inr False))"

definition get_enabled_rule :: "bus_env \<Rightarrow> string \<Rightarrow> string \<Rightarrow> bus \<Rightarrow> exc + (string \<times> string) option" where
  "get_enabled_rule E hh kind b =
     rbind (load_rules E hh b) (\<lambda>rules.
     rbind (as_dict (por (dget rules kind) (PDict []))) (\<lambda>rule.
     rbind (as_str (por (dget rule ''instruction'') (PStr []))) (\<lambda>text.
     Inr (if strip text \<noteq> [] \<and> truthy (dget rule ''enabled'')
          then Some (strip text, normalize_delivery (dget rule ''delivery'')) else None))))"

subsection \<open>The authoring endpoints\<close>

definition require_role :: "bus_env \<Rightarrow> int \<Rightarrow> string \<Rightarrow> string \<Rightarrow> exc + unit" where
  "require_role E user hh role = (if be_member E user hh role then Inr () else Inl (HTTPError 403 ''Not a member''))"

definition automation_item :: "pydict \<Rightarrow> string list \<Rightarrow> signal_kind \<Rightarrow> exc + pydict" where
  "automation_item rules observed s =
     rbind (as_dict (por (dget rules (sk_kind s)) (PDict []))) (\<lambda>rule.
     Inr [(''kind'', PStr (sk_kind s)), (''label'', PStr (sk_label s)), (''description'', PStr (sk_description s)),
          (''facts'', PDict (sk_facts s)), (''example'', PStr (sk_example s)), (''source'', PStr (sk_source s)),
          (''observed'', PBool (sk_kind s \<in> set observed)), (''instruction'', dget_or rule ''instruction'' (PStr [])),
          (''enabled'', PBool (truthy (dget_or rule ''enabled'' (PBool False)))),
          (''delivery'', PStr (normalize_delivery (dget rule ''delivery'')))])"

definition observed_kinds :: "string \<Rightarrow> bus \<Rightarrow> string list" where
  "observed_kinds hh b = map sg_kind (live_signals hh b)"

definition list_signal_automations :: "bus_env \<Rightarrow> string \<Rightarrow> int \<Rightarrow> bus \<Rightarrow> exc + pydict" where
  "list_signal_automations E hh user b =
     rbind (require_role E user hh ''member'') (\<lambda>_.
     rbind (load_rules E hh b) (\<lambda>rules.
     rbind (rmap (automation_item rules (observed_kinds hh b)) signal_catalog) (\<lambda>items.
     Inr [(''household_id'', PStr hh), (''automations'', PList (map PDict items))])))"

definition set_signal_automation ::
    "bus_env \<Rightarrow> string \<Rightarrow> string \<Rightarrow> string \<Rightarrow> bool \<Rightarrow> string \<Rightarrow> int \<Rightarrow> (bus, pydict) io" where
  "set_signal_automation E hh kind text enabled delivery user =
     (if \<not> is_authorable kind then throw (HTTPError 404 (''Unknown or non-authorable signal kind: '' @ kind))
      else bind (lift (require_role E user hh ''admin'')) (\<lambda>_.
        bind (gets (load_rules E hh)) (\<lambda>r.
        bind (lift r) (\<lambda>rules.
        let instruction = strip text; mode = normalize_delivery (PStr delivery);
            rules' = (if instruction = [] then AList.delete kind rules
              else dset rules kind (PDict [(''instruction'', PStr instruction), (''enabled'', PBool enabled),
                                           (''delivery'', PStr mode)])) in
        bind (save_rules E hh rules') (\<lambda>ok.
        if \<not> ok then throw (HTTPError 500 ''Failed to save automation'')
        else ret [(''success'', PBool True), (''kind'', PStr kind), (''instruction'', PStr instruction),
                  (''enabled'', PBool (enabled \<and> instruction \<noteq> [])), (''delivery'', PStr mode),
                  (''cleared'', PBool (instruction = []))])))))"

subsection \<open>The gates of the ingress\<close>

definition signals_enabled :: "bus_env \<Rightarrow> string \<Rightarrow> bus \<Rightarrow> bool" where
  "signals_enabled E hh b = (case setting E ''signals.enabled'' hh b of
      Inl _ \<Rightarrow> True | Inr v \<Rightarrow> v = PNone \<or> lower (py_str v) \<notin> {''false'', ''0''})"

text \<open>A bucket of sixty tokens for each household and agent, refilled at one a second.\<close>

definition rate_ok :: "string \<Rightarrow> string \<Rightarrow> (bus, bool) io" where
  "rate_ok hh agent = (\<lambda>b.
     let key = (hh, oor (Some agent) ''external''); now = bus_now b;
         (tokens0, seen) = (case map_of (bu_rate b) key of None \<Rightarrow> (60, now) | Some x \<Rightarrow> x);
         tokens = min 60 (tokens0 + of_int (now - seen) / 1000000) in
     if tokens < 1 then (b\<lparr>bu_rate := AList.update key (tokens, now) (bu_rate b)\<rparr>, Inr False)
     else (b\<lparr>bu_rate := AList.update key (tokens - 1, now) (bu_rate b)\<rparr>, Inr True))"

end
