(* ===== verification/Proposals.thy ===== *)
theory Proposals
  imports Node_Commands Signal_Store
begin

section \<open>Proposable actions\<close>

text \<open>
  \<^verbatim>\<open>app/services/autorun_gate.py\<close>, \<^verbatim>\<open>capability_registry.py\<close>, \<^verbatim>\<open>proposal_suppressions.py\<close>,
  \<^verbatim>\<open>proposal_card.py\<close> and \<^verbatim>\<open>proposable_action_service.py\<close>: from what a node offers to a card, and from a tap
  on the card to a job on the node. A node's report is the wire form of the SDK: names, callbacks and
  the names of parameters are text. Waiting for a node is a bounded number of polls; what other
  requests do to the tables between two polls is a parameter.
\<close>

subsection \<open>Plans that may run without a tap\<close>

definition autorun_allowlist :: "string list" where
  "autorun_allowlist = [''get_drive_time'', ''reminder'']"

definition max_autorun_steps :: nat where
  "max_autorun_steps = 3"

fun autorun_fault :: "pydict list \<Rightarrow> exc + string option" where
  "autorun_fault [] = Inr None"
| "autorun_fault (step # steps) =
     rbind (as_str (por (dget step ''command'') (PStr []))) (\<lambda>raw.
     let command = strip raw in
     if command \<notin> set autorun_allowlist then Inr (Some (''command '' @ squoted command @ '' is not autorun-allowlisted''))
     else if truthy (dget step ''is_risky'') then Inr (Some (''step '' @ squoted command @ '' is marked risky''))
     else if (case por (dget step ''args'') (PDict []) of PDict args \<Rightarrow> truthy (dget args ''business'') | _ \<Rightarrow> False)
     then Inr (Some (''step '' @ squoted command @ '' targets an outbound counterparty''))
     else autorun_fault steps)"

definition is_autorun_eligible :: "pydict list \<Rightarrow> exc + bool \<times> string" where
  "is_autorun_eligible steps =
     (if steps = [] then Inr (False, ''empty plan'')
      else if length steps > max_autorun_steps
      then Inr (False, ''too many steps for autorun ('' @ nat_str (length steps) @ '' > '' @ nat_str max_autorun_steps @ '')'')
      else rbind (autorun_fault steps) (\<lambda>f. Inr (case f of Some reason \<Rightarrow> (False, reason) | None \<Rightarrow> (True, ''eligible''))))"

subsection \<open>What a node offers\<close>

definition each :: "pyval \<Rightarrow> exc + pyval list" where
  "each v = (if truthy v then as_iter v else Inr [])"

text \<open>A failed fetch or an empty report is no report.\<close>

definition fetch_report :: "bus_env \<Rightarrow> string \<Rightarrow> (bus, pydict option) io" where
  "fetch_report E node =
     bind (catch (ask_bus E (Ask_tools node)) (\<lambda>_. ret PNone)) (\<lambda>v.
     if truthy v then bind (lift (as_dict v)) (\<lambda>d. ret (Some d)) else ret None)"

text \<open>The first action with the name, read no further than needed.\<close>

fun seek_action :: "string \<Rightarrow> pyval list \<Rightarrow> exc + pydict option" where
  "seek_action callback [] = Inr None"
| "seek_action callback (v # vs) =
     rbind (as_dict v) (\<lambda>a. if dget a ''callback'' = PStr callback then Inr (Some a) else seek_action callback vs)"

fun seek_command :: "string \<Rightarrow> string \<Rightarrow> pyval list \<Rightarrow> exc + pydict option" where
  "seek_command command callback [] = Inr None"
| "seek_command command callback (v # vs) =
     rbind (as_dict v) (\<lambda>cmd.
     if dget cmd ''command_name'' \<noteq> PStr command then seek_command command callback vs
     else rbind (each (dget cmd ''proposable_actions'')) (\<lambda>acts.
       rbind (seek_action callback acts) (\<lambda>found. case found of
         Some a \<Rightarrow> Inr (Some a)
       | None \<Rightarrow> seek_command command callback vs)))"

definition resolve_proposable_action :: "bus_env \<Rightarrow> string \<Rightarrow> string \<Rightarrow> string \<Rightarrow> (bus, pydict option) io" where
  "resolve_proposable_action E node command callback =
     bind (fetch_report E node) (\<lambda>r. case r of
       None \<Rightarrow> ret None
     | Some report \<Rightarrow> lift (rbind (each (dget report ''available_commands'')) (seek_command command callback)))"

definition stamped_actions :: "pyval \<Rightarrow> exc + pydict list" where
  "stamped_actions v =
     rbind (as_dict v) (\<lambda>cmd.
     rbind (each (dget cmd ''proposable_actions'')) (\<lambda>acts.
     rbind (rmap as_dict acts) (\<lambda>ds.
     Inr (map (\<lambda>a. dset (dset a ''command'' (dget cmd ''command_name'')) ''listening_signal_types''
                     (por (dget cmd ''listening_signal_types'') (PList []))) ds))))"

definition list_proposable_actions :: "bus_env \<Rightarrow> string \<Rightarrow> (bus, pydict list) io" where
  "list_proposable_actions E node =
     bind (fetch_report E node) (\<lambda>r. case r of
       None \<Rightarrow> ret []
     | Some report \<Rightarrow> lift (rbind (each (dget report ''available_commands'')) (\<lambda>cmds.
         rbind (rmap stamped_actions cmds) (\<lambda>ls. Inr (concat ls)))))"

subsection \<open>Never suggest this again\<close>

definition same_suppression :: "string \<Rightarrow> int option \<Rightarrow> string \<Rightarrow> string \<Rightarrow> suppression \<Rightarrow> bool" where
  "same_suppression hh user command key s \<longleftrightarrow>
     su_household s = hh \<and> su_user s = user \<and> su_command s = command \<and> su_key s = Some key"

definition record_suppression ::
    "string \<Rightarrow> int option \<Rightarrow> string \<Rightarrow> string option \<Rightarrow> string option \<Rightarrow> (bus, string option) io" where
  "record_suppression hh user command key descriptor = (\<lambda>b.
     case (if otruthy key then find (same_suppression hh user command (oor key [])) (bu_supps b) else None) of
       Some s \<Rightarrow> (b\<lparr>bu_supps := map (\<lambda>r. if su_id r = su_id s
           then r\<lparr>su_descriptor := (if otruthy descriptor then descriptor else su_descriptor r), su_created := bus_now b\<rparr>
           else r) (bu_supps b)\<rparr>, Inr (Some (su_id s)))
     | None \<Rightarrow>
         let sid = ''sup_'' @ nat_str (bu_ids b) in
         (b\<lparr>bu_ids := Suc (bu_ids b), bu_supps := bu_supps b @ [\<lparr>su_id = sid, su_household = hh, su_user = user,
             su_command = command, su_key = (if otruthy key then key else None),
             su_descriptor = (if otruthy descriptor then descriptor else None), su_created = bus_now b\<rparr>]\<rparr>, Inr (Some sid)))"

definition list_suppressions :: "string \<Rightarrow> int option \<Rightarrow> string option \<Rightarrow> bus \<Rightarrow> suppression list" where
  "list_suppressions hh user command b =
     rev (sort_key su_created (filter (\<lambda>s. su_household s = hh \<and> (user = None \<or> su_user s = user) \<and>
        (command = None \<or> command = Some (su_command s))) (bu_supps b)))"

definition suppression_signals :: "string \<Rightarrow> int option \<Rightarrow> string \<Rightarrow> bus \<Rightarrow> string list \<times> string list" where
  "suppression_signals hh user command b =
     (let rows = list_suppressions hh user (Some command) b in
      (sort_strs (dedupe (map (\<lambda>s. oor (su_key s) []) (filter (\<lambda>s. otruthy (su_key s)) rows))),
       map (\<lambda>s. oor (su_descriptor s) []) (filter (\<lambda>s. otruthy (su_descriptor s)) rows)))"

definition delete_suppression :: "string \<Rightarrow> string \<Rightarrow> int option \<Rightarrow> (bus, bool) io" where
  "delete_suppression sid hh user = (\<lambda>b.
     let hit = (\<lambda>s. su_id s = sid \<and> su_household s = hh \<and> (user = None \<or> su_user s = user)) in
     if list_ex hit (bu_supps b) then (b\<lparr>bu_supps := filter (\<lambda>s. \<not> hit s) (bu_supps b)\<rparr>, Inr True) else (b, Inr False))"

subsection \<open>The card\<close>

definition button :: "string \<Rightarrow> string \<Rightarrow> string \<Rightarrow> string \<Rightarrow> string \<Rightarrow> string \<Rightarrow> pydict \<Rightarrow> pyval" where
  "button bid label kind command callback data_key data = PDict
     [(''id'', PStr (bid @ data_key)), (''label'', PStr label), (''kind'', PStr kind), (''command'', PStr command),
      (''callback'', PStr callback), (''target'', PStr ''server''), (''data'', PDict data),
      (''navigation_type'', PStr ''new_notification'')]"

definition proposable_command :: string where
  "proposable_command = ''jarvis.proposable_action''"

record proposal =
  pp_node :: "string option"
  pp_command :: string
  pp_callback :: string
  pp_params :: pydict
  pp_idem :: string
  pp_title :: string
  pp_confirm :: string
  pp_dismiss :: string
  pp_tier :: string
  pp_summary :: "string option"
  pp_body :: "string option"
  pp_user :: "int option"
  pp_source :: "string option"
  pp_descriptor :: "string option"

definition plain_proposal :: "string option \<Rightarrow> string \<Rightarrow> string \<Rightarrow> pydict \<Rightarrow> string \<Rightarrow> string \<Rightarrow> proposal" where
  "plain_proposal node command callback params idem title =
     \<lparr>pp_node = node, pp_command = command, pp_callback = callback, pp_params = params, pp_idem = idem, pp_title = title,
      pp_confirm = ''Yes'', pp_dismiss = ''No'', pp_tier = ''reversible'', pp_summary = None, pp_body = None, pp_user = None,
      pp_source = None, pp_descriptor = None\<rparr>"

definition proposal_elements :: "proposal \<Rightarrow> pyval list" where
  "proposal_elements p =
     [button ''confirm-'' (pp_confirm p) ''confirm'' proposable_command ''execute'' (pp_idem p)
        (foldl (\<lambda>d (k, v). dset d k (PStr (py_str v)))
          [(''_action'', PDict [(''target_command'', PStr (pp_command p)), (''target_callback'', PStr (pp_callback p)),
            (''node_id'', opt_str (pp_node p)), (''idempotency_key'', PStr (pp_idem p)), (''blast_tier'', PStr (pp_tier p))])]
          (pp_params p)),
      button ''dismiss-'' (pp_dismiss p) ''dismiss'' proposable_command ''dismiss'' (pp_idem p)
        [(''_action'', PDict [(''idempotency_key'', PStr (pp_idem p))])]] @
     (if otruthy (pp_source p) \<or> otruthy (pp_descriptor p)
      then [button ''suppress-'' ''Never suggest this'' ''suppress'' proposable_command ''suppress'' (pp_idem p)
        [(''_action'', PDict [(''target_command'', PStr (pp_command p)), (''idempotency_key'', PStr (pp_idem p))]),
         (''source'', PStr (oor (pp_source p) [])), (''descriptor'', PStr (oor (pp_descriptor p) []))]]
      else [])"

definition emit_proposal_card :: "bus_env \<Rightarrow> string \<Rightarrow> proposal \<Rightarrow> (bus, bool) io" where
  "emit_proposal_card E hh p =
     bind (post_card E hh (pp_title p) (oor (pp_summary p) (pp_title p)) (oor (pp_body p) []) ''proposal''
             [(''interactive_elements'', PList (proposal_elements p))] (pp_user p) False
             (case pp_user p of Some u \<Rightarrow> if u = 0 then ''household'' else ''user'' | None \<Rightarrow> ''household'')) (\<lambda>item.
     ret (otruthy item))"

subsection \<open>Choosing a node\<close>

definition by_recency :: "bool \<Rightarrow> node_row list \<Rightarrow> node_row list" where
  "by_recency nulls_first rows =
     (let seen = rev (sort_key (\<lambda>n. case nd_seen n of None \<Rightarrow> 0 | Some t \<Rightarrow> t) (filter (\<lambda>n. nd_seen n \<noteq> None) rows));
          never = filter (\<lambda>n. nd_seen n = None) rows
      in if nulls_first then never @ seen else seen @ never)"

definition household_node_ids :: "bus_env \<Rightarrow> string \<Rightarrow> bus \<Rightarrow> string list" where
  "household_node_ids E hh b =
     (let rows = by_recency (be_nulls_first E) (filter (\<lambda>n. nd_household n = Some hh) (bu_nodes b));
          preferred = map nd_id (filter (\<lambda>n. nd_active n \<and> nd_seen n \<noteq> None) rows)
      in preferred @ filter (\<lambda>i. i \<notin> set preferred) (map nd_id rows))"

definition first_household_node :: "bus_env \<Rightarrow> string \<Rightarrow> bus \<Rightarrow> string option" where
  "first_household_node E hh b = (case household_node_ids E hh b of [] \<Rightarrow> None | i # _ \<Rightarrow> Some i)"

definition advertises :: "bus_env \<Rightarrow> string \<Rightarrow> string option \<Rightarrow> string \<Rightarrow> (bus, bool) io" where
  "advertises E command callback node =
     catch (if otruthy callback
            then bind (resolve_proposable_action E node command (oor callback [])) (\<lambda>a.
              ret (case a of None \<Rightarrow> False | Some d \<Rightarrow> d \<noteq> []))
            else bind (list_proposable_actions E node) (\<lambda>acts.
              ret (list_ex (\<lambda>a. dget a ''command'' = PStr command) acts)))
           (\<lambda>_. ret False)"

text \<open>All nodes are probed; the first in order of preference wins.\<close>

fun probe_nodes :: "bus_env \<Rightarrow> string \<Rightarrow> string option \<Rightarrow> string list \<Rightarrow> (bus, string list) io" where
  "probe_nodes E command callback [] = ret []"
| "probe_nodes E command callback (n # ns) =
     bind (advertises E command callback n) (\<lambda>yes.
     bind (probe_nodes E command callback ns) (\<lambda>rest. ret (if yes then n # rest else rest)))"

definition resolve_household_node_for_command ::
    "bus_env \<Rightarrow> string \<Rightarrow> string \<Rightarrow> string option \<Rightarrow> (bus, string option) io" where
  "resolve_household_node_for_command E hh command callback =
     bind (gets (household_node_ids E hh)) (\<lambda>ids.
     if ids = [] then ret None
     else bind (probe_nodes E command callback ids) (\<lambda>hits.
     bind (gets (\<lambda>b. be_late E (bu_asked b))) (\<lambda>late.
     ret (case hits of [] \<Rightarrow> None | i # _ \<Rightarrow> if late then None else Some i))))"

end
