(* ===== verification/Proposal_Taps.thy ===== *)
theory Proposal_Taps
  imports Proposals
begin

section \<open>Taps on a proposal card\<close>

text \<open>
  The dispatcher of \<^verbatim>\<open>app/services/proposable_action_service.py\<close>: the gates a Confirm tap passes, the job on
  the node and the wait for its end.
\<close>

subsection \<open>The gates\<close>

definition proposals_enabled :: "bus_env \<Rightarrow> string \<Rightarrow> bus \<Rightarrow> bool" where
  "proposals_enabled E hh b = (case setting E ''proposals.enabled'' hh b of
      Inr (PBool v) \<Rightarrow> v
    | Inr (PStr s) \<Rightarrow> lower (strip s) \<in> {''true'', ''1'', ''yes'', ''on''}
    | _ \<Rightarrow> False)"

definition param_name :: "pydict \<Rightarrow> exc + string" where
  "param_name p = (case dget p ''name'' of PStr s \<Rightarrow> Inr s | _ \<Rightarrow> Inl (KeyError ''name''))"

text \<open>The declared parameters by name: a repeated name keeps its place and its last declaration.\<close>

definition declared_params :: "pyval \<Rightarrow> exc + (string \<times> pydict) list" where
  "declared_params specs =
     rbind (as_iter specs) (\<lambda>vs.
     rbind (rmap as_dict vs) (\<lambda>ps.
     rbind (rmap param_name ps) (\<lambda>names.
     Inr (foldl (\<lambda>m (n, p). AList.update n p m) [] (zip names ps)))))"

fun check_params :: "pydict \<Rightarrow> (string \<times> pydict) list \<Rightarrow> pydict \<Rightarrow> exc + bool \<times> pydict \<times> string" where
  "check_params raw [] args = Inr (True, args, [])"
| "check_params raw ((name, spec) # specs) args =
     (if dget raw name \<in> {PNone, PStr []} then
        (if truthy (dget spec ''required'') then Inr (False, [], ''missing required field '' @ squoted name)
         else check_params raw specs args)
      else
        let value = dget raw name; allowed = dget spec ''enum_values'' in
        rbind (if truthy allowed then contains_tag (py_str value) allowed else Inr True) (\<lambda>ok.
        if \<not> ok then Inr (False, [], squoted name @ '' must be one of '' @ py_str allowed)
        else check_params raw specs (args @ [(name, value)])))"

definition validate_against_params :: "pydict \<Rightarrow> pyval \<Rightarrow> exc + bool \<times> pydict \<times> string" where
  "validate_against_params raw specs = rbind (declared_params specs) (\<lambda>ds. check_params raw ds [])"

definition already_completed :: "string \<Rightarrow> string \<Rightarrow> bus \<Rightarrow> bool" where
  "already_completed hh idem b \<longleftrightarrow>
     idem \<noteq> [] \<and> list_ex (\<lambda>j. cj_household j = hh \<and> cj_idem j = Some idem \<and> cj_status j = ''completed'') (bu_jobs b)"

subsection \<open>The job on the node\<close>

definition start_target_job ::
    "bus_env \<Rightarrow> string \<Rightarrow> string \<Rightarrow> int option \<Rightarrow> string \<Rightarrow> string \<Rightarrow> pydict \<Rightarrow> string \<Rightarrow> (bus, string) io" where
  "start_target_job E node hh user command callback args idem =
     bind bus_id (\<lambda>n.
     bind (modify (\<lambda>b. b\<lparr>bu_jobs := bu_jobs b @ [\<lparr>cj_id = uuid n, cj_node = Some node, cj_household = hh, cj_user = user,
        cj_command = command, cj_callback = callback, cj_data = args, cj_idem = (if idem = [] then None else Some idem),
        cj_nav = ''stack'', cj_status = ''pending'', cj_error = None, cj_result = None, cj_created = bus_now b,
        cj_expires = bus_now b + 300000000, cj_done = None\<rparr>]\<rparr>)) (\<lambda>_.
     publish_command_with_id E node ''callback'' [] (uuid n)))"

definition find_job :: "string \<Rightarrow> bus \<Rightarrow> callback_job option" where
  "find_job jid b = find (\<lambda>j. cj_id j = jid) (bu_jobs b)"

type_synonym job_end = "bool \<times> pydict option \<times> string option"

definition job_ended :: "string \<Rightarrow> bus \<Rightarrow> job_end option" where
  "job_ended jid b = (case find_job jid b of
      None \<Rightarrow> Some (False, None, Some ''job vanished'')
    | Some j \<Rightarrow>
        if cj_status j = ''completed'' then Some (True, Some (case cj_result j of None \<Rightarrow> [] | Some d \<Rightarrow> d), None)
        else if cj_status j = ''failed''
        then Some (False, None, Some (oor (cj_error j) ''callback failed on the node''))
        else None)"

fun poll_job :: "bus_env \<Rightarrow> nat \<Rightarrow> string \<Rightarrow> (bus, job_end) io" where
  "poll_job E 0 jid = ret (False, None, Some (''the device didn'' @ [CHR 0x27] @ ''t respond in time''))"
| "poll_job E (Suc n) jid =
     bind (modify (be_meanwhile E)) (\<lambda>_.
     bind (gets (job_ended jid)) (\<lambda>r. case r of
       Some x \<Rightarrow> ret x
     | None \<Rightarrow> poll_job E n jid))"

text \<open>Half a second between polls, twenty-five seconds in all.\<close>

definition job_polls :: nat where
  "job_polls = 50"

definition execute_target_callback_on_node ::
    "bus_env \<Rightarrow> string \<Rightarrow> string \<Rightarrow> int option \<Rightarrow> string \<Rightarrow> string \<Rightarrow> pydict \<Rightarrow> string \<Rightarrow> (bus, job_end) io" where
  "execute_target_callback_on_node E node hh user command callback args idem =
     bind (start_target_job E node hh user command callback args idem) (\<lambda>jid. poll_job E job_polls jid)"

subsection \<open>The handlers\<close>

definition titled_card :: "bool \<Rightarrow> string option \<Rightarrow> pyval \<Rightarrow> string \<Rightarrow> string \<Rightarrow> cb_result" where
  "titled_card ok err title summary hh = \<lparr>cr_success = ok, cr_error = err, cr_context =
     Some [(''inbox'', PDict [(''title'', title), (''summary'', PStr summary),
       (''metadata'', PDict (if hh = [] then [] else [(''household_id'', PStr hh)]))])]\<rparr>"

definition result_card :: "bool \<Rightarrow> string option \<Rightarrow> string \<Rightarrow> string \<Rightarrow> string \<Rightarrow> cb_result" where
  "result_card ok err title summary hh = titled_card ok err (PStr title) summary hh"

definition couldnt :: "string" where
  "couldnt = ''Couldn'' @ [CHR 0x27] @ ''t ''"

definition action_meta :: "cb_ctx \<Rightarrow> exc + pydict" where
  "action_meta ctx = as_dict (por (dget_or (cx_data ctx) ''_action'' (PDict [])) (PDict []))"

text \<open>The target of a tap is text, as the cards carry it.\<close>

definition meta_text :: "pydict \<Rightarrow> string \<Rightarrow> string" where
  "meta_text meta k = (case dget meta k of PStr s \<Rightarrow> s | _ \<Rightarrow> [])"

definition run_target :: "bus_env \<Rightarrow> cb_ctx \<Rightarrow> string \<Rightarrow> string \<Rightarrow> string \<Rightarrow> string \<Rightarrow> pydict \<Rightarrow> (bus, cb_result) io" where
  "run_target E ctx node command callback idem args =
     bind (execute_target_callback_on_node E node (cx_household ctx) (cx_user ctx) command callback args idem)
       (\<lambda>(ok, result, err).
     if \<not> ok then
       ret (result_card False (Some (oor err ''execution failed'')) (couldnt @ ''finish that'')
              (oor err (''The device couldn'' @ [CHR 0x27] @ ''t complete it.'')) (cx_household ctx))
     else
       let spoken = (case result of None \<Rightarrow> PNone | Some d \<Rightarrow> dget d ''message'') in
       ret (titled_card True None (por spoken (PStr ''Done'')) [] (cx_household ctx)))"

definition handle_execute :: "bus_env \<Rightarrow> cb_ctx \<Rightarrow> (bus, cb_result) io" where
  "handle_execute E ctx =
     bind (lift (action_meta ctx)) (\<lambda>meta.
     let command = meta_text meta ''target_command''; callback = meta_text meta ''target_callback'';
         idem = meta_text meta ''idempotency_key''; hh = cx_household ctx;
         raw = filter (\<lambda>(k, v). k \<noteq> ''_action'') (cx_data ctx) in
     if command = [] \<or> callback = [] then ret (cb_fail ''malformed proposal'')
     else bind (gets (proposals_enabled E hh)) (\<lambda>enabled.
     if \<not> enabled then
       ret (result_card False (Some ''proposals disabled'') ''Action not run''
              ''Agent action cards are turned off for this household.'' hh)
     else bind (if meta_text meta ''node_id'' \<noteq> [] then ret (Some (meta_text meta ''node_id''))
                else resolve_household_node_for_command E hh command (Some callback)) (\<lambda>chosen.
     if \<not> otruthy chosen then
       ret (result_card False (Some ''no node'') (couldnt @ ''run that'') ''No device is available to run it.'' hh)
     else let node = oor chosen [] in
     bind (resolve_proposable_action E node command callback) (\<lambda>spec. case spec of
       None \<Rightarrow>
         ret (result_card False (Some ''not proposable'') (couldnt @ ''run that'')
                (''No device here can run '' @ squoted command @ ''.'') hh)
     | Some s \<Rightarrow>
         bind (lift (validate_against_params raw (dget_or s ''params'' (PList [])))) (\<lambda>(ok, args, verr).
         if \<not> ok then
           ret (result_card False (Some (''invalid params: '' @ verr)) (couldnt @ ''run that'')
                  (''Something was missing: '' @ verr @ ''.'') hh)
         else bind (gets (already_completed hh idem)) (\<lambda>done_before.
         if done_before then ret (result_card True None ''Already done'' ''This was already handled.'' hh)
         else run_target E ctx node command callback idem args))))))"

definition handle_dismiss :: "cb_ctx \<Rightarrow> (bus, cb_result) io" where
  "handle_dismiss ctx = ret cb_ok"

definition handle_suppress :: "cb_ctx \<Rightarrow> (bus, cb_result) io" where
  "handle_suppress ctx =
     bind (lift (action_meta ctx)) (\<lambda>meta.
     let command = meta_text meta ''target_command'';
         source = meta_text (cx_data ctx) ''source''; descriptor = meta_text (cx_data ctx) ''descriptor'' in
     if command = [] \<or> source = [] \<and> descriptor = [] then ret (cb_fail ''nothing to suppress'')
     else bind (record_suppression (cx_household ctx) (cx_user ctx) command (Some source) (Some descriptor)) (\<lambda>_.
       ret (result_card True None (''Won'' @ [CHR 0x27] @ ''t suggest that again'')
              (''You won'' @ [CHR 0x27] @ ''t get more cards like this one. Manage these in the app.'') (cx_household ctx))))"

end
