(* ===== verification/Callback_Jobs.thy ===== *)
theory Callback_Jobs
  imports Proposal_Taps
begin

section \<open>Callback jobs\<close>

text \<open>
  \<^verbatim>\<open>app/api/callbacks.py\<close>: a tap becomes a job for the node that owns the command, or for a handler of the
  server that runs in the background. Both planes record their result through one function. A handler
  works on the bus and returns a result or raises.
\<close>

record callback_body =
  cb_command :: string
  cb_callback :: string
  cb_data :: pydict
  cb_target :: "string option"
  cb_household :: "string option"
  cb_nav :: string

definition create_job_row :: "callback_body \<Rightarrow> string option \<Rightarrow> string \<Rightarrow> int \<Rightarrow> (bus, callback_job) io" where
  "create_job_row body node hh user = (\<lambda>b.
     let j = \<lparr>cj_id = uuid (bu_ids b), cj_node = node, cj_household = hh, cj_user = Some user, cj_command = cb_command body,
              cj_callback = cb_callback body, cj_data = cb_data body, cj_idem = None, cj_nav = cb_nav body,
              cj_status = ''pending'', cj_error = None, cj_result = None, cj_created = bus_now b,
              cj_expires = bus_now b + 300000000, cj_done = None\<rparr> in
     (b\<lparr>bu_ids := Suc (bu_ids b), bu_jobs := bu_jobs b @ [j]\<rparr>, Inr j))"

text \<open>The second part of the result is the job the background task will run.\<close>

definition create_server_callback ::
    "bus_env \<Rightarrow> bus handlers \<Rightarrow> callback_body \<Rightarrow> int \<Rightarrow> (bus, callback_job \<times> string option) io" where
  "create_server_callback E reg body user =
     (if get_server_callback (cb_command body) (cb_callback body) reg = None then
        throw (HTTPError 400 (''No server-side handler registered for '' @ cb_command body @ ''.'' @ cb_callback body))
      else if \<not> otruthy (cb_household body) then
        throw (HTTPError 400 ''household_id is required when target_node_id is omitted'')
      else
        bind (lift (require_role E user (oor (cb_household body) []) ''member'')) (\<lambda>_.
        bind (create_job_row body None (oor (cb_household body) []) user) (\<lambda>j. ret (j, Some (cj_id j)))))"

definition create_callback ::
    "bus_env \<Rightarrow> bus handlers \<Rightarrow> callback_body \<Rightarrow> int \<Rightarrow> (bus, callback_job \<times> string option) io" where
  "create_callback E reg body user = (case cb_target body of
      None \<Rightarrow> create_server_callback E reg body user
    | Some node \<Rightarrow>
        bind (gets (\<lambda>b. find (\<lambda>n. nd_id n = node) (bu_nodes b))) (\<lambda>row. case row of
          None \<Rightarrow> throw (HTTPError 404 ''Target node not found'')
        | Some n \<Rightarrow>
            if \<not> otruthy (nd_household n) then throw (HTTPError 400 ''Target node has no household'')
            else
              bind (lift (require_role E user (oor (nd_household n) []) ''member'')) (\<lambda>_.
              bind (create_job_row body (Some node) (oor (nd_household n) []) user) (\<lambda>j.
              bind (publish_command_with_id E node ''callback'' [] (cj_id j)) (\<lambda>_.
              ret (j, None))))))"

subsection \<open>The result of a job\<close>

definition upd_job :: "string \<Rightarrow> (callback_job \<Rightarrow> callback_job) \<Rightarrow> bus \<Rightarrow> bus" where
  "upd_job jid f b = b\<lparr>bu_jobs := map (\<lambda>j. if cj_id j = jid then f j else j) (bu_jobs b)\<rparr>"

definition ended_job :: "int \<Rightarrow> bool \<Rightarrow> string option \<Rightarrow> pydict option \<Rightarrow> callback_job \<Rightarrow> callback_job" where
  "ended_job now ok err context j =
     j\<lparr>cj_status := (if ok then ''completed'' else ''failed''), cj_error := err, cj_done := Some now,
       cj_result := (case context of None \<Rightarrow> cj_result j | Some d \<Rightarrow> Some d)\<rparr>"

text \<open>The inbox block of a result becomes a card, if it has a title.\<close>

definition fan_out :: "bus_env \<Rightarrow> callback_job \<Rightarrow> pydict \<Rightarrow> string option \<Rightarrow> (bus, unit) io" where
  "fan_out E j context source = (case dget context ''inbox'' of
      PDict inbox \<Rightarrow> (case (dget inbox ''title'', por (dget inbox ''metadata'') (PDict [])) of
          (PStr title, PDict meta) \<Rightarrow>
            if title = [] then ret ()
            else bind (post_card E (cj_household j) title (meta_text inbox ''summary'') (meta_text inbox ''body'')
                   (oor (Some (meta_text inbox ''category'')) ''callback_result'')
                   (case source of None \<Rightarrow> meta | Some n \<Rightarrow> dsetdefault meta ''node_id'' (PStr n)) (cj_user j)
                   (truthy (dget inbox ''create_push_notification''))
                   (if dget inbox ''target_type'' \<in> {PStr ''user'', PStr ''household''} then meta_text inbox ''target_type''
                    else if cj_user j = None then ''household'' else ''user'')) (\<lambda>_. ret ())
        | _ \<Rightarrow> ret ())
    | _ \<Rightarrow> ret ())"

definition record_callback_result ::
    "bus_env \<Rightarrow> callback_job \<Rightarrow> bool \<Rightarrow> string option \<Rightarrow> pydict option \<Rightarrow> string option \<Rightarrow> (bus, unit) io" where
  "record_callback_result E j ok err context source =
     bind (modify (\<lambda>b. upd_job (cj_id j) (ended_job (bus_now b) ok err context) b)) (\<lambda>_.
     if cj_nav j = ''new_notification'' \<and> ok then (case context of None \<Rightarrow> ret () | Some d \<Rightarrow> fan_out E j d source)
     else ret ())"

definition job_context :: "callback_job \<Rightarrow> cb_ctx" where
  "job_context j = \<lparr>cx_job = cj_id j, cx_household = cj_household j, cx_user = cj_user j, cx_data = cj_data j,
     cx_navigation = cj_nav j\<rparr>"

definition run_server_callback_job :: "bus_env \<Rightarrow> bus handlers \<Rightarrow> string \<Rightarrow> (bus, unit) io" where
  "run_server_callback_job E reg jid =
     bind (gets (find_job jid)) (\<lambda>row. case row of
       None \<Rightarrow> ret ()
     | Some j \<Rightarrow> (case get_server_callback (cj_command j) (cj_callback j) reg of
         None \<Rightarrow> record_callback_result E j False (Some ''Server-side handler no longer registered'') None None
       | Some h \<Rightarrow>
           bind (catch (bind (h (job_context j)) (\<lambda>r. ret (Inr r))) (\<lambda>e. ret (Inl (exc_str e)))) (\<lambda>outcome. case outcome of
             Inl message \<Rightarrow> record_callback_result E j False (Some message) None None
           | Inr r \<Rightarrow> record_callback_result E j (cr_success r) (cr_error r) (cr_context r) None)))"

subsection \<open>The endpoints of a job\<close>

definition job_of_node :: "string \<Rightarrow> string \<Rightarrow> bus \<Rightarrow> callback_job option" where
  "job_of_node jid node b = (case find_job jid b of
      None \<Rightarrow> None | Some j \<Rightarrow> if cj_node j = Some node then Some j else None)"

definition job_lapsed :: "callback_job \<Rightarrow> bus \<Rightarrow> bool" where
  "job_lapsed j b \<longleftrightarrow> bus_now b > cj_expires j \<and> cj_status j = ''pending''"

definition expire_job :: "string \<Rightarrow> (bus, unit) io" where
  "expire_job jid = modify (upd_job jid (cj_status_update (\<lambda>_. ''expired'')))"

definition get_callback_payload :: "string \<Rightarrow> string \<Rightarrow> (bus, pydict) io" where
  "get_callback_payload jid node =
     bind (gets (job_of_node jid node)) (\<lambda>row. case row of
       None \<Rightarrow> throw (HTTPError 404 ''Callback job not found'')
     | Some j \<Rightarrow>
         if cj_status j \<notin> {''pending'', ''completed'', ''failed''} then throw (HTTPError 410 (''Callback job is '' @ cj_status j))
         else bind (gets (job_lapsed j)) (\<lambda>lapsed.
         if lapsed then bind (expire_job jid) (\<lambda>_. throw (HTTPError 410 ''Callback job expired''))
         else ret [(''job_id'', PStr (cj_id j)), (''command_name'', PStr (cj_command j)), (''callback_name'', PStr (cj_callback j)),
                   (''data'', PDict (cj_data j)), (''user_id'', opt_int (cj_user j)),
                   (''voice_command'', PStr (''cb:'' @ cj_callback j)), (''conversation_id'', PStr (''callback:'' @ cj_id j))]))"

definition post_callback_result ::
    "bus_env \<Rightarrow> string \<Rightarrow> string \<Rightarrow> bool \<Rightarrow> string option \<Rightarrow> pydict option \<Rightarrow> (bus, callback_job option) io" where
  "post_callback_result E jid node ok err context =
     bind (gets (job_of_node jid node)) (\<lambda>row. case row of
       None \<Rightarrow> throw (HTTPError 404 ''Callback job not found'')
     | Some j \<Rightarrow> bind (record_callback_result E j ok err context (Some node)) (\<lambda>_. gets (find_job jid)))"

definition get_callback_status :: "bus_env \<Rightarrow> string \<Rightarrow> int \<Rightarrow> (bus, callback_job option) io" where
  "get_callback_status E jid user =
     bind (gets (find_job jid)) (\<lambda>row. case row of
       None \<Rightarrow> throw (HTTPError 404 ''Callback job not found'')
     | Some j \<Rightarrow>
         bind (lift (require_role E user (cj_household j) ''member'')) (\<lambda>_.
         bind (gets (job_lapsed j)) (\<lambda>lapsed.
         bind (if lapsed then expire_job jid else ret ()) (\<lambda>_.
         gets (find_job jid)))))"

text \<open>The dispatcher of proposals is registered once, at startup.\<close>

definition register_proposable_action_callbacks :: "bus_env \<Rightarrow> bus handlers \<Rightarrow> bus handlers" where
  "register_proposable_action_callbacks E reg =
     register_server_callback proposable_command ''suppress'' handle_suppress
       (register_server_callback proposable_command ''dismiss'' handle_dismiss
         (register_server_callback proposable_command ''execute'' (handle_execute E) reg))"

end
