(* ===== verification/Proposal_Matcher.thy ===== *)
theory Proposal_Matcher
  imports Proposal_Taps
begin

section \<open>Matching observations to actions\<close>

text \<open>
  \<^verbatim>\<open>app/services/proposal_matcher.py\<close> and \<^verbatim>\<open>app/services/situation_matcher_service.py\<close>: a language model picks
  from the menu of advertised actions, its answer is checked against that menu, and the anti-nag rules
  decide which matches become cards. The prompt keeps its variable parts. The members of
  \<^verbatim>\<open>finalize_situation_matches\<close> that meet an answer of the wrong type raise as the code does. Commands and
  actions of the answer and of the menu are text; the debounce before a pass is not modelled.
\<close>

subsection \<open>The menu\<close>

fun sort_keys :: "pyval \<Rightarrow> pyval" where
  "sort_keys (PList xs) = PList (map sort_keys xs)"
| "sort_keys (PDict d) = PDict (sort_fields (map (\<lambda>(k, v). (k, sort_keys v)) d))"
| "sort_keys v = v"

definition stable_idempotency_key :: "bus_env \<Rightarrow> pyval \<Rightarrow> string \<Rightarrow> string \<Rightarrow> string" where
  "stable_idempotency_key E data command action =
     ''match:'' @ take 16 (be_sha E (json_dumps (sort_keys (PDict [(''d'', data), (''c'', PStr command), (''a'', PStr action)]))))"

definition menu_args :: "pydict \<Rightarrow> exc + pydict" where
  "menu_args a =
     rbind (as_iter (dget_or a ''params'' (PList []))) (\<lambda>vs.
     rbind (rmap as_dict vs) (\<lambda>ps.
     rbind (rmap param_name (filter (\<lambda>p. dget p ''name'' \<noteq> dget a ''idempotency_param'') ps)) (\<lambda>names.
     Inr (foldl (\<lambda>m (n, p). dset m n (por (dget p ''description'') (por (dget p ''type'') (PStr [])))) []
            (zip names (filter (\<lambda>p. dget p ''name'' \<noteq> dget a ''idempotency_param'') ps))))))"

definition menu_entry :: "pydict \<Rightarrow> exc + pydict" where
  "menu_entry a = rbind (menu_args a) (\<lambda>args.
     Inr [(''command'', dget a ''command''), (''action'', dget a ''callback''),
          (''description'', por (dget a ''card_title'') (PStr (py_str (dget a ''command'') @ '' '' @ py_str (dget a ''callback'')))),
          (''args'', PDict args), (''listening_signal_types'', por (dget a ''listening_signal_types'') (PList []))])"

definition build_menu :: "pydict list \<Rightarrow> exc + pydict list" where
  "build_menu = rmap menu_entry"

definition menu_line :: "pydict \<Rightarrow> string" where
  "menu_line m = ''- '' @ py_str (dget m ''command'') @ ''.'' @ py_str (dget m ''action'') @ '': '' @
     py_str (dget m ''description'') @ '' | args: '' @ json_dumps (dget m ''args'')"

definition render_menu :: "pydict list \<Rightarrow> string" where
  "render_menu ms = join newline (map menu_line ms)"

definition listens_to :: "pyval list \<Rightarrow> pydict \<Rightarrow> bool" where
  "listens_to kinds m = (case dget m ''listening_signal_types'' of PList ks \<Rightarrow> list_ex (\<lambda>k. k \<in> set kinds) ks | _ \<Rightarrow> False)"

text \<open>The actions designed for the kinds of signal at hand come first; the observations follow, numbered.\<close>

definition build_situation_prompt :: "pydict list \<Rightarrow> pydict list \<Rightarrow> string" where
  "build_situation_prompt bundle menu =
     (let kinds = filter truthy (map (\<lambda>i. dget i ''kind'') bundle);
          designed = filter (listens_to kinds) menu; general = filter (\<lambda>m. \<not> listens_to kinds m) menu;
          actions = (if designed = [] then ''ACTIONS:'' @ newline @ render_menu general
            else ''ACTIONS designed for the current signals:'' @ newline @ render_menu designed @ newline @ newline @
                 ''Other available actions (general-purpose - use only if genuinely a better fit):'' @ newline @ render_menu general);
          items = join newline (map (\<lambda>(n, i). ''#'' @ nat_str n @ '': '' @ json_dumps (dget_or i ''data'' (PDict [])))
                    (enumerate 0 bundle))
      in actions @ newline @ newline @ ''SITUATION:'' @ newline @ items)"

subsection \<open>Checking the answer\<close>

type_synonym action_key = "string \<times> string"

definition action_key :: "pydict \<Rightarrow> action_key" where
  "action_key a = (meta_text a ''command'', meta_text a ''callback'')"

definition by_key :: "pydict list \<Rightarrow> (action_key \<times> pydict) list" where
  "by_key actions = foldl (\<lambda>m a. AList.update (action_key a) a m) [] actions"

definition split_dotted :: "string \<Rightarrow> action_key option" where
  "split_dotted s = (case find_sub s ''.'' of None \<Rightarrow> None | Some i \<Rightarrow> Some (take i s, drop (Suc i) s))"

definition resolve_match_key :: "string \<Rightarrow> string \<Rightarrow> (action_key \<times> pydict) list \<Rightarrow> action_key" where
  "resolve_match_key command action m =
     (if map_of m (command, action) \<noteq> None then (command, action)
      else case find (\<lambda>k. map_of m k \<noteq> None) (List.map_filter split_dotted [command, action]) of
          Some k \<Rightarrow> k
        | None \<Rightarrow> (command, action))"

text \<open>\<open>True\<close> and \<open>False\<close> are whole numbers too.\<close>

definition cited_index :: "nat \<Rightarrow> pyval \<Rightarrow> nat option" where
  "cited_index n v = (case v of
      PInt i \<Rightarrow> if 0 \<le> i \<and> i < int n then Some (nat i) else None
    | PBool t \<Rightarrow> if (if t then 1 else 0) < n then Some (if t then 1 else 0) else None
    | _ \<Rightarrow> None)"

definition contributing :: "nat \<Rightarrow> pyval \<Rightarrow> exc + nat list" where
  "contributing n raw =
     (if truthy raw then rbind (as_iter raw) (\<lambda>vs. Inr (List.map_filter (cited_index n) vs)) else Inr [0..<n])"

record match =
  mt_command :: string
  mt_action :: string
  mt_args :: pydict
  mt_idem :: string
  mt_sources :: "string list"
  mt_spec :: pydict

definition match_args :: "pydict \<Rightarrow> pydict \<Rightarrow> string \<Rightarrow> exc + pydict" where
  "match_args m spec idem =
     rbind (case por (dget m ''args'') (PDict []) of PDict d \<Rightarrow> Inr d | _ \<Rightarrow> Inl (ValueError ''dictionary update sequence'')) (\<lambda>d.
     Inr (case dget spec ''idempotency_param'' of PStr p \<Rightarrow> if p = [] then d else dset d p (PStr idem) | _ \<Rightarrow> d))"

definition finalize_match :: "bus_env \<Rightarrow> pydict list \<Rightarrow> (action_key \<times> pydict) list \<Rightarrow> pyval \<Rightarrow> exc + match list" where
  "finalize_match E bundle keys v =
     rbind (as_dict v) (\<lambda>m.
     case map_of keys (resolve_match_key (meta_text m ''command'') (meta_text m ''action'') keys) of
       None \<Rightarrow> Inr []
     | Some spec \<Rightarrow>
         rbind (contributing (length bundle) (dget m ''sources'')) (\<lambda>used.
         let command = meta_text spec ''command''; action = meta_text spec ''callback'';
             idem = stable_idempotency_key E (PDict [(''items'', PList (map (\<lambda>i. dget_or (bundle ! i) ''data'' (PDict [])) used))])
                      command action in
         rbind (match_args m spec idem) (\<lambda>raw.
         rbind (validate_against_params raw (dget_or spec ''params'' (PList []))) (\<lambda>(ok, args, verr).
         Inr (if ok then [\<lparr>mt_command = command, mt_action = action, mt_args = args, mt_idem = idem,
                mt_sources = filter (\<lambda>s. s \<noteq> []) (map (\<lambda>i. meta_text (bundle ! i) ''source_key'') used), mt_spec = spec\<rparr>]
              else [])))))"

definition finalize_situation_matches :: "bus_env \<Rightarrow> pyval \<Rightarrow> pydict list \<Rightarrow> pydict list \<Rightarrow> exc + match list" where
  "finalize_situation_matches E parsed bundle actions =
     rbind (as_dict parsed) (\<lambda>d.
     rbind (each (dget d ''matches'')) (\<lambda>ms.
     rbind (rmap (finalize_match E bundle (by_key actions)) ms) (\<lambda>rs. Inr (concat rs))))"

definition match_situation :: "bus_env \<Rightarrow> pydict list \<Rightarrow> string \<Rightarrow> (bus, match list) io" where
  "match_situation E bundle node =
     bind (list_proposable_actions E node) (\<lambda>actions.
     if actions = [] then ret []
     else bind (lift (build_menu actions)) (\<lambda>menu.
       bind (catch (bind (ask_bus E (Ask_planner (build_situation_prompt bundle menu))) (\<lambda>v. ret (Some v))) (\<lambda>_. ret None)) (\<lambda>parsed.
       case parsed of None \<Rightarrow> ret [] | Some v \<Rightarrow> lift (finalize_situation_matches E v bundle actions))))"

definition match_proposals :: "bus_env \<Rightarrow> pydict \<Rightarrow> string \<Rightarrow> (bus, match list) io" where
  "match_proposals E data node = match_situation E [[(''source_key'', PNone), (''data'', PDict data)]] node"

subsection \<open>The background pass\<close>

definition switched_on :: "pyval \<Rightarrow> bool" where
  "switched_on v \<longleftrightarrow> v \<noteq> PNone \<and> lower (py_str v) \<notin> {''false'', ''0'', []}"

definition proactive_enabled :: "bus_env \<Rightarrow> string \<Rightarrow> bus \<Rightarrow> bool" where
  "proactive_enabled E hh b =
     (case (setting E ''proposals.enabled'' hh b, setting E ''proposals.proactive_enabled'' hh b) of
        (Inr base, Inr pro) \<Rightarrow> switched_on base \<and> switched_on pro
      | _ \<Rightarrow> False)"

definition bridge_kinds :: "string list" where
  "bridge_kinds = [''appt.upcoming'', ''leave_by.suggested'']"

definition bundle_item :: "signal \<Rightarrow> pydict" where
  "bundle_item s =
     (let data = (case sg_facts s of None \<Rightarrow> [] | Some d \<Rightarrow> d);
          data' = (if otruthy (sg_summary s) \<and> \<not> dhas data ''summary'' then data @ [(''summary'', PStr (oor (sg_summary s) []))]
                   else data)
      in [(''source_key'', PStr (sg_key s)), (''kind'', PStr (sg_kind s)), (''data'', PDict data')])"

definition gather_bundle :: "string \<Rightarrow> bus \<Rightarrow> pydict list" where
  "gather_bundle hh b = map bundle_item (filter (\<lambda>s. sg_kind s \<notin> set bridge_kinds) (live_signals hh b))"

definition match_job :: "string \<Rightarrow> string \<Rightarrow> string \<Rightarrow> pydict list \<Rightarrow> string \<Rightarrow> pydict" where
  "match_job jid hh node bundle prompt =
     [(''job_id'', PStr jid), (''metadata'', PDict [(''type'', PStr ''situation_match''), (''household_id'', PStr hh),
        (''node_id'', PStr node), (''bundle'', PList (map PDict bundle))]),
      (''request'', PDict [(''model'', PStr ''background''),
        (''messages'', PList [PDict [(''role'', PStr ''user''), (''content'', PStr prompt)]]), (''reasoning_budget'', PInt 0)])]"

definition run_match_batch :: "bus_env \<Rightarrow> string \<Rightarrow> string option \<Rightarrow> (bus, unit) io" where
  "run_match_batch E hh node =
     bind (gets (proactive_enabled E hh)) (\<lambda>on. if \<not> on then ret ()
     else catch
       (bind (gets (first_household_node E hh)) (\<lambda>first.
        let chosen = (if otruthy node then node else first) in
        if \<not> otruthy chosen then ret ()
        else bind (gets (gather_bundle hh)) (\<lambda>bundle. if bundle = [] then ret ()
        else bind (list_proposable_actions E (oor chosen [])) (\<lambda>actions. if actions = [] then ret ()
        else bind (lift (build_menu actions)) (\<lambda>menu.
        bind bus_id (\<lambda>n.
        bind (ask_bus E (Queue (match_job (''situation-'' @ nat_str n) hh (oor chosen []) bundle
                (build_situation_prompt bundle menu)))) (\<lambda>_. ret ())))))))
       (\<lambda>_. ret ()))"

subsection \<open>Anti-nag\<close>

definition daily_cap :: nat where
  "daily_cap = 12"

definition cooldown_us :: int where
  "cooldown_us = 21600000000"

definition today :: "bus \<Rightarrow> string" where
  "today b = take 10 (isoformat (bus_now b))"

definition cards_today :: "string \<Rightarrow> bus \<Rightarrow> nat" where
  "cards_today hh b = (case map_of (bu_daily b) hh of
      None \<Rightarrow> 0 | Some (date, n) \<Rightarrow> if date = today b then n else 0)"

definition nag_key :: "string \<Rightarrow> match \<Rightarrow> string \<times> string \<times> string" where
  "nag_key hh r = (hh, case mt_sources r of [] \<Rightarrow> [] | s # _ \<Rightarrow> s, mt_command r)"

definition anti_nag_ok :: "string \<Rightarrow> match \<Rightarrow> bus \<Rightarrow> bool" where
  "anti_nag_ok hh r b \<longleftrightarrow>
     mt_idem r \<notin> set (bu_fired b) \<and> cards_today hh b < daily_cap \<and>
     (case map_of (bu_last b) (nag_key hh r) of None \<Rightarrow> True | Some t \<Rightarrow> \<not> bus_now b - t < cooldown_us)"

definition record_fired :: "string \<Rightarrow> match \<Rightarrow> bus \<Rightarrow> bus" where
  "record_fired hh r b = b\<lparr>bu_fired := List.insert (mt_idem r) (bu_fired b),
     bu_daily := AList.update hh (today b, cards_today hh b + 1) (bu_daily b),
     bu_last := AList.update (nag_key hh r) (bus_now b) (bu_last b)\<rparr>"

definition match_card :: "string option \<Rightarrow> match \<Rightarrow> proposal" where
  "match_card node r =
     (plain_proposal node (mt_command r) (mt_action r) (mt_args r) (mt_idem r)
        (py_str (por (dget (mt_spec r) ''card_title'') (PStr (''Run '' @ mt_command r @ ''?'')))))
       \<lparr>pp_source := (case mt_sources r of [] \<Rightarrow> None | s # _ \<Rightarrow> Some s)\<rparr>"

fun emit_matches :: "bus_env \<Rightarrow> string \<Rightarrow> string option \<Rightarrow> match list \<Rightarrow> (bus, unit) io" where
  "emit_matches E hh node [] = ret ()"
| "emit_matches E hh node (r # rs) =
     bind (gets (anti_nag_ok hh r)) (\<lambda>ok.
     if \<not> ok then emit_matches E hh node rs
     else bind (emit_proposal_card E hh (match_card node r)) (\<lambda>_.
       bind (modify (record_fired hh r)) (\<lambda>_. emit_matches E hh node rs)))"

definition parse_matches :: "string \<Rightarrow> pyval option" where
  "parse_matches content =
     (let text = strip content in
      case json_loads text of
        Some v \<Rightarrow> Some v
      | None \<Rightarrow> (case (find_sub text ''{'', rfind_sub text ''}'') of
          (Some i, Some j) \<Rightarrow> if i < j then json_loads (take (Suc j - i) (drop i text)) else None
        | _ \<Rightarrow> None))"

definition handle_match_callback :: "bus_env \<Rightarrow> pydict \<Rightarrow> (bus, unit) io" where
  "handle_match_callback E payload =
     (if dget payload ''status'' \<noteq> PStr ''succeeded'' then ret ()
      else bind (lift (as_dict (por (dget payload ''result'') (PDict [])))) (\<lambda>result.
        let content = meta_text result ''content'' in
        if content = [] then ret ()
        else bind (lift (as_dict (por (dget payload ''metadata'') (PDict [])))) (\<lambda>meta.
        let hh = meta_text meta ''household_id''; node = meta_text meta ''node_id'' in
        case parse_matches content of
          None \<Rightarrow> ret ()
        | Some parsed \<Rightarrow>
            bind (if node = [] then ret [] else catch (list_proposable_actions E node) (\<lambda>_. ret [])) (\<lambda>actions.
            if actions = [] then ret ()
            else bind (lift (rbind (each (dget meta ''bundle'')) (rmap as_dict))) (\<lambda>bundle.
              bind (lift (finalize_situation_matches E parsed bundle actions)) (\<lambda>rs.
              emit_matches E hh (Some node) rs))))))"

end
