(* ===== verification/Sample_Bus.thy ===== *)
theory Sample_Bus
  imports Callback_Jobs Proposal_Matcher
begin

section \<open>A sample household on the bus\<close>

text \<open>
  One household with a node that offers a reminder, a settings library that reads back what was last
  written, and a situation: the concrete inputs of the witnesses.
\<close>

definition sample_action :: pydict where
  "sample_action =
     [(''callback'', PStr ''set_at''), (''idempotency_param'', PStr ''key''), (''card_title'', PStr ''Set a reminder?''),
      (''params'', PList [PDict [(''name'', PStr ''text''), (''required'', PBool True)], PDict [(''name'', PStr ''key'')]])]"

definition sample_report :: pydict where
  "sample_report = [(''available_commands'', PList [PDict [(''command_name'', PStr ''reminder''),
     (''proposable_actions'', PList [PDict sample_action])]])]"

definition sample_bus_env :: bus_env where
  "sample_bus_env = \<lparr>be_notify = (\<lambda>l. Inr (PDict [(''id'', PStr ''inbox_1'')])),
     be_serve = (\<lambda>l. case l of Ask_tools n # _ \<Rightarrow> Inr (PDict sample_report) | _ \<Rightarrow> Inr PNone),
     be_setting = (\<lambda>ws k hh. Inr (case map_of ws (k, hh) of None \<Rightarrow> PNone | Some v \<Rightarrow> v)), be_write_ok = (\<lambda>ws. True),
     be_member = (\<lambda>u hh role. u = 1 \<and> hh = ''h1''), be_sha = (\<lambda>s. ''0123456789abcdef''), be_hash = (\<lambda>s. 7), be_mqtt = False,
     be_late = (\<lambda>l. False), be_nulls_first = False, be_meanwhile = id\<rparr>"

definition sample_job :: callback_job where
  "sample_job = \<lparr>cj_id = ''id_0'', cj_node = Some ''n1'', cj_household = ''h1'', cj_user = Some 1, cj_command = proposable_command,
     cj_callback = ''dismiss'', cj_data = [], cj_idem = None, cj_nav = ''new_notification'', cj_status = ''pending'', cj_error = None,
     cj_result = None, cj_created = 0, cj_expires = 300000000, cj_done = None\<rparr>"

definition sample_bus :: bus where
  "sample_bus = \<lparr>bu_hub = \<lparr>hb_now = 5, hb_seq = 0, hb_events = [], hb_deliveries = [], hb_consents = [], hb_tiers = [], hb_http = []\<rparr>,
     bu_ids = 1, bu_signals = [], bu_supps = [], bu_jobs = [sample_job],
     bu_nodes = [\<lparr>nd_id = ''n1'', nd_household = Some ''h1'', nd_seen = Some 3, nd_active = True\<rparr>],
     bu_issued = [], bu_asked = [], bu_writes = [], bu_acted = [], bu_leave = [], bu_fired = [], bu_daily = [], bu_last = [], bu_rate = []\<rparr>"

definition sample_bundle :: "pydict list" where
  "sample_bundle = [[(''source_key'', PStr ''mail:42''), (''kind'', PStr ''mail''), (''data'', PDict [(''subject'', PStr ''Parcel'')])]]"

definition sample_answer :: pyval where
  "sample_answer = PDict [(''matches'', PList [
     PDict [(''command'', PStr ''reminder.set_at''), (''action'', PStr ''set_at''), (''sources'', PList [PInt 0, PInt 9]),
            (''args'', PDict [(''text'', PStr ''Fetch the parcel''), (''colour'', PStr ''red'')])],
     PDict [(''command'', PStr ''door''), (''action'', PStr ''open'')]])]"

end
