(* ===== verification/Proposal_Facts.thy ===== *)
theory Proposal_Facts
  imports Callback_Jobs Io_Logic Sample_Bus
begin

section \<open>What a tap on a proposal can do\<close>

subsection \<open>Plans that run without a tap\<close>

text \<open>A harmless step: an allowed command, not risky, with no outbound counterparty.\<close>

definition harmless :: "pydict \<Rightarrow> bool" where
  "harmless step \<longleftrightarrow>
     (case dget step ''command'' of PStr s \<Rightarrow> strip s \<in> set autorun_allowlist | _ \<Rightarrow> False) \<and>
     \<not> truthy (dget step ''is_risky'') \<and>
     (case dget step ''args'' of PDict d \<Rightarrow> \<not> truthy (dget d ''business'') | _ \<Rightarrow> True)"

lemma command_text: "as_str (por v (PStr [])) = Inr s \<longleftrightarrow> v = PStr s \<or> \<not> truthy v \<and> s = []"
  by (cases v) (auto simp: por_def)

lemma Nil_not_allowed [simp]: "[] \<notin> set autorun_allowlist"
  by code_simp

lemma autorun_fault_None: "autorun_fault steps = Inr None \<longleftrightarrow> list_all harmless steps"
proof (induction steps)
  case (Cons step steps)
  have step: "(case as_str (por (dget step ''command'') (PStr [])) of Inl e \<Rightarrow> False | Inr s \<Rightarrow> strip s \<in> set autorun_allowlist) \<longleftrightarrow>
      (case dget step ''command'' of PStr s \<Rightarrow> strip s \<in> set autorun_allowlist | _ \<Rightarrow> False)"
    by (cases "dget step ''command''") (auto simp: por_def)
  have args: "(case por (dget step ''args'') (PDict []) of PDict args \<Rightarrow> truthy (dget args ''business'') | _ \<Rightarrow> False) \<longleftrightarrow>
      \<not> (case dget step ''args'' of PDict d \<Rightarrow> \<not> truthy (dget d ''business'') | _ \<Rightarrow> True)"
    by (cases "dget step ''args''") (auto simp: por_def)
  show ?case
    using Cons.IH step args by (cases "as_str (por (dget step ''command'') (PStr []))") (auto simp: harmless_def Let_def)
qed simp

text \<open>
  A plan may run without a tap exactly when it has one to three steps and each is harmless: the gate lets nothing
  else through, and no plan it should let through is held back.
\<close>

lemma autorun_exactly_harmless:
  "(\<exists>reason. is_autorun_eligible steps = Inr (True, reason)) \<longleftrightarrow>
   steps \<noteq> [] \<and> length steps \<le> 3 \<and> list_all harmless steps"
proof (cases "steps = [] \<or> 3 < length steps")
  case False
  then show ?thesis
    using autorun_fault_None [of steps]
    by (cases "autorun_fault steps") (auto simp: is_autorun_eligible_def max_autorun_steps_def split: option.split)
qed (auto simp: is_autorun_eligible_def max_autorun_steps_def)

subsection \<open>Checked parameters\<close>

definition present :: "pydict \<Rightarrow> string \<Rightarrow> bool" where
  "present raw name \<longleftrightarrow> dget raw name \<notin> {PNone, PStr []}"

definition allowed_value :: "pydict \<Rightarrow> pyval \<Rightarrow> bool" where
  "allowed_value spec v \<longleftrightarrow> (truthy (dget spec ''enum_values'') \<longrightarrow> contains_tag (py_str v) (dget spec ''enum_values'') = Inr True)"

definition params_fit :: "pydict \<Rightarrow> (string \<times> pydict) list \<Rightarrow> pydict \<Rightarrow> bool" where
  "params_fit raw specs args \<longleftrightarrow>
     args = map (\<lambda>(name, spec). (name, dget raw name)) (filter (\<lambda>(name, spec). present raw name) specs) \<and>
     list_all (\<lambda>(name, spec). if present raw name then allowed_value spec (dget raw name) else \<not> truthy (dget spec ''required'')) specs"

lemma check_params_iff:
  "check_params raw specs args0 = Inr (True, args, err) \<longleftrightarrow> err = [] \<and> (\<exists>new. args = args0 @ new \<and> params_fit raw specs new)"
proof (induction raw specs args0 arbitrary: args rule: check_params.induct)
  case (2 raw name spec specs args0)
  show ?case
  proof (cases "present raw name")
    case False
    then have absent: "dget raw name \<in> {PNone, PStr []}" by (simp add: present_def)
    with 2(1) False show ?thesis
      by (cases "truthy (dget spec ''required'')") (simp_all add: params_fit_def)
  next
    case True
    then have here: "dget raw name \<notin> {PNone, PStr []}" by (simp add: present_def)
    let ?chk = "if truthy (dget spec ''enum_values'') then contains_tag (py_str (dget raw name)) (dget spec ''enum_values'') else Inr True"
    have chk: "?chk = Inr True \<longleftrightarrow> allowed_value spec (dget raw name)" by (simp add: allowed_value_def)
    have fit: "params_fit raw ((name, spec) # specs) new \<longleftrightarrow>
        allowed_value spec (dget raw name) \<and> (\<exists>rest. new = (name, dget raw name) # rest \<and> params_fit raw specs rest)" for new
      using True by (auto simp: params_fit_def)
    show ?thesis
    proof (cases ?chk)
      case (Inr ok)
      have "check_params raw specs (args0 @ [(name, dget raw name)]) = Inr (True, args, err) \<longleftrightarrow>
          err = [] \<and> (\<exists>new. args = (args0 @ [(name, dget raw name)]) @ new \<and> params_fit raw specs new)"
        using 2(2) [OF here refl refl, of True] by simp
      with Inr chk here fit show ?thesis by (cases ok) (auto simp: Let_def)
    qed (use chk here fit in \<open>auto simp: Let_def\<close>)
  qed
qed (auto simp: params_fit_def)

text \<open>
  What a tap hands to a command is exactly the declared shape: the check accepts a tap's data if and only if
  every required parameter is there and every given one is among its declared values, and the arguments it passes
  on are the given declared parameters in the order of their declaration, with the tap's values and
  nothing besides.
\<close>

lemma tap_params_exact:
  "validate_against_params raw specs = Inr (True, args, err) \<longleftrightarrow>
   err = [] \<and> (\<exists>ds. declared_params specs = Inr ds \<and> params_fit raw ds args)"
  by (cases "declared_params specs") (auto simp: validate_against_params_def check_params_iff)

subsection \<open>The gates of a confirm tap\<close>

definition quiet_asks :: "bus \<Rightarrow> bus \<Rightarrow> bool" where
  "quiet_asks b b' \<longleftrightarrow> (\<exists>new. b' = b\<lparr>bu_asked := new @ bu_asked b\<rparr> \<and> list_all (\<lambda>q. case q of Ask_tools n \<Rightarrow> True | _ \<Rightarrow> False) new)"

lemma quiet_refl [simp]: "quiet_asks b b"
  by (simp add: quiet_asks_def exI [of _ "[]"])

lemma quiet_trans: "quiet_asks a b \<Longrightarrow> quiet_asks b c \<Longrightarrow> quiet_asks a c"
proof -
  assume "quiet_asks a b" "quiet_asks b c"
  then obtain xs ys where "b = a\<lparr>bu_asked := xs @ bu_asked a\<rparr>" "c = b\<lparr>bu_asked := ys @ bu_asked b\<rparr>"
    "list_all (\<lambda>q. case q of Ask_tools n \<Rightarrow> True | _ \<Rightarrow> False) (ys @ xs)" by (auto simp: quiet_asks_def)
  then show ?thesis unfolding quiet_asks_def by (intro exI [of _ "ys @ xs"]) simp
qed

lemma quiet_fetch: "keeps (quiet_asks b) (fetch_report E node)"
proof -
  have ask: "keeps (quiet_asks b) (ask_bus E (Ask_tools node))"
    by (rule keepsI, rule quiet_trans, assumption, simp add: run_ask_bus quiet_asks_def exI [of _ "[Ask_tools node]"])
  show ?thesis unfolding fetch_report_def by (intro keeps_bind keeps_catch keeps_if ask keeps_ret keeps_lift)
qed

lemma quiet_resolve: "keeps (quiet_asks b) (resolve_proposable_action E node c cb)"
  unfolding resolve_proposable_action_def by (intro keeps_bind quiet_fetch keeps_option keeps_ret keeps_lift)

lemma quiet_list: "keeps (quiet_asks b) (list_proposable_actions E node)"
  unfolding list_proposable_actions_def by (intro keeps_bind quiet_fetch keeps_option keeps_ret keeps_lift)

lemma quiet_advertises: "keeps (quiet_asks b) (advertises E c cb node)"
  unfolding advertises_def by (intro keeps_bind quiet_resolve quiet_list keeps_catch keeps_if keeps_ret)

lemma quiet_probe: "keeps (quiet_asks b) (probe_nodes E c cb ns)"
  by (induction ns) (auto intro!: keeps_bind quiet_advertises)

lemma quiet_node: "keeps (quiet_asks b) (resolve_household_node_for_command E hh c cb)"
  unfolding resolve_household_node_for_command_def by (intro keeps_bind quiet_probe keeps_gets keeps_if keeps_ret)

text \<open>The action a node offers in its answer to the last request for its report.\<close>

definition offered_now :: "bus_env \<Rightarrow> string \<Rightarrow> string \<Rightarrow> string \<Rightarrow> bus \<Rightarrow> pydict \<Rightarrow> bool" where
  "offered_now E node command callback b action \<longleftrightarrow>
     (\<exists>asked report vs. bu_asked b = Ask_tools node # asked \<and> be_serve E (bu_asked b) = Inr (PDict report) \<and>
        each (dget report ''available_commands'') = Inr vs \<and> seek_command command callback vs = Inr (Some action))"

lemma resolve_offered:
  "resolve_proposable_action E node command callback b = (b', Inr (Some action)) \<Longrightarrow> offered_now E node command callback b' action"
proof -
  assume r: "resolve_proposable_action E node command callback b = (b', Inr (Some action))"
  show ?thesis
  proof (cases "be_serve E (Ask_tools node # bu_asked b)")
    case (Inr v)
    with r show ?thesis
      by (cases v) (auto simp: resolve_proposable_action_def fetch_report_def io_simps offered_now_def rbind_Inr_iff split: if_splits)
  qed (use r in \<open>simp add: resolve_proposable_action_def fetch_report_def io_simps\<close>)
qed

definition authorised_run :: "bus_env \<Rightarrow> cb_ctx \<Rightarrow> bus \<Rightarrow> string \<Rightarrow> string \<Rightarrow> string \<Rightarrow> string \<Rightarrow> pydict \<Rightarrow> bus \<Rightarrow> bool" where
  "authorised_run E ctx b node command callback idem args b1 \<longleftrightarrow>
     quiet_asks b b1 \<and> proposals_enabled E (cx_household ctx) b \<and> \<not> already_completed (cx_household ctx) idem b \<and>
     (\<exists>action ds. offered_now E node command callback b1 action \<and> declared_params (dget_or action ''params'' (PList [])) = Inr ds \<and>
        params_fit (filter (\<lambda>(k, v). k \<noteq> ''_action'') (cx_data ctx)) ds args)"

lemma quiet_unchanged: "quiet_asks b b' \<Longrightarrow> bu_jobs b' = bu_jobs b \<and> bu_writes b' = bu_writes b"
  by (auto simp: quiet_asks_def)

lemma completed_quiet: "quiet_asks b b' \<Longrightarrow> already_completed hh idem b' = already_completed hh idem b"
  by (auto simp: quiet_asks_def already_completed_def)

text \<open>Either nothing but questions to nodes happened, or all gates were passed and the target runs.\<close>

lemma handle_execute_run:
  assumes "handle_execute E ctx b = (b', r)"
  shows "quiet_asks b b' \<or> (\<exists>node command callback idem args b1. authorised_run E ctx b node command callback idem args b1 \<and>
    run_target E ctx node command callback idem args b1 = (b', r))"
proof (cases "action_meta ctx")
  case (Inr meta)
  let ?cmd = "meta_text meta ''target_command''" and ?cb = "meta_text meta ''target_callback''"
  let ?idem = "meta_text meta ''idempotency_key''" and ?hh = "cx_household ctx"
  let ?raw = "filter (\<lambda>(k, v). k \<noteq> ''_action'') (cx_data ctx)"
  let ?choose = "if meta_text meta ''node_id'' \<noteq> [] then ret (Some (meta_text meta ''node_id''))
    else resolve_household_node_for_command E ?hh ?cmd (Some ?cb)"
  note run = assms [unfolded handle_execute_def Let_def]
  show ?thesis
  proof (cases "?cmd = [] \<or> ?cb = [] \<or> \<not> proposals_enabled E ?hh b")
    case False
    obtain b1 chosen where choose: "?choose b = (b1, chosen)" by fastforce
    have q1: "quiet_asks b b1" using keepsD' [OF keeps_if [OF keeps_ret quiet_node] quiet_refl choose] .
    show ?thesis
    proof (cases "case chosen of Inr c \<Rightarrow> otruthy c | Inl e \<Rightarrow> False")
      case True
      then obtain c where c: "chosen = Inr c" "otruthy c" by (auto split: sum.splits)
      obtain b2 spec where res: "resolve_proposable_action E (oor c []) ?cmd ?cb b1 = (b2, spec)" by fastforce
      have q2: "quiet_asks b b2" using keepsD' [OF quiet_resolve q1 res] .
      show ?thesis
      proof (cases "case spec of Inr (Some s) \<Rightarrow> validate_against_params ?raw (dget_or s ''params'' (PList [])) | _ \<Rightarrow> Inl (OtherError [])")
        case (Inr v)
        then obtain s where s: "spec = Inr (Some s)" by (auto split: sum.splits option.splits)
        obtain ok args err where v: "v = (ok, args, err)" by (cases v)
        show ?thesis
        proof (cases "ok \<and> \<not> already_completed ?hh ?idem b")
          case True
          with Inr s v have "validate_against_params ?raw (dget_or s ''params'' (PList [])) = Inr (True, args, err)" by simp
          then obtain ds where "declared_params (dget_or s ''params'' (PList [])) = Inr ds" "params_fit ?raw ds args"
            by (cases "declared_params (dget_or s ''params'' (PList []))") (auto simp: validate_against_params_def check_params_iff)
          with resolve_offered [OF res [unfolded s]] True False q2
          have "authorised_run E ctx b (oor c []) ?cmd ?cb ?idem args b2" by (auto simp: authorised_run_def)
          moreover have "run_target E ctx (oor c []) ?cmd ?cb ?idem args b2 = (b', r)"
            using run Inr s v True False choose c res completed_quiet [OF q2] \<open>action_meta ctx = Inr meta\<close> by (simp add: io_simps)
          ultimately show ?thesis by blast
        next
          case notrun: False
          have "b' = b2"
            using run Inr s v notrun False choose c res completed_quiet [OF q2] \<open>action_meta ctx = Inr meta\<close>
            by (auto simp: io_simps split: if_splits)
          with q2 show ?thesis by simp
        qed
      next
        case (Inl e)
        have "b' = b2"
          using run Inl False choose c res \<open>action_meta ctx = Inr meta\<close> by (auto simp: io_simps split: sum.splits option.splits prod.splits)
        with q2 show ?thesis by simp
      qed
    next
      case notchosen: False
      have "b' = b1"
        using run notchosen False choose \<open>action_meta ctx = Inr meta\<close> by (auto simp: io_simps split: sum.splits)
      with q1 show ?thesis by simp
    qed
  qed (use run Inr in \<open>auto simp: io_simps split: if_splits\<close>)
qed (use assms in \<open>auto simp: handle_execute_def io_simps\<close>)

text \<open>
  C27. A confirm tap runs nothing unless every gate is passed: either all it did was to ask nodes for what they
  offer, or proposals are enabled for the household, the same tap has not been completed before, the chosen node
  offers the target in its answer to the last request, the arguments are of the declared shape, and the outcome is that of running exactly
  this target with exactly these arguments.
\<close>

theorem confirm_tap_gated:
  "quiet_asks b (fst (handle_execute E ctx b)) \<or>
   (\<exists>node command callback idem args b1. authorised_run E ctx b node command callback idem args b1 \<and>
      handle_execute E ctx b = run_target E ctx node command callback idem args b1)"
  using handle_execute_run [of E ctx b] by (cases "handle_execute E ctx b") fastforce

end
