(* ===== verification/Job_Facts.thy ===== *)
theory Job_Facts
  imports Proposal_Facts
begin

section \<open>Jobs end, and belong to their node\<close>

lemma find_upd_job:
  assumes "\<And>j. cj_id (f j) = cj_id j"
  shows "find_job jid (upd_job jid f b) = map_option f (find_job jid b)"
proof -
  have "find (\<lambda>j. cj_id j = jid) (map (\<lambda>j. if cj_id j = jid then f j else j) js) = map_option f (find (\<lambda>j. cj_id j = jid) js)" for js
    by (induction js) (simp_all add: assms)
  then show ?thesis by (simp add: find_job_def upd_job_def)
qed

lemma ended_job_simps [simp]: "cj_id (ended_job now ok err ctx j) = cj_id j" "cj_node (ended_job now ok err ctx j) = cj_node j"
  "cj_status (ended_job now ok err ctx j) = (if ok then ''completed'' else ''failed'')" "cj_error (ended_job now ok err ctx j) = err"
  "cj_done (ended_job now ok err ctx j) = Some now"
  by (simp_all add: ended_job_def)

definition inbox_posts :: "bus \<Rightarrow> http list" where
  "inbox_posts b = filter (\<lambda>r. \<not> is_notify r) (hb_http (bu_hub b))"

lemma posts_upd [simp]: "inbox_posts (upd_job jid f b) = inbox_posts b"
  "inbox_posts ((upd_job jid f b)\<lparr>bu_hub := h\<rparr>) = inbox_posts (b\<lparr>bu_hub := h\<rparr>)"
  by (simp_all add: inbox_posts_def upd_job_def)

lemma find_job_hub [simp]: "find_job jid (bu_hub_update f b) = find_job jid b"
  by (simp add: find_job_def)

text \<open>A proposal leaves its card with the notification service and nothing else.\<close>

definition proposal_post :: "string \<Rightarrow> proposal \<Rightarrow> http" where
  "proposal_post hh p =
     InboxPost (inbox_payload hh (pp_title p) (oor (pp_summary p) (pp_title p)) (oor (pp_body p) []) ''proposal''
       [(''interactive_elements'', PList (proposal_elements p))] (pp_user p))"

lemma emit_card_run:
  "\<exists>k item. emit_proposal_card E hh p b = (b\<lparr>bu_hub := k\<rparr>, Inr item) \<and> hb_now k = bus_now b \<and>
     inbox_posts (b\<lparr>bu_hub := k\<rparr>) = proposal_post hh p # inbox_posts b"
  unfolding emit_proposal_card_def
  by (rule post_card_result [of E hh "pp_title p" "oor (pp_summary p) (pp_title p)" "oor (pp_body p) []" "''proposal''"
        "[(''interactive_elements'', PList (proposal_elements p))]" "pp_user p" False
        "case pp_user p of Some u \<Rightarrow> if u = 0 then ''household'' else ''user'' | None \<Rightarrow> ''household''" b])
    (auto simp: io_simps inbox_posts_def proposal_post_def)

lemma fan_out_run: "\<exists>h. fan_out E j d source b = (b\<lparr>bu_hub := h\<rparr>, Inr ()) \<and>
    length (inbox_posts (b\<lparr>bu_hub := h\<rparr>)) \<le> Suc (length (inbox_posts b))"
proof -
  have quiet: "\<exists>h. (b, Inr ()) = (b\<lparr>bu_hub := h\<rparr>, Inr ()) \<and>
      length (inbox_posts (b\<lparr>bu_hub := h\<rparr>)) \<le> Suc (length (inbox_posts b))"
    by (rule exI [of _ "bu_hub b"]) simp
  have card: "\<exists>h. bind (post_card E hh t s bd c m u p tg) (\<lambda>_. ret ()) b = (b\<lparr>bu_hub := h\<rparr>, Inr ()) \<and>
      length (inbox_posts (b\<lparr>bu_hub := h\<rparr>)) \<le> Suc (length (inbox_posts b))" for hh t s bd c m u p tg
    by (cases rule: post_card_result [of E hh t s bd c m u p tg b]) (auto simp: io_simps inbox_posts_def)
  show ?thesis
  proof (cases "dget d ''inbox''")
    case (PDict inbox)
    show ?thesis
    proof (cases "case (dget inbox ''title'', por (dget inbox ''metadata'') (PDict [])) of (PStr title, PDict meta) \<Rightarrow> title = [] | _ \<Rightarrow> True")
      case True
      then have "fan_out E j d source = ret ()"
        using PDict by (simp add: fan_out_def split: pyval.splits)
      then show ?thesis using quiet by (simp add: io_simps)
    next
      case False
      then obtain t m where "dget inbox ''title'' = PStr t" "t \<noteq> []" "por (dget inbox ''metadata'') (PDict []) = PDict m"
        by (simp split: pyval.splits)
      then show ?thesis using PDict unfolding fan_out_def by (simp only: pyval.case prod.case if_False card)
    qed
  qed (use quiet in \<open>simp_all add: fan_out_def io_simps\<close>)
qed

lemma record_result_run:
  "\<exists>h. record_callback_result E j ok err ctx source b =
     ((upd_job (cj_id j) (ended_job (bus_now b) ok err ctx) b)\<lparr>bu_hub := h\<rparr>, Inr ()) \<and>
     length (inbox_posts (b\<lparr>bu_hub := h\<rparr>)) \<le> length (inbox_posts b) + (if ok \<and> cj_nav j = ''new_notification'' then 1 else 0)"
proof (cases "cj_nav j = ''new_notification'' \<and> ok \<and> ctx \<noteq> None")
  case True
  then obtain d where "ctx = Some d" by auto
  let ?b = "upd_job (cj_id j) (ended_job (bus_now b) ok err ctx) b"
  from fan_out_run [of E j d source ?b] True \<open>ctx = Some d\<close> show ?thesis
    by (auto simp: record_callback_result_def io_simps intro!: exI [of _ "_::hub"])
next
  case False
  then show ?thesis
    by (intro exI [of _ "bu_hub b"]) (auto simp: record_callback_result_def io_simps inbox_posts_def upd_job_def split: option.split)
qed

text \<open>A result that reports failure makes no card, whatever its context says.\<close>

lemma failure_makes_no_card:
  "inbox_posts (fst (record_callback_result E j False err ctx source b)) = inbox_posts b"
  by (simp add: record_callback_result_def io_simps inbox_posts_def upd_job_def)

text \<open>What the handler leaves, and what it reports: a missing or raising handler reports failure.\<close>

definition handler_outcome :: "bus handlers \<Rightarrow> callback_job \<Rightarrow> bus \<Rightarrow> bus \<times> bool \<times> string option \<times> pydict option" where
  "handler_outcome reg j b = (case get_server_callback (cj_command j) (cj_callback j) reg of
      None \<Rightarrow> (b, False, Some ''Server-side handler no longer registered'', None)
    | Some h \<Rightarrow> (case h (job_context j) b of
        (w, Inl e) \<Rightarrow> (w, False, Some (exc_str e), None)
      | (w, Inr r) \<Rightarrow> (w, cr_success r, cr_error r, cr_context r)))"

lemma run_job_outcome:
  assumes "find_job jid b = Some j" "handler_outcome reg j b = (w, ok, err, ctx)"
  shows "run_server_callback_job E reg jid b = record_callback_result E j ok err ctx None w"
  using assms by (auto simp: run_server_callback_job_def handler_outcome_def io_simps split: option.splits prod.splits sum.splits)



subsection \<open>A node's jobs\<close>

definition same_order :: "callback_job \<Rightarrow> callback_job \<Rightarrow> bool" where
  "same_order j j' \<longleftrightarrow> j' = j\<lparr>cj_status := cj_status j', cj_error := cj_error j', cj_result := cj_result j', cj_done := cj_done j'\<rparr>"

lemma same_order_ended [simp]: "same_order j (ended_job now ok err ctx j)" "same_order j (j\<lparr>cj_status := s\<rparr>)" "same_order j j"
  by (simp_all add: same_order_def ended_job_def)

definition touches_only :: "string \<Rightarrow> string \<Rightarrow> bus \<Rightarrow> bus \<Rightarrow> bool" where
  "touches_only jid node b b' \<longleftrightarrow>
     list_all2 (\<lambda>j j'. j' = j \<or> cj_id j = jid \<and> cj_node j = Some node \<and> same_order j j') (bu_jobs b) (bu_jobs b')"

lemma touches_refl [simp]: "touches_only jid node b b"
  by (simp add: touches_only_def list_all2_same)

lemma touches_upd:
  assumes "distinct (map cj_id (bu_jobs b))" "job_of_node jid node b = Some j" "\<And>j. same_order j (f j)"
  shows "touches_only jid node b (upd_job jid f b)"
proof -
  have j: "j \<in> set (bu_jobs b)" "cj_id j = jid" "cj_node j = Some node"
    using assms(2) by (auto simp: job_of_node_def find_job_def find_Some_iff split: option.splits if_splits)
  have only: "i = j" if "i \<in> set (bu_jobs b)" "cj_id i = jid" for i
    using assms(1) that j by (auto simp: distinct_map inj_on_def)
  have "(if cj_id i = jid then f i else i) = i \<or> cj_id i = jid \<and> cj_node i = Some node \<and> same_order i (if cj_id i = jid then f i else i)"
    if "i \<in> set (bu_jobs b)" for i
  proof (cases "cj_id i = jid")
    case True
    with only [OF that] j(3) assms(3) show ?thesis by simp
  qed simp
  then show ?thesis by (simp add: touches_only_def upd_job_def list_all2_map2 list_all2_same)
qed

lemma touches_hub [simp]: "touches_only jid node b (bu_hub_update f b') = touches_only jid node b b'"
  by (simp add: touches_only_def)

text \<open>
  C33. A node reads and completes only its own jobs: fetching a payload or posting a result changes no job but the one
  named, and that only if it is this node's, and never what was ordered of whom; for any other job, those
  of the server among them, the answer is that there is none and nothing changes.
\<close>

theorem node_owns_its_jobs:
  assumes "distinct (map cj_id (bu_jobs b))"
  shows "touches_only jid node b (fst (post_callback_result E jid node ok err ctx b)) \<and>
    touches_only jid node b (fst (get_callback_payload jid node b)) \<and>
    (job_of_node jid node b = None \<longrightarrow>
       post_callback_result E jid node ok err ctx b = (b, Inl (HTTPError 404 ''Callback job not found'')) \<and>
       get_callback_payload jid node b = (b, Inl (HTTPError 404 ''Callback job not found'')))"
proof (cases "job_of_node jid node b")
  case (Some j)
  then have j: "cj_id j = jid" by (auto simp: job_of_node_def find_job_def find_Some_iff split: option.splits if_splits)
  obtain h where h: "record_callback_result E j ok err ctx (Some node) b =
      ((upd_job jid (ended_job (bus_now b) ok err ctx) b)\<lparr>bu_hub := h\<rparr>, Inr ())"
    using record_result_run [of E j ok err ctx "Some node" b] j by auto
  have "touches_only jid node b (fst (post_callback_result E jid node ok err ctx b))"
    using Some h touches_upd [OF assms Some, of "ended_job (bus_now b) ok err ctx"]
    by (simp add: post_callback_result_def io_simps)
  moreover have "touches_only jid node b (fst (get_callback_payload jid node b))"
    using Some touches_upd [OF assms Some, of "cj_status_update (\<lambda>_. ''expired'')"]
    by (simp add: get_callback_payload_def expire_job_def io_simps)
  ultimately show ?thesis using Some by simp
qed (simp add: post_callback_result_def get_callback_payload_def io_simps)

theorem node_owns_its_jobs_witness:
  "get_callback_payload ''id_0'' ''n2'' sample_bus = (sample_bus, Inl (HTTPError 404 ''Callback job not found'')) \<and>
   post_callback_result sample_bus_env ''id_0'' ''n2'' True None None sample_bus = (sample_bus, Inl (HTTPError 404 ''Callback job not found''))"
  using node_owns_its_jobs [of sample_bus "''id_0''" "''n2''" sample_bus_env True None None]
  by (simp add: sample_bus_def sample_job_def job_of_node_def find_job_def)

end
