(* ===== verification/Matcher_Facts.thy ===== *)
theory Matcher_Facts
  imports Job_Facts Proposal_Matcher
begin

section \<open>What the matcher may suggest, and how often\<close>

subsection \<open>Only what is advertised\<close>

lemma by_key_sound: "map_of (by_key actions) k = Some a \<Longrightarrow> a \<in> set actions \<and> action_key a = k"
proof (induction actions rule: rev_induct)
  case (snoc x xs)
  then show ?case by (auto simp: by_key_def update_conv split: if_splits)
qed (simp add: by_key_def)

lemma distinct_update_fold: "distinct (map fst m) \<Longrightarrow> distinct (map fst (foldl (\<lambda>m (n, p). AList.update n p m) m ps))"
  by (induction ps arbitrary: m) (auto simp: distinct_update)

lemma declared_distinct: "declared_params specs = Inr ds \<Longrightarrow> distinct (map fst ds)"
  by (auto simp: declared_params_def rbind_Inr_iff distinct_update_fold)

text \<open>Arguments that passed the check are themselves of the declared shape.\<close>

lemma dget_args:
  "distinct (map fst ds) \<Longrightarrow>
   dget (map (\<lambda>(name, spec). (name, dget raw name)) (filter (\<lambda>(name, spec). present raw name) ds)) n =
     (if n \<in> fst ` set ds \<and> present raw n then dget raw n else PNone)"
  by (induction ds) (auto simp: dget_def dget_or_def image_iff)

lemma params_fit_self:
  assumes "distinct (map fst ds)" "params_fit raw ds args"
  shows "params_fit args ds args"
proof -
  have args: "args = map (\<lambda>(name, spec). (name, dget raw name)) (filter (\<lambda>(name, spec). present raw name) ds)"
    using assms(2) by (simp add: params_fit_def)
  have same: "present args n = present raw n \<and> (present raw n \<longrightarrow> dget args n = dget raw n)" if "(n, spec) \<in> set ds" for n spec
  proof -
    have "n \<in> fst ` set ds" using that by force
    then have "dget args n = (if present raw n then dget raw n else PNone)"
      unfolding args dget_args [OF assms(1)] by simp
    then show ?thesis by (auto simp: present_def split: if_splits)
  qed
  have kept: "map (\<lambda>(name, spec). (name, dget args name)) (filter (\<lambda>(name, spec). present args name) ds) =
      map (\<lambda>(name, spec). (name, dget raw name)) (filter (\<lambda>(name, spec). present raw name) ds)"
    using same by (intro map_cong filter_cong) auto
  have "list_all (\<lambda>(name, spec). if present args name then allowed_value spec (dget args name)
      else \<not> truthy (dget spec ''required'')) ds"
    using assms(2) same by (fastforce simp: params_fit_def list_all_iff)
  with trans [OF kept args [symmetric]] show ?thesis unfolding params_fit_def by (metis (no_types, lifting))
qed

definition chosen_data :: "pydict list \<Rightarrow> nat list \<Rightarrow> pyval" where
  "chosen_data bundle used = PDict [(''items'', PList (map (\<lambda>i. dget_or (bundle ! i) ''data'' (PDict [])) used))]"

text \<open>A match that may become a card: see the property below.\<close>

definition grounded :: "bus_env \<Rightarrow> pydict list \<Rightarrow> pydict list \<Rightarrow> match \<Rightarrow> bool" where
  "grounded E bundle actions r \<longleftrightarrow>
     mt_spec r \<in> set actions \<and> action_key (mt_spec r) = (mt_command r, mt_action r) \<and>
     (\<exists>ds. declared_params (dget_or (mt_spec r) ''params'' (PList [])) = Inr ds \<and> params_fit (mt_args r) ds (mt_args r) \<and>
        (\<forall>p. dget (mt_spec r) ''idempotency_param'' = PStr p \<and> p \<noteq> [] \<and> p \<in> fst ` set ds \<longrightarrow> dget (mt_args r) p = PStr (mt_idem r))) \<and>
     (\<exists>used. set used \<subseteq> {0..<length bundle} \<and>
        mt_idem r = stable_idempotency_key E (chosen_data bundle used) (mt_command r) (mt_action r) \<and>
        mt_sources r = filter (\<lambda>s. s \<noteq> []) (map (\<lambda>i. meta_text (bundle ! i) ''source_key'') used))"

lemma cited_index_less: "cited_index n v = Some i \<Longrightarrow> i < n"
  by (auto simp: cited_index_def split: pyval.splits if_splits)

lemma map_filter_range: "(\<And>v i. f v = Some i \<Longrightarrow> P i) \<Longrightarrow> i \<in> set (List.map_filter f vs) \<Longrightarrow> P i"
  by (induction vs) (auto simp: List.map_filter_simps split: option.splits)

lemma contributing_range: "contributing n raw = Inr used \<Longrightarrow> set used \<subseteq> {0..<n}"
  using map_filter_range [where f = "cited_index n" and P = "\<lambda>i. i < n", OF cited_index_less]
  by (auto simp: contributing_def rbind_Inr_iff split: if_splits)

lemma validate_fits:
  assumes "validate_against_params raw specs = Inr (True, args, e)"
  shows "\<exists>ds. declared_params specs = Inr ds \<and> distinct (map fst ds) \<and> params_fit raw ds args"
  using assms by (cases "declared_params specs")
    (auto simp: validate_against_params_def check_params_iff dest: declared_distinct)

lemma match_args_key: "match_args m spec idem = Inr raw \<Longrightarrow> dget spec ''idempotency_param'' = PStr p \<Longrightarrow> p \<noteq> [] \<Longrightarrow> dget raw p = PStr idem"
  by (auto simp: match_args_def rbind_Inr_iff split: pyval.splits if_splits)

lemma idem_text: "stable_idempotency_key E v c a \<noteq> []"
  by (simp add: stable_idempotency_key_def)

lemma finalize_match_grounded:
  assumes "finalize_match E bundle (by_key actions) v = Inr rs"
  shows "list_all (grounded E bundle actions) rs"
proof -
  obtain m where m: "as_dict v = Inr m"
    using assms by (cases "as_dict v") (simp_all add: finalize_match_def)
  have run: "(case map_of (by_key actions) (resolve_match_key (meta_text m ''command'') (meta_text m ''action'') (by_key actions)) of
       None \<Rightarrow> Inr []
     | Some spec \<Rightarrow>
         rbind (contributing (length bundle) (dget m ''sources'')) (\<lambda>used.
         let command = meta_text spec ''command''; action = meta_text spec ''callback'';
             idem = stable_idempotency_key E (chosen_data bundle used) command action in
         rbind (match_args m spec idem) (\<lambda>raw.
         rbind (validate_against_params raw (dget_or spec ''params'' (PList []))) (\<lambda>(ok, args, verr).
         Inr (if ok then [\<lparr>mt_command = command, mt_action = action, mt_args = args, mt_idem = idem,
                mt_sources = filter (\<lambda>s. s \<noteq> []) (map (\<lambda>i. meta_text (bundle ! i) ''source_key'') used), mt_spec = spec\<rparr>]
              else []))))) = Inr rs"
    using assms unfolding finalize_match_def m chosen_data_def by simp
  show ?thesis
  proof (cases "map_of (by_key actions) (resolve_match_key (meta_text m ''command'') (meta_text m ''action'') (by_key actions))")
    case (Some spec)
    then have spec: "spec \<in> set actions" using by_key_sound by blast
    let ?c = "meta_text spec ''command''" and ?a = "meta_text spec ''callback''"
    from run Some obtain used raw ok args e where used: "contributing (length bundle) (dget m ''sources'') = Inr used"
      and raw: "match_args m spec (stable_idempotency_key E (chosen_data bundle used) ?c ?a) = Inr raw"
      and ok: "validate_against_params raw (dget_or spec ''params'' (PList [])) = Inr (ok, args, e)"
      and rs: "rs = (if ok then [\<lparr>mt_command = ?c, mt_action = ?a, mt_args = args,
          mt_idem = stable_idempotency_key E (chosen_data bundle used) ?c ?a,
          mt_sources = filter (\<lambda>s. s \<noteq> []) (map (\<lambda>i. meta_text (bundle ! i) ''source_key'') used), mt_spec = spec\<rparr>] else [])"
      by (auto simp: rbind_Inr_iff Let_def)
    show ?thesis
    proof (cases ok)
      case True
      with ok have "validate_against_params raw (dget_or spec ''params'' (PList [])) = Inr (True, args, e)" by simp
      from validate_fits [OF this] obtain ds where ds: "declared_params (dget_or spec ''params'' (PList [])) = Inr ds"
        "distinct (map fst ds)" "params_fit raw ds args" by auto
      have args: "args = map (\<lambda>(name, spec). (name, dget raw name)) (filter (\<lambda>(name, spec). present raw name) ds)"
        using ds(3) by (simp add: params_fit_def)
      have "dget args p = PStr (stable_idempotency_key E (chosen_data bundle used) ?c ?a)"
        if "dget spec ''idempotency_param'' = PStr p" "p \<noteq> []" "p \<in> fst ` set ds" for p
        using match_args_key [OF raw that(1,2)] that(3) idem_text [of E "chosen_data bundle used" ?c ?a]
        unfolding args dget_args [OF ds(2)] by (simp add: present_def)
      with rs True spec ds params_fit_self [OF ds(2,3)] contributing_range [OF used] show ?thesis
        by (auto simp: grounded_def action_key_def)
    qed (use rs in simp)
  qed (use run in simp)
qed

lemma rmap_concat: "rmap f vs = Inr rs \<Longrightarrow> (\<And>v r. f v = Inr r \<Longrightarrow> list_all P r) \<Longrightarrow> list_all P (concat rs)"
  by (induction vs arbitrary: rs) (auto simp: rbind_Inr_iff)

text \<open>
  C28. Whatever the language model answers, a suggestion is an action some node advertised: it carries
  that action's command and callback, arguments of its declared shape and nothing else, the key that keeps it from running twice where the
  action declares one, and that key and its sources are those of observations that were in the situation.
\<close>

theorem matches_grounded:
  assumes "finalize_situation_matches E parsed bundle actions = Inr rs"
  shows "list_all (grounded E bundle actions) rs"
  using assms rmap_concat finalize_match_grounded
  by (fastforce simp: finalize_situation_matches_def rbind_Inr_iff)

theorem matches_grounded_witness:
  "\<exists>r. finalize_situation_matches sample_bus_env sample_answer sample_bundle [dset sample_action ''command'' (PStr ''reminder'')] = Inr [r] \<and>
     grounded sample_bus_env sample_bundle [dset sample_action ''command'' (PStr ''reminder'')] r"
proof -
  have "case finalize_situation_matches sample_bus_env sample_answer sample_bundle [dset sample_action ''command'' (PStr ''reminder'')]
      of Inr [r] \<Rightarrow> True | _ \<Rightarrow> False" by code_simp
  then obtain r where "finalize_situation_matches sample_bus_env sample_answer sample_bundle [dset sample_action ''command'' (PStr ''reminder'')] = Inr [r]"
    by (auto split: sum.splits list.splits)
  with matches_grounded [OF this] show ?thesis by auto
qed

subsection \<open>Not too often\<close>

record nag_card =
  nc_household :: string
  nc_node :: "string option"
  nc_time :: int
  nc_match :: match

text \<open>The cards of a pass: the matches that pass the anti-nag rules when their turn comes.\<close>

fun emitted :: "bus_env \<Rightarrow> string \<Rightarrow> string option \<Rightarrow> match list \<Rightarrow> bus \<Rightarrow> nag_card list" where
  "emitted E hh node [] b = []"
| "emitted E hh node (r # rs) b =
     (if anti_nag_ok hh r b
      then \<lparr>nc_household = hh, nc_node = node, nc_time = bus_now b, nc_match = r\<rparr> #
        emitted E hh node rs (record_fired hh r (fst (emit_proposal_card E hh (match_card node r) b)))
      else emitted E hh node rs b)"

definition card_post :: "nag_card \<Rightarrow> http" where
  "card_post c = proposal_post (nc_household c) (match_card (nc_node c) (nc_match c))"

datatype nag_op = Pass string "string option" "match list" | Later nat

definition later :: "nat \<Rightarrow> bus \<Rightarrow> bus" where
  "later n b = b\<lparr>bu_hub := (bu_hub b)\<lparr>hb_now := bus_now b + int n\<rparr>\<rparr>"

text \<open>The cards, newest first.\<close>

fun run_nag :: "bus_env \<Rightarrow> nag_op list \<Rightarrow> bus \<times> nag_card list \<Rightarrow> bus \<times> nag_card list" where
  "run_nag E [] s = s"
| "run_nag E (Pass hh node rs # ops) (b, h) =
     run_nag E ops (fst (emit_matches E hh node rs b), rev (emitted E hh node rs b) @ h)"
| "run_nag E (Later n # ops) (b, h) = run_nag E ops (later n b, h)"

definition day_of :: "nag_card \<Rightarrow> int" where
  "day_of c = nc_time c div day_us"

definition on_day :: "string \<Rightarrow> int \<Rightarrow> nag_card list \<Rightarrow> nat" where
  "on_day hh d h = length (filter (\<lambda>c. nc_household c = hh \<and> day_of c = d) h)"

definition same_nag :: "nag_card \<Rightarrow> nag_card \<Rightarrow> bool" where
  "same_nag c c' \<longleftrightarrow> nag_key (nc_household c) (nc_match c) = nag_key (nc_household c') (nc_match c')"

definition cooled :: "nag_card list \<Rightarrow> bool" where
  "cooled h \<longleftrightarrow> sorted_wrt (\<lambda>c c'. same_nag c c' \<longrightarrow> 6 * 3600 * 1000000 \<le> nc_time c - nc_time c') h"

definition counted :: "bus \<Rightarrow> nag_card list \<Rightarrow> string \<Rightarrow> bool" where
  "counted b h hh \<longleftrightarrow> filter (\<lambda>c. nc_household c = hh) h = [] \<or>
     (\<exists>t n. map_of (bu_daily b) hh = Some (take 10 (isoformat t), n) \<and> on_day hh (t div day_us) h \<le> n \<and>
        (\<forall>c \<in> set h. nc_household c = hh \<longrightarrow> nc_time c \<le> t) \<and> t \<le> bus_now b)"

definition nag_inv :: "bus \<Rightarrow> nag_card list \<Rightarrow> bool" where
  "nag_inv b h \<longleftrightarrow> (\<forall>c \<in> set h. mt_idem (nc_match c) \<in> set (bu_fired b)) \<and> distinct (map (mt_idem \<circ> nc_match) h) \<and>
     (\<forall>hh d. on_day hh d h \<le> daily_cap) \<and> (\<forall>hh. counted b h hh) \<and> cooled h \<and>
     (\<forall>c \<in> set h. \<exists>t. map_of (bu_last b) (nag_key (nc_household c) (nc_match c)) = Some t \<and> nc_time c \<le> t \<and> t \<le> bus_now b)"

lemma day_text:
  assumes "t div day_us = t' div day_us"
  shows "take 10 (isoformat t) = take 10 (isoformat t')"
proof -
  obtain y m d where ymd: "civil_from_days (t' div day_us) = (y, m, d)" by (cases "civil_from_days (t' div day_us)")
  let ?D = "(pad 4 (int_str y) @ ''-'' @ pad 2 (int_str m) @ ''-'') @ pad 2 (int_str d)"
  have "n \<le> length (pad n s)" for n s by (simp add: pad_def)
  from this [of 4 "int_str y"] this [of 2 "int_str m"] this [of 2 "int_str d"] have "10 \<le> length ?D" by simp
  then have "take 10 (?D @ r) = take 10 ?D" for r unfolding take_append by simp
  moreover have "\<exists>r. isoformat t = ?D @ r" "\<exists>r. isoformat t' = ?D @ r"
    using assms ymd by (auto simp: isoformat_def Let_def)
  ultimately show ?thesis by fastforce
qed

lemma on_day_Cons: "on_day hh d (c # h) = (if nc_household c = hh \<and> day_of c = d then 1 else 0) + on_day hh d h"
  by (simp add: on_day_def)

lemma today_count:
  assumes "counted b h hh"
  shows "on_day hh (bus_now b div day_us) h \<le> cards_today hh b"
proof (cases "filter (\<lambda>c. nc_household c = hh) h = []")
  case True
  then show ?thesis by (auto simp: on_day_def filter_empty_conv)
next
  case False
  with assms obtain t n where t: "map_of (bu_daily b) hh = Some (take 10 (isoformat t), n)" "on_day hh (t div day_us) h \<le> n"
    "\<And>c. c \<in> set h \<Longrightarrow> nc_household c = hh \<Longrightarrow> nc_time c \<le> t" "t \<le> bus_now b" by (auto simp: counted_def)
  show ?thesis
  proof (cases "t div day_us = bus_now b div day_us")
    case True
    with t(1,2) day_text [OF True] show ?thesis by (simp add: cards_today_def today_def)
  next
    case other: False
    have pos: "0 < day_us" by (simp add: day_us_def)
    have "t div day_us < bus_now b div day_us" using other zdiv_mono1 [OF t(4) pos] by simp
    then have "day_of c \<noteq> bus_now b div day_us" if "c \<in> set h" "nc_household c = hh" for c
      using zdiv_mono1 [OF t(3) [OF that] pos] by (simp add: day_of_def)
    then show ?thesis by (auto simp: on_day_def filter_empty_conv)
  qed
qed

lemma nag_step:
  assumes inv: "nag_inv b h" and ok: "anti_nag_ok hh r b" and c: "nc_household c = hh" "nc_match c = r" "nc_time c = bus_now b"
  shows "nag_inv (record_fired hh r b) (c # h)"
proof -
  have day: "day_of c = bus_now b div day_us" using c(3) by (simp add: day_of_def)
  have cnt: "counted b h k" "on_day k d h \<le> daily_cap" for k d using inv by (auto simp: nag_inv_def)
  note today = today_count [OF cnt(1), of hh]
  have below: "cards_today hh b < daily_cap" using ok by (simp add: anti_nag_ok_def)
  have old: "nc_time x \<le> bus_now b" if "x \<in> set h" for x
    using inv that by (fastforce simp: nag_inv_def)
  have "on_day k d (c # h) \<le> daily_cap" for k d
    using cnt(2) [of k d] today below c(1) day by (auto simp: on_day_Cons)
  moreover have "counted (record_fired hh r b) (c # h) k" for k
  proof (cases "k = hh")
    case True
    have "on_day hh (bus_now b div day_us) (c # h) \<le> cards_today hh b + 1"
      using today c(1) day by (simp add: on_day_Cons)
    with True old c show ?thesis
      by (auto simp: counted_def record_fired_def update_conv today_def intro!: exI [of _ "bus_now b"])
  next
    case False
    with cnt(1) [of k] c(1) show ?thesis by (auto simp: counted_def record_fired_def update_conv on_day_Cons)
  qed
  moreover have "cooled (c # h)"
  proof -
    have "6 * 3600 * 1000000 \<le> nc_time c - nc_time x" if x: "x \<in> set h" "same_nag c x" for x
    proof -
      from inv x(1) obtain t where "map_of (bu_last b) (nag_key (nc_household x) (nc_match x)) = Some t" "nc_time x \<le> t"
        by (auto simp: nag_inv_def)
      with ok x(2) c show ?thesis by (auto simp: anti_nag_ok_def same_nag_def cooldown_us_def)
    qed
    with inv show ?thesis by (simp add: nag_inv_def cooled_def)
  qed
  moreover have "\<exists>t. map_of (bu_last (record_fired hh r b)) (nag_key (nc_household x) (nc_match x)) = Some t \<and> nc_time x \<le> t \<and> t \<le> bus_now b"
    if "x \<in> set (c # h)" for x
    using inv old that c by (auto simp: nag_inv_def record_fired_def update_conv)
  ultimately show ?thesis
    using inv ok c unfolding nag_inv_def by (auto simp: record_fired_def anti_nag_ok_def)
qed

lemma nag_inv_hub: "hb_now k = bus_now b \<Longrightarrow> nag_inv (b\<lparr>bu_hub := k\<rparr>) h = nag_inv b h"
  by (simp add: nag_inv_def counted_def bus_now_def)

lemma emit_matches_run:
  "nag_inv b h \<Longrightarrow> \<exists>b'. emit_matches E hh node rs b = (b', Inr ()) \<and> nag_inv b' (rev (emitted E hh node rs b) @ h) \<and>
     inbox_posts b' = map card_post (rev (emitted E hh node rs b)) @ inbox_posts b \<and> bus_now b' = bus_now b"
proof (induction rs arbitrary: b h)
  case (Cons r rs)
  show ?case
  proof (cases "anti_nag_ok hh r b")
    case True
    let ?c = "\<lparr>nc_household = hh, nc_node = node, nc_time = bus_now b, nc_match = r\<rparr>"
    obtain k item where k: "emit_proposal_card E hh (match_card node r) b = (b\<lparr>bu_hub := k\<rparr>, Inr item)" "hb_now k = bus_now b"
      "inbox_posts (b\<lparr>bu_hub := k\<rparr>) = card_post ?c # inbox_posts b"
      using emit_card_run [of E hh "match_card node r" b] by (auto simp: card_post_def)
    let ?b = "record_fired hh r (b\<lparr>bu_hub := k\<rparr>)"
    have now: "bus_now (b\<lparr>bu_hub := k\<rparr>) = bus_now b" using k(2) by (simp add: bus_now_def)
    have ok: "anti_nag_ok hh r (b\<lparr>bu_hub := k\<rparr>)"
      using True unfolding anti_nag_ok_def cards_today_def today_def now by simp
    have "nag_inv ?b (?c # h)"
      by (rule nag_step) (use Cons.prems nag_inv_hub [OF k(2)] ok now in simp_all)
    from Cons.IH [OF this] k now True show ?thesis
      by (auto simp: io_simps inbox_posts_def record_fired_def)
  qed (use Cons in \<open>simp add: io_simps\<close>)
qed (simp add: io_simps)

lemma run_nag_inv:
  "nag_inv b h \<Longrightarrow> run_nag E ops (b, h) = (b', h') \<Longrightarrow>
   nag_inv b' h' \<and> (\<exists>new. h' = new @ h \<and> inbox_posts b' = map card_post new @ inbox_posts b)"
proof (induction ops arbitrary: b h)
  case (Cons op ops)
  show ?case
  proof (cases op)
    case (Pass hh node rs)
    from emit_matches_run [OF Cons.prems(1), of E hh node rs] obtain b1 where b1: "fst (emit_matches E hh node rs b) = b1"
      "nag_inv b1 (rev (emitted E hh node rs b) @ h)" "inbox_posts b1 = map card_post (rev (emitted E hh node rs b)) @ inbox_posts b"
      by auto
    with Cons.IH [OF b1(2)] Cons.prems(2) Pass show ?thesis by auto
  next
    case (Later n)
    have "nag_inv (later n b) h"
      using Cons.prems(1) by (fastforce simp: nag_inv_def counted_def later_def bus_now_def)
    moreover have "inbox_posts (later n b) = inbox_posts b" by (simp add: inbox_posts_def later_def)
    ultimately show ?thesis using Cons.IH [of "later n b" h] Cons.prems(2) Later by auto
  qed
qed simp

definition forgotten :: "bus \<Rightarrow> bus" where
  "forgotten b = b\<lparr>bu_fired := [], bu_daily := [], bu_last := []\<rparr>"

text \<open>
  C29. Suggestions do not nag: however passes of all households and time follow each other after a start, the cards
  posted are exactly those of the log; no two of them have the same key, a household gets at most twelve in a day of
  UTC, and two from the same source for the same command are six hours apart.
\<close>

theorem nags_bounded:
  "case run_nag E ops (forgotten b, []) of (b', h) \<Rightarrow>
     inbox_posts b' = map card_post h @ inbox_posts b \<and> distinct (map (mt_idem \<circ> nc_match) h) \<and>
     (\<forall>hh day. on_day hh day h \<le> 12) \<and> cooled h"
proof -
  have "nag_inv (forgotten b) []" by (simp add: nag_inv_def counted_def on_day_def cooled_def)
  moreover have "inbox_posts (forgotten b) = inbox_posts b" by (simp add: forgotten_def inbox_posts_def)
  ultimately show ?thesis
    using run_nag_inv [of "forgotten b" "[]" E ops]
    by (cases "run_nag E ops (forgotten b, [])") (auto simp: nag_inv_def daily_cap_def)
qed

end
