(* ===== verification/Signal_Reactions.thy ===== *)
theory Signal_Reactions
  imports Callback_Jobs Proposal_Matcher Step_Resolver
begin

section \<open>What a signal sets off\<close>

text \<open>
  \<^verbatim>\<open>app/services/signal_reaction_registry.py\<close>, \<^verbatim>\<open>signal_automation_executor.py\<close>,
  \<^verbatim>\<open>signal_reaction_bridge.py\<close>, \<^verbatim>\<open>signal_dispatch.py\<close> and the ingress endpoints of \<^verbatim>\<open>app/api/signals.py\<close> and
  \<^verbatim>\<open>app/api/mobile_presence.py\<close>. A reaction returns a status. Scheduling a reaction hands it to the event
  loop: the dispatch returns what was scheduled. Facts that are compared as text are text or printed.
\<close>

subsection \<open>The registry\<close>

record reaction_ctx =
  rx_household :: string
  rx_node :: "string option"
  rx_user :: "int option"
  rx_kind :: string
  rx_facts :: pydict

type_synonym reaction = "reaction_ctx \<Rightarrow> (bus, string) io"

type_synonym reactions = "(string \<times> (string \<times> reaction) list) list"

definition reactions_for :: "string \<Rightarrow> reactions \<Rightarrow> (string \<times> reaction) list" where
  "reactions_for kind reg = (case map_of reg kind of None \<Rightarrow> [] | Some hs \<Rightarrow> hs)"

definition register_signal_reaction :: "string \<Rightarrow> string \<Rightarrow> reaction \<Rightarrow> reactions \<Rightarrow> reactions" where
  "register_signal_reaction kind name h reg =
     (if name \<in> fst ` set (reactions_for kind reg) then reg
      else AList.update kind (reactions_for kind reg @ [(name, h)]) reg)"

definition run_reaction :: "reaction \<Rightarrow> reaction_ctx \<Rightarrow> (bus, unit) io" where
  "run_reaction h ctx = catch (bind (h ctx) (\<lambda>_. ret ())) (\<lambda>_. ret ())"

subsection \<open>Automations\<close>

definition printed_or :: "pyval \<Rightarrow> pyval \<Rightarrow> string" where
  "printed_or v d = py_str (por v d)"

text \<open>\<open>str(sorted(facts.items()))\<close>, by key.\<close>

definition sorted_items :: "pydict \<Rightarrow> string" where
  "sorted_items d = ''['' @ join '', '' (map (\<lambda>(k, v). ''('' @ py_repr (PStr k) @ '', '' @ py_repr v @ '')'') (sort_fields d)) @ '']''"

definition dedup_identity :: "reaction_ctx \<Rightarrow> (string \<times> string \<times> string) \<times> string" where
  "dedup_identity c =
     (let who = (case rx_user c of None \<Rightarrow> ''None'' | Some u \<Rightarrow> int_str u); f = rx_facts c in
      if rx_kind c \<in> {''presence.left'', ''presence.seen''}
      then ((rx_household c, who, ''presence''), printed_or (dget f ''state'') (PStr (rx_kind c)))
      else ((rx_household c, who, rx_kind c), printed_or (dget f ''event_id'') (por (dget f ''id'') (PStr (sorted_items f)))))"

definition label_for :: "string \<Rightarrow> string" where
  "label_for kind = (case get_kind kind of None \<Rightarrow> kind | Some s \<Rightarrow> sk_label s)"

text \<open>The first node in order of preference that reports tools.\<close>

fun seek_tools :: "bus_env \<Rightarrow> string list \<Rightarrow> (bus, (string \<times> pydict list) option) io" where
  "seek_tools E [] = ret None"
| "seek_tools E (n # ns) =
     bind (ask_bus E (Ask_tools n)) (\<lambda>v.
     bind (lift (as_dict (por v (PDict [])))) (\<lambda>report.
     bind (lift (rbind (each (dget report ''client_tools'')) (rmap as_dict))) (\<lambda>tools.
     if tools = [] then seek_tools E ns
     else bind (lift (strip_jarvis_extensions tools)) (\<lambda>ts. ret (Some (n, ts))))))"

definition resolve_node_and_tools :: "bus_env \<Rightarrow> string \<Rightarrow> string option \<Rightarrow> (bus, (string \<times> pydict list) option) io" where
  "resolve_node_and_tools E hh preferred =
     bind (gets (household_node_ids E hh)) (\<lambda>ids.
     seek_tools E (if otruthy preferred then oor preferred [] # filter (\<lambda>i. i \<noteq> oor preferred []) (dedupe ids) else dedupe ids))"

text \<open>The tool call of the model's answer: the first one, if it has a name.\<close>

definition picked_call :: "pyval \<Rightarrow> exc + (string \<times> pydict) option" where
  "picked_call v =
     rbind (as_dict v) (\<lambda>resp.
     rbind (each (dget resp ''choices'')) (\<lambda>choices.
     rbind (as_dict (case choices of [] \<Rightarrow> PDict [] | c # _ \<Rightarrow> c)) (\<lambda>choice.
     rbind (as_dict (por (dget choice ''message'') (PDict []))) (\<lambda>message.
     rbind (each (dget message ''tool_calls'')) (\<lambda>calls. case calls of
         [] \<Rightarrow> Inr None
       | c # _ \<Rightarrow>
           rbind (as_dict (por c (PDict []))) (\<lambda>call.
           rbind (as_dict (por (dget call ''function'') (PDict []))) (\<lambda>f.
           Inr (if meta_text f ''name'' = [] then None
                else Some (meta_text f ''name'',
                  case por (dget f ''arguments'') (PStr ''{}'') of
                    PStr s \<Rightarrow> (case json_loads s of Some (PDict d) \<Rightarrow> d | _ \<Rightarrow> [])
                  | _ \<Rightarrow> [])))))))))"

definition pick_action :: "bus_env \<Rightarrow> string \<Rightarrow> string \<Rightarrow> pydict \<Rightarrow> pydict list \<Rightarrow> (bus, (string \<times> pydict) option) io" where
  "pick_action E label instruction facts tools =
     bind (ask_bus E (Ask_pick label instruction facts tools)) (\<lambda>v. lift (picked_call v))"

definition dispatch_ok :: "pydict \<Rightarrow> bool" where
  "dispatch_ok out \<longleftrightarrow> truthy (dget_or out ''success'' (PBool True)) \<and> \<not> truthy (dget out ''timeout'')"

definition automation_command :: string where
  "automation_command = ''jarvis.signal_automation''"

definition action_idem :: "bus_env \<Rightarrow> string \<Rightarrow> string \<Rightarrow> pydict \<Rightarrow> string" where
  "action_idem E hh command args =
     ''sigauto:'' @ hh @ '':'' @ command @ '':'' @ int_str \<bar>be_hash E (json_dumps (sort_keys (PDict args)))\<bar>"

definition emit_confirm_card ::
    "bus_env \<Rightarrow> string \<Rightarrow> int option \<Rightarrow> string \<Rightarrow> string \<Rightarrow> pydict \<Rightarrow> string \<Rightarrow> string \<Rightarrow> (bus, bool) io" where
  "emit_confirm_card E hh user node command args label instruction =
     (let idem = action_idem E hh command args;
          elements =
            [button ''confirm-'' ''Do it'' ''confirm'' automation_command ''execute'' idem
               [(''_action'', PDict [(''node_id'', PStr node), (''command_name'', PStr command), (''arguments'', PDict args),
                                     (''idempotency_key'', PStr idem)])],
             button ''dismiss-'' ''Not now'' ''dismiss'' automation_command ''dismiss'' idem
               [(''_action'', PDict [(''idempotency_key'', PStr idem)])]] in
      bind (post_card E hh ''Confirm automation'' (label @ '': '' @ instruction)
              (''Your automation for '' @ [CHR 0x22] @ label @ [CHR 0x22] @ '' wants to run a sensitive action ('' @ command @
               ''). Tap to confirm.'') ''proposal'' [(''interactive_elements'', PList elements)] user False
              (case user of Some u \<Rightarrow> if u = 0 then ''household'' else ''user'' | None \<Rightarrow> ''household'')) (\<lambda>item.
      ret (item \<noteq> None)))"

definition act_on_rule ::
    "bus_env \<Rightarrow> reaction_ctx \<Rightarrow> string \<Rightarrow> string \<Rightarrow> (string \<times> pydict list) option \<Rightarrow> (bus, string) io" where
  "act_on_rule E c instruction delivery resolved = (case resolved of
      None \<Rightarrow> ret ''no_tools''
    | Some (node, tools) \<Rightarrow>
        if node = [] \<or> tools = [] then ret ''no_tools''
        else
          let (key, sig) = dedup_identity c; label = label_for (rx_kind c) in
          bind (pick_action E label instruction (rx_facts c) tools) (\<lambda>chosen.
          bind (modify (bu_acted_update (AList.update key sig))) (\<lambda>_. case chosen of
            None \<Rightarrow> ret ''no_action''
          | Some (command, args) \<Rightarrow>
              if delivery = ''automatic'' then
                bind (dispatch_node_command E node command args (rx_user c)) (\<lambda>out.
                ret ((if dispatch_ok out then ''ran:'' else ''failed:'') @ command))
              else
                bind (emit_confirm_card E (rx_household c) (rx_user c) node command args label instruction) (\<lambda>posted.
                ret (if posted then ''confirm:'' @ command else ''confirm_failed'')))))"

definition react_to_signal_automation :: "bus_env \<Rightarrow> reaction" where
  "react_to_signal_automation E c =
     bind (gets (get_enabled_rule E (rx_household c) (rx_kind c))) (\<lambda>r.
     bind (lift r) (\<lambda>rule. case rule of
       None \<Rightarrow> ret ''no_rule''
     | Some (instruction, delivery) \<Rightarrow>
         bind (gets (\<lambda>b. map_of (bu_acted b) (fst (dedup_identity c)))) (\<lambda>last_sig.
         if last_sig = Some (snd (dedup_identity c)) then ret ''unchanged''
         else catch
           (bind (resolve_node_and_tools E (rx_household c) (rx_node c)) (act_on_rule E c instruction delivery))
           (\<lambda>_. ret ''error''))))"

definition execute_confirmed_action :: "bus_env \<Rightarrow> bus handler" where
  "execute_confirmed_action E ctx =
     bind (lift (action_meta ctx)) (\<lambda>action.
     let node = meta_text action ''node_id''; command = meta_text action ''command_name'' in
     if node = [] \<or> command = [] then ret (cb_fail ''malformed automation action'')
     else bind (lift (as_dict (por (dget action ''arguments'') (PDict [])))) (\<lambda>args.
       bind (dispatch_node_command E node command args (cx_user ctx)) (\<lambda>out.
       ret (if dispatch_ok out
            then \<lparr>cr_success = True, cr_error = None, cr_context = Some [(''inbox'', PDict [(''title'', PStr ''Done''),
                    (''summary'', PStr (''Ran '' @ command)), (''body'', PStr [])])]\<rparr>
            else \<lparr>cr_success = False, cr_error = (case dget out ''error'' of PStr s \<Rightarrow> Some s | _ \<Rightarrow> None), cr_context = None\<rparr>))))"

definition dismiss_confirmed_action :: "bus handler" where
  "dismiss_confirmed_action ctx = ret cb_ok"

definition register_signal_automation_executor ::
    "bus_env \<Rightarrow> reactions \<times> bus handlers \<Rightarrow> reactions \<times> bus handlers" where
  "register_signal_automation_executor E = (\<lambda>(rs, hs).
     (foldl (\<lambda>m s. register_signal_reaction (sk_kind s) ''automation'' (react_to_signal_automation E) m) rs signal_catalog,
      register_server_callback automation_command ''dismiss'' dismiss_confirmed_action
        (register_server_callback automation_command ''execute'' (execute_confirmed_action E) hs)))"

subsection \<open>Leaving in time\<close>

definition leave_source :: string where
  "leave_source = ''leaveby''"

definition leave_suppressed :: "string \<Rightarrow> int option \<Rightarrow> bus \<Rightarrow> bool" where
  "leave_suppressed hh user b \<longleftrightarrow> leave_source \<in> set (fst (suppression_signals hh user ''reminder'' b))"

definition claim_event :: "string \<Rightarrow> string \<Rightarrow> (bus, bool) io" where
  "claim_event hh event = (\<lambda>b. let key = hh @ '':'' @ event in
     if key \<in> set (bu_leave b) then (b, Inr False) else (b\<lparr>bu_leave := key # bu_leave b\<rparr>, Inr True))"

definition parse_start :: "pyval \<Rightarrow> pydt option" where
  "parse_start v = (case v of PStr s \<Rightarrow> parse_dt (PStr (replace_sub ''Z'' ''+00:00'' s)) | _ \<Rightarrow> None)"

definition node_command_names :: "bus_env \<Rightarrow> string \<Rightarrow> (bus, pyval list) io" where
  "node_command_names E node =
     bind (ask_bus E (Ask_tools node)) (\<lambda>v.
     if \<not> truthy v then ret []
     else lift (rbind (as_dict v) (\<lambda>report.
       rbind (each (dget report ''available_commands'')) (\<lambda>cs.
       rbind (rmap as_dict cs) (\<lambda>ds. Inr (filter truthy (map (\<lambda>d. dget d ''command_name'') ds)))))))"

definition leave_buffer_minutes :: int where
  "leave_buffer_minutes = 5"

record leave_plan =
  lp_event :: string
  lp_title :: string
  lp_due :: pydt
  lp_start :: pydt
  lp_minutes :: int
  lp_address :: string
  lp_display :: string
  lp_duration :: string

text \<open>\<open>isoformat\<close> of an aware datetime; an offset with seconds prints them too.\<close>

definition offset_text :: "int \<Rightarrow> string" where
  "offset_text off = (let a = \<bar>off\<bar> div 1000000 in
     (if off < 0 then ''-'' else ''+'') @ pad 2 (int_str (a div 3600)) @ '':'' @ pad 2 (int_str (a div 60 mod 60)) @
     (if a mod 60 = 0 then [] else '':'' @ pad 2 (int_str (a mod 60))))"

definition aware_iso :: "pydt \<Rightarrow> string" where
  "aware_iso t = isoformat (dt_us t) @ (case dt_off t of None \<Rightarrow> [] | Some off \<Rightarrow> offset_text off)"

definition leave_signal :: "int \<Rightarrow> string option \<Rightarrow> int option \<Rightarrow> leave_plan \<Rightarrow> signal_in" where
  "leave_signal now node user p =
     \<lparr>si_kind = ''leave_by.suggested'', si_key = ''leaveby:'' @ lp_event p, si_subject = None,
      si_summary = Some (''Leave-by reminder suggested for '' @ lp_title p),
      si_facts = Some [(''title'', PStr (lp_title p)), (''due_at_iso'', PStr (aware_iso (lp_due p))),
        (''drive_minutes'', PInt (lp_minutes p)), (''address'', PStr (lp_address p)), (''event_id'', PStr (lp_event p))],
      si_user = user, si_node = node, si_room = None,
      si_ttl = Some (max 300 (trunc_rat (of_int (utc_us (lp_start p) - now) / 1000000) + 300)), si_cacheable = False,
      si_salience = PNone, si_agent = Some ''leave_by_bridge'', si_observed = None\<rparr>"

definition save_leave_by_signal :: "string \<Rightarrow> string option \<Rightarrow> int option \<Rightarrow> leave_plan \<Rightarrow> (bus, unit) io" where
  "save_leave_by_signal hh node user p =
     catch (bind (gets bus_now) (\<lambda>now. bind (save_signal hh (leave_signal now node user p)) (\<lambda>_. ret ()))) (\<lambda>_. ret ())"

definition leave_card :: "string \<Rightarrow> int option \<Rightarrow> leave_plan \<Rightarrow> pydict \<Rightarrow> proposal" where
  "leave_card node user p action =
     (let idem = ''leaveby:'' @ lp_event p;
          moment = (if lp_display p = [] then ''soon'' else ''at '' @ lp_display p) in
      \<lparr>pp_node = Some node, pp_command = ''reminder'', pp_callback = ''set_at'',
       pp_params = [(''text'', PStr (''Leave for '' @ lp_title p)), (''due_at_iso'', PStr (aware_iso (lp_due p))),
                    (''idempotency_key'', PStr idem)],
       pp_idem = idem, pp_title = oor (Some (meta_text action ''card_title'')) ''Set a reminder to leave on time?'',
       pp_confirm = oor (Some (meta_text action ''confirm_label'')) ''Set reminder'',
       pp_dismiss = oor (Some (meta_text action ''dismiss_label'')) ''Dismiss'',
       pp_tier = oor (Some (meta_text action ''blast_tier'')) ''reversible'',
       pp_summary = Some (lp_title p @ '' '' @ moment @ '' - '' @ lp_duration p @ '' drive from home''),
       pp_body = Some (lp_title p @ '' starts '' @ moment @ '' at '' @ lp_address p @ ''. It'' @ [CHR 0x27] @ ''s about a '' @
         lp_duration p @ '' drive, so I can remind you when it'' @ [CHR 0x27] @ ''s time to leave.''),
       pp_user = user, pp_source = Some leave_source, pp_descriptor = Some ''leave-by reminders for calendar events''\<rparr>)"

definition emit_leave_by_card :: "bus_env \<Rightarrow> string \<Rightarrow> int option \<Rightarrow> leave_plan \<Rightarrow> (bus, bool) io" where
  "emit_leave_by_card E hh user p =
     bind (resolve_household_node_for_command E hh ''reminder'' (Some ''set_at'')) (\<lambda>target.
     if \<not> otruthy target then ret False
     else bind (resolve_proposable_action E (oor target []) ''reminder'' ''set_at'') (\<lambda>a. case a of
       None \<Rightarrow> ret False
     | Some action \<Rightarrow> if action = [] then ret False
         else emit_proposal_card E hh (leave_card (oor target []) user p action)))"

definition drive_args :: "string \<Rightarrow> pydict" where
  "drive_args location = [(''destination'', PStr location), (''resolution'', PStr ''strict'')]"

definition propose_leave ::
    "bus_env \<Rightarrow> reaction_ctx \<Rightarrow> string \<Rightarrow> string \<Rightarrow> pyval \<Rightarrow> pydict \<Rightarrow> (bus, string) io" where
  "propose_leave E c event location start_raw result = (case py_int (dget result ''duration_minutes'') of
      Inl _ \<Rightarrow> ret ''no_route''
    | Inr minutes \<Rightarrow> (case parse_start start_raw of
        None \<Rightarrow> ret ''bad_start''
      | Some start \<Rightarrow>
          bind (lift (add_us start (- ((minutes + leave_buffer_minutes) * minute_us)))) (\<lambda>due.
          let p = \<lparr>lp_event = event, lp_title = oor (Some (meta_text (rx_facts c) ''title'')) ''your appointment'', lp_due = due,
                   lp_start = start, lp_minutes = minutes,
                   lp_address = oor (Some (meta_text result ''destination'')) location,
                   lp_display = meta_text (rx_facts c) ''start_display'',
                   lp_duration = oor (Some (meta_text result ''duration_text'')) (int_str minutes @ '' min'')\<rparr> in
          bind (gets bus_now) (\<lambda>now.
          if utc_us due \<le> now then ret ''departure_passed''
          else
            bind (save_leave_by_signal (rx_household c) (rx_node c) (rx_user c) p) (\<lambda>_.
            bind (emit_leave_by_card E (rx_household c) (rx_user c) p) (\<lambda>emitted.
            ret (if emitted then ''proposed'' else ''not_advertised'')))))))"

definition react_to_appt_upcoming :: "bus_env \<Rightarrow> reaction" where
  "react_to_appt_upcoming E c =
     (let hh = rx_household c; f = rx_facts c; node = oor (rx_node c) []; location = meta_text f ''location'';
          start_raw = por (dget f ''start_iso'') (dget f ''start'');
          event = py_str (por (dget f ''event_id'') (por (dget f ''id'') start_raw)) in
      bind (gets (proposals_enabled E hh)) (\<lambda>enabled.
      if \<not> enabled then ret ''disabled''
      else if node = [] then ret ''no_node''
      else if location = [] then ret ''no_location''
      else if \<not> truthy start_raw then ret ''no_start''
      else if rx_user c = None then ret ''no_user''
      else bind (gets (leave_suppressed hh (rx_user c))) (\<lambda>quiet.
      if quiet then ret ''suppressed''
      else bind (claim_event hh event) (\<lambda>claimed.
      if \<not> claimed then ret ''duplicate''
      else catch
        (bind (node_command_names E node) (\<lambda>names.
         if PStr ''get_drive_time'' \<notin> set names then ret ''no_drive_time''
         else bind (dispatch_node_command E node ''get_drive_time'' (drive_args location) (rx_user c)) (\<lambda>result.
         if \<not> truthy (dget result ''success'') then ret ''no_route''
         else propose_leave E c event location start_raw result)))
        (\<lambda>_. ret ''error'')))))"

definition register_leave_by_reaction :: "bus_env \<Rightarrow> reactions \<Rightarrow> reactions" where
  "register_leave_by_reaction E = register_signal_reaction ''appt.upcoming'' ''leave_by'' (react_to_appt_upcoming E)"

subsection \<open>Dispatch and ingress\<close>

text \<open>
  A dispatch schedules a debounced pass of the matcher and the reactions of the kind; both run after the
  request. The result lists what was scheduled.
\<close>

datatype scheduled = Match_pass string "string option" | Reaction string reaction_ctx

definition dispatch_signal_edges :: "reactions \<Rightarrow> reaction_ctx \<Rightarrow> scheduled list" where
  "dispatch_signal_edges reg c =
     Match_pass (rx_household c) (rx_node c) # map (\<lambda>(name, h). Reaction name c) (reactions_for (rx_kind c) reg)"

definition declared_names :: "pydict \<Rightarrow> exc + string list" where
  "declared_names action =
     rbind (as_iter (dget_or action ''params'' (PList []))) (\<lambda>vs.
     rbind (rmap as_dict vs) (\<lambda>ps.
     Inr (filter (\<lambda>n. n \<noteq> []) (map (\<lambda>p. meta_text p ''name'') ps))))"

definition directed_card :: "bus_env \<Rightarrow> string \<Rightarrow> string \<Rightarrow> pydict \<Rightarrow> string \<Rightarrow> pydict \<Rightarrow> exc + proposal" where
  "directed_card E node command args key action =
     rbind (declared_names action) (\<lambda>declared.
     let callback = oor (Some (meta_text action ''callback'')) command;
         params = filter (\<lambda>(k, v). k \<in> set declared \<and> PStr k \<noteq> dget action ''idempotency_param'') args;
         idem = stable_idempotency_key E (PDict [(''items'', PList [PDict args])]) command callback;
         title = oor (Some (meta_text action ''card_title'')) (''Run '' @ command @ ''?'') in
     Inr ((plain_proposal (Some node) command callback params idem title)\<lparr>pp_summary := Some title, pp_source := Some key\<rparr>))"

definition named_target :: "string \<Rightarrow> string \<times> string option" where
  "named_target command = (case split_dotted command of None \<Rightarrow> (command, None) | Some (c, cb) \<Rightarrow> (c, Some cb))"

definition directed_node :: "bus_env \<Rightarrow> string \<Rightarrow> string option \<Rightarrow> string \<times> string option \<Rightarrow> (bus, string option) io" where
  "directed_node E hh node target =
     bind (gets (household_node_ids E hh)) (\<lambda>ids.
     if otruthy node \<and> oor node [] \<in> set ids then ret node
     else resolve_household_node_for_command E hh (fst target) (snd target))"

definition emit_directed_proposal :: "bus_env \<Rightarrow> string \<Rightarrow> string option \<Rightarrow> string \<Rightarrow> pydict \<Rightarrow> string \<Rightarrow> (bus, bool) io" where
  "emit_directed_proposal E hh node command args key =
     catch
       (let target = named_target command in
        bind (directed_node E hh node target) (\<lambda>chosen.
        if \<not> otruthy chosen then ret False
        else bind (list_proposable_actions E (oor chosen [])) (\<lambda>actions.
          case find (\<lambda>a. dget a ''command'' = PStr (fst target) \<and>
                 (\<not> otruthy (snd target) \<or> dget a ''callback'' = PStr (oor (snd target) []))) actions of
            None \<Rightarrow> ret False
          | Some a \<Rightarrow> if a = [] then ret False
              else bind (lift (directed_card E (oor chosen []) (fst target) args key a)) (emit_proposal_card E hh))))
       (\<lambda>_. ret False)"

record signals_auth =
  sa_type :: string
  sa_household :: "string option"
  sa_node :: "string option"

record signal_post =
  sp_household :: "string option"
  sp_signal :: signal_in
  sp_command :: "string option"

text \<open>The signal's user, room and node are those of the scope of the request.\<close>

definition post_signal ::
    "bus_env \<Rightarrow> reactions \<Rightarrow> signal_post \<Rightarrow> signals_auth \<Rightarrow> (bus, (nat \<times> bool) \<times> scheduled list) io" where
  "post_signal E reg body auth =
     (let hh = oor (sp_household body) (oor (sa_household auth) []); i0 = sp_signal body in
      if hh = [] then throw (HTTPError 400 ''household_id required (provide in body or use node auth)'')
      else if sa_type auth = ''node'' \<and> otruthy (sp_household body) \<and> otruthy (sa_household auth) \<and> sp_household body \<noteq> sa_household auth
      then throw (HTTPError 403 (''household_id does not match node'' @ [CHR 0x27] @ ''s household''))
      else bind (gets (signals_enabled E hh)) (\<lambda>on.
      if \<not> on then throw (HTTPError 409 ''Signal bus is disabled for this household'')
      else bind (rate_ok hh (oor (si_agent i0) [])) (\<lambda>ok.
      if \<not> ok then throw (HTTPError 429 ''Rate limit exceeded'')
      else
        let i = i0\<lparr>si_node := (if otruthy (si_node i0) then si_node i0 else sa_node auth)\<rparr> in
        bind (\<lambda>b. case save_signal hh i b of
                (b', Inl (ValueError m)) \<Rightarrow> (b', Inl (HTTPError 422 m)) | r \<Rightarrow> r) (\<lambda>s.
        bind (if otruthy (sp_command body)
              then emit_directed_proposal E hh (si_node i) (oor (sp_command body) [])
                     (case si_facts i of None \<Rightarrow> [] | Some d \<Rightarrow> d) (si_key i)
              else ret False) (\<lambda>proposed.
        ret ((sg_id s, proposed), dispatch_signal_edges reg
          \<lparr>rx_household = hh, rx_node = si_node i, rx_user = si_user i, rx_kind = si_kind i,
           rx_facts = (case si_facts i of None \<Rightarrow> [] | Some d \<Rightarrow> d)\<rparr>))))))"

record presence_in =
  pi_household :: string
  pi_state :: string
  pi_room :: "string option"
  pi_ttl :: "int option"
  pi_name :: "string option"

definition mobile_ttl :: int where
  "mobile_ttl = 4 * 3600"

definition post_mobile_presence ::
    "bus_env \<Rightarrow> reactions \<Rightarrow> presence_in \<Rightarrow> int \<Rightarrow> (bus, (nat \<times> string) \<times> scheduled list) io" where
  "post_mobile_presence E reg body user =
     (let hh = pi_household body in
      if pi_state body \<notin> {''home'', ''away''} then throw (HTTPError 422 (''state must be one of ['' @ squoted ''away'' @ '', '' @ squoted ''home'' @ '']''))
      else bind (lift (require_role E user hh ''member'')) (\<lambda>_.
      bind (gets (signals_enabled E hh)) (\<lambda>on.
      if \<not> on then throw (HTTPError 409 ''Signal bus is disabled for this household'')
      else bind (rate_ok hh ''mobile'') (\<lambda>ok.
      if \<not> ok then throw (HTTPError 429 ''Too many presence updates'')
      else bind (record_presence hh (Some user) (pi_state body) ''mobile'' None (pi_room body)
             (case pi_name body of None \<Rightarrow> None | Some n \<Rightarrow> if strip n = [] then None else Some (strip n))
             (Some (case pi_ttl body of None \<Rightarrow> mobile_ttl | Some n \<Rightarrow> if n = 0 then mobile_ttl else n)) None) (\<lambda>sig.
        case sig of
          None \<Rightarrow> throw (HTTPError 400 ''could not record presence'')
        | Some s \<Rightarrow> ret ((sg_id s, sg_kind s), dispatch_signal_edges reg
            \<lparr>rx_household = hh, rx_node = None, rx_user = Some user, rx_kind = sg_kind s,
             rx_facts = [(''user_id'', PInt user), (''state'', PStr (pi_state body)), (''room'', opt_str (pi_room body))]\<rparr>))))))"

subsection \<open>Serving what was scheduled\<close>

text \<open>
  The reactions the application registers at its start, and the event loop serving what a signal scheduled: the
  reactions at once, in their order and each as one step, then the pass of the matcher, which waits.
\<close>

definition program_reactions :: "bus_env \<Rightarrow> reactions" where
  "program_reactions E = fst (register_signal_automation_executor E (register_leave_by_reaction E [], []))"

definition serve_scheduled :: "bus_env \<Rightarrow> reactions \<Rightarrow> scheduled \<Rightarrow> (bus, unit) io" where
  "serve_scheduled E reg x = (case x of
      Match_pass hh node \<Rightarrow> run_match_batch E hh node
    | Reaction name c \<Rightarrow> (case map_of (reactions_for (rx_kind c) reg) name of
        None \<Rightarrow> ret () | Some h \<Rightarrow> run_reaction h c))"

fun serve_all :: "bus_env \<Rightarrow> reactions \<Rightarrow> scheduled list \<Rightarrow> (bus, unit) io" where
  "serve_all E reg [] = ret ()"
| "serve_all E reg (x # xs) = bind (serve_scheduled E reg x) (\<lambda>_. serve_all E reg xs)"

definition serve_signal :: "bus_env \<Rightarrow> signal_post \<Rightarrow> signals_auth \<Rightarrow> (bus, unit) io" where
  "serve_signal E body auth =
     bind (post_signal E (program_reactions E) body auth) (\<lambda>r. serve_all E (program_reactions E) (rotate1 (snd r)))"

end
