(* ===== verification/Bus_Facts.thy ===== *)
theory Bus_Facts
  imports Signal_Store Node_Commands Json_Facts Sample_Bus
begin

section \<open>Commands verified once, a bounded ingress, one row a signal\<close>

subsection \<open>A command is verified at most once\<close>

text \<open>
  The history of the command service, newest first: what was published and what was verified, when,
  for which node, under which id.
\<close>

datatype command_event = Published int string string | Verified int string string

fun event_id :: "command_event \<Rightarrow> string" where
  "event_id (Published t node rid) = rid"
| "event_id (Verified t node rid) = rid"

definition wait_us :: "nat \<Rightarrow> bus \<Rightarrow> bus" where
  "wait_us n b = b\<lparr>bu_hub := (bu_hub b)\<lparr>hb_now := bus_now b + int n\<rparr>\<rparr>"

lemma wait_us_simps [simp]: "bus_now (wait_us n b) = bus_now b + int n" "bu_issued (wait_us n b) = bu_issued b"
  "bu_rate (wait_us n b) = bu_rate b" "bu_signals (wait_us n b) = bu_signals b" "bu_ids (wait_us n b) = bu_ids b"
  by (simp_all add: wait_us_def bus_now_def)

inductive commands :: "bus_env \<Rightarrow> bus \<Rightarrow> command_event list \<Rightarrow> bool" for E where
  idle: "bu_issued b = [] \<Longrightarrow> commands E b []"
| publish: "commands E b h \<Longrightarrow> publish_command_with_id E node verb details rid b = (b', Inr rid) \<Longrightarrow>
    commands E b' (Published (bus_now b) node rid # h)"
| verify: "commands E b h \<Longrightarrow> verify_command rid node b = (b', Inr ok) \<Longrightarrow>
    commands E b' (if ok then Verified (bus_now b) node rid # h else h)"
| wait: "commands E b h \<Longrightarrow> commands E (wait_us n b) h"

text \<open>The last event about an id is its publication.\<close>

definition outstanding :: "command_event list \<Rightarrow> int \<Rightarrow> string \<Rightarrow> string \<Rightarrow> bool" where
  "outstanding h t node rid \<longleftrightarrow> (\<exists>h1 h2. h = h1 @ Published t node rid # h2 \<and> rid \<notin> event_id ` set h1)"

lemma outstanding_Cons: "outstanding h t node rid \<Longrightarrow> event_id e \<noteq> rid \<Longrightarrow> outstanding (e # h) t node rid"
  unfolding outstanding_def by (metis append_Cons image_insert insertE list.simps(15))

lemma run_publish:
  "\<exists>asked. publish_command_with_id E node verb details rid b =
     (b\<lparr>bu_issued := live_issued (bus_now b) (AList.update rid \<lparr>is_node = node, is_verb = verb, is_expires = bus_now b + 300000000\<rparr> (bu_issued b)),
        bu_asked := asked\<rparr>, Inr rid)"
  by (auto simp: publish_command_with_id_def io_simps split: sum.split intro: exI [of _ "bu_asked b"])

lemma publish_issued:
  "publish_command_with_id E node verb details rid b = (b', r) \<Longrightarrow>
   bu_issued b' = live_issued (bus_now b) (AList.update rid \<lparr>is_node = node, is_verb = verb, is_expires = bus_now b + 300000000\<rparr> (bu_issued b)) \<and>
   bus_now b' = bus_now b"
  using run_publish [of E node verb details rid b] by auto

definition tracked :: "bus \<Rightarrow> command_event list \<Rightarrow> bool" where
  "tracked b h \<longleftrightarrow> distinct (map fst (bu_issued b)) \<and>
     (\<forall>(rid, e) \<in> set (bu_issued b). outstanding h (is_expires e - 300000000) (is_node e) rid \<and>
        is_expires e - 300000000 \<le> bus_now b)"

lemma live_issued_keys: "distinct (map fst es) \<Longrightarrow> distinct (map fst (live_issued now es))"
  by (simp add: live_issued_def distinct_map_filter)

lemma update_members:
  "distinct (map fst es) \<Longrightarrow> (k, v) \<in> set (AList.update rid e es) \<Longrightarrow> (k = rid \<and> v = e) \<or> (k \<noteq> rid \<and> (k, v) \<in> set es)"
proof -
  assume d: "distinct (map fst es)" and m: "(k, v) \<in> set (AList.update rid e es)"
  have "map_of (AList.update rid e es) k = Some v" using d m by (simp add: distinct_update)
  then show ?thesis by (auto simp: update_conv' fun_upd_def split: if_splits dest: map_of_SomeD)
qed

lemma commands_tracked: "commands E b h \<Longrightarrow> tracked b h"
proof (induction rule: commands.induct)
  case (publish b h node verb details rid b')
  let ?new = "AList.update rid \<lparr>is_node = node, is_verb = verb, is_expires = bus_now b + 300000000\<rparr> (bu_issued b)"
  have "outstanding (Published (bus_now b) node rid # h) (is_expires v - 300000000) (is_node v) k \<and> is_expires v - 300000000 \<le> bus_now b"
    if "(k, v) \<in> set (live_issued (bus_now b) ?new)" for k v
  proof (cases "k = rid")
    case True
    with that publish.IH have "v = \<lparr>is_node = node, is_verb = verb, is_expires = bus_now b + 300000000\<rparr>"
      using update_members [of "bu_issued b" k v] by (fastforce simp: tracked_def live_issued_def)
    with True show ?thesis unfolding outstanding_def by (intro conjI exI [of _ "[]"] exI [of _ h]) simp_all
  next
    case False
    with that publish.IH have "(k, v) \<in> set (bu_issued b)"
      using update_members [of "bu_issued b" k v] by (fastforce simp: tracked_def live_issued_def)
    with False publish.IH show ?thesis by (auto simp: tracked_def intro: outstanding_Cons)
  qed
  then show ?case
    using publish.IH publish_issued [OF publish.hyps(2)]
    by (auto simp: tracked_def intro!: live_issued_keys distinct_update)
next
  case (verify b h rid node b' ok)
  show ?case
  proof (cases "b' = b \<and> \<not> ok")
    case False
    with verify.hyps(2) have "bu_issued b' = AList.delete rid (bu_issued b)" "bus_now b' = bus_now b"
      by (auto simp: verify_command_def split: option.splits if_splits)
    with verify.IH show ?thesis
      by (auto simp: tracked_def AList.delete_eq distinct_map_filter intro!: outstanding_Cons)
  qed (use verify.IH in simp)
next
  case (wait b h n)
  then show ?case by (fastforce simp: tracked_def)
qed (simp add: tracked_def)

fun sound :: "command_event list \<Rightarrow> bool" where
  "sound [] = True"
| "sound (Published t node rid # h) = sound h"
| "sound (Verified t node rid # h) = ((\<exists>t0. outstanding h t0 node rid \<and> t0 \<le> t \<and> t \<le> t0 + 300000000) \<and> sound h)"

lemma sound_tail: "sound (h1 @ h2) \<Longrightarrow> sound h2"
proof (induction h1)
  case (Cons e h1)
  then show ?case by (cases e) auto
qed simp

lemma commands_sound: "commands E b h \<Longrightarrow> sound h"
proof (induction rule: commands.induct)
  case (verify b h rid node b' ok)
  show ?case
  proof (cases ok)
    case True
    with verify.hyps(2) obtain e where e: "map_of (bu_issued b) rid = Some e" "is_node e = node" "bus_now b \<le> is_expires e"
      by (auto simp: verify_command_def split: option.splits if_splits)
    with commands_tracked [OF verify.hyps(1)] have "outstanding h (is_expires e - 300000000) node rid" "is_expires e - 300000000 \<le> bus_now b"
      by (auto simp: tracked_def dest!: map_of_SomeD)
    with True e(3) verify.IH show ?thesis by (auto intro!: exI [of _ "is_expires e - 300000000"])
  qed (use verify.IH in simp)
qed simp_all

text \<open>
  C30. In any interleaving of publications, verifications and time, a command a node is allowed to run was
  published for that very node under that id, at most five minutes before, and neither published again nor
  verified since.
\<close>

theorem command_verified_once:
  assumes "commands E b (recent @ Verified t node rid # h)"
  shows "\<exists>t0. outstanding h t0 node rid \<and> t0 \<le> t \<and> t \<le> t0 + 300000000"
  using sound_tail [OF commands_sound [OF assms]] by simp

theorem command_verified_once_witness:
  "\<exists>b. commands sample_bus_env b [Verified 5 ''n1'' ''r1'', Published 5 ''n1'' ''r1''] \<and>
     (\<exists>t0. outstanding [Published 5 ''n1'' ''r1''] t0 ''n1'' ''r1'' \<and> t0 \<le> 5 \<and> 5 \<le> t0 + 300000000)"
proof -
  obtain asked where p: "publish_command_with_id sample_bus_env ''n1'' ''callback'' [] ''r1'' sample_bus =
      (sample_bus\<lparr>bu_issued := [(''r1'', \<lparr>is_node = ''n1'', is_verb = ''callback'', is_expires = 300000005\<rparr>)], bu_asked := asked\<rparr>, Inr ''r1'')"
    using run_publish [of sample_bus_env "''n1''" "''callback''" "[]" "''r1''" sample_bus]
    by (auto simp: sample_bus_def bus_now_def live_issued_def)
  have "commands sample_bus_env sample_bus []" by (rule commands.idle) (simp add: sample_bus_def)
  from commands.publish [OF this p] have c: "commands sample_bus_env
      (sample_bus\<lparr>bu_issued := [(''r1'', \<lparr>is_node = ''n1'', is_verb = ''callback'', is_expires = 300000005\<rparr>)], bu_asked := asked\<rparr>)
      [Published 5 ''n1'' ''r1'']" by (simp add: sample_bus_def bus_now_def)
  have "commands sample_bus_env (sample_bus\<lparr>bu_issued := [], bu_asked := asked\<rparr>) [Verified 5 ''n1'' ''r1'', Published 5 ''n1'' ''r1'']"
    using commands.verify [OF c, of "''r1''" "''n1''" "sample_bus\<lparr>bu_issued := [], bu_asked := asked\<rparr>" True]
    by (simp add: verify_command_def sample_bus_def bus_now_def)
  with command_verified_once [of sample_bus_env _ "[]" 5 "''n1''" "''r1''" "[Published 5 ''n1'' ''r1'']"] show ?thesis by auto
qed

subsection \<open>A bounded ingress\<close>

datatype gate_op = Request string string | Wait nat

fun run_gate :: "gate_op list \<Rightarrow> bus \<Rightarrow> bus \<times> (string \<times> string) list" where
  "run_gate [] b = (b, [])"
| "run_gate (Request hh agent # ops) b =
     (case rate_ok hh agent b of (b1, r) \<Rightarrow>
        (case run_gate ops b1 of (b2, acc) \<Rightarrow> (b2, if r = Inr True then (hh, oor (Some agent) ''external'') # acc else acc)))"
| "run_gate (Wait n # ops) b = run_gate ops (wait_us n b)"

definition elapsed :: "gate_op list \<Rightarrow> rat" where
  "elapsed ops = of_nat (sum_list (map (\<lambda>op. case op of Wait n \<Rightarrow> n | Request hh agent \<Rightarrow> 0) ops)) / 1000000"

text \<open>The tokens a bucket would have now.\<close>

definition level :: "string \<times> string \<Rightarrow> bus \<Rightarrow> rat" where
  "level k b = (case map_of (bu_rate b) k of
      None \<Rightarrow> 60 | Some (tokens, seen) \<Rightarrow> min 60 (tokens + of_int (bus_now b - seen) / 1000000))"

definition filled :: "bus \<Rightarrow> bool" where
  "filled b \<longleftrightarrow> (\<forall>k tokens seen. map_of (bu_rate b) k = Some (tokens, seen) \<longrightarrow> 0 \<le> tokens \<and> seen \<le> bus_now b)"

lemma level_nonneg: "filled b \<Longrightarrow> 0 \<le> level k b"
proof (cases "map_of (bu_rate b) k")
  case (Some x)
  assume "filled b"
  obtain tokens seen where x: "x = (tokens, seen)" by (cases x)
  with Some \<open>filled b\<close> have ok: "0 \<le> tokens" "seen \<le> bus_now b" unfolding filled_def by blast+
  then have "0 \<le> (of_int (bus_now b - seen) / 1000000 :: rat)" by simp
  with ok(1) x Some show ?thesis unfolding level_def by simp
qed (simp add: level_def)

lemma level_le: "level k b \<le> 60"
  by (simp add: level_def split: option.split)

lemma rate_ok_run:
  "rate_ok hh agent b = (let k = (hh, oor (Some agent) ''external''); l = level k b; ok = (1 \<le> l) in
     (b\<lparr>bu_rate := AList.update k (if ok then l - 1 else l, bus_now b) (bu_rate b)\<rparr>, Inr ok))"
proof (cases "map_of (bu_rate b) (hh, oor (Some agent) ''external'')")
  case (Some x)
  then show ?thesis by (cases x) (simp add: rate_ok_def level_def Let_def not_le [symmetric] del: not_le)
qed (simp add: rate_ok_def level_def Let_def)

lemma level_put:
  "level k (b\<lparr>bu_rate := AList.update k' (x, bus_now b) (bu_rate b)\<rparr>) = (if k = k' then min 60 x else level k b)"
  by (simp add: level_def update_conv split: option.split)

lemma filled_put: "filled b \<Longrightarrow> 0 \<le> x \<Longrightarrow> filled (b\<lparr>bu_rate := AList.update k (x, bus_now b) (bu_rate b)\<rparr>)"
  by (auto simp: filled_def update_conv)

lemma rate_step:
  assumes "filled b" "rate_ok hh agent b = (b', Inr r)"
  shows "filled b' \<and> bus_now b' = bus_now b \<and>
    level k b' + (if r \<and> k = (hh, oor (Some agent) ''external'') then 1 else 0) \<le> level k b"
  using assms level_nonneg [OF assms(1)]
  by (auto simp: rate_ok_run Let_def level_put intro!: filled_put)

lemma wait_step: "filled b \<Longrightarrow> filled (wait_us n b) \<and> level k (wait_us n b) \<le> level k b + of_nat n / 1000000"
proof (intro conjI)
  assume f: "filled b"
  then show "filled (wait_us n b)" unfolding filled_def by (metis add_increasing2 of_nat_0_le_iff wait_us_simps(1,3))
  show "level k (wait_us n b) \<le> level k b + of_nat n / 1000000"
  proof (cases "map_of (bu_rate b) k")
    case (Some x)
    then show ?thesis by (cases x) (simp add: level_def min_def add_divide_distrib diff_divide_distrib)
  qed (simp add: level_def)
qed

lemma run_gate_filled: "filled b \<Longrightarrow> filled (fst (run_gate ops b))"
proof (induction ops b rule: run_gate.induct)
  case (2 hh agent ops b)
  obtain b1 r where r: "rate_ok hh agent b = (b1, Inr r)" by (simp add: rate_ok_run Let_def)
  with 2 rate_step [OF 2(2) r] show ?case by (simp split: prod.split) (metis fst_conv)
qed (simp_all add: wait_step)

lemma run_gate_potential:
  "filled b \<Longrightarrow> of_nat (count_list (snd (run_gate ops b)) k) + level k (fst (run_gate ops b)) \<le> level k b + elapsed ops"
proof (induction ops b rule: run_gate.induct)
  case (2 hh agent ops b)
  obtain b1 r where r: "rate_ok hh agent b = (b1, Inr r)" by (simp add: rate_ok_run Let_def)
  obtain b2 acc where g: "run_gate ops b1 = (b2, acc)" by fastforce
  from rate_step [OF 2(2) r, of k] 2(1) [OF r [symmetric]] r g show ?case by (auto simp: elapsed_def)
next
  case (3 n ops b)
  from wait_step [OF 3(2), of n k] 3(1) show ?case by (auto simp: elapsed_def add_divide_distrib)
qed (simp add: elapsed_def)


subsection \<open>One row a signal\<close>

text \<open>
  The specification of the store: a map from household and source key to the signal last written
  there. A cleanup forgets what has expired.
\<close>

datatype signal_op = Save string signal_in | Clean | Pause nat

definition bare :: "signal \<Rightarrow> signal" where
  "bare s = s\<lparr>sg_id := 0\<rparr>"

definition row_key :: "signal \<Rightarrow> string \<times> string" where
  "row_key s = (sg_household s, sg_key s)"

definition signal_map :: "bus \<Rightarrow> string \<times> string \<rightharpoonup> signal" where
  "signal_map b = map_of (map (\<lambda>s. (row_key s, bare s)) (bu_signals b))"

definition refused :: "signal_in \<Rightarrow> bool" where
  "refused i \<longleftrightarrow> si_cacheable i \<and> reject_non_quantized (si_summary i) (si_facts i) \<noteq> Inr ()"

fun spec_signal :: "signal_op \<Rightarrow> (string \<times> string \<rightharpoonup> signal) \<times> int \<Rightarrow> (string \<times> string \<rightharpoonup> signal) \<times> int" where
  "spec_signal (Save hh i) (m, now) =
     (if refused i then m else m((hh, si_key i) \<mapsto> write_signal now i (blank_signal 0 hh (si_key i))), now)"
| "spec_signal Clean (m, now) = (\<lambda>k. case m k of None \<Rightarrow> None | Some s \<Rightarrow> if signal_expired now s then None else Some s, now)"
| "spec_signal (Pause n) (m, now) = (m, now + int n)"

fun do_signal :: "signal_op \<Rightarrow> bus \<Rightarrow> bus" where
  "do_signal (Save hh i) b = fst (save_signal hh i b)"
| "do_signal Clean b = fst (cleanup_expired b)"
| "do_signal (Pause n) b = wait_us n b"

definition store_ok :: "bus \<Rightarrow> bool" where
  "store_ok b \<longleftrightarrow> distinct (map row_key (bu_signals b)) \<and> distinct (map sg_id (bu_signals b)) \<and>
     list_all (\<lambda>s. sg_active s \<and> sg_id s < bu_ids b) (bu_signals b)"

lemma bare_simps [simp]: "sg_household (bare s) = sg_household s" "sg_key (bare s) = sg_key s" "row_key (bare s) = row_key s"
  "signal_expired now (bare s) = signal_expired now s"
  by (simp_all add: bare_def row_key_def signal_expired_def)

lemma write_keeps [simp]: "sg_id (write_signal now i s) = sg_id s" "row_key (write_signal now i s) = row_key s"
  "sg_active (write_signal now i s) = sg_active s"
  by (simp_all add: write_signal_def row_key_def)

lemma write_bare:
  "sg_active s \<Longrightarrow> row_key s = (hh, si_key i) \<Longrightarrow> bare (write_signal now i s) = write_signal now i (blank_signal 0 hh (si_key i))"
  by (cases s) (simp add: write_signal_def bare_def blank_signal_def row_key_def)

lemma save_signal_run:
  "save_signal hh i b = (if refused i
     then (b, case reject_non_quantized (si_summary i) (si_facts i) of Inl e \<Rightarrow> Inl e | Inr _ \<Rightarrow> Inl (OtherError []))
     else (case upsert_signal (bus_now b) (bu_ids b) hh i (bu_signals b) of
        Inl e \<Rightarrow> (b\<lparr>bu_ids := Suc (bu_ids b)\<rparr>, Inl e)
      | Inr (rows, s) \<Rightarrow> (b\<lparr>bu_ids := Suc (bu_ids b), bu_signals := rows\<rparr>, Inr s)))"
  by (cases "reject_non_quantized (si_summary i) (si_facts i)")
    (auto simp: save_signal_def refused_def io_simps split: sum.split prod.split)

lemma upsert_cases:
  assumes "distinct (map row_key rows)" "list_all sg_active rows"
  obtains (fresh) "(hh, si_key i) \<notin> row_key ` set rows"
      "upsert_signal now n hh i rows = Inr (rows @ [write_signal now i (blank_signal n hh (si_key i))], write_signal now i (blank_signal n hh (si_key i)))"
    | (old) s where "s \<in> set rows" "row_key s = (hh, si_key i)"
      "upsert_signal now n hh i rows = Inr (map (\<lambda>r. if sg_id r = sg_id s then write_signal now i s else r) rows, write_signal now i s)"
proof (cases "find (matches_signal hh (si_key i)) rows")
  case None
  with assms(2) have "\<not> list_ex (\<lambda>s. sg_household s = hh \<and> sg_key s = si_key i) rows"
    by (auto simp: find_None_iff matches_signal_def list_all_iff list_ex_iff)
  moreover from this have "(hh, si_key i) \<notin> row_key ` set rows" by (auto simp: row_key_def list_ex_iff)
  ultimately show ?thesis using fresh None by (simp add: upsert_signal_def Let_def)
next
  case (Some s)
  then have "s \<in> set rows" "row_key s = (hh, si_key i)" by (auto simp: find_Some_iff matches_signal_def row_key_def)
  with Some show ?thesis using old by (simp add: upsert_signal_def Let_def)
qed

lemma replace_keys:
  assumes "distinct (map sg_id rows)" "s \<in> set rows"
  shows "map row_key (map (\<lambda>r. if sg_id r = sg_id s then write_signal now i s else r) rows) = map row_key rows"
    "map sg_id (map (\<lambda>r. if sg_id r = sg_id s then write_signal now i s else r) rows) = map sg_id rows"
  using assms by (auto simp: distinct_map inj_on_def)

lemma map_of_replace:
  assumes "distinct (map sg_id rows)" "distinct (map row_key rows)" "s \<in> set rows" "row_key w = row_key s"
  shows "map_of (map (\<lambda>r. (row_key r, bare r)) (map (\<lambda>r. if sg_id r = sg_id s then w else r) rows)) =
    (map_of (map (\<lambda>r. (row_key r, bare r)) rows))(row_key s \<mapsto> bare w)"
  using assms(1-3)
proof (induction rows)
  case (Cons r rows)
  show ?case
  proof (cases "r = s")
    case True
    with Cons.prems have "sg_id x \<noteq> sg_id s" if "x \<in> set rows" for x
      using that True by (metis distinct.simps(2) image_eqI list.set_map list.simps(9))
    then have "map (\<lambda>r. if sg_id r = sg_id s then w else r) rows = rows" by (intro map_idI) simp
    with True show ?thesis by (simp add: assms(4) fun_eq_iff)
  next
    case False
    with Cons.prems have "sg_id r \<noteq> sg_id s" "row_key r \<noteq> row_key s" by auto
    with False Cons show ?thesis by (simp, intro ext, simp)
  qed
qed simp

lemma map_of_snoc: "fst p \<notin> fst ` set xs \<Longrightarrow> map_of (xs @ [p]) = (map_of xs)(fst p \<mapsto> snd p)"
  by (induction xs) (auto simp: fun_upd_twist)

lemma save_refines:
  assumes "store_ok b"
  shows "store_ok (fst (save_signal hh i b)) \<and> bus_now (fst (save_signal hh i b)) = bus_now b \<and>
    (\<exists>r. snd (save_signal hh i b) = Inr r) = (\<not> refused i) \<and>
    signal_map (fst (save_signal hh i b)) = (if refused i then signal_map b
      else (signal_map b)((hh, si_key i) \<mapsto> write_signal (bus_now b) i (blank_signal 0 hh (si_key i))))"
proof (cases "refused i")
  case True
  with assms show ?thesis by (auto simp: save_signal_run split: sum.split)
next
  case False
  have act: "list_all sg_active (bu_signals b)" and keys: "distinct (map row_key (bu_signals b))"
    and ids: "distinct (map sg_id (bu_signals b))" using assms by (auto simp: store_ok_def list_all_iff)
  from keys act show ?thesis
  proof (cases rule: upsert_cases [of "bu_signals b" hh i "bus_now b" "bu_ids b"])
    case fresh
    let ?s = "write_signal (bus_now b) i (blank_signal (bu_ids b) hh (si_key i))"
    have s: "row_key ?s = (hh, si_key i)" "sg_id ?s = bu_ids b" "sg_active ?s"
      "bare ?s = write_signal (bus_now b) i (blank_signal 0 hh (si_key i))"
      by (simp_all add: row_key_def blank_signal_def write_signal_def bare_def)
    have "signal_map (b\<lparr>bu_ids := Suc (bu_ids b), bu_signals := bu_signals b @ [?s]\<rparr>) =
        (signal_map b)((hh, si_key i) \<mapsto> bare ?s)"
      using map_of_snoc [of "(row_key ?s, bare ?s)" "map (\<lambda>s. (row_key s, bare s)) (bu_signals b)"] fresh(1) s(1)
      by (simp add: signal_map_def image_image)
    with False fresh assms s show ?thesis
      by (auto simp: save_signal_run store_ok_def list_all_iff)
  next
    case (old s)
    let ?w = "write_signal (bus_now b) i s"
    let ?rows = "map (\<lambda>r. if sg_id r = sg_id s then ?w else r) (bu_signals b)"
    have w: "bare ?w = write_signal (bus_now b) i (blank_signal 0 hh (si_key i))" "row_key ?w = row_key s"
      using old act by (simp_all add: write_bare list_all_iff)
    have "signal_map (b\<lparr>bu_ids := Suc (bu_ids b), bu_signals := ?rows\<rparr>) = (signal_map b)((hh, si_key i) \<mapsto> bare ?w)"
      using map_of_replace [OF ids keys old(1), of ?w] w(2) old(2) by (simp add: signal_map_def del: map_map)
    moreover have "store_ok (b\<lparr>bu_ids := Suc (bu_ids b), bu_signals := ?rows\<rparr>)"
      using assms replace_keys [OF ids old(1), of "bus_now b" i] old(1) unfolding store_ok_def list_all_iff
      by (auto simp del: map_map)
    ultimately show ?thesis using False old(3) w(1) by (simp add: save_signal_run)
  qed
qed

lemma map_of_filter:
  "distinct (map row_key rows) \<Longrightarrow> map_of (map (\<lambda>s. (row_key s, bare s)) (filter (\<lambda>s. \<not> signal_expired now s) rows)) =
     (\<lambda>k. case map_of (map (\<lambda>s. (row_key s, bare s)) rows) k of None \<Rightarrow> None | Some s \<Rightarrow> if signal_expired now s then None else Some s)"
proof (induction rows)
  case (Cons r rows)
  moreover from Cons.prems have "map_of (map (\<lambda>s. (row_key s, bare s)) rows) (row_key r) = None"
    by (auto simp: map_of_eq_None_iff)
  ultimately show ?case by (auto simp: fun_eq_iff split: option.split)
qed simp

lemma step_refines:
  "store_ok b \<Longrightarrow> store_ok (do_signal op b) \<and>
   (signal_map (do_signal op b), bus_now (do_signal op b)) = spec_signal op (signal_map b, bus_now b)"
proof (cases op)
  case (Save hh i)
  assume "store_ok b"
  with save_refines [of b hh i] Save show ?thesis by simp
next
  case Clean
  assume "store_ok b"
  with Clean map_of_filter [of "bu_signals b" "bus_now b"] show ?thesis
    by (auto simp: cleanup_expired_def store_ok_def signal_map_def list_all_iff intro: distinct_map_filter)
next
  case (Pause n)
  assume "store_ok b"
  with Pause show ?thesis by (simp add: store_ok_def signal_map_def wait_us_def bus_now_def)
qed

lemma run_refines:
  "store_ok b \<Longrightarrow> store_ok (fold do_signal ops b) \<and>
   (signal_map (fold do_signal ops b), bus_now (fold do_signal ops b)) = fold spec_signal ops (signal_map b, bus_now b)"
proof (induction ops arbitrary: b)
  case (Cons op ops)
  with step_refines [OF Cons.prems, of op] show ?case by simp
qed simp

lemma live_rows: "store_ok b \<Longrightarrow> set (map bare (live_signals hh b)) =
    {s. \<exists>key. signal_map b (hh, key) = Some s \<and> \<not> signal_expired (bus_now b) s}"
proof -
  assume ok: "store_ok b"
  then have d: "distinct (map fst (map (\<lambda>s. (row_key s, bare s)) (bu_signals b)))" by (simp add: store_ok_def comp_def)
  have "signal_map b (hh, key) = Some s \<longleftrightarrow> (\<exists>r \<in> set (bu_signals b). row_key r = (hh, key) \<and> s = bare r)" for key s
    using map_of_eq_Some_iff [OF d, of "(hh, key)" s] by (simp add: signal_map_def image_iff eq_commute [of "(hh, key)"])
  with ok show ?thesis by (fastforce simp: live_signals_def store_ok_def list_all_iff row_key_def)
qed

lemma signals_refine:
  fixes b :: bus and ops :: "signal_op list"
  defines "b' \<equiv> fold do_signal ops (b\<lparr>bu_signals := []\<rparr>)"
  shows "(signal_map b', bus_now b') = fold spec_signal ops (Map.empty, bus_now b) \<and>
    ((\<exists>s. snd (save_signal hh i b') = Inr s) \<longleftrightarrow> \<not> refused i) \<and>
    set (map bare (live_signals hh b')) = {s. \<exists>key. signal_map b' (hh, key) = Some s \<and> \<not> signal_expired (bus_now b') s}"
proof -
  have "store_ok (b\<lparr>bu_signals := []\<rparr>)" "signal_map (b\<lparr>bu_signals := []\<rparr>) = Map.empty"
    by (simp_all add: store_ok_def signal_map_def)
  with run_refines [of "b\<lparr>bu_signals := []\<rparr>" ops] have "store_ok b'"
    "(signal_map b', bus_now b') = fold spec_signal ops (Map.empty, bus_now b)" by (simp_all add: b'_def)
  with save_refines [of b' hh i] live_rows [of b' hh] show ?thesis by simp
qed

text \<open>
  C32. The signal store is a map from household and source key: after any sequence of writes, cleanups and passing time
  that starts with an empty table it holds exactly what the map holds, a write succeeds exactly when it is not refused
  as a live value, and what a household reads are exactly the entries of the map that have not expired.
\<close>

theorem signals_refine_map:
  "let b' = fold do_signal ops (b\<lparr>bu_signals := []\<rparr>) in
    (signal_map b', bus_now b') = fold spec_signal ops (Map.empty, bus_now b) \<and>
    ((\<exists>s. snd (save_signal hh i b') = Inr s) \<longleftrightarrow> \<not> refused i) \<and>
    set (map bare (live_signals hh b')) = {s. \<exists>key. signal_map b' (hh, key) = Some s \<and> \<not> signal_expired (bus_now b') s}"
  using signals_refine unfolding Let_def by blast

end
