(* ===== verification/Reaction_Facts.thy ===== *)
theory Reaction_Facts
  imports Matcher_Facts Signal_Reactions Bus_Facts
begin

section \<open>What a signal may set off\<close>

subsection \<open>Commands\<close>

text \<open>The commands published to nodes, newest first.\<close>

definition published :: "bus \<Rightarrow> bus_ask list" where
  "published b = filter (\<lambda>q. case q of Mqtt t p \<Rightarrow> True | _ \<Rightarrow> False) (bu_asked b)"

definition quiet :: "bus \<Rightarrow> bus \<Rightarrow> bool" where
  "quiet b0 b \<longleftrightarrow> published b = published b0 \<and> bu_acted b = bu_acted b0"

lemma quiet_hub [simp]: "quiet b0 (b\<lparr>bu_hub := h\<rparr>) = quiet b0 b"
  by (simp add: quiet_def published_def)

lemma quiet_ask: "(\<And>t p. q \<noteq> Mqtt t p) \<Longrightarrow> keeps (quiet b0) (ask_bus E q)"
  by (rule keepsI) (auto simp: run_ask_bus quiet_def published_def split: bus_ask.split)

lemma quiet_tools: "keeps (quiet b0) (seek_tools E ns)"
proof (induction ns)
  case (Cons n ns)
  show ?case by (simp del: split_paired_All) (intro keeps_bind keeps_if keeps_lift keeps_ret quiet_ask Cons; simp)
qed (simp add: keeps_ret)

lemma quiet_resolve_tools: "keeps (quiet b0) (resolve_node_and_tools E hh preferred)"
  unfolding resolve_node_and_tools_def by (intro keeps_bind keeps_gets quiet_tools)

lemma quiet_pick: "keeps (quiet b0) (pick_action E label text facts tools)"
  unfolding pick_action_def by (intro keeps_bind keeps_lift quiet_ask) simp

lemma quiet_confirm: "keeps (quiet b0) (emit_confirm_card E hh user node command args label text)"
  unfolding emit_confirm_card_def Let_def post_card_def by (intro keeps_bind keeps_ret keeps_on_hub) simp

definition tool_call :: "string \<Rightarrow> string \<Rightarrow> pydict \<Rightarrow> int option \<Rightarrow> string \<Rightarrow> bus_ask" where
  "tool_call node command args user rid = Mqtt (command_topic node) (PList [PDict [(''command'', PStr ''tool_call''),
     (''details'', PDict (dset (dispatch_details command args user rid) ''request_id'' (PStr rid)))]])"

lemma dispatch_sends:
  "\<exists>b' r rid. dispatch_node_command E node command args user b = (b', r) \<and> bu_acted b' = bu_acted b \<and>
     bu_writes b' = bu_writes b \<and> bu_nodes b' = bu_nodes b \<and>
     (published b' = published b \<or> published b' = tool_call node command args user rid # published b)"
  by (auto simp: dispatch_node_command_def publish_command_with_id_def io_simps published_def tool_call_def split: sum.split)

definition acted_now :: "reaction_ctx \<Rightarrow> bus \<Rightarrow> ((string \<times> string \<times> string) \<times> string) list" where
  "acted_now c b = AList.update (fst (dedup_identity c)) (snd (dedup_identity c)) (bu_acted b)"

text \<open>What acting on a rule leaves behind: no command, or one that the rule's delivery allows.\<close>

lemma act_on_rule_run:
  assumes "act_on_rule E c instruction delivery resolved b = (b', r)"
  shows "published b' = published b \<or>
    delivery = ''automatic'' \<and> bu_acted b' = acted_now c b \<and>
    (\<exists>node tools command args rid. resolved = Some (node, tools) \<and> published b' = tool_call node command args (rx_user c) rid # published b)"
proof (cases "case resolved of None \<Rightarrow> True | Some (node, tools) \<Rightarrow> node = [] \<or> tools = []")
  case True
  then show ?thesis using assms by (auto simp: act_on_rule_def Let_def io_simps split: option.splits)
next
  case False
  then obtain node tools where res: "resolved = Some (node, tools)" "node \<noteq> []" "tools \<noteq> []" by (auto split: option.splits)
  obtain key sig where ds: "dedup_identity c = (key, sig)" by fastforce
  let ?label = "label_for (rx_kind c)"
  obtain b1 chosen where pick: "pick_action E ?label instruction (rx_facts c) tools b = (b1, chosen)" by fastforce
  have q: "quiet b b1" using keepsD' [OF quiet_pick _ pick, of b] by (simp add: quiet_def)
  let ?b2 = "bu_acted_update (AList.update key sig) b1"
  have b2: "published ?b2 = published b" "bu_acted ?b2 = acted_now c b"
    using q ds by (simp_all add: quiet_def published_def acted_now_def)
  show ?thesis
  proof (cases "case chosen of Inr (Some ca) \<Rightarrow> delivery = ''automatic'' | _ \<Rightarrow> False")
    case True
    then obtain command args where ca: "chosen = Inr (Some (command, args))" "delivery = ''automatic''"
      by (auto split: sum.splits option.splits)
    obtain b3 out rid where d: "dispatch_node_command E node command args (rx_user c) ?b2 = (b3, out)" "bu_acted b3 = bu_acted ?b2"
      "published b3 = published ?b2 \<or> published b3 = tool_call node command args (rx_user c) rid # published ?b2"
      using dispatch_sends [of E node command args "rx_user c" ?b2] by blast
    have "b' = b3"
      using assms res ds pick ca d(1) by (auto simp: act_on_rule_def Let_def io_simps split: sum.splits)
    with d b2 ca res(1) show ?thesis by auto
  next
    case notauto: False
    have "published b' = published b"
    proof (cases chosen)
      case (Inr ch)
      show ?thesis
      proof (cases ch)
        case (Some ca)
        obtain command args where "ca = (command, args)" by fastforce
        with notauto Inr Some have run: "bind (emit_confirm_card E (rx_household c) (rx_user c) node command args ?label instruction)
            (\<lambda>posted. ret (if posted then ''confirm:'' @ command else ''confirm_failed'')) ?b2 = (b', r)"
          using assms res ds pick by (simp add: act_on_rule_def Let_def io_simps)
        have "keeps (quiet ?b2) (bind (emit_confirm_card E (rx_household c) (rx_user c) node command args ?label instruction)
            (\<lambda>posted. ret (if posted then ''confirm:'' @ command else ''confirm_failed'')))"
          by (intro keeps_bind quiet_confirm keeps_ret)
        from keepsD' [OF this _ run] show ?thesis using b2 by (simp add: quiet_def)
      qed (use assms res ds pick Inr b2 in \<open>auto simp: act_on_rule_def Let_def io_simps\<close>)
    next
      case (Inl e)
      have "b' = b1" using assms res ds pick Inl by (simp add: act_on_rule_def Let_def io_simps)
      then show ?thesis using q by (simp add: quiet_def)
    qed
    then show ?thesis by simp
  qed
qed

text \<open>A reaction to an automation: the rule is looked up, then whether its occurrence is new.\<close>

lemma react_unchanged:
  "map_of (bu_acted b) (fst (dedup_identity c)) = Some (snd (dedup_identity c)) \<Longrightarrow> fst (react_to_signal_automation E c b) = b"
  by (auto simp: react_to_signal_automation_def io_simps split: sum.split option.split)

lemma seek_in: "seek_tools E ns b = (b', Inr (Some (n, ts))) \<Longrightarrow> n \<in> set ns"
proof (induction ns arbitrary: b)
  case (Cons m ns)
  then show ?case by (auto simp: io_simps split: sum.splits if_splits prod.splits)
qed (simp add: io_simps)

text \<open>The node that runs a command for a reaction: the one the signal names, or one of the household.\<close>

definition eligible :: "bus_env \<Rightarrow> reaction_ctx \<Rightarrow> bus \<Rightarrow> string \<Rightarrow> bool" where
  "eligible E c b n \<longleftrightarrow> otruthy (rx_node c) \<and> n = oor (rx_node c) [] \<or> n \<in> set (household_node_ids E (rx_household c) b)"

lemma dedupe_in: "n \<in> set (dedupe ns) \<Longrightarrow> n \<in> set ns"
  by (induction ns rule: dedupe.induct) auto

lemma resolved_in:
  assumes "resolve_node_and_tools E (rx_household c) (rx_node c) b = (b', Inr (Some (n, ts)))"
  shows "eligible E c b n"
proof -
  let ?ids = "dedupe (household_node_ids E (rx_household c) b)"
  have "seek_tools E (if otruthy (rx_node c) then oor (rx_node c) [] # filter (\<lambda>i. i \<noteq> oor (rx_node c) []) ?ids else ?ids) b =
      (b', Inr (Some (n, ts)))" using assms by (simp add: resolve_node_and_tools_def io_simps)
  from seek_in [OF this] show ?thesis by (auto simp: eligible_def dest: dedupe_in split: if_splits)
qed

lemma automatic_run:
  assumes "react_to_signal_automation E c b = (b', r)" "published b' \<noteq> published b"
  shows "(\<exists>instruction. get_enabled_rule E (rx_household c) (rx_kind c) b = Inr (Some (instruction, ''automatic''))) \<and>
    map_of (bu_acted b) (fst (dedup_identity c)) \<noteq> Some (snd (dedup_identity c)) \<and> bu_acted b' = acted_now c b \<and>
    (\<exists>node command args rid. eligible E c b node \<and> published b' = tool_call node command args (rx_user c) rid # published b)"
proof -
  obtain instruction delivery where rule: "get_enabled_rule E (rx_household c) (rx_kind c) b = Inr (Some (instruction, delivery))"
    using assms by (auto simp: react_to_signal_automation_def io_simps split: sum.splits option.splits)
  have fresh: "map_of (bu_acted b) (fst (dedup_identity c)) \<noteq> Some (snd (dedup_identity c))"
    using react_unchanged [of b c E] assms by auto
  obtain b1 res where tools: "resolve_node_and_tools E (rx_household c) (rx_node c) b = (b1, res)" by fastforce
  have b1: "published b1 = published b" "bu_acted b1 = bu_acted b"
    using keepsD' [OF quiet_resolve_tools _ tools, of b] by (simp_all add: quiet_def)
  show ?thesis
  proof (cases res)
    case (Inr resolved)
    obtain b2 out where act: "act_on_rule E c instruction delivery resolved b1 = (b2, out)" by fastforce
    have "b' = b2" using assms(1) rule fresh tools Inr act by (auto simp: react_to_signal_automation_def io_simps split: sum.splits)
    with act_on_rule_run [OF act] assms(2) b1 obtain node ts command args rid where
      "delivery = ''automatic''" "bu_acted b' = acted_now c b" "resolved = Some (node, ts)"
      "published b' = tool_call node command args (rx_user c) rid # published b" by (auto simp: acted_now_def)
    with rule fresh tools Inr resolved_in show ?thesis by blast
  next
    case (Inl e)
    have "b' = b1" using assms(1) rule fresh tools Inl by (auto simp: react_to_signal_automation_def io_simps)
    with b1 assms(2) show ?thesis by simp
  qed
qed


definition leaving :: reaction_ctx where
  "leaving = \<lparr>rx_household = ''h1'', rx_node = None, rx_user = Some 1, rx_kind = ''presence.left'', rx_facts = [(''state'', PStr ''away'')]\<rparr>"

definition lock_env :: bus_env where
  "lock_env = sample_bus_env\<lparr>be_mqtt := True, be_serve := (\<lambda>l. case l of
      Ask_tools n # _ \<Rightarrow> Inr (PDict [(''client_tools'', PList [PDict [(''type'', PStr ''function'')]])])
    | Ask_pick label text facts tools # _ \<Rightarrow> Inr (PDict [(''choices'', PList [PDict [(''message'', PDict [(''tool_calls'',
        PList [PDict [(''function'', PDict [(''name'', PStr ''lock_door''), (''arguments'', PStr ''{}'')])]])])]])])
    | _ \<Rightarrow> Inr PNone)\<rparr>"

definition lock_bus :: bus where
  "lock_bus = sample_bus\<lparr>bu_writes := [((rules_key, ''h1''), PDict [(''presence.left'', PDict [(''instruction'', PStr ''Lock up''),
     (''enabled'', PBool True), (''delivery'', PStr ''automatic'')])])]\<rparr>"


subsection \<open>The ingress\<close>

text \<open>
  Facts about the bus that asking the nodes of \<open>ns\<close> what they offer, posting a card and storing a signal cannot change;
  \<open>hh\<close>'s nodes are among \<open>ns\<close>.
\<close>

definition steady :: "bus_env \<Rightarrow> string \<Rightarrow> string set \<Rightarrow> (bus \<Rightarrow> bool) \<Rightarrow> bool" where
  "steady E hh ns P \<longleftrightarrow> (\<forall>b. P b \<longrightarrow> set (household_node_ids E hh b) \<subseteq> ns \<and> (\<forall>n \<in> ns. P (b\<lparr>bu_asked := Ask_tools n # bu_asked b\<rparr>)) \<and>
     (\<forall>h. P (b\<lparr>bu_hub := h\<rparr>)) \<and> (\<forall>n. P (b\<lparr>bu_ids := n\<rparr>)) \<and> (\<forall>x. P (b\<lparr>bu_signals := x\<rparr>)) \<and> (\<forall>x. P (b\<lparr>bu_rate := x\<rparr>)))"

lemma steadyD:
  assumes "steady E hh ns P" "P b"
  shows "set (household_node_ids E hh b) \<subseteq> ns" "n \<in> ns \<Longrightarrow> P (b\<lparr>bu_asked := Ask_tools n # bu_asked b\<rparr>)" "P (b\<lparr>bu_hub := h\<rparr>)"
    "P (b\<lparr>bu_ids := i\<rparr>)" "P (b\<lparr>bu_signals := x\<rparr>)" "P (b\<lparr>bu_rate := y\<rparr>)"
  using assms by (simp_all add: steady_def)

lemma steady_tools: "steady E hh ns P \<Longrightarrow> n \<in> ns \<Longrightarrow> keeps P (ask_bus F (Ask_tools n))"
  by (rule keepsI) (simp add: run_ask_bus steadyD)

lemma steady_fetch: "steady E hh ns P \<Longrightarrow> n \<in> ns \<Longrightarrow> keeps P (fetch_report F n)"
  unfolding fetch_report_def by (intro keeps_bind keeps_catch keeps_if keeps_ret keeps_lift steady_tools)

lemma steady_resolve: "steady E hh ns P \<Longrightarrow> n \<in> ns \<Longrightarrow> keeps P (resolve_proposable_action F n c cb)"
  unfolding resolve_proposable_action_def by (intro keeps_bind keeps_option keeps_ret keeps_lift steady_fetch)

lemma steady_list: "steady E hh ns P \<Longrightarrow> n \<in> ns \<Longrightarrow> keeps P (list_proposable_actions F n)"
  unfolding list_proposable_actions_def by (intro keeps_bind keeps_option keeps_ret keeps_lift steady_fetch)

lemma steady_advertises: "steady E hh ns P \<Longrightarrow> n \<in> ns \<Longrightarrow> keeps P (advertises F c cb n)"
  unfolding advertises_def by (intro keeps_bind keeps_catch keeps_if keeps_ret steady_resolve steady_list)

lemma steady_probe:
  "steady E hh ns P \<Longrightarrow> set ids \<subseteq> ns \<Longrightarrow> valid P (probe_nodes F c cb ids) (\<lambda>hits w. P w \<and> set hits \<subseteq> ns) P"
proof (induction ids)
  case (Cons i ids)
  have "valid P (bind (probe_nodes F c cb ids) (\<lambda>rest. ret (if yes then i # rest else rest)))
      (\<lambda>hits w. P w \<and> set hits \<subseteq> ns) P" for yes
    by (rule valid_bind [OF Cons.IH]) (use Cons.prems in \<open>auto intro!: valid_ret\<close>)
  then show ?case
    unfolding probe_nodes.simps using Cons.prems by (intro valid_keep_bind [OF steady_advertises]) auto
qed (simp add: valid_ret)

lemma valid_gets_such:
  assumes "\<And>w. P w \<Longrightarrow> R (g w)" "\<And>x. R x \<Longrightarrow> valid P (f x) Q F"
  shows "valid P (bind (gets g) f) Q F"
proof (rule validI)
  fix w assume w: "P w"
  then have "valid P (f (g w)) Q F" "bind (gets g) f w = f (g w) w" using assms by (simp_all add: io_simps)
  with w show "case snd (bind (gets g) f w) of Inl e \<Rightarrow> F (fst (bind (gets g) f w)) | Inr y \<Rightarrow> Q y (fst (bind (gets g) f w))"
    by (simp only: valid_def)
qed

lemma steady_household_node:
  assumes "steady E hh ns P"
  shows "valid P (resolve_household_node_for_command E hh c cb) (\<lambda>n w. P w \<and> (case n of None \<Rightarrow> True | Some i \<Rightarrow> i \<in> ns)) P"
    (is "valid P _ ?Q P")
proof -
  have probe: "valid P (bind (probe_nodes E c cb ids) (\<lambda>hits. bind (gets (\<lambda>b. be_late E (bu_asked b)))
     (\<lambda>late. ret (case hits of [] \<Rightarrow> None | i # _ \<Rightarrow> if late then None else Some i)))) ?Q P" if "set ids \<subseteq> ns" for ids
    by (rule valid_bind [OF steady_probe [OF assms that]]) (auto simp: valid_def io_simps split: list.split)
  show ?thesis
    unfolding resolve_household_node_for_command_def
    by (rule valid_gets_such [where R = "\<lambda>ids. set ids \<subseteq> ns", OF steadyD(1) [OF assms]], assumption)
      (intro valid_if probe valid_ret; simp)
qed

lemma steady_card: "steady E hh ns P \<Longrightarrow> keeps P (emit_proposal_card F hh' p)"
  unfolding emit_proposal_card_def post_card_def by (intro keeps_bind keeps_ret keeps_on_hub) (rule steadyD(3))

lemma steady_directed_node:
  assumes "steady E hh ns P"
  shows "valid P (directed_node E hh node target) (\<lambda>n w. P w \<and> (otruthy n \<longrightarrow> oor n [] \<in> ns)) P"
proof -
  note found = steady_household_node [OF assms, of "fst target" "snd target"]
  show ?thesis
    unfolding directed_node_def
    by (rule valid_gets_such [where R = "\<lambda>ids. set ids \<subseteq> ns", OF steadyD(1) [OF assms]], assumption)
      (intro valid_if valid_ret valid_post [OF found]; auto simp: otruthy_def)
qed

lemma steady_directed:
  assumes "steady E hh ns P"
  shows "keeps P (emit_directed_proposal E hh node command args key)"
proof -
  have rest: "keeps P (bind (list_proposable_actions E i) (\<lambda>actions. case find f actions of None \<Rightarrow> ret False
      | Some a \<Rightarrow> if a = [] then ret False else bind (lift (directed_card E i cmd args key a)) (emit_proposal_card E hh)))"
    if "i \<in> ns" for i f cmd
    by (intro keeps_bind keeps_option keeps_if keeps_ret keeps_lift steady_card [OF assms] steady_list [OF assms] that)
  have "valid P (bind (directed_node E hh node (named_target command)) (\<lambda>chosen.
        if \<not> otruthy chosen then ret False
        else bind (list_proposable_actions E (oor chosen [])) (\<lambda>actions.
          case find (\<lambda>a. dget a ''command'' = PStr (fst (named_target command)) \<and>
                 (\<not> otruthy (snd (named_target command)) \<or> dget a ''callback'' = PStr (oor (snd (named_target command)) []))) actions of
            None \<Rightarrow> ret False
          | Some a \<Rightarrow> if a = [] then ret False
              else bind (lift (directed_card E (oor chosen []) (fst (named_target command)) args key a)) (emit_proposal_card E hh))))
     (\<lambda>_. P) P"
  proof (rule valid_bind [OF steady_directed_node [OF assms]], goal_cases)
    case (1 chosen)
    show ?case
    proof (cases "otruthy chosen \<and> oor chosen [] \<in> ns")
      case True
      with rest show ?thesis by (intro valid_if) (auto intro: valid_pre [OF valid_keeps])
    qed (auto simp: valid_def io_simps)
  qed
  then have "keeps P (bind (directed_node E hh node (named_target command)) (\<lambda>chosen.
        if \<not> otruthy chosen then ret False
        else bind (list_proposable_actions E (oor chosen [])) (\<lambda>actions.
          case find (\<lambda>a. dget a ''command'' = PStr (fst (named_target command)) \<and>
                 (\<not> otruthy (snd (named_target command)) \<or> dget a ''callback'' = PStr (oor (snd (named_target command)) []))) actions of
            None \<Rightarrow> ret False
          | Some a \<Rightarrow> if a = [] then ret False
              else bind (lift (directed_card E (oor chosen []) (fst (named_target command)) args key a)) (emit_proposal_card E hh))))"
    by (auto simp: keeps_def intro: valid_fst)
  then show ?thesis unfolding emit_directed_proposal_def Let_def by (intro keeps_catch keeps_ret)
qed

lemma steady_save: "steady E hh ns P \<Longrightarrow> keeps P (save_signal hh' i)"
  by (rule keepsI) (auto simp: save_signal_run split: sum.split dest: steadyD(4,5))

lemma steady_rate: "steady E hh ns P \<Longrightarrow> keeps P (rate_ok hh' agent)"
  by (rule keepsI) (auto simp: rate_ok_def Let_def split: prod.split dest: steadyD(6))

definition posted_household :: "signal_post \<Rightarrow> signals_auth \<Rightarrow> string" where
  "posted_household body auth = oor (sp_household body) (oor (sa_household auth) [])"

text \<open>What the reactions to a posted signal are handed.\<close>

definition posted_ctx :: "signal_post \<Rightarrow> signals_auth \<Rightarrow> reaction_ctx" where
  "posted_ctx body auth = (let i = sp_signal body in
     \<lparr>rx_household = posted_household body auth, rx_node = (if otruthy (si_node i) then si_node i else sa_node auth),
      rx_user = si_user i, rx_kind = si_kind i, rx_facts = (case si_facts i of None \<Rightarrow> [] | Some d \<Rightarrow> d)\<rparr>)"

lemma steady_post:
  assumes "steady E (posted_household body auth) ns P"
  shows "keeps P (post_signal E reg body auth)"
proof -
  have save: "keeps P (\<lambda>w. case save_signal hh i w of (b', Inl (ValueError m)) \<Rightarrow> (b', Inl (HTTPError 422 m)) | r \<Rightarrow> r)" for hh i
  proof (rule keepsI)
    fix w assume "P w"
    then have "P (fst (save_signal hh i w))" using steady_save [OF assms] by (auto simp: keeps_def)
    then show "P (fst (case save_signal hh i w of (b', Inl (ValueError m)) \<Rightarrow> (b', Inl (HTTPError 422 m)) | r \<Rightarrow> r))"
      by (auto split: prod.splits sum.splits exc.splits)
  qed
  show ?thesis
    unfolding post_signal_def Let_def posted_household_def [symmetric]
    by (intro keeps_if keeps_bind keeps_throw keeps_gets keeps_ret steady_rate [OF assms] save steady_directed [OF assms])
qed

lemma post_schedules:
  assumes "post_signal E reg body auth b = (b', Inr (x, xs))"
  shows "xs = dispatch_signal_edges reg (posted_ctx body auth)"
  using assms unfolding post_signal_def posted_ctx_def posted_household_def Let_def
  by (auto simp: io_simps split: if_splits sum.splits prod.splits)

text \<open>Handling the request publishes nothing, starts no job and changes no rule, and asks only nodes of the household, only what they offer.\<close>

lemma ingress_only_proposes:
  "case post_signal E reg body auth b of (b', r) \<Rightarrow>
     bu_jobs b' = bu_jobs b \<and> bu_writes b' = bu_writes b \<and> published b' = published b \<and>
     set (bu_asked b') \<subseteq> Ask_tools ` set (household_node_ids E (posted_household body auth) b) \<union> set (bu_asked b)"
proof -
  let ?ns = "set (household_node_ids E (posted_household body auth) b)"
  define P where "P w \<longleftrightarrow> bu_jobs w = bu_jobs b \<and> bu_writes w = bu_writes b \<and> bu_nodes w = bu_nodes b \<and> published w = published b \<and>
    set (bu_asked w) \<subseteq> Ask_tools ` ?ns \<union> set (bu_asked b)" for w
  have "steady E (posted_household body auth) ?ns P"
    by (auto simp: steady_def P_def published_def household_node_ids_def)
  from keepsD [OF steady_post [OF this], of b] show ?thesis by (simp add: P_def split_beta)
qed

subsection \<open>A signal and all it sets off\<close>

text \<open>What was published, the settings written and the registered nodes are one of \<open>X\<close>.\<close>

definition based :: "(bus_ask list \<times> ((string \<times> string) \<times> pyval) list \<times> node_row list) set \<Rightarrow> bus \<Rightarrow> bool" where
  "based X b \<longleftrightarrow> (published b, bu_writes b, bu_nodes b) \<in> X"

lemma based_updates [simp]:
  "based X (b\<lparr>bu_hub := h\<rparr>) = based X b" "based X (b\<lparr>bu_ids := i\<rparr>) = based X b" "based X (b\<lparr>bu_signals := x\<rparr>) = based X b"
  "based X (b\<lparr>bu_rate := y\<rparr>) = based X b" "based X (b\<lparr>bu_leave := l\<rparr>) = based X b"
  by (simp_all add: based_def published_def)

lemma based_steady: "steady E hh UNIV (based X)"
  by (simp add: steady_def) (simp add: based_def published_def)

lemma based_ask: "(\<And>t p. q \<noteq> Mqtt t p) \<Longrightarrow> keeps (based X) (ask_bus E q)"
  by (rule keepsI) (auto simp: run_ask_bus based_def published_def split: bus_ask.split)

lemma based_id: "keeps (based X) bus_id"
  by (rule keepsI) (simp add: run_bus_id)

lemmas based_card = steady_card [OF based_steady]
lemmas based_list = steady_list [OF based_steady UNIV_I]

lemma based_match: "keeps (based X) (run_match_batch E hh node)"
  unfolding run_match_batch_def Let_def
  by (intro keeps_bind keeps_gets keeps_if keeps_ret keeps_catch keeps_lift based_list based_id based_ask) simp

lemma based_node: "keeps (based X) (resolve_household_node_for_command E hh c cb)"
  using steady_household_node [OF based_steady, of X E hh c cb] by (auto simp: keeps_def intro: valid_fst [OF valid_post])

lemma based_leave_card: "keeps (based X) (emit_leave_by_card E hh user p)"
  unfolding emit_leave_by_card_def
  by (intro keeps_bind keeps_if keeps_option keeps_ret based_node based_card steady_resolve [OF based_steady UNIV_I])

lemma based_propose: "keeps (based X) (propose_leave E c event location start result)"
proof -
  have "keeps (based X) (save_leave_by_signal hh node user p)" for hh node user p
    unfolding save_leave_by_signal_def
    by (intro keeps_catch keeps_bind keeps_gets keeps_ret steady_save [OF based_steady])
  then show ?thesis
    unfolding propose_leave_def Let_def
    by (auto intro!: keeps_bind keeps_if keeps_option keeps_ret keeps_gets keeps_lift based_leave_card split: sum.split option.split)
qed

lemma based_names: "keeps (based X) (node_command_names E n)"
  unfolding node_command_names_def by (intro keeps_bind keeps_if keeps_ret keeps_lift based_ask) simp

lemma based_claim: "keeps (based X) (claim_event hh event)"
  by (rule keepsI) (simp add: claim_event_def Let_def)

lemma valid_rescued: "valid P m (\<lambda>_. R) R \<Longrightarrow> valid P (catch m (\<lambda>_. ret x)) (\<lambda>_. R) R"
  by (fastforce simp: valid_def io_simps split: sum.splits prod.splits)

text \<open>What an appointment asks of the node the signal names: how long the drive takes.\<close>

definition drive_question :: "reaction_ctx \<Rightarrow> string \<Rightarrow> bus_ask" where
  "drive_question c rid = tool_call (oor (rx_node c) []) ''get_drive_time'' (drive_args (meta_text (rx_facts c) ''location'')) (rx_user c) rid"

lemma leave_asks:
  assumes "react_to_appt_upcoming E c b = (b', r)"
  shows "bu_writes b' = bu_writes b \<and> bu_nodes b' = bu_nodes b \<and> (published b' = published b \<or>
    proposals_enabled E (rx_household c) b \<and> otruthy (rx_node c) \<and> (\<exists>rid. published b' = drive_question c rid # published b))"
proof (cases "proposals_enabled E (rx_household c) b \<and> otruthy (rx_node c)")
  case True
  let ?before = "{(published b, bu_writes b, bu_nodes b)}"
  let ?after = "?before \<union> range (\<lambda>rid. (drive_question c rid # published b, bu_writes b, bu_nodes b))"
  have start: "based ?after w" if "based ?before w" for w using that by (auto simp: based_def)
  have sent: "valid (based ?before) (dispatch_node_command E (oor (rx_node c) []) ''get_drive_time''
      (drive_args (meta_text (rx_facts c) ''location'')) (rx_user c)) (\<lambda>_. based ?after) (based ?after)"
  proof (rule validI)
    fix w assume "based ?before w"
    with dispatch_sends [of E "oor (rx_node c) []" "''get_drive_time''" "drive_args (meta_text (rx_facts c) ''location'')" "rx_user c" w]
    have "based ?after (fst (dispatch_node_command E (oor (rx_node c) []) ''get_drive_time''
      (drive_args (meta_text (rx_facts c) ''location'')) (rx_user c) w))" by (auto simp: based_def drive_question_def)
    then show "case snd (dispatch_node_command E (oor (rx_node c) []) ''get_drive_time''
      (drive_args (meta_text (rx_facts c) ''location'')) (rx_user c) w) of
        Inl e \<Rightarrow> based ?after (fst (dispatch_node_command E (oor (rx_node c) []) ''get_drive_time''
          (drive_args (meta_text (rx_facts c) ''location'')) (rx_user c) w))
      | Inr y \<Rightarrow> based ?after (fst (dispatch_node_command E (oor (rx_node c) []) ''get_drive_time''
          (drive_args (meta_text (rx_facts c) ''location'')) (rx_user c) w))" by (simp split: sum.split)
  qed
  have "valid (based ?before) (react_to_appt_upcoming E c) (\<lambda>_. based ?after) (based ?after)"
    unfolding react_to_appt_upcoming_def Let_def
    by (intro valid_gets_such [where R = "\<lambda>_. True", OF TrueI] valid_if valid_ret valid_rescued start
        valid_keep_bind [OF based_claim] valid_keep_bind [OF based_names] valid_bind [OF sent] valid_keeps keeps_if keeps_ret
        based_propose)
  from valid_fst [OF this, of b] have "based ?after b'" using assms by (simp add: based_def)
  with True show ?thesis by (auto simp: based_def)
next
  case False
  then have "b' = b"
    using assms by (auto simp: react_to_appt_upcoming_def Let_def io_simps otruthy_def split: if_splits option.splits)
  then show ?thesis by simp
qed

text \<open>The reactions of the program: an appointment that comes up is timed, and every kind of the catalog may be automated.\<close>

lemma program_reactions_for:
  "reactions_for kind (program_reactions E) =
     (if kind = ''appt.upcoming'' then [(''leave_by'', react_to_appt_upcoming E)] else []) @
     (if is_authorable kind then [(''automation'', react_to_signal_automation E)] else [])"
  by (auto simp: program_reactions_def register_signal_automation_executor_def register_leave_by_reaction_def
      register_signal_reaction_def reactions_for_def signal_catalog_def is_authorable_def get_kind_def update_conv)

lemma serve_reaction:
  "map_of (reactions_for (rx_kind c) reg) n = Some h \<Longrightarrow> serve_scheduled E reg (Reaction n c) b = (fst (h c b), Inr ())"
  by (auto simp: serve_scheduled_def run_reaction_def io_simps split: prod.split sum.split)

lemma post_enabled: "post_signal E reg body auth b = (b', Inr x) \<Longrightarrow> signals_enabled E (posted_household body auth) b"
  unfolding post_signal_def posted_household_def Let_def by (auto simp: io_simps split: if_splits)

lemma serve_signal_run:
  assumes "post_signal E (program_reactions E) body auth b = (b1, Inr x)" "c = posted_ctx body auth"
    "b2 = (if rx_kind c = ''appt.upcoming'' then fst (react_to_appt_upcoming E c b1) else b1)"
    "b3 = (if is_authorable (rx_kind c) then fst (react_to_signal_automation E c b2) else b2)"
  shows "fst (serve_signal E body auth b) = fst (run_match_batch E (rx_household c) (rx_node c) b3)"
proof -
  let ?reg = "program_reactions E"
  have rs: "snd x = dispatch_signal_edges ?reg c"
    using post_schedules [of E ?reg body auth b b1 "fst x" "snd x"] assms(1,2) by simp
  have edges: "rotate1 (snd x) = map (\<lambda>(name, h). Reaction name c) (reactions_for (rx_kind c) ?reg) @ [Match_pass (rx_household c) (rx_node c)]"
    using rs by (simp add: dispatch_signal_edges_def)
  have leave: "serve_scheduled E ?reg (Reaction ''leave_by'' c) w = (fst (react_to_appt_upcoming E c w), Inr ())"
    if "rx_kind c = ''appt.upcoming''" for w
    by (rule serve_reaction) (simp add: program_reactions_for that)
  have auto: "serve_scheduled E ?reg (Reaction ''automation'' c) w = (fst (react_to_signal_automation E c w), Inr ())"
    if "is_authorable (rx_kind c)" for w
    by (rule serve_reaction) (simp add: program_reactions_for that)
  have match: "serve_scheduled E ?reg (Match_pass hh node) w = run_match_batch E hh node w" for hh node w
    by (simp add: serve_scheduled_def)
  show ?thesis
    using assms(1,3,4) edges leave auto match
    by (auto simp: serve_signal_def io_simps program_reactions_for split: prod.splits sum.splits)
qed


end
