(* ===== verification/Leave_Facts.thy ===== *)
theory Leave_Facts
  imports Reaction_Facts
begin

section \<open>Rules, suppressions and leaving in time\<close>

subsection \<open>A rule is read as it was written\<close>

lemma lstrip_hd_keep: "s \<noteq> [] \<Longrightarrow> \<not> is_space (hd s) \<Longrightarrow> lstrip s = s"
  by (cases s) (simp_all add: lstrip_def)

lemma rstrip_last_keep: "s \<noteq> [] \<Longrightarrow> \<not> is_space (last s) \<Longrightarrow> rstrip s = s"
  by (cases s rule: rev_cases) (simp_all add: rstrip_def)

lemma strip_idem [simp]: "strip (strip s) = strip s"
proof (cases "strip s = []")
  case False
  obtain t where t: "lstrip s = rstrip (lstrip s) @ t" using rstrip_prefix by blast
  then obtain c cs where "lstrip s = c # cs" "hd (rstrip (lstrip s)) = c" using False
    by (cases "rstrip (lstrip s)") (auto simp: strip_def)
  then have "\<not> is_space (hd (strip s))" using lstrip_hd by (simp add: strip_def)
  with False strip_last [OF False] show ?thesis
    unfolding strip_def [of "strip s"] by (simp add: lstrip_hd_keep rstrip_last_keep)
qed simp

text \<open>The settings library reads back the last value written.\<close>

definition reads_back :: "bus_env \<Rightarrow> bool" where
  "reads_back E \<longleftrightarrow> (\<forall>k hh v ws. be_setting E (((k, hh), PStr v) # ws) k hh = Inr (PStr v))"

definition rule_of :: "pydict \<Rightarrow> string \<Rightarrow> exc + (string \<times> string) option" where
  "rule_of rules kind =
     rbind (as_dict (por (dget rules kind) (PDict []))) (\<lambda>rule.
     rbind (as_str (por (dget rule ''instruction'') (PStr []))) (\<lambda>text.
     Inr (if strip text \<noteq> [] \<and> truthy (dget rule ''enabled'')
          then Some (strip text, normalize_delivery (dget rule ''delivery'')) else None)))"

lemma get_enabled_rule_of: "get_enabled_rule E hh kind b = rbind (load_rules E hh b) (\<lambda>rules. rule_of rules kind)"
  by (simp add: get_enabled_rule_def rule_of_def)

lemma load_saved:
  assumes "reads_back E" "plain_json (PDict rules)"
  shows "load_rules E hh (b\<lparr>bu_writes := ((rules_key, hh), PStr (json_dumps (PDict rules))) # ws\<rparr>) = Inr rules"
proof -
  have "json_loads (json_dumps (PDict rules)) = Some (PDict rules)" using json_roundtrip assms(2) by blast
  moreover from dumps_head [OF assms(2)] have "json_dumps (PDict rules) \<noteq> []" by auto
  ultimately show ?thesis using assms(1) by (simp add: load_rules_def setting_def reads_back_def)
qed

lemma plain_update: "plain_json (PDict d) \<Longrightarrow> plain_json v \<Longrightarrow> plain_json (PDict (AList.update k v d))"
proof -
  assume d: "plain_json (PDict d)" and v: "plain_json v"
  have "list_all (\<lambda>(k, v). plain_json v) d \<Longrightarrow> list_all (\<lambda>(k, v). plain_json v) (AList.update k v d)"
    using v by (induction d) auto
  with d show ?thesis by (simp add: distinct_update)
qed

lemma plain_delete: "plain_json (PDict d) \<Longrightarrow> plain_json (PDict (AList.delete k d))"
  by (auto simp: AList.delete_eq list_all_iff distinct_map_filter)

lemma dget_delete [simp]: "dget (AList.delete k d) k' = (if k = k' then PNone else dget d k')"
  by (simp add: dget_def dget_or_def delete_conv)

definition new_rules :: "string \<Rightarrow> string \<Rightarrow> bool \<Rightarrow> string \<Rightarrow> pydict \<Rightarrow> pydict" where
  "new_rules kind text enabled delivery rules =
     (if strip text = [] then AList.delete kind rules
      else dset rules kind (PDict [(''instruction'', PStr (strip text)), (''enabled'', PBool enabled),
                                   (''delivery'', PStr (normalize_delivery (PStr delivery)))]))"

lemma set_rule_run:
  assumes "set_signal_automation E hh kind text enabled delivery user b = (b', Inr out)" "load_rules E hh b = Inr rules"
  shows "b' = b\<lparr>bu_writes := ((rules_key, hh), PStr (json_dumps (PDict (new_rules kind text enabled delivery rules)))) # bu_writes b\<rparr> \<and>
    is_authorable kind \<and> be_member E user hh ''admin''"
  using assms by (auto simp: set_signal_automation_def io_simps Let_def save_rules_def require_role_def new_rules_def split: if_splits)

lemma normal_twice [simp]: "normalize_delivery (PStr (normalize_delivery v)) = normalize_delivery v"
  by (simp add: normalize_delivery_def)

lemma new_rule_read:
  "rule_of (new_rules kind text enabled delivery rules) k =
     (if k \<noteq> kind then rule_of rules k
      else Inr (if strip text \<noteq> [] \<and> enabled then Some (strip text, normalize_delivery (PStr delivery)) else None))"
proof (cases "k = kind")
  case True
  then show ?thesis
  proof (cases "strip text = []")
    case False
    then have r: "dget (new_rules kind text enabled delivery rules) kind =
        PDict [(''instruction'', PStr (strip text)), (''enabled'', PBool enabled), (''delivery'', PStr (normalize_delivery (PStr delivery)))]"
      by (simp add: new_rules_def)
    show ?thesis unfolding rule_of_def True r using False by (simp add: por_def dget_def dget_or_def)
  next
    case empty: True
    then have r: "dget (new_rules kind text enabled delivery rules) kind = PNone" by (simp add: new_rules_def)
    show ?thesis unfolding rule_of_def True r using empty by (simp add: por_def dget_def dget_or_def)
  qed
qed (simp add: rule_of_def new_rules_def)

text \<open>
  C35. What an admin writes is what an automation acts on: when the settings library reads back what was last written,
  a successful authoring of a rule makes the executor see exactly the stripped instruction and its delivery
  if the rule is enabled and not empty, and no rule otherwise; the rules of other signals stay as they were, and nobody but an
  admin of the household gets that far.
\<close>

theorem rule_roundtrip:
  assumes "reads_back E" "load_rules E hh b = Inr rules" "plain_json (PDict rules)"
    "set_signal_automation E hh kind text enabled delivery user b = (b', Inr out)"
  shows "get_enabled_rule E hh k b' = (if k \<noteq> kind then get_enabled_rule E hh k b
      else Inr (if strip text \<noteq> [] \<and> enabled then Some (strip text, normalize_delivery (PStr delivery)) else None)) \<and>
    is_authorable kind \<and> be_member E user hh ''admin''"
proof -
  have "plain_json (PDict (new_rules kind text enabled delivery rules))"
    using assms(3) plain_update plain_delete by (simp add: new_rules_def dset_def)
  from load_saved [OF assms(1) this] set_rule_run [OF assms(4,2)] assms(2) new_rule_read show ?thesis
    by (simp add: get_enabled_rule_of)
qed

theorem rule_roundtrip_witness:
  "get_enabled_rule sample_bus_env ''h1'' ''presence.left''
     (fst (set_signal_automation sample_bus_env ''h1'' ''presence.left'' '' Lock the door '' True ''automatic'' 1 sample_bus)) =
   Inr (Some (''Lock the door'', ''automatic''))"
proof -
  let ?m = "set_signal_automation sample_bus_env ''h1'' ''presence.left'' '' Lock the door '' True ''automatic'' 1 sample_bus"
  have "case snd ?m of Inr d \<Rightarrow> True | Inl e \<Rightarrow> False" by code_simp
  then obtain out where "?m = (fst ?m, Inr out)" by (cases ?m) (auto split: sum.splits)
  moreover have "reads_back sample_bus_env" "load_rules sample_bus_env ''h1'' sample_bus = Inr []"
    by (simp_all add: reads_back_def load_rules_def setting_def sample_bus_env_def sample_bus_def)
  moreover have "strip '' Lock the door '' = ''Lock the door''" "normalize_delivery (PStr ''automatic'') = ''automatic''" by code_simp+
  ultimately show ?thesis
    using rule_roundtrip [of sample_bus_env "''h1''" sample_bus "[]" "''presence.left''" "'' Lock the door ''" True "''automatic''" 1
        "fst ?m" out "''presence.left''"] by simp
qed

subsection \<open>Leaving in time\<close>

lemma posts_simps [simp]: "inbox_posts (b\<lparr>bu_asked := x\<rparr>) = inbox_posts b" "inbox_posts (b\<lparr>bu_leave := l\<rparr>) = inbox_posts b"
  "inbox_posts (b\<lparr>bu_ids := n\<rparr>) = inbox_posts b" "inbox_posts (b\<lparr>bu_issued := i\<rparr>) = inbox_posts b"
  "inbox_posts (b\<lparr>bu_signals := s\<rparr>) = inbox_posts b"
  by (simp_all add: inbox_posts_def)

text \<open>No card since \<open>b0\<close>, the clock and the claimed events unchanged.\<close>

definition cardless :: "bus \<Rightarrow> bus \<Rightarrow> bool" where
  "cardless b0 b \<longleftrightarrow> inbox_posts b = inbox_posts b0 \<and> bus_now b = bus_now b0 \<and> bu_leave b = bu_leave b0"

lemma cardless_ask: "keeps (cardless b0) (ask_bus E q)"
  by (rule keepsI) (simp add: run_ask_bus cardless_def)

lemma cardless_fetch: "keeps (cardless b0) (fetch_report E n)"
  unfolding fetch_report_def by (intro keeps_bind keeps_catch keeps_if keeps_ret keeps_lift cardless_ask)

lemma cardless_resolve: "keeps (cardless b0) (resolve_proposable_action E n c cb)"
  unfolding resolve_proposable_action_def by (intro keeps_bind keeps_option keeps_ret keeps_lift cardless_fetch)

lemma cardless_advertises: "keeps (cardless b0) (advertises E c cb n)"
  unfolding advertises_def list_proposable_actions_def
  by (intro keeps_bind keeps_catch keeps_if keeps_option keeps_ret keeps_lift cardless_resolve cardless_fetch)

lemma cardless_probe: "keeps (cardless b0) (probe_nodes E c cb ns)"
  by (induction ns) (auto intro!: keeps_bind cardless_advertises)

lemma cardless_household_node: "keeps (cardless b0) (resolve_household_node_for_command E hh c cb)"
  unfolding resolve_household_node_for_command_def by (intro keeps_bind keeps_gets keeps_if keeps_ret cardless_probe)

lemma cardless_names: "keeps (cardless b0) (node_command_names E n)"
  unfolding node_command_names_def by (intro keeps_bind keeps_if keeps_ret keeps_lift cardless_ask)

lemma cardless_id: "keeps (cardless b0) bus_id"
  by (rule keepsI) (simp add: run_bus_id cardless_def)

lemma cardless_dispatch: "keeps (cardless b0) (dispatch_node_command E n c args user)"
proof -
  have "keeps (cardless b0) (modify (\<lambda>b. b\<lparr>bu_issued := f b\<rparr>))" for f
    by (rule keepsI) (simp add: io_simps cardless_def)
  then show ?thesis
    unfolding dispatch_node_command_def publish_command_with_id_def
    by (intro keeps_bind keeps_if keeps_catch keeps_ret keeps_lift cardless_ask cardless_id)
qed

lemma cardless_save: "keeps (cardless b0) (save_leave_by_signal hh node user p)"
proof -
  have "keeps (cardless b0) (save_signal hh i)" for i
    by (rule keepsI) (auto simp: save_signal_run cardless_def split: sum.split)
  then show ?thesis unfolding save_leave_by_signal_def by (intro keeps_catch keeps_bind keeps_gets keeps_ret)
qed

text \<open>A card of the plan \<open>p\<close>, or none.\<close>

lemma leave_card_run:
  assumes "emit_leave_by_card E hh user p b = (b', r)" "cardless b0 b"
  shows "bu_leave b' = bu_leave b0 \<and> (inbox_posts b' = inbox_posts b0 \<or>
    (\<exists>target action. inbox_posts b' = proposal_post hh (leave_card target user p action) # inbox_posts b0))"
proof -
  obtain b1 target where t: "resolve_household_node_for_command E hh ''reminder'' (Some ''set_at'') b = (b1, target)" by fastforce
  have b1: "cardless b0 b1" using keepsD' [OF cardless_household_node assms(2) t] .
  show ?thesis
  proof (cases "case target of Inr n \<Rightarrow> otruthy n | Inl e \<Rightarrow> False")
    case True
    then obtain n where n: "target = Inr n" "otruthy n" by (auto split: sum.splits)
    obtain b2 act where a: "resolve_proposable_action E (oor n []) ''reminder'' ''set_at'' b1 = (b2, act)" by fastforce
    have b2: "cardless b0 b2" using keepsD' [OF cardless_resolve b1 a] .
    show ?thesis
    proof (cases "case act of Inr (Some d) \<Rightarrow> d \<noteq> [] | _ \<Rightarrow> False")
      case True
      then obtain d where d: "act = Inr (Some d)" "d \<noteq> []" by (auto split: sum.splits option.splits)
      obtain k item where e: "emit_proposal_card E hh (leave_card (oor n []) user p d) b2 = (b2\<lparr>bu_hub := k\<rparr>, Inr item)"
        "inbox_posts (b2\<lparr>bu_hub := k\<rparr>) = proposal_post hh (leave_card (oor n []) user p d) # inbox_posts b2"
        using emit_card_run by blast
      have "b' = b2\<lparr>bu_hub := k\<rparr>" using assms(1) t n a d e(1) by (simp add: emit_leave_by_card_def io_simps)
      with e(2) b2 show ?thesis by (auto simp: cardless_def)
    next
      case False
      have "b' = b2" using assms(1) t n a False by (auto simp: emit_leave_by_card_def io_simps split: sum.splits option.splits if_splits)
      with b2 show ?thesis by (simp add: cardless_def)
    qed
  next
    case False
    have "b' = b1" using assms(1) t False by (auto simp: emit_leave_by_card_def io_simps split: sum.splits)
    with b1 show ?thesis by (simp add: cardless_def)
  qed
qed

text \<open>A plan that leaves the drive and five minutes before the start, and still lies ahead.\<close>

definition timely :: "bus \<Rightarrow> pyval \<Rightarrow> leave_plan \<Rightarrow> bool" where
  "timely b start_raw p \<longleftrightarrow> parse_start start_raw = Some (lp_start p) \<and>
     utc_us (lp_due p) = utc_us (lp_start p) - (lp_minutes p + 5) * 60000000 \<and> bus_now b < utc_us (lp_due p)"

lemma propose_leave_run:
  assumes "propose_leave E c event location start_raw result b = (b', r)" "cardless b0 b"
  shows "bu_leave b' = bu_leave b0 \<and> (inbox_posts b' = inbox_posts b0 \<or>
    (\<exists>target action p. inbox_posts b' = proposal_post (rx_household c) (leave_card target (rx_user c) p action) # inbox_posts b0 \<and>
      lp_event p = event \<and> timely b0 start_raw p))"
proof (cases "py_int (dget result ''duration_minutes'')")
  case (Inl e)
  then show ?thesis using assms by (simp add: propose_leave_def io_simps cardless_def)
next
  case minutes: (Inr minutes)
  show ?thesis
  proof (cases "parse_start start_raw")
    case None
    then show ?thesis using assms minutes by (simp add: propose_leave_def io_simps cardless_def)
  next
    case (Some start)
    show ?thesis
    proof (cases "add_us start (- ((minutes + leave_buffer_minutes) * minute_us))")
      case (Inl e)
      then show ?thesis using assms minutes Some by (simp add: propose_leave_def io_simps cardless_def)
    next
      case (Inr due)
      let ?p = "\<lparr>lp_event = event, lp_title = oor (Some (meta_text (rx_facts c) ''title'')) ''your appointment'', lp_due = due,
                   lp_start = start, lp_minutes = minutes,
                   lp_address = oor (Some (meta_text result ''destination'')) location,
                   lp_display = meta_text (rx_facts c) ''start_display'',
                   lp_duration = oor (Some (meta_text result ''duration_text'')) (int_str minutes @ '' min'')\<rparr>"
      have due: "utc_us due = utc_us start - (minutes + 5) * 60000000"
        using Inr by (auto simp: add_us_def utc_us_def minute_us_def leave_buffer_minutes_def split: if_splits)
      show ?thesis
      proof (cases "utc_us due \<le> bus_now b")
        case True
        then show ?thesis using assms minutes Some Inr by (simp add: propose_leave_def io_simps Let_def cardless_def)
      next
        case False
        obtain b1 s where save: "save_leave_by_signal (rx_household c) (rx_node c) (rx_user c) ?p b = (b1, s)" by fastforce
        have b1: "cardless b0 b1" using keepsD' [OF cardless_save assms(2) save] .
        obtain b2 e where emit: "emit_leave_by_card E (rx_household c) (rx_user c) ?p b1 = (b2, e)" by fastforce
        have "b' = b2 \<or> b' = b1"
          using assms(1) minutes Some Inr False save emit by (auto simp: propose_leave_def io_simps Let_def split: sum.splits)
        moreover have "timely b0 start_raw ?p"
          using Some due False assms(2) by (simp add: timely_def cardless_def)
        ultimately show ?thesis using leave_card_run [OF emit b1] b1 by (fastforce simp: cardless_def)
      qed
    qed
  qed
qed

definition start_text :: "reaction_ctx \<Rightarrow> pyval" where
  "start_text c = por (dget (rx_facts c) ''start_iso'') (dget (rx_facts c) ''start'')"

definition event_key :: "reaction_ctx \<Rightarrow> string" where
  "event_key c = rx_household c @ '':'' @ py_str (por (dget (rx_facts c) ''event_id'') (por (dget (rx_facts c) ''id'') (start_text c)))"

lemma react_claimed: "event_key c \<in> set (bu_leave b) \<Longrightarrow> fst (react_to_appt_upcoming E c b) = b"
  by (simp add: react_to_appt_upcoming_def event_key_def start_text_def Let_def io_simps claim_event_def)

lemma react_suppressed: "leave_suppressed (rx_household c) (rx_user c) b \<Longrightarrow> fst (react_to_appt_upcoming E c b) = b"
  by (simp add: react_to_appt_upcoming_def Let_def io_simps)

text \<open>What happens once the event is claimed.\<close>

definition leave_tail :: "bus_env \<Rightarrow> reaction_ctx \<Rightarrow> (bus, string) io" where
  "leave_tail E c = catch
        (bind (node_command_names E (oor (rx_node c) [])) (\<lambda>names.
         if PStr ''get_drive_time'' \<notin> set names then ret ''no_drive_time''
         else bind (dispatch_node_command E (oor (rx_node c) []) ''get_drive_time'' (drive_args (meta_text (rx_facts c) ''location'')) (rx_user c))
           (\<lambda>result. if \<not> truthy (dget result ''success'') then ret ''no_route''
            else propose_leave E c (py_str (por (dget (rx_facts c) ''event_id'') (por (dget (rx_facts c) ''id'') (start_text c))))
              (meta_text (rx_facts c) ''location'') (start_text c) result)))
        (\<lambda>_. ret ''error'')"

lemma leave_tail_run:
  assumes "leave_tail E c b = (b', r)"
  shows "bu_leave b' = bu_leave b \<and> (inbox_posts b' = inbox_posts b \<or>
    (\<exists>target action p. inbox_posts b' = proposal_post (rx_household c) (leave_card target (rx_user c) p action) # inbox_posts b \<and>
      timely b (start_text c) p))"
proof -
  let ?node = "oor (rx_node c) []" and ?loc = "meta_text (rx_facts c) ''location''"
  have refl: "cardless b b" by (simp add: cardless_def)
  obtain b1 names where n: "node_command_names E ?node b = (b1, names)" by fastforce
  have b1: "cardless b b1" using keepsD' [OF cardless_names refl n] .
  obtain b2 out where d: "dispatch_node_command E ?node ''get_drive_time'' (drive_args ?loc) (rx_user c) b1 = (b2, out)" by fastforce
  have b2: "cardless b b2" using keepsD' [OF cardless_dispatch b1 d] .
  show ?thesis
  proof (cases "case names of Inr ns \<Rightarrow> PStr ''get_drive_time'' \<in> set ns \<and> (case out of Inr res \<Rightarrow> truthy (dget res ''success'') | Inl e \<Rightarrow> False) | Inl e \<Rightarrow> False")
    case True
    then obtain ns res where ok: "names = Inr ns" "PStr ''get_drive_time'' \<in> set ns" "out = Inr res" "truthy (dget res ''success'')"
      by (auto split: sum.splits)
    obtain b3 r3 where p: "propose_leave E c (py_str (por (dget (rx_facts c) ''event_id'') (por (dget (rx_facts c) ''id'') (start_text c))))
        ?loc (start_text c) res b2 = (b3, r3)" by fastforce
    have "b' = b3" using assms n d ok p by (auto simp: leave_tail_def io_simps split: sum.splits)
    with propose_leave_run [OF p b2] show ?thesis by blast
  next
    case False
    have "b' = b1 \<or> b' = b2" using assms n d False by (auto simp: leave_tail_def io_simps split: sum.splits if_splits)
    with b1 b2 show ?thesis by (auto simp: cardless_def)
  qed
qed


subsection \<open>Never suggest this again\<close>

lemma set_sort_strs [simp]: "set (sort_strs xs) = set xs"
proof -
  have "set (insert_str x ys) = insert x (set ys)" for x ys by (induction ys) auto
  then show ?thesis unfolding sort_strs_def by (induction xs) simp_all
qed

lemma set_dedupe [simp]: "set (dedupe xs) = set xs"
  by (induction xs rule: dedupe.induct) auto

text \<open>
  C37. Ruling a kind of card out holds: after the tap that suppresses leave-by cards, in whatever state it
  finds the tables, an upcoming appointment of that user in that household does nothing at all.
\<close>

theorem suppression_honoured:
  assumes "action_meta ctx = Inr meta" "meta_text meta ''target_command'' = ''reminder''"
    "meta_text (cx_data ctx) ''source'' = leave_source" "rx_household c = cx_household ctx" "rx_user c = cx_user ctx"
  shows "fst (react_to_appt_upcoming E c (fst (handle_suppress ctx b))) = fst (handle_suppress ctx b)"
proof (rule react_suppressed)
  let ?d = "Some (meta_text (cx_data ctx) ''descriptor'')"
  have run: "fst (handle_suppress ctx b) = fst (record_suppression (cx_household ctx) (cx_user ctx) ''reminder'' (Some leave_source) ?d b)"
    using assms(1-3) by (simp add: handle_suppress_def Let_def io_simps leave_source_def split: prod.split sum.split)
  have "\<exists>s \<in> set (bu_supps (fst (record_suppression (cx_household ctx) (cx_user ctx) ''reminder'' (Some leave_source) ?d b))).
      same_suppression (cx_household ctx) (cx_user ctx) ''reminder'' leave_source s"
  proof (cases "find (same_suppression (cx_household ctx) (cx_user ctx) ''reminder'' leave_source) (bu_supps b)")
    case None
    then show ?thesis by (simp add: record_suppression_def Let_def otruthy_def leave_source_def same_suppression_def)
  next
    case (Some s)
    then have "s \<in> set (bu_supps b)" "same_suppression (cx_household ctx) (cx_user ctx) ''reminder'' leave_source s"
      by (auto simp: find_Some_iff)
    moreover define f where "f r = (if su_id (r :: suppression) = su_id s
        then r\<lparr>su_descriptor := (if otruthy ?d then ?d else su_descriptor r), su_created := bus_now b\<rparr> else r)" for r :: suppression
    have "bu_supps (fst (record_suppression (cx_household ctx) (cx_user ctx) ''reminder'' (Some leave_source) ?d b)) = map f (bu_supps b)"
      using Some unfolding f_def by (simp add: record_suppression_def otruthy_def leave_source_def)
    moreover have "same_suppression (cx_household ctx) (cx_user ctx) ''reminder'' leave_source (f s)"
      using calculation(2) by (simp add: f_def same_suppression_def)
    ultimately show ?thesis by (metis imageI list.set_map)
  qed
  then show "leave_suppressed (rx_household c) (rx_user c) (fst (handle_suppress ctx b))"
    using assms(4,5) unfolding run
    by (force simp: leave_suppressed_def suppression_signals_def list_suppressions_def Let_def same_suppression_def otruthy_def leave_source_def)
qed

definition sample_tap :: cb_ctx where
  "sample_tap = \<lparr>cx_job = ''id_1'', cx_household = ''h1'', cx_user = Some 1,
     cx_data = [(''_action'', PDict [(''target_command'', PStr ''reminder'')]), (''source'', PStr ''leaveby'')], cx_navigation = ''new_notification''\<rparr>"

definition sample_appointment :: reaction_ctx where
  "sample_appointment = \<lparr>rx_household = ''h1'', rx_node = Some ''n1'', rx_user = Some 1, rx_kind = ''appt.upcoming'',
     rx_facts = [(''location'', PStr ''Main St''), (''start_iso'', PStr ''2030-01-01T10:00:00Z'')]\<rparr>"

theorem suppression_honoured_witness:
  "fst (react_to_appt_upcoming sample_bus_env sample_appointment (fst (handle_suppress sample_tap sample_bus))) =
     fst (handle_suppress sample_tap sample_bus) \<and> bu_supps (fst (handle_suppress sample_tap sample_bus)) \<noteq> []"
proof -
  have "action_meta sample_tap = Inr [(''target_command'', PStr ''reminder'')]" by code_simp
  moreover have "bu_supps (fst (handle_suppress sample_tap sample_bus)) \<noteq> []" by code_simp
  ultimately show ?thesis
    using suppression_honoured [of sample_tap "[(''target_command'', PStr ''reminder'')]" sample_appointment sample_bus_env sample_bus]
    by (simp add: sample_tap_def sample_appointment_def leave_source_def meta_text_def dget_def dget_or_def)
qed

end
