(* ===== verification/Routines.thy ===== *)
theory Routines
  imports Signal_Reactions
begin

section \<open>Routines of a household\<close>

text \<open>
  \<^verbatim>\<open>app/api/routines.py\<close> and \<^verbatim>\<open>app/services/routine_scheduler.py\<close>: the table of routines, their authoring,
  what a node pulls, runs on a node with their audit rows and completion cards, and the pass that fires what is due.
  JSON columns are values. A node reports an error and a message as text or not at all; the pictograph in
  front of a card's title is left out. The croniter package gives the next occurrence after an instant, or raises.
\<close>

subsection \<open>State\<close>

record routine =
  ro_id :: string
  ro_household :: string
  ro_slug :: string
  ro_name :: string
  ro_phrases :: "string list"
  ro_steps :: "pyval list"
  ro_instruction :: string
  ro_length :: string
  ro_schedule :: "pydict option"
  ro_enabled :: bool
  ro_created :: int
  ro_updated :: int

record routine_run =
  rr_id :: string
  rr_routine :: string
  rr_household :: string
  rr_node :: string
  rr_trigger :: string
  rr_status :: string
  rr_passed :: int
  rr_failed :: int
  rr_error :: "string option"
  rr_started :: int
  rr_finished :: int

record rworld =
  rw_bus :: bus
  rw_routines :: "routine list"
  rw_runs :: "routine_run list"

record routine_env =
  re_bus :: bus_env
  re_zone :: "string \<Rightarrow> zone option"
  re_cron :: "string \<Rightarrow> zone \<Rightarrow> int \<Rightarrow> exc + int"

definition on_bus :: "(bus, 'a) io \<Rightarrow> (rworld, 'a) io" where
  "on_bus m = (\<lambda>w. case m (rw_bus w) of (b, r) \<Rightarrow> (w\<lparr>rw_bus := b\<rparr>, r))"

definition rw_now :: "rworld \<Rightarrow> int" where
  "rw_now w = bus_now (rw_bus w)"

subsection \<open>Slugs\<close>

definition slug_char :: "char \<Rightarrow> bool" where
  "slug_char c \<longleftrightarrow> is_digit c \<or> 97 \<le> code c \<and> code c \<le> 122"

text \<open>Every run of other characters becomes one underscore.\<close>

fun squeeze :: "bool \<Rightarrow> string \<Rightarrow> string" where
  "squeeze inside [] = []"
| "squeeze inside (c # s) =
     (if slug_char c then c # squeeze False s
      else if inside then squeeze True s else CHR ''_'' # squeeze True s)"

definition strip_underscores :: "string \<Rightarrow> string" where
  "strip_underscores s = rev (dropWhile (\<lambda>c. c = CHR ''_'') (rev (dropWhile (\<lambda>c. c = CHR ''_'') s)))"

definition slugify :: "string \<Rightarrow> string" where
  "slugify name = or_else (strip_underscores (squeeze False (lower (strip name)))) ''routine''"

definition numbered_slug :: "string \<Rightarrow> nat \<Rightarrow> string" where
  "numbered_slug base i = base @ ''_'' @ nat_str i"

function next_free :: "string \<Rightarrow> string list \<Rightarrow> nat \<Rightarrow> string" where
  "next_free base taken i = (if numbered_slug base i \<in> set taken then next_free base taken (Suc i) else numbered_slug base i)"
  by pat_completeness auto

termination
proof (relation "measure (\<lambda>(base, taken, i). card {s \<in> set taken. \<exists>j \<ge> i. s = numbered_slug base j})", goal_cases)
  case (2 base taken i)
  have "{s \<in> set taken. \<exists>j \<ge> Suc i. s = numbered_slug base j} \<subset> {s \<in> set taken. \<exists>j \<ge> i. s = numbered_slug base j}"
  proof
    show "{s \<in> set taken. \<exists>j \<ge> Suc i. s = numbered_slug base j} \<subseteq> {s \<in> set taken. \<exists>j \<ge> i. s = numbered_slug base j}"
      by (auto intro: Suc_leD)
    have "numbered_slug base i \<notin> {s \<in> set taken. \<exists>j \<ge> Suc i. s = numbered_slug base j}" by (auto simp: numbered_slug_def)
    with 2 show "{s \<in> set taken. \<exists>j \<ge> Suc i. s = numbered_slug base j} \<noteq> {s \<in> set taken. \<exists>j \<ge> i. s = numbered_slug base j}" by auto
  qed
  then show ?case by (simp add: psubset_card_mono)
qed simp

declare next_free.simps [simp del]

definition slugs_of :: "string \<Rightarrow> routine list \<Rightarrow> string list" where
  "slugs_of hh rows = map ro_slug (filter (\<lambda>r. ro_household r = hh) rows)"

definition unique_slug :: "string \<Rightarrow> string \<Rightarrow> routine list \<Rightarrow> string" where
  "unique_slug hh name rows =
     (let base = slugify name; taken = slugs_of hh rows in if base \<notin> set taken then base else next_free base taken 2)"

subsection \<open>Shapes\<close>

definition arg_value :: "pyval \<Rightarrow> pyval" where
  "arg_value v = (case v of
      PStr s \<Rightarrow> if take 1 s \<in> {''['', ''{''} then (case json_loads s of Some x \<Rightarrow> x | None \<Rightarrow> v) else v
    | _ \<Rightarrow> v)"

definition flatten_args :: "pyval list \<Rightarrow> pydict" where
  "flatten_args pairs = foldl (\<lambda>out p. case p of
      PDict d \<Rightarrow> (case dget d ''key'' of
          PStr k \<Rightarrow> if k = [] then out else dset out k (arg_value (dget_or d ''value'' (PStr [])))
        | _ \<Rightarrow> out)
    | _ \<Rightarrow> out) [] pairs"

definition strs :: "string list \<Rightarrow> pyval" where
  "strs xs = PList (map PStr xs)"

definition routine_to_mobile :: "routine \<Rightarrow> pydict" where
  "routine_to_mobile r =
     [(''id'', PStr (ro_id r)), (''slug'', PStr (ro_slug r)), (''name'', PStr (ro_name r)), (''trigger_phrases'', strs (ro_phrases r)),
      (''steps'', PList (ro_steps r)), (''response_instruction'', PStr (ro_instruction r)),
      (''response_length'', PStr (or_else (ro_length r) ''short'')),
      (''schedule'', case ro_schedule r of None \<Rightarrow> PNone | Some d \<Rightarrow> PDict d), (''enabled'', PBool (ro_enabled r)),
      (''created_at'', PStr (isoformat (ro_created r))), (''updated_at'', PStr (isoformat (ro_updated r)))]"

definition node_step :: "pyval \<Rightarrow> exc + pyval" where
  "node_step v = rbind (as_dict v) (\<lambda>s. rbind (each (dget s ''args'')) (\<lambda>args.
     Inr (PDict [(''command'', dget s ''command''), (''args'', PDict (flatten_args args)), (''label'', dget_or s ''label'' (PStr []))])))"

definition routine_to_node :: "routine \<Rightarrow> exc + pydict" where
  "routine_to_node r = rbind (rmap node_step (ro_steps r)) (\<lambda>steps.
     Inr [(''trigger_phrases'', strs (ro_phrases r)), (''steps'', PList steps), (''response_instruction'', PStr (ro_instruction r)),
          (''response_length'', PStr (or_else (ro_length r) ''short''))])"

subsection \<open>Authoring\<close>

record routine_schedule =
  rs_type :: string
  rs_cron :: "string option"
  rs_seconds :: "int option"
  rs_zone :: string
  rs_target :: "string option"
  rs_enabled :: bool
  rs_last :: "string option"

record step_in =
  st_command :: string
  st_args :: "(string \<times> string) list"
  st_label :: string

record routine_in =
  ri_name :: string
  ri_phrases :: "string list"
  ri_steps :: "step_in list"
  ri_instruction :: string
  ri_length :: string
  ri_schedule :: "routine_schedule option"
  ri_enabled :: bool

text \<open>A field that is not provided is \<open>None\<close>; a schedule may be provided as null.\<close>

record routine_edit =
  ed_name :: "string option"
  ed_phrases :: "string list option"
  ed_steps :: "step_in list option"
  ed_instruction :: "string option"
  ed_length :: "string option"
  ed_schedule :: "routine_schedule option option"
  ed_enabled :: "bool option"

definition dump_step :: "step_in \<Rightarrow> pyval" where
  "dump_step s = PDict [(''command'', PStr (st_command s)),
     (''args'', PList (map (\<lambda>(k, v). PDict [(''key'', PStr k), (''value'', PStr v)]) (st_args s))), (''label'', PStr (st_label s))]"

definition resolve_target_node_id :: "bus_env \<Rightarrow> string \<Rightarrow> string option \<Rightarrow> bus \<Rightarrow> string option" where
  "resolve_target_node_id E hh provided b =
     (if otruthy provided then provided
      else case setting E ''smart_home.primary_node_id'' hh b of
        Inr (PStr s) \<Rightarrow> if s = [] then None else Some s
      | _ \<Rightarrow> None)"

definition check_length :: "string \<Rightarrow> exc + unit" where
  "check_length s = (if s \<in> {''short'', ''medium'', ''long''} then Inr ()
     else Inl (HTTPError 422 (''response_length must be one of ['' @ squoted ''long'' @ '', '' @ squoted ''medium'' @ '', '' @ squoted ''short'' @ '']'')))"

definition check_schedule :: "routine_schedule \<Rightarrow> exc + unit" where
  "check_schedule s =
     (if rs_type s \<noteq> ''cron'' \<and> rs_type s \<noteq> ''interval''
      then Inl (HTTPError 422 (''schedule.type must be '' @ squoted ''cron'' @ '' or '' @ squoted ''interval''))
      else if rs_type s = ''cron'' \<and> strip (oor (rs_cron s) []) = []
      then Inl (HTTPError 422 (''cron schedule requires a '' @ squoted ''cron'' @ '' expression''))
      else if rs_type s = ''interval'' \<and> \<not> (case rs_seconds s of None \<Rightarrow> False | Some n \<Rightarrow> n > 0)
      then Inl (HTTPError 422 ''interval schedule requires interval_seconds > 0'')
      else Inr ())"

definition schedule_to_json :: "bus_env \<Rightarrow> string \<Rightarrow> routine_schedule option \<Rightarrow> bus \<Rightarrow> exc + pydict option" where
  "schedule_to_json E hh sched b = (case sched of
      None \<Rightarrow> Inr None
    | Some s \<Rightarrow> rbind (check_schedule s) (\<lambda>_.
        Inr (Some [(''type'', PStr (rs_type s)), (''cron'', opt_str (rs_cron s)), (''interval_seconds'', opt_int (rs_seconds s)),
          (''timezone'', PStr (rs_zone s)), (''target_node_id'', opt_str (resolve_target_node_id E hh (rs_target s) b)),
          (''enabled'', PBool (rs_enabled s)), (''last_fired_at'', opt_str (rs_last s))])))"

fun nudge :: "bus_env \<Rightarrow> string \<Rightarrow> string list \<Rightarrow> (bus, unit) io" where
  "nudge E hh [] = ret ()"
| "nudge E hh (n # ns) =
     bind (catch (bind (ask_bus E (Mqtt (''jarvis/nodes/'' @ n @ ''/routines/sync'')
             (PDict [(''event'', PStr ''routines_changed''), (''household_id'', PStr hh)]))) (\<lambda>_. ret ())) (\<lambda>_. ret ()))
       (\<lambda>_. nudge E hh ns)"

definition publish_routines_sync :: "bus_env \<Rightarrow> string \<Rightarrow> (bus, unit) io" where
  "publish_routines_sync E hh =
     (if \<not> be_mqtt E then ret ()
      else bind (gets (\<lambda>b. map nd_id (filter (\<lambda>n. nd_household n = Some hh \<and> nd_active n) (bu_nodes b)))) (nudge E hh))"

text \<open>The caller of the authoring endpoints: \<open>None\<close> is the administration key.\<close>

definition household_access :: "bus_env \<Rightarrow> string \<Rightarrow> int option \<Rightarrow> exc + unit" where
  "household_access E hh user = (case user of
      None \<Rightarrow> Inr ()
    | Some u \<Rightarrow> if hh = [] then Inl (HTTPError 403 ''Not authorized'') else require_role E u hh ''member'')"

definition list_routines :: "bus_env \<Rightarrow> string \<Rightarrow> int option \<Rightarrow> rworld \<Rightarrow> exc + pydict list" where
  "list_routines E hh user w = rbind (household_access E hh user) (\<lambda>_.
     Inr (map routine_to_mobile (sort_key ro_created (filter (\<lambda>r. ro_household r = hh) (rw_routines w)))))"

definition create_routine :: "bus_env \<Rightarrow> string \<Rightarrow> routine_in \<Rightarrow> int option \<Rightarrow> (rworld, pydict) io" where
  "create_routine E hh body user =
     bind (lift (household_access E hh user)) (\<lambda>_.
     if strip (ri_name body) = [] then throw (HTTPError 422 ''name is required'')
     else bind (lift (check_length (ri_length body))) (\<lambda>_.
     bind (on_bus bus_id) (\<lambda>n.
     bind (gets (\<lambda>w. schedule_to_json E hh (ri_schedule body) (rw_bus w))) (\<lambda>sched.
     bind (lift sched) (\<lambda>s.
     bind (gets (\<lambda>w. \<lparr>ro_id = uuid n, ro_household = hh, ro_slug = unique_slug hh (ri_name body) (rw_routines w),
        ro_name = strip (ri_name body), ro_phrases = ri_phrases body, ro_steps = map dump_step (ri_steps body),
        ro_instruction = ri_instruction body, ro_length = ri_length body, ro_schedule = s, ro_enabled = ri_enabled body,
        ro_created = rw_now w, ro_updated = rw_now w\<rparr>)) (\<lambda>r.
     bind (modify (\<lambda>w. w\<lparr>rw_routines := rw_routines w @ [r]\<rparr>)) (\<lambda>_.
     bind (on_bus (publish_routines_sync E hh)) (\<lambda>_.
     ret (routine_to_mobile r)))))))))"

definition find_routine :: "string \<Rightarrow> string \<Rightarrow> rworld \<Rightarrow> routine option" where
  "find_routine hh rid w = find (\<lambda>r. ro_id r = rid \<and> ro_household r = hh) (rw_routines w)"

definition get_or_404 :: "string \<Rightarrow> string \<Rightarrow> (rworld, routine) io" where
  "get_or_404 hh rid = bind (gets (find_routine hh rid)) (\<lambda>r. case r of
      None \<Rightarrow> throw (HTTPError 404 ''Routine not found'') | Some x \<Rightarrow> ret x)"

definition get_routine :: "bus_env \<Rightarrow> string \<Rightarrow> string \<Rightarrow> int option \<Rightarrow> (rworld, pydict) io" where
  "get_routine E hh rid user =
     bind (lift (household_access E hh user)) (\<lambda>_. bind (get_or_404 hh rid) (\<lambda>r. ret (routine_to_mobile r)))"

text \<open>\<open>updated_at\<close> moves when a column changed.\<close>

definition touched :: "int \<Rightarrow> routine \<Rightarrow> routine \<Rightarrow> routine" where
  "touched now r r' = (if r' = r then r else r'\<lparr>ro_updated := now\<rparr>)"

definition edited :: "routine_edit \<Rightarrow> pydict option option \<Rightarrow> int \<Rightarrow> routine \<Rightarrow> routine" where
  "edited e sched now r = touched now r (r\<lparr>
     ro_name := (case ed_name e of Some n \<Rightarrow> if n = [] then ro_name r else strip n | None \<Rightarrow> ro_name r),
     ro_phrases := (case ed_phrases e of Some p \<Rightarrow> p | None \<Rightarrow> ro_phrases r),
     ro_steps := (case ed_steps e of Some s \<Rightarrow> map dump_step s | None \<Rightarrow> ro_steps r),
     ro_instruction := (case ed_instruction e of Some i \<Rightarrow> i | None \<Rightarrow> ro_instruction r),
     ro_length := (case ed_length e of Some l \<Rightarrow> l | None \<Rightarrow> ro_length r),
     ro_schedule := (case sched of Some s \<Rightarrow> s | None \<Rightarrow> ro_schedule r),
     ro_enabled := (case ed_enabled e of Some b \<Rightarrow> b | None \<Rightarrow> ro_enabled r)\<rparr>)"

definition put_routine :: "string \<Rightarrow> (routine \<Rightarrow> routine) \<Rightarrow> rworld \<Rightarrow> rworld" where
  "put_routine rid f w = w\<lparr>rw_routines := map (\<lambda>r. if ro_id r = rid then f r else r) (rw_routines w)\<rparr>"

text \<open>A fault leaves the row as it was: what was assigned before is not committed.\<close>

definition update_routine :: "bus_env \<Rightarrow> string \<Rightarrow> string \<Rightarrow> routine_edit \<Rightarrow> int option \<Rightarrow> (rworld, pydict) io" where
  "update_routine E hh rid e user =
     bind (lift (household_access E hh user)) (\<lambda>_.
     bind (get_or_404 hh rid) (\<lambda>r.
     bind (lift (case ed_length e of None \<Rightarrow> Inr () | Some l \<Rightarrow> check_length l)) (\<lambda>_.
     bind (gets (\<lambda>w. case ed_schedule e of None \<Rightarrow> Inr None
        | Some s \<Rightarrow> rbind (schedule_to_json E hh s (rw_bus w)) (\<lambda>d. Inr (Some d)))) (\<lambda>sched.
     bind (lift sched) (\<lambda>s.
     bind (gets rw_now) (\<lambda>now.
     bind (modify (put_routine rid (edited e s now))) (\<lambda>_.
     bind (on_bus (publish_routines_sync E hh)) (\<lambda>_.
     ret (routine_to_mobile (edited e s now r))))))))))"

text \<open>The audit rows go with their routine.\<close>

definition delete_routine :: "bus_env \<Rightarrow> string \<Rightarrow> string \<Rightarrow> int option \<Rightarrow> (rworld, unit) io" where
  "delete_routine E hh rid user =
     bind (lift (household_access E hh user)) (\<lambda>_.
     bind (get_or_404 hh rid) (\<lambda>r.
     bind (modify (\<lambda>w. w\<lparr>rw_routines := filter (\<lambda>r. ro_id r \<noteq> rid) (rw_routines w),
       rw_runs := filter (\<lambda>x. rr_routine x \<noteq> rid) (rw_runs w)\<rparr>)) (\<lambda>_.
     on_bus (publish_routines_sync E hh))))"

definition node_pull_routines :: "string \<Rightarrow> string \<times> string option \<Rightarrow> rworld \<Rightarrow> exc + (string \<times> pydict) list" where
  "node_pull_routines node auth w =
     (if fst auth \<noteq> node then Inl (HTTPError 403 ''Node mismatch'')
      else if \<not> otruthy (snd auth) then Inr []
      else rmap (\<lambda>r. rbind (routine_to_node r) (\<lambda>d. Inr (ro_slug r, d)))
             (filter (\<lambda>r. ro_household r = oor (snd auth) [] \<and> ro_enabled r) (rw_routines w)))"

subsection \<open>Runs\<close>

record run_result =
  ru_success :: bool
  ru_status :: string
  ru_message :: "string option"
  ru_passed :: int
  ru_failed :: int
  ru_error :: "string option"

definition text_or_none :: "pydict \<Rightarrow> string \<Rightarrow> string option" where
  "text_or_none d k = (case dget d k of PStr s \<Rightarrow> Some s | _ \<Rightarrow> None)"

definition record_execution :: "routine \<Rightarrow> string \<Rightarrow> string \<Rightarrow> string \<Rightarrow> run_result \<Rightarrow> string option \<Rightarrow> int \<Rightarrow> (rworld, unit) io" where
  "record_execution r hh node trigger res err started =
     bind (on_bus bus_id) (\<lambda>n. modify (\<lambda>w. w\<lparr>rw_runs := rw_runs w @ [\<lparr>rr_id = uuid n, rr_routine = ro_id r, rr_household = hh, rr_node = node,
        rr_trigger = trigger, rr_status = ru_status res, rr_passed = ru_passed res, rr_failed = ru_failed res, rr_error = err,
        rr_started = started, rr_finished = rw_now w\<rparr>]\<rparr>))"

definition routine_headline :: "string \<Rightarrow> string" where
  "routine_headline st =
     (if st = ''success'' then ''finished'' else if st = ''partial'' then ''finished with issues''
      else if st = ''timeout'' then ''didn'' @ [CHR 0x27] @ ''t finish'' else ''couldn'' @ [CHR 0x27] @ ''t run'')"

definition run_summary :: "run_result \<Rightarrow> string" where
  "run_summary res =
     (if ru_status res \<in> {''success'', ''partial''} \<and> otruthy (ru_message res) then oor (ru_message res) []
      else if ru_status res = ''timeout'' then ''The node didn'' @ [CHR 0x27] @ ''t respond in time.''
      else oor (ru_message res) (oor (ru_error res) ''The routine did not complete.''))"

definition notify_routine_complete :: "routine_env \<Rightarrow> routine \<Rightarrow> string \<Rightarrow> run_result \<Rightarrow> int option \<Rightarrow> (rworld, unit) io" where
  "notify_routine_complete R r hh res user =
     catch (bind (on_bus (post_card (re_bus R) hh (squoted (ro_name r) @ '' '' @ routine_headline (ru_status res)) (run_summary res) (run_summary res)
        ''routine'' [(''household_id'', PStr hh), (''routine_id'', PStr (ro_id r)), (''status'', PStr (ru_status res))] user True
        (if user = None then ''household'' else ''user''))) (\<lambda>_. ret ())) (\<lambda>_. ret ())"

text \<open>What a run returns is recorded first, then a detached run posts its card.\<close>

definition finish_run :: "routine_env \<Rightarrow> routine \<Rightarrow> string \<Rightarrow> string \<Rightarrow> string \<Rightarrow> bool \<Rightarrow> int option \<Rightarrow> int
    \<Rightarrow> run_result \<times> string option \<Rightarrow> (rworld, run_result) io" where
  "finish_run R r hh node trigger notify user started = (\<lambda>(res, err).
     bind (record_execution r hh node trigger res err started) (\<lambda>_.
     bind (if notify then notify_routine_complete R r hh res user else ret ()) (\<lambda>_. ret res)))"

definition unpublished :: "string \<Rightarrow> run_result \<times> string option" where
  "unpublished m = (\<lparr>ru_success = False, ru_status = ''failed'', ru_message = None, ru_passed = 0, ru_failed = 0, ru_error = Some m\<rparr>, Some m)"

definition timed_out :: "run_result \<times> string option" where
  "timed_out = (\<lparr>ru_success = False, ru_status = ''timeout'', ru_message = None, ru_passed = 0, ru_failed = 0, ru_error = None\<rparr>,
     Some ''node did not respond'')"

text \<open>The error a node reports goes to the audit row; the result does not carry it.\<close>

definition reported :: "pyval \<Rightarrow> exc + run_result \<times> string option" where
  "reported v = rbind (as_dict v) (\<lambda>result.
     rbind (as_dict (por (dget_or result ''output'' (PDict [])) (PDict []))) (\<lambda>output.
     rbind (py_int (por (dget_or output ''passed'' (PInt 0)) (PInt 0))) (\<lambda>passed.
     rbind (py_int (por (dget_or output ''failed'' (PInt 0)) (PInt 0))) (\<lambda>failed.
     let success = truthy (dget_or output ''success'' (PBool False)) in
     Inr (\<lparr>ru_success = success, ru_status = (if \<not> success then ''failed'' else if failed > 0 then ''partial'' else ''success''),
          ru_message = text_or_none output ''message'', ru_passed = passed, ru_failed = failed, ru_error = None\<rparr>,
       text_or_none output ''error'')))))"

definition run_details :: "string \<Rightarrow> string \<Rightarrow> string \<Rightarrow> pydict" where
  "run_details slug rid call =
     [(''routine_name'', PStr slug), (''reply_request_id'', PStr rid), (''tool_call_id'', PStr call), (''trusted'', PBool True),
      (''voice_command'', PStr (''routine: '' @ slug))]"

definition execute_routine_on_node ::
    "routine_env \<Rightarrow> string \<Rightarrow> routine \<Rightarrow> string \<Rightarrow> string \<Rightarrow> bool \<Rightarrow> int option \<Rightarrow> (rworld, run_result) io" where
  "execute_routine_on_node R hh r node trigger notify user =
     bind (on_bus bus_id) (\<lambda>n. bind (on_bus bus_id) (\<lambda>m.
     bind (gets rw_now) (\<lambda>started.
     bind (catch (bind (on_bus (publish_command_with_id (re_bus R) node ''routine'' (run_details (ro_slug r) (uuid n) (uuid m)) (uuid n)))
         (\<lambda>_. ret None)) (\<lambda>e. ret (Some (exc_str e)))) (\<lambda>fault. case fault of
       Some m \<Rightarrow> finish_run R r hh node trigger notify user started (unpublished m)
     | None \<Rightarrow> bind (on_bus (ask_bus (re_bus R) (Ask_result (uuid n)))) (\<lambda>v.
         if v = PNone then finish_run R r hh node trigger notify user started timed_out
         else bind (lift (reported v)) (finish_run R r hh node trigger notify user started))))))"

definition run_routine_now :: "routine_env \<Rightarrow> string \<Rightarrow> string \<Rightarrow> string option \<Rightarrow> int option \<Rightarrow> (rworld, run_result) io" where
  "run_routine_now R hh rid node user =
     bind (lift (household_access (re_bus R) hh user)) (\<lambda>_.
     bind (get_or_404 hh rid) (\<lambda>r.
     bind (gets (\<lambda>w. if otruthy node then node else resolve_target_node_id (re_bus R) hh None (rw_bus w))) (\<lambda>target.
     if \<not> otruthy target then throw (HTTPError 400 ''No node specified and no household primary node configured'')
     else execute_routine_on_node R hh r (oor target []) ''run_now'' False None)))"

definition not_started :: run_result where
  "not_started = \<lparr>ru_success = False, ru_status = ''failed'', ru_message = None, ru_passed = 0, ru_failed = 0,
     ru_error = Some ''the routine could not be started''\<rparr>"

definition run_routine_background_task :: "routine_env \<Rightarrow> string \<Rightarrow> string \<Rightarrow> string \<Rightarrow> int option \<Rightarrow> (rworld, unit) io" where
  "run_routine_background_task R hh rid node user =
     bind (gets (\<lambda>w. find (\<lambda>r. ro_id r = rid) (rw_routines w))) (\<lambda>row. case row of
       None \<Rightarrow> ret ()
     | Some r \<Rightarrow> catch (bind (execute_routine_on_node R hh r node ''background'' True user) (\<lambda>_. ret ()))
         (\<lambda>_. bind (gets (\<lambda>w. find (\<lambda>r. ro_id r = rid) (rw_routines w))) (\<lambda>again. case again of
             None \<Rightarrow> ret ()
           | Some r' \<Rightarrow> notify_routine_complete R r' hh not_started user)))"

text \<open>The second part of the answer is the task that runs after it.\<close>

definition run_routine_in_background ::
    "string \<Rightarrow> int option \<Rightarrow> string \<times> string option \<Rightarrow> (rworld, string \<times> (string \<times> string \<times> string \<times> int option)) io" where
  "run_routine_in_background slug user auth =
     (if \<not> otruthy (snd auth) then throw (HTTPError 403 ''Node is not associated with a household'')
      else let hh = oor (snd auth) [] in
        bind (gets (\<lambda>w. find (\<lambda>r. ro_slug r = slug \<and> ro_household r = hh) (rw_routines w))) (\<lambda>row. case row of
          None \<Rightarrow> throw (HTTPError 404 (''Routine '' @ squoted slug @ '' not found''))
        | Some r \<Rightarrow> ret (ro_name r, (hh, ro_id r, fst auth, user))))"

subsection \<open>The scheduler\<close>

definition routine_zone :: "routine_env \<Rightarrow> pydict \<Rightarrow> zone" where
  "routine_zone R s = (case dget s ''timezone'' of
      PStr name \<Rightarrow> if name = [] then utc_zone else (case re_zone R name of Some z \<Rightarrow> z | None \<Rightarrow> utc_zone)
    | _ \<Rightarrow> utc_zone)"

text \<open>A naive stamp is UTC.\<close>

definition parse_last :: "pydict \<Rightarrow> int option" where
  "parse_last s = (case dget s ''last_fired_at'' of
      PStr t \<Rightarrow> if t = [] then None else (case fromisoformat t of None \<Rightarrow> None | Some d \<Rightarrow> Some (utc_us d))
    | _ \<Rightarrow> None)"

definition schedule_on :: "pydict \<Rightarrow> bool" where
  "schedule_on s \<longleftrightarrow> s \<noteq> [] \<and> truthy (dget_or s ''enabled'' (PBool True))"

text \<open>Datetimes of one zone are compared and moved by their wall clocks, also in an hour that is repeated.\<close>

definition is_due :: "routine_env \<Rightarrow> pydict \<Rightarrow> int \<Rightarrow> int option \<Rightarrow> exc + bool" where
  "is_due R s now last_fired =
     (if \<not> schedule_on s then Inr False
      else if dget s ''type'' = PStr ''interval'' then
        rbind (py_int (por (dget s ''interval_seconds'') (PInt 0))) (\<lambda>secs.
        Inr (secs > 0 \<and> (case last_fired of None \<Rightarrow> False | Some t \<Rightarrow> now - t \<ge> secs * 1000000)))
      else if dget s ''type'' = PStr ''cron'' then
        (case dget s ''cron'' of
           PStr c \<Rightarrow> if c = [] then Inr False
             else (case re_cron R c (routine_zone R s) (case last_fired of None \<Rightarrow> from_local (routine_zone R s) (to_local (routine_zone R s) now - minute_us) | Some t \<Rightarrow> t) of
                 Inl (ValueError m) \<Rightarrow> Inr False
               | Inl (KeyError m) \<Rightarrow> Inr False
               | Inl e \<Rightarrow> Inl e
               | Inr next_fire \<Rightarrow> Inr (to_local (routine_zone R s) next_fire \<le> to_local (routine_zone R s) now))
         | _ \<Rightarrow> Inr False)
      else Inr False)"

definition mark_fired :: "string \<Rightarrow> pydict \<Rightarrow> int \<Rightarrow> (rworld, unit) io" where
  "mark_fired rid s now = modify (\<lambda>w. put_routine rid
     (\<lambda>r. touched (rw_now w) r (r\<lparr>ro_schedule := Some (dset s ''last_fired_at'' (PStr (isoformat now @ ''+00:00'')))\<rparr>)) w)"

definition online_node :: "string \<Rightarrow> pydict \<Rightarrow> bus \<Rightarrow> string option" where
  "online_node hh s b = (case dget s ''target_node_id'' of
      PStr node \<Rightarrow> (case find (\<lambda>n. nd_id n = node \<and> nd_household n = Some hh \<and> nd_active n) (bu_nodes b) of
          None \<Rightarrow> None
        | Some n \<Rightarrow> (case nd_seen n of None \<Rightarrow> None | Some t \<Rightarrow> if node \<noteq> [] \<and> t \<ge> bus_now b - 900000000 then Some node else None))
    | _ \<Rightarrow> None)"

definition node_offline :: run_result where
  "node_offline = \<lparr>ru_success = False, ru_status = ''failed'', ru_message = None, ru_passed = 0, ru_failed = 0,
     ru_error = Some ''the target node was offline''\<rparr>"

definition fire_routine :: "routine_env \<Rightarrow> int \<Rightarrow> routine \<Rightarrow> pydict \<Rightarrow> (rworld, nat) io" where
  "fire_routine R now r s =
     bind (gets (\<lambda>w. online_node (ro_household r) s (rw_bus w))) (\<lambda>node. case node of
       None \<Rightarrow> bind (notify_routine_complete R r (ro_household r) node_offline None) (\<lambda>_.
         bind (mark_fired (ro_id r) s now) (\<lambda>_. ret 0))
     | Some n \<Rightarrow> bind (execute_routine_on_node R (ro_household r) r n ''scheduled'' True None) (\<lambda>_.
         bind (mark_fired (ro_id r) s now) (\<lambda>_. ret 1)))"

definition tend_routine :: "routine_env \<Rightarrow> int \<Rightarrow> routine \<Rightarrow> (rworld, nat) io" where
  "tend_routine R now r = (case ro_schedule r of
      None \<Rightarrow> ret 0
    | Some s \<Rightarrow>
        if \<not> schedule_on s then ret 0
        else if dget s ''type'' = PStr ''interval'' \<and> parse_last s = None
        then bind (mark_fired (ro_id r) s now) (\<lambda>_. ret 0)
        else bind (lift (is_due R s now (parse_last s))) (\<lambda>due. if due then fire_routine R now r s else ret 0))"

fun tend_all :: "routine_env \<Rightarrow> int \<Rightarrow> routine list \<Rightarrow> (rworld, nat) io" where
  "tend_all R now [] = ret 0"
| "tend_all R now (r # rs) =
     bind (tend_routine R now r) (\<lambda>k. bind (tend_all R now rs) (\<lambda>n. ret (k + n)))"

definition run_due_routines :: "routine_env \<Rightarrow> (rworld, nat) io" where
  "run_due_routines R =
     bind (gets (\<lambda>w. filter (\<lambda>r. ro_enabled r \<and> ro_schedule r \<noteq> None) (rw_routines w))) (\<lambda>rows.
     bind (gets rw_now) (\<lambda>now. tend_all R now rows))"

end
