(* ===== verification/Routine_Facts.thy ===== *)
theory Routine_Facts
  imports Routines Time_Facts Job_Facts Sample_Bus
begin

section \<open>Routines: slugs, completion cards, the scheduler\<close>

subsection \<open>What a step leaves alone\<close>

lemma run_on_bus [io_simps]: "on_bus m w = (w\<lparr>rw_bus := fst (m (rw_bus w))\<rparr>, snd (m (rw_bus w)))"
  by (simp add: on_bus_def split: prod.split)

lemma keeps_on_bus [io_keeps]: "(\<And>w b. P w \<Longrightarrow> P (w\<lparr>rw_bus := b\<rparr>)) \<Longrightarrow> keeps P (on_bus m)"
  by (rule keepsI) (simp add: run_on_bus)

lemma keeps_record_execution [io_keeps]:
  "(\<And>w b rs. P w \<Longrightarrow> P (w\<lparr>rw_bus := b\<rparr>)) \<Longrightarrow> (\<And>w rs. P w \<Longrightarrow> P (w\<lparr>rw_runs := rs\<rparr>)) \<Longrightarrow> keeps P (record_execution r hh n t res err st)"
  unfolding record_execution_def by (intro io_keeps) simp_all

lemma keeps_notify [io_keeps]:
  "(\<And>w b. P w \<Longrightarrow> P (w\<lparr>rw_bus := b\<rparr>)) \<Longrightarrow> keeps P (notify_routine_complete R r hh res user)"
  unfolding notify_routine_complete_def by (intro io_keeps) simp_all

lemma keeps_execute_routine [io_keeps]:
  assumes "\<And>w b. P w \<Longrightarrow> P (w\<lparr>rw_bus := b\<rparr>)" "\<And>w rs. P w \<Longrightarrow> P (w\<lparr>rw_runs := rs\<rparr>)"
  shows "keeps P (execute_routine_on_node R hh r node trigger notify user)"
proof -
  have finish: "keeps P (finish_run R r hh node trigger notify user st x)" for st x
    unfolding finish_run_def using assms by (cases x) (auto intro!: io_keeps)
  show ?thesis
    unfolding execute_routine_on_node_def using assms finish by (auto intro!: io_keeps simp: timed_out_def unpublished_def)
qed

subsection \<open>A sample routine\<close>

definition sample_routine_in :: routine_in where
  "sample_routine_in = \<lparr>ri_name = '' Good Night! '', ri_phrases = [''good night''],
     ri_steps = [\<lparr>st_command = ''lights'', st_args = [(''state'', ''off'')], st_label = []\<rparr>],
     ri_instruction = [], ri_length = ''short'', ri_schedule = None, ri_enabled = True\<rparr>"

definition sample_routine :: routine where
  "sample_routine = \<lparr>ro_id = ''r1'', ro_household = ''h1'', ro_slug = ''tidy'', ro_name = ''Tidy'', ro_phrases = [], ro_steps = [],
     ro_instruction = [], ro_length = ''short'',
     ro_schedule = Some [(''type'', PStr ''cron''), (''cron'', PStr ''* * * * *''), (''target_node_id'', PStr ''n1'')],
     ro_enabled = True, ro_created = 0, ro_updated = 0\<rparr>"

definition sample_routine_env :: routine_env where
  "sample_routine_env = \<lparr>re_bus = sample_bus_env, re_zone = (\<lambda>n. None), re_cron = (\<lambda>c z t. Inr ((t div 60000000 + 1) * 60000000))\<rparr>"

definition sample_rworld :: rworld where
  "sample_rworld = \<lparr>rw_bus = sample_bus, rw_routines = [], rw_runs = []\<rparr>"

subsection \<open>Slugs are unique in a household\<close>

definition slug_keys :: "routine list \<Rightarrow> (string \<times> string) list" where
  "slug_keys rows = map (\<lambda>r. (ro_household r, ro_slug r)) rows"

lemma next_free_fresh: "next_free base taken i \<notin> set taken"
  by (induction base taken i rule: next_free.induct) (subst next_free.simps, simp)

lemma unique_slug_fresh: "(hh, unique_slug hh name rows) \<notin> set (slug_keys rows)"
proof -
  have "unique_slug hh name rows \<notin> set (slugs_of hh rows)"
    using next_free_fresh by (simp add: unique_slug_def Let_def)
  then show ?thesis by (auto simp: slug_keys_def slugs_of_def)
qed

lemma edited_key [simp]: "ro_household (edited e s now r) = ro_household r" "ro_slug (edited e s now r) = ro_slug r" "ro_id (edited e s now r) = ro_id r"
  by (simp_all add: edited_def touched_def)

text \<open>Rows of the table: no two of a household share a slug, and steps are what the authoring endpoints write.\<close>

definition table_ok :: "rworld \<Rightarrow> bool" where
  "table_ok w \<longleftrightarrow> distinct (slug_keys (rw_routines w)) \<and> (\<forall>r \<in> set (rw_routines w). set (ro_steps r) \<subseteq> range dump_step)"

lemma table_ok_bus [simp]: "table_ok (w\<lparr>rw_bus := b\<rparr>) = table_ok w" "table_ok (w\<lparr>rw_runs := rs\<rparr>) = table_ok w"
  by (simp_all add: table_ok_def)

lemma table_ok_put:
  assumes "table_ok w" "\<And>r. ro_household (f r) = ro_household r" "\<And>r. ro_slug (f r) = ro_slug r"
    "\<And>r. set (ro_steps r) \<subseteq> range dump_step \<Longrightarrow> set (ro_steps (f r)) \<subseteq> range dump_step"
  shows "table_ok (put_routine rid f w)"
proof -
  have "slug_keys (map (\<lambda>r. if ro_id r = rid then f r else r) rs) = slug_keys rs" for rs
    by (induction rs) (simp_all add: slug_keys_def assms(2,3))
  moreover from assms(1,4) have "\<forall>r \<in> set (rw_routines w). set (ro_steps (if ro_id r = rid then f r else r)) \<subseteq> range dump_step"
    by (simp add: table_ok_def)
  then have "\<forall>r \<in> set (map (\<lambda>r. if ro_id r = rid then f r else r) (rw_routines w)). set (ro_steps r) \<subseteq> range dump_step"
    by (simp only: set_map ball_simps)
  ultimately show ?thesis using assms(1) by (simp add: table_ok_def put_routine_def del: set_map)
qed

lemma create_keeps_table: "keeps table_ok (create_routine E hh body user)"
proof (rule keepsI)
  fix w assume ok: "table_ok w"
  have add: "distinct (slug_keys (rw_routines w @ [r]))" if "ro_household r = hh" "ro_slug r = unique_slug hh (ri_name body) (rw_routines w)" for r
    using ok unique_slug_fresh [of hh "ri_name body" "rw_routines w"] that by (simp add: table_ok_def slug_keys_def)
  show "table_ok (fst (create_routine E hh body user w))"
    using ok by (auto simp: create_routine_def io_simps table_ok_def add split: sum.split prod.split)
qed

lemma edited_steps: "set (ro_steps r) \<subseteq> range dump_step \<Longrightarrow> set (ro_steps (edited e s now r)) \<subseteq> range dump_step"
  by (auto simp: edited_def touched_def split: option.split)

lemma update_keeps_table: "keeps table_ok (update_routine E hh rid e user)"
  unfolding update_routine_def get_or_404_def by (intro io_keeps table_ok_put edited_steps) simp_all

lemma delete_keeps_table: "keeps table_ok (delete_routine E hh rid user)"
proof -
  have "distinct (slug_keys rs) \<Longrightarrow> distinct (slug_keys (filter P rs))" for rs P
    by (induction rs) (auto simp: slug_keys_def)
  then show ?thesis
    unfolding delete_routine_def get_or_404_def by (intro io_keeps) (auto simp: table_ok_def)
qed

lemma tend_keeps_table: "keeps table_ok (tend_routine R now r)"
proof -
  have "keeps table_ok (mark_fired rid s now)" for rid s
    unfolding mark_fired_def by (intro io_keeps table_ok_put) (simp_all add: touched_def)
  then show ?thesis unfolding tend_routine_def fire_routine_def by (intro io_keeps) simp_all
qed

lemma pass_keeps_table: "keeps table_ok (run_due_routines R)"
proof -
  have "keeps table_ok (tend_all R now rows)" for now rows
    by (induction rows) (auto intro!: io_keeps tend_keeps_table)
  then show ?thesis unfolding run_due_routines_def by (intro io_keeps)
qed

lemma run_now_keeps_table: "keeps table_ok (run_routine_now R hh rid node user)"
  unfolding run_routine_now_def get_or_404_def by (intro io_keeps) simp_all

lemma background_keeps_table: "keeps table_ok (run_routine_background_task R hh rid node user)"
  unfolding run_routine_background_task_def by (intro io_keeps) simp_all

text \<open>What happens to the table: requests, detached runs, scheduler passes; the bus moves on by itself.\<close>

inductive routine_step :: "routine_env \<Rightarrow> rworld \<Rightarrow> rworld \<Rightarrow> bool" for R where
  create: "routine_step R w (fst (create_routine (re_bus R) hh body user w))"
| update: "routine_step R w (fst (update_routine (re_bus R) hh rid e user w))"
| delete: "routine_step R w (fst (delete_routine (re_bus R) hh rid user w))"
| run_now: "routine_step R w (fst (run_routine_now R hh rid node user w))"
| background: "routine_step R w (fst (run_routine_background_task R hh rid nd user w))"
| pass: "routine_step R w (fst (run_due_routines R w))"
| meanwhile: "routine_step R w (w\<lparr>rw_bus := b\<rparr>)"

lemma step_keeps_table: "routine_step R w w' \<Longrightarrow> table_ok w \<Longrightarrow> table_ok w'"
  by (induction rule: routine_step.induct)
    (simp_all add: keepsD [OF create_keeps_table] keepsD [OF update_keeps_table] keepsD [OF delete_keeps_table]
      keepsD [OF pass_keeps_table] keepsD [OF run_now_keeps_table] keepsD [OF background_keeps_table])

lemma node_step_dump: "\<exists>v. node_step (dump_step s) = Inr v"
  by (simp add: node_step_def dump_step_def each_def)

lemma rmap_images: "(\<And>x. x \<in> set xs \<Longrightarrow> \<exists>y. f x = Inr y \<and> g y = h x) \<Longrightarrow> \<exists>ys. rmap f xs = Inr ys \<and> map g ys = map h xs"
proof (induction xs)
  case (Cons x xs)
  then obtain y ys where "f x = Inr y" "g y = h x" "rmap f xs = Inr ys" "map g ys = map h xs" by (metis list.set_intros)
  then show ?case by simp
qed simp

lemma to_node_total:
  assumes "set (ro_steps r) \<subseteq> range dump_step"
  shows "\<exists>d. routine_to_node r = Inr d"
proof -
  have "\<exists>ys. rmap node_step (ro_steps r) = Inr ys \<and> map (\<lambda>_. ()) ys = map (\<lambda>_. ()) (ro_steps r)"
    using assms node_step_dump by (intro rmap_images) fastforce
  then show ?thesis by (auto simp: routine_to_node_def)
qed

text \<open>
  C40. Whatever the household's members author, rename, delete and run, and whatever the scheduler does meanwhile, no two
  routines of a household share a slug, and every node of the household pulls exactly its enabled routines, each under a
  key of its own: none shadows another and none makes the pull fail.
\<close>

theorem slugs_unique:
  assumes "(routine_step R)\<^sup>*\<^sup>* w w'" "rw_routines w = []" "hh \<noteq> []"
  shows "distinct (slug_keys (rw_routines w')) \<and>
    (\<exists>ps. node_pull_routines node (node, Some hh) w' = Inr ps \<and> distinct (map fst ps) \<and>
      map fst ps = map ro_slug (filter (\<lambda>r. ro_household r = hh \<and> ro_enabled r) (rw_routines w')))"
proof -
  let ?rs = "filter (\<lambda>r. ro_household r = hh \<and> ro_enabled r) (rw_routines w')"
  have "table_ok w" using assms(2) by (simp add: table_ok_def slug_keys_def)
  with assms(1) have ok: "table_ok w'" by (induction rule: rtranclp_induct) (auto intro: step_keeps_table)
  then have keys: "distinct (slug_keys (rw_routines w'))" by (simp add: table_ok_def)
  have "distinct (slug_keys rs) \<Longrightarrow> distinct (map ro_slug (filter (\<lambda>r. ro_household r = hh \<and> P r) rs))" for rs P
    by (induction rs) (auto simp: slug_keys_def image_iff)
  from this [OF keys] have slugs: "distinct (map ro_slug ?rs)" .
  have "\<exists>y. rbind (routine_to_node r) (\<lambda>d. Inr (ro_slug r, d)) = Inr y \<and> fst y = ro_slug r" if "r \<in> set ?rs" for r
  proof -
    have "set (ro_steps r) \<subseteq> range dump_step" using ok that by (auto simp: table_ok_def)
    from to_node_total [OF this] show ?thesis by auto
  qed
  from rmap_images [of ?rs _ fst ro_slug, OF this] obtain ps where
    "rmap (\<lambda>r. rbind (routine_to_node r) (\<lambda>d. Inr (ro_slug r, d))) ?rs = Inr ps" "map fst ps = map ro_slug ?rs" by blast
  then show ?thesis using keys slugs assms(3) by (simp add: node_pull_routines_def otruthy_def)
qed

theorem slugs_unique_witness:
  "distinct (slug_keys (rw_routines (fst (create_routine sample_bus_env ''h1'' sample_routine_in None sample_rworld)))) \<and>
   map ro_slug (rw_routines (fst (create_routine sample_bus_env ''h1'' sample_routine_in None sample_rworld))) = [''good_night'']"
proof -
  let ?w = "fst (create_routine (re_bus sample_routine_env) ''h1'' sample_routine_in None sample_rworld)"
  have "(routine_step sample_routine_env)\<^sup>*\<^sup>* sample_rworld ?w" by (rule r_into_rtranclp) (rule routine_step.create)
  then have "distinct (slug_keys (rw_routines ?w))" using slugs_unique [of sample_routine_env sample_rworld ?w "''h1''"]
    by (simp add: sample_rworld_def)
  moreover have "re_bus sample_routine_env = sample_bus_env" by (simp add: sample_routine_env_def)
  moreover have "map ro_slug (rw_routines (fst (create_routine sample_bus_env ''h1'' sample_routine_in None sample_rworld))) = [''good_night'']"
  proof -
    have "unique_slug ''h1'' '' Good Night! '' [] = ''good_night''" "strip '' Good Night! '' \<noteq> []" by code_simp+
    then show ?thesis
      by (simp add: create_routine_def io_simps household_access_def check_length_def publish_routines_sync_def schedule_to_json_def
        sample_routine_in_def sample_rworld_def sample_bus_env_def)
  qed
  ultimately show ?thesis by simp
qed

subsection \<open>One completion card\<close>

definition completion_post :: "routine \<Rightarrow> string \<Rightarrow> run_result \<Rightarrow> int option \<Rightarrow> http" where
  "completion_post r hh res user = InboxPost (inbox_payload hh (squoted (ro_name r) @ '' '' @ routine_headline (ru_status res))
     (run_summary res) (run_summary res) ''routine''
     [(''household_id'', PStr hh), (''routine_id'', PStr (ro_id r)), (''status'', PStr (ru_status res))] user)"

lemma notify_run:
  "\<exists>h. notify_routine_complete R r hh res user w = (w\<lparr>rw_bus := (rw_bus w)\<lparr>bu_hub := h\<rparr>\<rparr>, Inr ()) \<and> hb_now h = rw_now w \<and>
     inbox_posts ((rw_bus w)\<lparr>bu_hub := h\<rparr>) = completion_post r hh res user # inbox_posts (rw_bus w)"
  unfolding notify_routine_complete_def
  by (rule post_card_result [of "re_bus R" hh "squoted (ro_name r) @ '' '' @ routine_headline (ru_status res)" "run_summary res"
        "run_summary res" "''routine''" "[(''household_id'', PStr hh), (''routine_id'', PStr (ro_id r)), (''status'', PStr (ru_status res))]"
        user True "if user = None then ''household'' else ''user''" "rw_bus w"])
    (auto simp: io_simps inbox_posts_def completion_post_def rw_now_def)

lemma publish_run:
  "\<exists>b'. publish_command_with_id E node verb d rid b = (b', Inr rid) \<and> bu_hub b' = bu_hub b \<and> bu_nodes b' = bu_nodes b"
  by (auto simp: publish_command_with_id_def io_simps split: sum.split)

text \<open>What a run that reports leaves: its row, its card, and the table as it was.\<close>

definition row_of_run :: "routine \<Rightarrow> string \<Rightarrow> string \<Rightarrow> string \<Rightarrow> run_result \<Rightarrow> routine_run \<Rightarrow> bool" where
  "row_of_run r hh node t res row \<longleftrightarrow> rr_routine row = ro_id r \<and> rr_household row = hh \<and> rr_node row = node \<and> rr_trigger row = t \<and>
     rr_status row = ru_status res \<and> rr_passed row = ru_passed res \<and> rr_failed row = ru_failed res"

definition reported_run :: "routine \<Rightarrow> string \<Rightarrow> string \<Rightarrow> string \<Rightarrow> int option \<Rightarrow> run_result \<Rightarrow> rworld \<Rightarrow> rworld \<Rightarrow> bool" where
  "reported_run r hh node t user res w w' \<longleftrightarrow>
     inbox_posts (rw_bus w') = completion_post r hh res user # inbox_posts (rw_bus w) \<and> rw_now w' = rw_now w \<and>
     bu_nodes (rw_bus w') = bu_nodes (rw_bus w) \<and> rw_routines w' = rw_routines w \<and>
     (\<exists>row. rw_runs w' = rw_runs w @ [row] \<and> row_of_run r hh node t res row)"

lemma finish_run_run:
  assumes "bu_hub (rw_bus v) = bu_hub (rw_bus w)" "bu_nodes (rw_bus v) = bu_nodes (rw_bus w)" "rw_routines v = rw_routines w" "rw_runs v = rw_runs w"
  shows "\<exists>w'. finish_run R r hh node t True user st x v = (w', Inr (fst x)) \<and> reported_run r hh node t user (fst x) w w'"
proof -
  obtain res err where x: "x = (res, err)" by (cases x)
  define u where "u = v\<lparr>rw_bus := (rw_bus v)\<lparr>bu_ids := Suc (bu_ids (rw_bus v))\<rparr>, rw_runs := rw_runs v @ [\<lparr>rr_id = uuid (bu_ids (rw_bus v)),
     rr_routine = ro_id r, rr_household = hh, rr_node = node, rr_trigger = t, rr_status = ru_status res, rr_passed = ru_passed res,
     rr_failed = ru_failed res, rr_error = err, rr_started = st, rr_finished = rw_now v\<rparr>]\<rparr>"
  have "record_execution r hh node t res err st v = (u, Inr ())"
    by (simp add: record_execution_def io_simps u_def rw_now_def)
  moreover obtain h where "notify_routine_complete R r hh res user u = (u\<lparr>rw_bus := (rw_bus u)\<lparr>bu_hub := h\<rparr>\<rparr>, Inr ())" "hb_now h = rw_now u"
    "inbox_posts ((rw_bus u)\<lparr>bu_hub := h\<rparr>) = completion_post r hh res user # inbox_posts (rw_bus u)" using notify_run by blast
  ultimately show ?thesis
    using assms by (simp add: finish_run_def x io_simps reported_run_def row_of_run_def u_def rw_now_def bus_now_def inbox_posts_def)
qed

lemma execute_run:
  obtains (reported) w' res where "execute_routine_on_node R hh r node t True user w = (w', Inr res)" "reported_run r hh node t user res w w'"
    | (raised) w' e v l where "execute_routine_on_node R hh r node t True user w = (w', Inl e)" "bu_hub (rw_bus w') = bu_hub (rw_bus w)"
        "rw_routines w' = rw_routines w" "rw_runs w' = rw_runs w"
        "be_serve (re_bus R) l = v" "\<exists>rid q. l = Ask_result rid # q" "(case v of Inl _ \<Rightarrow> True | Inr d \<Rightarrow> d \<noteq> PNone \<and> reported d = Inl e)"
proof -
  let ?k = "bu_ids (rw_bus w)" and ?st = "rw_now w"
  define a where "a = w\<lparr>rw_bus := (rw_bus w)\<lparr>bu_ids := Suc (Suc ?k)\<rparr>\<rparr>"
  obtain b where b: "publish_command_with_id (re_bus R) node ''routine'' (run_details (ro_slug r) (uuid ?k) (uuid (Suc ?k))) (uuid ?k) (rw_bus a)
      = (b, Inr (uuid ?k))" "bu_hub b = bu_hub (rw_bus w)" "bu_nodes b = bu_nodes (rw_bus w)"
    using publish_run [of "re_bus R" node "''routine''" "run_details (ro_slug r) (uuid ?k) (uuid (Suc ?k))" "uuid ?k" "rw_bus a"]
    by (auto simp: a_def)
  define l where "l = Ask_result (uuid ?k) # bu_asked b"
  define v where "v = w\<lparr>rw_bus := b\<lparr>bu_asked := l\<rparr>\<rparr>"
  note finish = finish_run_run [of v w R r hh node t user ?st] 
  have v: "bu_hub (rw_bus v) = bu_hub (rw_bus w)" "bu_nodes (rw_bus v) = bu_nodes (rw_bus w)" "rw_routines v = rw_routines w" "rw_runs v = rw_runs w"
    using b by (simp_all add: v_def)
  have run: "execute_routine_on_node R hh r node t True user w = (case be_serve (re_bus R) l of Inl e \<Rightarrow> (v, Inl e)
      | Inr d \<Rightarrow> if d = PNone then finish_run R r hh node t True user ?st timed_out v
          else (case reported d of Inl e \<Rightarrow> (v, Inl e) | Inr x \<Rightarrow> finish_run R r hh node t True user ?st x v))"
    using b(1) by (auto simp: execute_routine_on_node_def io_simps a_def v_def l_def rw_now_def split: sum.split)
  show thesis
  proof (cases "be_serve (re_bus R) l")
    case (Inl e)
    with run v show ?thesis by (intro raised [where w' = v and e = e and v = "Inl e" and l = l]) (simp_all add: l_def)
  next
    case (Inr d)
    show ?thesis
    proof (cases "d = PNone")
      case True
      with finish [OF v, of timed_out] run Inr reported show ?thesis by auto
    next
      case False
      show ?thesis
      proof (cases "reported d")
        case (Inl e)
        with run v \<open>be_serve (re_bus R) l = Inr d\<close> False show ?thesis by (intro raised [where w' = v and e = e and v = "Inr d" and l = l]) (simp_all add: l_def)
      next
        case (Inr x)
        with finish [OF v, of x] run \<open>be_serve (re_bus R) l = Inr d\<close> False reported show ?thesis by auto
      qed
    qed
  qed
qed

text \<open>
  C39. A run in the background never vanishes: it never raises, whatever the node answers, and posts exactly one card, about
  that routine. Either the node's report was recorded, and the card says how the run ended, or it could not be read, and
  the card says that the routine could not be started.
\<close>

theorem background_run_reports:
  assumes "find (\<lambda>r. ro_id r = rid) (rw_routines w) = Some r"
  shows "\<exists>w' res. run_routine_background_task R hh rid node user w = (w', Inr ()) \<and>
    inbox_posts (rw_bus w') = completion_post r hh res user # inbox_posts (rw_bus w) \<and>
    (rw_runs w' = rw_runs w \<and> res = not_started \<or>
     (\<exists>row. rw_runs w' = rw_runs w @ [row] \<and> rr_routine row = rid \<and> rr_node row = node \<and> rr_status row = ru_status res))"
proof (cases rule: execute_run [of R hh r node "''background''" user w])
  case (reported w' res)
  moreover have "ro_id r = rid" using assms by (auto simp: find_Some_iff)
  ultimately show ?thesis
    using assms by (auto simp: run_routine_background_task_def io_simps reported_run_def row_of_run_def intro!: exI [of _ res])
next
  case (raised w' e v l)
  obtain h where "notify_routine_complete R r hh not_started user w' = (w'\<lparr>rw_bus := (rw_bus w')\<lparr>bu_hub := h\<rparr>\<rparr>, Inr ())"
    "inbox_posts ((rw_bus w')\<lparr>bu_hub := h\<rparr>) = completion_post r hh not_started user # inbox_posts (rw_bus w')" using notify_run by blast
  with raised assms show ?thesis
    by (auto simp: run_routine_background_task_def io_simps inbox_posts_def intro!: exI [of _ not_started])
qed

theorem background_run_reports_witness:
  "\<exists>w' res. run_routine_background_task sample_routine_env ''h1'' ''r1'' ''n1'' (Some 1) (sample_rworld\<lparr>rw_routines := [sample_routine]\<rparr>) = (w', Inr ()) \<and>
     inbox_posts (rw_bus w') = [completion_post sample_routine ''h1'' res (Some 1)]"
proof -
  have "inbox_posts (rw_bus (sample_rworld\<lparr>rw_routines := [sample_routine]\<rparr>)) = []"
    by (simp add: inbox_posts_def sample_rworld_def sample_bus_def)
  then show ?thesis
    using background_run_reports [of "''r1''" "sample_rworld\<lparr>rw_routines := [sample_routine]\<rparr>" sample_routine sample_routine_env "''h1''" "''n1''" "Some 1"]
    by (auto simp: sample_routine_def)
qed

subsection \<open>A pass of the scheduler\<close>

definition due :: "routine_env \<Rightarrow> int \<Rightarrow> routine \<Rightarrow> bool" where
  "due R now r \<longleftrightarrow> ro_enabled r \<and> (case ro_schedule r of None \<Rightarrow> False | Some s \<Rightarrow> is_due R s now (parse_last s) = Inr True)"

text \<open>
  What the pass relies on: readable reports; for a stored cron expression, an occurrence after the instant it is asked
  for, also on the wall clock of the schedule's zone, or an error of the expression; numbers in schedules.
\<close>

definition reports_readable :: "routine_env \<Rightarrow> bool" where
  "reports_readable R \<longleftrightarrow> (\<forall>rid l. \<exists>v. be_serve (re_bus R) (Ask_result rid # l) = Inr v \<and> (v = PNone \<or> (\<exists>x. reported v = Inr x)))"

definition cron_ahead :: "routine_env \<Rightarrow> bool" where
  "cron_ahead R \<longleftrightarrow> (\<forall>c s t. case re_cron R c (routine_zone R s) t of
     Inl e \<Rightarrow> \<exists>m. e = ValueError m \<or> e = KeyError m
   | Inr n \<Rightarrow> to_local (routine_zone R s) t < to_local (routine_zone R s) n)"

definition seconds_typed :: "routine \<Rightarrow> bool" where
  "seconds_typed r \<longleftrightarrow> (\<forall>s. ro_schedule r = Some s \<longrightarrow> dget s ''interval_seconds'' = PNone \<or> (\<exists>n. dget s ''interval_seconds'' = PInt n))"

lemma is_due_total:
  assumes "cron_ahead R" "dget s ''interval_seconds'' = PNone \<or> (\<exists>n. dget s ''interval_seconds'' = PInt n)"
  shows "\<exists>d. is_due R s now t = Inr d"
proof -
  have int: "\<exists>n. py_int (por (dget s ''interval_seconds'') (PInt 0)) = Inr n" using assms(2) by (auto simp: por_def)
  have [simp]: "Ex Not" by (rule exI [of _ False]) simp
  have cron: "\<exists>d. (case re_cron R c z b of Inl (ValueError m) \<Rightarrow> Inr False | Inl (KeyError m) \<Rightarrow> Inr False | Inl e \<Rightarrow> Inl e
      | Inr n \<Rightarrow> Inr (to_local z n \<le> x)) = (Inr d :: exc + bool)" if "z = routine_zone R s" for c z b x
    using assms(1) that by (auto simp: cron_ahead_def split: sum.split dest!: spec [of _ c] spec [of _ s] spec [of _ b])
  from int obtain n where "py_int (por (dget s ''interval_seconds'') (PInt 0)) = Inr n" by blast
  then show ?thesis using cron by (simp add: is_due_def split: pyval.split)
qed

lemma fired_not_due:
  assumes "cron_ahead R"
  shows "is_due R s now (Some now) \<noteq> Inr True"
proof -
  have cron: "(case re_cron R c z now of Inl (ValueError m) \<Rightarrow> Inr False | Inl (KeyError m) \<Rightarrow> Inr False | Inl e \<Rightarrow> Inl e
      | Inr n \<Rightarrow> Inr (to_local z n \<le> to_local z now)) \<noteq> (Inr True :: exc + bool)" if "z = routine_zone R s" for c z
    using assms that by (auto simp: cron_ahead_def split: sum.split exc.split dest!: spec [of _ c] spec [of _ s] spec [of _ now])
  then show ?thesis by (auto simp: is_due_def rbind_def split: pyval.split sum.splits)
qed

lemma stamp_read:
  assumes "in_range now"
  shows "parse_last (dset s ''last_fired_at'' (PStr (isoformat now @ ''+00:00''))) = Some now"
proof -
  have off: "take_offset ''+00:00'' = Some (Some 0)" by code_simp
  have "isoformat now @ ''+00:00'' \<noteq> []" by simp
  then show ?thesis
    using iso_roundtrip [OF assms, of "''+00:00''", OF _ off] by (simp add: parse_last_def utc_us_def)
qed

text \<open>What a routine that is due gets: a run on its node with the row of it, or the notice that the node is offline.\<close>

definition due_node :: "routine \<Rightarrow> rworld \<Rightarrow> string option" where
  "due_node r w = (case ro_schedule r of None \<Rightarrow> None | Some s \<Rightarrow> online_node (ro_household r) s (rw_bus w))"

definition served_by :: "rworld \<Rightarrow> routine \<Rightarrow> run_result \<times> routine_run option \<Rightarrow> bool" where
  "served_by w r v \<longleftrightarrow> (case due_node r w of
      None \<Rightarrow> v = (node_offline, None)
    | Some n \<Rightarrow> \<exists>res row. v = (res, Some row) \<and> row_of_run r (ro_household r) n ''scheduled'' res row)"

definition cards_of :: "routine list \<Rightarrow> (run_result \<times> routine_run option) list \<Rightarrow> http list" where
  "cards_of rs vs = map (\<lambda>(r, v). completion_post r (ro_household r) (fst v) None) (zip rs vs)"

lemma served_by_cong:
  assumes "rw_now w' = rw_now w" "bu_nodes (rw_bus w') = bu_nodes (rw_bus w)"
  shows "served_by w' = served_by w"
proof -
  have "online_node hh s (rw_bus w') = online_node hh s (rw_bus w)" for hh s
    using assms unfolding online_node_def rw_now_def by (simp only:)
  then have "due_node r w' = due_node r w" for r by (simp only: due_node_def)
  then show ?thesis by (simp add: fun_eq_iff served_by_def)
qed

text \<open>A stretch of the pass: which routines it served and how, with their cards and rows and nothing else.\<close>

definition served :: "routine list \<Rightarrow> (run_result \<times> routine_run option) list \<Rightarrow> rworld \<Rightarrow> rworld \<Rightarrow> bool" where
  "served rs vs w w' \<longleftrightarrow> list_all2 (served_by w) rs vs \<and> inbox_posts (rw_bus w') = rev (cards_of rs vs) @ inbox_posts (rw_bus w) \<and>
     rw_runs w' = rw_runs w @ List.map_filter snd vs \<and> rw_now w' = rw_now w \<and> bu_nodes (rw_bus w') = bu_nodes (rw_bus w)"

lemma served_Nil: "rw_bus w' = rw_bus w \<Longrightarrow> rw_runs w' = rw_runs w \<Longrightarrow> served [] [] w w'"
  by (simp add: served_def cards_of_def rw_now_def List.map_filter_def)

lemma served_append: "served rs vs w u \<Longrightarrow> served rs' vs' u w' \<Longrightarrow> served (rs @ rs') (vs @ vs') w w'"
  using served_by_cong [of u w] by (auto simp: served_def cards_of_def List.map_filter_def list_all2_lengthD intro: list_all2_appendI)

text \<open>One routine of the pass: at most its own row changes, and it is not due any more.\<close>

definition tended :: "routine_env \<Rightarrow> int \<Rightarrow> routine \<Rightarrow> (run_result \<times> routine_run option) list \<Rightarrow> rworld \<Rightarrow> rworld \<Rightarrow> bool" where
  "tended R now r vs w w' \<longleftrightarrow> served (if due R now r then [r] else []) vs w w' \<and>
     (\<exists>f. (\<forall>q. ro_id (f q) = ro_id q) \<and> \<not> due R now (f r) \<and>
        rw_routines w' = map (\<lambda>q. if ro_id q = ro_id r then f q else q) (rw_routines w))"

lemma touched_schedule [simp]: "ro_schedule (touched n r (r\<lparr>ro_schedule := x\<rparr>)) = x" "ro_enabled (touched n r (r\<lparr>ro_schedule := x\<rparr>)) = ro_enabled r"
  "ro_id (touched n r (r\<lparr>ro_schedule := x\<rparr>)) = ro_id r"
proof -
  show "ro_schedule (touched n r (r\<lparr>ro_schedule := x\<rparr>)) = x"
  proof (cases "r\<lparr>ro_schedule := x\<rparr> = r")
    case True
    then have "x = ro_schedule r" using arg_cong [OF True, of ro_schedule] by simp
    then show ?thesis unfolding touched_def True by simp
  qed (simp add: touched_def)
qed (simp_all add: touched_def)

lemma mark_fired_run:
  assumes "in_range now" "cron_ahead R"
  shows "\<exists>w' f. mark_fired rid s now w = (w', Inr ()) \<and> rw_bus w' = rw_bus w \<and> rw_runs w' = rw_runs w \<and> (\<forall>q. ro_id (f q) = ro_id q) \<and> \<not> due R now (f r) \<and>
    rw_routines w' = map (\<lambda>q. if ro_id q = rid then f q else q) (rw_routines w)"
proof -
  let ?s = "dset s ''last_fired_at'' (PStr (isoformat now @ ''+00:00''))"
  let ?f = "\<lambda>q. touched (rw_now w) q (q\<lparr>ro_schedule := Some ?s\<rparr>)"
  have "\<not> due R now (?f r)"
    using fired_not_due [OF assms(2), of ?s now] stamp_read [OF assms(1), of s] by (simp add: due_def)
  moreover have "\<forall>q. ro_id (?f q) = ro_id q" by simp
  ultimately show ?thesis by (intro exI [of _ "put_routine rid ?f w"] exI [of _ ?f]) (simp add: mark_fired_def io_simps put_routine_def)
qed

lemma fire_run:
  assumes "in_range now" "cron_ahead R" "reports_readable R" "due R now r" "ro_schedule r = Some s"
  shows "\<exists>w' vs. fire_routine R now r s w = (w', Inr (length (List.map_filter snd vs))) \<and> tended R now r vs w w'"
proof (cases "online_node (ro_household r) s (rw_bus w)")
  case None
  obtain h where h: "notify_routine_complete R r (ro_household r) node_offline None w = (w\<lparr>rw_bus := (rw_bus w)\<lparr>bu_hub := h\<rparr>\<rparr>, Inr ())"
    "hb_now h = rw_now w" "inbox_posts ((rw_bus w)\<lparr>bu_hub := h\<rparr>) = completion_post r (ro_household r) node_offline None # inbox_posts (rw_bus w)"
    using notify_run by blast
  obtain w' f where m: "mark_fired (ro_id r) s now (w\<lparr>rw_bus := (rw_bus w)\<lparr>bu_hub := h\<rparr>\<rparr>) = (w', Inr ())"
    "rw_bus w' = (rw_bus w)\<lparr>bu_hub := h\<rparr>" "rw_runs w' = rw_runs w" "\<forall>q. ro_id (f q) = ro_id q" "\<not> due R now (f r)"
    "rw_routines w' = map (\<lambda>q. if ro_id q = ro_id r then f q else q) (rw_routines w)"
    using mark_fired_run [OF assms(1,2), of "ro_id r" s "w\<lparr>rw_bus := (rw_bus w)\<lparr>bu_hub := h\<rparr>\<rparr>" r] by auto
  have "served [r] [(node_offline, None)] w w'"
    using None assms(5) h m by (simp add: served_def served_by_def due_node_def cards_of_def List.map_filter_def rw_now_def bus_now_def)
  with m(4-6) assms(4) have "tended R now r [(node_offline, None)] w w'" by (auto simp: tended_def)
  with h(1) m(1) None show ?thesis
    by (intro exI [of _ w'] exI [of _ "[(node_offline, None)]"]) (simp add: fire_routine_def io_simps List.map_filter_def)
next
  case (Some n)
  show ?thesis
  proof (cases rule: execute_run [of R "ro_household r" r n "''scheduled''" None w])
    case (reported u res)
    then obtain row where row: "rw_runs u = rw_runs w @ [row]" "row_of_run r (ro_household r) n ''scheduled'' res row"
      by (auto simp: reported_run_def)
    obtain w' f where m: "mark_fired (ro_id r) s now u = (w', Inr ())" "rw_bus w' = rw_bus u" "rw_runs w' = rw_runs u"
      "\<forall>q. ro_id (f q) = ro_id q" "\<not> due R now (f r)"
      "rw_routines w' = map (\<lambda>q. if ro_id q = ro_id r then f q else q) (rw_routines u)"
      using mark_fired_run [OF assms(1,2), of "ro_id r" s u r] by auto
    have "served [r] [(res, Some row)] w w'"
      using Some assms(5) reported(2) row m
      by (simp add: served_def served_by_def due_node_def cards_of_def List.map_filter_def reported_run_def rw_now_def)
    with m(4-6) assms(4) reported(2) have "tended R now r [(res, Some row)] w w'" by (auto simp: tended_def reported_run_def)
    with reported(1) m(1) Some show ?thesis
      by (intro exI [of _ w'] exI [of _ "[(res, Some row)]"]) (simp add: fire_routine_def io_simps List.map_filter_def)
  next
    case (raised u e v l)
    then obtain rid q where "l = Ask_result rid # q" by blast
    with assms(3) raised show ?thesis by (auto simp: reports_readable_def split: sum.splits dest!: spec [of _ rid] spec [of _ q])
  qed
qed

lemma tend_run:
  assumes "in_range now" "cron_ahead R" "reports_readable R" "seconds_typed r" "ro_enabled r"
  shows "\<exists>w' vs. tend_routine R now r w = (w', Inr (length (List.map_filter snd vs))) \<and> tended R now r vs w w'"
proof -
  have none: "length (List.map_filter snd []) = 0" by (simp add: List.map_filter_def)
  have idle: "\<not> due R now r \<Longrightarrow> tended R now r [] w w"
    unfolding tended_def by (auto intro!: exI [of _ id] simp: map_idI served_Nil)
  show ?thesis
  proof (cases "ro_schedule r")
    case None
    then have "\<not> due R now r" by (simp add: due_def)
    with idle None none show ?thesis by (intro exI [of _ w] exI [of _ "[]"]) (simp add: tend_routine_def io_simps)
  next
    case (Some s)
    obtain d where d: "is_due R s now (parse_last s) = Inr d"
      using is_due_total [OF assms(2), of s] assms(4) Some by (auto simp: seconds_typed_def)
    then have dr: "due R now r = d" using Some assms(5) by (simp add: due_def)
    consider "\<not> schedule_on s" | "schedule_on s" "dget s ''type'' = PStr ''interval''" "parse_last s = None"
      | "schedule_on s" "\<not> (dget s ''type'' = PStr ''interval'' \<and> parse_last s = None)"
      by (cases "schedule_on s"; cases "dget s ''type'' = PStr ''interval'' \<and> parse_last s = None") simp_all
    then show ?thesis
    proof cases
      case 1
      with d have "\<not> d" by (simp add: is_due_def)
      with 1 idle dr Some none show ?thesis by (intro exI [of _ w] exI [of _ "[]"]) (simp add: tend_routine_def io_simps)
    next
      case 2
      with d have nd: "\<not> d" by (auto simp: is_due_def rbind_def split: sum.splits)
      obtain w' f where m: "mark_fired (ro_id r) s now w = (w', Inr ())" "rw_bus w' = rw_bus w" "rw_runs w' = rw_runs w"
        "\<forall>q. ro_id (f q) = ro_id q" "\<not> due R now (f r)"
        "rw_routines w' = map (\<lambda>q. if ro_id q = ro_id r then f q else q) (rw_routines w)"
        using mark_fired_run [OF assms(1,2), of "ro_id r" s w r] by auto
      then have "tended R now r [] w w'" using nd dr by (auto simp: tended_def served_Nil)
      with 2 m(1) Some none show ?thesis by (intro exI [of _ w'] exI [of _ "[]"]) (simp add: tend_routine_def io_simps)
    next
      case 3
      then have run: "tend_routine R now r w = (if d then fire_routine R now r s w else (w, Inr 0))"
        using Some d by (auto simp: tend_routine_def io_simps)
      show ?thesis
      proof (cases d)
        case True
        with fire_run [OF assms(1-3) _ Some, of w] dr run show ?thesis by simp
      next
        case False
        with idle dr run none show ?thesis by (intro exI [of _ w] exI [of _ "[]"]) simp
      qed
    qed
  qed
qed

lemma tend_all_run:
  assumes "in_range now" "cron_ahead R" "reports_readable R"
  shows "set rs \<subseteq> set (rw_routines w) \<Longrightarrow> distinct (map ro_id rs) \<Longrightarrow> distinct (map ro_id (rw_routines w)) \<Longrightarrow>
    (\<forall>r \<in> set rs. seconds_typed r \<and> ro_enabled r) \<Longrightarrow>
    \<exists>w' vs. tend_all R now rs w = (w', Inr (length (List.map_filter snd vs))) \<and> served (filter (due R now) rs) vs w w' \<and>
      (\<forall>q \<in> set (rw_routines w'). if ro_id q \<in> ro_id ` set rs then \<not> due R now q else q \<in> set (rw_routines w))"
proof (induction rs arbitrary: w)
  case Nil
  have "served [] [] w w" by (rule served_Nil) simp_all
  then show ?case by (intro exI [of _ w] exI [of _ "[]"]) (simp add: io_simps List.map_filter_def)
next
  case (Cons r rs)
  obtain u vs1 where u: "tend_routine R now r w = (u, Inr (length (List.map_filter snd vs1)))" "tended R now r vs1 w u"
    using tend_run [OF assms, of r w] Cons.prems(4) by auto
  then obtain f where f: "\<forall>q. ro_id (f q) = ro_id q" "\<not> due R now (f r)"
    "rw_routines u = map (\<lambda>q. if ro_id q = ro_id r then f q else q) (rw_routines w)"
    "served (if due R now r then [r] else []) vs1 w u"
    by (auto simp: tended_def)
  have others: "set rs \<subseteq> set (rw_routines u)"
  proof
    fix q assume q: "q \<in> set rs"
    have "ro_id r \<notin> ro_id ` set rs" using Cons.prems(2) by simp
    then have "ro_id q \<noteq> ro_id r" using imageI [OF q, of ro_id] by auto
    moreover have "q \<in> set (rw_routines w)" using q Cons.prems(1) by auto
    ultimately show "q \<in> set (rw_routines u)" unfolding f(3) by force
  qed
  have ids: "map ro_id (rw_routines u) = map ro_id (rw_routines w)" using f(1) by (simp add: f(3))
  obtain w' vs2 where w': "tend_all R now rs u = (w', Inr (length (List.map_filter snd vs2)))" "served (filter (due R now) rs) vs2 u w'"
    "\<forall>q \<in> set (rw_routines w'). if ro_id q \<in> ro_id ` set rs then \<not> due R now q else q \<in> set (rw_routines u)"
    using Cons.IH [OF others] Cons.prems(2-4) ids by auto
  have "if ro_id q \<in> ro_id ` set (r # rs) then \<not> due R now q else q \<in> set (rw_routines w)" if q: "q \<in> set (rw_routines w')" for q
  proof (cases "ro_id q \<in> ro_id ` set rs")
    case False
    with w'(3) q have "q \<in> set (rw_routines u)" by auto
    then obtain p where p: "p \<in> set (rw_routines w)" "q = (if ro_id p = ro_id r then f p else p)" unfolding f(3) by auto
    show ?thesis
    proof (cases "ro_id p = ro_id r")
      case True
      then have "p = r" using p(1) Cons.prems(1,3) by (auto simp: distinct_map inj_on_def)
      with p(2) f(1,2) show ?thesis by simp
    next
      case neq: False
      with p False show ?thesis by simp
    qed
  qed (use w'(3) q in auto)
  moreover have "served (filter (due R now) (r # rs)) (vs1 @ vs2) w w'" using served_append [OF f(4) w'(2)] by (simp split: if_splits)
  ultimately show ?case using u w'(1)
    by (intro exI [of _ w'] exI [of _ "vs1 @ vs2"]) (simp add: io_simps List.map_filter_def)
qed



end
