(* ===== verification/Spec2Isabelle.thy ===== *)
theory Spec2Isabelle
  imports Phone_Safety Phone_Limits Planner_Facts Errand_Drafts Run_Interleaving Attention_Api Time_Facts Schedule_Facts
    Date_Context Cache_Facts Tool_Facts Loop_Dedupe Leave_Facts Routine_Facts
begin

text \<open>
  The command center answers voice requests of a household, runs errands of several steps, places phone
  calls and acts on what happens in the house. This library models the parts that decide: which tool
  runs, when an errand goes on, when a call may be dialled, what reaches a person and what runs without a
  tap. All names below are files of \<^verbatim>\<open>src/app\<close>.

  \<^bold>\<open>Parts and theories.\<close>

  \<^item> Language of the program: \<^verbatim>\<open>Py_Prelude\<close> (values, exceptions as \<open>exc + 'a\<close>, effects as
    \<open>('w, 'a) io\<close>, that is a state and a result, with \<open>bind\<close>, \<open>catch\<close>, \<open>gets\<close>, \<open>modify\<close>), \<^verbatim>\<open>Py_Text\<close>, \<^verbatim>\<open>Py_Words\<close>,
    \<^verbatim>\<open>Py_Regex\<close> (a backtracking matcher), \<^verbatim>\<open>Py_Time\<close>, \<^verbatim>\<open>Py_Json\<close>; \<^verbatim>\<open>Json_Facts\<close> proves that what is printed
    is read back, \<^verbatim>\<open>Io_Logic\<close> is a logic of triples over the effect type.
  \<^item> Errands: \<^verbatim>\<open>CC_State\<close> (the tables of \<^verbatim>\<open>models.py\<close> they share with the phone), \<^verbatim>\<open>Step_Resolver\<close>,
    \<^verbatim>\<open>Workflow_Engine\<close> and \<^verbatim>\<open>Workflow_Steps\<close> (\<^verbatim>\<open>services/workflow_engine.py\<close>: handlers, envelope, one step), \<^verbatim>\<open>Workflow_Runs\<close>
    (runs, claims and signals), \<^verbatim>\<open>Errand_Executor\<close>, \<^verbatim>\<open>Errand_Planner\<close>, \<^verbatim>\<open>Errand_Cards\<close>, \<^verbatim>\<open>Errand_Service\<close>
    (\<^verbatim>\<open>services/errand_*.py\<close>). \<^verbatim>\<open>Errand_Runs\<close>, \<^verbatim>\<open>Run_Drives\<close>, \<^verbatim>\<open>Errand_Taps\<close>, \<^verbatim>\<open>Errand_Sweeps\<close>, \<^verbatim>\<open>Errand_Drafts\<close>,
    \<^verbatim>\<open>Planner_Facts\<close>, \<^verbatim>\<open>Run_Safety\<close> and \<^verbatim>\<open>Run_Interleaving\<close> show how a drive, a tap, a sweep, a draft and any interleaving of them end.
  \<^item> Phone: \<^verbatim>\<open>Phone_Calls\<close>, \<^verbatim>\<open>Call_Brief\<close>, \<^verbatim>\<open>Phone_Plans\<close>, \<^verbatim>\<open>Phone_Sessions\<close> (\<^verbatim>\<open>services/phone_call_service.py\<close>,
    \<^verbatim>\<open>api/phone_sessions.py\<close>), \<^verbatim>\<open>Callback_Registry\<close>; \<^verbatim>\<open>Phone_Lifecycle\<close>, \<^verbatim>\<open>Phone_Safety\<close> and \<^verbatim>\<open>Phone_Limits\<close> show that only a
    confirm tap dials, that a call only moves forward, and the caps.
  \<^item> Attention: \<^verbatim>\<open>Inbox_Notify\<close>, \<^verbatim>\<open>Attention_Broker\<close>, \<^verbatim>\<open>Attention_Api\<close> (the broker, its journal, the client of the
    notification service); \<^verbatim>\<open>Attention_Facts\<close> shows which rung a message reaches. \<^verbatim>\<open>Time_Window\<close> with \<^verbatim>\<open>Time_Facts\<close>;
    \<^verbatim>\<open>Schedules\<close> with \<^verbatim>\<open>Schedule_Facts\<close> (no occurrence fires twice, a sweep serves all that is due up to a
    recurrence that cannot be computed).
  \<^item> Voice turn: \<^verbatim>\<open>Conversation_Cache\<close> with \<^verbatim>\<open>Cache_Facts\<close>; \<^verbatim>\<open>Speech_Shapes\<close>, \<^verbatim>\<open>Tool_Parser\<close> with \<^verbatim>\<open>Parser_Facts\<close>,
    \<^verbatim>\<open>Param_Validation\<close>, \<^verbatim>\<open>Param_Refinement\<close>, \<^verbatim>\<open>Date_Resolution\<close>, \<^verbatim>\<open>Date_Context\<close>, \<^verbatim>\<open>Date_Injection\<close>, \<^verbatim>\<open>Tool_Routing\<close>,
    \<^verbatim>\<open>Tool_Executor\<close>, \<^verbatim>\<open>Tool_Loop\<close> and \<^verbatim>\<open>Tool_Engine\<close> (\<^verbatim>\<open>core/tool_*.py\<close> and their neighbours). \<^verbatim>\<open>Loop_Law\<close> states once
    what a turn keeps; \<^verbatim>\<open>Loop_Facts\<close>, \<^verbatim>\<open>Loop_Guards\<close>, \<^verbatim>\<open>Loop_Dedupe\<close> and \<^verbatim>\<open>Tool_Facts\<close> use it: the number of requests,
    the transcript, the guards, repeated calls, arguments.
  \<^item> Signal bus: \<^verbatim>\<open>Bus_State\<close> (tables, process memory, services), \<^verbatim>\<open>Signal_Store\<close> (signals, catalog, rules, rate limit),
    \<^verbatim>\<open>Node_Commands\<close>, \<^verbatim>\<open>Proposals\<close> and \<^verbatim>\<open>Proposal_Taps\<close> (menus of nodes, cards, suppressions, the dispatcher of taps),
    \<^verbatim>\<open>Callback_Jobs\<close> (\<^verbatim>\<open>api/callbacks.py\<close>), \<^verbatim>\<open>Proposal_Matcher\<close>, \<^verbatim>\<open>Signal_Reactions\<close> (\<^verbatim>\<open>services/signal_*.py\<close>, \<^verbatim>\<open>api/signals.py\<close>).
    \<^verbatim>\<open>Bus_Facts\<close>, \<^verbatim>\<open>Proposal_Facts\<close>, \<^verbatim>\<open>Job_Facts\<close>, \<^verbatim>\<open>Matcher_Facts\<close>, \<^verbatim>\<open>Reaction_Facts\<close>, \<^verbatim>\<open>Leave_Facts\<close> show that the store is a
    map, that a posted signal runs commands only by an automatic rule, what a tap may run, that suggestions are grounded and do not nag.
  \<^item> Routines: \<^verbatim>\<open>Routines\<close> (\<^verbatim>\<open>api/routines.py\<close>, \<^verbatim>\<open>services/routine_scheduler.py\<close>) with \<^verbatim>\<open>Routine_Facts\<close>: slugs are unique, a detached
    run leaves its card, a pass of the scheduler serves all that is due. \<^verbatim>\<open>Time_Facts\<close> ends with the proof
    that a printed instant is read back.
  \<^item> \<^verbatim>\<open>Sample_Data\<close>, \<^verbatim>\<open>Sample_Turn\<close> and \<^verbatim>\<open>Sample_Bus\<close> hold the concrete inputs of the witnesses.

  \<^bold>\<open>How the parts meet.\<close> A voice turn creates errands and calls through server tools, which are services of the
  turn. Errands call steps: a phone step parks the run until the phone stack delivers the outcome, a timer
  step until a sweep. Cards of errands, calls and proposals carry buttons; a tap becomes a callback job, and the job's handler is
  found in one registry whose handlers work on the state of their part. Signals are stored, matched against what the nodes offer and set off
  reactions; whatever reaches a person goes through the notification client.

  \<^bold>\<open>State and steps.\<close> Each part has one record: \<open>world\<close> for errands and phone, \<open>hub\<close> for attention, \<open>conv_cache\<close> and
  \<open>turn\<close> for a conversation, \<open>bus\<close> for signals, proposals and jobs, \<open>rworld\<close> for routines. A row is a record with the columns the code uses, a
  table a list of rows in order of insertion, a column of JSON text its value. An operation takes and returns the record. What runs
  concurrently in the program is an explicit step relation or sequence of steps: \<open>Run_Interleaving\<close> (drives, taps, signals, time),
  \<open>Schedule_Facts\<close> (two sweeps), \<open>Phone_Safety\<close>, \<open>Bus_Facts\<close> and \<open>Matcher_Facts\<close> (requests and time). Elsewhere a handler
  is atomic: so are the reaper, which in the code waits for workers between rows, a reaction to a signal, which waits for nodes and the model
  before its occurrence is latched, and the unlocked rate limiter; the findings of the manifest name what such waits let happen.
  \<open>serve_signal\<close> serves a request and what it scheduled, one after the other.

  \<^bold>\<open>Services.\<close> A service outside the repository is a field of an environment record, a function of the log of
  all requests made so far, so it may answer differently each time, and may raise. This holds for the language models, the nodes,
  the notification service, the web tools, the settings library, the membership of a household, the zone data base, the cron library, the
  date-key service and the hash. Where a property needs something of a service it is a named hypothesis with a witness (for instance
  \<open>reads_back\<close> of \<open>Leave_Facts\<close>). Prompts keep their variable parts and name the fixed text.

  \<^bold>\<open>Interfaces.\<close> \<open>workflow_store\<close> (\<^verbatim>\<open>Workflow_Runs\<close>) is what the engine needs of its store of runs, interpreted on the workflows
  table; \<open>callback_table\<close> the table of handlers; \<open>keyed_store\<close> (\<^verbatim>\<open>Cache_Facts\<close>) the rows of the cache; \<open>undisturbed\<close> and \<open>unwritten\<close>
  (\<^verbatim>\<open>Loop_Law\<close>) say what every step of a turn leaves alone, and are interpreted on the tool loop. The properties use the facts of these interpretations.

  \<^bold>\<open>Bounds and fuel.\<close> The JSON reader has fuel twice the length of its text and one more, which no value printed by the
  writer exhausts (\<open>json_roundtrip\<close>); the regular expression matcher bounds each repetition by the length of the rest, because an
  iteration that consumes nothing ends it. The reading of a reply calls itself and is a partial function; \<open>parse_response_returns\<close>
  shows that it returns after at most one such call. The tool loop has the iterations it is given; a node's job is polled fifty
  times, every half second for twenty-five seconds, as in the code. Integers of the program are unbounded and so are those of the model.

  \<^bold>\<open>Conventions.\<close> A float is a value with its printed text and, where it is computed with, an exact rational; characters have codes below 256, so
  pictographs and long dashes of messages are left out or replaced by a hyphen; the clock does not move within a
  handler; ids are drawn from a counter; commits of the data base succeed; \<open>datetime.fromisoformat\<close> reads the shapes that
  \<open>isoformat\<close> prints; a report of a node has the wire form of the SDK; the JSON reader knows no NaN and no Infinity, so a text with one is not
  read; the size and the statistics of the conversation cache are left out.

  \<^bold>\<open>Not modelled.\<close> The conversation handler, the assembly of the application and the endpoints that relay to other services
  (smart home, cameras, media, package installation, node management) wire asynchronous streams and services together and keep no state of their own
  that a kernel could check against a contract. Memories, transcripts and characterizations are storage around embeddings and
  texts of a model; adapters, training and evaluation are batch jobs; prompt providers are texts. Logging, metrics and traces are left out
  everywhere. Within the modelled parts: the aliasing of message lists and the in-place removal of markers from tool schemas, the
  debounce before a matcher pass, the XML dialects of single providers, and arguments of a call given as a list of pairs.
\<close>

end
